(* ===== verification/Prelude.thy ===== *)
theory Prelude
  imports Main "HOL-Library.Word" "HOL-Library.Monad_Syntax" "HOL-Library.Signed_Division"
begin

text \<open>
  Shared vocabulary of the driver models: the C integer types as words, the kernel's
  error numbers, array reads that are undefined out of range, kernel mutexes, and the
  bit-field lemmas every register model uses.

  Conventions. A C function that can run into undefined behaviour (an array read out of
  bounds, a read of an uninitialised variable, a kernel BUG, a second lock of a held
  mutex) returns an \<^typ>\<open>'a option\<close>, and None stands for that. Mutable state is passed
  and returned explicitly. Kernel and firmware calls that are not part of the
  repository are parameters of the definitions.
\<close>

unbundle bit_operations_syntax

type_synonym u8 = "8 word"
type_synonym u16 = "16 word"
type_synonym u32 = "32 word"

named_theorems cdefs \<open>definitions of the C functions that are unfolded together\<close>
named_theorems bitfield \<open>reading back fields of an updated register\<close>

subsection \<open>Error numbers\<close>

abbreviation (input) EIO :: int where "EIO \<equiv> 5"
abbreviation (input) ENOMEM :: int where "ENOMEM \<equiv> 12"
abbreviation (input) EBUSY :: int where "EBUSY \<equiv> 16"
abbreviation (input) ENODEV :: int where "ENODEV \<equiv> 19"
abbreviation (input) EINVAL :: int where "EINVAL \<equiv> 22"

subsection \<open>Arrays\<close>

text \<open>A C array read: None when the index is outside the array.\<close>

definition aref :: "'a list \<Rightarrow> int \<Rightarrow> 'a option" where
  "aref xs i = (if 0 \<le> i \<and> i < int (length xs) then Some (xs ! nat i) else None)"

lemma aref_in [simp]: "0 \<le> i \<Longrightarrow> i < int (length xs) \<Longrightarrow> aref xs i = Some (xs ! nat i)"
  by (simp add: aref_def)

lemma aref_out: "int (length xs) \<le> i \<Longrightarrow> aref xs i = None"
  by (simp add: aref_def)

lemma aref_neg: "i < 0 \<Longrightarrow> aref xs i = None"
  by (simp add: aref_def)

lemma aref_nat [simp]: "n < length xs \<Longrightarrow> aref xs (int n) = Some (xs ! n)"
  by (simp add: aref_def)

lemma aref_SomeD: "aref xs i = Some x \<Longrightarrow> 0 \<le> i \<and> i < int (length xs) \<and> x = xs ! nat i"
  by (auto simp: aref_def split: if_splits)

lemma aref_eq_None: "aref xs i = None \<longleftrightarrow> i < 0 \<or> int (length xs) \<le> i"
  by (auto simp: aref_def)

lemma sorted_nth_bounds:
  assumes "sorted xs" "k < length (xs :: 'a::linorder list)"
  shows "hd xs \<le> xs ! k" and "xs ! k \<le> last xs"
proof -
  have ne: "xs \<noteq> []" using assms(2) by auto
  show "hd xs \<le> xs ! k"
    using sorted_nth_mono [OF assms(1) _ assms(2), of 0] by (simp add: hd_conv_nth [OF ne])
  show "xs ! k \<le> last xs"
    using sorted_nth_mono [OF assms(1), of k "length xs - 1"] assms(2) by (simp add: last_conv_nth [OF ne])
qed

text \<open>C division on non-negative numbers is the floor division.\<close>

lemma sdiv_nonneg: "0 \<le> a \<Longrightarrow> 0 \<le> b \<Longrightarrow> (a :: int) sdiv b = a div b"
  by (auto simp: signed_divide_int_def sgn_if)

lemma mult_sdiv: "0 \<le> (a :: int) \<Longrightarrow> (1000 * a) sdiv 1000 = a"
  by (simp add: sdiv_nonneg)

subsection \<open>Mutexes\<close>

text \<open>
  A mutex is the flag that says whether it is held. Locking a held mutex never returns:
  None.
\<close>

definition mutex_lock :: "bool \<Rightarrow> bool option" where
  "mutex_lock held = (if held then None else Some True)"

lemma mutex_lock_free [simp]: "mutex_lock False = Some True"
  by (simp add: mutex_lock_def)

lemma mutex_lock_held [simp]: "mutex_lock True = None"
  by (simp add: mutex_lock_def)

subsection \<open>Bit fields\<close>

text \<open>
  The read-modify-write step all register helpers share, on any word width:
  the bits of the mask are cleared, then the value is or-ed in.
\<close>

definition put_field :: "'n::len word \<Rightarrow> 'n word \<Rightarrow> 'n word \<Rightarrow> 'n word" where
  "put_field w m v = (w AND NOT m) OR v"

definition fits :: "'n::len word \<Rightarrow> 'n word \<Rightarrow> bool" where
  "fits m v \<longleftrightarrow> v AND NOT m = 0"

lemma fits_bitD: "fits m v \<Longrightarrow> bit v n \<Longrightarrow> bit m n"
proof -
  assume "fits m v" and v: "bit v n"
  then have "\<not> bit (v AND NOT m) n" by (simp add: fits_def)
  moreover have "n < LENGTH('a)" using v by (rule bit_imp_le_length)
  ultimately show "bit m n" using v by (simp add: bit_simps)
qed

lemma fitsI: "(\<And>n. n < LENGTH('a) \<Longrightarrow> bit v n \<Longrightarrow> bit m n) \<Longrightarrow> fits m (v :: 'a::len word)"
  unfolding fits_def by (rule bit_word_eqI) (auto simp: bit_simps)

lemma fits_zero [simp]: "fits m 0"
  by (simp add: fits_def)

lemma fits_self [simp]: "fits m m"
  by (simp add: fits_def)

lemma bit_put_field [bitfield]:
  "fits m v \<Longrightarrow> n < LENGTH('a) \<Longrightarrow>
   bit (put_field w m (v :: 'a::len word)) n = (if bit m n then bit v n else bit w n)"
  by (auto simp: put_field_def bit_simps dest: fits_bitD)

lemma put_field_masked [bitfield]: "fits m v \<Longrightarrow> put_field w m v AND m = (v :: 'a::len word)"
  by (rule bit_word_eqI) (auto simp: bit_put_field bit_simps dest: fits_bitD)

lemma put_field_outside [bitfield]:
  "fits m v \<Longrightarrow> k AND m = 0 \<Longrightarrow> put_field w m v AND k = w AND (k :: 'a::len word)"
proof (rule bit_word_eqI)
  fix n assume m: "fits m v" and k: "k AND m = 0" and n: "n < LENGTH('a)"
  have "\<not> bit (k AND m) n" using k by simp
  then have "bit k n \<Longrightarrow> \<not> bit m n" using n by (simp add: bit_simps)
  then show "bit (put_field w m v AND k) n = bit (w AND k) n"
    using m n by (auto simp: bit_put_field bit_simps)
qed

lemma put_field_idem: "fits m v \<Longrightarrow> put_field (put_field w m v) m v = put_field w m (v :: 'a::len word)"
  by (rule bit_word_eqI) (auto simp: bit_put_field)

lemma put_field_same:
  "fits m v \<Longrightarrow> w AND m = v \<Longrightarrow> put_field w m v = (w :: 'a::len word)"
proof (rule bit_word_eqI)
  fix n assume m: "fits m v" and w: "w AND m = v" and n: "n < LENGTH('a)"
  have "bit v n = (bit w n \<and> bit m n)" using w n by (auto simp: bit_simps)
  then show "bit (put_field w m v) n = bit w n" using m n by (auto simp: bit_put_field)
qed

text \<open>A shifted one, the form \<^verbatim>\<open>1 << n\<close> of the source (the simplifier writes it as a power of two).\<close>

abbreviation (input) BIT :: "nat \<Rightarrow> 'a::len word" where "BIT n \<equiv> push_bit n 1"

lemma and_single_bit [simp]: "(w :: 'a::len word) AND 2 ^ n = 0 \<longleftrightarrow> \<not> bit w n"
  by (simp add: and_exp_eq_0_iff_not_bit)

lemma bit_single [simp]: "bit (2 ^ n :: 'a::len word) k \<longleftrightarrow> k = n \<and> n < LENGTH('a)"
  by (auto simp: bit_simps)

text \<open>The low byte of a word.\<close>

lemma bit_byte: "bit (0xff :: u32) n \<longleftrightarrow> n < 8" "bit (0xff :: int) n \<longleftrightarrow> n < 8"
proof -
  have w: "(0xff :: u32) = mask 8" and i: "(0xff :: int) = mask 8" by (simp_all add: mask_eq_exp_minus_1)
  have "bit (mask 8 :: u32) n \<longleftrightarrow> n < 8" "bit (mask 8 :: int) n \<longleftrightarrow> n < 8" by (auto simp: bit_mask_iff)
  then show "bit (0xff :: u32) n \<longleftrightarrow> n < 8" "bit (0xff :: int) n \<longleftrightarrow> n < 8" by (simp_all only: w i)
qed

end
