(* ===== verification/Reg_Bus.thy ===== *)
theory Reg_Bus
  imports Prelude
begin

text \<open>
  The register interfaces the drivers talk through. Two of them are kernel services, so
  they are parameters: the I2C core's \<^verbatim>\<open>i2c_transfer\<close> (a function of the bus state and
  the messages) and the regmap core (\<^verbatim>\<open>regmap_read\<close>, \<^verbatim>\<open>regmap_write\<close>,
  \<^verbatim>\<open>regmap_update_bits\<close>, a record of functions). What a driver relies on is a locale for
  each; both give the common contract \<open>bit_regs\<close>: registers whose fields are read back as
  they were written, other fields and other registers untouched.
\<close>

subsection \<open>The contract: registers with independent fields\<close>

locale bit_regs =
  fixes get :: "'s \<Rightarrow> 'r \<Rightarrow> 'v::len word"
    and upd :: "'s \<Rightarrow> 'r \<Rightarrow> 'v word \<Rightarrow> 'v word \<Rightarrow> 's"
    and inv :: "'s \<Rightarrow> bool"
    and plain :: "'r \<Rightarrow> bool"
  assumes upd_inv: "inv s \<Longrightarrow> inv (upd s r m v)"
    and upd_same: "inv s \<Longrightarrow> plain r \<Longrightarrow> fits m v \<Longrightarrow> get (upd s r m v) r = put_field (get s r) m v"
    and upd_other: "inv s \<Longrightarrow> plain r \<Longrightarrow> r' \<noteq> r \<Longrightarrow> get (upd s r m v) r' = get s r'"
begin

lemma get_upd: "inv s \<Longrightarrow> plain r \<Longrightarrow> fits m v \<Longrightarrow>
    get (upd s r m v) r' = (if r' = r then put_field (get s r) m v else get s r')"
  by (simp add: upd_same upd_other)

lemma field_read_back: "inv s \<Longrightarrow> plain r \<Longrightarrow> fits m v \<Longrightarrow> get (upd s r m v) r AND m = v"
  by (simp add: upd_same put_field_masked)

lemma field_frame:
  "inv s \<Longrightarrow> plain r \<Longrightarrow> fits m v \<Longrightarrow> r' \<noteq> r \<or> k AND m = 0 \<Longrightarrow>
   get (upd s r m v) r' AND k = get s r' AND k"
  by (auto simp: get_upd put_field_outside)

lemma bit_upd: "inv s \<Longrightarrow> plain r \<Longrightarrow> fits m v \<Longrightarrow> n < LENGTH('v) \<Longrightarrow>
    bit (get (upd s r m v) r') n = (if r' = r \<and> bit m n then bit v n else bit (get s r') n)"
  by (simp add: get_upd bit_put_field)

lemma upd_twice: "inv s \<Longrightarrow> plain r \<Longrightarrow> fits m v \<Longrightarrow>
    get (upd (upd s r m v) r m v) r' = get (upd s r m v) r'"
  by (simp add: get_upd upd_inv put_field_idem)

end

subsection \<open>I2C transfers\<close>

text \<open>
  The kernel's \<^verbatim>\<open>struct i2c_msg\<close>. A read message carries the number of bytes asked for;
  the received bytes are the second result of a transfer (empty when nothing arrived).
\<close>

record i2c_msg =
  m_addr :: u16
  m_read :: bool
  m_buf :: "u8 list"
  m_len :: nat
  m_scl_rate :: nat

type_synonym 'd i2c_xfer = "'d \<Rightarrow> i2c_msg list \<Rightarrow> int \<times> u8 list \<times> 'd"

text \<open>
  A chip with byte registers behind an I2C address: a write message of a register number,
  then a read message of one byte returns the register; a write message of a register
  number and a byte stores it, for the \<open>plain\<close> registers (status registers are not).
  The contract does not depend on the bus clock of the messages.
\<close>

locale i2c_regfile =
  fixes xfer :: "'d i2c_xfer"
    and a :: u16
    and reg :: "'d \<Rightarrow> u8 \<Rightarrow> u8"
    and plain :: "u8 \<Rightarrow> bool"
  assumes xfer_read: "xfer d [\<lparr>m_addr = a, m_read = False, m_buf = [r], m_len = 1, m_scl_rate = w\<rparr>,
        \<lparr>m_addr = a, m_read = True, m_buf = [], m_len = 1, m_scl_rate = w'\<rparr>] = (2, [reg d r], d)"
    and xfer_write: "plain r \<Longrightarrow>
      \<exists>d'. xfer d [\<lparr>m_addr = a, m_read = False, m_buf = [r, v], m_len = 2, m_scl_rate = w\<rparr>] = (1, [], d') \<and>
           reg d' = (reg d)(r := v)"

text \<open>A concrete chip that meets the contract: a function from register numbers to bytes.\<close>

definition mem_xfer :: "u16 \<Rightarrow> (u8 \<Rightarrow> u8) i2c_xfer" where
  "mem_xfer a d ms = (case ms of
     [m] \<Rightarrow> (if m_addr m \<noteq> a \<or> m_read m then (- EIO, [], d)
             else case m_buf m of [r, v] \<Rightarrow> (1, [], d(r := v)) | _ \<Rightarrow> (- EIO, [], d))
   | [m1, m2] \<Rightarrow> (if m_addr m1 \<noteq> a \<or> m_addr m2 \<noteq> a \<or> m_read m1 \<or> \<not> m_read m2 then (- EIO, [], d)
             else case m_buf m1 of [r] \<Rightarrow> (2, [d r], d) | _ \<Rightarrow> (- EIO, [], d))
   | _ \<Rightarrow> (- EIO, [], d))"

interpretation mem: i2c_regfile "mem_xfer a" a "\<lambda>d. d" plain for a plain
  by unfold_locales (simp_all add: mem_xfer_def)

subsection \<open>The regmap core\<close>

text \<open>
  Return code, the value stored through the pointer argument (None when the core stored
  none, so that the caller's variable keeps what it had), and the bus state.
\<close>

record 'd regmap_ops =
  rm_read :: "'d \<Rightarrow> u32 \<Rightarrow> int \<times> u32 option \<times> 'd"
  rm_write :: "'d \<Rightarrow> u32 \<Rightarrow> u32 \<Rightarrow> int \<times> 'd"
  rm_update_bits :: "'d \<Rightarrow> u32 \<Rightarrow> u32 \<Rightarrow> u32 \<Rightarrow> int \<times> 'd"

locale regmap_dev =
  fixes rm :: "'d regmap_ops"
    and reg :: "'d \<Rightarrow> u32 \<Rightarrow> u32"
    and plain :: "u32 \<Rightarrow> bool"
  assumes rm_read: "plain r \<Longrightarrow> rm_read rm d r = (0, Some (reg d r), d)"
    and rm_write: "plain r \<Longrightarrow> \<exists>d'. rm_write rm d r v = (0, d') \<and> reg d' = (reg d)(r := v)"
    and rm_update: "plain r \<Longrightarrow>
      \<exists>d'. rm_update_bits rm d r m v = (0, d') \<and> reg d' = (reg d)(r := put_field (reg d r) m (v AND m))"
begin

lemma fits_and: "fits m (v AND m)"
  by (rule fitsI) (simp add: bit_simps)

lemma fits_and_id: "fits m v \<Longrightarrow> v AND m = v"
  by (rule bit_word_eqI) (auto simp: bit_simps dest: fits_bitD)

lemma rm_update_fits: "plain r \<Longrightarrow> fits m v \<Longrightarrow>
    \<exists>d'. rm_update_bits rm d r m v = (0, d') \<and> reg d' = (reg d)(r := put_field (reg d r) m v)"
  using rm_update [of r d m v] by (simp add: fits_and_id)

lemma rm_update_ret [simp]: "plain r \<Longrightarrow> fst (rm_update_bits rm d r m v) = 0"
  using rm_update [of r d m v] by auto

lemma rm_update_reg: "plain r \<Longrightarrow> fits m v \<Longrightarrow>
    reg (snd (rm_update_bits rm d r m v)) = (reg d)(r := put_field (reg d r) m v)"
  using rm_update_fits [of r m v d] by auto

end

sublocale regmap_dev \<subseteq> bits: bit_regs reg "\<lambda>d r m v. snd (rm_update_bits rm d r m v)" "\<lambda>_. True" plain
  by unfold_locales
    (use rm_update in \<open>auto simp: rm_update_reg split: prod.splits\<close>, metis fun_upd_other rm_update snd_conv)

text \<open>A concrete register map: memory.\<close>

definition mem_regmap :: "(u32 \<Rightarrow> u32) regmap_ops" where
  "mem_regmap = \<lparr>rm_read = (\<lambda>d r. (0, Some (d r), d)), rm_write = (\<lambda>d r v. (0, d(r := v))),
     rm_update_bits = (\<lambda>d r m v. (0, d(r := put_field (d r) m (v AND m))))\<rparr>"

interpretation mem_rm: regmap_dev mem_regmap "\<lambda>d. d" plain for plain
  by unfold_locales (simp_all add: mem_regmap_def)

end
