(* ===== verification/Rk818_Io.thy ===== *)
theory Rk818_Io
  imports Reg_Bus
begin

text \<open>
  Register access of the RK818 power-management driver
  (\<^verbatim>\<open>rk3288/debug/regulator/rk818.c\<close>): the chip structure, the I2C read and write
  helpers, and the locked register operations built on them. The I2C core's transfer
  function is the parameter \<open>xfer\<close>.
\<close>

text \<open>
  The fields of \<^verbatim>\<open>struct rk818_chip\<close> the code uses. \<open>rk_client\<close> is the client's I2C address,
  None for a NULL client; \<open>rk_bus\<close> is the adapter with the chip behind it; the two locks are
  the flags of the mutexes, \<open>rk_irq_wake\<close> that of the wake lock.
\<close>

record 'd rk818_chip =
  rk_client :: "u16 option"
  rk_bus :: 'd
  rk_io_lock :: bool
  rk_irq_lock :: bool
  rk_irq_num :: nat
  rk_chip_irq :: int
  rk_irq_gpio :: int
  rk_irq_mask :: u32
  rk_irq_domain :: bool
  rk_irq_wake :: bool

abbreviation (input) RK818_I2C_ADDR_RATE :: nat where "RK818_I2C_ADDR_RATE \<equiv> 200 * 1000"

text \<open>
  The byte arrives through \<^verbatim>\<open>*dest\<close>: None when the transfer delivered none. The result of
  the transfer itself is dropped, as in the source. With a NULL client the function returns
  an uninitialised variable.
\<close>

definition rk818_i2c_read ::
  "'d i2c_xfer \<Rightarrow> 'd rk818_chip \<Rightarrow> u8 \<Rightarrow> nat \<Rightarrow> (int \<times> u8 option \<times> 'd rk818_chip) option" where
  "rk818_i2c_read xfer chip reg count =
     (case rk_client chip of
        None \<Rightarrow> None
      | Some addr \<Rightarrow>
          if count \<noteq> 1 then Some (- EIO, None, chip)
          else (let (ret, rx, d) = xfer (rk_bus chip)
                  [\<lparr>m_addr = addr, m_read = False, m_buf = [reg], m_len = 1, m_scl_rate = 200 * 1000\<rparr>,
                   \<lparr>m_addr = addr, m_read = True, m_buf = [], m_len = count, m_scl_rate = RK818_I2C_ADDR_RATE\<rparr>]
                in Some (0, (case rx of [] \<Rightarrow> None | b # _ \<Rightarrow> Some b), chip\<lparr>rk_bus := d\<rparr>)))"

definition rk818_i2c_write ::
  "'d i2c_xfer \<Rightarrow> 'd rk818_chip \<Rightarrow> u8 \<Rightarrow> nat \<Rightarrow> u8 \<Rightarrow> int \<times> 'd rk818_chip" where
  "rk818_i2c_write xfer chip reg count src =
     (case rk_client chip of
        None \<Rightarrow> (- 1, chip)
      | Some addr \<Rightarrow>
          if count \<noteq> 1 then (- EIO, chip)
          else (let (ret, rx, d) = xfer (rk_bus chip)
                  [\<lparr>m_addr = addr, m_read = False, m_buf = [reg, src], m_len = 2,
                    m_scl_rate = RK818_I2C_ADDR_RATE\<rparr>]
                in (ret, chip\<lparr>rk_bus := d\<rparr>)))"

definition rk818_reg_read :: "'d i2c_xfer \<Rightarrow> 'd rk818_chip \<Rightarrow> u8 \<Rightarrow> (u8 \<times> 'd rk818_chip) option" where
  "rk818_reg_read xfer chip reg =
     do { l \<leftarrow> mutex_lock (rk_io_lock chip);
          (ret, b, chip1) \<leftarrow> rk818_i2c_read xfer (chip\<lparr>rk_io_lock := l\<rparr>) reg 1;
          Some ((case b of None \<Rightarrow> 0 | Some x \<Rightarrow> x) AND 0xff, chip1\<lparr>rk_io_lock := False\<rparr>) }"

definition rk818_reg_write :: "'d i2c_xfer \<Rightarrow> 'd rk818_chip \<Rightarrow> u8 \<Rightarrow> u8 \<Rightarrow> (int \<times> 'd rk818_chip) option" where
  "rk818_reg_write xfer chip reg val =
     do { l \<leftarrow> mutex_lock (rk_io_lock chip);
          (let (err, chip1) = rk818_i2c_write xfer (chip\<lparr>rk_io_lock := l\<rparr>) reg 1 val
           in Some (err, chip1\<lparr>rk_io_lock := False\<rparr>)) }"

text \<open>The value is or-ed in unmasked, and the function returns 0 whatever the transfers returned.\<close>

definition rk818_set_bits ::
  "'d i2c_xfer \<Rightarrow> 'd rk818_chip \<Rightarrow> u8 \<Rightarrow> u8 \<Rightarrow> u8 \<Rightarrow> (int \<times> 'd rk818_chip) option" where
  "rk818_set_bits xfer chip reg msk val =
     do { l \<leftarrow> mutex_lock (rk_io_lock chip);
          (ret, b, chip1) \<leftarrow> rk818_i2c_read xfer (chip\<lparr>rk_io_lock := l\<rparr>) reg 1;
          tmp \<leftarrow> b;
          (let tmp = put_field tmp msk val;
               chip2 = (if ret = 0 then snd (rk818_i2c_write xfer chip1 reg 1 tmp) else chip1)
           in do { (ret, b, chip3) \<leftarrow> rk818_i2c_read xfer chip2 reg 1;
                   Some (0, chip3\<lparr>rk_io_lock := False\<rparr>) }) }"

definition rk818_clear_bits ::
  "'d i2c_xfer \<Rightarrow> 'd rk818_chip \<Rightarrow> u8 \<Rightarrow> u8 \<Rightarrow> (int \<times> 'd rk818_chip) option" where
  "rk818_clear_bits xfer chip reg msk =
     do { l \<leftarrow> mutex_lock (rk_io_lock chip);
          (err, b, chip1) \<leftarrow> rk818_i2c_read xfer (chip\<lparr>rk_io_lock := l\<rparr>) reg 1;
          (if err < 0 then Some (err, chip1\<lparr>rk_io_lock := False\<rparr>)
           else do { data \<leftarrow> b;
                     (let (err, chip2) = rk818_i2c_write xfer chip1 reg 1 (data AND NOT msk)
                      in Some (err, chip2\<lparr>rk_io_lock := False\<rparr>)) }) }"

subsection \<open>The register operations on a chip that answers\<close>

text \<open>Between calls the client is bound to address \<open>a\<close> and the I/O lock is free.\<close>

definition rk818_ready :: "u16 \<Rightarrow> 'd rk818_chip \<Rightarrow> bool" where
  "rk818_ready a chip \<longleftrightarrow> rk_client chip = Some a \<and> \<not> rk_io_lock chip"

lemma rk818_ready_bus [simp]: "rk818_ready a (chip\<lparr>rk_bus := d\<rparr>) = rk818_ready a chip"
  by (simp add: rk818_ready_def)

lemma and_ff [simp]: "(x :: u8) AND 0xff = x"
  by (rule bit_word_eqI) (auto simp: bit_simps less_Suc_eq numeral_eq_Suc)

lemma unlock_id: "\<not> rk_io_lock chip \<Longrightarrow> chip\<lparr>rk_io_lock := False\<rparr> = chip"
  by (cases chip) simp

context i2c_regfile
begin

lemma i2c_read_ok: "rk_client chip = Some a \<Longrightarrow>
    rk818_i2c_read xfer chip r 1 = Some (0, Some (reg (rk_bus chip) r), chip)"
  by (simp add: rk818_i2c_read_def xfer_read del: One_nat_def)

lemma i2c_write_ok: "rk_client chip = Some a \<Longrightarrow> plain r \<Longrightarrow>
    \<exists>d'. rk818_i2c_write xfer chip r 1 v = (1, chip\<lparr>rk_bus := d'\<rparr>) \<and> reg d' = (reg (rk_bus chip))(r := v)"
  using xfer_write [of r "rk_bus chip" v RK818_I2C_ADDR_RATE]
  by (auto simp: rk818_i2c_write_def simp del: One_nat_def split: prod.splits)

lemma reg_read_ok: "rk818_ready a chip \<Longrightarrow>
    rk818_reg_read xfer chip r = Some (reg (rk_bus chip) r, chip)"
  by (simp add: rk818_reg_read_def rk818_ready_def i2c_read_ok unlock_id del: One_nat_def)

lemma reg_write_ok:
  assumes "rk818_ready a chip" "plain r"
  shows "\<exists>d'. rk818_reg_write xfer chip r v = Some (1, chip\<lparr>rk_bus := d'\<rparr>) \<and>
    reg d' = (reg (rk_bus chip))(r := v)"
proof -
  from assms(1) have c: "rk_client (chip\<lparr>rk_io_lock := True\<rparr>) = Some a" and l: "\<not> rk_io_lock chip"
    by (simp_all add: rk818_ready_def)
  obtain d' where "rk818_i2c_write xfer (chip\<lparr>rk_io_lock := True\<rparr>) r 1 v =
      (1, chip\<lparr>rk_io_lock := True\<rparr>\<lparr>rk_bus := d'\<rparr>)" "reg d' = (reg (rk_bus chip))(r := v)"
    using i2c_write_ok [OF c assms(2), of v] by auto
  then show ?thesis using l by (cases chip) (simp add: rk818_reg_write_def del: One_nat_def)
qed

lemma set_bits_ok:
  assumes "rk818_ready a chip" "plain r"
  shows "\<exists>d'. rk818_set_bits xfer chip r m v = Some (0, chip\<lparr>rk_bus := d'\<rparr>) \<and>
    reg d' = (reg (rk_bus chip))(r := put_field (reg (rk_bus chip) r) m v)"
proof -
  let ?c = "chip\<lparr>rk_io_lock := True\<rparr>" and ?w = "put_field (reg (rk_bus chip) r) m v"
  from assms(1) have c: "rk_client ?c = Some a" and l: "\<not> rk_io_lock chip"
    by (simp_all add: rk818_ready_def)
  obtain d' where d': "rk818_i2c_write xfer ?c r 1 ?w = (1, ?c\<lparr>rk_bus := d'\<rparr>)"
    "reg d' = (reg (rk_bus chip))(r := ?w)"
    using i2c_write_ok [OF c assms(2), of ?w] by auto
  have c2: "rk_client (?c\<lparr>rk_bus := d'\<rparr>) = Some a" using c by simp
  show ?thesis
    using l d' i2c_read_ok [OF c, of r] i2c_read_ok [OF c2, of r]
    by (intro exI [of _ d']) (cases chip, simp add: rk818_set_bits_def del: One_nat_def)
qed

lemma clear_bits_ok:
  assumes "rk818_ready a chip" "plain r"
  shows "\<exists>d'. rk818_clear_bits xfer chip r m = Some (1, chip\<lparr>rk_bus := d'\<rparr>) \<and>
    reg d' = (reg (rk_bus chip))(r := put_field (reg (rk_bus chip) r) m 0)"
proof -
  let ?c = "chip\<lparr>rk_io_lock := True\<rparr>" and ?w = "put_field (reg (rk_bus chip) r) m 0"
  from assms(1) have c: "rk_client ?c = Some a" and l: "\<not> rk_io_lock chip"
    by (simp_all add: rk818_ready_def)
  obtain d' where d': "rk818_i2c_write xfer ?c r 1 ?w = (1, ?c\<lparr>rk_bus := d'\<rparr>)"
    "reg d' = (reg (rk_bus chip))(r := ?w)"
    using i2c_write_ok [OF c assms(2), of ?w] by auto
  show ?thesis
    using l d' i2c_read_ok [OF c, of r]
    by (intro exI [of _ d']) (cases chip, simp add: rk818_clear_bits_def put_field_def del: One_nat_def)
qed

end

text \<open>So the driver's register helpers are a register bank with independent fields.\<close>

sublocale i2c_regfile \<subseteq> rk818: bit_regs "\<lambda>chip. reg (rk_bus chip)"
  "\<lambda>chip r m v. if plain r then snd (the (rk818_set_bits xfer chip r m v)) else chip" "rk818_ready a" plain
proof unfold_locales
  fix s :: "'d rk818_chip" and r m v assume "rk818_ready a s"
  then show "rk818_ready a (if plain r then snd (the (rk818_set_bits xfer s r m v)) else s)"
    using set_bits_ok [of s r m v] by auto
next
  fix s :: "'d rk818_chip" and r m v assume "rk818_ready a s" "plain r"
  then show "reg (rk_bus (if plain r then snd (the (rk818_set_bits xfer s r m v)) else s)) r =
      put_field (reg (rk_bus s) r) m v"
    using set_bits_ok [of s r m v] by auto
next
  fix s :: "'d rk818_chip" and r r' m v assume "rk818_ready a s" "plain r" "r' \<noteq> r"
  then show "reg (rk_bus (if plain r then snd (the (rk818_set_bits xfer s r m v)) else s)) r' =
      reg (rk_bus s) r'"
    using set_bits_ok [of s r m v] by auto
qed

end
