(* ===== verification/Regulator_Core.thy ===== *)
theory Regulator_Core
  imports Reg_Bus
begin

text \<open>
  What the regulator core asks of a driver's \<^verbatim>\<open>struct regulator_ops\<close>, shared by the RK818
  and ACT8846 drivers: a switch contract (enable / disable / is_enabled) and a voltage
  contract (set_voltage / get_voltage over an ascending table), each with its client
  lemmas proved once; the table scan both drivers write out; the mode constants.
\<close>

subsection \<open>The table scan\<close>

text \<open>
  \<^verbatim>\<open>for (val = 0; val <= num; val++) if (vol_map[val] >= min_vol) break;\<close> : the index of
  the first entry that is at least the request, the length of the table if there is none.
\<close>

fun vol_scan :: "int list \<Rightarrow> int \<Rightarrow> nat" where
  "vol_scan [] m = 0"
| "vol_scan (v # vs) m = (if v \<ge> m then 0 else Suc (vol_scan vs m))"

lemma vol_scan_le: "vol_scan vs m \<le> length vs"
  by (induction vs) auto

lemma vol_scan_before: "j < vol_scan vs m \<Longrightarrow> vs ! j < m"
proof (induction vs arbitrary: j)
  case Nil
  then show ?case by simp
next
  case (Cons v vs)
  then show ?case by (cases j) (auto split: if_splits)
qed

lemma vol_scan_hit: "vol_scan vs m < length vs \<Longrightarrow> m \<le> vs ! vol_scan vs m"
  by (induction vs) auto

lemma vol_scan_found: "vs \<noteq> [] \<Longrightarrow> m \<le> last vs \<Longrightarrow> vol_scan vs m < length vs"
  by (induction vs) (auto split: if_splits)

lemma vol_scan_least: "sorted vs \<Longrightarrow> v \<in> set vs \<Longrightarrow> m \<le> v \<Longrightarrow> vs ! vol_scan vs m \<le> v"
proof (induction vs)
  case Nil
  then show ?case by simp
next
  case (Cons w vs)
  then show ?case by auto
qed

lemma vol_scan_member: "sorted vs \<Longrightarrow> distinct vs \<Longrightarrow> i < length vs \<Longrightarrow> vol_scan vs (vs ! i) = i"
proof (induction vs arbitrary: i)
  case Nil
  then show ?case by simp
next
  case (Cons v vs)
  show ?case
  proof (cases i)
    case 0
    then show ?thesis by simp
  next
    case (Suc k)
    with Cons.prems have "k < length vs" by simp
    then have "vs ! k \<in> set vs" by (rule nth_mem)
    with Cons.prems have "v < vs ! k" by (auto simp: less_le)
    with Cons Suc show ?thesis by simp
  qed
qed

subsection \<open>Switches\<close>

locale regulator_switch =
  fixes inv :: "'s \<Rightarrow> bool"
    and ids :: "int set"
    and on :: "'s \<Rightarrow> int \<Rightarrow> bool"
    and enable :: "'s \<Rightarrow> int \<Rightarrow> (int \<times> 's) option"
    and disable :: "'s \<Rightarrow> int \<Rightarrow> (int \<times> 's) option"
    and is_enabled :: "'s \<Rightarrow> int \<Rightarrow> (int \<times> 's) option"
  assumes enable_ok: "inv s \<Longrightarrow> i \<in> ids \<Longrightarrow>
      \<exists>s'. enable s i = Some (0, s') \<and> inv s' \<and> (\<forall>j \<in> ids. on s' j \<longleftrightarrow> j = i \<or> on s j)"
    and disable_ok: "inv s \<Longrightarrow> i \<in> ids \<Longrightarrow>
      \<exists>s'. disable s i = Some (0, s') \<and> inv s' \<and> (\<forall>j \<in> ids. on s' j \<longleftrightarrow> j \<noteq> i \<and> on s j)"
    and is_enabled_ok: "inv s \<Longrightarrow> i \<in> ids \<Longrightarrow> is_enabled s i = Some (if on s i then 1 else 0, s)"

text \<open>
  Consumers' requests, one after the other: \<open>(i, True)\<close> enables regulator \<open>i\<close>,
  \<open>(i, False)\<close> disables it; a failing request stops the run. The specification of what is
  on afterwards is an update of a predicate.
\<close>

fun switch_run ::
  "('s \<Rightarrow> int \<Rightarrow> (int \<times> 's) option) \<Rightarrow> ('s \<Rightarrow> int \<Rightarrow> (int \<times> 's) option) \<Rightarrow> 's \<Rightarrow> (int \<times> bool) list \<Rightarrow> 's option"
where
  "switch_run en dis s [] = Some s"
| "switch_run en dis s ((i, b) # qs) =
     do { (ret, s') \<leftarrow> (if b then en s i else dis s i);
          (if ret = 0 then switch_run en dis s' qs else None) }"

fun switch_spec :: "(int \<Rightarrow> bool) \<Rightarrow> (int \<times> bool) list \<Rightarrow> int \<Rightarrow> bool" where
  "switch_spec f [] = f"
| "switch_spec f ((i, b) # qs) = switch_spec (f(i := b)) qs"

lemma switch_spec_cong: "(\<forall>j \<in> A. f j = g j) \<Longrightarrow> j \<in> A \<Longrightarrow> switch_spec f qs j = switch_spec g qs j"
proof (induction qs arbitrary: f g)
  case Nil
  then show ?case by simp
next
  case (Cons q qs)
  obtain i b where q: "q = (i, b)" by (cases q)
  have "\<forall>j \<in> A. (f(i := b)) j = (g(i := b)) j" using Cons.prems(1) by simp
  from Cons.IH [OF this Cons.prems(2)] show ?case by (simp add: q del: fun_upd_apply)
qed

lemma switch_spec_append: "switch_spec f (ps @ qs) = switch_spec (switch_spec f ps) qs"
proof (induction ps arbitrary: f)
  case Nil
  then show ?case by simp
next
  case (Cons p ps)
  then show ?case by (cases p) (simp del: fun_upd_apply)
qed

lemma switch_spec_last: "switch_spec f (qs @ [(i, b)]) i = b"
  by (simp add: switch_spec_append)

context regulator_switch
begin

lemma request_ok: "inv s \<Longrightarrow> i \<in> ids \<Longrightarrow>
    \<exists>s'. (if b then enable s i else disable s i) = Some (0, s') \<and> inv s' \<and>
         (\<forall>j \<in> ids. on s' j = ((on s)(i := b)) j)"
  using enable_ok [of s i] disable_ok [of s i] by (cases b) auto

lemma run_refines: "inv s \<Longrightarrow> fst ` set qs \<subseteq> ids \<Longrightarrow>
    \<exists>s'. switch_run enable disable s qs = Some s' \<and> inv s' \<and>
         (\<forall>j \<in> ids. on s' j = switch_spec (on s) qs j)"
proof (induction qs arbitrary: s)
  case Nil
  then show ?case by simp
next
  case (Cons q qs)
  obtain i b where q: "q = (i, b)" by (cases q)
  with Cons.prems have i: "i \<in> ids" and qs: "fst ` set qs \<subseteq> ids" by auto
  obtain s1 where s1: "(if b then enable s i else disable s i) = Some (0, s1)" "inv s1"
    and on1: "\<forall>j \<in> ids. on s1 j = ((on s)(i := b)) j"
    using request_ok [OF Cons.prems(1) i] by blast
  obtain s2 where s2: "switch_run enable disable s1 qs = Some s2" "inv s2"
    and on2: "\<forall>j \<in> ids. on s2 j = switch_spec (on s1) qs j"
    using Cons.IH [OF s1(2) qs] by blast
  have "\<forall>j \<in> ids. on s2 j = switch_spec ((on s)(i := b)) qs j"
    using on2 switch_spec_cong [OF on1] by blast
  with s1 s2 show ?case by (simp add: q)
qed

lemma run_reports: "inv s \<Longrightarrow> fst ` set qs \<subseteq> ids \<Longrightarrow> i \<in> ids \<Longrightarrow>
    \<exists>s'. switch_run enable disable s qs = Some s' \<and> inv s' \<and>
         is_enabled s' i = Some (if switch_spec (on s) qs i then 1 else 0, s')"
  using run_refines [of s qs] is_enabled_ok by fastforce

end

subsection \<open>Voltages\<close>

text \<open>
  \<open>tab i\<close> is the ascending table of regulator \<open>i\<close> in millivolts, \<open>set\<close> takes the requested
  range in microvolts. The contract is stated for requests the table can serve within the
  range, and for those below or above the table.
\<close>

definition uV_served :: "int list \<Rightarrow> int \<Rightarrow> int \<Rightarrow> bool" where
  "uV_served tab lo hi \<longleftrightarrow> hd tab \<le> lo sdiv 1000 \<and> lo sdiv 1000 \<le> last tab \<and>
     tab ! vol_scan tab (lo sdiv 1000) \<le> hi sdiv 1000"

locale regulator_voltage =
  fixes inv :: "'s \<Rightarrow> bool"
    and ids :: "int set"
    and tab :: "int \<Rightarrow> int list"
    and set_v :: "'s \<Rightarrow> int \<Rightarrow> int \<Rightarrow> int \<Rightarrow> (int \<times> 's) option"
    and get_v :: "'s \<Rightarrow> int \<Rightarrow> (int \<times> 's) option"
  assumes tab_ok: "i \<in> ids \<Longrightarrow> tab i \<noteq> [] \<and> sorted (tab i) \<and> distinct (tab i) \<and> 0 < hd (tab i)"
    and set_ok: "inv s \<Longrightarrow> i \<in> ids \<Longrightarrow> uV_served (tab i) lo hi \<Longrightarrow>
      \<exists>s'. set_v s i lo hi = Some (0, s') \<and> inv s' \<and>
           get_v s' i = Some (1000 * tab i ! vol_scan (tab i) (lo sdiv 1000), s') \<and>
           (\<forall>j \<in> ids. j \<noteq> i \<longrightarrow> map_option fst (get_v s' j) = map_option fst (get_v s j))"
    and set_range: "inv s \<Longrightarrow> i \<in> ids \<Longrightarrow>
      lo sdiv 1000 < hd (tab i) \<or> last (tab i) < lo sdiv 1000 \<Longrightarrow> set_v s i lo hi = Some (- EINVAL, s)"
begin

lemma tab_nth_scan:
  assumes "i \<in> ids" "m \<le> last (tab i)"
  shows "m \<le> tab i ! vol_scan (tab i) m" and "vol_scan (tab i) m < length (tab i)"
  using assms tab_ok [of i] vol_scan_found [of "tab i" m] vol_scan_hit [of "tab i" m] by auto

lemma entry_pos:
  assumes "i \<in> ids" "k < length (tab i)"
  shows "0 < tab i ! k"
  using sorted_nth_bounds(1) [of "tab i" k] tab_ok [OF assms(1)] assms(2) by simp

lemma entry_div:
  assumes "i \<in> ids" "k < length (tab i)"
  shows "(1000 * tab i ! k) sdiv 1000 = tab i ! k"
  using entry_pos [OF assms] by (simp add: mult_sdiv)

lemma served_scan:
  assumes "i \<in> ids" "k < length (tab i)"
  shows "uV_served (tab i) (1000 * tab i ! k) (1000 * tab i ! k)"
  using tab_ok [OF assms(1)] sorted_nth_bounds [of "tab i" k] assms(2)
  by (simp add: uV_served_def entry_div [OF assms] vol_scan_member)

text \<open>Setting what was read back is a fixed point, and the served voltage is the least one that will do.\<close>

lemma served_index:
  assumes "i \<in> ids" "uV_served (tab i) lo hi"
  shows "vol_scan (tab i) (lo sdiv 1000) < length (tab i)"
    and "lo sdiv 1000 \<le> tab i ! vol_scan (tab i) (lo sdiv 1000)"
  using tab_nth_scan [OF assms(1)] assms(2) by (auto simp: uV_served_def)

lemma set_least:
  assumes "inv s" "i \<in> ids" "uV_served (tab i) lo hi"
  shows "\<exists>s' v. set_v s i lo hi = Some (0, s') \<and> inv s' \<and> get_v s' i = Some (1000 * v, s') \<and>
    v \<in> set (tab i) \<and> lo sdiv 1000 \<le> v \<and> v \<le> hi sdiv 1000 \<and>
    (\<forall>w \<in> set (tab i). lo sdiv 1000 \<le> w \<longrightarrow> v \<le> w)"
proof -
  let ?v = "tab i ! vol_scan (tab i) (lo sdiv 1000)"
  obtain s' where s': "set_v s i lo hi = Some (0, s')" "inv s'" "get_v s' i = Some (1000 * ?v, s')"
    using set_ok [OF assms] by blast
  have "\<forall>w \<in> set (tab i). lo sdiv 1000 \<le> w \<longrightarrow> ?v \<le> w"
    using tab_ok [OF assms(2)] vol_scan_least by blast
  moreover have "?v \<in> set (tab i)" using served_index [OF assms(2,3)] by simp
  moreover have "?v \<le> hi sdiv 1000" using assms(3) by (simp add: uV_served_def)
  ultimately show ?thesis using s' served_index(2) [OF assms(2,3)] by blast
qed

lemma set_get_fixpoint:
  assumes "inv s" "i \<in> ids" "uV_served (tab i) lo hi"
  shows "\<exists>s' s'' v. set_v s i lo hi = Some (0, s') \<and> get_v s' i = Some (v, s') \<and>
    set_v s' i v v = Some (0, s'') \<and> get_v s'' i = Some (v, s'')"
proof -
  let ?k = "vol_scan (tab i) (lo sdiv 1000)" and ?v = "1000 * tab i ! vol_scan (tab i) (lo sdiv 1000)"
  note k = served_index(1) [OF assms(2,3)]
  obtain s' where s': "set_v s i lo hi = Some (0, s')" "inv s'" "get_v s' i = Some (?v, s')"
    using set_ok [OF assms] by blast
  obtain s'' where s'': "set_v s' i ?v ?v = Some (0, s'')"
    "get_v s'' i = Some (1000 * tab i ! vol_scan (tab i) (?v sdiv 1000), s'')"
    using set_ok [OF s'(2) assms(2) served_scan [OF assms(2) k]] by blast
  have "vol_scan (tab i) (?v sdiv 1000) = ?k"
    using tab_ok [OF assms(2)] k by (simp add: entry_div [OF assms(2) k] vol_scan_member)
  with s' s'' show ?thesis by auto
qed

end

subsection \<open>Operating modes\<close>

text \<open>The modes of \<^verbatim>\<open>REGULATOR_MODE_*\<close> (kernel header); any other value is rejected by the drivers.\<close>

datatype reg_mode = MODE_FAST | MODE_NORMAL | MODE_IDLE | MODE_STANDBY

text \<open>The kernel's \<^verbatim>\<open>DIV_ROUND_UP\<close> on non-negative operands.\<close>

definition DIV_ROUND_UP :: "int \<Rightarrow> int \<Rightarrow> int" where
  "DIV_ROUND_UP n d = (n + d - 1) sdiv d"

end
