(* ===== verification/Rk818_Regulators.thy ===== *)
theory Rk818_Regulators
  imports Rk818_Io Regulator_Core
begin

text \<open>
  The regulator operations of the RK818 (\<^verbatim>\<open>rk818.c\<close>): the register and voltage tables, the
  LDO and DCDC operations, the descriptor table that binds them to the fourteen
  regulators, and the two contracts of the regulator core they meet.

  Regulators are named by their descriptor id: 0 to 3 are the bucks, 4 to 13 the LDOs.
\<close>

subsection \<open>Registers and tables\<close>

abbreviation (input) RK818_DCDC1 :: int where "RK818_DCDC1 \<equiv> 0"
abbreviation (input) RK818_LDO1 :: int where "RK818_LDO1 \<equiv> 4"

abbreviation (input) RK818_DCDC_EN_REG :: u8 where "RK818_DCDC_EN_REG \<equiv> 0x23"
abbreviation (input) RK818_LDO_EN_REG :: u8 where "RK818_LDO_EN_REG \<equiv> 0x24"
abbreviation (input) RK818_SLEEP_SET_OFF_REG1 :: u8 where "RK818_SLEEP_SET_OFF_REG1 \<equiv> 0x25"
abbreviation (input) RK818_SLEEP_SET_OFF_REG2 :: u8 where "RK818_SLEEP_SET_OFF_REG2 \<equiv> 0x26"

abbreviation (input) BUCK_VOL_MASK :: "'n::len word" where "BUCK_VOL_MASK \<equiv> 0x3f"
abbreviation (input) LDO_VOL_MASK :: "'n::len word" where "LDO_VOL_MASK \<equiv> 0x3f"
abbreviation (input) LDO9_VOL_MASK :: "'n::len word" where "LDO9_VOL_MASK \<equiv> 0x1f"

definition buck_set_vol_base_addr :: "u8 list" where
  "buck_set_vol_base_addr = [0x2f, 0x33, 0x36, 0x38]"

definition buck_set_slp_vol_base_addr :: "u8 list" where
  "buck_set_slp_vol_base_addr = [0x30, 0x34, 0x36, 0x39]"

definition ldo_set_vol_base_addr :: "u8 list" where
  "ldo_set_vol_base_addr = [0x3b, 0x3d, 0x3f, 0x41, 0x43, 0x45, 0x47, 0x49, 0x54]"

definition ldo_set_slp_vol_base_addr :: "u8 list" where
  "ldo_set_slp_vol_base_addr = [0x3c, 0x3e, 0x40, 0x42, 0x44, 0x46, 0x48, 0x4a, 0x55]"

definition buck_voltage_map :: "int list" where
  "buck_voltage_map = [
     712, 725, 737, 750, 762, 775, 787, 800,
     812, 825, 837, 850, 862, 875, 887, 900, 912,
     925, 937, 950, 962, 975, 987, 1000, 1012, 1025,
     1037, 1050, 1062, 1075, 1087, 1100, 1112, 1125, 1137,
     1150, 1162, 1175, 1187, 1200, 1212, 1225, 1237, 1250,
     1262, 1275, 1287, 1300, 1312, 1325, 1337, 1350, 1362,
     1375, 1387, 1400, 1412, 1425, 1437, 1450, 1462, 1475,
     1487, 1500]"

definition buck4_voltage_map :: "int list" where
  "buck4_voltage_map = [
     1800, 1900, 2000, 2100, 2200, 2300, 2400, 2500, 2600,
     2700, 2800, 2900, 3000, 3100, 3200, 3300, 3400, 3500, 3600]"

definition ldo_voltage_map :: "int list" where
  "ldo_voltage_map = [
     1800, 1900, 2000, 2100, 2200, 2300, 2400, 2500, 2600,
     2700, 2800, 2900, 3000, 3100, 3200, 3300, 3400]"

definition ldo3_voltage_map :: "int list" where
  "ldo3_voltage_map = [
     800, 900, 1000, 1100, 1200, 1300, 1400, 1500, 1600,
     1700, 1800, 1900, 2000, 2100, 2200, 2500]"

definition ldo6_voltage_map :: "int list" where
  "ldo6_voltage_map = [
     800, 900, 1000, 1100, 1200, 1300, 1400, 1500, 1600,
     1700, 1800, 1900, 2000, 2100, 2200, 2300, 2400, 2500]"

subsection \<open>LDO operations\<close>

definition rk818_ldo_list_voltage :: "int \<Rightarrow> nat \<Rightarrow> int" where
  "rk818_ldo_list_voltage rid index =
     (let ldo = rid - RK818_LDO1 in
      if ldo = 2 then
        (if index \<ge> length ldo3_voltage_map then - EINVAL else 1000 * ldo3_voltage_map ! index)
      else if ldo = 5 \<or> ldo = 6 then
        (if index \<ge> length ldo6_voltage_map then - EINVAL else 1000 * ldo6_voltage_map ! index)
      else
        (if index \<ge> length ldo_voltage_map then - EINVAL else 1000 * ldo_voltage_map ! index))"

text \<open>\<^verbatim>\<open>val\<close> is a u16 in the source, so its tests for a negative value never hold.\<close>

definition rk818_ldo_is_enabled ::
  "'d i2c_xfer \<Rightarrow> 'd rk818_chip \<Rightarrow> int \<Rightarrow> (int \<times> 'd rk818_chip) option" where
  "rk818_ldo_is_enabled xfer chip rid =
     (let ldo = rid - RK818_LDO1 in
      if ldo = 8 then
        do { (v, chip) \<leftarrow> rk818_reg_read xfer chip RK818_DCDC_EN_REG;
             Some (if (ucast v :: u32) AND BIT 5 \<noteq> 0 then 1 else 0, chip) }
      else
        do { (v, chip) \<leftarrow> rk818_reg_read xfer chip RK818_LDO_EN_REG;
             Some (if (ucast v :: u32) AND BIT (nat ldo) \<noteq> 0 then 1 else 0, chip) })"

definition rk818_ldo_enable ::
  "'d i2c_xfer \<Rightarrow> 'd rk818_chip \<Rightarrow> int \<Rightarrow> (int \<times> 'd rk818_chip) option" where
  "rk818_ldo_enable xfer chip rid =
     (let ldo = rid - RK818_LDO1 in
      do { (ret, chip) \<leftarrow>
             (if ldo = 8 then rk818_set_bits xfer chip RK818_DCDC_EN_REG (BIT 5) (BIT 5)
              else if ldo = 9 then rk818_set_bits xfer chip RK818_DCDC_EN_REG (BIT 6) (BIT 6)
              else rk818_set_bits xfer chip RK818_LDO_EN_REG (BIT (nat ldo)) (BIT (nat ldo)));
           Some (0, chip) })"

definition rk818_ldo_disable ::
  "'d i2c_xfer \<Rightarrow> 'd rk818_chip \<Rightarrow> int \<Rightarrow> (int \<times> 'd rk818_chip) option" where
  "rk818_ldo_disable xfer chip rid =
     (let ldo = rid - RK818_LDO1 in
      do { (ret, chip) \<leftarrow>
             (if ldo = 8 then rk818_set_bits xfer chip RK818_DCDC_EN_REG (BIT 5) (BIT 0)
              else if ldo = 9 then rk818_set_bits xfer chip RK818_DCDC_EN_REG (BIT 6) (BIT 0)
              else rk818_set_bits xfer chip RK818_LDO_EN_REG (BIT (nat ldo)) 0);
           Some (0, chip) })"

definition rk818_ldo_get_voltage ::
  "'d i2c_xfer \<Rightarrow> 'd rk818_chip \<Rightarrow> int \<Rightarrow> (int \<times> 'd rk818_chip) option" where
  "rk818_ldo_get_voltage xfer chip rid =
     (let ldo = rid - RK818_LDO1 in
      if ldo = 9 then
        do { r \<leftarrow> aref buck_set_vol_base_addr 3;
             (b, chip) \<leftarrow> rk818_reg_read xfer chip r;
             (let reg = (ucast b :: u16) AND BUCK_VOL_MASK in
              do { v \<leftarrow> aref buck4_voltage_map (uint reg); Some (1000 * v, chip) }) }
      else
        do { r \<leftarrow> aref ldo_set_vol_base_addr ldo;
             (b, chip) \<leftarrow> rk818_reg_read xfer chip r;
             (let reg = (if ldo = 8 then (ucast b :: u16) AND LDO9_VOL_MASK
                         else (ucast b :: u16) AND LDO_VOL_MASK)
              in do { v \<leftarrow> (if ldo = 2 then aref ldo3_voltage_map (uint reg)
                         else if ldo = 5 \<or> ldo = 6 then aref ldo6_voltage_map (uint reg)
                         else aref ldo_voltage_map (uint reg));
                      Some (1000 * v, chip) }) })"

definition rk818_ldo_suspend_enable ::
  "'d i2c_xfer \<Rightarrow> 'd rk818_chip \<Rightarrow> int \<Rightarrow> (int \<times> 'd rk818_chip) option" where
  "rk818_ldo_suspend_enable xfer chip rid =
     (let ldo = rid - RK818_LDO1 in
      if ldo = 8 then rk818_set_bits xfer chip RK818_SLEEP_SET_OFF_REG1 (BIT 5) 0
      else if ldo = 9 then rk818_set_bits xfer chip RK818_SLEEP_SET_OFF_REG1 (BIT 6) 0
      else rk818_set_bits xfer chip RK818_SLEEP_SET_OFF_REG2 (BIT (nat ldo)) 0)"

definition rk818_ldo_suspend_disable ::
  "'d i2c_xfer \<Rightarrow> 'd rk818_chip \<Rightarrow> int \<Rightarrow> (int \<times> 'd rk818_chip) option" where
  "rk818_ldo_suspend_disable xfer chip rid =
     (let ldo = rid - RK818_LDO1 in
      if ldo = 8 then rk818_set_bits xfer chip RK818_SLEEP_SET_OFF_REG1 (BIT 5) (BIT 5)
      else if ldo = 9 then rk818_set_bits xfer chip RK818_SLEEP_SET_OFF_REG1 (BIT 6) (BIT 6)
      else rk818_set_bits xfer chip RK818_SLEEP_SET_OFF_REG2 (BIT (nat ldo)) (BIT (nat ldo)))"

text \<open>The table and its last index, as both set_voltage functions choose them.\<close>

definition rk818_ldo_vol_map :: "int \<Rightarrow> int list \<times> nat" where
  "rk818_ldo_vol_map ldo =
     (if ldo = 2 then (ldo3_voltage_map, 15)
      else if ldo = 5 \<or> ldo = 6 then (ldo6_voltage_map, 17)
      else (ldo_voltage_map, 16))"

definition rk818_ldo_set_sleep_voltage ::
  "'d i2c_xfer \<Rightarrow> 'd rk818_chip \<Rightarrow> int \<Rightarrow> int \<Rightarrow> (int \<times> 'd rk818_chip) option" where
  "rk818_ldo_set_sleep_voltage xfer chip rid uV =
     (let ldo = rid - RK818_LDO1; min_vol = uV sdiv 1000; (vol_map, num) = rk818_ldo_vol_map ldo in
      if min_vol < vol_map ! 0 \<or> min_vol > vol_map ! num then Some (- EINVAL, chip)
      else (let val = word_of_nat (vol_scan (take (Suc num) vol_map) min_vol) in
            do { r \<leftarrow> aref ldo_set_slp_vol_base_addr ldo;
                 (if ldo = 8 then rk818_set_bits xfer chip r LDO9_VOL_MASK val
                  else rk818_set_bits xfer chip r LDO_VOL_MASK val) }))"

definition rk818_ldo_set_voltage ::
  "'d i2c_xfer \<Rightarrow> 'd rk818_chip \<Rightarrow> int \<Rightarrow> int \<Rightarrow> int \<Rightarrow> (int \<times> 'd rk818_chip) option" where
  "rk818_ldo_set_voltage xfer chip rid min_uV max_uV =
     (let ldo = rid - RK818_LDO1; min_vol = min_uV sdiv 1000; (vol_map, num) = rk818_ldo_vol_map ldo in
      if min_vol < vol_map ! 0 \<or> min_vol > vol_map ! num then Some (- EINVAL, chip)
      else (let val = word_of_nat (vol_scan (take (Suc num) vol_map) min_vol) in
            do { r \<leftarrow> aref ldo_set_vol_base_addr ldo;
                 (if ldo = 8 then rk818_set_bits xfer chip r LDO9_VOL_MASK val
                  else rk818_set_bits xfer chip r LDO_VOL_MASK val) }))"

subsection \<open>DCDC operations\<close>

text \<open>\<^verbatim>\<open>BUG()\<close> in the default branch is None.\<close>

definition rk818_dcdc_list_voltage :: "int \<Rightarrow> nat \<Rightarrow> int option" where
  "rk818_dcdc_list_voltage rid selector =
     (let buck = rid - RK818_DCDC1 in
      if selector > 0x3f then Some (- EINVAL)
      else if buck = 0 \<or> buck = 1 then Some (712500 + int selector * 12500)
      else if buck = 3 then Some (1800000 + int selector * 100000)
      else if buck = 2 then Some 1200000
      else None)"

definition rk818_dcdc_is_enabled ::
  "'d i2c_xfer \<Rightarrow> 'd rk818_chip \<Rightarrow> int \<Rightarrow> (int \<times> 'd rk818_chip) option" where
  "rk818_dcdc_is_enabled xfer chip rid =
     (let buck = rid - RK818_DCDC1 in
      do { (v, chip) \<leftarrow> rk818_reg_read xfer chip RK818_DCDC_EN_REG;
           Some (if (ucast v :: u32) AND BIT (nat buck) \<noteq> 0 then 1 else 0, chip) })"

definition rk818_dcdc_enable ::
  "'d i2c_xfer \<Rightarrow> 'd rk818_chip \<Rightarrow> int \<Rightarrow> (int \<times> 'd rk818_chip) option" where
  "rk818_dcdc_enable xfer chip rid =
     (let buck = rid - RK818_DCDC1 in
      rk818_set_bits xfer chip RK818_DCDC_EN_REG (BIT (nat buck)) (BIT (nat buck)))"

definition rk818_dcdc_disable ::
  "'d i2c_xfer \<Rightarrow> 'd rk818_chip \<Rightarrow> int \<Rightarrow> (int \<times> 'd rk818_chip) option" where
  "rk818_dcdc_disable xfer chip rid =
     (let buck = rid - RK818_DCDC1 in
      rk818_set_bits xfer chip RK818_DCDC_EN_REG (BIT (nat buck)) 0)"

definition rk818_dcdc_get_voltage ::
  "'d i2c_xfer \<Rightarrow> 'd rk818_chip \<Rightarrow> int \<Rightarrow> (int \<times> 'd rk818_chip) option" where
  "rk818_dcdc_get_voltage xfer chip rid =
     do { r \<leftarrow> aref buck_set_vol_base_addr (rid - RK818_DCDC1);
          (b, chip) \<leftarrow> rk818_reg_read xfer chip r;
          (let reg = (ucast b :: u16) AND BUCK_VOL_MASK in
           do { v \<leftarrow> rk818_dcdc_list_voltage rid (unat reg); Some (v, chip) }) }"

text \<open>The selector lives in a u16, the result in an int: a negative errno or the selector.\<close>

definition rk818_dcdc_select_min_voltage :: "int \<Rightarrow> int \<Rightarrow> int \<Rightarrow> int \<Rightarrow> int option" where
  "rk818_dcdc_select_min_voltage rid min_uV max_uV buck =
     (let vsel = (if buck = 0 \<or> buck = 1 then
                    (if min_uV < 712500 then Some 0
                     else if min_uV \<le> 1500000 then Some (word_of_int ((min_uV - 712500) sdiv 12500))
                     else None)
                  else if buck = 3 then
                    (if min_uV < 1800000 then Some 0
                     else if min_uV \<le> 3300000 then Some (word_of_int ((min_uV - 1800000) sdiv 100000))
                     else None)
                  else Some 0)
      in case vsel of
           None \<Rightarrow> Some (- EINVAL)
         | Some (vsel :: u16) \<Rightarrow>
             do { v \<leftarrow> rk818_dcdc_list_voltage rid (unat vsel);
                  Some (if v > max_uV then - EINVAL else uint vsel) })"

text \<open>
  The int result is stored in a u16 and then passed as a u8, so an errno reaches the
  register as its low byte.
\<close>

definition rk818_dcdc_set_voltage ::
  "'d i2c_xfer \<Rightarrow> 'd rk818_chip \<Rightarrow> int \<Rightarrow> int \<Rightarrow> int \<Rightarrow> (int \<times> 'd rk818_chip) option" where
  "rk818_dcdc_set_voltage xfer chip rid min_uV max_uV =
     (let buck = rid - RK818_DCDC1 in
      if buck = 2 then Some (0, chip)
      else do { (ret, chip) \<leftarrow>
                  (if buck = 3 then
                     do { i \<leftarrow> rk818_dcdc_select_min_voltage rid min_uV max_uV buck;
                          r \<leftarrow> aref buck_set_vol_base_addr buck;
                          rk818_set_bits xfer chip r BUCK_VOL_MASK (ucast (word_of_int i :: u16)) }
                   else Some (0, chip));
                i \<leftarrow> rk818_dcdc_select_min_voltage rid min_uV max_uV buck;
                r \<leftarrow> aref buck_set_vol_base_addr buck;
                rk818_set_bits xfer chip r BUCK_VOL_MASK (ucast (word_of_int i :: u16)) })"

definition rk818_dcdc_set_sleep_voltage ::
  "'d i2c_xfer \<Rightarrow> 'd rk818_chip \<Rightarrow> int \<Rightarrow> int \<Rightarrow> (int \<times> 'd rk818_chip) option" where
  "rk818_dcdc_set_sleep_voltage xfer chip rid uV =
     (let buck = rid - RK818_DCDC1 in
      if buck = 2 then Some (0, chip)
      else do { i \<leftarrow> rk818_dcdc_select_min_voltage rid uV uV buck;
                r \<leftarrow> aref buck_set_slp_vol_base_addr buck;
                rk818_set_bits xfer chip r BUCK_VOL_MASK (ucast (word_of_int i :: u16)) })"

definition rk818_dcdc_get_mode ::
  "'d i2c_xfer \<Rightarrow> 'd rk818_chip \<Rightarrow> int \<Rightarrow> (reg_mode \<times> 'd rk818_chip) option" where
  "rk818_dcdc_get_mode xfer chip rid =
     do { r \<leftarrow> aref buck_set_vol_base_addr (rid - RK818_DCDC1);
          (b, chip) \<leftarrow> rk818_reg_read xfer chip r;
          Some (if (ucast b :: u16) AND 0x80 = 0x80 then MODE_FAST else MODE_NORMAL, chip) }"

definition rk818_dcdc_set_mode ::
  "'d i2c_xfer \<Rightarrow> 'd rk818_chip \<Rightarrow> int \<Rightarrow> reg_mode \<Rightarrow> (int \<times> 'd rk818_chip) option" where
  "rk818_dcdc_set_mode xfer chip rid mode =
     (case mode of
        MODE_FAST \<Rightarrow> do { r \<leftarrow> aref buck_set_vol_base_addr (rid - RK818_DCDC1);
                          rk818_set_bits xfer chip r 0x80 0x80 }
      | MODE_NORMAL \<Rightarrow> do { r \<leftarrow> aref buck_set_vol_base_addr (rid - RK818_DCDC1);
                            rk818_set_bits xfer chip r 0x80 0 }
      | _ \<Rightarrow> Some (- EINVAL, chip))"

definition rk818_dcdc_set_voltage_time_sel :: "int \<Rightarrow> nat \<Rightarrow> nat \<Rightarrow> int option" where
  "rk818_dcdc_set_voltage_time_sel rid old_selector new_selector =
     do { old_volt \<leftarrow> rk818_dcdc_list_voltage rid old_selector;
          (if old_volt < 0 then Some old_volt
           else do { new_volt \<leftarrow> rk818_dcdc_list_voltage rid new_selector;
                     (if new_volt < 0 then Some new_volt
                      else Some (DIV_ROUND_UP (\<bar>old_volt - new_volt\<bar> * 2) 2500)) }) }"

definition rk818_dcdc_suspend_enable ::
  "'d i2c_xfer \<Rightarrow> 'd rk818_chip \<Rightarrow> int \<Rightarrow> (int \<times> 'd rk818_chip) option" where
  "rk818_dcdc_suspend_enable xfer chip rid =
     (let buck = rid - RK818_DCDC1 in
      rk818_set_bits xfer chip RK818_SLEEP_SET_OFF_REG1 (BIT (nat buck)) 0)"

definition rk818_dcdc_suspend_disable ::
  "'d i2c_xfer \<Rightarrow> 'd rk818_chip \<Rightarrow> int \<Rightarrow> (int \<times> 'd rk818_chip) option" where
  "rk818_dcdc_suspend_disable xfer chip rid =
     (let buck = rid - RK818_DCDC1 in
      rk818_set_bits xfer chip RK818_SLEEP_SET_OFF_REG1 (BIT (nat buck)) (BIT (nat buck)))"

definition rk818_dcdc_set_suspend_mode ::
  "'d i2c_xfer \<Rightarrow> 'd rk818_chip \<Rightarrow> int \<Rightarrow> reg_mode \<Rightarrow> (int \<times> 'd rk818_chip) option" where
  "rk818_dcdc_set_suspend_mode xfer chip rid mode =
     (case mode of
        MODE_FAST \<Rightarrow> do { r \<leftarrow> aref buck_set_vol_base_addr (rid - RK818_DCDC1);
                          rk818_set_bits xfer chip (r + 0x01) 0x80 0x80 }
      | MODE_NORMAL \<Rightarrow> do { r \<leftarrow> aref buck_set_vol_base_addr (rid - RK818_DCDC1);
                            rk818_set_bits xfer chip (r + 0x01) 0x80 0 }
      | _ \<Rightarrow> Some (- EINVAL, chip))"

subsection \<open>The descriptor table\<close>

datatype rk818_ops = rk818_ldo_ops | rk818_dcdc_ops

record rk818_desc =
  rd_name :: string
  rd_id :: int
  rd_ops :: rk818_ops
  rd_n_voltages :: nat

definition rk818_regulators :: "rk818_desc list" where
  "rk818_regulators = [
     \<lparr>rd_name = ''RK818_DCDC1'', rd_id = 0, rd_ops = rk818_dcdc_ops, rd_n_voltages = length buck_voltage_map\<rparr>,
     \<lparr>rd_name = ''RK818_DCDC2'', rd_id = 1, rd_ops = rk818_dcdc_ops, rd_n_voltages = length buck_voltage_map\<rparr>,
     \<lparr>rd_name = ''RK818_DCDC3'', rd_id = 2, rd_ops = rk818_dcdc_ops, rd_n_voltages = length buck4_voltage_map\<rparr>,
     \<lparr>rd_name = ''RK818_DCDC4'', rd_id = 3, rd_ops = rk818_dcdc_ops, rd_n_voltages = length buck4_voltage_map\<rparr>,
     \<lparr>rd_name = ''RK818_LDO1'', rd_id = 4, rd_ops = rk818_ldo_ops, rd_n_voltages = length ldo_voltage_map\<rparr>,
     \<lparr>rd_name = ''RK818_LDO2'', rd_id = 5, rd_ops = rk818_ldo_ops, rd_n_voltages = length ldo_voltage_map\<rparr>,
     \<lparr>rd_name = ''RK818_LDO3'', rd_id = 6, rd_ops = rk818_ldo_ops, rd_n_voltages = length ldo3_voltage_map\<rparr>,
     \<lparr>rd_name = ''RK818_LDO4'', rd_id = 7, rd_ops = rk818_ldo_ops, rd_n_voltages = length ldo_voltage_map\<rparr>,
     \<lparr>rd_name = ''RK818_LDO5'', rd_id = 8, rd_ops = rk818_ldo_ops, rd_n_voltages = length ldo_voltage_map\<rparr>,
     \<lparr>rd_name = ''RK818_LDO6'', rd_id = 9, rd_ops = rk818_ldo_ops, rd_n_voltages = length ldo6_voltage_map\<rparr>,
     \<lparr>rd_name = ''RK818_LDO7'', rd_id = 10, rd_ops = rk818_ldo_ops, rd_n_voltages = length ldo6_voltage_map\<rparr>,
     \<lparr>rd_name = ''RK818_LDO8'', rd_id = 11, rd_ops = rk818_ldo_ops, rd_n_voltages = length ldo_voltage_map\<rparr>,
     \<lparr>rd_name = ''RK818_LDO9'', rd_id = 12, rd_ops = rk818_ldo_ops, rd_n_voltages = length ldo_voltage_map\<rparr>,
     \<lparr>rd_name = ''RK818_LDO10'', rd_id = 13, rd_ops = rk818_ldo_ops, rd_n_voltages = length buck4_voltage_map\<rparr>]"

text \<open>Calls through the operation tables, as the regulator core makes them for descriptor \<open>i\<close>.\<close>

definition rk818_enable ::
  "'d i2c_xfer \<Rightarrow> 'd rk818_chip \<Rightarrow> int \<Rightarrow> (int \<times> 'd rk818_chip) option" where
  "rk818_enable xfer chip i =
     do { desc \<leftarrow> aref rk818_regulators i;
          (case rd_ops desc of
             rk818_ldo_ops \<Rightarrow> rk818_ldo_enable xfer chip (rd_id desc)
           | rk818_dcdc_ops \<Rightarrow> rk818_dcdc_enable xfer chip (rd_id desc)) }"

definition rk818_disable ::
  "'d i2c_xfer \<Rightarrow> 'd rk818_chip \<Rightarrow> int \<Rightarrow> (int \<times> 'd rk818_chip) option" where
  "rk818_disable xfer chip i =
     do { desc \<leftarrow> aref rk818_regulators i;
          (case rd_ops desc of
             rk818_ldo_ops \<Rightarrow> rk818_ldo_disable xfer chip (rd_id desc)
           | rk818_dcdc_ops \<Rightarrow> rk818_dcdc_disable xfer chip (rd_id desc)) }"

definition rk818_is_enabled ::
  "'d i2c_xfer \<Rightarrow> 'd rk818_chip \<Rightarrow> int \<Rightarrow> (int \<times> 'd rk818_chip) option" where
  "rk818_is_enabled xfer chip i =
     do { desc \<leftarrow> aref rk818_regulators i;
          (case rd_ops desc of
             rk818_ldo_ops \<Rightarrow> rk818_ldo_is_enabled xfer chip (rd_id desc)
           | rk818_dcdc_ops \<Rightarrow> rk818_dcdc_is_enabled xfer chip (rd_id desc)) }"

end
