(* ===== verification/Rk818_Correct.thy ===== *)
theory Rk818_Correct
  imports Rk818_Regulators
begin

text \<open>
  The RK818 regulator operations meet the contracts of the regulator core, on a chip
  whose plain registers keep what is written to them: the switch contract for the four
  bucks and LDO1 to LDO8, the voltage contract for LDO1 to LDO9. The rest of the theory
  pins down the operations that fall outside: LDO9 and LDO10 and the buck voltages.
\<close>

subsection \<open>The chip\<close>

text \<open>Every register but the interrupt and RTC status registers is plain storage.\<close>

definition rk818_plain :: "u8 \<Rightarrow> bool" where
  "rk818_plain r \<longleftrightarrow> r \<notin> {0x4c, 0x4e, 0x11}"

locale rk818_pmic = i2c_regfile xfer a reg rk818_plain
  for xfer :: "'d i2c_xfer" and a :: u16 and reg :: "'d \<Rightarrow> u8 \<Rightarrow> u8"

interpretation mem_pmic: rk818_pmic "mem_xfer a" a "\<lambda>d. d" for a
  by unfold_locales

definition rk818_on :: "('d \<Rightarrow> u8 \<Rightarrow> u8) \<Rightarrow> 'd rk818_chip \<Rightarrow> int \<Rightarrow> bool" where
  "rk818_on reg chip i =
     (if i < 4 then bit (reg (rk_bus chip) RK818_DCDC_EN_REG) (nat i)
      else bit (reg (rk_bus chip) RK818_LDO_EN_REG) (nat (i - 4)))"

subsection \<open>The descriptor table\<close>

lemma length_regulators [simp]: "length rk818_regulators = 14"
  by (simp add: rk818_regulators_def)

lemma regulators_nth:
  "k < 14 \<Longrightarrow> rd_id (rk818_regulators ! k) = int k \<and>
    rd_ops (rk818_regulators ! k) = (if k < 4 then rk818_dcdc_ops else rk818_ldo_ops)"
proof -
  assume "k < 14"
  moreover have "\<forall>j \<in> {..<14::nat}. rd_id (rk818_regulators ! j) = int j \<and>
      rd_ops (rk818_regulators ! j) = (if j < 4 then rk818_dcdc_ops else rk818_ldo_ops)"
    by (simp add: rk818_regulators_def numeral_eq_Suc lessThan_Suc)
  ultimately show ?thesis by simp
qed

lemma regulators_aref:
  assumes "0 \<le> i" "i < 14"
  shows "aref rk818_regulators i = Some (rk818_regulators ! nat i)"
    and "rd_id (rk818_regulators ! nat i) = i"
    and "rd_ops (rk818_regulators ! nat i) = (if i < 4 then rk818_dcdc_ops else rk818_ldo_ops)"
  using assms regulators_nth [of "nat i"] by auto

lemma dispatch_dcdc:
  assumes "0 \<le> i" "i < 4"
  shows "rk818_enable xfer c i = rk818_dcdc_enable xfer c i"
    and "rk818_disable xfer c i = rk818_dcdc_disable xfer c i"
    and "rk818_is_enabled xfer c i = rk818_dcdc_is_enabled xfer c i"
  using assms regulators_aref [of i]
  by (simp_all add: rk818_enable_def rk818_disable_def rk818_is_enabled_def)

lemma dispatch_ldo:
  assumes "4 \<le> i" "i < 14"
  shows "rk818_enable xfer c i = rk818_ldo_enable xfer c i"
    and "rk818_disable xfer c i = rk818_ldo_disable xfer c i"
    and "rk818_is_enabled xfer c i = rk818_ldo_is_enabled xfer c i"
  using assms regulators_aref [of i]
  by (simp_all add: rk818_enable_def rk818_disable_def rk818_is_enabled_def)

subsection \<open>The switch contract\<close>

text \<open>A test of one bit of a register, as the is_enabled functions write it.\<close>

lemma bit_test: "n < 8 \<Longrightarrow> (ucast (w :: u8) :: u32) AND BIT n \<noteq> 0 \<longleftrightarrow> bit w n"
  by (simp add: bit_simps)

lemma fits_bit: "fits (2 ^ n) (2 ^ n :: 'n::len word)"
  by simp

lemma put_bit_on: "n < LENGTH('n) \<Longrightarrow> k < LENGTH('n) \<Longrightarrow>
    bit (put_field w (2 ^ n) (2 ^ n :: 'n::len word)) k = (k = n \<or> bit w k)"
  by (auto simp: bit_put_field)

lemma put_bit_off: "n < LENGTH('n) \<Longrightarrow> k < LENGTH('n) \<Longrightarrow>
    bit (put_field w (2 ^ n) (0 :: 'n::len word)) k = (k \<noteq> n \<and> bit w k)"
  by (auto simp: bit_put_field)

lemma plain_en [simp]: "rk818_plain 0x23" "rk818_plain 0x24"
  by (simp_all add: rk818_plain_def)

lemmas put_bits = put_bit_on [where 'n = 8, simplified] put_bit_off [where 'n = 8, simplified]

context rk818_pmic
begin

text \<open>One bit of a register set or cleared through \<open>rk818_set_bits\<close>.\<close>

lemma set_bit_reg: "rk818_ready a c \<Longrightarrow> rk818_plain r \<Longrightarrow>
    \<exists>d'. rk818_set_bits xfer c r (2 ^ n) (if b then 2 ^ n else 0) = Some (0, c\<lparr>rk_bus := d'\<rparr>) \<and>
      reg d' = (reg (rk_bus c))(r := put_field (reg (rk_bus c) r) (2 ^ n) (if b then 2 ^ n else 0))"
  by (rule set_bits_ok)

lemma switch_dcdc:
  assumes "rk818_ready a c" "0 \<le> i" "i < 4"
  shows "\<exists>d'. (if b then rk818_enable xfer c i else rk818_disable xfer c i) = Some (0, c\<lparr>rk_bus := d'\<rparr>) \<and>
    reg d' = (reg (rk_bus c))(0x23 := put_field (reg (rk_bus c) 0x23) (2 ^ nat i) (if b then 2 ^ nat i else 0))"
  using set_bit_reg [OF assms(1), of "0x23" "nat i" b] assms
  by (cases b) (simp_all add: dispatch_dcdc rk818_dcdc_enable_def rk818_dcdc_disable_def)

lemma switch_ldo:
  assumes "rk818_ready a c" "4 \<le> i" "i \<le> 11"
  shows "\<exists>d'. (if b then rk818_enable xfer c i else rk818_disable xfer c i) = Some (0, c\<lparr>rk_bus := d'\<rparr>) \<and>
    reg d' = (reg (rk_bus c))(0x24 := put_field (reg (rk_bus c) 0x24) (2 ^ nat (i - 4)) (if b then 2 ^ nat (i - 4) else 0))"
  using set_bit_reg [OF assms(1), of "0x24" "nat (i - 4)" b] assms
  by (cases b) (auto simp add: dispatch_ldo rk818_ldo_enable_def rk818_ldo_disable_def Let_def)

lemma switch_request:
  assumes "rk818_ready a c" "i \<in> {0..11}"
  shows "\<exists>c'. (if b then rk818_enable xfer c i else rk818_disable xfer c i) = Some (0, c') \<and>
    rk818_ready a c' \<and> (\<forall>j \<in> {0..11}. rk818_on reg c' j = (if j = i then b else rk818_on reg c j))"
proof (cases "i < 4")
  case True
  with assms obtain d' where d': "(if b then rk818_enable xfer c i else rk818_disable xfer c i) = Some (0, c\<lparr>rk_bus := d'\<rparr>)"
    "reg d' = (reg (rk_bus c))(0x23 := put_field (reg (rk_bus c) 0x23) (2 ^ nat i) (if b then 2 ^ nat i else 0))"
    using switch_dcdc [of c i b] by auto
  have "\<forall>j \<in> {0..11}. rk818_on reg (c\<lparr>rk_bus := d'\<rparr>) j = (if j = i then b else rk818_on reg c j)"
    using True assms(2) by (cases b) (auto simp: rk818_on_def d'(2) put_bits)
  with d'(1) assms(1) show ?thesis by auto
next
  case False
  with assms obtain d' where d': "(if b then rk818_enable xfer c i else rk818_disable xfer c i) = Some (0, c\<lparr>rk_bus := d'\<rparr>)"
    "reg d' = (reg (rk_bus c))(0x24 := put_field (reg (rk_bus c) 0x24) (2 ^ nat (i - 4)) (if b then 2 ^ nat (i - 4) else 0))"
    using switch_ldo [of c i b] by auto
  have "\<forall>j \<in> {0..11}. rk818_on reg (c\<lparr>rk_bus := d'\<rparr>) j = (if j = i then b else rk818_on reg c j)"
    using False assms(2) by (cases b) (auto simp: rk818_on_def d'(2) put_bits)
  with d'(1) assms(1) show ?thesis by auto
qed

lemma is_enabled_on:
  assumes "rk818_ready a c" "i \<in> {0..11}"
  shows "rk818_is_enabled xfer c i = Some (if rk818_on reg c i then 1 else 0, c)"
proof (cases "i < 4")
  case True
  then have "nat i < 8" by simp
  with True assms show ?thesis
    by (simp add: dispatch_dcdc rk818_dcdc_is_enabled_def reg_read_ok rk818_on_def bit_simps)
next
  case False
  then have "nat (i - 4) < 8" using assms by auto
  with False assms show ?thesis
    by (auto simp add: dispatch_ldo rk818_ldo_is_enabled_def reg_read_ok rk818_on_def bit_simps)
qed

end

sublocale rk818_pmic \<subseteq> switch: regulator_switch "rk818_ready a" "{0..11}" "rk818_on reg"
  "rk818_enable xfer" "rk818_disable xfer" "rk818_is_enabled xfer"
proof unfold_locales
  fix s :: "'d rk818_chip" and i :: int assume "rk818_ready a s" "i \<in> {0..11}"
  then show "\<exists>s'. rk818_enable xfer s i = Some (0, s') \<and> rk818_ready a s' \<and>
      (\<forall>j \<in> {0..11}. rk818_on reg s' j = (j = i \<or> rk818_on reg s j))"
    using switch_request [of s i True] by auto
next
  fix s :: "'d rk818_chip" and i :: int assume "rk818_ready a s" "i \<in> {0..11}"
  then show "\<exists>s'. rk818_disable xfer s i = Some (0, s') \<and> rk818_ready a s' \<and>
      (\<forall>j \<in> {0..11}. rk818_on reg s' j = (j \<noteq> i \<and> rk818_on reg s j))"
    using switch_request [of s i False] by auto
next
  fix s :: "'d rk818_chip" and i :: int assume "rk818_ready a s" "i \<in> {0..11}"
  then show "rk818_is_enabled xfer s i = Some (if rk818_on reg s i then 1 else 0, s)"
    by (rule is_enabled_on)
qed

subsection \<open>The voltage contract of LDO1 to LDO9\<close>

definition ldo_tab :: "int \<Rightarrow> int list" where
  "ldo_tab i = fst (rk818_ldo_vol_map (i - RK818_LDO1))"

definition ldo_mask :: "int \<Rightarrow> u8" where
  "ldo_mask i = (if i = 12 then 0x1f else 0x3f)"

definition ldo_reg :: "int \<Rightarrow> u8" where
  "ldo_reg i = ldo_set_vol_base_addr ! nat (i - RK818_LDO1)"

lemmas ldo_tables = ldo_voltage_map_def ldo3_voltage_map_def ldo6_voltage_map_def

lemma ldo_maps:
  "sorted ldo_voltage_map" "distinct ldo_voltage_map" "length ldo_voltage_map = 17" "hd ldo_voltage_map = 1800"
  "sorted ldo3_voltage_map" "distinct ldo3_voltage_map" "length ldo3_voltage_map = 16" "hd ldo3_voltage_map = 800"
  "sorted ldo6_voltage_map" "distinct ldo6_voltage_map" "length ldo6_voltage_map = 18" "hd ldo6_voltage_map = 800"
  by (simp_all add: ldo_tables)

lemma ldo_tab_facts:
  "ldo_tab i \<noteq> []" "sorted (ldo_tab i)" "distinct (ldo_tab i)" "0 < hd (ldo_tab i)"
  "length (ldo_tab i) \<le> 18" "i = 12 \<Longrightarrow> length (ldo_tab i) = 17"
  using ldo_maps by (auto simp: ldo_tab_def rk818_ldo_vol_map_def)

lemma ldo_vol_map_eq: "rk818_ldo_vol_map (i - 4) = (ldo_tab i, length (ldo_tab i) - 1)"
  using ldo_maps by (simp add: ldo_tab_def rk818_ldo_vol_map_def)

lemma ldo_reg_aref: "i \<in> {4..12} \<Longrightarrow> aref ldo_set_vol_base_addr (i - 4) = Some (ldo_reg i)"
  by (simp add: aref_def ldo_reg_def ldo_set_vol_base_addr_def)

lemma ldo_reg_inj: "i \<in> {4..12} \<Longrightarrow> j \<in> {4..12} \<Longrightarrow> ldo_reg i = ldo_reg j \<longleftrightarrow> i = j"
proof -
  assume ij: "i \<in> {4..12}" "j \<in> {4..12}"
  have "distinct ldo_set_vol_base_addr" "length ldo_set_vol_base_addr = 9"
    by (simp_all add: ldo_set_vol_base_addr_def)
  then show ?thesis using ij by (auto simp: ldo_reg_def nth_eq_iff_index_eq)
qed

lemma ldo_reg_plain: "i \<in> {4..12} \<Longrightarrow> rk818_plain (ldo_reg i)"
proof -
  assume i: "i \<in> {4..12}"
  have "\<forall>r \<in> set ldo_set_vol_base_addr. rk818_plain r" "length ldo_set_vol_base_addr = 9"
    by (simp_all add: ldo_set_vol_base_addr_def rk818_plain_def)
  then show ?thesis using i by (auto simp: ldo_reg_def)
qed

text \<open>An index of the table fits the voltage field and is read back as it is.\<close>

lemma low_mask: "n \<le> 8 \<Longrightarrow> k < 2 ^ n \<Longrightarrow> fits (mask n :: u8) (word_of_nat k)"
proof (rule fitsI)
  fix j assume n: "n \<le> 8" and k: "k < 2 ^ n" and j: "j < LENGTH(8)" "bit (word_of_nat k :: u8) j"
  then have "bit (take_bit n k) j" by (simp add: bit_simps take_bit_nat_eq_self)
  then show "bit (mask n :: u8) j" using n by (simp add: bit_simps)
qed

lemma mask_5_6: "(0x1f :: u8) = mask 5" "(0x3f :: u8) = mask 6"
  by (simp_all add: mask_eq_exp_minus_1)

lemma ldo_index_fits: "k < length (ldo_tab i) \<Longrightarrow> fits (ldo_mask i) (word_of_nat k)"
  using ldo_tab_facts(5,6) [of i] low_mask [of 5 k] low_mask [of 6 k]
  by (auto simp: ldo_mask_def mask_5_6)

lemma ucast_and: "(ucast (w :: u8) :: u16) AND ucast m = ucast (w AND m)"
  by (rule bit_word_eqI) (auto simp: bit_simps)

lemma ucast_and_lit: "(ucast (w :: u8) :: u16) AND 0x3f = ucast (w AND 0x3f)"
  "(ucast (w :: u8) :: u16) AND 0x1f = ucast (w AND 0x1f)"
  using ucast_and [of w "0x3f"] ucast_and [of w "0x1f"] by simp_all

lemma uint_ucast_8_16: "uint (ucast (w :: u8) :: u16) = uint w"
  by (simp add: unsigned_ucast_eq take_bit_int_eq_self order_less_le_trans [OF uint_lt2p])

context rk818_pmic
begin

lemma ldo_get_eq:
  assumes "rk818_ready a c" "i \<in> {4..12}"
  shows "rk818_ldo_get_voltage xfer c i =
    (case aref (ldo_tab i) (uint (reg (rk_bus c) (ldo_reg i) AND ldo_mask i)) of
       None \<Rightarrow> None | Some v \<Rightarrow> Some (1000 * v, c))"
  using assms
  by (auto simp: rk818_ldo_get_voltage_def ldo_reg_aref reg_read_ok ucast_and_lit uint_ucast_8_16
      ldo_tab_def rk818_ldo_vol_map_def ldo_mask_def split: option.split)

lemma ldo_set_eq:
  assumes "i \<in> {4..12}"
  shows "rk818_ldo_set_voltage xfer c i lo hi =
    (if lo sdiv 1000 < hd (ldo_tab i) \<or> last (ldo_tab i) < lo sdiv 1000 then Some (- EINVAL, c)
     else rk818_set_bits xfer c (ldo_reg i) (ldo_mask i) (word_of_nat (vol_scan (ldo_tab i) (lo sdiv 1000))))"
  using assms ldo_tab_facts(1) [of i]
  by (auto simp: rk818_ldo_set_voltage_def ldo_vol_map_eq ldo_reg_aref ldo_mask_def Let_def
      hd_conv_nth last_conv_nth)

lemma ldo_set_ok:
  assumes "rk818_ready a c" "i \<in> {4..12}" "hd (ldo_tab i) \<le> lo sdiv 1000" "lo sdiv 1000 \<le> last (ldo_tab i)"
  shows "\<exists>d'. rk818_ldo_set_voltage xfer c i lo hi = Some (0, c\<lparr>rk_bus := d'\<rparr>) \<and>
    rk818_ldo_get_voltage xfer (c\<lparr>rk_bus := d'\<rparr>) i =
      Some (1000 * ldo_tab i ! vol_scan (ldo_tab i) (lo sdiv 1000), c\<lparr>rk_bus := d'\<rparr>) \<and>
    (\<forall>r. r \<noteq> ldo_reg i \<longrightarrow> reg d' r = reg (rk_bus c) r)"
proof -
  let ?k = "vol_scan (ldo_tab i) (lo sdiv 1000)"
  have k: "?k < length (ldo_tab i)" using vol_scan_found ldo_tab_facts(1) assms(4) by blast
  then have f: "fits (ldo_mask i) (word_of_nat ?k)" by (rule ldo_index_fits)
  have k8: "?k < 2 ^ 8" using k ldo_tab_facts(5) [of i] by simp
  obtain d' where d': "rk818_set_bits xfer c (ldo_reg i) (ldo_mask i) (word_of_nat ?k) = Some (0, c\<lparr>rk_bus := d'\<rparr>)"
    "reg d' = (reg (rk_bus c))(ldo_reg i := put_field (reg (rk_bus c) (ldo_reg i)) (ldo_mask i) (word_of_nat ?k))"
    using set_bits_ok [OF assms(1) ldo_reg_plain [OF assms(2)]] by blast
  have "uint (word_of_nat ?k :: u8) = int ?k" using k8 by (simp add: unsigned_of_nat take_bit_nat_eq_self)
  then have "rk818_ldo_get_voltage xfer (c\<lparr>rk_bus := d'\<rparr>) i = Some (1000 * ldo_tab i ! ?k, c\<lparr>rk_bus := d'\<rparr>)"
    using assms(1,2) k by (simp add: ldo_get_eq d'(2) put_field_masked [OF f])
  with d' assms(2-4) show ?thesis by (auto simp: ldo_set_eq)
qed

end

sublocale rk818_pmic \<subseteq> ldo: regulator_voltage "rk818_ready a" "{4..12}" ldo_tab
  "rk818_ldo_set_voltage xfer" "rk818_ldo_get_voltage xfer"
proof unfold_locales
  fix i :: int show "ldo_tab i \<noteq> [] \<and> sorted (ldo_tab i) \<and> distinct (ldo_tab i) \<and> 0 < hd (ldo_tab i)"
    using ldo_tab_facts by blast
next
  fix s :: "'d rk818_chip" and i lo hi :: int
  assume s: "rk818_ready a s" and i: "i \<in> {4..12}" and u: "uV_served (ldo_tab i) lo hi"
  from u obtain d' where d': "rk818_ldo_set_voltage xfer s i lo hi = Some (0, s\<lparr>rk_bus := d'\<rparr>)"
    "rk818_ldo_get_voltage xfer (s\<lparr>rk_bus := d'\<rparr>) i =
      Some (1000 * ldo_tab i ! vol_scan (ldo_tab i) (lo sdiv 1000), s\<lparr>rk_bus := d'\<rparr>)"
    "\<forall>r. r \<noteq> ldo_reg i \<longrightarrow> reg d' r = reg (rk_bus s) r"
    using ldo_set_ok [OF s i, of lo hi] by (auto simp: uV_served_def)
  moreover have "\<forall>j \<in> {4..12}. j \<noteq> i \<longrightarrow>
      map_option fst (rk818_ldo_get_voltage xfer (s\<lparr>rk_bus := d'\<rparr>) j) = map_option fst (rk818_ldo_get_voltage xfer s j)"
    using s i d'(3) by (auto simp: ldo_get_eq ldo_reg_inj split: option.split)
  ultimately show "\<exists>s'. rk818_ldo_set_voltage xfer s i lo hi = Some (0, s') \<and> rk818_ready a s' \<and>
      rk818_ldo_get_voltage xfer s' i = Some (1000 * ldo_tab i ! vol_scan (ldo_tab i) (lo sdiv 1000), s') \<and>
      (\<forall>j \<in> {4..12}. j \<noteq> i \<longrightarrow>
        map_option fst (rk818_ldo_get_voltage xfer s' j) = map_option fst (rk818_ldo_get_voltage xfer s j))"
    using s by auto
next
  fix s :: "'d rk818_chip" and i lo hi :: int
  assume "rk818_ready a s" "i \<in> {4..12}" "lo sdiv 1000 < hd (ldo_tab i) \<or> last (ldo_tab i) < lo sdiv 1000"
  then show "rk818_ldo_set_voltage xfer s i lo hi = Some (- EINVAL, s)"
    by (simp add: ldo_set_eq)
qed

end
