(* ===== verification/Rk818_Irq.thy ===== *)
theory Rk818_Irq
  imports Rk818_Correct
begin

text \<open>
  The interrupt side of the RK818 driver (\<^verbatim>\<open>rk818.c\<close>): the threaded handler, the irq_chip
  callbacks, the interrupt set-up, and the register initialisation of the probe. The irq
  and gpio cores are parameters: the domain's mapping as a function from hardware
  interrupt to virtual interrupt (0 for none), the results of the requests as values.
\<close>

abbreviation (input) RK818_INT_STS_REG1 :: u8 where "RK818_INT_STS_REG1 \<equiv> 0x4c"
abbreviation (input) RK818_INT_STS_MSK_REG1 :: u8 where "RK818_INT_STS_MSK_REG1 \<equiv> 0x4d"
abbreviation (input) RK818_INT_STS_REG2 :: u8 where "RK818_INT_STS_REG2 \<equiv> 0x4e"
abbreviation (input) RK818_INT_STS_MSK_REG2 :: u8 where "RK818_INT_STS_MSK_REG2 \<equiv> 0x4f"
abbreviation (input) RK818_RTC_STATUS_REG :: u8 where "RK818_RTC_STATUS_REG \<equiv> 0x11"
abbreviation (input) RK818_RTC_INT_REG :: u8 where "RK818_RTC_INT_REG \<equiv> 0x12"
abbreviation (input) RK818_CLK32OUT_REG :: u8 where "RK818_CLK32OUT_REG \<equiv> 0x20"
abbreviation (input) RK818_VB_MON_REG :: u8 where "RK818_VB_MON_REG \<equiv> 0x21"
abbreviation (input) RK818_NUM_IRQ :: nat where "RK818_NUM_IRQ \<equiv> 16"

datatype irqreturn = IRQ_NONE | IRQ_HANDLED

subsection \<open>The handler\<close>

text \<open>
  The local \<^verbatim>\<open>reg\<close> is read into four times: it is uninitialised until the first byte
  arrives and keeps its value when a later transfer delivers none.
\<close>

definition keep :: "u8 \<Rightarrow> u8 option \<Rightarrow> u8" where
  "keep old b = (case b of None \<Rightarrow> old | Some x \<Rightarrow> x)"

lemma keep_simps [simp]: "keep old None = old" "keep old (Some x) = x"
  by (simp_all add: keep_def)

text \<open>
  The second result is the list of virtual interrupts handed to \<^verbatim>\<open>handle_nested_irq\<close>, in
  order. The handler uses the I2C helpers without the I/O lock.
\<close>

definition rk818_irq ::
  "'d i2c_xfer \<Rightarrow> (nat \<Rightarrow> nat) \<Rightarrow> 'd rk818_chip \<Rightarrow> (irqreturn \<times> nat list \<times> 'd rk818_chip) option" where
  "rk818_irq xfer irq_find_mapping chip =
     do { (_, b1, chip) \<leftarrow> rk818_i2c_read xfer (chip\<lparr>rk_irq_wake := True\<rparr>) RK818_INT_STS_REG1 1;
          reg1 \<leftarrow> b1;
          (_, b2, chip) \<leftarrow> rk818_i2c_read xfer chip RK818_INT_STS_REG2 1;
          (let reg2 = keep reg1 b2; irq_sts = (ucast reg1 :: u32) OR push_bit 8 (ucast reg2) in
           do { (_, b3, chip) \<leftarrow> rk818_i2c_read xfer chip RK818_INT_STS_MSK_REG1 1;
                (let reg3 = keep reg2 b3 in
                 do { (_, b4, chip) \<leftarrow> rk818_i2c_read xfer chip RK818_INT_STS_MSK_REG2 1;
                      (let reg4 = keep reg3 b4;
                           irq_mask = (ucast reg3 :: u32) OR push_bit 8 (ucast reg4);
                           irq_sts = irq_sts AND NOT irq_mask in
                       if irq_sts = 0 then Some (IRQ_NONE, [], chip\<lparr>rk_irq_wake := False\<rparr>)
                       else (let curs = map irq_find_mapping
                                (filter (\<lambda>i. irq_sts AND BIT i \<noteq> 0) [0..<rk_irq_num chip]);
                                 nested = filter (\<lambda>cur_irq. cur_irq \<noteq> 0) curs;
                                 chip = snd (rk818_i2c_write xfer chip RK818_INT_STS_REG1 1 (ucast (irq_sts AND 0xff)));
                                 irq_sts = drop_bit 8 irq_sts;
                                 chip = snd (rk818_i2c_write xfer chip RK818_INT_STS_REG2 1 (ucast (irq_sts AND 0xff)))
                             in Some (IRQ_HANDLED, nested, chip\<lparr>rk_irq_wake := False\<rparr>))) }) }) }"

subsection \<open>The irq_chip callbacks\<close>

definition irq_to_rk818_irq :: "'d rk818_chip \<Rightarrow> int \<Rightarrow> int" where
  "irq_to_rk818_irq chip irq = irq - rk_chip_irq chip"

definition rk818_irq_lock :: "'d rk818_chip \<Rightarrow> 'd rk818_chip option" where
  "rk818_irq_lock chip = do { l \<leftarrow> mutex_lock (rk_irq_lock chip); Some (chip\<lparr>rk_irq_lock := l\<rparr>) }"

text \<open>The two bytes of the new mask are computed into a local variable and dropped.\<close>

definition rk818_irq_sync_unlock :: "'d i2c_xfer \<Rightarrow> 'd rk818_chip \<Rightarrow> 'd rk818_chip option" where
  "rk818_irq_sync_unlock xfer chip =
     do { (_, b1, chip) \<leftarrow> rk818_i2c_read xfer chip RK818_INT_STS_MSK_REG1 1;
          reg1 \<leftarrow> b1;
          (_, b2, chip) \<leftarrow> rk818_i2c_read xfer chip RK818_INT_STS_MSK_REG2 1;
          (let reg2 = keep reg1 b2;
               reg_mask = (ucast reg1 :: u32) OR push_bit 8 (ucast reg2);
               reg = (if rk_irq_mask chip \<noteq> reg_mask then ucast (drop_bit 8 (rk_irq_mask chip) AND 0xff) else reg2)
           in Some (chip\<lparr>rk_irq_lock := False\<rparr>)) }"

definition rk818_irq_enable :: "'d rk818_chip \<Rightarrow> int \<Rightarrow> 'd rk818_chip" where
  "rk818_irq_enable chip irq =
     chip\<lparr>rk_irq_mask := rk_irq_mask chip AND NOT (BIT (nat (irq_to_rk818_irq chip irq)))\<rparr>"

definition rk818_irq_disable :: "'d rk818_chip \<Rightarrow> int \<Rightarrow> 'd rk818_chip" where
  "rk818_irq_disable chip irq =
     chip\<lparr>rk_irq_mask := rk_irq_mask chip OR BIT (nat (irq_to_rk818_irq chip irq))\<rparr>"

subsection \<open>Setting the interrupt up\<close>

text \<open>What the gpio and irq cores answer during the set-up.\<close>

record irq_env =
  ie_gpio_to_irq :: "int \<Rightarrow> int"
  ie_gpio_request :: int
  ie_gpio_value :: int
  ie_domain_ok :: bool
  ie_request_irq :: int

datatype irq_trigger = TRIGGER_FALLING | TRIGGER_RISING

text \<open>
  Clearing an interrupt register is reading it and writing the byte back; \<^verbatim>\<open>reg\<close> is again one
  local. The trigger flags are uninitialised unless the gpio branch was taken. A failed
  gpio request returns IRQ_NONE, which is 0.
\<close>

definition rk818_irq_init ::
  "'d i2c_xfer \<Rightarrow> irq_env \<Rightarrow> 'd rk818_chip \<Rightarrow> int \<Rightarrow> int \<Rightarrow>
   (int \<times> irq_trigger option \<times> 'd rk818_chip) option" where
  "rk818_irq_init xfer env chip irq pdata_irq_gpio =
     (if irq = 0 then Some (0, None, chip)
      else do { (_, b1, chip) \<leftarrow> rk818_i2c_read xfer chip RK818_INT_STS_REG1 1;
                reg1 \<leftarrow> b1;
                (_, b2, chip) \<leftarrow> rk818_i2c_read xfer (snd (rk818_i2c_write xfer chip RK818_INT_STS_REG1 1 reg1)) RK818_INT_STS_REG2 1;
                (let reg2 = keep reg1 b2 in
                 do { (_, b3, chip) \<leftarrow> rk818_i2c_read xfer (snd (rk818_i2c_write xfer chip RK818_INT_STS_REG2 1 reg2)) RK818_RTC_STATUS_REG 1;
                      (let chip = snd (rk818_i2c_write xfer chip RK818_RTC_STATUS_REG 1 (keep reg2 b3));
                           chip = chip\<lparr>rk_irq_mask := 0xFFFFFF, rk_irq_lock := False, rk_irq_num := RK818_NUM_IRQ,
                                       rk_irq_gpio := pdata_irq_gpio\<rparr>;
                           setup = (rk_irq_gpio chip \<noteq> 0 \<and> rk_chip_irq chip = 0);
                           chip = (if setup then chip\<lparr>rk_chip_irq := ie_gpio_to_irq env (rk_irq_gpio chip)\<rparr> else chip)
                       in if setup \<and> ie_gpio_request env < 0 then Some (0, None, chip)
                          else if \<not> ie_domain_ok env then Some (- ENODEV, None, chip)
                          else if \<not> setup then None
                          else Some (ie_request_irq env,
                                     Some (if ie_gpio_value env \<noteq> 0 then TRIGGER_FALLING else TRIGGER_RISING),
                                     chip\<lparr>rk_irq_domain := True\<rparr>)) }) })"

subsection \<open>Register initialisation\<close>

definition rk818_pre_init :: "'d i2c_xfer \<Rightarrow> 'd rk818_chip \<Rightarrow> (int \<times> 'd rk818_chip) option" where
  "rk818_pre_init xfer chip =
     do { (_, chip) \<leftarrow> rk818_set_bits xfer chip 0xa1 0xf 0x7;
          (_, chip) \<leftarrow> rk818_set_bits xfer chip 0xa1 0x70 0x70;
          (_, chip) \<leftarrow> rk818_set_bits xfer chip 0x52 0x2 0x2;
          (_, chip) \<leftarrow> rk818_set_bits xfer chip 0x52 0x1 0x1;
          (val, chip) \<leftarrow> rk818_reg_read xfer chip RK818_DCDC_EN_REG;
          (ret, chip) \<leftarrow> rk818_reg_write xfer chip RK818_DCDC_EN_REG (val OR 0x60 OR 0x10);
          (if ret < 0 then Some (ret, chip) else
           do { (val, chip) \<leftarrow> rk818_reg_read xfer chip RK818_VB_MON_REG;
                (ret, chip) \<leftarrow> rk818_reg_write xfer chip RK818_VB_MON_REG ((val AND NOT (0x07 OR 0x10)) OR (0x02 OR 0x00));
                (if ret < 0 then Some (ret, chip) else
                 do { (val, chip) \<leftarrow> rk818_reg_read xfer chip RK818_INT_STS_MSK_REG1;
                      (ret, chip) \<leftarrow> rk818_reg_write xfer chip RK818_INT_STS_MSK_REG1 (val OR 0x1);
                      (if ret < 0 then Some (ret, chip) else
                       do { (ret, chip) \<leftarrow> rk818_reg_write xfer chip RK818_CLK32OUT_REG 0x01;
                            (if ret < 0 then Some (ret, chip) else
                             do { (_, chip) \<leftarrow> rk818_clear_bits xfer chip RK818_INT_STS_MSK_REG1 0x60;
                                  (_, chip) \<leftarrow> rk818_set_bits xfer chip RK818_RTC_INT_REG 0x8 0x8;
                                  (val, chip) \<leftarrow> rk818_reg_read xfer chip RK818_SLEEP_SET_OFF_REG1;
                                  (ret, chip) \<leftarrow> rk818_reg_write xfer chip RK818_SLEEP_SET_OFF_REG1 (val OR (0x80 OR 0x10));
                                  Some (if ret < 0 then ret else 0, chip) }) }) }) }) }"

subsection \<open>The pending word\<close>

definition pend :: "u8 \<Rightarrow> u8 \<Rightarrow> u32" where
  "pend lo hi = ucast lo OR push_bit 8 (ucast hi)"

lemma bit_pend: "bit (pend lo hi) i = (if i < 8 then bit lo i else bit hi (i - 8))"
  by (auto simp: pend_def bit_simps dest: bit_imp_le_length)

lemma mask8: "(0xff :: u32) = mask 8"
  by (simp add: mask_eq_exp_minus_1)

lemma pend_masked: "pend s1 s2 AND NOT (pend m1 m2) = pend (s1 AND NOT m1) (s2 AND NOT m2)"
  by (rule bit_word_eqI) (auto simp: bit_pend bit_simps dest: bit_imp_le_length)

lemma pend_low: "(ucast (pend lo hi AND 0xff) :: u8) = lo"
  by (rule bit_word_eqI) (auto simp: bit_pend bit_simps mask8)

lemma pend_high: "(ucast (drop_bit 8 (pend lo hi) AND 0xff) :: u8) = hi"
  by (rule bit_word_eqI) (auto simp: bit_pend bit_simps mask8)

lemma pend_zero: "pend lo hi = 0 \<longleftrightarrow> lo = 0 \<and> hi = 0"
  using pend_low [of lo hi] pend_high [of lo hi] by (auto simp: pend_def)

text \<open>The hardware interrupts that are asserted and not masked, in the order of their bits.\<close>

definition pending_irqs :: "nat \<Rightarrow> u8 \<Rightarrow> u8 \<Rightarrow> nat list" where
  "pending_irqs n lo hi = filter (\<lambda>i. if i < 8 then bit lo i else bit hi (i - 8)) [0..<n]"

lemma rk818_irq_cong:
  "rk_irq_num chip = n \<Longrightarrow> filter (\<lambda>i. pend lo hi AND BIT i \<noteq> 0) [0..<rk_irq_num chip] = pending_irqs n lo hi"
  by (simp add: pending_irqs_def bit_pend)

context rk818_pmic
begin

lemma rk818_irq_eq:
  assumes "rk_client chip = Some a"
  shows "rk818_irq xfer fm chip =
    (let lo = reg (rk_bus chip) 0x4c AND NOT (reg (rk_bus chip) 0x4d);
         hi = reg (rk_bus chip) 0x4e AND NOT (reg (rk_bus chip) 0x4f);
         chip0 = chip\<lparr>rk_irq_wake := True\<rparr>;
         chip1 = snd (rk818_i2c_write xfer chip0 0x4c 1 lo);
         chip2 = snd (rk818_i2c_write xfer chip1 0x4e 1 hi)
     in if lo = 0 \<and> hi = 0 then Some (IRQ_NONE, [], chip\<lparr>rk_irq_wake := False\<rparr>)
        else Some (IRQ_HANDLED, filter (\<lambda>v. v \<noteq> 0) (map fm (pending_irqs (rk_irq_num chip) lo hi)),
                   chip2\<lparr>rk_irq_wake := False\<rparr>))"
proof -
  have c: "rk_client (chip\<lparr>rk_irq_wake := True\<rparr>) = Some a" using assms by simp
  show ?thesis
    using assms
    by (simp add: rk818_irq_def i2c_read_ok [OF c] pend_def [symmetric] pend_masked pend_zero pend_low pend_high
        rk818_irq_cong Let_def bit_pend pending_irqs_def del: One_nat_def)
qed

lemma sync_unlock_eq:
  assumes "rk_client chip = Some a"
  shows "rk818_irq_sync_unlock xfer chip = Some (chip\<lparr>rk_irq_lock := False\<rparr>)"
  by (simp add: rk818_irq_sync_unlock_def i2c_read_ok [OF assms] Let_def del: One_nat_def)

end

end
