(* ===== verification/Rk818_Calls.thy ===== *)
theory Rk818_Calls
  imports Rk818_Irq
begin

text \<open>
  Sequences of operations through the RK818 operation tables on a bus that may fail: the
  I2C core is arbitrary but for delivering some byte for every read. The I/O lock is taken
  and released by every operation, so no sequence of calls blocks on it.
\<close>

subsection \<open>The operation tables as a type of calls\<close>

text \<open>
  One constructor per entry of \<^verbatim>\<open>struct regulator_ops\<close> that touches the chip; \<open>i\<close> indexes the
  descriptor table.
\<close>

datatype rk818_call =
    Enable int | Disable int | Is_enabled int
  | Suspend_enable int | Suspend_disable int
  | Set_voltage int int int | Get_voltage int | Set_suspend_voltage int int
  | Set_mode int reg_mode | Get_mode int | Set_suspend_mode int reg_mode

fun call_id :: "rk818_call \<Rightarrow> int" where
  "call_id (Enable i) = i"
| "call_id (Disable i) = i"
| "call_id (Is_enabled i) = i"
| "call_id (Suspend_enable i) = i"
| "call_id (Suspend_disable i) = i"
| "call_id (Set_voltage i _ _) = i"
| "call_id (Get_voltage i) = i"
| "call_id (Set_suspend_voltage i _) = i"
| "call_id (Set_mode i _) = i"
| "call_id (Get_mode i) = i"
| "call_id (Set_suspend_mode i _) = i"

definition mode_code :: "reg_mode \<Rightarrow> int" where
  "mode_code m = (case m of MODE_FAST \<Rightarrow> 1 | MODE_NORMAL \<Rightarrow> 2 | MODE_IDLE \<Rightarrow> 4 | MODE_STANDBY \<Rightarrow> 8)"

text \<open>\<^verbatim>\<open>rk818_dcdc_ops\<close> and \<^verbatim>\<open>rk818_ldo_ops\<close>; an entry the table leaves NULL is None.\<close>

fun rk818_dcdc_call :: "'d i2c_xfer \<Rightarrow> 'd rk818_chip \<Rightarrow> rk818_call \<Rightarrow> (int \<times> 'd rk818_chip) option" where
  "rk818_dcdc_call x c (Enable i) = rk818_dcdc_enable x c i"
| "rk818_dcdc_call x c (Disable i) = rk818_dcdc_disable x c i"
| "rk818_dcdc_call x c (Is_enabled i) = rk818_dcdc_is_enabled x c i"
| "rk818_dcdc_call x c (Suspend_enable i) = rk818_dcdc_suspend_enable x c i"
| "rk818_dcdc_call x c (Suspend_disable i) = rk818_dcdc_suspend_disable x c i"
| "rk818_dcdc_call x c (Set_voltage i lo hi) = rk818_dcdc_set_voltage x c i lo hi"
| "rk818_dcdc_call x c (Get_voltage i) = rk818_dcdc_get_voltage x c i"
| "rk818_dcdc_call x c (Set_suspend_voltage i uV) = rk818_dcdc_set_sleep_voltage x c i uV"
| "rk818_dcdc_call x c (Set_mode i m) = rk818_dcdc_set_mode x c i m"
| "rk818_dcdc_call x c (Get_mode i) =
     do { (m, c) \<leftarrow> rk818_dcdc_get_mode x c i; Some (mode_code m, c) }"
| "rk818_dcdc_call x c (Set_suspend_mode i m) = rk818_dcdc_set_suspend_mode x c i m"

fun rk818_ldo_call :: "'d i2c_xfer \<Rightarrow> 'd rk818_chip \<Rightarrow> rk818_call \<Rightarrow> (int \<times> 'd rk818_chip) option" where
  "rk818_ldo_call x c (Enable i) = rk818_ldo_enable x c i"
| "rk818_ldo_call x c (Disable i) = rk818_ldo_disable x c i"
| "rk818_ldo_call x c (Is_enabled i) = rk818_ldo_is_enabled x c i"
| "rk818_ldo_call x c (Suspend_enable i) = rk818_ldo_suspend_enable x c i"
| "rk818_ldo_call x c (Suspend_disable i) = rk818_ldo_suspend_disable x c i"
| "rk818_ldo_call x c (Set_voltage i lo hi) = rk818_ldo_set_voltage x c i lo hi"
| "rk818_ldo_call x c (Get_voltage i) = rk818_ldo_get_voltage x c i"
| "rk818_ldo_call x c (Set_suspend_voltage i uV) = rk818_ldo_set_sleep_voltage x c i uV"
| "rk818_ldo_call x c _ = None"

definition rk818_do :: "'d i2c_xfer \<Rightarrow> 'd rk818_chip \<Rightarrow> rk818_call \<Rightarrow> (int \<times> 'd rk818_chip) option" where
  "rk818_do x c k =
     do { desc \<leftarrow> aref rk818_regulators (call_id k);
          (case rd_ops desc of
             rk818_dcdc_ops \<Rightarrow> rk818_dcdc_call x c k
           | rk818_ldo_ops \<Rightarrow> rk818_ldo_call x c k) }"

fun rk818_do_all ::
  "'d i2c_xfer \<Rightarrow> 'd rk818_chip \<Rightarrow> rk818_call list \<Rightarrow> (int list \<times> 'd rk818_chip) option" where
  "rk818_do_all x c [] = Some ([], c)"
| "rk818_do_all x c (k # ks) =
     do { (r, c) \<leftarrow> rk818_do x c k; (rs, c) \<leftarrow> rk818_do_all x c ks; Some (r # rs, c) }"

text \<open>
  The calls that are defined on every register content: all of the bucks', those of LDO1 to
  LDO9 except \<^verbatim>\<open>get_voltage\<close> (which indexes a short table with six bits of the register),
  the switches of LDO10.
\<close>

fun total_call :: "rk818_call \<Rightarrow> bool" where
  "total_call (Get_voltage i) = (i \<in> {0..3})"
| "total_call (Set_voltage i _ _) = (i \<in> {0..12})"
| "total_call (Set_suspend_voltage i _) = (i \<in> {0..12})"
| "total_call (Set_mode i _) = (i \<in> {0..3})"
| "total_call (Get_mode i) = (i \<in> {0..3})"
| "total_call (Set_suspend_mode i _) = (i \<in> {0..3})"
| "total_call k = (call_id k \<in> {0..13})"

subsection \<open>Every call comes back with the lock free\<close>

definition delivers :: "'d i2c_xfer \<Rightarrow> bool" where
  "delivers xfer \<longleftrightarrow> (\<forall>d ms. ms \<noteq> [] \<and> m_read (last ms) \<longrightarrow> fst (snd (xfer d ms)) \<noteq> [])"

text \<open>The call returns, to a chip that is bound to the same address and whose lock is free.\<close>

definition returns :: "u16 \<Rightarrow> ('r \<times> 'd rk818_chip) option \<Rightarrow> bool" where
  "returns a m \<longleftrightarrow> (\<exists>r c'. m = Some (r, c') \<and> rk818_ready a c')"

lemma returns_Some [simp]: "returns a (Some (r, c)) = rk818_ready a c"
  by (simp add: returns_def)

lemma returns_bind: "returns a m \<Longrightarrow> (\<And>r c. rk818_ready a c \<Longrightarrow> returns a (f (r, c))) \<Longrightarrow> returns a (m \<bind> f)"
  by (auto simp: returns_def)

lemma i2c_read_delivers:
  assumes "delivers xfer" "rk_client c = Some a"
  shows "\<exists>b d. rk818_i2c_read xfer c r 1 = Some (0, Some b, c\<lparr>rk_bus := d\<rparr>)"
proof -
  let ?ms = "[\<lparr>m_addr = a, m_read = False, m_buf = [r], m_len = 1, m_scl_rate = 200 * 1000\<rparr>,
    \<lparr>m_addr = a, m_read = True, m_buf = [], m_len = 1, m_scl_rate = RK818_I2C_ADDR_RATE\<rparr>]"
  have "fst (snd (xfer (rk_bus c) ?ms)) \<noteq> []" using assms(1) by (simp add: delivers_def)
  then show ?thesis using assms(2)
    by (cases "xfer (rk_bus c) ?ms") (auto simp: rk818_i2c_read_def neq_Nil_conv)
qed

lemma i2c_write_frame: "\<exists>e d. rk818_i2c_write xfer c r 1 v = (e, c\<lparr>rk_bus := d\<rparr>)"
proof (cases "rk_client c")
  case None
  then show ?thesis by (auto simp: rk818_i2c_write_def intro: exI [of _ "rk_bus c"])
next
  case (Some a)
  then show ?thesis by (auto simp: rk818_i2c_write_def split: prod.splits)
qed

lemma reg_read_returns: "delivers xfer \<Longrightarrow> rk818_ready a c \<Longrightarrow> returns a (rk818_reg_read xfer c r)"
  using i2c_read_delivers [of xfer "c\<lparr>rk_io_lock := True\<rparr>" a r]
  by (auto simp: rk818_reg_read_def rk818_ready_def simp del: One_nat_def)

lemma set_bits_returns:
  assumes "delivers xfer" "rk818_ready a c"
  shows "returns a (rk818_set_bits xfer c r m v)"
proof -
  let ?c = "c\<lparr>rk_io_lock := True\<rparr>"
  have c: "rk_client ?c = Some a" "\<not> rk_io_lock c" using assms(2) by (simp_all add: rk818_ready_def)
  obtain b d where 1: "rk818_i2c_read xfer ?c r 1 = Some (0, Some b, ?c\<lparr>rk_bus := d\<rparr>)"
    using i2c_read_delivers [OF assms(1) c(1)] by blast
  obtain e d2 where 2: "rk818_i2c_write xfer (?c\<lparr>rk_bus := d\<rparr>) r 1 (put_field b m v) = (e, ?c\<lparr>rk_bus := d2\<rparr>)"
    using i2c_write_frame [of xfer "?c\<lparr>rk_bus := d\<rparr>" r "put_field b m v"] by auto
  have "rk_client (?c\<lparr>rk_bus := d2\<rparr>) = Some a" using c by simp
  then obtain b3 d3 where "rk818_i2c_read xfer (?c\<lparr>rk_bus := d2\<rparr>) r 1 = Some (0, Some b3, ?c\<lparr>rk_bus := d3\<rparr>)"
    using i2c_read_delivers [OF assms(1)] by fastforce
  with 1 2 c show ?thesis by (simp add: rk818_set_bits_def rk818_ready_def Let_def del: One_nat_def)
qed

lemmas chip_returns = reg_read_returns set_bits_returns

lemma dcdc_list_total: "i \<in> {0..3} \<Longrightarrow> \<exists>v. rk818_dcdc_list_voltage i k = Some v"
  by (auto simp: rk818_dcdc_list_voltage_def)

lemma dcdc_select_total: "i \<in> {0..3} \<Longrightarrow> \<exists>v. rk818_dcdc_select_min_voltage i lo hi i = Some v"
proof -
  assume i: "i \<in> {0..3}"
  have "\<exists>v. (case vsel of None \<Rightarrow> Some (- EINVAL)
      | Some (vsel :: u16) \<Rightarrow> do { v \<leftarrow> rk818_dcdc_list_voltage i (unat vsel);
                                   Some (if v > hi then - EINVAL else uint vsel) }) = Some v" for vsel
  proof (cases vsel)
    case (Some s)
    obtain v where "rk818_dcdc_list_voltage i (unat s) = Some v" using dcdc_list_total [OF i] by blast
    with Some show ?thesis by simp
  qed simp
  then show ?thesis unfolding rk818_dcdc_select_min_voltage_def Let_def by blast
qed

lemma buck_addr: "i \<in> {0..3} \<Longrightarrow> \<exists>r. aref buck_set_vol_base_addr i = Some r"
  "i \<in> {0..3} \<Longrightarrow> \<exists>r. aref buck_set_slp_vol_base_addr i = Some r"
  by (auto simp: aref_def buck_set_vol_base_addr_def buck_set_slp_vol_base_addr_def)

lemma ldo_addr: "i \<in> {4..12} \<Longrightarrow> \<exists>r. aref ldo_set_vol_base_addr (i - 4) = Some r"
  "i \<in> {4..12} \<Longrightarrow> \<exists>r. aref ldo_set_slp_vol_base_addr (i - 4) = Some r"
  by (auto simp: aref_def ldo_set_vol_base_addr_def ldo_set_slp_vol_base_addr_def)

lemmas dcdc_call_defs = rk818_dcdc_enable_def rk818_dcdc_disable_def rk818_dcdc_is_enabled_def
  rk818_dcdc_suspend_enable_def rk818_dcdc_suspend_disable_def rk818_dcdc_set_voltage_def
  rk818_dcdc_get_voltage_def rk818_dcdc_set_sleep_voltage_def rk818_dcdc_set_mode_def
  rk818_dcdc_get_mode_def rk818_dcdc_set_suspend_mode_def

lemmas ldo_call_defs = rk818_ldo_enable_def rk818_ldo_disable_def rk818_ldo_is_enabled_def
  rk818_ldo_suspend_enable_def rk818_ldo_suspend_disable_def rk818_ldo_set_voltage_def
  rk818_ldo_set_sleep_voltage_def

lemma dcdc_call_returns:
  assumes "delivers xfer" "rk818_ready a c" "call_id k \<in> {0..3}"
  shows "returns a (rk818_dcdc_call xfer c k)"
proof -
  note i = assms(3)
  obtain r s where rs: "aref buck_set_vol_base_addr (call_id k) = Some r"
    "aref buck_set_slp_vol_base_addr (call_id k) = Some s"
    using buck_addr [OF i] by blast
  have l: "\<exists>v. rk818_dcdc_list_voltage (call_id k) n = Some v" for n by (rule dcdc_list_total [OF i])
  have sel: "\<exists>v. rk818_dcdc_select_min_voltage (call_id k) lo hi (call_id k) = Some v" for lo hi
    by (rule dcdc_select_total [OF i])
  show ?thesis
  proof (cases k)
    case (Set_voltage j lo hi)
    with rs sel [of lo hi] assms(1,2) show ?thesis
      by (auto simp: rk818_dcdc_set_voltage_def intro!: returns_bind chip_returns)
  next
    case (Get_voltage j)
    with rs l assms(1,2) show ?thesis
      by (auto simp: rk818_dcdc_get_voltage_def Let_def intro!: returns_bind chip_returns)
        (metis bind.bind_lunit case_prod_conv returns_Some)
  next
    case (Set_suspend_voltage j uV)
    with rs sel [of uV uV] assms(1,2) show ?thesis
      by (auto simp: rk818_dcdc_set_sleep_voltage_def intro!: returns_bind chip_returns)
  next
    case (Set_mode j m)
    with rs assms(1,2) show ?thesis
      by (cases m) (auto simp: rk818_dcdc_set_mode_def intro!: chip_returns)
  next
    case (Set_suspend_mode j m)
    with rs assms(1,2) show ?thesis
      by (cases m) (auto simp: rk818_dcdc_set_suspend_mode_def intro!: chip_returns)
  next
    case (Get_mode j)
    with rs assms(1,2) show ?thesis
      by (auto simp: rk818_dcdc_get_mode_def intro!: returns_bind chip_returns)
  qed (use assms(1,2) in \<open>auto simp: dcdc_call_defs Let_def intro!: returns_bind chip_returns\<close>)
qed

lemma ldo_call_returns:
  assumes "delivers xfer" "rk818_ready a c" "total_call k" "4 \<le> call_id k"
  shows "returns a (rk818_ldo_call xfer c k)"
proof (cases k)
  case (Set_voltage j lo hi)
  with assms(3,4) have "j \<in> {4..12}" by simp
  from ldo_addr(1) [OF this] obtain r where "aref ldo_set_vol_base_addr (j - 4) = Some r" by blast
  with Set_voltage assms(1,2) show ?thesis
    by (auto simp: rk818_ldo_set_voltage_def Let_def split: prod.split intro!: chip_returns)
next
  case (Set_suspend_voltage j uV)
  with assms(3,4) have "j \<in> {4..12}" by simp
  from ldo_addr(2) [OF this] obtain r where "aref ldo_set_slp_vol_base_addr (j - 4) = Some r" by blast
  with Set_suspend_voltage assms(1,2) show ?thesis
    by (auto simp: rk818_ldo_set_sleep_voltage_def Let_def split: prod.split intro!: chip_returns)
qed (use assms in \<open>auto simp: ldo_call_defs Let_def intro!: returns_bind chip_returns\<close>)

lemma do_returns:
  assumes "delivers xfer" "rk818_ready a c" "total_call k"
  shows "returns a (rk818_do xfer c k)"
proof -
  have i: "0 \<le> call_id k" "call_id k < 14" using assms(3) by (cases k; auto)+
  show ?thesis
  proof (cases "call_id k < 4")
    case True
    with i show ?thesis using dcdc_call_returns [OF assms(1,2), of k]
      by (simp add: rk818_do_def regulators_aref)
  next
    case False
    with i show ?thesis using ldo_call_returns [OF assms]
      by (simp add: rk818_do_def regulators_aref)
  qed
qed

lemma do_all_returns:
  "delivers xfer \<Longrightarrow> rk818_ready a c \<Longrightarrow> list_all total_call ks \<Longrightarrow>
   \<exists>rs c'. rk818_do_all xfer c ks = Some (rs, c') \<and> length rs = length ks \<and> rk818_ready a c'"
proof (induction ks arbitrary: c)
  case Nil
  then show ?case by simp
next
  case (Cons k ks)
  obtain r c1 where "rk818_do xfer c k = Some (r, c1)" "rk818_ready a c1"
    using do_returns [of xfer a c k] Cons.prems by (auto simp: returns_def)
  moreover from Cons.IH [OF Cons.prems(1) this(2)] Cons.prems(3)
  obtain rs c2 where "rk818_do_all xfer c1 ks = Some (rs, c2)" "length rs = length ks" "rk818_ready a c2"
    by auto
  ultimately show ?case by simp
qed

end
