(* ===== verification/Rk818_Props.thy ===== *)
theory Rk818_Props
  imports Rk818_Calls
begin

text \<open>
  The properties of the RK818 driver: the contracts of the regulator core on the driver's
  own operations, the buck voltages, the lock discipline over arbitrary call sequences and
  an arbitrary I2C core, the interrupt handler, and the places where the code leaves the
  contract (LDO9, LDO10, requests above a buck's range, interrupt masks).
\<close>

subsection \<open>Buck voltages\<close>

definition buck_base :: "int \<Rightarrow> int" where "buck_base i = (if i = 3 then 1800000 else 712500)"
definition buck_step :: "int \<Rightarrow> int" where "buck_step i = (if i = 3 then 100000 else 12500)"
definition buck_top :: "int \<Rightarrow> int" where "buck_top i = (if i = 3 then 3300000 else 1500000)"
definition buck_reg :: "int \<Rightarrow> u8" where "buck_reg i = buck_set_vol_base_addr ! nat i"

lemmas buck_defs = buck_base_def buck_step_def buck_top_def

text \<open>The voltage the driver picks: the request rounded down to a step.\<close>

definition buck_floor :: "int \<Rightarrow> int \<Rightarrow> int" where
  "buck_floor i lo = buck_base i + buck_step i * ((lo - buck_base i) div buck_step i)"

lemma buck_floor_bounds: "buck_floor i lo \<le> lo \<and> lo < buck_floor i lo + buck_step i"
proof -
  have s: "0 < buck_step i" by (simp add: buck_step_def)
  have "buck_step i * ((lo - buck_base i) div buck_step i) + (lo - buck_base i) mod buck_step i = lo - buck_base i"
    by simp
  with pos_mod_bound [OF s, of "lo - buck_base i"] pos_mod_sign [OF s, of "lo - buck_base i"]
  show ?thesis unfolding buck_floor_def by linarith
qed

lemma buck_reg_aref: "i \<in> {0, 1, 3} \<Longrightarrow> aref buck_set_vol_base_addr i = Some (buck_reg i)"
  by (auto simp: aref_def buck_reg_def buck_set_vol_base_addr_def)

lemma buck_reg_plain: "i \<in> {0, 1, 3} \<Longrightarrow> rk818_plain (buck_reg i)"
  by (auto simp: buck_reg_def buck_set_vol_base_addr_def rk818_plain_def)

lemma buck_list_voltage: "i \<in> {0, 1, 3} \<Longrightarrow> k < 64 \<Longrightarrow>
    rk818_dcdc_list_voltage i k = Some (buck_base i + buck_step i * int k)"
  by (auto simp: rk818_dcdc_list_voltage_def buck_defs)

lemma buck_index:
  assumes "i \<in> {0, 1, 3}" "buck_base i \<le> lo" "lo \<le> buck_top i"
  shows "0 \<le> (lo - buck_base i) div buck_step i \<and> (lo - buck_base i) div buck_step i < 64"
  using assms by (auto simp: buck_defs pos_imp_zdiv_nonneg_iff)

lemma select_min_ok:
  assumes "i \<in> {0, 1, 3}" "buck_base i \<le> lo" "lo \<le> buck_top i" "buck_floor i lo \<le> hi"
  shows "rk818_dcdc_select_min_voltage i lo hi i = Some ((lo - buck_base i) div buck_step i)"
proof -
  define k where "k = (lo - buck_base i) div buck_step i"
  have k: "0 \<le> k" "k < 64" using buck_index [OF assms(1-3)] by (simp_all add: k_def)
  then have w: "uint (word_of_int k :: u16) = k" "unat (word_of_int k :: u16) = nat k"
    by (simp_all add: unsigned_of_int take_bit_int_eq_self)
  have "nat k < 64" using k by simp
  from buck_list_voltage [OF assms(1) this]
  have l: "rk818_dcdc_list_voltage i (nat k) = Some (buck_floor i lo)"
    using k(1) by (simp add: buck_floor_def k_def [symmetric])
  have d: "(lo - buck_base i) sdiv buck_step i = k"
    using assms(2) by (simp add: k_def sdiv_nonneg buck_step_def)
  show ?thesis
    using assms(1-3) l w d assms(4)
    unfolding k_def [symmetric]
    by (auto simp: rk818_dcdc_select_min_voltage_def Let_def buck_defs split: if_splits)
qed

lemma select_min_above:
  "i \<in> {0, 1, 3} \<Longrightarrow> buck_top i < lo \<Longrightarrow> rk818_dcdc_select_min_voltage i lo hi i = Some (- EINVAL)"
  by (auto simp: rk818_dcdc_select_min_voltage_def buck_defs)

lemma fits_3f: "0 \<le> k \<Longrightarrow> k < 64 \<Longrightarrow> fits 0x3f (ucast (word_of_int k :: u16) :: u8)"
proof -
  assume k: "0 \<le> k" "k < 64"
  have "(ucast (word_of_int k :: u16) :: u8) = word_of_nat (nat k)"
    using k by (simp add: unsigned_of_int take_bit_int_eq_self)
  then show ?thesis using low_mask [of 6 "nat k"] k by (simp add: mask_5_6)
qed

lemma unat_3f: "0 \<le> k \<Longrightarrow> k < 64 \<Longrightarrow> unat (ucast (word_of_int k :: u16) :: u8) = nat k"
proof -
  assume k: "0 \<le> k" "k < 64"
  have "(ucast (word_of_int k :: u16) :: u8) = word_of_nat (nat k)"
    using k by (simp add: unsigned_of_int take_bit_int_eq_self)
  moreover have "unat (word_of_nat (nat k) :: u8) = nat k"
    using k by (simp add: unsigned_of_nat take_bit_nat_eq_self del: of_nat_nat)
  ultimately show ?thesis by simp
qed

context rk818_pmic
begin

lemma dcdc_get_eq:
  assumes "rk818_ready a c" "i \<in> {0, 1, 3}"
  shows "rk818_dcdc_get_voltage xfer c i =
    Some (buck_base i + buck_step i * uint (reg (rk_bus c) (buck_reg i) AND 0x3f), c)"
proof -
  let ?w = "reg (rk_bus c) (buck_reg i) AND 0x3f"
  have "?w \<le> 0x3f" by (rule word_and_le1)
  then have "unat ?w < 64" by (simp add: word_le_nat_alt)
  moreover have "unat (ucast ?w :: u16) = unat ?w" by (simp only: unat_eq_nat_uint uint_ucast_8_16)
  ultimately show ?thesis
    using assms
    by (simp add: rk818_dcdc_get_voltage_def buck_reg_aref reg_read_ok ucast_and_lit buck_list_voltage)
qed

text \<open>The register write the set functions make once the selector is chosen.\<close>

lemma dcdc_write:
  assumes "rk818_ready a c" "i \<in> {0, 1, 3}"
  shows "\<exists>d'. rk818_set_bits xfer c (buck_reg i) 0x3f v = Some (0, c\<lparr>rk_bus := d'\<rparr>) \<and>
    reg d' = (reg (rk_bus c))(buck_reg i := put_field (reg (rk_bus c) (buck_reg i)) 0x3f v)"
  by (rule set_bits_ok [OF assms(1) buck_reg_plain [OF assms(2)]])

lemma put_field_absorb: "put_field (put_field w m v) m v = put_field w m (v :: 'n::len word)"
  by (rule bit_word_eqI) (auto simp: put_field_def bit_simps)

text \<open>Buck 4 (descriptor 3) writes its selector twice, to the same effect.\<close>

lemma dcdc_set_select:
  assumes "rk818_ready a c" "i \<in> {0, 1, 3}" "rk818_dcdc_select_min_voltage i lo hi i = Some k"
  shows "\<exists>d'. rk818_dcdc_set_voltage xfer c i lo hi = Some (0, c\<lparr>rk_bus := d'\<rparr>) \<and>
    reg d' = (reg (rk_bus c))(buck_reg i := put_field (reg (rk_bus c) (buck_reg i)) 0x3f (ucast (word_of_int k :: u16)))"
proof -
  let ?v = "ucast (word_of_int k :: u16) :: u8"
  obtain d1 where d1: "rk818_set_bits xfer c (buck_reg i) 0x3f ?v = Some (0, c\<lparr>rk_bus := d1\<rparr>)"
    "reg d1 = (reg (rk_bus c))(buck_reg i := put_field (reg (rk_bus c) (buck_reg i)) 0x3f ?v)"
    using dcdc_write [OF assms(1,2), of ?v] by blast
  have "rk818_ready a (c\<lparr>rk_bus := d1\<rparr>)" using assms(1) by simp
  from dcdc_write [OF this assms(2), of ?v] obtain d2 where
    d2: "rk818_set_bits xfer (c\<lparr>rk_bus := d1\<rparr>) (buck_reg i) 0x3f ?v = Some (0, c\<lparr>rk_bus := d2\<rparr>)"
    "reg d2 = (reg d1)(buck_reg i := put_field (reg d1 (buck_reg i)) 0x3f ?v)"
    by auto
  show ?thesis
  proof (cases "i = 3")
    case True
    with assms d1 d2 show ?thesis
      by (intro exI [of _ d2]) (auto simp: rk818_dcdc_set_voltage_def buck_reg_aref [of 3] put_field_absorb fun_eq_iff)
  next
    case False
    with assms d1 show ?thesis
      by (intro exI [of _ d1]) (auto simp: rk818_dcdc_set_voltage_def buck_reg_aref)
  qed
qed

lemma dcdc_set_get:
  assumes "rk818_ready a c" "i \<in> {0, 1, 3}" "buck_base i \<le> lo" "lo \<le> buck_top i" "buck_floor i lo \<le> hi"
  shows "\<exists>c'. rk818_dcdc_set_voltage xfer c i lo hi = Some (0, c') \<and> rk818_ready a c' \<and>
    rk818_dcdc_get_voltage xfer c' i = Some (buck_floor i lo, c')"
proof -
  define k where "k = (lo - buck_base i) div buck_step i"
  have k: "0 \<le> k" "k < 64" using buck_index [OF assms(2-4)] by (simp_all add: k_def)
  obtain d' where d': "rk818_dcdc_set_voltage xfer c i lo hi = Some (0, c\<lparr>rk_bus := d'\<rparr>)"
    "reg d' = (reg (rk_bus c))(buck_reg i := put_field (reg (rk_bus c) (buck_reg i)) 0x3f (ucast (word_of_int k :: u16)))"
    using dcdc_set_select [OF assms(1,2) select_min_ok [OF assms(2-5)]] by (auto simp: k_def)
  define v where "v = (ucast (word_of_int k :: u16) :: u8)"
  have f: "fits 0x3f v" and v: "uint v = k"
    using k unat_3f [OF k] fits_3f [OF k] by (simp_all add: v_def uint_nat)
  have "uint (reg d' (buck_reg i) AND 0x3f) = k"
    by (simp only: d'(2) v_def [symmetric] fun_upd_same put_field_masked [OF f] v)
  then have "rk818_dcdc_get_voltage xfer (c\<lparr>rk_bus := d'\<rparr>) i = Some (buck_floor i lo, c\<lparr>rk_bus := d'\<rparr>)"
    using assms(1,2) by (simp add: dcdc_get_eq buck_floor_def k_def)
  with d'(1) assms(1) show ?thesis by auto
qed

lemma dcdc_set_above:
  assumes "rk818_ready a c" "i \<in> {0, 1, 3}" "buck_top i < lo"
  shows "\<exists>c'. rk818_dcdc_set_voltage xfer c i lo hi = Some (0, c') \<and>
    reg (rk_bus c') (buck_reg i) = (reg (rk_bus c) (buck_reg i) AND 0xc0) OR 0xea \<and>
    rk818_dcdc_get_voltage xfer c' i = Some (buck_base i + buck_step i * 42, c')"
proof -
  obtain d' where d': "rk818_dcdc_set_voltage xfer c i lo hi = Some (0, c\<lparr>rk_bus := d'\<rparr>)"
    "reg d' = (reg (rk_bus c))(buck_reg i := put_field (reg (rk_bus c) (buck_reg i)) 0x3f (ucast (word_of_int (- 22) :: u16)))"
    using dcdc_set_select [OF assms(1,2) select_min_above [OF assms(2,3)]] by auto
  have w: "put_field w 0x3f (ucast (word_of_int (- 22) :: u16)) = (w AND 0xc0) OR (0xea :: u8)" for w
  proof -
    have "(ucast (word_of_int (- 22) :: u16) :: u8) = 0xea" "NOT (0x3f :: u8) = 0xc0" by simp_all
    then show ?thesis by (simp only: put_field_def)
  qed
  have "(((w :: u8) AND 0xc0) OR 0xea) AND 0x3f = 0x2a" for w
  proof -
    have "((w AND 0xc0) OR 0xea) AND 0x3f = (w AND (0xc0 AND 0x3f)) OR (0xea AND (0x3f :: u8))"
      by (simp only: word_bw_comms word_bw_lcs bit.conj_disj_distrib bit.conj_disj_distrib2 ac_simps)
    then show ?thesis by simp
  qed
  then have "uint (reg d' (buck_reg i) AND 0x3f) = 42"
    by (simp only: d'(2) w fun_upd_same) simp
  moreover have "reg d' (buck_reg i) = (reg (rk_bus c) (buck_reg i) AND 0xc0) OR 0xea"
    by (simp only: d'(2) w fun_upd_same)
  ultimately show ?thesis using d'(1) assms(1,2)
    by (intro exI [of _ "c\<lparr>rk_bus := d'\<rparr>"]) (simp add: dcdc_get_eq)
qed

lemma switch_reports: "rk818_ready a c \<Longrightarrow> fst ` set qs \<subseteq> {0..11} \<Longrightarrow> i \<in> {0..11} \<Longrightarrow>
    \<exists>c'. switch_run (rk818_enable xfer) (rk818_disable xfer) c qs = Some c' \<and> rk818_ready a c' \<and>
      rk818_is_enabled xfer c' i = Some (if switch_spec (rk818_on reg c) qs i then 1 else 0, c')"
  by (rule switch.run_reports)

lemma ldo_set_least:
  assumes "rk818_ready a c" "i \<in> {4..12}" "uV_served (ldo_tab i) lo hi"
  shows "\<exists>c' v. rk818_ldo_set_voltage xfer c i lo hi = Some (0, c') \<and>
    rk818_ldo_get_voltage xfer c' i = Some (1000 * v, c') \<and>
    v \<in> set (ldo_tab i) \<and> lo sdiv 1000 \<le> v \<and> v \<le> hi sdiv 1000 \<and>
    (\<forall>w \<in> set (ldo_tab i). lo sdiv 1000 \<le> w \<longrightarrow> v \<le> w) \<and>
    (\<forall>j \<in> {4..12}. j \<noteq> i \<longrightarrow>
      map_option fst (rk818_ldo_get_voltage xfer c' j) = map_option fst (rk818_ldo_get_voltage xfer c j))"
  using ldo.set_least [OF assms] ldo.set_ok [OF assms] by fastforce

lemma ldo_fixpoint:
  "rk818_ready a c \<Longrightarrow> i \<in> {4..12} \<Longrightarrow> uV_served (ldo_tab i) lo hi \<Longrightarrow>
    \<exists>c' c'' v. rk818_ldo_set_voltage xfer c i lo hi = Some (0, c') \<and>
      rk818_ldo_get_voltage xfer c' i = Some (v, c') \<and>
      rk818_ldo_set_voltage xfer c' i v v = Some (0, c'') \<and> rk818_ldo_get_voltage xfer c'' i = Some (v, c'')"
  by (rule ldo.set_get_fixpoint)

lemma ldo_get_None:
  assumes "rk818_ready a c" "i \<in> {4..12}"
  shows "rk818_ldo_get_voltage xfer c i = None \<longleftrightarrow>
    length (ldo_tab i) \<le> unat (reg (rk_bus c) (ldo_reg i) AND ldo_mask i)"
proof -
  define w where "w = reg (rk_bus c) (ldo_reg i) AND ldo_mask i"
  have "aref (ldo_tab i) (uint w) = None \<longleftrightarrow> length (ldo_tab i) \<le> unat w"
    by (simp only: aref_eq_None uint_nat) linarith
  then show ?thesis
    unfolding ldo_get_eq [OF assms] w_def [symmetric] by (cases "aref (ldo_tab i) (uint w)") simp_all
qed

lemma ldo9_disable:
  assumes "rk818_ready a chip"
  shows "\<exists>chip'. rk818_disable xfer chip 12 = Some (0, chip') \<and>
    rk818_is_enabled xfer chip' 12 = Some (0, chip') \<and>
    rk818_is_enabled xfer chip' 0 = Some (1, chip') \<and>
    (\<forall>j \<in> {1..11}. rk818_on reg chip' j = rk818_on reg chip j)"
proof -
  obtain d' where d': "rk818_set_bits xfer chip 0x23 (BIT 5) (BIT 0) = Some (0, chip\<lparr>rk_bus := d'\<rparr>)"
    "reg d' = (reg (rk_bus chip))(0x23 := put_field (reg (rk_bus chip) 0x23) (BIT 5) (BIT 0))"
    using set_bits_ok [OF assms plain_en(1)] by blast
  have b: "bit (reg d' 0x23) k = (k = 0 \<or> k \<noteq> 5 \<and> bit (reg (rk_bus chip) 0x23) k)" if "k < 8" for k
    unfolding d'(2) fun_upd_same put_field_def using that by (auto simp only: bit_simps) auto
  have r: "rk818_ready a (chip\<lparr>rk_bus := d'\<rparr>)" using assms by simp
  have "rk818_disable xfer chip 12 = Some (0, chip\<lparr>rk_bus := d'\<rparr>)"
    using d'(1) by (simp add: dispatch_ldo rk818_ldo_disable_def)
  moreover have "rk818_is_enabled xfer (chip\<lparr>rk_bus := d'\<rparr>) 12 = Some (0, chip\<lparr>rk_bus := d'\<rparr>)"
    using r b [of 5] bit_test [of 5 "reg d' 0x23"]
    by (simp add: dispatch_ldo rk818_ldo_is_enabled_def reg_read_ok)
  moreover have "rk818_is_enabled xfer (chip\<lparr>rk_bus := d'\<rparr>) 0 = Some (1, chip\<lparr>rk_bus := d'\<rparr>)"
    using r b [of 0] by (simp add: is_enabled_on rk818_on_def)
  moreover have "\<forall>j \<in> {1..11}. rk818_on reg (chip\<lparr>rk_bus := d'\<rparr>) j = rk818_on reg chip j"
    using b by (auto simp: rk818_on_def d'(2))
  ultimately show ?thesis by blast
qed

lemma ldo10_off: "rk818_ready a c \<Longrightarrow> rk818_is_enabled xfer c 13 = Some (0, c)"
proof -
  assume c: "rk818_ready a c"
  have "(ucast (w :: u8) :: u32) AND 2 ^ 9 = 0" for w
    by (simp only: and_single_bit) (auto dest: bit_imp_le_length simp: bit_simps)
  then show ?thesis
    using c by (simp add: dispatch_ldo rk818_ldo_is_enabled_def reg_read_ok del: and_single_bit)
qed

lemma ldo10_enable: "rk818_ready a c \<Longrightarrow> \<exists>c'. rk818_enable xfer c 13 = Some (0, c') \<and> rk818_ready a c'"
  using set_bits_ok [of c "0x23" "BIT 6" "BIT 6"] by (auto simp: dispatch_ldo rk818_ldo_enable_def)

lemma ldo10_set_voltage: "1800 \<le> lo sdiv 1000 \<Longrightarrow> lo sdiv 1000 \<le> 3400 \<Longrightarrow> rk818_ldo_set_voltage xfer c 13 lo hi = None"
  by (simp add: rk818_ldo_set_voltage_def rk818_ldo_vol_map_def ldo_voltage_map_def aref_def ldo_set_vol_base_addr_def)

text \<open>The mask edits of a consumer, between lock and unlock.\<close>

end

definition irq_edit :: "int \<times> bool \<Rightarrow> 'd rk818_chip \<Rightarrow> 'd rk818_chip" where
  "irq_edit e chip = (if snd e then rk818_irq_enable chip (fst e) else rk818_irq_disable chip (fst e))"

lemma irq_edit_frame: "irq_edit e (chip\<lparr>rk_irq_lock := b\<rparr>) = (irq_edit e chip)\<lparr>rk_irq_lock := b\<rparr> \<and>
    rk_bus (irq_edit e chip) = rk_bus chip \<and> rk_client (irq_edit e chip) = rk_client chip \<and>
    rk_irq_lock (irq_edit e chip) = rk_irq_lock chip"
  by (cases chip) (simp add: irq_edit_def rk818_irq_enable_def rk818_irq_disable_def irq_to_rk818_irq_def)

lemma irq_edits_frame: "fold irq_edit es (chip\<lparr>rk_irq_lock := b\<rparr>) = (fold irq_edit es chip)\<lparr>rk_irq_lock := b\<rparr> \<and>
    rk_bus (fold irq_edit es chip) = rk_bus chip \<and> rk_client (fold irq_edit es chip) = rk_client chip \<and>
    rk_irq_lock (fold irq_edit es chip) = rk_irq_lock chip"
  by (induction es arbitrary: chip) (simp_all add: irq_edit_frame)

context rk818_pmic
begin

lemma irq_edits_unwritten:
  assumes "rk_client c = Some a" "\<not> rk_irq_lock c"
  shows "do { c1 \<leftarrow> rk818_irq_lock c; rk818_irq_sync_unlock xfer (fold irq_edit es c1) } =
    Some (fold irq_edit es c) \<and> rk_bus (fold irq_edit es c) = rk_bus c"
proof -
  let ?e = "(fold irq_edit es c)\<lparr>rk_irq_lock := True\<rparr>"
  have "rk818_irq_sync_unlock xfer ?e = Some (?e\<lparr>rk_irq_lock := False\<rparr>)"
    using assms(1) irq_edits_frame [of es _ c] by (intro sync_unlock_eq) simp
  moreover have "(?e\<lparr>rk_irq_lock := False\<rparr>) = fold irq_edit es c"
    using assms(2) irq_edits_frame [of es _ c] by (cases "fold irq_edit es c") simp
  ultimately show ?thesis
    using assms(2) irq_edits_frame [of es _ c] by (simp add: rk818_irq_lock_def)
qed

end

subsection \<open>Properties\<close>

text \<open>The chip of the witnesses: bound to address 0x1c, registers in memory.\<close>

definition rk818_demo :: "(u8 \<Rightarrow> u8) \<Rightarrow> (u8 \<Rightarrow> u8) rk818_chip" where
  "rk818_demo regs = \<lparr>rk_client = Some 28, rk_bus = regs, rk_io_lock = False, rk_irq_lock = False,
     rk_irq_num = 16, rk_chip_irq = 0, rk_irq_gpio = 0, rk_irq_mask = 0xFFFFFF,
     rk_irq_domain = True, rk_irq_wake = False\<rparr>"

lemma rk818_demo_simps [simp]:
  "rk818_ready 28 (rk818_demo regs)" "rk_bus (rk818_demo regs) = regs" "rk_client (rk818_demo regs) = Some 28"
  "rk_irq_num (rk818_demo regs) = 16"
  by (simp_all add: rk818_ready_def rk818_demo_def)





text \<open>Reading a voltage back and setting exactly that voltage again changes nothing: for
  LDO1 to LDO9, after a served request the value reported by \<^verbatim>\<open>get_voltage\<close> is itself a
  request that succeeds and leaves the reported value as it is.\<close>
theorem rk818_ldo_fixpoint:
  assumes "rk818_pmic xfer a reg" "rk818_ready a chip" "i \<in> {4..12}" "uV_served (ldo_tab i) lo hi"
  shows "\<exists>chip' chip'' v. rk818_ldo_set_voltage xfer chip i lo hi = Some (0, chip') \<and>
    rk818_ldo_get_voltage xfer chip' i = Some (v, chip') \<and>
    rk818_ldo_set_voltage xfer chip' i v v = Some (0, chip'') \<and>
    rk818_ldo_get_voltage xfer chip'' i = Some (v, chip'')"
  by (rule rk818_pmic.ldo_fixpoint [OF assms])

theorem rk818_ldo_fixpoint_witness:
  "\<exists>chip' chip'' v. rk818_ldo_set_voltage (mem_xfer 28) (rk818_demo (\<lambda>_. 0)) 6 900000 1000000 = Some (0, chip') \<and>
    rk818_ldo_get_voltage (mem_xfer 28) chip' 6 = Some (v, chip') \<and>
    rk818_ldo_set_voltage (mem_xfer 28) chip' 6 v v = Some (0, chip'') \<and>
    rk818_ldo_get_voltage (mem_xfer 28) chip'' 6 = Some (v, chip'')"
proof -
  have "uV_served (ldo_tab 6) 900000 1000000"
    by (simp add: uV_served_def sdiv_nonneg ldo_tab_def rk818_ldo_vol_map_def ldo3_voltage_map_def)
  then show ?thesis
    using rk818_ldo_fixpoint [OF mem_pmic.rk818_pmic_axioms, of 28 "rk818_demo (\<lambda>_. 0)" 6 900000 1000000] by force
qed

text \<open>\<^verbatim>\<open>rk818_ldo_get_voltage\<close> of LDO1 to LDO9 is defined exactly when the masked voltage
  field is an index of the regulator's table; the field has 64 (LDO9: 32) values and the
  tables 16 to 18 entries, so other register contents read the table out of bounds.\<close>
theorem rk818_ldo_get_defined:
  assumes "rk818_pmic xfer a reg" "rk818_ready a chip" "i \<in> {4..12}"
  shows "rk818_ldo_get_voltage xfer chip i = None \<longleftrightarrow>
    length (ldo_tab i) \<le> unat (reg (rk_bus chip) (ldo_reg i) AND ldo_mask i)"
  by (rule rk818_pmic.ldo_get_None [OF assms])

theorem rk818_ldo_get_defined_witness:
  "rk818_ldo_get_voltage (mem_xfer 28) (rk818_demo (\<lambda>_. 0x3f)) 4 = None \<and>
   rk818_ldo_get_voltage (mem_xfer 28) (rk818_demo (\<lambda>_. 0x02)) 4 \<noteq> None"
  using rk818_ldo_get_defined [OF mem_pmic.rk818_pmic_axioms, of 28 "rk818_demo (\<lambda>_. 0x3f)" 4]
    rk818_ldo_get_defined [OF mem_pmic.rk818_pmic_axioms, of 28 "rk818_demo (\<lambda>_. 0x02)" 4]
  by (simp add: ldo_tab_def ldo_mask_def rk818_ldo_vol_map_def ldo_voltage_map_def)

text \<open>Disabling LDO9 turns buck 1 on: \<^verbatim>\<open>rk818_ldo_disable\<close> clears the LDO9 bit and ors in
  the lowest bit of the same enable register, so it returns 0, LDO9 and the other regulators
  of that register are as asked, and DCDC1 reads as enabled whatever it was.\<close>
theorem rk818_ldo9_disable:
  assumes "rk818_pmic xfer a reg" "rk818_ready a chip"
  shows "\<exists>chip'. rk818_disable xfer chip 12 = Some (0, chip') \<and>
    rk818_is_enabled xfer chip' 12 = Some (0, chip') \<and>
    rk818_is_enabled xfer chip' 0 = Some (1, chip') \<and>
    (\<forall>j \<in> {1..11}. rk818_on reg chip' j = rk818_on reg chip j)"
  by (rule rk818_pmic.ldo9_disable [OF assms])

theorem rk818_ldo9_disable_witness:
  "\<exists>chip'. rk818_disable (mem_xfer 28) (rk818_demo (\<lambda>_. 0)) 12 = Some (0, chip') \<and>
    rk818_is_enabled (mem_xfer 28) chip' 0 = Some (1, chip')"
  using rk818_ldo9_disable [OF mem_pmic.rk818_pmic_axioms, of 28 "rk818_demo (\<lambda>_. 0)"] by auto

text \<open>LDO10 cannot be used through its operations: enabling it returns 0, but
  \<^verbatim>\<open>is_enabled\<close> tests bit 9 of an 8-bit register and always reports it off, and a
  \<^verbatim>\<open>set_voltage\<close> request in its range reads the tenth entry of a nine-entry register table.\<close>
theorem rk818_ldo10:
  assumes "rk818_pmic xfer a reg" "rk818_ready a chip" "1800 \<le> lo sdiv 1000" "lo sdiv 1000 \<le> 3400"
  shows "(\<exists>chip'. rk818_enable xfer chip 13 = Some (0, chip') \<and> rk818_is_enabled xfer chip' 13 = Some (0, chip')) \<and>
    rk818_ldo_set_voltage xfer chip 13 lo hi = None"
  using rk818_pmic.ldo10_enable [OF assms(1,2)] rk818_pmic.ldo10_off [OF assms(1)]
    rk818_pmic.ldo10_set_voltage [OF assms(1,3,4)] by blast

theorem rk818_ldo10_witness:
  "(\<exists>chip'. rk818_enable (mem_xfer 28) (rk818_demo (\<lambda>_. 0)) 13 = Some (0, chip') \<and>
      rk818_is_enabled (mem_xfer 28) chip' 13 = Some (0, chip')) \<and>
    rk818_ldo_set_voltage (mem_xfer 28) (rk818_demo (\<lambda>_. 0)) 13 2000000 2000000 = None"
  using rk818_ldo10 [OF mem_pmic.rk818_pmic_axioms, of 28 "rk818_demo (\<lambda>_. 0)" 2000000 2000000]
  by (simp add: sdiv_nonneg)

text \<open>Setting DCDC1, DCDC2 or DCDC4 to a request within the buck's range programs the
  request rounded down to a step (so up to one step below the lower bound the caller gave),
  and \<^verbatim>\<open>get_voltage\<close> reports that voltage.\<close>
theorem rk818_buck_voltage:
  assumes "rk818_pmic xfer a reg" "rk818_ready a chip" "i \<in> {0, 1, 3}"
    "buck_base i \<le> lo" "lo \<le> buck_top i" "buck_floor i lo \<le> hi"
  shows "\<exists>chip' v. rk818_dcdc_set_voltage xfer chip i lo hi = Some (0, chip') \<and> rk818_ready a chip' \<and>
    rk818_dcdc_get_voltage xfer chip' i = Some (v, chip') \<and> v \<le> lo \<and> lo < v + buck_step i \<and>
    buck_step i dvd v - buck_base i"
proof -
  have "buck_step i dvd buck_floor i lo - buck_base i" by (simp add: buck_floor_def)
  with rk818_pmic.dcdc_set_get [OF assms] buck_floor_bounds [of i lo] show ?thesis by blast
qed

theorem rk818_buck_voltage_witness:
  "\<exists>chip' v. rk818_dcdc_set_voltage (mem_xfer 28) (rk818_demo (\<lambda>_. 0)) 3 1950000 2000000 = Some (0, chip') \<and>
    rk818_dcdc_get_voltage (mem_xfer 28) chip' 3 = Some (v, chip') \<and> v \<le> 1950000 \<and> 1950000 < v + 100000"
  using rk818_buck_voltage [OF mem_pmic.rk818_pmic_axioms, of 28 "rk818_demo (\<lambda>_. 0)" 3 1950000 2000000]
  by (force simp: buck_defs buck_floor_def)

text \<open>A request above a buck's range is not refused: the error number of the selection is
  stored in a 16-bit variable and its low byte reaches the register, the call returns 0, and
  the buck runs at selector 42 with bits 7 and 6 of the register or-ed up.\<close>
theorem rk818_buck_above:
  assumes "rk818_pmic xfer a reg" "rk818_ready a chip" "i \<in> {0, 1, 3}" "buck_top i < lo"
  shows "\<exists>chip'. rk818_dcdc_set_voltage xfer chip i lo hi = Some (0, chip') \<and>
    reg (rk_bus chip') (buck_reg i) = (reg (rk_bus chip) (buck_reg i) AND 0xc0) OR 0xea \<and>
    rk818_dcdc_get_voltage xfer chip' i = Some (buck_base i + buck_step i * 42, chip')"
  by (rule rk818_pmic.dcdc_set_above [OF assms])

theorem rk818_buck_above_witness:
  "\<exists>chip'. rk818_dcdc_set_voltage (mem_xfer 28) (rk818_demo (\<lambda>_. 0)) 0 1600000 1700000 = Some (0, chip') \<and>
    rk818_dcdc_get_voltage (mem_xfer 28) chip' 0 = Some (1237500, chip')"
  using rk818_buck_above [OF mem_pmic.rk818_pmic_axioms, of 28 "rk818_demo (\<lambda>_. 0)" 0 1600000 1700000]
  by (auto simp: buck_defs)



text \<open>The interrupt handler handles exactly the pending interrupts: it calls the nested
  handlers of the mapped interrupts whose status bit is set and mask bit clear, in bit order,
  acknowledges exactly those bits in the two status registers, reports IRQ_NONE without a
  write when there are none, and releases the wake lock.\<close>
theorem rk818_irq_pending:
  assumes "rk818_pmic xfer a reg" "rk_client chip = Some a"
    "lo = reg (rk_bus chip) 0x4c AND NOT (reg (rk_bus chip) 0x4d)"
    "hi = reg (rk_bus chip) 0x4e AND NOT (reg (rk_bus chip) 0x4f)"
    "chip1 = snd (rk818_i2c_write xfer (chip\<lparr>rk_irq_wake := True\<rparr>) 0x4c 1 lo)"
    "chip2 = snd (rk818_i2c_write xfer chip1 0x4e 1 hi)"
  shows "rk818_irq xfer irq_find_mapping chip =
    (if lo = 0 \<and> hi = 0 then Some (IRQ_NONE, [], chip\<lparr>rk_irq_wake := False\<rparr>)
     else Some (IRQ_HANDLED, filter (\<lambda>v. v \<noteq> 0) (map irq_find_mapping (pending_irqs (rk_irq_num chip) lo hi)),
                chip2\<lparr>rk_irq_wake := False\<rparr>))"
  using rk818_pmic.rk818_irq_eq [OF assms(1,2), of irq_find_mapping] assms(3-6) by (simp add: Let_def)

theorem rk818_irq_pending_witness:
  "\<exists>chip'. rk818_irq (mem_xfer 28) (\<lambda>i. 100 + i)
     (rk818_demo ((\<lambda>_. 0)(0x4c := 0x05, 0x4d := 0x01, 0x4e := 0x80))) = Some (IRQ_HANDLED, [102, 115], chip')"
proof -
  let ?c = "rk818_demo ((\<lambda>_. 0)(0x4c := 0x05, 0x4d := 0x01, 0x4e := 0x80))"
  have "pending_irqs 16 0x04 0x80 = [2, 15]" by (simp add: pending_irqs_def upt_rec bit_simps bit_numeral_rec)
  moreover have "(0x05 :: u8) AND NOT 0x01 = 0x04" "(0x80 :: u8) AND NOT 0 = 0x80" by simp_all
  ultimately show ?thesis
    using rk818_irq_pending [OF mem_pmic.rk818_pmic_axioms, of ?c 28 "0x04" "0x80" _ _ "\<lambda>i. 100 + i", OF _ _ _ refl refl]
    by simp
qed

text \<open>Interrupt masks never reach the chip: the lock, any enables and disables and the
  unlock leave the new mask in the driver's own copy, release the lock, and the bus is
  untouched.\<close>
theorem rk818_mask_unwritten:
  assumes "rk818_pmic xfer a reg" "rk_client chip = Some a" "\<not> rk_irq_lock chip"
  shows "do { chip1 \<leftarrow> rk818_irq_lock chip; rk818_irq_sync_unlock xfer (fold irq_edit es chip1) } =
    Some (fold irq_edit es chip) \<and> rk_bus (fold irq_edit es chip) = rk_bus chip"
  by (rule rk818_pmic.irq_edits_unwritten [OF assms])

theorem rk818_mask_unwritten_witness:
  "do { chip1 \<leftarrow> rk818_irq_lock (rk818_demo (\<lambda>_. 0));
       rk818_irq_sync_unlock (mem_xfer 28) (fold irq_edit [(3, True)] chip1) } =
    Some ((rk818_demo (\<lambda>_. 0))\<lparr>rk_irq_mask := 0xFFFFF7\<rparr>)"
proof -
  have "rk_client (rk818_demo (\<lambda>_. 0)) = Some 28" "\<not> rk_irq_lock (rk818_demo (\<lambda>_. 0))"
    by (simp_all add: rk818_demo_def)
  from rk818_mask_unwritten [OF mem_pmic.rk818_pmic_axioms this, of "[(3, True)]"]
  show ?thesis by (simp add: irq_edit_def rk818_irq_enable_def irq_to_rk818_irq_def rk818_demo_def)
qed

end
