(* ===== verification/Act8846.thy ===== *)
theory Act8846
  imports Regulator_Core
begin

text \<open>
  The ACT8846 power-management driver (\<^verbatim>\<open>rk3288/debug/regulator/act8846.c\<close>): register and
  voltage tables, the buck and LDO operations, the descriptor table and the probe. The chip
  sits behind the kernel's regmap, which is the parameter \<open>rm\<close>; a local variable that a
  failed \<^verbatim>\<open>regmap_read\<close> left unset is None when it is used.
\<close>

subsection \<open>Registers and tables\<close>

abbreviation (input) ACT8846_DCDC1 :: int where "ACT8846_DCDC1 \<equiv> 0"
abbreviation (input) ACT8846_LDO1 :: int where "ACT8846_LDO1 \<equiv> 4"
abbreviation (input) ACT8846_NUM_REGULATORS :: nat where "ACT8846_NUM_REGULATORS \<equiv> 13"
abbreviation (input) ACT_VOL_MASK :: u32 where "ACT_VOL_MASK \<equiv> 0x3f"
abbreviation (input) VOL_MAX_IDX :: nat where "VOL_MAX_IDX \<equiv> 0x3f"

definition act_buck_voltage_map :: "int list" where
  "act_buck_voltage_map = [
     600, 625, 650, 675, 700, 725, 750, 775,
     800, 825, 850, 875, 900, 925, 950, 975,
     1000, 1025, 1050, 1075, 1100, 1125, 1150,
     1175, 1200, 1250, 1300, 1350, 1400, 1450,
     1500, 1550, 1600, 1650, 1700, 1750, 1800,
     1850, 1900, 1950, 2000, 2050, 2100, 2150,
     2200, 2250, 2300, 2350, 2400, 2500, 2600,
     2700, 2800, 2900, 3000, 3100, 3200,
     3300, 3400, 3500, 3600, 3700, 3800, 3900]"

definition act_ldo_voltage_map :: "int list" where
  "act_ldo_voltage_map = [
     600, 625, 650, 675, 700, 725, 750, 775,
     800, 825, 850, 875, 900, 925, 950, 975,
     1000, 1025, 1050, 1075, 1100, 1125, 1150,
     1175, 1200, 1250, 1300, 1350, 1400, 1450,
     1500, 1550, 1600, 1650, 1700, 1750, 1800,
     1850, 1900, 1950, 2000, 2050, 2100, 2150,
     2200, 2250, 2300, 2350, 2400, 2500, 2600,
     2700, 2800, 2900, 3000, 3100, 3200,
     3300, 3400, 3500, 3600, 3700, 3800, 3900]"

definition act_ldo_set_vol_base_addr :: "u32 list" where
  "act_ldo_set_vol_base_addr = [0x50, 0x58, 0x60, 0x68, 0x70, 0x80, 0x90, 0xa0]"

definition act_ldo_contr_base_addr :: "u32 list" where
  "act_ldo_contr_base_addr = [0x51, 0x59, 0x61, 0x69, 0x71, 0x81, 0x91, 0xa1]"

definition act_buck_set_vol_base_addr :: "u32 list" where
  "act_buck_set_vol_base_addr = [0x10, 0x20, 0x30, 0x40]"

definition act_buck_contr_base_addr :: "u32 list" where
  "act_buck_contr_base_addr = [0x12, 0x22, 0x32, 0x42]"

subsection \<open>Buck operations\<close>

text \<open>A selection above the caller's maximum is only reported on the console, as is the result.\<close>

definition act8846_dcdc_set_voltage ::
  "'d regmap_ops \<Rightarrow> 'd \<Rightarrow> int \<Rightarrow> int \<Rightarrow> int \<Rightarrow> (int \<times> 'd) option" where
  "act8846_dcdc_set_voltage rm d rid min_uV max_uV =
     (let buck = rid - ACT8846_DCDC1; min_vol = min_uV sdiv 1000; vol_map = act_buck_voltage_map in
      if min_vol < vol_map ! 0 \<or> min_vol > vol_map ! VOL_MAX_IDX then Some (- EINVAL, d)
      else (let val = vol_scan (take (Suc VOL_MAX_IDX) vol_map) min_vol in
            do { r \<leftarrow> aref act_buck_set_vol_base_addr buck;
                 Some (0, snd (rm_update_bits rm d r ACT_VOL_MASK (word_of_nat val))) }))"

definition act8846_dcdc_get_voltage :: "'d regmap_ops \<Rightarrow> 'd \<Rightarrow> int \<Rightarrow> (int \<times> 'd) option" where
  "act8846_dcdc_get_voltage rm d rid =
     do { r \<leftarrow> aref act_buck_set_vol_base_addr (rid - ACT8846_DCDC1);
          (let (ret, v, d) = rm_read rm d r in
           do { reg \<leftarrow> v;
                x \<leftarrow> aref act_buck_voltage_map (uint (reg AND ACT_VOL_MASK));
                Some (1000 * x, d) }) }"

definition act8846_dcdc_list_voltage :: "nat \<Rightarrow> int" where
  "act8846_dcdc_list_voltage index =
     (if index \<ge> length act_buck_voltage_map then - EINVAL else 1000 * act_buck_voltage_map ! index)"

text \<open>Bit 7 of the control register; \<^verbatim>\<open>val\<close> is unsigned, so its test for a negative value never holds.\<close>

definition act8846_dcdc_is_enabled :: "'d regmap_ops \<Rightarrow> 'd \<Rightarrow> int \<Rightarrow> (int \<times> 'd) option" where
  "act8846_dcdc_is_enabled rm d rid =
     do { r \<leftarrow> aref act_buck_contr_base_addr (rid - ACT8846_DCDC1);
          (let (ret, v, d) = rm_read rm d r in
           do { val \<leftarrow> v;
                Some (if (val AND NOT 0x7f) AND 0x80 \<noteq> 0 then 1 else 0, d) }) }"

definition act8846_dcdc_enable :: "'d regmap_ops \<Rightarrow> 'd \<Rightarrow> int \<Rightarrow> (int \<times> 'd) option" where
  "act8846_dcdc_enable rm d rid =
     do { r \<leftarrow> aref act_buck_contr_base_addr (rid - ACT8846_DCDC1);
          Some (rm_update_bits rm d r 0x80 0x80) }"

definition act8846_dcdc_disable :: "'d regmap_ops \<Rightarrow> 'd \<Rightarrow> int \<Rightarrow> (int \<times> 'd) option" where
  "act8846_dcdc_disable rm d rid =
     do { r \<leftarrow> aref act_buck_contr_base_addr (rid - ACT8846_DCDC1);
          Some (rm_update_bits rm d r 0x80 0) }"

definition act8846_dcdc_get_mode :: "'d regmap_ops \<Rightarrow> 'd \<Rightarrow> int \<Rightarrow> (reg_mode \<times> 'd) option" where
  "act8846_dcdc_get_mode rm d rid =
     do { r \<leftarrow> aref act_buck_contr_base_addr (rid - ACT8846_DCDC1);
          (let (ret, v, d) = rm_read rm d r in
           do { val \<leftarrow> v;
                Some (if val AND 0x08 = 0x08 then MODE_NORMAL else MODE_STANDBY, d) }) }"

definition act8846_dcdc_set_mode :: "'d regmap_ops \<Rightarrow> 'd \<Rightarrow> int \<Rightarrow> reg_mode \<Rightarrow> (int \<times> 'd) option" where
  "act8846_dcdc_set_mode rm d rid mode =
     (case mode of
        MODE_STANDBY \<Rightarrow> do { r \<leftarrow> aref act_buck_contr_base_addr (rid - ACT8846_DCDC1);
                             Some (rm_update_bits rm d r 0x80 0) }
      | MODE_NORMAL \<Rightarrow> do { r \<leftarrow> aref act_buck_contr_base_addr (rid - ACT8846_DCDC1);
                            Some (rm_update_bits rm d r 0x80 0x80) }
      | _ \<Rightarrow> Some (- EINVAL, d))"

definition act8846_dcdc_set_sleep_voltage :: "'d regmap_ops \<Rightarrow> 'd \<Rightarrow> int \<Rightarrow> int \<Rightarrow> (int \<times> 'd) option" where
  "act8846_dcdc_set_sleep_voltage rm d rid uV =
     (let buck = rid - ACT8846_DCDC1; min_vol = uV sdiv 1000; vol_map = act_buck_voltage_map in
      if min_vol < vol_map ! 0 \<or> min_vol > vol_map ! VOL_MAX_IDX then Some (- EINVAL, d)
      else (let val = vol_scan (take (Suc VOL_MAX_IDX) vol_map) min_vol in
            do { r \<leftarrow> aref act_buck_set_vol_base_addr buck;
                 Some (0, snd (rm_update_bits rm d (r + 0x01) ACT_VOL_MASK (word_of_nat val))) }))"

definition act8846_dcdc_set_voltage_time_sel :: "nat \<Rightarrow> nat \<Rightarrow> int" where
  "act8846_dcdc_set_voltage_time_sel old_selector new_selector =
     (let old_volt = act8846_dcdc_list_voltage old_selector;
          new_volt = act8846_dcdc_list_voltage new_selector
      in if old_volt < 0 then old_volt
         else if new_volt < 0 then new_volt
         else DIV_ROUND_UP (\<bar>old_volt - new_volt\<bar> * 2) 25000)"

subsection \<open>LDO operations\<close>

definition act8846_ldo_list_voltage :: "nat \<Rightarrow> int" where
  "act8846_ldo_list_voltage index =
     (if index \<ge> length act_ldo_voltage_map then - EINVAL else 1000 * act_ldo_voltage_map ! index)"

definition act8846_ldo_is_enabled :: "'d regmap_ops \<Rightarrow> 'd \<Rightarrow> int \<Rightarrow> (int \<times> 'd) option" where
  "act8846_ldo_is_enabled rm d rid =
     do { r \<leftarrow> aref act_ldo_contr_base_addr (rid - ACT8846_LDO1);
          (let (ret, v, d) = rm_read rm d r in
           do { val \<leftarrow> v;
                Some (if (val AND NOT 0x7f) AND 0x80 \<noteq> 0 then 1 else 0, d) }) }"

definition act8846_ldo_enable :: "'d regmap_ops \<Rightarrow> 'd \<Rightarrow> int \<Rightarrow> (int \<times> 'd) option" where
  "act8846_ldo_enable rm d rid =
     do { r \<leftarrow> aref act_ldo_contr_base_addr (rid - ACT8846_LDO1);
          Some (rm_update_bits rm d r 0x80 0x80) }"

definition act8846_ldo_disable :: "'d regmap_ops \<Rightarrow> 'd \<Rightarrow> int \<Rightarrow> (int \<times> 'd) option" where
  "act8846_ldo_disable rm d rid =
     do { r \<leftarrow> aref act_ldo_contr_base_addr (rid - ACT8846_LDO1);
          Some (rm_update_bits rm d r 0x80 0) }"

text \<open>
  The read stores into \<^verbatim>\<open>val\<close>, then the local \<^verbatim>\<open>reg\<close>, which nothing has assigned, is masked
  and used as the index.
\<close>

definition act8846_ldo_get_voltage :: "'d regmap_ops \<Rightarrow> 'd \<Rightarrow> int \<Rightarrow> (int \<times> 'd) option" where
  "act8846_ldo_get_voltage rm d rid =
     do { r \<leftarrow> aref act_ldo_set_vol_base_addr (rid - ACT8846_LDO1);
          (let (ret, val, d) = rm_read rm d r; uninit = (None :: u32 option) in
           do { reg \<leftarrow> uninit;
                x \<leftarrow> aref act_ldo_voltage_map (uint (reg AND ACT_VOL_MASK));
                Some (1000 * x, d) }) }"

definition act8846_ldo_set_voltage ::
  "'d regmap_ops \<Rightarrow> 'd \<Rightarrow> int \<Rightarrow> int \<Rightarrow> int \<Rightarrow> (int \<times> 'd) option" where
  "act8846_ldo_set_voltage rm d rid min_uV max_uV =
     (let ldo = rid - ACT8846_LDO1; min_vol = min_uV sdiv 1000; max_vol = max_uV sdiv 1000;
          vol_map = act_ldo_voltage_map in
      if min_vol < vol_map ! 0 \<or> min_vol > vol_map ! VOL_MAX_IDX then Some (- EINVAL, d)
      else (let val = vol_scan (take (Suc VOL_MAX_IDX) vol_map) min_vol in
            if vol_map ! val > max_vol then Some (- EINVAL, d)
            else do { r \<leftarrow> aref act_ldo_set_vol_base_addr ldo;
                      Some (0, snd (rm_update_bits rm d r ACT_VOL_MASK (word_of_nat val))) }))"

definition act8846_ldo_get_mode :: "'d regmap_ops \<Rightarrow> 'd \<Rightarrow> int \<Rightarrow> (reg_mode \<times> 'd) option" where
  "act8846_ldo_get_mode rm d rid =
     do { r \<leftarrow> aref act_ldo_contr_base_addr (rid - ACT8846_LDO1);
          (let (ret, v, d) = rm_read rm d r in
           do { val \<leftarrow> v;
                Some (if val AND 0x80 = 0x80 then MODE_NORMAL else MODE_STANDBY, d) }) }"

definition act8846_ldo_set_mode :: "'d regmap_ops \<Rightarrow> 'd \<Rightarrow> int \<Rightarrow> reg_mode \<Rightarrow> (int \<times> 'd) option" where
  "act8846_ldo_set_mode rm d rid mode =
     (case mode of
        MODE_NORMAL \<Rightarrow> do { r \<leftarrow> aref act_ldo_contr_base_addr (rid - ACT8846_LDO1);
                            Some (rm_update_bits rm d r 0x80 0x80) }
      | MODE_STANDBY \<Rightarrow> do { r \<leftarrow> aref act_ldo_contr_base_addr (rid - ACT8846_LDO1);
                             Some (rm_update_bits rm d r 0x80 0) }
      | _ \<Rightarrow> Some (- EINVAL, d))"

subsection \<open>The descriptor table\<close>

datatype act8846_ops = act8846_dcdc_ops | act8846_ldo_ops

record act8846_desc =
  ad_name :: string
  ad_id :: int
  ad_ops :: act8846_ops
  ad_n_voltages :: nat

definition act8846_regulators :: "act8846_desc list" where
  "act8846_regulators = [
     \<lparr>ad_name = ''ACT_DCDC1'', ad_id = 0, ad_ops = act8846_dcdc_ops, ad_n_voltages = length act_buck_voltage_map\<rparr>,
     \<lparr>ad_name = ''ACT_DCDC2'', ad_id = 1, ad_ops = act8846_dcdc_ops, ad_n_voltages = length act_buck_voltage_map\<rparr>,
     \<lparr>ad_name = ''ACT_DCDC3'', ad_id = 2, ad_ops = act8846_dcdc_ops, ad_n_voltages = length act_buck_voltage_map\<rparr>,
     \<lparr>ad_name = ''ACT_DCDC4'', ad_id = 3, ad_ops = act8846_dcdc_ops, ad_n_voltages = length act_buck_voltage_map\<rparr>,
     \<lparr>ad_name = ''ACT_LDO1'', ad_id = 4, ad_ops = act8846_ldo_ops, ad_n_voltages = length act_ldo_voltage_map\<rparr>,
     \<lparr>ad_name = ''ACT_LDO2'', ad_id = 5, ad_ops = act8846_ldo_ops, ad_n_voltages = length act_ldo_voltage_map\<rparr>,
     \<lparr>ad_name = ''ACT_LDO3'', ad_id = 6, ad_ops = act8846_ldo_ops, ad_n_voltages = length act_ldo_voltage_map\<rparr>,
     \<lparr>ad_name = ''ACT_LDO4'', ad_id = 7, ad_ops = act8846_ldo_ops, ad_n_voltages = length act_ldo_voltage_map\<rparr>,
     \<lparr>ad_name = ''ACT_LDO5'', ad_id = 8, ad_ops = act8846_ldo_ops, ad_n_voltages = length act_ldo_voltage_map\<rparr>,
     \<lparr>ad_name = ''ACT_LDO6'', ad_id = 9, ad_ops = act8846_ldo_ops, ad_n_voltages = length act_ldo_voltage_map\<rparr>,
     \<lparr>ad_name = ''ACT_LDO7'', ad_id = 10, ad_ops = act8846_ldo_ops, ad_n_voltages = length act_ldo_voltage_map\<rparr>,
     \<lparr>ad_name = ''ACT_LDO8'', ad_id = 11, ad_ops = act8846_ldo_ops, ad_n_voltages = length act_ldo_voltage_map\<rparr>,
     \<lparr>ad_name = ''ACT_LDO9'', ad_id = 12, ad_ops = act8846_ldo_ops, ad_n_voltages = length act_ldo_voltage_map\<rparr>]"

text \<open>Calls through the operation tables, as the regulator core makes them for descriptor \<open>i\<close>.\<close>

definition act8846_enable :: "'d regmap_ops \<Rightarrow> 'd \<Rightarrow> int \<Rightarrow> (int \<times> 'd) option" where
  "act8846_enable rm d i =
     do { desc \<leftarrow> aref act8846_regulators i;
          (case ad_ops desc of
             act8846_dcdc_ops \<Rightarrow> act8846_dcdc_enable rm d (ad_id desc)
           | act8846_ldo_ops \<Rightarrow> act8846_ldo_enable rm d (ad_id desc)) }"

definition act8846_disable :: "'d regmap_ops \<Rightarrow> 'd \<Rightarrow> int \<Rightarrow> (int \<times> 'd) option" where
  "act8846_disable rm d i =
     do { desc \<leftarrow> aref act8846_regulators i;
          (case ad_ops desc of
             act8846_dcdc_ops \<Rightarrow> act8846_dcdc_disable rm d (ad_id desc)
           | act8846_ldo_ops \<Rightarrow> act8846_ldo_disable rm d (ad_id desc)) }"

definition act8846_is_enabled :: "'d regmap_ops \<Rightarrow> 'd \<Rightarrow> int \<Rightarrow> (int \<times> 'd) option" where
  "act8846_is_enabled rm d i =
     do { desc \<leftarrow> aref act8846_regulators i;
          (case ad_ops desc of
             act8846_dcdc_ops \<Rightarrow> act8846_dcdc_is_enabled rm d (ad_id desc)
           | act8846_ldo_ops \<Rightarrow> act8846_ldo_is_enabled rm d (ad_id desc)) }"

definition act8846_set_mode :: "'d regmap_ops \<Rightarrow> 'd \<Rightarrow> int \<Rightarrow> reg_mode \<Rightarrow> (int \<times> 'd) option" where
  "act8846_set_mode rm d i mode =
     do { desc \<leftarrow> aref act8846_regulators i;
          (case ad_ops desc of
             act8846_dcdc_ops \<Rightarrow> act8846_dcdc_set_mode rm d (ad_id desc) mode
           | act8846_ldo_ops \<Rightarrow> act8846_ldo_set_mode rm d (ad_id desc) mode) }"

subsection \<open>Device tree and probe\<close>

text \<open>
  What the device tree, the allocators and the other kernel services answer. \<open>ae_init_data\<close>
  is the \<^verbatim>\<open>init_data\<close> of each entry of the match table: None for NULL, else the rail name of
  its constraints, if it has one.
\<close>

record act_env =
  ae_of_node :: bool
  ae_of_match :: bool
  ae_chip_alloc :: bool
  ae_regmap_init :: int
  ae_regulators_np :: bool
  ae_match_count :: int
  ae_init_data :: "string option option list"
  ae_pdata_alloc :: bool
  ae_gpio :: "nat \<Rightarrow> int"
  ae_gpio_request :: "int \<Rightarrow> int"
  ae_rdev_alloc :: bool
  ae_register_ok :: "nat \<Rightarrow> bool"

record act8846_board =
  ab_rid :: "string option option list"
  ab_sleep_gpio :: int
  ab_hold_gpio :: int
  ab_sleep :: bool

record act8846 =
  ac_num_regulators :: nat
  ac_rdev :: "bool option list"
  ac_sleep_gpio :: int
  ac_hold_gpio :: int

datatype act_event = Reg_write u32 u32 | Gpio_output int int | Register nat string

text \<open>None is the NULL the function returns. The pointers past \<^verbatim>\<open>count\<close> keep their zeroes.\<close>

definition act8846_parse_dt :: "act_env \<Rightarrow> act8846_board option" where
  "act8846_parse_dt env =
     (if \<not> ae_regulators_np env then None
      else if ae_match_count env < 0 \<or> ae_match_count env > int ACT8846_NUM_REGULATORS then None
      else if \<not> ae_pdata_alloc env then None
      else Some \<lparr>ab_rid = map (\<lambda>i. if int i < ae_match_count env then ae_init_data env ! i else None)
                          [0..<ACT8846_NUM_REGULATORS],
                 ab_sleep_gpio = ae_gpio env 0, ab_hold_gpio = ae_gpio env 1, ab_sleep = True\<rparr>)"

fun act8846_register_loop ::
  "act_env \<Rightarrow> string option option list \<Rightarrow> nat list \<Rightarrow> bool option list \<Rightarrow> act_event list \<times> bool option list" where
  "act8846_register_loop env rid [] rdev = ([], rdev)"
| "act8846_register_loop env rid (i # is) rdev =
     (case rid ! i of
        None \<Rightarrow> act8846_register_loop env rid is rdev
      | Some name \<Rightarrow>
          (let rail = (case name of Some n \<Rightarrow> n | None \<Rightarrow> ad_name (act8846_regulators ! i));
               (ev, rdev) = act8846_register_loop env rid is (rdev[i := Some (ae_register_ok env i)])
           in (Register i rail # ev, rdev)))"

text \<open>One pin: nothing for gpio 0, else a request (whose failure ends the probe) and a high output.\<close>

definition act8846_pin :: "act_env \<Rightarrow> int \<Rightarrow> act_event list option" where
  "act8846_pin env gpio =
     (if gpio = 0 then Some []
      else if ae_gpio_request env gpio < 0 then None
      else Some [Gpio_output gpio 1])"

definition act8846_i2c_probe ::
  "'d regmap_ops \<Rightarrow> act_env \<Rightarrow> 'd \<Rightarrow> (int \<times> act_event list \<times> act8846 option \<times> 'd) option" where
  "act8846_i2c_probe rm env d =
     (if ae_of_node env \<and> \<not> ae_of_match env then Some (- EINVAL, [], None, d)
      else if \<not> ae_chip_alloc env then None
      else if ae_regmap_init env < 0 then Some (ae_regmap_init env, [], None, d)
      else (let (_, rval, d) = rm_read rm d 0x22; (ret, d) = rm_write rm d 0xf4 1; log = [Reg_write 0xf4 1] in
            if ret < 0 then Some (- 1, log, None, d)
            else if \<not> ae_of_node env then None
            else case act8846_parse_dt env of
              None \<Rightarrow> None
            | Some pdata \<Rightarrow>
                (case act8846_pin env (ab_hold_gpio pdata) of
                   None \<Rightarrow> Some (- 1, log, None, d)
                 | Some hold \<Rightarrow>
                     (case act8846_pin env (ab_sleep_gpio pdata) of
                        None \<Rightarrow> Some (- 1, log @ hold, None, d)
                      | Some sleep \<Rightarrow>
                          if \<not> ae_rdev_alloc env then Some (- ENOMEM, log @ hold @ sleep, None, d)
                          else (let (ev, rdev) = act8846_register_loop env (ab_rid pdata)
                                  [0..<ACT8846_NUM_REGULATORS] (replicate ACT8846_NUM_REGULATORS None)
                                in Some (0, log @ hold @ sleep @ ev,
                                     Some \<lparr>ac_num_regulators = ACT8846_NUM_REGULATORS, ac_rdev = rdev,
                                       ac_sleep_gpio = ab_sleep_gpio pdata, ac_hold_gpio = ab_hold_gpio pdata\<rparr>, d))))))"

end
