(* ===== verification/Act8846_Props.thy ===== *)
theory Act8846_Props
  imports Act8846
begin

text \<open>
  The ACT8846 operations meet the contracts of the regulator core: the switch contract for
  the four bucks and LDO1 to LDO8, the voltage contract for the bucks. Outside the
  contracts: the LDO voltages, the operating modes, LDO9, and what the probe registers.
\<close>

locale act8846_dev = regmap_dev rm reg "\<lambda>_. True"
  for rm :: "'d regmap_ops" and reg :: "'d \<Rightarrow> u32 \<Rightarrow> u32"

interpretation mem_act: act8846_dev mem_regmap "\<lambda>d. d"
  by unfold_locales

subsection \<open>The tables\<close>

lemma length_act_regulators [simp]: "length act8846_regulators = 13"
  by (simp add: act8846_regulators_def)

lemma act_regulators_nth:
  "k < 13 \<Longrightarrow> ad_id (act8846_regulators ! k) = int k \<and>
    ad_ops (act8846_regulators ! k) = (if k < 4 then act8846_dcdc_ops else act8846_ldo_ops)"
proof -
  assume "k < 13"
  moreover have "\<forall>j \<in> {..<13::nat}. ad_id (act8846_regulators ! j) = int j \<and>
      ad_ops (act8846_regulators ! j) = (if j < 4 then act8846_dcdc_ops else act8846_ldo_ops)"
    by (simp add: act8846_regulators_def numeral_eq_Suc lessThan_Suc)
  ultimately show ?thesis by simp
qed

lemma act_regulators_aref:
  assumes "0 \<le> i" "i < 13"
  shows "aref act8846_regulators i = Some (act8846_regulators ! nat i)"
    and "ad_id (act8846_regulators ! nat i) = i"
    and "ad_ops (act8846_regulators ! nat i) = (if i < 4 then act8846_dcdc_ops else act8846_ldo_ops)"
  using assms act_regulators_nth [of "nat i"] by auto

text \<open>The control register and the voltage register of descriptor \<open>i\<close>.\<close>

definition act_contr :: "int \<Rightarrow> u32" where
  "act_contr i = (if i < 4 then act_buck_contr_base_addr ! nat i else act_ldo_contr_base_addr ! nat (i - 4))"

definition act_buck_reg :: "int \<Rightarrow> u32" where
  "act_buck_reg i = act_buck_set_vol_base_addr ! nat i"

definition act_on :: "('d \<Rightarrow> u32 \<Rightarrow> u32) \<Rightarrow> 'd \<Rightarrow> int \<Rightarrow> bool" where
  "act_on reg d i = bit (reg d (act_contr i)) 7"

lemma act_contr_inj: "i \<in> {0..11} \<Longrightarrow> j \<in> {0..11} \<Longrightarrow> act_contr i = act_contr j \<longleftrightarrow> i = j"
proof -
  have d: "distinct (act_buck_contr_base_addr @ act_ldo_contr_base_addr)" (is "distinct ?xs")
    by (simp add: act_buck_contr_base_addr_def act_ldo_contr_base_addr_def)
  have n: "act_contr k = ?xs ! nat k \<and> nat k < length ?xs" if "k \<in> {0..11}" for k
  proof -
    have "length act_buck_contr_base_addr = 4" "length act_ldo_contr_base_addr = 8"
      by (simp_all add: act_buck_contr_base_addr_def act_ldo_contr_base_addr_def)
    with that show ?thesis by (auto simp: act_contr_def nth_append nat_diff_distrib)
  qed
  assume "i \<in> {0..11}" "j \<in> {0..11}"
  then show ?thesis using n [of i] n [of j] d by (auto simp: nth_eq_iff_index_eq)
qed

lemma act_buck_reg_inj: "i \<in> {0..3} \<Longrightarrow> j \<in> {0..3} \<Longrightarrow> act_buck_reg i = act_buck_reg j \<longleftrightarrow> i = j"
proof -
  assume ij: "i \<in> {0..3}" "j \<in> {0..3}"
  have "distinct act_buck_set_vol_base_addr" "length act_buck_set_vol_base_addr = 4"
    by (simp_all add: act_buck_set_vol_base_addr_def)
  with ij show ?thesis by (auto simp: act_buck_reg_def nth_eq_iff_index_eq)
qed

lemma act_buck_aref:
  "i \<in> {0..3} \<Longrightarrow> aref act_buck_set_vol_base_addr i = Some (act_buck_reg i)"
  "i \<in> {0..3} \<Longrightarrow> aref act_buck_contr_base_addr i = Some (act_contr i)"
  "i \<in> {4..11} \<Longrightarrow> aref act_ldo_contr_base_addr (i - 4) = Some (act_contr i)"
  by (simp_all add: aref_def act_buck_reg_def act_contr_def act_buck_set_vol_base_addr_def
      act_buck_contr_base_addr_def act_ldo_contr_base_addr_def)

lemma act_switch_calls:
  assumes "i \<in> {0..11}"
  shows "act8846_enable rm d i = Some (rm_update_bits rm d (act_contr i) 0x80 0x80)"
    and "act8846_disable rm d i = Some (rm_update_bits rm d (act_contr i) 0x80 0)"
    and "act8846_is_enabled rm d i = (let (_, v, d) = rm_read rm d (act_contr i) in
      do { val \<leftarrow> v; Some (if (val AND NOT 0x7f) AND 0x80 \<noteq> 0 then 1 else 0, d) })"
  using assms act_regulators_aref [of i]
  by (auto simp: act8846_enable_def act8846_disable_def act8846_is_enabled_def act8846_dcdc_enable_def
      act8846_ldo_enable_def act8846_dcdc_disable_def act8846_ldo_disable_def act8846_dcdc_is_enabled_def
      act8846_ldo_is_enabled_def act_buck_aref)

lemma bit7_test: "((w :: u32) AND NOT 0x7f) AND 0x80 \<noteq> 0 \<longleftrightarrow> bit w 7"
proof -
  have "((w :: u32) AND NOT 0x7f) AND 0x80 = w AND 2 ^ 7"
  proof -
    have "(NOT 0x7f AND 0x80 :: u32) = 2 ^ 7" by simp
    then show ?thesis by (simp only: and.assoc)
  qed
  then show ?thesis by (simp only: and_single_bit not_not)
qed

lemma put_bit7: "bit (put_field (w :: u32) 0x80 0x80) 7" "\<not> bit (put_field (w :: u32) 0x80 0) 7"
  by (simp_all add: put_field_def bit_simps bit_numeral_rec)

text \<open>The voltage table as a table of the core: 64 entries, so every field value is an index.\<close>

lemma act_table: "length act_buck_voltage_map = 64" "sorted act_buck_voltage_map" "distinct act_buck_voltage_map"
  "hd act_buck_voltage_map = 600" "act_buck_voltage_map \<noteq> []"
  by (simp_all add: act_buck_voltage_map_def)

lemma act_ldo_table: "act_ldo_voltage_map = act_buck_voltage_map"
  by (simp only: act_ldo_voltage_map_def act_buck_voltage_map_def)

lemma act_table_ends: "act_buck_voltage_map ! 0 = hd act_buck_voltage_map"
  "act_buck_voltage_map ! 63 = last act_buck_voltage_map"
  using act_table by (simp_all add: hd_conv_nth last_conv_nth)

lemma act_take: "take 64 act_buck_voltage_map = act_buck_voltage_map"
  using act_table(1) by simp

lemma act_dcdc_set_eq:
  assumes "i \<in> {0..3}"
  shows "act8846_dcdc_set_voltage rm d i lo hi =
    (if lo sdiv 1000 < hd act_buck_voltage_map \<or> last act_buck_voltage_map < lo sdiv 1000 then Some (- EINVAL, d)
     else Some (0, snd (rm_update_bits rm d (act_buck_reg i) 0x3f
       (word_of_nat (vol_scan act_buck_voltage_map (lo sdiv 1000))))))"
  using assms by (simp add: act8846_dcdc_set_voltage_def act_buck_aref act_table_ends act_take Let_def)

lemma mask6_32: "(0x3f :: u32) = mask 6"
  by (simp add: mask_eq_exp_minus_1)

lemma fits_3f_32: "k < 64 \<Longrightarrow> fits (0x3f :: u32) (word_of_nat k)"
proof (rule fitsI)
  fix j assume k: "k < 64" and j: "bit (word_of_nat k :: u32) j"
  then have "bit (take_bit 6 k) j" by (simp add: bit_simps take_bit_nat_eq_self)
  then show "bit (0x3f :: u32) j" by (simp add: mask6_32 bit_simps)
qed

context act8846_dev
begin

lemma act_update: "fits m v \<Longrightarrow>
    \<exists>d'. rm_update_bits rm d r m v = (0, d') \<and> reg d' = (reg d)(r := put_field (reg d r) m v)"
  by (rule rm_update_fits) simp

lemma act_read: "rm_read rm d r = (0, Some (reg d r), d)"
  by (rule rm_read) simp

lemma act_request:
  assumes "i \<in> {0..11}"
  shows "\<exists>d'. (if b then act8846_enable rm d i else act8846_disable rm d i) = Some (0, d') \<and>
    (\<forall>j \<in> {0..11}. act_on reg d' j = (if j = i then b else act_on reg d j))"
proof -
  have f: "fits (0x80 :: u32) (if b then 0x80 else 0)" by simp
  obtain d' where d': "rm_update_bits rm d (act_contr i) 0x80 (if b then 0x80 else 0) = (0, d')"
    "reg d' = (reg d)(act_contr i := put_field (reg d (act_contr i)) 0x80 (if b then 0x80 else 0))"
    using act_update [OF f] by blast
  then have "\<forall>j \<in> {0..11}. act_on reg d' j = (if j = i then b else act_on reg d j)"
    using assms by (cases b) (auto simp: act_on_def act_contr_inj put_bit7)
  with d'(1) assms show ?thesis by (cases b) (auto simp: act_switch_calls)
qed

lemma act_get_eq:
  assumes "i \<in> {0..3}"
  shows "act8846_dcdc_get_voltage rm d i =
    Some (1000 * act_buck_voltage_map ! unat (reg d (act_buck_reg i) AND 0x3f), d)"
proof -
  define w where "w = reg d (act_buck_reg i) AND 0x3f"
  have "w \<le> 0x3f" unfolding w_def by (rule word_and_le1)
  then have "uint w \<le> 63" by (simp add: word_le_def)
  then have "aref act_buck_voltage_map (uint w) = Some (act_buck_voltage_map ! unat w)"
    by (simp add: aref_def act_table(1))
  with assms show ?thesis
    by (simp add: act8846_dcdc_get_voltage_def act_buck_aref act_read w_def)
qed

end

sublocale act8846_dev \<subseteq> act_switch: regulator_switch "\<lambda>_. True" "{0..11}" "act_on reg"
  "act8846_enable rm" "act8846_disable rm" "act8846_is_enabled rm"
proof unfold_locales
  fix s :: 'd and i :: int assume "i \<in> {0..11}"
  then show "\<exists>s'. act8846_enable rm s i = Some (0, s') \<and> True \<and>
      (\<forall>j \<in> {0..11}. act_on reg s' j = (j = i \<or> act_on reg s j))"
    using act_request [of i True s] by auto
next
  fix s :: 'd and i :: int assume "i \<in> {0..11}"
  then show "\<exists>s'. act8846_disable rm s i = Some (0, s') \<and> True \<and>
      (\<forall>j \<in> {0..11}. act_on reg s' j = (j \<noteq> i \<and> act_on reg s j))"
    using act_request [of i False s] by auto
next
  fix s :: 'd and i :: int assume "i \<in> {0..11}"
  then show "act8846_is_enabled rm s i = Some (if act_on reg s i then 1 else 0, s)"
    by (simp only: act_switch_calls act_read Let_def case_prod_conv bind.bind_lunit bit7_test act_on_def)
qed

sublocale act8846_dev \<subseteq> act_buck: regulator_voltage "\<lambda>_. True" "{0..3}" "\<lambda>_. act_buck_voltage_map"
  "act8846_dcdc_set_voltage rm" "act8846_dcdc_get_voltage rm"
proof unfold_locales
  show "act_buck_voltage_map \<noteq> [] \<and> sorted act_buck_voltage_map \<and> distinct act_buck_voltage_map \<and>
      0 < hd act_buck_voltage_map"
    using act_table by simp
next
  fix s :: 'd and i lo hi :: int
  assume i: "i \<in> {0..3}" and u: "uV_served act_buck_voltage_map lo hi"
  let ?k = "vol_scan act_buck_voltage_map (lo sdiv 1000)"
  have k: "?k < 64" using u vol_scan_found act_table(1,5) by (metis uV_served_def)
  obtain s' where s': "rm_update_bits rm s (act_buck_reg i) 0x3f (word_of_nat ?k) = (0, s')"
    "reg s' = (reg s)(act_buck_reg i := put_field (reg s (act_buck_reg i)) 0x3f (word_of_nat ?k))"
    using act_update [OF fits_3f_32 [OF k]] by blast
  have "unat (word_of_nat ?k :: u32) = ?k" using k by (simp add: unsigned_of_nat take_bit_nat_eq_self)
  then have "act8846_dcdc_get_voltage rm s' i = Some (1000 * act_buck_voltage_map ! ?k, s')"
    using i by (simp only: act_get_eq s'(2) fun_upd_same put_field_masked [OF fits_3f_32 [OF k]])
  moreover have "act8846_dcdc_set_voltage rm s i lo hi = Some (0, s')"
    using u i s'(1) by (simp add: act_dcdc_set_eq uV_served_def)
  moreover have "\<forall>j \<in> {0..3}. j \<noteq> i \<longrightarrow>
      map_option fst (act8846_dcdc_get_voltage rm s' j) = map_option fst (act8846_dcdc_get_voltage rm s j)"
    using i by (auto simp: act_get_eq s'(2) act_buck_reg_inj)
  ultimately show "\<exists>s'. act8846_dcdc_set_voltage rm s i lo hi = Some (0, s') \<and> True \<and>
      act8846_dcdc_get_voltage rm s' i = Some (1000 * act_buck_voltage_map ! ?k, s') \<and>
      (\<forall>j \<in> {0..3}. j \<noteq> i \<longrightarrow>
        map_option fst (act8846_dcdc_get_voltage rm s' j) = map_option fst (act8846_dcdc_get_voltage rm s j))"
    by blast
next
  fix s :: 'd and i lo hi :: int
  assume "i \<in> {0..3}" "lo sdiv 1000 < hd act_buck_voltage_map \<or> last act_buck_voltage_map < lo sdiv 1000"
  then show "act8846_dcdc_set_voltage rm s i lo hi = Some (- EINVAL, s)"
    by (simp add: act_dcdc_set_eq)
qed

context act8846_dev
begin

lemma act_switch_reports: "fst ` set qs \<subseteq> {0..11} \<Longrightarrow> i \<in> {0..11} \<Longrightarrow>
    \<exists>d'. switch_run (act8846_enable rm) (act8846_disable rm) d qs = Some d' \<and>
      act8846_is_enabled rm d' i = Some (if switch_spec (act_on reg d) qs i then 1 else 0, d')"
  using act_switch.run_reports by simp

lemma act_buck_least:
  assumes "i \<in> {0..3}" "uV_served act_buck_voltage_map lo hi"
  shows "\<exists>d' v. act8846_dcdc_set_voltage rm d i lo hi = Some (0, d') \<and>
    act8846_dcdc_get_voltage rm d' i = Some (1000 * v, d') \<and>
    v \<in> set act_buck_voltage_map \<and> lo sdiv 1000 \<le> v \<and> v \<le> hi sdiv 1000 \<and>
    (\<forall>w \<in> set act_buck_voltage_map. lo sdiv 1000 \<le> w \<longrightarrow> v \<le> w) \<and>
    (\<forall>j \<in> {0..3}. j \<noteq> i \<longrightarrow>
      map_option fst (act8846_dcdc_get_voltage rm d' j) = map_option fst (act8846_dcdc_get_voltage rm d j))"
  using act_buck.set_least [OF _ assms, of d] act_buck.set_ok [OF _ assms, of d] by fastforce

lemma act_ldo_set:
  assumes "i \<in> {4..11}" "uV_served act_ldo_voltage_map lo hi"
  shows "\<exists>d'. act8846_ldo_set_voltage rm d i lo hi = Some (0, d') \<and>
    unat (reg d' (act_ldo_set_vol_base_addr ! nat (i - 4)) AND 0x3f) = vol_scan act_ldo_voltage_map (lo sdiv 1000) \<and>
    (\<forall>r. r \<noteq> act_ldo_set_vol_base_addr ! nat (i - 4) \<longrightarrow> reg d' r = reg d r)"
proof -
  let ?k = "vol_scan act_ldo_voltage_map (lo sdiv 1000)" and ?r = "act_ldo_set_vol_base_addr ! nat (i - 4)"
  have k: "?k < 64"
    using assms(2) vol_scan_found [of act_ldo_voltage_map "lo sdiv 1000"] act_table(1,5)
    by (simp add: uV_served_def act_ldo_table)
  have r: "aref act_ldo_set_vol_base_addr (i - 4) = Some ?r"
    using assms(1) by (simp add: aref_def act_ldo_set_vol_base_addr_def)
  obtain d' where d': "rm_update_bits rm d ?r 0x3f (word_of_nat ?k) = (0, d')"
    "reg d' = (reg d)(?r := put_field (reg d ?r) 0x3f (word_of_nat ?k))"
    using act_update [OF fits_3f_32 [OF k]] by blast
  have "unat (word_of_nat ?k :: u32) = ?k" using k by (simp add: unsigned_of_nat take_bit_nat_eq_self)
  then have "unat (reg d' ?r AND 0x3f) = ?k"
    by (simp only: d'(2) fun_upd_same put_field_masked [OF fits_3f_32 [OF k]])
  moreover have "act8846_ldo_set_voltage rm d i lo hi = Some (0, d')"
    using assms(2) r d'(1)
    by (simp add: act8846_ldo_set_voltage_def uV_served_def act_ldo_table act_table_ends act_take Let_def)
  ultimately show ?thesis using d'(2) by auto
qed

lemma act_ldo_refuse:
  assumes "i \<in> {4..11}" "\<not> uV_served act_ldo_voltage_map lo hi"
  shows "act8846_ldo_set_voltage rm d i lo hi = Some (- EINVAL, d)"
  using assms by (auto simp: act8846_ldo_set_voltage_def uV_served_def act_ldo_table act_table_ends act_take Let_def)

lemma act_mode_get:
  assumes "i \<in> {0..3}" "m \<in> {MODE_NORMAL, MODE_STANDBY}"
  shows "\<exists>d'. act8846_dcdc_set_mode rm d i m = Some (0, d') \<and>
    map_option fst (act8846_dcdc_get_mode rm d' i) = map_option fst (act8846_dcdc_get_mode rm d i)"
proof -
  let ?v = "if m = MODE_NORMAL then 0x80 else 0 :: u32"
  have f: "fits 0x80 ?v" by simp
  obtain d' where d': "rm_update_bits rm d (act_contr i) 0x80 ?v = (0, d')"
    "reg d' = (reg d)(act_contr i := put_field (reg d (act_contr i)) 0x80 ?v)"
    using act_update [OF f] by blast
  have "(0x08 :: u32) AND 0x80 = 0" by simp
  from put_field_outside [OF f this] have "reg d' (act_contr i) AND 0x08 = reg d (act_contr i) AND 0x08"
    by (simp only: d'(2) fun_upd_same)
  then have "map_option fst (act8846_dcdc_get_mode rm d' i) = map_option fst (act8846_dcdc_get_mode rm d i)"
    using assms(1) by (simp add: act8846_dcdc_get_mode_def act_buck_aref act_read)
  moreover have "act8846_dcdc_set_mode rm d i m = Some (0, d')"
    using assms d'(1) by (auto simp: act8846_dcdc_set_mode_def act_buck_aref split: if_splits)
  ultimately show ?thesis by blast
qed

end

lemma act_mode_calls:
  assumes "i \<in> {0..11}"
  shows "act8846_set_mode rm d i MODE_STANDBY = act8846_disable rm d i"
    and "act8846_set_mode rm d i MODE_NORMAL = act8846_enable rm d i"
  using assms act_regulators_aref [of i]
  by (auto simp: act8846_set_mode_def act_switch_calls act8846_dcdc_set_mode_def act8846_ldo_set_mode_def act_buck_aref)

subsection \<open>The probe\<close>

definition act_rail :: "act_env \<Rightarrow> nat \<Rightarrow> string" where
  "act_rail env i = (case ae_init_data env ! i of Some (Some n) \<Rightarrow> n | _ \<Rightarrow> ad_name (act8846_regulators ! i))"

lemma register_loop_events:
  "fst (act8846_register_loop env rid is rdev) =
    map (\<lambda>i. Register i (case rid ! i of Some (Some n) \<Rightarrow> n | _ \<Rightarrow> ad_name (act8846_regulators ! i)))
      (filter (\<lambda>i. rid ! i \<noteq> None) is)"
  by (induction env rid "is" rdev rule: act8846_register_loop.induct)
    (auto simp: Let_def split: option.split prod.split)

text \<open>The services succeed, and the device tree node matches \<open>n\<close> entries of the table.\<close>

definition act_env_ok :: "act_env \<Rightarrow> nat \<Rightarrow> bool" where
  "act_env_ok env n \<longleftrightarrow> ae_of_node env \<and> ae_of_match env \<and> ae_chip_alloc env \<and> ae_regmap_init env = 0 \<and>
     ae_regulators_np env \<and> ae_match_count env = int n \<and> n \<le> 13 \<and> length (ae_init_data env) = 13 \<and>
     ae_pdata_alloc env \<and> ae_rdev_alloc env \<and> (\<forall>k \<in> {0, 1}. 0 \<le> ae_gpio_request env (ae_gpio env k))"

lemma pin_some: "0 \<le> ae_gpio_request env g \<Longrightarrow> \<exists>ev. act8846_pin env g = Some ev \<and> (\<forall>i s. Register i s \<notin> set ev)"
  by (auto simp: act8846_pin_def)

definition registered :: "act_event list \<Rightarrow> (nat \<times> string) list" where
  "registered log = List.map_filter (\<lambda>e. case e of Register i s \<Rightarrow> Some (i, s) | _ \<Rightarrow> None) log"

lemma registered_append: "registered (xs @ ys) = registered xs @ registered ys"
  by (simp add: registered_def List.map_filter_def)

lemma registered_none: "\<forall>i s. Register i s \<notin> set ev \<Longrightarrow> registered ev = []"
proof (induction ev)
  case Nil
  then show ?case by (simp add: registered_def List.map_filter_def)
next
  case (Cons e ev)
  then show ?case by (cases e) (auto simp: registered_def List.map_filter_def)
qed

lemma registered_map: "registered (map (\<lambda>i. Register i (f i)) xs) = map (\<lambda>i. (i, f i)) xs"
  by (induction xs) (simp_all add: registered_def List.map_filter_def)

lemma rid_filter:
  "n \<le> 13 \<Longrightarrow> filter (\<lambda>i. map (\<lambda>i. if i < n then xs ! i else None) [0..<13] ! i \<noteq> None) [0..<13] =
    filter (\<lambda>i. i < n \<and> xs ! i \<noteq> None) [0..<13 :: nat]"
  by (rule filter_cong) auto

lemma probe_registers:
  assumes "act_env_ok env n" "0 \<le> fst (rm_write rm (snd (snd (rm_read rm d 0x22))) 0xf4 1)"
  shows "\<exists>log chip d'. act8846_i2c_probe rm env d = Some (0, log, Some chip, d') \<and>
    registered log = map (\<lambda>i. (i, act_rail env i)) (filter (\<lambda>i. i < n \<and> ae_init_data env ! i \<noteq> None) [0..<13])"
proof -
  let ?rid = "map (\<lambda>i. if i < n then ae_init_data env ! i else None) [0..<13]"
  obtain ret v d1 where rd: "rm_read rm d 0x22 = (ret, v, d1)" by (cases "rm_read rm d 0x22")
  obtain w d2 where wr: "rm_write rm d1 0xf4 1 = (w, d2)" "0 \<le> w"
    using assms(2) rd by (cases "rm_write rm d1 0xf4 1") simp
  obtain h where h: "act8846_pin env (ae_gpio env 1) = Some h" "\<forall>i s. Register i s \<notin> set h"
    using pin_some [of env "ae_gpio env 1"] assms(1) by (auto simp: act_env_ok_def)
  obtain sl where sl: "act8846_pin env (ae_gpio env 0) = Some sl" "\<forall>i s. Register i s \<notin> set sl"
    using pin_some [of env "ae_gpio env 0"] assms(1) by (auto simp: act_env_ok_def)
  obtain ev rdev where ev: "act8846_register_loop env ?rid [0..<13] (replicate 13 None) = (ev, rdev)" by fastforce
  have dt: "act8846_parse_dt env = Some \<lparr>ab_rid = ?rid, ab_sleep_gpio = ae_gpio env 0,
      ab_hold_gpio = ae_gpio env 1, ab_sleep = True\<rparr>"
    using assms(1) by (simp add: act8846_parse_dt_def act_env_ok_def del: upt_conv_Cons)
  have n: "n \<le> 13" using assms(1) by (simp add: act_env_ok_def)
  have "ev = map (\<lambda>i. Register i (case ?rid ! i of Some (Some n) \<Rightarrow> n | _ \<Rightarrow> ad_name (act8846_regulators ! i)))
      (filter (\<lambda>i. ?rid ! i \<noteq> None) [0..<13])"
    using register_loop_events [of env ?rid "[0..<13]" "replicate 13 None"] ev by simp
  then have "registered ev = map (\<lambda>i. (i, case ?rid ! i of Some (Some n) \<Rightarrow> n | _ \<Rightarrow> ad_name (act8846_regulators ! i)))
      (filter (\<lambda>i. i < n \<and> ae_init_data env ! i \<noteq> None) [0..<13])"
    by (simp only: registered_map rid_filter [OF n])
  also have "\<dots> = map (\<lambda>i. (i, act_rail env i)) (filter (\<lambda>i. i < n \<and> ae_init_data env ! i \<noteq> None) [0..<13])"
    by (rule map_cong) (use n in \<open>auto simp: act_rail_def\<close>)
  finally have reg: "registered ev = \<dots>" .
  have "registered (Reg_write 0xf4 1 # h @ sl @ ev) = registered ev"
    using registered_append [of "[Reg_write 0xf4 1]" "h @ sl @ ev"] h(2) sl(2)
    by (simp add: registered_append registered_none)
  moreover have "act8846_i2c_probe rm env d = Some (0, Reg_write 0xf4 1 # h @ sl @ ev,
      Some \<lparr>ac_num_regulators = 13, ac_rdev = rdev, ac_sleep_gpio = ae_gpio env 0, ac_hold_gpio = ae_gpio env 1\<rparr>, d2)"
    using assms(1) rd wr h(1) sl(1) ev dt
    by (simp add: act8846_i2c_probe_def act_env_ok_def del: upt_conv_Cons upt_rec_numeral)
  ultimately show ?thesis using reg by auto
qed

subsection \<open>Properties\<close>

text \<open>The switches of the four ACT8846 bucks and of LDO1 to LDO8 are independent: after any
  sequence of enable and disable calls through the operation tables, each returned 0 and
  \<^verbatim>\<open>is_enabled\<close> of every regulator reports its last request (its initial state if it had
  none).\<close>
theorem act8846_switches:
  assumes "act8846_dev rm reg" "fst ` set qs \<subseteq> {0..11}" "i \<in> {0..11}"
  shows "\<exists>d'. switch_run (act8846_enable rm) (act8846_disable rm) d qs = Some d' \<and>
    act8846_is_enabled rm d' i = Some (if switch_spec (act_on reg d) qs i then 1 else 0, d')"
  by (rule act8846_dev.act_switch_reports [OF assms])

theorem act8846_switches_witness:
  "\<exists>d'. switch_run (act8846_enable mem_regmap) (act8846_disable mem_regmap) (\<lambda>_. 0) [(3, True), (11, True), (3, False)] = Some d' \<and>
    act8846_is_enabled mem_regmap d' 11 = Some (1, d')"
  using act8846_switches [OF mem_act.act8846_dev_axioms, of "[(3, True), (11, True), (3, False)]" 11 "\<lambda>_. 0"] by simp

text \<open>Setting the voltage of an ACT8846 buck to a range its table can serve programs the
  least table voltage at or above the lower bound, which \<^verbatim>\<open>get_voltage\<close> reports, and leaves
  the reported voltages of the other bucks as they were.\<close>
theorem act8846_buck_voltage:
  assumes "act8846_dev rm reg" "i \<in> {0..3}" "uV_served act_buck_voltage_map lo hi"
  shows "\<exists>d' v. act8846_dcdc_set_voltage rm d i lo hi = Some (0, d') \<and>
    act8846_dcdc_get_voltage rm d' i = Some (1000 * v, d') \<and>
    v \<in> set act_buck_voltage_map \<and> lo sdiv 1000 \<le> v \<and> v \<le> hi sdiv 1000 \<and>
    (\<forall>w \<in> set act_buck_voltage_map. lo sdiv 1000 \<le> w \<longrightarrow> v \<le> w) \<and>
    (\<forall>j \<in> {0..3}. j \<noteq> i \<longrightarrow>
      map_option fst (act8846_dcdc_get_voltage rm d' j) = map_option fst (act8846_dcdc_get_voltage rm d j))"
  by (rule act8846_dev.act_buck_least [OF assms])

theorem act8846_buck_voltage_witness:
  "\<exists>d' v. act8846_dcdc_set_voltage mem_regmap (\<lambda>_. 0) 2 1210000 1300000 = Some (0, d') \<and>
    act8846_dcdc_get_voltage mem_regmap d' 2 = Some (1000 * v, d') \<and> 1210 \<le> v \<and> v \<le> 1300"
proof -
  have "(1210000 :: int) sdiv 1000 = 1210" "(1300000 :: int) sdiv 1000 = 1300" by (simp_all add: sdiv_nonneg)
  moreover have "uV_served act_buck_voltage_map 1210000 1300000"
    using calculation by (simp add: uV_served_def act_buck_voltage_map_def)
  ultimately show ?thesis
    using act8846_buck_voltage [OF mem_act.act8846_dev_axioms, of 2 1210000 1300000 "\<lambda>_. 0"] by force
qed

text \<open>LDO1 to LDO8 of the ACT8846: a request the table can serve stores the index of the least
  sufficient voltage in the regulator's own register and nothing else changes, any other
  request is refused with -EINVAL and no write, and \<^verbatim>\<open>get_voltage\<close> is undefined on every chip
  (it indexes the table with a variable nothing assigned).\<close>
theorem act8846_ldo_voltage:
  assumes "act8846_dev rm reg" "i \<in> {4..11}"
  shows "(if uV_served act_ldo_voltage_map lo hi
     then \<exists>d'. act8846_ldo_set_voltage rm d i lo hi = Some (0, d') \<and>
       unat (reg d' (act_ldo_set_vol_base_addr ! nat (i - 4)) AND 0x3f) = vol_scan act_ldo_voltage_map (lo sdiv 1000) \<and>
       (\<forall>r. r \<noteq> act_ldo_set_vol_base_addr ! nat (i - 4) \<longrightarrow> reg d' r = reg d r)
     else act8846_ldo_set_voltage rm d i lo hi = Some (- EINVAL, d)) \<and>
    act8846_ldo_get_voltage rm d i = None"
proof -
  have "act8846_ldo_get_voltage rm d i = None"
    by (simp add: act8846_ldo_get_voltage_def bind_eq_None_conv split: prod.split)
  then show ?thesis
    using act8846_dev.act_ldo_set [OF assms] act8846_dev.act_ldo_refuse [OF assms] by simp
qed

theorem act8846_ldo_voltage_witness:
  "act8846_ldo_set_voltage mem_regmap (\<lambda>_. 0) 5 4000000 5000000 = Some (- EINVAL, \<lambda>_. 0) \<and>
   act8846_ldo_get_voltage mem_regmap (\<lambda>_. 0) 5 = None"
proof -
  have "\<not> uV_served act_ldo_voltage_map 4000000 5000000"
    by (simp add: uV_served_def sdiv_nonneg act_ldo_voltage_map_def)
  then show ?thesis
    using act8846_ldo_voltage [OF mem_act.act8846_dev_axioms, of 5 4000000 5000000 "\<lambda>_. 0"] by simp
qed

text \<open>The operating mode of the ACT8846 regulators is their on/off switch: \<^verbatim>\<open>set_mode\<close> writes
  bit 7 of the control register, the enable bit, so standby turns the regulator off and
  normal turns it on, while \<^verbatim>\<open>get_mode\<close> of a buck reads bit 3 and never sees the change.\<close>
theorem act8846_mode_is_switch:
  assumes "act8846_dev rm reg" "i \<in> {0..11}" "m \<in> {MODE_NORMAL, MODE_STANDBY}"
  shows "\<exists>d'. act8846_set_mode rm d i m = Some (0, d') \<and>
    act8846_is_enabled rm d' i = Some (if m = MODE_NORMAL then 1 else 0, d') \<and>
    (i \<le> 3 \<longrightarrow> map_option fst (act8846_dcdc_get_mode rm d' i) = map_option fst (act8846_dcdc_get_mode rm d i))"
proof -
  have q: "fst ` set [(i, m = MODE_NORMAL)] \<subseteq> {0..11}" using assms(2) by simp
  obtain d' where d': "act8846_set_mode rm d i m = Some (0, d')"
    "act8846_is_enabled rm d' i = Some (if m = MODE_NORMAL then 1 else 0, d')"
    using act8846_dev.act_switch_reports [OF assms(1) q assms(2), of d] assms(2,3)
    by (auto simp: act_mode_calls split: option.splits if_splits bind_splits)
  moreover have "map_option fst (act8846_dcdc_get_mode rm d' i) = map_option fst (act8846_dcdc_get_mode rm d i)"
    if "i \<le> 3"
  proof -
    have i: "i \<in> {0..3}" using that assms(2) by simp
    moreover have "act8846_set_mode rm d i m = act8846_dcdc_set_mode rm d i m"
      using i act_regulators_aref [of i] by (auto simp: act8846_set_mode_def)
    ultimately show ?thesis using act8846_dev.act_mode_get [OF assms(1) i assms(3), of d] d'(1) by auto
  qed
  ultimately show ?thesis by blast
qed

theorem act8846_mode_is_switch_witness:
  "\<exists>d'. act8846_set_mode mem_regmap (\<lambda>_. 0x80) 1 MODE_STANDBY = Some (0, d') \<and>
    act8846_is_enabled mem_regmap d' 1 = Some (0, d')"
  using act8846_mode_is_switch [OF mem_act.act8846_dev_axioms, of 1 MODE_STANDBY "\<lambda>_. 0x80"] by auto

text \<open>With the services answering, the ACT8846 probe returns 0 and registers, in table order
  and under their rail names, the regulators with init data among the first \<open>n\<close> entries of
  the match table, where \<open>n\<close> is the number of entries the device tree matched: when an
  earlier entry is missing from the device tree, the last ones present are not registered.\<close>
theorem act8846_probe_registers:
  assumes "act_env_ok env n" "0 \<le> fst (rm_write rm (snd (snd (rm_read rm d 0x22))) 0xf4 1)"
  shows "\<exists>log chip d'. act8846_i2c_probe rm env d = Some (0, log, Some chip, d') \<and>
    registered log = map (\<lambda>i. (i, act_rail env i)) (filter (\<lambda>i. i < n \<and> ae_init_data env ! i \<noteq> None) [0..<13])"
  by (rule probe_registers [OF assms])

definition act_demo_env :: act_env where
  "act_demo_env = \<lparr>ae_of_node = True, ae_of_match = True, ae_chip_alloc = True, ae_regmap_init = 0,
     ae_regulators_np = True, ae_match_count = 2,
     ae_init_data = [Some (Some ''vdd_arm''), None, Some None] @ replicate 10 None,
     ae_pdata_alloc = True, ae_gpio = (\<lambda>n. 7), ae_gpio_request = (\<lambda>g. 0), ae_rdev_alloc = True,
     ae_register_ok = (\<lambda>i. True)\<rparr>"

theorem act8846_probe_registers_witness:
  "\<exists>log chip d'. act8846_i2c_probe mem_regmap act_demo_env (\<lambda>_. 0) = Some (0, log, Some chip, d') \<and>
    registered log = [(0, ''vdd_arm'')]"
proof -
  have "act_env_ok act_demo_env 2" by (simp add: act_env_ok_def act_demo_env_def)
  from act8846_probe_registers [OF this, of mem_regmap "\<lambda>_. 0"]
  show ?thesis by (simp add: mem_regmap_def act_demo_env_def act_rail_def upt_rec numeral_eq_Suc)
qed

end
