(* ===== verification/Text_Io.thy ===== *)
theory Text_Io
  imports Prelude
begin

text \<open>
  Numbers as text: what \<^verbatim>\<open>%d\<close> and \<^verbatim>\<open>%x\<close> print, what the kernel's \<^verbatim>\<open>simple_strtoul\<close> and \<^verbatim>\<open>sscanf\<close>
  read, and that reading gives back what was printed.
\<close>

definition hexit :: "nat \<Rightarrow> char" where
  "hexit d = char_of (if d < 10 then 48 + d else 87 + d)"

fun num_text :: "nat \<Rightarrow> nat \<Rightarrow> string" where
  "num_text b n = (if n < b \<or> b < 2 then [] else num_text b (n div b)) @ [hexit (n mod b)]"

declare num_text.simps [simp del]

text \<open>\<^verbatim>\<open>%d\<close>, \<^verbatim>\<open>%x\<close>, and padding on the right as in \<^verbatim>\<open>%-24s\<close>.\<close>

definition fmt_d :: "int \<Rightarrow> string" where
  "fmt_d i = (if i < 0 then CHR ''-'' # num_text 10 (nat (- i)) else num_text 10 (nat i))"

definition fmt_x :: "'a::len word \<Rightarrow> string" where
  "fmt_x w = num_text 16 (unat w)"

definition fmt_left :: "nat \<Rightarrow> string \<Rightarrow> string" where
  "fmt_left w s = s @ replicate (w - length s) CHR '' ''"

definition newline :: string where
  "newline = [char_of (10 :: nat)]"

lemma newline_eq: "newline = [CHR 0x0A]"
  by code_simp

subsection \<open>Reading\<close>

definition digit_value :: "char \<Rightarrow> nat" where
  "digit_value c = (let n = of_char c in
     if 48 \<le> n \<and> n \<le> 57 then n - 48 else if 97 \<le> n \<and> n \<le> 102 then n - 87 else if 65 \<le> n \<and> n \<le> 70 then n - 55 else 16)"

fun read_digits :: "nat \<Rightarrow> nat \<Rightarrow> string \<Rightarrow> nat" where
  "read_digits b acc [] = acc"
| "read_digits b acc (c # cs) = (if digit_value c < b then read_digits b (acc * b + digit_value c) cs else acc)"

text \<open>With base 16 a leading 0x is skipped; the value wraps at the width of a long (64).\<close>

definition simple_strtoul :: "nat \<Rightarrow> string \<Rightarrow> 64 word" where
  "simple_strtoul b s = (let s = (if b = 16 \<and> take 2 s \<in> {''0x'', ''0X''} then drop 2 s else s)
     in word_of_nat (read_digits b 0 s))"

lemma of_char_hexit: "d < 16 \<Longrightarrow> of_char (hexit d) = (if d < 10 then 48 + d else 87 + d :: nat)"
  by (simp add: hexit_def)

lemma digit_hexit [simp]: "d < 16 \<Longrightarrow> digit_value (hexit d) = d"
  by (simp add: digit_value_def of_char_hexit)

lemma read_digits_append:
  "list_all (\<lambda>c. digit_value c < b) xs \<Longrightarrow> read_digits b acc (xs @ ys) = read_digits b (read_digits b acc xs) ys"
  by (induction b acc xs rule: read_digits.induct) auto

lemma num_text_digits: "2 \<le> b \<Longrightarrow> b \<le> 16 \<Longrightarrow> list_all (\<lambda>c. digit_value c < b) (num_text b n)"
proof (induction b n rule: num_text.induct)
  case (1 b n)
  have "n mod b < b" using 1 by simp
  moreover from calculation have "digit_value (hexit (n mod b)) = n mod b" using 1 by (intro digit_hexit) linarith
  ultimately show ?case using 1 by (subst num_text.simps) simp
qed

lemma read_num_text: "2 \<le> b \<Longrightarrow> b \<le> 16 \<Longrightarrow> read_digits b 0 (num_text b n) = n"
proof (induction b n rule: num_text.induct)
  case (1 b n)
  have m: "n mod b < b" using 1 by simp
  then have d: "digit_value (hexit (n mod b)) = n mod b" using "1.prems" by (intro digit_hexit) linarith
  show ?case
  proof (cases "n < b")
    case True
    with m d 1 show ?thesis by (subst num_text.simps) simp
  next
    case False
    with m d 1 show ?thesis
      by (subst num_text.simps) (simp add: read_digits_append num_text_digits)
  qed
qed

lemma read_num_text_line:
  "2 \<le> b \<Longrightarrow> b \<le> 16 \<Longrightarrow> (ys \<noteq> [] \<longrightarrow> b \<le> digit_value (hd ys)) \<Longrightarrow> read_digits b 0 (num_text b n @ ys) = n"
  by (cases ys) (simp_all add: read_digits_append num_text_digits read_num_text)

lemma num_text_ne [simp]: "num_text b n \<noteq> []"
  by (subst num_text.simps) simp

lemma num_text_no_x: "2 \<le> b \<Longrightarrow> b \<le> 16 \<Longrightarrow> i < length (num_text b n) \<Longrightarrow> digit_value (num_text b n ! i) < b"
  using num_text_digits [of b n] by (simp add: list_all_length)

lemma strtoul_num_text:
  assumes "2 \<le> b" "b \<le> 16" "ys \<noteq> [] \<longrightarrow> b \<le> digit_value (hd ys)" "take 1 ys \<notin> {''x'', ''X''}"
  shows "simple_strtoul b (num_text b n @ ys) = word_of_nat n"
proof -
  let ?s = "num_text b n @ ys"
  have "?s ! 1 \<noteq> CHR ''x'' \<and> ?s ! 1 \<noteq> CHR ''X''" if l: "1 < length ?s"
  proof (cases "1 < length (num_text b n)")
    case True
    have "digit_value CHR ''x'' = 16" "digit_value CHR ''X'' = 16" by (simp_all add: digit_value_def)
    moreover have "digit_value (num_text b n ! 1) < b" using num_text_no_x [OF assms(1,2) True] .
    ultimately show ?thesis using True assms(2) by (auto simp: nth_append)
  next
    case False
    then have "length (num_text b n) = 1" by (metis One_nat_def Suc_lessI length_greater_0_conv num_text_ne)
    then show ?thesis using l assms(4) by (cases ys) (auto simp: nth_append)
  qed
  then have "take 2 ?s \<notin> {''0x'', ''0X''}"
    by (cases ?s rule: remdups_adj.cases) auto
  then show ?thesis using read_num_text_line [OF assms(1-3)] by (auto simp: simple_strtoul_def Let_def)
qed

end
