(* ===== verification/Consumers.thy ===== *)
theory Consumers
  imports Rk818_Props Act8846_Props Text_Io
begin

text \<open>
  The consumer drivers \<^verbatim>\<open>regulator.c\<close>, \<^verbatim>\<open>consumer1.c\<close>, \<^verbatim>\<open>consumer2.c\<close> and \<^verbatim>\<open>rk818_test.c\<close> of
  \<^verbatim>\<open>rk3288/debug/regulator\<close>: four copies of one driver with other names, modelled once. Its
  probe gets a supply and enables it, its removal disables it. The kernel's regulator core,
  between the consumers and the chips' drivers, is a parameter with its documented contract: it
  counts the uses of a regulator and switches the chip with the first and after the last.
  The log, in which removal prints a variable that is never set, is left out.
\<close>

subsection \<open>The driver\<close>

text \<open>What the calls of probe return.\<close>

record consumer_calls =
  cc_functionality :: bool
  cc_get :: bool
  cc_kzalloc :: bool
  cc_sysfs :: int

text \<open>The result, and whether the driver's structure is allocated.\<close>

definition consumer_probe :: "('k \<Rightarrow> (int \<times> 'k) option) \<Rightarrow> consumer_calls \<Rightarrow> 'k \<Rightarrow> (int \<times> bool \<times> 'k) option" where
  "consumer_probe regulator_enable c k =
     (if \<not> cc_functionality c then Some (- ENODEV, False, k)
      else if \<not> cc_get c then Some (- 1, False, k)
      else if \<not> cc_kzalloc c then Some (- ENOMEM, False, k)
      else if cc_sysfs c \<noteq> 0 then Some (- 1, True, k)
      else do { (ret, k) \<leftarrow> regulator_enable k; Some (0, True, k) })"

definition consumer_remove :: "('k \<Rightarrow> (int \<times> 'k) option) \<Rightarrow> 'k \<Rightarrow> (int \<times> bool \<times> 'k) option" where
  "consumer_remove regulator_disable k = do { (ret, k) \<leftarrow> regulator_disable k; Some (0, False, k) }"

text \<open>
  The file takes the address of its parameter for the driver's member, so that the supply it
  switches is what happens to lie on the stack. Base 0 is octal after a 0, hexadecimal after 0x.
\<close>

definition strtoul_0 :: "string \<Rightarrow> 64 word" where
  "strtoul_0 s = simple_strtoul (if take 2 s \<in> {''0x'', ''0X''} then 16 else if take 1 s = ''0'' then 8 else 10) s"

definition consumer_debug_store :: "string \<Rightarrow> int option" where
  "consumer_debug_store buf = (let tmp = ucast (strtoul_0 buf) :: u32 in
     if tmp = 0 \<or> tmp = 1 then None else Some (int (length buf)))"

subsection \<open>Several consumers\<close>

text \<open>
  The driver core probes a device that is not bound, binds it when probe returns 0, and removes
  the driver of a bound one.
\<close>

datatype consumer_op = Probe nat consumer_calls | Remove nat

fun consumer_run where
  "consumer_run en dis k bound [] = Some (k, bound)"
| "consumer_run en dis k bound (Probe d c # ops) =
     (if d \<in> bound then consumer_run en dis k bound ops
      else do {
        (ret, _, k) \<leftarrow> consumer_probe en c k;
        consumer_run en dis k (if ret = 0 then insert d bound else bound) ops
      })"
| "consumer_run en dis k bound (Remove d # ops) =
     (if d \<notin> bound then consumer_run en dis k bound ops
      else do { (ret, _, k) \<leftarrow> consumer_remove dis k; consumer_run en dis k (bound - {d}) ops })"

text \<open>Which consumers are bound in the end.\<close>

definition probe_succeeds :: "consumer_calls \<Rightarrow> bool" where
  "probe_succeeds c \<longleftrightarrow> cc_functionality c \<and> cc_get c \<and> cc_kzalloc c \<and> cc_sysfs c = 0"

fun bound_after :: "consumer_op list \<Rightarrow> nat set \<Rightarrow> nat set" where
  "bound_after [] B = B"
| "bound_after (Probe d c # ops) B = bound_after ops (if probe_succeeds c then insert d B else B)"
| "bound_after (Remove d # ops) B = bound_after ops (B - {d})"

subsection \<open>The regulator core\<close>

text \<open>
  The contract of one regulator in the core: \<^verbatim>\<open>good k n\<close> says that in state k it is enabled n
  times, and switched on exactly if n is positive.
\<close>

locale supply_core =
  fixes good :: "'k \<Rightarrow> nat \<Rightarrow> bool"
    and reg_enable reg_disable :: "'k \<Rightarrow> (int \<times> 'k) option"
  assumes core_enable: "good k n \<Longrightarrow> \<exists>k'. reg_enable k = Some (0, k') \<and> good k' (Suc n)"
    and core_disable: "good k (Suc n) \<Longrightarrow> \<exists>k'. reg_disable k = Some (0, k') \<and> good k' n"
begin

lemma consumers_counted:
  "good k (card B) \<Longrightarrow> finite B \<Longrightarrow>
     \<exists>k'. consumer_run reg_enable reg_disable k B ops = Some (k', bound_after ops B) \<and>
       finite (bound_after ops B) \<and> good k' (card (bound_after ops B))"
proof (induction ops B arbitrary: k rule: bound_after.induct)
  case (2 d c ops B)
  show ?case
  proof (cases "d \<in> B \<or> \<not> probe_succeeds c")
    case True
    then show ?thesis using 2 by (auto simp: insert_absorb probe_succeeds_def consumer_probe_def)
  next
    case False
    obtain k' where "reg_enable k = Some (0, k')" "good k' (Suc (card B))" using core_enable 2 by blast
    with False 2 show ?thesis by (simp add: consumer_probe_def probe_succeeds_def)
  qed
next
  case (3 d ops B)
  show ?case
  proof (cases "d \<in> B")
    case True
    then have c: "card B = Suc (card (B - {d}))" using card_Suc_Diff1 [OF "3.prems"(2) True] by simp
    obtain k' where "reg_disable k = Some (0, k')" "good k' (card (B - {d}))"
      using core_disable [of k "card (B - {d})"] "3.prems"(1) c by auto
    with True "3.IH" [OF this(2)] "3.prems"(2) show ?thesis by (simp add: consumer_remove_def)
  qed (use 3 in simp)
qed simp

end

text \<open>
  The core over the operation table of a chip's driver: regulator i with its use count. A
  disable without a use is refused.
\<close>

definition counted_enable :: "('s \<Rightarrow> int \<Rightarrow> (int \<times> 's) option) \<Rightarrow> int \<Rightarrow> nat \<times> 's \<Rightarrow> (int \<times> nat \<times> 's) option" where
  "counted_enable enable i = (\<lambda>(n, s).
     if n = 0 then do { (ret, s) \<leftarrow> enable s i; Some (ret, if ret = 0 then 1 else 0, s) } else Some (0, n + 1, s))"

definition counted_disable :: "('s \<Rightarrow> int \<Rightarrow> (int \<times> 's) option) \<Rightarrow> int \<Rightarrow> nat \<times> 's \<Rightarrow> (int \<times> nat \<times> 's) option" where
  "counted_disable disable i = (\<lambda>(n, s).
     if n = 0 then Some (- EIO, n, s)
     else if n = 1 then do { (ret, s) \<leftarrow> disable s i; Some (ret, if ret = 0 then 0 else 1, s) } else Some (0, n - 1, s))"

text \<open>The use count of i agrees with its switch; the other regulators are as they were in state s0.\<close>

definition counted_good :: "('s \<Rightarrow> bool) \<Rightarrow> int set \<Rightarrow> ('s \<Rightarrow> int \<Rightarrow> bool) \<Rightarrow> 's \<Rightarrow> int \<Rightarrow> nat \<times> 's \<Rightarrow> nat \<Rightarrow> bool" where
  "counted_good ok ids on s0 i k n \<longleftrightarrow> fst k = n \<and> ok (snd k) \<and> i \<in> ids \<and> (on (snd k) i \<longleftrightarrow> 0 < n) \<and>
     (\<forall>j \<in> ids. j \<noteq> i \<longrightarrow> on (snd k) j = on s0 j)"

sublocale regulator_switch \<subseteq> counted: supply_core "counted_good inv ids on s0 i" "counted_enable enable i" "counted_disable disable i"
  for s0 i
proof unfold_locales
  fix k :: "nat \<times> 's" and n assume g: "counted_good inv ids on s0 i k n"
  then obtain s' where "enable (snd k) i = Some (0, s')" "inv s'" "\<forall>j \<in> ids. on s' j \<longleftrightarrow> j = i \<or> on (snd k) j"
    using enable_ok [of "snd k" i] by (auto simp: counted_good_def)
  with g show "\<exists>k'. counted_enable enable i k = Some (0, k') \<and> counted_good inv ids on s0 i k' (Suc n)"
    by (cases k) (auto simp: counted_enable_def counted_good_def)
next
  fix k :: "nat \<times> 's" and n assume g: "counted_good inv ids on s0 i k (Suc n)"
  then obtain s' where "disable (snd k) i = Some (0, s')" "inv s'" "\<forall>j \<in> ids. on s' j \<longleftrightarrow> j \<noteq> i \<and> on (snd k) j"
    using disable_ok [of "snd k" i] by (auto simp: counted_good_def)
  with g show "\<exists>k'. counted_disable disable i k = Some (0, k') \<and> counted_good inv ids on s0 i k' n"
    by (cases k) (auto simp: counted_disable_def counted_good_def)
qed

context regulator_switch
begin

lemma consumers_switch:
  assumes "inv s" "i \<in> ids" "\<not> on s i"
  shows "\<exists>s'. consumer_run (counted_enable enable i) (counted_disable disable i) (0, s) {} ops =
      Some ((card (bound_after ops {}), s'), bound_after ops {}) \<and>
    is_enabled s' i = Some (if bound_after ops {} \<noteq> {} then 1 else 0, s') \<and>
    (\<forall>j \<in> ids. j \<noteq> i \<longrightarrow> on s' j = on s j)"
proof -
  have "counted_good inv ids on s i (0, s) (card ({} :: nat set))" using assms by (simp add: counted_good_def)
  from counted.consumers_counted [OF this] obtain k where
    k: "consumer_run (counted_enable enable i) (counted_disable disable i) (0, s) {} ops = Some (k, bound_after ops {})"
    "finite (bound_after ops {})" "counted_good inv ids on s i k (card (bound_after ops {}))"
    by blast
  moreover have "is_enabled (snd k) i = Some (if on (snd k) i then 1 else 0, snd k)"
    using k(3) by (intro is_enabled_ok) (simp_all add: counted_good_def)
  ultimately show ?thesis by (cases k) (auto simp: counted_good_def card_gt_0_iff)
qed

end



text \<open>The contract on the model's own chips.\<close>

interpretation rk818_supply: supply_core "counted_good (rk818_ready a) {0..11} (rk818_on (\<lambda>d. d)) s0 i"
  "counted_enable (rk818_enable (mem_xfer a)) i" "counted_disable (rk818_disable (mem_xfer a)) i" for a s0 i
  by (rule mem_pmic.switch.counted.supply_core_axioms)

interpretation act8846_supply: supply_core "counted_good (\<lambda>_. True) {0..11} (act_on (\<lambda>d. d)) s0 i"
  "counted_enable (act8846_enable mem_regmap) i" "counted_disable (act8846_disable mem_regmap) i" for s0 i
  by (rule mem_act.act_switch.counted.supply_core_axioms)

subsection \<open>Claim\<close>


definition good_calls :: consumer_calls where
  "good_calls = \<lparr>cc_functionality = True, cc_get = True, cc_kzalloc = True, cc_sysfs = 0\<rparr>"


text \<open>
  The result of the enable is ignored: a consumer whose enable failed is bound all the same, and
  its removal takes away the use of another one, whose supply is then switched off.
\<close>

lemma consumers_failed_enable:
  assumes "en (Suc n, s) = Some (e, Suc n, s)" "dis (Suc n, s) = Some (0, n, s')"
  shows "consumer_run en dis (Suc n, s) {1} [Probe 2 good_calls, Remove 2] = Some ((n, s'), {1})"
  using assms by (auto simp: consumer_probe_def consumer_remove_def good_calls_def)

end
