(* ===== verification/Wait_Event.thy ===== *)
theory Wait_Event
  imports Prelude
begin


















subsection \<open>Claim\<close>



end
