(* ===== verification/I2c_Debug.thy ===== *)
theory I2c_Debug
  imports Text_Io
begin

text \<open>
  The two I2C debug drivers of \<^verbatim>\<open>rk3288/debug/i2c\<close>. \<^verbatim>\<open>myi2c.c\<close> gives a file in sysfs: writing a
  hexadecimal number stores its low byte in the register its second byte names, reading shows
  that register. \<^verbatim>\<open>i2c_regmap.c\<close> does its accesses through a register map. The SMBus and
  register-map calls, the allocator and sysfs are parameters; a read of a variable that was
  never set is undefined (None). Printing to the log is left out, except where it reads such
  a variable.
\<close>

subsection \<open>The byte driver\<close>

text \<open>The bus's two calls: a negative result is an error.\<close>

record 'b smbus =
  smbus_read_byte_data :: "'b \<Rightarrow> u8 \<Rightarrow> int \<times> 'b"
  smbus_write_byte_data :: "'b \<Rightarrow> u8 \<Rightarrow> u8 \<Rightarrow> int \<times> 'b"

text \<open>The static address, and the bus.\<close>

record 'b myi2c =
  myi2c_regs_addr :: u8
  my_bus :: 'b

definition myi2c_read :: "'b smbus \<Rightarrow> u8 \<Rightarrow> 'b \<Rightarrow> (int \<times> u8 option) \<times> 'b" where
  "myi2c_read io reg b = (let (ret, b) = smbus_read_byte_data io b reg
     in (if ret < 0 then (ret, None) else (0, Some (word_of_int ret)), b))"

definition myi2c_write :: "'b smbus \<Rightarrow> u8 \<Rightarrow> u8 \<Rightarrow> 'b \<Rightarrow> int \<times> 'b" where
  "myi2c_write io reg val b = (let (ret, b) = smbus_write_byte_data io b reg val in (if ret < 0 then ret else 0, b))"

text \<open>The result of the read is ignored; then the value printed was never set.\<close>

definition myi2c_debug_show :: "'b smbus \<Rightarrow> 'b myi2c \<Rightarrow> (string \<times> 'b myi2c) option" where
  "myi2c_debug_show io s = (let ((_, val), b) = myi2c_read io (myi2c_regs_addr s) (my_bus s) in do {
     v \<leftarrow> val;
     Some (''REG['' @ fmt_x (myi2c_regs_addr s) @ '']=0x'' @ fmt_x v @ newline, s\<lparr>my_bus := b\<rparr>)
   })"

definition myi2c_debug_store :: "'b smbus \<Rightarrow> string \<Rightarrow> 'b myi2c \<Rightarrow> int \<times> 'b myi2c" where
  "myi2c_debug_store io buf s = (let
     tmp = ucast (simple_strtoul 16 buf) :: u32;
     val = ucast (tmp AND 0xFF) :: u8;
     addr = ucast (drop_bit 8 tmp AND 0xFF) :: u8;
     (_, b) = myi2c_write io addr val (my_bus s)
     in (int (length buf), s\<lparr>myi2c_regs_addr := addr, my_bus := b\<rparr>))"

text \<open>Probe: the result and whether the structure is still allocated.\<close>

definition myi2c_probe :: "bool \<Rightarrow> bool \<Rightarrow> int \<Rightarrow> int \<times> bool" where
  "myi2c_probe functionality kzalloc sysfs_create_group =
     (if \<not> functionality then (- ENODEV, False)
      else if \<not> kzalloc then (- ENOMEM, False)
      else if sysfs_create_group \<noteq> 0 then (- 1, True)
      else (0, True))"

definition myi2c_remove :: "bool \<Rightarrow> int \<times> bool" where
  "myi2c_remove allocated = (0, False)"

subsection \<open>The register-map driver\<close>

text \<open>The calls of the register map: an error leaves the variable of the caller as it is.\<close>

record 'm regmap_calls =
  rm_read :: "'m \<Rightarrow> u32 \<Rightarrow> (int + u32) \<times> 'm"
  rm_write :: "'m \<Rightarrow> u32 \<Rightarrow> u32 \<Rightarrow> int \<times> 'm"

abbreviation (input) REGISTER_NUMBERS :: u32 where "REGISTER_NUMBERS \<equiv> 0xF5"

definition regmap_read :: "'m regmap_calls \<Rightarrow> u32 \<Rightarrow> u32 option \<Rightarrow> 'm \<Rightarrow> int \<times> u32 option \<times> 'm" where
  "regmap_read rm reg rval m = (case rm_read rm m reg of (Inl e, m) \<Rightarrow> (e, rval, m) | (Inr v, m) \<Rightarrow> (0, Some v, m))"

text \<open>A result of 0 is success; the driver reports it as an error.\<close>

definition regmap_debug_show :: "'m regmap_calls \<Rightarrow> 'm \<Rightarrow> ((int + string) \<times> 'm) option" where
  "regmap_debug_show rm m = (let (ret, rval, m) = regmap_read rm 0x22 None m in
     if ret = 0 then Some (Inl (- 1), m)
     else do { v \<leftarrow> rval; Some (Inr (''REG[0x22]='' @ fmt_d (sint v) @ newline), m) })"

text \<open>The test of a value read: it must be set, and when it is 0xff the result, not set before, is printed.\<close>

definition check_rval :: "int option \<Rightarrow> u32 option \<Rightarrow> int option option" where
  "check_rval ret rval = do {
     v \<leftarrow> rval;
     if v = 0xff then do { _ \<leftarrow> ret; Some (Some (- 1)) } else Some ret
   }"

definition regmap_probe :: "'m regmap_calls \<Rightarrow> bool \<Rightarrow> bool \<Rightarrow> int \<Rightarrow> int \<Rightarrow> 'm \<Rightarrow> (int \<times> 'm) option" where
  "regmap_probe rm of_node matches regmap_init sysfs m =
     (if of_node \<and> \<not> matches then Some (- EINVAL, m)
      else if regmap_init < 0 then Some (regmap_init, m)
      else do {
        let (_, rval, m) = regmap_read rm 0x22 None m;
        ret \<leftarrow> check_rval None rval;
        let (_, rval, m) = regmap_read rm 0xf4 rval m;
        ret \<leftarrow> check_rval ret rval;
        let (ret, m) = rm_write rm m 0xf4 1;
        if ret < 0 then Some (- 1, m)
        else do {
          let (_, rval, m) = regmap_read rm 0xf4 rval m;
          ret \<leftarrow> check_rval (Some ret) rval;
          if sysfs \<noteq> 0 then Some (- 1, m) else Some (0, m)
        }
      })"

subsection \<open>A chip with 256 byte registers\<close>

text \<open>The documented behaviour of a chip that answers: reads give what was last written.\<close>

definition smbus_chip :: "(u8 \<Rightarrow> u8) smbus" where
  "smbus_chip = \<lparr>smbus_read_byte_data = (\<lambda>f r. (uint (f r), f)), smbus_write_byte_data = (\<lambda>f r v. (0, f(r := v)))\<rparr>"

locale byte_bus =
  fixes io :: "'b smbus" and regs :: "'b \<Rightarrow> u8 \<Rightarrow> u8"
  assumes read_ok: "smbus_read_byte_data io b r = (ret, b') \<Longrightarrow> ret = uint (regs b r) \<and> regs b' = regs b"
    and write_ok: "smbus_write_byte_data io b r v = (ret, b') \<Longrightarrow> 0 \<le> ret \<and> regs b' = (regs b)(r := v)"
begin

lemma show_eq: "\<exists>b'. myi2c_debug_show io s = Some (''REG['' @ fmt_x (myi2c_regs_addr s) @ '']=0x'' @
    fmt_x (regs (my_bus s) (myi2c_regs_addr s)) @ newline, s\<lparr>my_bus := b'\<rparr>) \<and> regs b' = regs (my_bus s)"
proof -
  obtain ret b' where r: "smbus_read_byte_data io (my_bus s) (myi2c_regs_addr s) = (ret, b')" by fastforce
  from read_ok [OF this] r show ?thesis by (intro exI [of _ b']) (simp add: myi2c_debug_show_def myi2c_read_def)
qed

lemma store_eq:
  assumes "ucast (simple_strtoul 16 buf) = (tmp :: u32)"
  shows "\<exists>b'. myi2c_debug_store io buf s = (int (length buf), s\<lparr>myi2c_regs_addr := ucast (drop_bit 8 tmp AND 0xFF), my_bus := b'\<rparr>) \<and>
    regs b' = (regs (my_bus s))(ucast (drop_bit 8 tmp AND 0xFF) := ucast (tmp AND 0xFF))"
proof -
  let ?a = "ucast (drop_bit 8 tmp AND 0xFF) :: u8" and ?v = "ucast (tmp AND 0xFF) :: u8"
  obtain ret b' where w: "smbus_write_byte_data io (my_bus s) ?a ?v = (ret, b')" by fastforce
  from write_ok [OF this] w assms show ?thesis by (intro exI [of _ b']) (simp add: myi2c_debug_store_def myi2c_write_def Let_def)
qed

end

interpretation smbus_chip: byte_bus smbus_chip "\<lambda>f. f"
  by unfold_locales (auto simp: smbus_chip_def)

subsection \<open>Claim\<close>

lemma ucast_nat_64: "ucast (word_of_nat n :: 64 word) = (word_of_nat n :: u32)"
  by (rule bit_word_eqI) (auto simp: bit_simps)

lemma byte_of_nat: "ucast ((word_of_nat n :: u32) AND 0xFF) = (word_of_nat n :: u8)"
  by (rule bit_word_eqI) (auto simp: bit_simps bit_byte)

lemma byte_of_nat_8: "ucast (drop_bit 8 (word_of_nat n :: u32) AND 0xFF) = (word_of_nat (n div 256) :: u8)"
proof -
  have "n div 256 = drop_bit 8 n" by (simp add: drop_bit_eq_div)
  then show ?thesis by (simp, intro bit_word_eqI) (auto simp: bit_simps bit_byte add.commute)
qed

lemma word_eq_mod: "(word_of_nat k = (v :: u8)) = (k mod 256 = unat v)"
  by (simp add: word_unat_eq_iff unsigned_of_nat take_bit_eq_mod)

lemma split_16: "(n :: nat) mod 2 ^ 16 = a * 256 + v \<Longrightarrow> v < 256 \<Longrightarrow> a < 256 \<Longrightarrow> n mod 256 = v \<and> n div 256 mod 256 = a"
proof -
  assume a: "n mod 2 ^ 16 = a * 256 + v" "v < 256" "a < 256"
  have "n = 2 ^ 16 * (n div 2 ^ 16) + n mod 2 ^ 16" by (simp only: mult_div_mod_eq)
  with a(1) have "n = v + 256 * (a + 256 * (n div 65536))" by (simp add: algebra_simps)
  then obtain k q where k: "n = v + 256 * k" "k = a + 256 * q" by blast
  from k(1) a(2) have "n mod 256 = v" "n div 256 = k" by simp_all
  moreover from k(2) a(3) have "k mod 256 = a" by simp
  ultimately show ?thesis by simp
qed

text \<open>C37: On a bus whose chip answers, writing the hexadecimal number of address and value (with or
  without a newline) to the file accepts all of it and changes exactly that register to that
  value, and reading the file then prints that address and value; numbers above 16 bits do the
  same as their low 16 bits.\<close>
theorem i2c_store_show:
  assumes "byte_bus io regs" and "n mod 2 ^ 16 = unat a * 256 + unat v" and "line \<in> {[], newline}"
    and "myi2c_debug_store io (num_text 16 n @ line) s = (ret, s')"
  shows "ret = int (length (num_text 16 n @ line)) \<and> regs (my_bus s') = (regs (my_bus s))(a := v) \<and>
    (\<exists>b'. myi2c_debug_show io s' = Some (''REG['' @ fmt_x a @ '']=0x'' @ fmt_x v @ newline, s'\<lparr>my_bus := b'\<rparr>) \<and>
       regs b' = regs (my_bus s'))"
proof -
  have l: "line \<noteq> [] \<longrightarrow> 16 \<le> digit_value (hd line)" "take 1 line \<notin> {''x'', ''X''}"
    using assms(3) by (auto simp: newline_eq digit_value_def)
  let ?t = "word_of_nat n :: u32"
  have t: "ucast (simple_strtoul 16 (num_text 16 n @ line)) = ?t"
    using strtoul_num_text [OF _ _ l, of n] by (simp add: ucast_nat_64)
  have vn: "n mod 256 = unat v" and an: "n div 256 mod 256 = unat a"
    using split_16 [OF assms(2) unsigned_less [of v, simplified] unsigned_less [of a, simplified]] by simp_all
  have av: "ucast (?t AND 0xFF) = v" "ucast (drop_bit 8 ?t AND 0xFF) = a"
    by (simp_all add: byte_of_nat byte_of_nat_8 word_eq_mod vn an)
  from byte_bus.store_eq [OF assms(1) t, of s] assms(4) av show ?thesis
    using byte_bus.show_eq [OF assms(1), of s'] by auto
qed

lemma i2c_store_show_witness:
  "\<exists>s'. myi2c_debug_store smbus_chip (num_text 16 0x5a07 @ newline) \<lparr>myi2c_regs_addr = 0, my_bus = (\<lambda>_. 0)\<rparr> = (5, s') \<and>
     map_option fst (myi2c_debug_show smbus_chip s') = Some (''REG['' @ fmt_x (0x5a :: u8) @ '']=0x'' @ fmt_x (7 :: u8) @ newline)"
proof -
  let ?s = "\<lparr>myi2c_regs_addr = 0, my_bus = (\<lambda>_ :: u8. 0 :: u8)\<rparr>"
  obtain ret s' where r: "myi2c_debug_store smbus_chip (num_text 16 0x5a07 @ newline) ?s = (ret, s')" by fastforce
  have h: "(0x5a07 :: nat) mod 2 ^ 16 = unat (0x5a :: u8) * 256 + unat (7 :: u8)" by simp
  have t: "length (num_text 16 0x5a07 @ newline) = 5"
    by (simp add: num_text.simps newline_def)
  from i2c_store_show [OF smbus_chip.byte_bus_axioms h _ r] r t show ?thesis by auto
qed

subsection \<open>What goes wrong\<close>

text \<open>
  A read that fails makes the file print a value that was never set. A file that cannot be
  created leaves the structure allocated. The other driver takes success for failure: on a
  register map that works its file never shows anything, and probe prints an unset result
  exactly when a register reads 0xff.
\<close>

lemma i2c_show_fails: "smbus_read_byte_data io (my_bus s) (myi2c_regs_addr s) = (ret, b') \<Longrightarrow> ret < 0 \<Longrightarrow> myi2c_debug_show io s = None"
  by (simp add: myi2c_debug_show_def myi2c_read_def)

lemma i2c_probe_leak: "myi2c_probe f k g = (ret, alloc) \<Longrightarrow> ret \<noteq> 0 \<Longrightarrow> alloc \<longleftrightarrow> f \<and> k \<and> g \<noteq> 0"
  by (auto simp: myi2c_probe_def split: if_splits)

lemma regmap_show_inverted: "rm_read rm m 0x22 = (Inr v, m') \<Longrightarrow> regmap_debug_show rm m = Some (Inl (- 1), m')"
  "rm_read rm m 0x22 = (Inl e, m') \<Longrightarrow> e \<noteq> 0 \<Longrightarrow> regmap_debug_show rm m = None"
  by (simp_all add: regmap_debug_show_def regmap_read_def)

lemma regmap_probe_unset:
  "rm_read rm m 0x22 = (Inr 0xff, m') \<Longrightarrow> of_node \<longrightarrow> matches \<Longrightarrow> 0 \<le> init \<Longrightarrow> regmap_probe rm of_node matches init sysfs m = None"
  "rm_read rm m 0x22 = (Inl e, m') \<Longrightarrow> of_node \<longrightarrow> matches \<Longrightarrow> 0 \<le> init \<Longrightarrow> regmap_probe rm of_node matches init sysfs m = None"
  by (auto simp: regmap_probe_def regmap_read_def check_rval_def)

end
