(* ===== verification/Tiny4412.thy ===== *)
theory Tiny4412
  imports Text_Io
begin

text \<open>
  The LEDs and buttons of the Tiny4412 board (\<^verbatim>\<open>tiny4412/debug/leds/leds.c\<close> and
  \<^verbatim>\<open>tiny4412/debug/buttons/buttons.c\<close>): the file that switches the four LEDs, and the two
  probes with what they allocate and how they give up. Pin, pin-control, interrupt and memory
  calls are parameters; register reads that are only printed are left out. A token longer than
  the buffer it is copied to, and a missing resource that is followed, are undefined (None).
\<close>

subsection \<open>The file of the LEDs\<close>

abbreviation (input) LEDS_NUMBER :: nat where "LEDS_NUMBER \<equiv> 4"

text \<open>One LED: its pin, the driver's state, and - what the pin libraries keep - the selected pin state and the level.\<close>

record leds_data =
  ld_gpio :: int
  ld_state :: bool
  pin_active :: bool
  gpio_level :: bool

definition space :: "char \<Rightarrow> bool" where
  "space c \<longleftrightarrow> (of_char c :: nat) \<in> {9, 10, 11, 12, 13, 32, 160}"

text \<open>\<^verbatim>\<open>sscanf\<close> with \<^verbatim>\<open>%s\<close> and with \<^verbatim>\<open>%d\<close>; None: nothing is converted.\<close>

definition scan_s :: "string \<Rightarrow> string option" where
  "scan_s buf = (let t = takeWhile (\<lambda>c. \<not> space c) (dropWhile space buf) in if t = [] then None else Some t)"

definition scan_d :: "string \<Rightarrow> u32 option" where
  "scan_d buf = (let s = dropWhile space buf;
     neg = (s \<noteq> [] \<and> hd s = CHR ''-'');
     s = (if neg then tl s else s)
     in if s \<noteq> [] \<and> digit_value (hd s) < 10
        then (let v = word_of_nat (read_digits 10 0 s) in Some (if neg then - v else v)) else None)"

definition prefix_of :: "string \<Rightarrow> string \<Rightarrow> bool" where
  "prefix_of p s \<longleftrightarrow> take (length p) s = p"

primrec each_led :: "(nat \<Rightarrow> leds_data \<Rightarrow> leds_data) \<Rightarrow> nat \<Rightarrow> leds_data list \<Rightarrow> leds_data list" where
  "each_led f i [] = []"
| "each_led f i (d # data) = f i d # each_led f (Suc i) data"

definition leds_store :: "string \<Rightarrow> leds_data list \<Rightarrow> (int \<times> leds_data list) option" where
  "leds_store buf data = (case scan_s buf of
     None \<Rightarrow> Some (- EINVAL, data)
   | Some state \<Rightarrow>
       if 10 \<le> length state then None
       else if prefix_of ''active'' state
         then Some (int (length buf), each_led (\<lambda>i d. d\<lparr>pin_active := True, ld_state := True\<rparr>) 0 data)
       else if prefix_of ''sleep'' state
         then Some (int (length buf), each_led (\<lambda>i d. d\<lparr>pin_active := False, ld_state := False\<rparr>) 0 data)
       else (case scan_d buf of
           Some value \<Rightarrow> Some (int (length buf), each_led (\<lambda>i d. d\<lparr>gpio_level := (value AND push_bit i 1 \<noteq> 0)\<rparr>) 0 data)
         | None \<Rightarrow> Some (int (length buf), data)))"

subsection \<open>The probe of the LEDs\<close>

text \<open>What the calls return: for each LED the pin and the results of the request and the three pin-control calls.\<close>

record led_calls =
  lc_gpio :: int
  lc_valid :: bool
  lc_request :: int
  lc_pinctrl :: bool
  lc_sleep :: bool
  lc_active :: bool

datatype board_res = Led_data | Led_map | Led_gpio int | Led_pinctrl nat | Button_data | Button_irq int
datatype board_event = Take board_res | Give board_res

text \<open>The loop over the LEDs: whether it came to its end, and the events.\<close>

fun leds_loop :: "nat \<Rightarrow> led_calls list \<Rightarrow> board_event list \<Rightarrow> bool \<times> board_event list" where
  "leds_loop i [] log = (True, log)"
| "leds_loop i (c # cs) log =
     (if lc_gpio c < 0 then (False, log)
      else if lc_valid c \<and> lc_request c < 0 then (False, log)
      else
        let log = log @ (if lc_valid c then [Take (Led_gpio (lc_gpio c))] else []) in
        if \<not> lc_pinctrl c then (False, log @ [Give (Led_gpio (lc_gpio c))])
        else
          let log = log @ [Take (Led_pinctrl i)] in
          if \<not> lc_sleep c \<or> \<not> lc_active c then (False, log @ [Give (Led_pinctrl i), Give (Led_gpio (lc_gpio c))])
          else leds_loop (Suc i) cs log)"

definition leds_probe :: "bool \<Rightarrow> bool \<Rightarrow> bool \<Rightarrow> int option \<Rightarrow> led_calls list \<Rightarrow> (int \<times> board_event list \<times> leds_data list) option" where
  "leds_probe of_node kzalloc resource ioremap cs =
     (if \<not> of_node then Some (- EINVAL, [], [])
      else if \<not> kzalloc then Some (- EINVAL, [], [])
      else if \<not> resource then None
      else (case ioremap of
          Some e \<Rightarrow> Some (e, [Take Led_data, Give Led_data], [])
        | None \<Rightarrow>
            (case leds_loop 0 (take LEDS_NUMBER cs) [Take Led_data, Take Led_map] of
              (False, log) \<Rightarrow> Some (- EINVAL, log @ [Give Led_map, Give Led_data], [])
            | (True, log) \<Rightarrow> Some (0, log,
                map (\<lambda>c. \<lparr>ld_gpio = lc_gpio c, ld_state = True, pin_active = True, gpio_level = True\<rparr>) (take LEDS_NUMBER cs)))))"

subsection \<open>The buttons\<close>

text \<open>For each button its pin, the interrupt of the pin and the result of the request.\<close>

record button_calls =
  bc_gpio :: int
  bc_irq :: int
  bc_request :: int

record button_data =
  bd_gpio :: int
  bd_irq :: int
  bd_name :: string

definition button_name :: "nat \<Rightarrow> string" where
  "button_name i = ''tiny4412,int_gpio'' @ fmt_d (int i + 1)"

fun buttons_loop :: "nat \<Rightarrow> button_calls list \<Rightarrow> button_data list \<Rightarrow> board_event list \<Rightarrow> bool \<times> button_data list \<times> board_event list" where
  "buttons_loop i [] data log = (True, data, log)"
| "buttons_loop i (c # cs) data log =
     (if bc_gpio c < 0 \<or> bc_irq c < 0 \<or> bc_request c < 0 then (False, data, log)
      else buttons_loop (Suc i) cs (data @ [\<lparr>bd_gpio = bc_gpio c, bd_irq = bc_irq c, bd_name = button_name i\<rparr>])
        (log @ [Take (Button_irq (bc_irq c))]))"

definition int_demo_probe :: "bool \<Rightarrow> bool \<Rightarrow> button_calls list \<Rightarrow> int \<times> button_data list \<times> board_event list" where
  "int_demo_probe of_node kmalloc cs =
     (if \<not> of_node then (- EINVAL, [], [])
      else if \<not> kmalloc then (- EINVAL, [], [])
      else (case buttons_loop 0 (take 4 cs) [] [Take Button_data] of
          (True, data, log) \<Rightarrow> (0, data, log)
        | (False, data, log) \<Rightarrow> (- EINVAL, data, log @ [Give Button_data])))"

subsection \<open>Reading what was printed\<close>

lemma length_num_text: "2 \<le> b \<Longrightarrow> 0 < k \<Longrightarrow> n < b ^ k \<Longrightarrow> length (num_text b n) \<le> k"
proof (induction b n arbitrary: k rule: num_text.induct)
  case (1 b n)
  show ?case
  proof (cases "n < b")
    case True
    then show ?thesis using 1 by (subst num_text.simps) simp
  next
    case False
    then obtain j where k: "k = Suc j" "0 < j" using "1.prems" by (cases k; cases "k - 1") auto
    then have "n div b < b ^ j" using "1.prems" by (simp add: less_mult_imp_div_less mult.commute)
    with 1 False k show ?thesis by (subst num_text.simps) simp
  qed
qed

lemma digit_not_space: "digit_value c < 16 \<Longrightarrow> \<not> space c"
  by (auto simp: digit_value_def space_def Let_def split: if_splits)

lemma num_text_no_space: "c \<in> set (num_text 10 n) \<Longrightarrow> digit_value c < 10 \<and> \<not> space c"
  using num_text_digits [of 10 n] digit_not_space [of c] by (auto simp: list_all_iff)

lemma drop_space_number: "dropWhile space (num_text 10 n @ line) = num_text 10 n @ line"
  using num_text_no_space [of "hd (num_text 10 n)" n] by (cases "num_text 10 n") auto

lemma scan_s_number:
  assumes "line \<in> {[], newline}"
  shows "scan_s (num_text 10 n @ line) = Some (num_text 10 n)"
proof -
  have "takeWhile (\<lambda>c. \<not> space c) (num_text 10 n @ line) = num_text 10 n"
    using assms num_text_no_space by (auto simp: takeWhile_append newline_eq space_def)
  then show ?thesis by (simp add: scan_s_def drop_space_number Let_def)
qed

lemma scan_d_number:
  assumes "line \<in> {[], newline}"
  shows "scan_d (num_text 10 n @ line) = Some (word_of_nat n)"
proof -
  let ?t = "num_text 10 n"
  have "digit_value (hd ?t) < 10" using num_text_no_space [of "hd ?t" n] by simp
  moreover from this have "hd ?t \<noteq> CHR ''-''" by (auto simp: digit_value_def)
  moreover have "read_digits 10 0 (?t @ line) = n"
    using assms by (intro read_num_text_line) (auto simp: newline_eq digit_value_def)
  ultimately show ?thesis by (simp add: scan_d_def drop_space_number Let_def)
qed

lemma number_no_word: "prefix_of (c # p) (num_text 10 n) \<Longrightarrow> digit_value c < 10"
  using num_text_no_space [of "hd (num_text 10 n)" n] by (cases "num_text 10 n") (auto simp: prefix_of_def)

lemma each_led_nth: "length (each_led f j data) = length data \<and> (\<forall>i < length data. each_led f j data ! i = f (j + i) (data ! i))"
proof (induction data arbitrary: j)
  case (Cons d data)
  show ?case
  proof (intro conjI allI impI)
    fix i assume "i < length (d # data)"
    then show "each_led f j (d # data) ! i = f (j + i) ((d # data) ! i)" using Cons by (cases i) auto
  qed (use Cons in simp)
qed simp

subsection \<open>Giving up\<close>

text \<open>
  The probe of the buttons succeeds exactly when every call does. When it gives up it frees the
  data while the interrupts requested so far still hand it to their handler: nothing gives them
  back before the driver core does, after the probe.
\<close>

lemma buttons_loop_events:
  "buttons_loop i cs data log = (ok, data', log') \<Longrightarrow>
     (\<exists>new. data' = data @ new \<and> log' = log @ map (\<lambda>d. Take (Button_irq (bd_irq d))) new \<and> length new \<le> length cs) \<and>
     (ok \<longleftrightarrow> list_all (\<lambda>c. 0 \<le> bc_gpio c \<and> 0 \<le> bc_irq c \<and> 0 \<le> bc_request c) cs)"
proof (induction i cs data log arbitrary: data' log' ok rule: buttons_loop.induct)
  case (2 i c cs data log)
  show ?case
  proof (cases "bc_gpio c < 0 \<or> bc_irq c < 0 \<or> bc_request c < 0")
    case True
    then show ?thesis using 2 by auto
  next
    case False
    with 2 obtain new where
      "data' = (data @ [\<lparr>bd_gpio = bc_gpio c, bd_irq = bc_irq c, bd_name = button_name i\<rparr>]) @ new"
      "log' = (log @ [Take (Button_irq (bc_irq c))]) @ map (\<lambda>d. Take (Button_irq (bd_irq d))) new" "length new \<le> length cs"
      "ok \<longleftrightarrow> list_all (\<lambda>c. 0 \<le> bc_gpio c \<and> 0 \<le> bc_irq c \<and> 0 \<le> bc_request c) cs"
      by auto
    then show ?thesis using False
      by (auto intro!: exI [of _ "\<lparr>bd_gpio = bc_gpio c, bd_irq = bc_irq c, bd_name = button_name i\<rparr> # new"])
  qed
qed simp

lemma buttons_give_up:
  assumes "int_demo_probe True True cs = (ret, data, log)"
  shows "(ret = 0 \<longleftrightarrow> list_all (\<lambda>c. 0 \<le> bc_gpio c \<and> 0 \<le> bc_irq c \<and> 0 \<le> bc_request c) (take 4 cs)) \<and>
    log = Take Button_data # map (\<lambda>d. Take (Button_irq (bd_irq d))) data @ (if ret = 0 then [] else [Give Button_data])"
proof -
  obtain ok d l where b: "buttons_loop 0 (take 4 cs) [] [Take Button_data] = (ok, d, l)" by (cases "buttons_loop 0 (take 4 cs) [] [Take Button_data]")
  from buttons_loop_events [OF b] b assms show ?thesis by (cases ok) (auto simp: int_demo_probe_def)
qed

text \<open>The probe of the LEDs switches all of them on when every call succeeds.\<close>

definition led_ok :: "led_calls \<Rightarrow> bool" where
  "led_ok c \<longleftrightarrow> 0 \<le> lc_gpio c \<and> (lc_valid c \<longrightarrow> 0 \<le> lc_request c) \<and> lc_pinctrl c \<and> lc_sleep c \<and> lc_active c"

lemma leds_loop_ok: "fst (leds_loop i cs log) \<longleftrightarrow> list_all led_ok cs"
  by (induction i cs log rule: leds_loop.induct) (auto simp: led_ok_def Let_def)

lemma leds_probe_ok:
  "length cs = LEDS_NUMBER \<Longrightarrow> list_all led_ok cs \<longleftrightarrow>
     (\<exists>log data. leds_probe True True True None cs = Some (0, log, data) \<and> length data = LEDS_NUMBER \<and> list_all (\<lambda>d. ld_state d \<and> pin_active d) data)"
  using leds_loop_ok [of 0 cs "[Take Led_data, Take Led_map]"]
  by (cases "leds_loop 0 cs [Take Led_data, Take Led_map]") (auto simp: leds_probe_def list_all_iff split: bool.splits)

lemma leds_probe_no_resource: "leds_probe True True False ioremap cs = None"
  by (simp add: leds_probe_def)

subsection \<open>Claim\<close>

text \<open>C38: Writing the decimal number n below a thousand million (with or without a newline) to the
  file of the LEDs is accepted whole and sets the level of each LED's pin to the bit of n with
  its index, and nothing else; the words active and sleep select that pin state for all; a first word of ten characters or more
  overruns the buffer it is copied to.\<close>
theorem leds_written:
  assumes "n < 10 ^ 9" and "line \<in> {[], newline}" and "length data = LEDS_NUMBER"
  shows "(\<exists>data'. leds_store (num_text 10 n @ line) data = Some (int (length (num_text 10 n @ line)), data') \<and> length data' = LEDS_NUMBER \<and>
      (\<forall>i < LEDS_NUMBER. data' ! i = (data ! i)\<lparr>gpio_level := bit n i\<rparr>)) \<and>
    (w \<in> {''active'', ''sleep''} \<longrightarrow> leds_store (w @ line) data = Some (int (length (w @ line)),
      map (\<lambda>d. d\<lparr>ld_state := (w = ''active''), pin_active := (w = ''active'')\<rparr>) data)) \<and>
    (scan_s buf = Some t \<and> 10 \<le> length t \<longrightarrow> leds_store buf data = None)"
proof (intro conjI impI)
  let ?t = "num_text 10 n"
  let ?f = "\<lambda>i d. d\<lparr>gpio_level := ((word_of_nat n :: u32) AND push_bit i 1 \<noteq> 0)\<rparr>"
  have "length ?t \<le> 9" using length_num_text [of 10 9 n] assms(1) by simp
  moreover have "\<not> prefix_of ''active'' ?t" "\<not> prefix_of ''sleep'' ?t"
    using number_no_word [of _ _ n] by (auto simp: digit_value_def dest!: number_no_word)
  ultimately have "leds_store (?t @ line) data = Some (int (length (?t @ line)), each_led ?f 0 data)"
    by (simp add: leds_store_def scan_s_number [OF assms(2)] scan_d_number [OF assms(2)])
  moreover have "((word_of_nat n :: u32) AND push_bit i 1 \<noteq> 0) = bit n i" if "i < 4" for i
    using that by (simp add: push_bit_eq_mult bit_simps)
  ultimately show "\<exists>data'. leds_store (?t @ line) data = Some (int (length (?t @ line)), data') \<and> length data' = LEDS_NUMBER \<and>
      (\<forall>i < LEDS_NUMBER. data' ! i = (data ! i)\<lparr>gpio_level := bit n i\<rparr>)"
    using each_led_nth [of ?f 0 data] assms(3) by auto
next
  assume "w \<in> {''active'', ''sleep''}"
  moreover have "each_led (\<lambda>i. g) j xs = map g xs" for g j xs by (induction xs arbitrary: j) auto
  ultimately show "leds_store (w @ line) data = Some (int (length (w @ line)),
      map (\<lambda>d. d\<lparr>ld_state := (w = ''active''), pin_active := (w = ''active'')\<rparr>) data)"
    using assms(2) by (auto simp: leds_store_def scan_s_def space_def prefix_of_def newline_eq)
next
  assume "scan_s buf = Some t \<and> 10 \<le> length t"
  then show "leds_store buf data = None" by (simp add: leds_store_def)
qed

lemma leds_written_witness:
  "\<exists>data'. leds_store (num_text 10 5 @ newline) (replicate 4 \<lparr>ld_gpio = 7, ld_state = True, pin_active = True, gpio_level = False\<rparr>)
     = Some (2, data') \<and> map gpio_level data' = map (bit (5 :: nat)) [0..<4]"
proof -
  let ?d = "replicate 4 \<lparr>ld_gpio = 7, ld_state = True, pin_active = True, gpio_level = False\<rparr>"
  have "length (num_text 10 5 @ newline) = 2" by (simp add: num_text.simps newline_def)
  then have l: "int (length (num_text 10 5 @ newline)) = 2" by simp
  have h: "5 < (10 :: nat) ^ 9" "newline \<in> {[], newline}" "length ?d = 4" by simp_all
  from leds_written [OF h, THEN conjunct1, unfolded l] obtain data' where d: "leds_store (num_text 10 5 @ newline) ?d = Some (2, data')"
      "length data' = 4" "\<forall>i < 4. data' ! i = (?d ! i)\<lparr>gpio_level := bit (5 :: nat) i\<rparr>"
    by blast
  have "map gpio_level data' = map (bit (5 :: nat)) [0..<4]"
    by (rule nth_equalityI) (use d(2,3) in simp_all)
  with d(1) show ?thesis by blast
qed

end
