(* ===== verification/Seq_File.thy ===== *)
theory Seq_File
  imports Text_Io
begin

text \<open>
  What the two \<^verbatim>\<open>seq_file\<close> modules share: the operations a module hands to the kernel's
  \<^verbatim>\<open>seq_file\<close> core, the calls the core may make, and the lemmas about a reader, proved once in a
  locale that both modules interpret. The core is not part of the repository; the step
  relation below is its documented protocol (\<^verbatim>\<open>Documentation/filesystems/seq_file.rst\<close>): a
  session is start, show, then next and show in turn, and stop; when the buffer is full the
  record that did not fit is dropped and shown again by the next session, and when not even
  the first record fits the whole session is repeated with a larger buffer. How much fits is
  up to the kernel, so every choice is a step.
\<close>

subsection \<open>Operations and readers\<close>

text \<open>
  Start may block (None); it yields the text it prints and the record at the position, or
  no record at the end. The state is the module's.
\<close>

record ('s, 'p) seq_operations =
  seq_start :: "'s \<Rightarrow> nat \<Rightarrow> ('s \<times> string \<times> 'p option) option"
  seq_next :: "'s \<Rightarrow> 'p \<Rightarrow> nat \<Rightarrow> 'p option \<times> nat"
  seq_stop :: "'s \<Rightarrow> 's"
  seq_show :: "'s \<Rightarrow> 'p \<Rightarrow> string"

text \<open>
  A reader is between sessions, about to show a record (the first one of its session or
  not), has shown one, or is about to stop, at the end of the list or for want of space.
\<close>

datatype 'p seq_phase = Closed | Showing 'p bool | Shown 'p | Ended | Full

record 'p seq_reader =
  rd_pos :: nat
  rd_phase :: "'p seq_phase"
  rd_page :: string
  rd_out :: string
  rd_eof :: bool
  gh_shown :: "'p list"

definition seq_opened :: "'p seq_reader" where
  "seq_opened = \<lparr>rd_pos = 0, rd_phase = Closed, rd_page = [], rd_out = [], rd_eof = False, gh_shown = []\<rparr>"

inductive seq_step :: "('s, 'p) seq_operations \<Rightarrow> 's \<Rightarrow> 'p seq_reader \<Rightarrow> 's \<Rightarrow> 'p seq_reader \<Rightarrow> bool" for ops where
  start: "rd_phase r = Closed \<Longrightarrow> seq_start ops s (rd_pos r) = Some (s', h, p) \<Longrightarrow>
    seq_step ops s r s' (r\<lparr>rd_page := h, rd_phase := case p of None \<Rightarrow> Ended | Some p \<Rightarrow> Showing p True\<rparr>)"
| fits: "rd_phase r = Showing p b \<Longrightarrow>
    seq_step ops s r s (r\<lparr>rd_page := rd_page r @ seq_show ops s p, rd_phase := Shown p, gh_shown := gh_shown r @ [p]\<rparr>)"
| grow: "rd_phase r = Showing p True \<Longrightarrow> seq_step ops s r s (r\<lparr>rd_page := [], rd_phase := Full\<rparr>)"
| full: "rd_phase r = Showing p False \<Longrightarrow> seq_step ops s r s (r\<lparr>rd_phase := Full\<rparr>)"
| advance: "rd_phase r = Shown p \<Longrightarrow> seq_next ops s p (rd_pos r) = (q, n) \<Longrightarrow>
    seq_step ops s r s (r\<lparr>rd_pos := n, rd_phase := case q of None \<Rightarrow> Ended | Some q \<Rightarrow> Showing q False\<rparr>)"
| stop: "rd_phase r = Ended \<or> rd_phase r = Full \<Longrightarrow>
    seq_step ops s r (seq_stop ops s) (r\<lparr>rd_phase := Closed, rd_out := rd_out r @ rd_page r, rd_page := [],
      rd_eof := rd_eof r \<or> rd_phase r = Ended\<rparr>)"

text \<open>The states a reader can reach from an open, while others change the module's state as E says.\<close>

inductive seq_reach :: "('s, 'p) seq_operations \<Rightarrow> ('s \<Rightarrow> 's \<Rightarrow> bool) \<Rightarrow> 's \<Rightarrow> 's \<Rightarrow> 'p seq_reader \<Rightarrow> bool" for ops E s0 where
  opened: "seq_reach ops E s0 s0 seq_opened"
| reader: "seq_reach ops E s0 s r \<Longrightarrow> seq_step ops s r s' r' \<Longrightarrow> seq_reach ops E s0 s' r'"
| other: "seq_reach ops E s0 s r \<Longrightarrow> E s s' \<Longrightarrow> seq_reach ops E s0 s' r"

definition undisturbed :: "'s \<Rightarrow> 's \<Rightarrow> bool" where
  "undisturbed s s' = False"

text \<open>Runs of n steps that have not met the end before their last step; g of them enlarge the buffer.\<close>

inductive seq_run :: "('s, 'p) seq_operations \<Rightarrow> 's \<Rightarrow> nat \<Rightarrow> nat \<Rightarrow> 's \<Rightarrow> 'p seq_reader \<Rightarrow> bool" for ops s0 where
  nothing: "seq_run ops s0 0 0 s0 seq_opened"
| more: "seq_run ops s0 n g s r \<Longrightarrow> \<not> rd_eof r \<Longrightarrow> seq_step ops s r s' r' \<Longrightarrow>
    seq_run ops s0 (Suc n) (if \<exists>p. rd_phase r = Showing p True \<and> rd_phase r' = Full then Suc g else g) s' r'"

subsection \<open>The contract\<close>

text \<open>
  A module lists \<^verbatim>\<open>records (view s)\<close> under a heading that start prints at position 0. The view
  of the module's state is what no operation changes; \<^verbatim>\<open>ready\<close> says that start does not block.
\<close>

locale seq_listing =
  fixes ops :: "('s, 'p) seq_operations"
    and view :: "'s \<Rightarrow> 'w"
    and ready :: "'s \<Rightarrow> bool"
    and good :: "'w \<Rightarrow> bool"
    and records :: "'w \<Rightarrow> 'p list"
    and heading :: string
    and line :: "'w \<Rightarrow> 'p \<Rightarrow> string"
  assumes start_law: "good (view s) \<Longrightarrow> ready s \<Longrightarrow> i \<le> length (records (view s)) \<Longrightarrow>
      \<exists>s'. seq_start ops s i = Some (s', (if i = 0 then heading else []),
        (if i < length (records (view s)) then Some (records (view s) ! i) else None)) \<and> view s' = view s"
    and next_law: "good (view s) \<Longrightarrow> i < length (records (view s)) \<Longrightarrow>
      seq_next ops s (records (view s) ! i) i =
        ((if Suc i < length (records (view s)) then Some (records (view s) ! Suc i) else None), Suc i)"
    and stop_view: "view (seq_stop ops s) = view s"
    and stop_ready: "ready (seq_stop ops s)"
    and show_law: "seq_show ops s p = line (view s) p"
    and heading_law: "good w \<Longrightarrow> records w = [] \<Longrightarrow> heading = []"
begin

text \<open>The text up to the k-th record, and what a session that starts there finds delivered.\<close>

definition upto :: "'w \<Rightarrow> nat \<Rightarrow> string" where
  "upto w k = heading @ concat (map (line w) (take k (records w)))"

definition before :: "'w \<Rightarrow> nat \<Rightarrow> string" where
  "before w k = (if k = 0 then [] else upto w k)"

definition consistent :: "'w \<Rightarrow> 's \<Rightarrow> 'p seq_reader \<Rightarrow> bool" where
  "consistent w s r \<longleftrightarrow> view s = w \<and> rd_pos r \<le> length (records w) \<and> (rd_eof r \<longrightarrow> rd_pos r = length (records w)) \<and>
     (case rd_phase r of
        Closed \<Rightarrow> ready s \<and> rd_page r = [] \<and> rd_out r = before w (rd_pos r)
      | Showing p b \<Rightarrow> rd_pos r < length (records w) \<and> p = records w ! rd_pos r \<and> rd_out r @ rd_page r = upto w (rd_pos r) \<and>
          (if b then rd_out r = before w (rd_pos r) else 0 < rd_pos r)
      | Shown p \<Rightarrow> rd_pos r < length (records w) \<and> p = records w ! rd_pos r \<and> rd_out r @ rd_page r = upto w (Suc (rd_pos r))
      | Ended \<Rightarrow> rd_pos r = length (records w) \<and> rd_out r @ rd_page r = upto w (rd_pos r)
      | Full \<Rightarrow> rd_out r @ rd_page r = before w (rd_pos r))"

lemma upto_Suc: "k < length (records w) \<Longrightarrow> upto w (Suc k) = upto w k @ line w (records w ! k)"
  by (simp add: upto_def take_Suc_conv_app_nth)

lemma upto_before: "upto w k = before w k @ (if k = 0 then heading else [])"
  by (simp add: before_def upto_def)

lemma upto_end: "good w \<Longrightarrow> upto w (length (records w)) = before w (length (records w))"
  using heading_law [of w] by (auto simp: upto_before)

lemma consistent_opened: "view s = w \<Longrightarrow> ready s \<Longrightarrow> consistent w s seq_opened"
  by (simp add: consistent_def seq_opened_def before_def)

lemma consistent_step:
  assumes "consistent w s r" "good w" "seq_step ops s r s' r'"
  shows "consistent w s' r'"
  using assms(3,1,2)
proof cases
  case (start h p)
  note sp = start
  have c: "view s = w" "ready s" "rd_pos r \<le> length (records w)" "rd_page r = []" "rd_out r = before w (rd_pos r)"
      "rd_eof r \<longrightarrow> rd_pos r = length (records w)"
    using assms(1) start(2) by (auto simp: consistent_def)
  obtain s1 where "seq_start ops s (rd_pos r) = Some (s1, (if rd_pos r = 0 then heading else []),
      (if rd_pos r < length (records w) then Some (records w ! rd_pos r) else None))" "view s1 = w"
    using start_law [of s "rd_pos r"] assms(2) c by auto
  then show ?thesis using sp(1,3) c by (auto simp: consistent_def upto_before)
next
  case (advance p q n)
  then show ?thesis using assms(1,2) next_law [of s "rd_pos r"] by (auto simp: consistent_def)
next
  case stop
  then show ?thesis using assms(1) upto_end [OF assms(2)] by (auto simp: consistent_def stop_view stop_ready)
next
  case full
  then show ?thesis using assms(1) by (auto simp: consistent_def before_def)
qed (use assms(1) in \<open>auto simp: consistent_def upto_Suc show_law\<close>)

lemma consistent_reach:
  assumes "seq_reach ops E s0 s r" "E = undisturbed" "ready s0" "good (view s0)"
  shows "consistent (view s0) s r"
  using assms by (induction) (auto intro: consistent_opened consistent_step simp: undisturbed_def)

lemma upto_prefix: "k \<le> m \<Longrightarrow> \<exists>rest. upto w m = upto w k @ rest"
proof -
  assume "k \<le> m"
  then obtain d where m: "m = k + d" using le_Suc_ex by blast
  show ?thesis by (simp add: m upto_def take_add)
qed

lemma before_prefix: "k \<le> m \<Longrightarrow> \<exists>rest. upto w m = before w k @ rest"
  by (cases "k = 0") (auto simp: before_def upto_prefix)

lemma delivered_prefix:
  assumes "consistent w s r"
  shows "\<exists>rest. upto w (length (records w)) = rd_out r @ rest"
proof -
  have "\<exists>k more. k \<le> length (records w) \<and> (rd_out r @ more = upto w k \<or> rd_out r @ more = before w k)"
  proof (cases "rd_phase r")
    case (Shown p)
    then show ?thesis using assms by (auto simp: consistent_def intro!: exI [of _ "Suc (rd_pos r)"])
  qed (use assms in \<open>auto simp: consistent_def intro!: exI [of _ "rd_pos r"]\<close>)
  then obtain k more where "k \<le> length (records w)" "rd_out r @ more = upto w k \<or> rd_out r @ more = before w k"
    by blast
  moreover obtain t1 t2 where "upto w (length (records w)) = upto w k @ t1" "upto w (length (records w)) = before w k @ t2"
    using upto_prefix before_prefix calculation(1) by metis
  ultimately show ?thesis by (metis append.assoc)
qed

lemma delivered_all: "consistent w s r \<Longrightarrow> good w \<Longrightarrow> rd_eof r \<Longrightarrow> rd_phase r = Closed \<Longrightarrow> rd_out r = upto w (length (records w))"
  by (auto simp: consistent_def upto_end)

text \<open>How many steps are left, unless the buffer has to grow.\<close>

definition left :: "'w \<Rightarrow> 'p seq_reader \<Rightarrow> nat" where
  "left w r = 6 * (length (records w) - rd_pos r) +
     (case rd_phase r of Closed \<Rightarrow> if rd_eof r then 0 else 3 | Showing p b \<Rightarrow> if b then 2 else 5 | Shown p \<Rightarrow> 1 | Ended \<Rightarrow> 1 | Full \<Rightarrow> 4)"

lemma left_step:
  assumes "consistent w s r" "good w" "seq_step ops s r s' r'" "\<not> rd_eof r"
  shows "Suc (left w r') \<le> left w r + (if \<exists>p. rd_phase r = Showing p True \<and> rd_phase r' = Full then 3 else 0)"
  using assms(3,1,2)
proof cases
  case (start h p)
  note sp = start
  have c: "view s = w" "ready s" "rd_pos r \<le> length (records w)"
    using assms(1) start(2) by (auto simp: consistent_def)
  obtain s1 where "seq_start ops s (rd_pos r) = Some (s1, (if rd_pos r = 0 then heading else []),
      (if rd_pos r < length (records w) then Some (records w ! rd_pos r) else None))"
    using start_law [of s "rd_pos r"] assms(2) c by auto
  then show ?thesis using sp assms(4) by (auto simp: left_def)
next
  case (advance p q n)
  then show ?thesis using assms(1,2) next_law [of s "rd_pos r"] by (auto simp: consistent_def left_def)
qed (use assms(1,4) in \<open>auto simp: consistent_def left_def\<close>)

lemma run_bound:
  assumes "seq_run ops s0 n g s r" "ready s0" "good (view s0)"
  shows "consistent (view s0) s r \<and> n + left (view s0) r \<le> 6 * length (records (view s0)) + 3 + 3 * g"
  using assms
proof (induction rule: seq_run.induct)
  case nothing
  then show ?case by (simp add: consistent_opened) (simp add: left_def seq_opened_def)
next
  case (more n g s r s' r')
  then show ?case using consistent_step [of "view s0" s r s' r'] left_step [of "view s0" s r s' r'] by (auto split: if_splits)
qed

lemma step_exists:
  assumes "consistent w s r" "good w"
  shows "\<exists>s' r'. seq_step ops s r s' r'"
proof (cases "rd_phase r")
  case Closed
  then obtain s' h p where "seq_start ops s (rd_pos r) = Some (s', h, p)"
    using assms start_law [of s "rd_pos r"] by (auto simp: consistent_def)
  from seq_step.start [OF Closed this] show ?thesis by blast
next
  case (Shown p)
  then show ?thesis using seq_step.advance by (metis surj_pair)
qed (blast intro: seq_step.fits seq_step.stop)+

text \<open>A reader with a large buffer meets the end.\<close>

lemma session_shows:
  assumes "good (view s0)" "ready s0"
  shows "k < length (records (view s0)) \<Longrightarrow>
    \<exists>s r. seq_reach ops E s0 s r \<and> view s = view s0 \<and> rd_phase r = Shown (records (view s0) ! k) \<and> rd_pos r = k"
proof (induction k)
  case 0
  then obtain s h where s: "seq_start ops s0 0 = Some (s, h, Some (records (view s0) ! 0))" "view s = view s0"
    using assms start_law [of s0 0] by force
  have "seq_start ops s0 (rd_pos (seq_opened :: 'p seq_reader)) = Some (s, h, Some (records (view s0) ! 0))" "rd_phase (seq_opened :: 'p seq_reader) = Closed"
    using s(1) by (simp_all add: seq_opened_def)
  from seq_reach.reader [OF seq_reach.reader [OF seq_reach.opened [of ops E s0] seq_step.start [OF this(2,1)]] seq_step.fits [where b = True]]
  show ?case using s(2) by (force simp: seq_opened_def)
next
  case (Suc k)
  then obtain s r where r: "seq_reach ops E s0 s r" "view s = view s0" "rd_phase r = Shown (records (view s0) ! k)" "rd_pos r = k"
    by auto
  have "seq_next ops s (records (view s0) ! k) (rd_pos r) = (Some (records (view s0) ! Suc k), Suc k)"
    using next_law [of s k] assms(1) r Suc.prems by simp
  from seq_reach.reader [OF seq_reach.reader [OF r(1) seq_step.advance [OF r(3) this]] seq_step.fits [where b = False]]
  show ?case using r(2) by force
qed

lemma whole_run:
  assumes "good (view s0)" "ready s0"
  shows "\<exists>s r. seq_reach ops E s0 s r \<and> rd_eof r \<and> rd_phase r = Closed"
proof -
  have "\<exists>s r. seq_reach ops E s0 s r \<and> rd_phase r = Ended"
  proof (cases "records (view s0) = []")
    case True
    then obtain s h where s: "seq_start ops s0 (rd_pos (seq_opened :: 'p seq_reader)) = Some (s, h, None)"
      using assms start_law [of s0 0] by (force simp: seq_opened_def)
    have "rd_phase (seq_opened :: 'p seq_reader) = Closed" by (simp add: seq_opened_def)
    from seq_reach.reader [OF seq_reach.opened [of ops E s0] seq_step.start [OF this s]] show ?thesis by force
  next
    case False
    then obtain k where k: "length (records (view s0)) = Suc k" by (cases "records (view s0)") auto
    then obtain s r where r: "seq_reach ops E s0 s r" "view s = view s0" "rd_phase r = Shown (records (view s0) ! k)" "rd_pos r = k"
      using session_shows [OF assms, of k E] by auto
    have "seq_next ops s (records (view s0) ! k) (rd_pos r) = (None, Suc k)"
      using next_law [of s k] assms(1) r k by simp
    from seq_reach.reader [OF r(1) seq_step.advance [OF r(3) this]] show ?thesis by force
  qed
  then obtain s r where "seq_reach ops E s0 s r" and e: "rd_phase r = Ended" by blast
  from seq_reach.reader [OF this(1) seq_step.stop [OF disjI1 [OF e]]] e show ?thesis by force
qed

end

end
