(* ===== verification/Seq_Tests.thy ===== *)
theory Seq_Tests
  imports Seq_File
begin

text \<open>
  The two \<^verbatim>\<open>seq_file\<close> modules of \<^verbatim>\<open>rk3399/debug/platform_driver_test\<close>: \<^verbatim>\<open>seq_test2.c\<close> lists the
  tasks of the system, which the kernel keeps in a ring, and \<^verbatim>\<open>seq_test.c\<close> lists the records
  of its own list, which it protects by a mutex and which a write extends. The ring
  (\<^verbatim>\<open>next_task\<close>) and the list helpers \<^verbatim>\<open>seq_list_start\<close> and \<^verbatim>\<open>seq_list_next\<close> are the kernel's and
  parameters. Positions are natural numbers: the core passes none below 0.
\<close>

subsection \<open>The tasks\<close>

text \<open>What the module sees of the tasks; \<^verbatim>\<open>m_private\<close> is the task the file was created with.\<close>

record 't task_world =
  m_private :: 't
  next_task :: "'t \<Rightarrow> 't"
  comm :: "'t \<Rightarrow> string"
  pid :: "'t \<Rightarrow> int"

primrec walk_tasks :: "('t \<Rightarrow> 't) \<Rightarrow> nat \<Rightarrow> 't \<Rightarrow> 't" where
  "walk_tasks next 0 task = task"
| "walk_tasks next (Suc i) task = walk_tasks next i (next task)"

definition tasks_heading :: string where
  "tasks_heading = ''Current all the processes in system:'' @ newline @ fmt_left 24 ''name'' @ fmt_left 5 ''pid'' @ newline"

definition tasks_start :: "'t task_world \<Rightarrow> nat \<Rightarrow> ('t task_world \<times> string \<times> 't option) option" where
  "tasks_start m pos = Some (m,
     if pos = 0 then (tasks_heading, Some (m_private m))
     else let task = walk_tasks (next_task m) pos (m_private m)
       in ([], if task = m_private m then None else Some task))"

definition tasks_next :: "'t task_world \<Rightarrow> 't \<Rightarrow> nat \<Rightarrow> 't option \<times> nat" where
  "tasks_next m p pos = (let task = next_task m p; pos = pos + 1
     in (if pos \<noteq> 0 \<and> task = m_private m then None else Some task, pos))"

definition tasks_stop :: "'t task_world \<Rightarrow> 't task_world" where
  "tasks_stop m = m"

definition tasks_show :: "'t task_world \<Rightarrow> 't \<Rightarrow> string" where
  "tasks_show m task = fmt_left 24 (comm m task) @ fmt_left 5 (fmt_d (pid m task)) @ newline"

definition tasks_sops :: "('t task_world, 't) seq_operations" where
  "tasks_sops = \<lparr>seq_start = tasks_start, seq_next = tasks_next, seq_stop = tasks_stop, seq_show = tasks_show\<rparr>"

subsection \<open>The records\<close>

text \<open>The list of \<^verbatim>\<open>seq_test.c\<close>: its records by address, first one first, and their values.\<close>

record ldata_list =
  ld_lock :: bool
  ld_head :: "nat list"
  ld_value :: "nat \<Rightarrow> int"

text \<open>The allocation may fail; v is the random number. None: the caller waits for the mutex.\<close>

definition add_one_record :: "nat option \<Rightarrow> int \<Rightarrow> ldata_list \<Rightarrow> ldata_list option" where
  "add_one_record alloc v st = do {
     l \<leftarrow> mutex_lock (ld_lock st);
     let st = (case alloc of None \<Rightarrow> st
       | Some data \<Rightarrow> st\<lparr>ld_head := data # ld_head st, ld_value := (ld_value st)(data := v)\<rparr>);
     Some (st\<lparr>ld_lock := False\<rparr>)
   }"

definition ldata_start :: "(nat list \<Rightarrow> nat \<Rightarrow> nat option) \<Rightarrow> ldata_list \<Rightarrow> nat \<Rightarrow> (ldata_list \<times> string \<times> nat option) option" where
  "ldata_start seq_list_start st pos = do {
     l \<leftarrow> mutex_lock (ld_lock st);
     Some (st\<lparr>ld_lock := l\<rparr>, [], seq_list_start (ld_head st) pos)
   }"

definition ldata_next :: "(nat list \<Rightarrow> nat \<Rightarrow> nat \<Rightarrow> nat option \<times> nat) \<Rightarrow> ldata_list \<Rightarrow> nat \<Rightarrow> nat \<Rightarrow> nat option \<times> nat" where
  "ldata_next seq_list_next st p pos = seq_list_next (ld_head st) p pos"

definition ldata_stop :: "ldata_list \<Rightarrow> ldata_list" where
  "ldata_stop st = st\<lparr>ld_lock := False\<rparr>"

definition ldata_show :: "ldata_list \<Rightarrow> nat \<Rightarrow> string" where
  "ldata_show st p = ''value: '' @ fmt_d (ld_value st p) @ newline"

definition ldata_ops where
  "ldata_ops seq_list_start seq_list_next =
     \<lparr>seq_start = ldata_start seq_list_start, seq_next = ldata_next seq_list_next, seq_stop = ldata_stop, seq_show = ldata_show\<rparr>"

text \<open>Loading with the results of three allocations and three random numbers.\<close>

definition seq_test_init :: "(nat option \<times> int) list \<Rightarrow> ldata_list option" where
  "seq_test_init allocs = fold (\<lambda>(a, v) st. st \<bind> add_one_record a v) (take 3 allocs)
     (Some \<lparr>ld_lock = False, ld_head = [], ld_value = \<lambda>_. 0\<rparr>)"

text \<open>Unloading: what is left of the list, and the records freed, in order.\<close>

fun clean_all :: "nat list \<Rightarrow> nat list \<Rightarrow> nat list \<times> nat list" where
  "clean_all [] freed = ([], freed)"
| "clean_all (data # head) freed = clean_all head (freed @ [data])"

text \<open>Another process writes to the file; the allocator returns memory that is not in use.\<close>

inductive ldata_writer :: "ldata_list \<Rightarrow> ldata_list \<Rightarrow> bool" where
  "add_one_record alloc v st = Some st' \<Longrightarrow> (case alloc of None \<Rightarrow> True | Some a \<Rightarrow> a \<notin> set (ld_head st)) \<Longrightarrow> ldata_writer st st'"

text \<open>What the kernel documents of the ring and of the list helpers.\<close>

definition task_ring :: "'t list \<Rightarrow> 't task_world \<Rightarrow> bool" where
  "task_ring ts m \<longleftrightarrow> ts \<noteq> [] \<and> distinct ts \<and> ts ! 0 = m_private m \<and>
     (\<forall>i < length ts. next_task m (ts ! i) = ts ! (Suc i mod length ts))"

definition list_helpers :: "(nat list \<Rightarrow> nat \<Rightarrow> nat option) \<Rightarrow> (nat list \<Rightarrow> nat \<Rightarrow> nat \<Rightarrow> nat option \<times> nat) \<Rightarrow> bool" where
  "list_helpers seq_list_start seq_list_next \<longleftrightarrow>
     (\<forall>xs i. seq_list_start xs i = (if i < length xs then Some (xs ! i) else None)) \<and>
     (\<forall>xs i. distinct xs \<longrightarrow> i < length xs \<longrightarrow>
        seq_list_next xs (xs ! i) i = (if Suc i < length xs then Some (xs ! Suc i) else None, Suc i))"

subsection \<open>Both modules keep the contract\<close>

lemma walk_ring:
  "task_ring ts m \<Longrightarrow> j < length ts \<Longrightarrow> walk_tasks (next_task m) i (ts ! j) = ts ! ((i + j) mod length ts)"
proof (induction i arbitrary: j)
  case (Suc i)
  have "Suc j mod length ts < length ts" using Suc.prems(2) by (metis less_nat_zero_code mod_less_divisor neq0_conv)
  from Suc.IH [OF Suc.prems(1) this] Suc.prems show ?case
    by (simp add: task_ring_def mod_add_right_eq)
qed simp

lemma walk_private: "task_ring ts m \<Longrightarrow> walk_tasks (next_task m) i (m_private m) = ts ! (i mod length ts)"
  using walk_ring [of ts m 0 i] by (simp add: task_ring_def)

lemma ring_private: "task_ring ts m \<Longrightarrow> i < length ts \<Longrightarrow> ts ! i = m_private m \<longleftrightarrow> i = 0"
  unfolding task_ring_def by (metis length_greater_0_conv nth_eq_iff_index_eq)

interpretation tasks: seq_listing tasks_sops "\<lambda>m. m" "\<lambda>_. True" "task_ring ts" "\<lambda>_. ts" tasks_heading tasks_show for ts
proof
  fix s :: "'a task_world" and i
  assume g: "task_ring ts s" and i: "i \<le> length ts"
  have "i mod length ts = (if i = length ts then 0 else i)" using i by auto
  moreover have "0 < length ts" using g by (simp add: task_ring_def)
  ultimately show "\<exists>s'. seq_start tasks_sops s i = Some (s', if i = 0 then tasks_heading else [],
      if i < length ts then Some (ts ! i) else None) \<and> s' = s"
    using i ring_private [OF g, of "i mod length ts"]
    by (auto simp: tasks_sops_def tasks_start_def walk_private [OF g] ring_private [OF g] Let_def)
      (use g in \<open>auto simp: task_ring_def\<close>)
next
  fix s :: "'a task_world" and i
  assume g: "task_ring ts s" and i: "i < length ts"
  have "Suc i mod length ts = (if Suc i = length ts then 0 else Suc i)" using i by auto
  then show "seq_next tasks_sops s (ts ! i) i = (if Suc i < length ts then Some (ts ! Suc i) else None, Suc i)"
    using g i ring_private [OF g, of "Suc i mod length ts"]
    by (auto simp: tasks_sops_def tasks_next_def task_ring_def Let_def split: if_splits)
qed (auto simp: tasks_sops_def tasks_stop_def task_ring_def)

interpretation ldata: seq_listing "ldata_ops sl sn" "\<lambda>st. (ld_head st, ld_value st)" "\<lambda>st. \<not> ld_lock st"
    "\<lambda>w. distinct (fst w) \<and> list_helpers sl sn" fst "[]" "\<lambda>w p. ''value: '' @ fmt_d (snd w p) @ newline" for sl sn
  by unfold_locales
    (auto simp: ldata_ops_def ldata_start_def ldata_next_def ldata_stop_def ldata_show_def list_helpers_def)

end
