(* ===== verification/Seq_Props.thy ===== *)
theory Seq_Props
  imports Seq_Tests
begin

text \<open>
  What a reader of the two files gets: the whole listing whatever the buffer sizes, in a
  bounded number of calls; and, from the list that others extend meanwhile, every record it
  held at the open.
\<close>

subsection \<open>Concurrent writers\<close>

text \<open>
  Insertion at the front only moves the records the reader has not reached further back. The
  invariant: the list is the old one behind the new records, and the old records in front of
  the position are shown.
\<close>

definition reader_ok :: "nat list \<Rightarrow> ldata_list \<Rightarrow> nat seq_reader \<Rightarrow> bool" where
  "reader_ok old st r \<longleftrightarrow>
     (\<exists>new. ld_head st = new @ old \<and> distinct (ld_head st) \<and> set (gh_shown r) \<subseteq> set (ld_head st) \<and>
       rd_out r @ rd_page r = concat (map (ldata_show st) (gh_shown r)) \<and>
       (ld_lock st \<longleftrightarrow> rd_phase r \<noteq> Closed) \<and> (rd_eof r \<longrightarrow> set old \<subseteq> set (gh_shown r)) \<and>
       set (take (rd_pos r - length new) old) \<subseteq> set (gh_shown r) \<and>
       (case rd_phase r of
          Closed \<Rightarrow> rd_page r = []
        | Showing p b \<Rightarrow> rd_pos r < length (ld_head st) \<and> p = ld_head st ! rd_pos r \<and> (b \<longrightarrow> rd_page r = [])
        | Shown p \<Rightarrow> rd_pos r < length (ld_head st) \<and> p = ld_head st ! rd_pos r \<and> p \<in> set (gh_shown r)
        | Ended \<Rightarrow> length (ld_head st) \<le> rd_pos r
        | Full \<Rightarrow> True))"

lemma take_shown:
  "i < length (new @ old) \<Longrightarrow> (new @ old) ! i \<in> S \<Longrightarrow> set (take (i - length new) old) \<subseteq> S \<Longrightarrow> set (take (Suc i - length new) old) \<subseteq> S"
  by (cases "i < length new") (auto simp: nth_append Suc_diff_le take_Suc_conv_app_nth)

lemma show_lock [simp]: "ldata_show (st\<lparr>ld_lock := b\<rparr>) = ldata_show st"
  by (simp add: fun_eq_iff ldata_show_def)

lemma reader_ok_step:
  assumes "seq_step (ldata_ops sl sn) st r st' r'" "list_helpers sl sn" "reader_ok old st r"
  shows "reader_ok old st' r'"
proof -
  obtain new where h: "ld_head st = new @ old" "distinct (new @ old)"
    using assms(3) by (auto simp: reader_ok_def)
  note ok = assms(3) [unfolded reader_ok_def h(1)]
  have mem: "i < length new + length old \<Longrightarrow> (new @ old) ! i \<notin> set old \<Longrightarrow> (new @ old) ! i \<in> set new" for i
    by (auto simp: nth_append)
  show ?thesis using assms(1)
  proof cases
    case (advance p q n)
    then show ?thesis
      using ok h take_shown [of "rd_pos r" new old "set (gh_shown r)"] assms(2)
      by (auto simp: reader_ok_def ldata_ops_def ldata_next_def list_helpers_def split: if_splits intro!: exI [of _ new])
  next
    case (start h p)
    then show ?thesis
      using ok \<open>distinct (new @ old)\<close> assms(2) 
      by (auto simp: reader_ok_def \<open>ld_head st = _\<close> ldata_ops_def ldata_start_def list_helpers_def 
        split: if_splits intro!: exI [of _ new])
  qed (use ok h in \<open>auto intro: mem simp: reader_ok_def ldata_ops_def ldata_stop_def intro!: exI [of _ new]\<close>)
qed

lemma reader_ok_writer:
  assumes "ldata_writer st st'" "reader_ok old st r"
  shows "reader_ok old st' r"
  using assms(1)
proof cases
  case (1 alloc v)
  obtain new where h: "ld_head st = new @ old" "distinct (new @ old)"
    using assms(2) by (auto simp: reader_ok_def)
  note ok = assms(2) [unfolded reader_ok_def h(1)]
  have l: "\<not> ld_lock st" using 1(1) by (auto simp: add_one_record_def mutex_lock_def split: if_splits)
  show ?thesis
  proof (cases alloc)
    case None
    then show ?thesis using 1 l assms(2) by (auto simp: add_one_record_def reader_ok_def)
  next
    case (Some a)
    have st': "ld_head st' = a # new @ old" "ld_lock st' = False" "ld_value st' = (ld_value st)(a := v)" "a \<notin> set (new @ old)"
      using 1 Some l h by (auto simp: add_one_record_def)
    have same: "map (ldata_show st') (gh_shown r) = map (ldata_show st) (gh_shown r)"
      using st' ok by (auto simp: ldata_show_def)
    have "rd_out r @ rd_page r = concat (map (ldata_show st') (gh_shown r))"
      unfolding same using ok by blast
    moreover have "set (take (rd_pos r - Suc (length new)) old) \<subseteq> set (take (rd_pos r - length new) old)"
      by (rule set_take_subset_set_take) simp
    ultimately show ?thesis
      using st' l ok h by (auto simp: reader_ok_def intro!: exI [of _ "a # new"])
  qed
qed

lemma reader_ok_reach:
  assumes "seq_reach (ldata_ops sl sn) ldata_writer st0 st r" "list_helpers sl sn" "distinct (ld_head st0)" "\<not> ld_lock st0"
  shows "reader_ok (ld_head st0) st r"
  using assms(1)
proof induction
  case opened
  show ?case using assms by (simp add: reader_ok_def seq_opened_def)
qed (use assms(2) in \<open>blast intro: reader_ok_step reader_ok_writer\<close>)+

subsection \<open>Positions that are out of date\<close>

text \<open>
  The exact answer of start at any position. When tasks have exited since the last session,
  the position may lie behind the end; the walk then goes round the ring and the listing
  goes on in its middle.
\<close>

lemma tasks_start_any:
  "task_ring ts m \<Longrightarrow> 0 < pos \<Longrightarrow>
     tasks_start m pos = Some (m, [], if pos mod length ts = 0 then None else Some (ts ! (pos mod length ts)))"
  using ring_private [of ts m "pos mod length ts"]
  by (simp add: tasks_start_def walk_private Let_def) (simp add: task_ring_def)

text \<open>Unloading frees every record of the list once.\<close>

lemma clean_all_frees: "clean_all head freed = ([], freed @ head)"
  by (induction head freed rule: clean_all.induct) auto

lemma seq_test_init_records: "list_all (\<lambda>(a, v). a \<noteq> None) allocs \<Longrightarrow> length allocs = 3 \<Longrightarrow>
    map_option (\<lambda>st. (ld_lock st, ld_head st)) (seq_test_init allocs) = Some (False, rev (map (the \<circ> fst) allocs))"
  by (auto simp: seq_test_init_def numeral_3_eq_3 length_Suc_conv add_one_record_def)

subsection \<open>Claims\<close>








text \<open>C33: A reader of the records misses none that was there when it opened the file, although
  others insert records between its sessions: at the end it has been given the lines of
  records of the list, all the old ones among them. The mutex is held exactly inside a
  session, and no insertion happens there.\<close>
theorem seq_records_complete:
  assumes "list_helpers sl sn" and "distinct (ld_head st0)" and "\<not> ld_lock st0"
    and "seq_reach (ldata_ops sl sn) ldata_writer st0 st r"
  shows "(ld_lock st \<longleftrightarrow> rd_phase r \<noteq> Closed) \<and> (rd_phase r \<noteq> Closed \<longrightarrow> add_one_record alloc v st = None) \<and>
    (rd_eof r \<and> rd_phase r = Closed \<longrightarrow>
       rd_out r = concat (map (ldata_show st) (gh_shown r)) \<and> set (ld_head st0) \<subseteq> set (gh_shown r) \<and> set (gh_shown r) \<subseteq> set (ld_head st))"
  using reader_ok_reach [OF assms(4,1,2,3)] by (auto simp: reader_ok_def add_one_record_def)

definition demo_list :: ldata_list where
  "demo_list = \<lparr>ld_lock = False, ld_head = [7, 4], ld_value = int\<rparr>"

definition demo_start :: "nat list \<Rightarrow> nat \<Rightarrow> nat option" where
  "demo_start xs i = (if i < length xs then Some (xs ! i) else None)"

definition demo_next :: "nat list \<Rightarrow> nat \<Rightarrow> nat \<Rightarrow> nat option \<times> nat" where
  "demo_next xs p i = (case dropWhile (\<lambda>x. x \<noteq> p) xs of _ # y # _ \<Rightarrow> Some y | _ \<Rightarrow> None, Suc i)"

lemma dropWhile_nth: "distinct xs \<Longrightarrow> i < length xs \<Longrightarrow> dropWhile (\<lambda>x. x \<noteq> xs ! i) xs = drop i xs"
proof (induction xs arbitrary: i)
  case (Cons x xs)
  then show ?case by (cases i) auto
qed simp

lemma demo_helpers: "list_helpers demo_start demo_next"
  unfolding list_helpers_def
proof (intro conjI allI impI)
  fix xs :: "nat list" and i
  show "demo_start xs i = (if i < length xs then Some (xs ! i) else None)"
    by (simp add: demo_start_def)
  assume "distinct xs" "i < length xs"
  then show "demo_next xs (xs ! i) i = (if Suc i < length xs then Some (xs ! Suc i) else None, Suc i)"
    by (cases "Suc i < length xs") (simp_all add: demo_next_def dropWhile_nth Cons_nth_drop_Suc [symmetric])
qed

lemma seq_records_complete_witness:
  "\<exists>st r. rd_eof r \<and> rd_phase r = Closed \<and> seq_reach (ldata_ops demo_start demo_next) ldata_writer demo_list st r \<and>
     {7, 4} \<subseteq> set (gh_shown r)"
proof -
  have g: "distinct (ld_head demo_list)" "\<not> ld_lock demo_list" by (simp_all add: demo_list_def)
  then have "distinct (fst (ld_head demo_list, ld_value demo_list)) \<and> list_helpers demo_start demo_next"
    by (simp add: demo_helpers)
  from ldata.whole_run [OF this g(2), of ldata_writer]
  obtain st r where r: "seq_reach (ldata_ops demo_start demo_next) ldata_writer demo_list st r" "rd_eof r" "rd_phase r = Closed"
    by blast
  have "set (ld_head demo_list) = {7, 4}" by (simp add: demo_list_def)
  with seq_records_complete [OF demo_helpers g r(1), of None 0] r show ?thesis by blast
qed



end
