(* ===== verification/Usb_Mouse.thy ===== *)
theory Usb_Mouse
  imports Prelude
begin

text \<open>
  The USB mouse that types keys (\<^verbatim>\<open>rk3399/debug/usb/usbmouse_as_key.c\<close>): the completion handler
  that turns changes of the three buttons into key events, probe and disconnect. Probe hands
  the URB to the host controller before it fills in the structure the handler reads, so the
  rest of probe is a sequence of steps between which the handler may run. Pointers are NULL
  (None) or valid; following NULL, and a report longer than the buffer, are undefined (None).
  What the USB and input core, and the allocators answer are parameters.
\<close>

subsection \<open>The handler\<close>

datatype mk_key = KEY_L | KEY_S | KEY_ENTER
datatype mk_res = Key_data | Coherent_buffer | Urb
datatype mk_event = Input_event mk_key bool | Input_sync | Submit_urb | Kill_urb
  | Alloc mk_res | Free mk_res | Register_input | Unregister_input

record usbmouse_key =
  k_usb_buf_vir :: "nat option"
  k_usb_buf_phys :: bool
  k_uk_urb :: "nat option"
  k_uk_input_dev :: "nat option"
  k_usbdev :: bool

definition key_zeroed :: usbmouse_key where
  "key_zeroed = \<lparr>k_usb_buf_vir = None, k_usb_buf_phys = False, k_uk_urb = None, k_uk_input_dev = None, k_usbdev = False\<rparr>"

text \<open>
  What kernel calls return during a probe, and how far probe is. \<^verbatim>\<open>Linking n\<close>: n of the five
  fields are filled in.
\<close>

record mk_calls =
  c_key :: "nat option"
  c_input :: "nat option"
  c_register :: int
  c_buf :: "nat option"
  c_urb :: "nat option"
  c_submit :: int
  c_len :: nat

datatype mk_phase = Unbound | Linking nat | Bound

text \<open>The driver's static variable, its structure if allocated, the bytes of the buffer, and whether the URB is pending.\<close>

record mouse =
  pre_val :: u8
  u_key :: "usbmouse_key option"
  buf_bytes :: "u8 list"
  urb_pending :: bool
  mk_phase :: mk_phase
  mk_calls :: mk_calls
  mk_log :: "mk_event list"

definition key_change :: "u8 \<Rightarrow> u8 \<Rightarrow> nat \<Rightarrow> mk_key \<Rightarrow> nat option \<Rightarrow> mk_event list option" where
  "key_change pre b i k dev =
     (if (pre AND push_bit i 1) \<noteq> (b AND push_bit i 1)
      then case dev of None \<Rightarrow> None | Some _ \<Rightarrow> Some [Input_event k (b AND push_bit i 1 \<noteq> 0), Input_sync]
      else Some [])"

definition usbmouse_as_key_irq :: "int \<Rightarrow> mouse \<Rightarrow> mouse option" where
  "usbmouse_as_key_irq submit s = do {
     key \<leftarrow> u_key s;
     _ \<leftarrow> k_usb_buf_vir key;
     b \<leftarrow> aref (buf_bytes s) 1;
     l \<leftarrow> key_change (pre_val s) b 0 KEY_L (k_uk_input_dev key);
     r \<leftarrow> key_change (pre_val s) b 1 KEY_S (k_uk_input_dev key);
     m \<leftarrow> key_change (pre_val s) b 2 KEY_ENTER (k_uk_input_dev key);
     Some (s\<lparr>pre_val := b, urb_pending := (submit = 0), mk_log := mk_log s @ l @ r @ m @ [Submit_urb]\<rparr>)
   }"

text \<open>The controller stores a report in the buffer and completes the URB.\<close>

definition report_arrives :: "u8 list \<Rightarrow> mouse \<Rightarrow> mouse option" where
  "report_arrives xs s = (if length xs \<le> length (buf_bytes s)
     then Some (s\<lparr>buf_bytes := xs @ drop (length xs) (buf_bytes s), urb_pending := False\<rparr>) else None)"

definition mouse_report :: "u8 list \<Rightarrow> int \<Rightarrow> mouse \<Rightarrow> mouse option" where
  "mouse_report xs submit s = report_arrives xs s \<bind> usbmouse_as_key_irq submit"

subsection \<open>Probe and disconnect\<close>

text \<open>Probe up to and including the submission; Inl is its early return.\<close>

definition probe_submit :: "mk_calls \<Rightarrow> mouse \<Rightarrow> (int \<times> mouse + mouse) option" where
  "probe_submit c s = do {
     let s = s\<lparr>mk_calls := c, u_key := map_option (\<lambda>_. key_zeroed) (c_key c),
       mk_log := mk_log s @ (if c_key c = None then [] else [Alloc Key_data])\<rparr>;
     _ \<leftarrow> c_input c;
     if c_register c \<noteq> 0 then Some (Inl (- 1, s)) else do {
       let log = Register_input # (if c_buf c = None then [] else [Alloc Coherent_buffer]);
       _ \<leftarrow> c_urb c;
       Some (Inr (s\<lparr>buf_bytes := replicate 8 0, urb_pending := (c_submit c = 0), mk_phase := Linking 0,
         mk_log := mk_log s @ log @ [Alloc Urb, Submit_urb]\<rparr>))
     }
   }"

text \<open>The assignments to the structure, in order, and the return.\<close>

definition probe_link :: "mouse \<Rightarrow> mouse option" where
  "probe_link s = (case mk_phase s of
     Linking n \<Rightarrow> (let c = mk_calls s in
       if n < 5 then do {
         key \<leftarrow> u_key s;
         let key = (if n = 0 then key\<lparr>k_usbdev := True\<rparr>
           else if n = 1 then key\<lparr>k_uk_input_dev := c_input c\<rparr>
           else if n = 2 then key\<lparr>k_uk_urb := c_urb c\<rparr>
           else if n = 3 then key\<lparr>k_usb_buf_vir := c_buf c\<rparr>
           else key\<lparr>k_usb_buf_phys := True\<rparr>);
         Some (s\<lparr>u_key := Some key, mk_phase := Linking (Suc n)\<rparr>)
       }
       else Some (s\<lparr>mk_phase := Bound\<rparr>))
   | _ \<Rightarrow> Some s)"

definition usbmouse_as_key_disconnect :: "mouse \<Rightarrow> mouse option" where
  "usbmouse_as_key_disconnect s = do {
     key \<leftarrow> u_key s;
     Some (s\<lparr>urb_pending := False, u_key := None, mk_phase := Unbound,
       mk_log := mk_log s @ [Kill_urb] @ (if k_uk_urb key = None then [] else [Free Urb]) @
         (if k_usb_buf_vir key = None then [] else [Free Coherent_buffer]) @ [Unregister_input, Free Key_data]\<rparr>)
   }"

subsection \<open>The driver as a step relation\<close>

text \<open>
  A step leads to a state or crashes (None). Reports arrive while the URB is pending; the USB
  core calls probe for an interface without driver and disconnect for a bound one.
\<close>

inductive mouse_step :: "mouse \<Rightarrow> mouse option \<Rightarrow> bool" where
  probe: "mk_phase s = Unbound \<Longrightarrow>
    mouse_step s (case probe_submit c s of None \<Rightarrow> None | Some (Inl (_, s')) \<Rightarrow> Some s' | Some (Inr s') \<Rightarrow> Some s')"
| link: "mk_phase s = Linking n \<Longrightarrow> mouse_step s (probe_link s)"
| report: "urb_pending s \<Longrightarrow> length xs \<le> c_len (mk_calls s) \<Longrightarrow> mouse_step s (mouse_report xs submit s)"
| disconnect: "mk_phase s = Bound \<Longrightarrow> mouse_step s (usbmouse_as_key_disconnect s)"

definition mouse_loaded :: mouse where
  "mouse_loaded = \<lparr>pre_val = 0, u_key = None, buf_bytes = [], urb_pending = False, mk_phase = Unbound,
     mk_calls = \<lparr>c_key = None, c_input = None, c_register = 0, c_buf = None, c_urb = None, c_submit = 0, c_len = 0\<rparr>, mk_log = []\<rparr>"

text \<open>Runs in which the calls of every probe succeed and the endpoint's packets are at most n bytes.\<close>

definition calls_ok :: "nat \<Rightarrow> mk_calls \<Rightarrow> bool" where
  "calls_ok n c \<longleftrightarrow> c_key c \<noteq> None \<and> c_input c \<noteq> None \<and> c_buf c \<noteq> None \<and> c_urb c \<noteq> None \<and> c_register c = 0 \<and> c_len c \<le> n"

inductive mouse_reach :: "nat \<Rightarrow> mouse \<Rightarrow> bool" for n where
  loaded: "mouse_reach n mouse_loaded"
| step: "mouse_reach n s \<Longrightarrow> mouse_step s (Some s') \<Longrightarrow> calls_ok n (mk_calls s') \<Longrightarrow> mouse_reach n s'"

end
