(* ===== verification/Usb_Mouse_Props.thy ===== *)
theory Usb_Mouse_Props
  imports Usb_Mouse
begin

text \<open>
  The key events follow the buttons, and the one place where the driver can crash: the steps
  between the submission of the URB and the assignment of the buffer.
\<close>

subsection \<open>Keys and buttons\<close>

definition keys_of :: "u8 \<Rightarrow> mk_key set" where
  "keys_of b = {k. case k of KEY_L \<Rightarrow> bit b 0 | KEY_S \<Rightarrow> bit b 1 | KEY_ENTER \<Rightarrow> bit b 2}"

text \<open>What an application that starts with the keys H held makes of the events; None: an event changes nothing.\<close>

fun replay :: "mk_event list \<Rightarrow> mk_key set \<Rightarrow> mk_key set option" where
  "replay [] H = Some H"
| "replay (Input_event k v # es) H = (if (k \<in> H) = v then None else replay es (if v then insert k H else H - {k}))"
| "replay (_ # es) H = replay es H"

fun all_synced :: "mk_event list \<Rightarrow> bool" where
  "all_synced (Input_event k v # Input_sync # es) = all_synced es"
| "all_synced (Input_event k v # es) = False"
| "all_synced (_ # es) = all_synced es"
| "all_synced [] = True"

lemma replay_append: "replay (xs @ ys) H = replay xs H \<bind> replay ys"
  by (induction xs H rule: replay.induct) auto

lemma all_synced_append: "all_synced xs \<Longrightarrow> all_synced (xs @ ys) = all_synced ys"
  by (induction xs rule: all_synced.induct) auto

lemma bit_masked: "((b :: u8) AND 2 ^ i \<noteq> 0) = bit b i"
  by (simp add: and_exp_eq_0_iff_not_bit)

lemma bits_same: "i < 8 \<Longrightarrow> ((a :: u8) AND 2 ^ i = b AND 2 ^ i) = (bit a i = bit b i)"
  by (rule iffI, metis bit_masked and_exp_eq_0_iff_not_bit) (rule bit_word_eqI, auto simp: bit_simps)

lemma key_change_eq:
  "i < 8 \<Longrightarrow> key_change pre b i k (Some d) = Some (if bit pre i = bit b i then [] else [Input_event k (bit b i), Input_sync])"
  by (simp add: key_change_def bits_same bit_masked push_bit_eq_mult)

lemma irq_linked:
  assumes "u_key s = Some key" "k_usb_buf_vir key = Some p" "k_uk_input_dev key = Some d" "1 < length (buf_bytes s)"
  obtains ev where "usbmouse_as_key_irq submit s =
      Some (s\<lparr>pre_val := buf_bytes s ! 1, urb_pending := (submit = 0), mk_log := mk_log s @ ev @ [Submit_urb]\<rparr>)"
    "replay ev (keys_of (pre_val s)) = Some (keys_of (buf_bytes s ! 1))" "all_synced ev"
proof -
  let ?a = "pre_val s" and ?b = "buf_bytes s ! 1"
  let ?e = "\<lambda>i k. if bit ?a i = bit ?b i then [] else [Input_event k (bit ?b i), Input_sync]"
  let ?ev = "?e 0 KEY_L @ ?e 1 KEY_S @ ?e 2 KEY_ENTER"
  have "usbmouse_as_key_irq submit s =
      Some (s\<lparr>pre_val := ?b, urb_pending := (submit = 0), mk_log := mk_log s @ ?ev @ [Submit_urb]\<rparr>)"
    using assms key_change_eq [of 0] key_change_eq [of 1] key_change_eq [of 2] by (simp add: usbmouse_as_key_irq_def)
  moreover have "replay ?ev (keys_of ?a) = Some (keys_of ?b)"
    by (auto simp: keys_of_def split: mk_key.splits)
  moreover have "all_synced ?ev" by simp
  ultimately show thesis by (rule that)
qed

fun mouse_reports :: "u8 list list \<Rightarrow> mouse \<Rightarrow> mouse option" where
  "mouse_reports [] s = Some s"
| "mouse_reports (xs # xss) s = mouse_report xs 0 s \<bind> mouse_reports xss"

lemma report_linked:
  assumes "u_key s = Some key" "k_usb_buf_vir key = Some p" "k_uk_input_dev key = Some d"
    "1 < length (buf_bytes s)" "length xs \<le> length (buf_bytes s)"
  shows "\<exists>s' ev. mouse_report xs submit s = Some s' \<and> u_key s' = u_key s \<and> length (buf_bytes s') = length (buf_bytes s) \<and>
      mk_phase s' = mk_phase s \<and> mk_calls s' = mk_calls s \<and>
      pre_val s' = buf_bytes s' ! 1 \<and> mk_log s' = mk_log s @ ev @ [Submit_urb] \<and> urb_pending s' = (submit = 0) \<and>
      buf_bytes s' = xs @ drop (length xs) (buf_bytes s) \<and>
      replay ev (keys_of (pre_val s)) = Some (keys_of (pre_val s')) \<and> all_synced ev"
proof -
  let ?s = "s\<lparr>buf_bytes := xs @ drop (length xs) (buf_bytes s), urb_pending := False\<rparr>"
  have "u_key ?s = Some key" "1 < length (buf_bytes ?s)" using assms by auto
  from irq_linked [OF this(1) assms(2,3) this(2), of submit]
  obtain ev where ev: "usbmouse_as_key_irq submit ?s =
      Some (?s\<lparr>pre_val := buf_bytes ?s ! 1, urb_pending := (submit = 0), mk_log := mk_log ?s @ ev @ [Submit_urb]\<rparr>)"
    "replay ev (keys_of (pre_val ?s)) = Some (keys_of (buf_bytes ?s ! 1))" "all_synced ev"
    by blast
  then show ?thesis using assms by (simp add: mouse_report_def report_arrives_def)
qed

lemma reports_linked:
  assumes "u_key s = Some key" "k_usb_buf_vir key = Some p" "k_uk_input_dev key = Some d"
    "1 < length (buf_bytes s)" "\<forall>xs \<in> set xss. length xs \<le> length (buf_bytes s)"
  shows "\<exists>s' ev. mouse_reports xss s = Some s' \<and> mk_log s' = mk_log s @ ev \<and>
      (xss \<noteq> [] \<longrightarrow> pre_val s' = buf_bytes s' ! 1 \<and> buf_bytes s' = last xss @ drop (length (last xss)) (buf_bytes s')) \<and>
      replay ev (keys_of (pre_val s)) = Some (keys_of (pre_val s')) \<and> all_synced ev"
  using assms
proof (induction xss arbitrary: s)
  case Nil
  then show ?case by (intro exI [of _ s] exI [of _ "[]"]) simp
next
  case (Cons xs xss)
  obtain s1 ev where s1: "mouse_report xs 0 s = Some s1" "u_key s1 = u_key s" "length (buf_bytes s1) = length (buf_bytes s)"
      "pre_val s1 = buf_bytes s1 ! 1" "mk_log s1 = mk_log s @ ev @ [Submit_urb]" "buf_bytes s1 = xs @ drop (length xs) (buf_bytes s)"
      "replay ev (keys_of (pre_val s)) = Some (keys_of (pre_val s1))" "all_synced ev"
    using report_linked [of s key p d xs 0] Cons.prems by auto
  obtain s2 ev2 where s2: "mouse_reports xss s1 = Some s2" "mk_log s2 = mk_log s1 @ ev2"
      "xss \<noteq> [] \<longrightarrow> pre_val s2 = buf_bytes s2 ! 1 \<and> buf_bytes s2 = last xss @ drop (length (last xss)) (buf_bytes s2)"
      "replay ev2 (keys_of (pre_val s1)) = Some (keys_of (pre_val s2))" "all_synced ev2"
    using Cons.IH [of s1] Cons.prems s1 by auto
  show ?case
  proof (intro exI [of _ s2] exI [of _ "ev @ Submit_urb # ev2"] conjI impI)
    show "replay (ev @ Submit_urb # ev2) (keys_of (pre_val s)) = Some (keys_of (pre_val s2))"
      using s1(7) s2(4) by (simp add: replay_append)
    show "all_synced (ev @ Submit_urb # ev2)" using s1(8) s2(5) by (simp add: all_synced_append)
    show "pre_val s2 = buf_bytes s2 ! 1"
      using s1(4) s2(1,3) by (cases "xss = []") auto
    show "buf_bytes s2 = last (xs # xss) @ drop (length (last (xs # xss))) (buf_bytes s2)"
      using s1(6) s2(1,3) by (cases "xss = []") auto
  qed (use s1 s2 in simp_all)
qed

subsection \<open>The life of a device\<close>

definition linked_fields :: "nat \<Rightarrow> mouse \<Rightarrow> usbmouse_key" where
  "linked_fields n s = (let c = mk_calls s in
     \<lparr>k_usb_buf_vir = (if n < 4 then None else c_buf c), k_usb_buf_phys = (4 < n),
      k_uk_urb = (if n < 3 then None else c_urb c), k_uk_input_dev = (if n < 2 then None else c_input c), k_usbdev = (0 < n)\<rparr>)"

definition held :: "mk_event list \<Rightarrow> mk_res \<Rightarrow> int" where
  "held es x = int (count_list es (Alloc x)) - int (count_list es (Free x))"


lemma held_append: "held (xs @ ys) x = held xs x + held ys x"
  by (simp add: held_def)

lemma held_simps [simp]:
  "held [] x = 0" "held (Alloc y # es) x = held es x + (if x = y then 1 else 0)"
  "held (Free y # es) x = held es x - (if x = y then 1 else 0)"
  "held (Submit_urb # es) x = held es x" "held (Kill_urb # es) x = held es x"
  "held (Register_input # es) x = held es x" "held (Unregister_input # es) x = held es x"
  "held (Input_event k v # es) x = held es x" "held (Input_sync # es) x = held es x"
  by (simp_all add: held_def)









subsection \<open>Claims\<close>

text \<open>C34: A bound mouse types its buttons: the key events of any sequence of reports that fit the
  buffer, each followed by a sync, are real changes - no key is pressed twice or released
  unpressed - and lead from the keys of the buttons held before to those of the last report.\<close>
theorem mouse_types_buttons:
  assumes "u_key s = Some key" and "k_usb_buf_vir key = Some p" and "k_uk_input_dev key = Some d"
    and "1 < length (buf_bytes s)" and "\<forall>xs \<in> set xss. length xs \<le> length (buf_bytes s)"
  shows "\<exists>s' ev. mouse_reports xss s = Some s' \<and> mk_log s' = mk_log s @ ev \<and>
      (xss \<noteq> [] \<longrightarrow> pre_val s' = buf_bytes s' ! 1 \<and> buf_bytes s' = last xss @ drop (length (last xss)) (buf_bytes s')) \<and>
      replay ev (keys_of (pre_val s)) = Some (keys_of (pre_val s')) \<and> all_synced ev"
  by (rule reports_linked [OF assms])

definition demo_calls :: "nat \<Rightarrow> mk_calls" where
  "demo_calls n = \<lparr>c_key = Some 1, c_input = Some 2, c_register = 0, c_buf = Some 3, c_urb = Some 4, c_submit = 0, c_len = n\<rparr>"

definition demo_mouse :: "nat \<Rightarrow> mk_phase \<Rightarrow> mouse" where
  "demo_mouse n ph = mouse_loaded\<lparr>mk_calls := demo_calls n, buf_bytes := replicate 8 0, urb_pending := True, mk_phase := ph,
     u_key := Some (linked_fields (case ph of Linking k \<Rightarrow> k | _ \<Rightarrow> 5) (mouse_loaded\<lparr>mk_calls := demo_calls n\<rparr>)),
     mk_log := [Alloc Key_data, Register_input, Alloc Coherent_buffer, Alloc Urb, Submit_urb]\<rparr>"

lemma mouse_types_buttons_witness:
  "\<exists>s' ev. mouse_reports [[0, 1], [0, 3, 5], [0, 2]] (demo_mouse 8 Bound) = Some s' \<and> pre_val s' = 2 \<and>
     replay ev {} = Some {KEY_S}"
proof -
  have "mouse_reports [[0, 1], [0, 3, 5], [0, 2]] (demo_mouse 8 Bound) \<noteq> None"
    by code_simp
  have k: "keys_of 0 = {}" "keys_of 2 = {KEY_S}" "pre_val (demo_mouse 8 Bound) = 0"
    by (auto simp: keys_of_def demo_mouse_def mouse_loaded_def split: mk_key.splits) (metis mk_key.exhaust)
  let ?key = "linked_fields 5 (mouse_loaded\<lparr>mk_calls := demo_calls 8\<rparr>)"
  have u: "u_key (demo_mouse 8 Bound) = Some ?key" "k_usb_buf_vir ?key = Some 3" "k_uk_input_dev ?key = Some 2"
    "1 < length (buf_bytes (demo_mouse 8 Bound))"
    "\<forall>xs \<in> set [[0, 1], [0, 3, 5], [0, 2]]. length xs \<le> length (buf_bytes (demo_mouse 8 Bound))"
    by (simp_all add: demo_mouse_def linked_fields_def demo_calls_def)
  obtain s' ev where s': "mouse_reports [[0, 1], [0, 3, 5], [0, 2]] (demo_mouse 8 Bound) = Some s'"
      "pre_val s' = buf_bytes s' ! 1" "buf_bytes s' = [0, 2] @ drop 2 (buf_bytes s')"
      "replay ev (keys_of 0) = Some (keys_of (pre_val s'))"
    using mouse_types_buttons [OF u] k(3) by (auto simp: numeral_2_eq_2)
  have "buf_bytes s' ! 1 = 2" by (subst s'(3)) simp
  with s' k show ?thesis by (intro exI [of _ s'] exI [of _ ev]) simp
qed




subsection \<open>What goes wrong\<close>

text \<open>A packet of nine bytes overruns the buffer; an endpoint may ask for them.\<close>

lemma mouse_wide_report: "length xs = 9 \<Longrightarrow> length (buf_bytes s) = 8 \<Longrightarrow> mouse_report xs submit s = None"
  by (simp add: mouse_report_def report_arrives_def)

text \<open>A failed registration leaves the structure allocated for ever.\<close>

lemma mouse_probe_leak:
  "c_key c \<noteq> None \<Longrightarrow> c_input c \<noteq> None \<Longrightarrow> c_register c \<noteq> 0 \<Longrightarrow>
     \<exists>s'. probe_submit c s = Some (Inl (- 1, s')) \<and> held (mk_log s') Key_data = held (mk_log s) Key_data + 1"
  by (auto simp: probe_submit_def held_append)

text \<open>An allocation that fails is followed as NULL.\<close>

lemma mouse_null_calls:
  "c_input c = None \<or> c_register c = 0 \<and> c_urb c = None \<Longrightarrow> probe_submit c s = None"
  "mk_phase s = Linking 0 \<Longrightarrow> u_key s = None \<Longrightarrow> probe_link s = None"
  by (auto simp: probe_submit_def probe_link_def)

text \<open>
  The static variable survives a device: one unplugged with a button held leaves its state to
  the next, whose first report with that button held is no change.
\<close>

lemma mouse_stale_buttons:
  "usbmouse_as_key_disconnect s = Some s' \<Longrightarrow> probe_submit c s' = Some (Inr s'') \<Longrightarrow> pre_val s'' = pre_val s"
  "i < 8 \<Longrightarrow> key_change b b i k dev = Some []"
  by (auto simp: usbmouse_as_key_disconnect_def probe_submit_def key_change_def Let_def split: bind_splits if_splits)

end
