(* ===== verification/Irq_Work.thy ===== *)
theory Irq_Work
  imports Prelude
begin

text \<open>
  The interrupt test (\<^verbatim>\<open>rk3288/debug/interrupt/int.c\<close>): a level-triggered line whose handler
  disables the line and leaves the rest to a work item, which enables it again. Handler, work
  and the rest of the system run in any order, so the driver is a step relation over what the
  kernel keeps for it: whether the line is requested, how often it is disabled, whether the
  work is initialised, queued and running. A work item runs once for each time it is queued
  while it is not queued, and never twice at a time.
\<close>

datatype work_run = Work_idle | Work_started | Work_enabled

datatype irq_phase = Irq_unbound | Irq_requested | Irq_ready | Irq_removed

record irq_dev =
  g_irq :: int
  line_low :: bool
  irq_depth :: nat
  work_queued :: bool
  work_run :: work_run
  irq_phase :: irq_phase
  gh_handled :: nat
  gh_enabled :: nat

definition irq_loaded :: irq_dev where
  "irq_loaded = \<lparr>g_irq = 0, line_low = False, irq_depth = 0, work_queued = False, work_run = Work_idle,
     irq_phase = Irq_unbound, gh_handled = 0, gh_enabled = 0\<rparr>"

text \<open>Probe up to the request of the line: the pin, the line it belongs to, and the result of the request are parameters.\<close>

definition int_probe_request :: "int option \<Rightarrow> int \<Rightarrow> irq_dev \<Rightarrow> int \<times> irq_dev" where
  "int_probe_request gpio_to_irq request s =
     (let s = (case gpio_to_irq of Some irq \<Rightarrow> s\<lparr>g_irq := irq\<rparr> | None \<Rightarrow> s)
      in if request \<noteq> 0 then (- 1, s) else (0, s\<lparr>irq_phase := Irq_requested\<rparr>))"

definition int_probe_init_work :: "irq_dev \<Rightarrow> irq_dev" where
  "int_probe_init_work s = s\<lparr>irq_phase := Irq_ready, work_queued := False, work_run := Work_idle\<rparr>"

text \<open>Queueing a work item that is not initialised is undefined.\<close>

definition schedule_work :: "irq_dev \<Rightarrow> irq_dev option" where
  "schedule_work s = (if irq_phase s = Irq_requested then None else Some (s\<lparr>work_queued := True\<rparr>))"

definition test_irq_handler :: "irq_dev \<Rightarrow> irq_dev option" where
  "test_irq_handler s = schedule_work (s\<lparr>irq_depth := irq_depth s + 1, gh_handled := gh_handled s + 1\<rparr>)"

text \<open>Enabling a line that is not requested, or not disabled, is an error of the caller.\<close>

definition enable_irq :: "irq_dev \<Rightarrow> irq_dev option" where
  "enable_irq s = (if irq_phase s = Irq_removed \<or> irq_depth s = 0 then None
     else Some (s\<lparr>irq_depth := irq_depth s - 1, gh_enabled := gh_enabled s + 1\<rparr>))"

definition test_irq_work :: "irq_dev \<Rightarrow> irq_dev option" where
  "test_irq_work s = map_option (\<lambda>s. s\<lparr>work_run := Work_enabled\<rparr>) (enable_irq s)"

definition int_remove :: "irq_dev \<Rightarrow> irq_dev" where
  "int_remove s = s\<lparr>irq_phase := Irq_removed\<rparr>"

inductive irq_step :: "irq_dev \<Rightarrow> irq_dev option \<Rightarrow> bool" where
  probe: "irq_phase s = Irq_unbound \<Longrightarrow> irq_step s (Some (snd (int_probe_request p request s)))"
| init_work: "irq_phase s = Irq_requested \<Longrightarrow> irq_step s (Some (int_probe_init_work s))"
| line: "irq_step s (Some (s\<lparr>line_low := b\<rparr>))"
| interrupt: "irq_phase s \<in> {Irq_requested, Irq_ready} \<Longrightarrow> line_low s \<Longrightarrow> irq_depth s = 0 \<Longrightarrow> irq_step s (test_irq_handler s)"
| work_start: "work_queued s \<Longrightarrow> work_run s = Work_idle \<Longrightarrow> irq_step s (Some (s\<lparr>work_queued := False, work_run := Work_started\<rparr>))"
| work: "work_run s = Work_started \<Longrightarrow> irq_step s (test_irq_work s)"
| work_end: "work_run s = Work_enabled \<Longrightarrow> irq_step s (Some (s\<lparr>work_run := Work_idle\<rparr>))"
| remove: "irq_phase s = Irq_ready \<Longrightarrow> irq_step s (Some (int_remove s))"

inductive irq_reach :: "irq_dev \<Rightarrow> bool" where
  loaded: "irq_reach irq_loaded"
| step: "irq_reach s \<Longrightarrow> irq_step s (Some s') \<Longrightarrow> irq_reach s'"

text \<open>The steps of the work item alone.\<close>

inductive work_steps :: "nat \<Rightarrow> irq_dev \<Rightarrow> irq_dev \<Rightarrow> bool" where
  zero: "work_steps 0 s s"
| more: "irq_step s (Some s') \<Longrightarrow> work_run s \<noteq> Work_idle \<or> work_queued s \<Longrightarrow> line_low s' = line_low s \<Longrightarrow> irq_phase s' = irq_phase s \<Longrightarrow>
    gh_handled s' = gh_handled s \<Longrightarrow> work_steps n s' s'' \<Longrightarrow> work_steps (Suc n) s s''"

subsection \<open>The invariant\<close>

definition irq_ok :: "irq_dev \<Rightarrow> bool" where
  "irq_ok s \<longleftrightarrow> irq_depth s = (if work_queued s \<or> work_run s = Work_started then 1 else 0) \<and>
     \<not> (work_queued s \<and> work_run s = Work_started) \<and> gh_handled s = gh_enabled s + irq_depth s \<and>
     (irq_phase s \<in> {Irq_unbound, Irq_requested} \<longrightarrow> \<not> work_queued s \<and> work_run s = Work_idle)"

lemmas irq_ops = int_probe_request_def int_probe_init_work_def schedule_work_def test_irq_handler_def enable_irq_def
  test_irq_work_def int_remove_def Let_def

lemma irq_ok_step: "irq_step s x \<Longrightarrow> irq_ok s \<Longrightarrow> x = Some s' \<Longrightarrow> irq_ok s'"
  by (induction rule: irq_step.induct) (auto simp: irq_ok_def irq_ops split: if_splits option.splits)

lemma irq_reach_ok: "irq_reach s \<Longrightarrow> irq_ok s"
proof (induction rule: irq_reach.induct)
  case loaded
  show ?case by (simp add: irq_ok_def irq_loaded_def)
qed (blast intro: irq_ok_step)

lemma irq_crash:
  assumes "irq_ok s"
  shows "irq_step s None \<longleftrightarrow> irq_phase s = Irq_requested \<and> line_low s \<or> irq_phase s = Irq_removed \<and> work_run s = Work_started"
    (is "?l \<longleftrightarrow> ?r")
proof
  assume ?l
  then show ?r using assms by cases (auto simp: irq_ok_def irq_ops split: if_splits option.splits)
next
  assume ?r
  then show ?l
  proof
    assume a: "irq_phase s = Irq_requested \<and> line_low s"
    then have "irq_depth s = 0" using assms by (simp add: irq_ok_def)
    from irq_step.interrupt [OF _ _ this] a show ?l by (simp add: irq_ops)
  next
    assume "irq_phase s = Irq_removed \<and> work_run s = Work_started"
    then show ?l using irq_step.work [of s] by (simp add: irq_ops)
  qed
qed

lemma irq_comes_back:
  assumes "irq_ok s" "irq_phase s = Irq_ready"
  shows "\<exists>n s'. n \<le> 3 \<and> work_steps n s s' \<and> irq_depth s' = 0 \<and> line_low s' = line_low s \<and> irq_phase s' = Irq_ready"
proof -
  have started: "work_steps (Suc 0) s (s\<lparr>irq_depth := 0, gh_enabled := gh_enabled s + 1, work_run := Work_enabled\<rparr>)"
    if "irq_ok s" "irq_phase s = Irq_ready" "work_run s = Work_started" for s
  proof (rule work_steps.more [OF _ _ _ _ _ work_steps.zero])
    show "irq_step s (Some (s\<lparr>irq_depth := 0, gh_enabled := gh_enabled s + 1, work_run := Work_enabled\<rparr>))"
      using irq_step.work [OF that(3)] that by (simp add: irq_ops irq_ok_def)
  qed (use that in simp_all)
  have queued: "\<exists>s'. work_steps 2 s s' \<and> irq_depth s' = 0 \<and> line_low s' = line_low s \<and> irq_phase s' = Irq_ready"
    if "irq_ok s" "irq_phase s = Irq_ready" "work_queued s" "work_run s = Work_idle" for s
  proof -
    let ?s = "s\<lparr>work_queued := False, work_run := Work_started\<rparr>"
    have "irq_ok ?s" "irq_phase ?s = Irq_ready" "work_run ?s = Work_started"
      using that by (auto simp: irq_ok_def split: if_splits)
    from work_steps.more [OF irq_step.work_start [OF that(3,4)] _ _ _ _ started [OF this]] that
    show ?thesis by (auto simp: numeral_2_eq_2)
  qed
  show ?thesis
  proof (cases "work_run s")
    case Work_started
    from started [OF assms this] assms show ?thesis by (intro exI [of _ "Suc 0"]) auto
  next
    case Work_idle
    show ?thesis
    proof (cases "work_queued s")
      case True
      from queued [OF assms this Work_idle] show ?thesis by (intro exI [of _ 2]) simp
    next
      case False
      then show ?thesis using assms Work_idle work_steps.zero [of s] by (auto simp: irq_ok_def)
    qed
  next
    case Work_enabled
    show ?thesis
    proof (cases "work_queued s")
      case True
      let ?s = "s\<lparr>work_run := Work_idle\<rparr>"
      have s: "irq_ok ?s" "irq_phase ?s = Irq_ready" "work_queued ?s" "work_run ?s = Work_idle"
        using assms True Work_enabled by (auto simp: irq_ok_def split: if_splits)
      obtain s' where s': "work_steps 2 ?s s'" "irq_depth s' = 0" "line_low s' = line_low s" "irq_phase s' = Irq_ready"
        using queued [OF s] by auto
      from work_steps.more [OF irq_step.work_end [OF Work_enabled] _ _ _ _ s'(1)] Work_enabled
      have "work_steps 3 s s'" by (simp add: numeral_3_eq_3 numeral_2_eq_2)
      with s' show ?thesis by blast
    next
      case False
      then show ?thesis using assms Work_enabled work_steps.zero [of s] by (auto simp: irq_ok_def)
    qed
  qed
qed

subsection \<open>Claim\<close>

text \<open>C36: Every interrupt is disabled by its handler and enabled again by the work once: in every
  reachable state the line is disabled exactly while the work is queued or has not enabled it
  yet, never twice, and every handled interrupt but that one has been enabled. Bound and left
  alone, the work enables a disabled line in at most three steps. The driver crashes exactly
  when the line is low between the request and the initialisation of the work, or when the
  work still runs after removal.\<close>
theorem irq_balanced:
  assumes "irq_reach s"
  shows "irq_depth s = (if work_queued s \<or> work_run s = Work_started then 1 else 0) \<and> gh_handled s = gh_enabled s + irq_depth s \<and>
    (irq_phase s = Irq_ready \<longrightarrow> (\<exists>n s'. n \<le> 3 \<and> work_steps n s s' \<and> irq_depth s' = 0 \<and> line_low s' = line_low s \<and> irq_phase s' = Irq_ready)) \<and>
    (irq_step s None \<longleftrightarrow> irq_phase s = Irq_requested \<and> line_low s \<or> irq_phase s = Irq_removed \<and> work_run s = Work_started)"
  using irq_reach_ok [OF assms] irq_crash irq_comes_back by (simp add: irq_ok_def)

lemma irq_balanced_witness:
  "\<exists>s. irq_reach s \<and> irq_phase s = Irq_ready \<and> line_low s \<and> irq_depth s = 1 \<and> \<not> irq_step s None"
proof -
  let ?a = "snd (int_probe_request (Some 7) 0 irq_loaded)"
  have a: "irq_phase ?a = Irq_requested" by (simp add: irq_ops)
  have "irq_reach (int_probe_init_work ?a\<lparr>line_low := True\<rparr>)"
    using irq_step.probe [of irq_loaded "Some 7" 0]
    by (intro irq_reach.step [OF irq_reach.step [OF irq_reach.step [OF irq_reach.loaded] irq_step.init_work [OF a]] irq_step.line])
      (simp add: irq_loaded_def)
  moreover have "irq_step (int_probe_init_work ?a\<lparr>line_low := True\<rparr>)
      (test_irq_handler (int_probe_init_work ?a\<lparr>line_low := True\<rparr>))"
    by (rule irq_step.interrupt) (simp_all add: irq_ops irq_loaded_def)
  ultimately have r: "irq_reach (the (test_irq_handler (int_probe_init_work ?a\<lparr>line_low := True\<rparr>)))"
    using irq_reach.step by (auto simp: irq_ops)
  show ?thesis
    by (rule exI, rule conjI [OF r], use irq_balanced [OF r] in \<open>simp add: irq_ops irq_loaded_def\<close>)
qed

end
