(* ===== verification/Rk818_Probe.thy ===== *)
theory Rk818_Probe
  imports Rk818_Calls
begin

text \<open>
  Device tree and probe of the RK818 driver (\<^verbatim>\<open>rk818.c\<close>): the table of names, the board data
  read from the device tree, and the probe with the registration of the regulators. What
  the kernel answers (device tree, allocation, pins, registration) is a record; the bus is
  the transfer function. Using a pointer that is NULL or was never set is undefined (None).
\<close>

subsection \<open>Device tree\<close>

text \<open>The part of \<^verbatim>\<open>struct regulator_init_data\<close> the driver uses: the rail's name and its supply.\<close>

record init_data =
  ri_name :: "string option"
  ri_supply :: "string option"

definition rk818_reg_matches :: "string list" where
  "rk818_reg_matches = [''rk818_dcdc1'', ''rk818_dcdc2'', ''rk818_dcdc3'', ''rk818_dcdc4'', ''rk818_ldo1'', ''rk818_ldo2'',
     ''rk818_ldo3'', ''rk818_ldo4'', ''rk818_ldo5'', ''rk818_ldo6'', ''rk818_ldo7'', ''rk818_ldo8'', ''rk818_ldo9'', ''rk818_ldo10'']"

text \<open>
  The chip's node: whether it has a regulators node, what matching the table's names there
  gives (a count or an error, and for every entry the initial data and the node), the
  pins by their index, and whether the chip controls the system's power.
\<close>

record rk818_dt =
  dt_regulators :: bool
  dt_match :: "string list \<Rightarrow> int \<times> (init_data option \<times> nat option) list"
  dt_alloc :: bool
  dt_gpio :: "nat \<Rightarrow> int"
  dt_power_off :: bool

record rk818_board =
  bo_irq :: int
  bo_irq_base :: int
  bo_irq_gpio :: int
  bo_rid :: "init_data option list"
  bo_np :: "nat option list"
  bo_pmic_sleep_gpio :: int
  bo_pmic_sleep :: bool
  bo_pm_off :: bool

abbreviation (input) RK818_NUM_REGULATORS :: nat where "RK818_NUM_REGULATORS \<equiv> 14"

fun board_loop :: "(init_data option \<times> nat option) list \<Rightarrow> nat list \<Rightarrow> rk818_board \<Rightarrow> rk818_board option" where
  "board_loop ms [] pdata = Some pdata"
| "board_loop ms (i # is) pdata =
     do { m \<leftarrow> aref ms (int i);
          board_loop ms is (if fst m = None \<or> snd m = None then pdata
            else pdata\<lparr>bo_rid := (bo_rid pdata)[i := fst m], bo_np := (bo_np pdata)[i := snd m]\<rparr>) }"

text \<open>The inner None is the NULL pointer.\<close>

definition rk818_parse_dt :: "(int \<Rightarrow> bool) \<Rightarrow> int \<Rightarrow> rk818_dt option \<Rightarrow> rk818_board option option" where
  "rk818_parse_dt gpio_is_valid chip_irq node =
     (case node of
        None \<Rightarrow> Some None
      | Some dt \<Rightarrow>
          if \<not> dt_regulators dt then Some None
          else (let (count, ms) = dt_match dt rk818_reg_matches
                in if count < 0 \<or> int RK818_NUM_REGULATORS < count then Some None
                   else if \<not> dt_alloc dt then Some None
                   else do { pdata \<leftarrow> board_loop ms [0..<nat count]
                               \<lparr>bo_irq = 0, bo_irq_base = 0, bo_irq_gpio = 0, bo_rid = replicate RK818_NUM_REGULATORS None,
                                bo_np = replicate RK818_NUM_REGULATORS None, bo_pmic_sleep_gpio = 0, bo_pmic_sleep = False,
                                bo_pm_off = False\<rparr>;
                             let pdata = pdata\<lparr>bo_irq := chip_irq, bo_irq_base := - 1, bo_irq_gpio := dt_gpio dt 0\<rparr>
                             in if \<not> gpio_is_valid (bo_irq_gpio pdata) then Some None
                                else Some (Some (pdata\<lparr>bo_pmic_sleep_gpio := dt_gpio dt 1, bo_pmic_sleep := True,
                                                       bo_pm_off := dt_power_off dt\<rparr>)) }))"

subsection \<open>Probe\<close>

datatype rdev_ptr = No_rdev | Rdev nat | Err_rdev

text \<open>
  The driver's data after the probe: the chip, the sleep pin, the array of regulators, and
  the registrations made, each with its index, node and initial data.
\<close>

record 'd rk818_dev =
  pv_chip :: "'d rk818_chip"
  pv_sleep_gpio :: int
  pv_rdev :: "rdev_ptr list option"
  pv_regs :: "(nat \<times> nat option \<times> init_data) list"

record rk818_services =
  ps_match :: bool
  ps_alloc :: bool
  ps_dt :: "rk818_dt option"
  ps_gpio_valid :: "int \<Rightarrow> bool"
  ps_gpio_request :: "int \<Rightarrow> int"
  ps_rdev_alloc :: bool
  ps_register :: "nat \<Rightarrow> init_data \<Rightarrow> bool"

text \<open>The loop over the regulators; the rail's name, or else the descriptor's, becomes the supply.\<close>

fun register_loop :: "(nat \<Rightarrow> init_data \<Rightarrow> bool) \<Rightarrow> rk818_board \<Rightarrow> nat list \<Rightarrow> rdev_ptr list \<Rightarrow>
    ((nat \<times> nat option \<times> init_data) list \<times> rdev_ptr list) option" where
  "register_loop ok pdata [] rdev = Some ([], rdev)"
| "register_loop ok pdata (i # is) rdev =
     do { rid \<leftarrow> aref (bo_rid pdata) (int i);
          (case rid of
             None \<Rightarrow> register_loop ok pdata is rdev
           | Some rid \<Rightarrow>
               do { np \<leftarrow> aref (bo_np pdata) (int i);
                    desc \<leftarrow> aref rk818_regulators (int i);
                    let rid = rid\<lparr>ri_supply := Some (case ri_name rid of Some n \<Rightarrow> n | None \<Rightarrow> rd_name desc)\<rparr>
                    in do { (regs, rdev) \<leftarrow> register_loop ok pdata is (rdev[i := if ok i rid then Rdev i else Err_rdev]);
                            Some ((i, np, rid) # regs, rdev) } }) }"

text \<open>The probe from the sleep pin on, with the board data.\<close>

definition probe_rest ::
  "'d i2c_xfer \<Rightarrow> rk818_services \<Rightarrow> irq_env \<Rightarrow> 'd rk818_chip \<Rightarrow> rk818_board \<Rightarrow> (int \<times> 'd rk818_dev option) option" where
  "probe_rest xfer ps env chip pdata =
     (let dev = \<lparr>pv_chip = chip, pv_sleep_gpio = bo_pmic_sleep_gpio pdata, pv_rdev = None, pv_regs = []\<rparr>
      in if pv_sleep_gpio dev \<noteq> 0 \<and> ps_gpio_request ps (pv_sleep_gpio dev) < 0 then Some (0, Some dev)
         else if \<not> ps_rdev_alloc ps then Some (- ENOMEM, Some dev)
         else do {
           (regs, rdev) \<leftarrow> register_loop (ps_register ps) pdata [0..<RK818_NUM_REGULATORS] (replicate RK818_NUM_REGULATORS No_rdev);
           chip \<leftarrow> Some (chip\<lparr>rk_irq_gpio := bo_irq_gpio pdata\<rparr>);
           (_, _, chip) \<leftarrow> rk818_irq_init xfer env chip (rk_irq_gpio chip) (bo_irq_gpio pdata);
           Some (0, Some (dev\<lparr>pv_chip := chip, pv_rdev := Some rdev, pv_regs := regs\<rparr>)) })"

text \<open>Without a node the board data's pointer was never set; after a failed allocation the chip's is NULL.\<close>

definition rk818_i2c_probe ::
  "'d i2c_xfer \<Rightarrow> rk818_services \<Rightarrow> irq_env \<Rightarrow> u16 \<Rightarrow> 'd \<Rightarrow> (int \<times> 'd rk818_dev option) option" where
  "rk818_i2c_probe xfer ps env addr d =
     (if ps_dt ps \<noteq> None \<and> \<not> ps_match ps then Some (- EINVAL, None)
      else if \<not> ps_alloc ps then None
      else do {
        chip \<leftarrow> Some \<lparr>rk_client = Some addr, rk_bus = d, rk_io_lock = False, rk_irq_lock = False, rk_irq_num = 0,
          rk_chip_irq = 0, rk_irq_gpio = 0, rk_irq_mask = 0, rk_irq_domain = False, rk_irq_wake = False\<rparr>;
        (_, chip) \<leftarrow> rk818_reg_read xfer chip 0x2f;
        (_, chip) \<leftarrow> rk818_pre_init xfer chip;
        pdata \<leftarrow> (if ps_dt ps \<noteq> None then rk818_parse_dt (ps_gpio_valid ps) (rk_chip_irq chip) (ps_dt ps) else None);
        pdata \<leftarrow> pdata;
        probe_rest xfer ps env chip pdata })"

subsection \<open>The bus part of the probe comes back\<close>

text \<open>A computation that returns and changes nothing of the chip's data but the bus.\<close>

definition on_bus :: "'d rk818_chip \<Rightarrow> ('r \<times> 'd rk818_chip) option \<Rightarrow> bool" where
  "on_bus c m \<longleftrightarrow> (\<exists>r d. m = Some (r, c\<lparr>rk_bus := d\<rparr>))"

lemma on_bus_bus [simp]: "on_bus (c\<lparr>rk_bus := d\<rparr>) m = on_bus c m"
  by (simp add: on_bus_def)

lemma on_bus_Some [simp]: "on_bus c (Some (r, c\<lparr>rk_bus := d\<rparr>))"
  by (auto simp: on_bus_def)

lemma on_bus_bind: "on_bus c m \<Longrightarrow> (\<And>r d. on_bus c (f (r, c\<lparr>rk_bus := d\<rparr>))) \<Longrightarrow> on_bus c (m \<bind> f)"
  by (auto simp: on_bus_def)

lemma on_bus_locked: "\<not> rk_io_lock c \<Longrightarrow> c\<lparr>rk_io_lock := True, rk_bus := d, rk_io_lock := False\<rparr> = c\<lparr>rk_bus := d\<rparr>"
  by (cases c) simp

lemma ready_bus_lock: "rk818_ready a c \<Longrightarrow> rk_client (c\<lparr>rk_io_lock := True, rk_bus := d\<rparr>) = Some a"
  "rk818_ready a c \<Longrightarrow> rk_client (c\<lparr>rk_io_lock := True\<rparr>) = Some a" "rk818_ready a c \<Longrightarrow> \<not> rk_io_lock c"
  by (simp_all add: rk818_ready_def)

lemma reg_read_on_bus:
  assumes "delivers xfer" "rk818_ready a c" shows "on_bus c (rk818_reg_read xfer c r)"
proof -
  obtain b d where "rk818_i2c_read xfer (c\<lparr>rk_io_lock := True\<rparr>) r 1 = Some (0, Some b, c\<lparr>rk_io_lock := True, rk_bus := d\<rparr>)"
    using i2c_read_delivers [OF assms(1) ready_bus_lock(2) [OF assms(2)]] by fastforce
  then show ?thesis using ready_bus_lock(3) [OF assms(2)]
    by (auto simp: rk818_reg_read_def on_bus_locked on_bus_def simp del: One_nat_def)
qed

lemma reg_write_on_bus:
  assumes "rk818_ready a c" shows "on_bus c (rk818_reg_write xfer c r v)"
proof -
  obtain e d where "rk818_i2c_write xfer (c\<lparr>rk_io_lock := True\<rparr>) r 1 v = (e, c\<lparr>rk_io_lock := True, rk_bus := d\<rparr>)"
    using i2c_write_frame [of xfer "c\<lparr>rk_io_lock := True\<rparr>" r v] by fastforce
  then show ?thesis using ready_bus_lock(3) [OF assms]
    by (auto simp: rk818_reg_write_def on_bus_locked on_bus_def simp del: One_nat_def)
qed

lemma set_bits_on_bus:
  assumes "delivers xfer" "rk818_ready a c" shows "on_bus c (rk818_set_bits xfer c r m v)"
proof -
  let ?c = "c\<lparr>rk_io_lock := True\<rparr>"
  obtain b d where 1: "rk818_i2c_read xfer ?c r 1 = Some (0, Some b, ?c\<lparr>rk_bus := d\<rparr>)"
    using i2c_read_delivers [OF assms(1) ready_bus_lock(2) [OF assms(2)]] by blast
  obtain e d2 where 2: "rk818_i2c_write xfer (?c\<lparr>rk_bus := d\<rparr>) r 1 (put_field b m v) = (e, ?c\<lparr>rk_bus := d2\<rparr>)"
    using i2c_write_frame [of xfer "?c\<lparr>rk_bus := d\<rparr>" r "put_field b m v"] by auto
  obtain b3 d3 where 3: "rk818_i2c_read xfer (?c\<lparr>rk_bus := d2\<rparr>) r 1 = Some (0, Some b3, ?c\<lparr>rk_bus := d3\<rparr>)"
    using i2c_read_delivers [OF assms(1) ready_bus_lock(1) [OF assms(2)]] by fastforce
  show ?thesis using 1 2 3 ready_bus_lock(3) [OF assms(2)]
    by (auto simp: rk818_set_bits_def Let_def on_bus_locked on_bus_def simp del: One_nat_def)
qed

lemma clear_bits_on_bus:
  assumes "delivers xfer" "rk818_ready a c" shows "on_bus c (rk818_clear_bits xfer c r m)"
proof -
  let ?c = "c\<lparr>rk_io_lock := True\<rparr>"
  obtain b d where 1: "rk818_i2c_read xfer ?c r 1 = Some (0, Some b, ?c\<lparr>rk_bus := d\<rparr>)"
    using i2c_read_delivers [OF assms(1) ready_bus_lock(2) [OF assms(2)]] by blast
  obtain e d2 where 2: "rk818_i2c_write xfer (?c\<lparr>rk_bus := d\<rparr>) r 1 (b AND NOT m) = (e, ?c\<lparr>rk_bus := d2\<rparr>)"
    using i2c_write_frame [of xfer "?c\<lparr>rk_bus := d\<rparr>" r "b AND NOT m"] by auto
  show ?thesis using 1 2 ready_bus_lock(3) [OF assms(2)]
    by (auto simp: rk818_clear_bits_def Let_def on_bus_locked on_bus_def simp del: One_nat_def)
qed

lemmas chip_on_bus = reg_read_on_bus reg_write_on_bus set_bits_on_bus clear_bits_on_bus

lemma pre_init_on_bus:
  assumes "delivers xfer" "rk818_ready a c" shows "on_bus c (rk818_pre_init xfer c)"
proof -
  have ops: "on_bus c (rk818_reg_read xfer (c\<lparr>rk_bus := d\<rparr>) r)" "on_bus c (rk818_reg_write xfer (c\<lparr>rk_bus := d\<rparr>) r v)"
    "on_bus c (rk818_set_bits xfer (c\<lparr>rk_bus := d\<rparr>) r m v)" "on_bus c (rk818_clear_bits xfer (c\<lparr>rk_bus := d\<rparr>) r m)" for d r m v
    using chip_on_bus [where xfer = xfer and a = a and c = "c\<lparr>rk_bus := d\<rparr>"] assms by simp_all
  have first: "on_bus c (rk818_set_bits xfer c r m v)" for r m v using set_bits_on_bus [OF assms] .
  show ?thesis unfolding rk818_pre_init_def
    by (intro on_bus_bind first ops | simp split: if_split | rule conjI impI)+
qed

lemma irq_init_returns:
  assumes "delivers xfer" "rk_client c = Some a" "rk_chip_irq c = 0"
  shows "\<exists>r t c'. rk818_irq_init xfer env c g g = Some (r, t, c')"
proof (cases "g = 0")
  case True
  then show ?thesis by (simp add: rk818_irq_init_def)
next
  case False
  have rd: "\<exists>b d'. rk818_i2c_read xfer (c\<lparr>rk_bus := d\<rparr>) r 1 = Some (0, Some b, c\<lparr>rk_bus := d'\<rparr>)" for d r
    using i2c_read_delivers [OF assms(1), of "c\<lparr>rk_bus := d\<rparr>" a r] assms(2) by simp
  have wr: "\<exists>e d'. rk818_i2c_write xfer (c\<lparr>rk_bus := d\<rparr>) r 1 v = (e, c\<lparr>rk_bus := d'\<rparr>)" for d r v
    using i2c_write_frame [of xfer "c\<lparr>rk_bus := d\<rparr>" r v] by simp
  obtain b1 d1 where 1: "rk818_i2c_read xfer c RK818_INT_STS_REG1 1 = Some (0, Some b1, c\<lparr>rk_bus := d1\<rparr>)"
    using rd [of "rk_bus c" RK818_INT_STS_REG1] by auto
  obtain e2 d2 where 2: "rk818_i2c_write xfer (c\<lparr>rk_bus := d1\<rparr>) RK818_INT_STS_REG1 1 b1 = (e2, c\<lparr>rk_bus := d2\<rparr>)" using wr by blast
  obtain b3 d3 where 3: "rk818_i2c_read xfer (c\<lparr>rk_bus := d2\<rparr>) RK818_INT_STS_REG2 1 = Some (0, Some b3, c\<lparr>rk_bus := d3\<rparr>)" using rd by blast
  obtain e4 d4 where 4: "rk818_i2c_write xfer (c\<lparr>rk_bus := d3\<rparr>) RK818_INT_STS_REG2 1 b3 = (e4, c\<lparr>rk_bus := d4\<rparr>)" using wr by blast
  obtain b5 d5 where 5: "rk818_i2c_read xfer (c\<lparr>rk_bus := d4\<rparr>) RK818_RTC_STATUS_REG 1 = Some (0, Some b5, c\<lparr>rk_bus := d5\<rparr>)" using rd by blast
  obtain e6 d6 where 6: "rk818_i2c_write xfer (c\<lparr>rk_bus := d5\<rparr>) RK818_RTC_STATUS_REG 1 b5 = (e6, c\<lparr>rk_bus := d6\<rparr>)" using wr by blast
  show ?thesis using False assms(3) 1 2 3 4 5 6
    by (simp add: rk818_irq_init_def Let_def del: One_nat_def)
qed

end
