(* ===== verification/Rk818_Probe_Props.thy ===== *)
theory Rk818_Probe_Props
  imports Rk818_Probe
begin

text \<open>
  The probe of the RK818 driver: which regulators of the device tree it registers, and what
  becomes of its failures.
\<close>

lemma filter_sub: "filter (\<lambda>x. P x \<and> Q x) xs = filter Q xs \<longleftrightarrow> (\<forall>x \<in> set xs. Q x \<longrightarrow> P x)"
proof
  assume "filter (\<lambda>x. P x \<and> Q x) xs = filter Q xs"
  then have "set (filter (\<lambda>x. P x \<and> Q x) xs) = set (filter Q xs)" by simp
  then show "\<forall>x \<in> set xs. Q x \<longrightarrow> P x" by auto
next
  assume "\<forall>x \<in> set xs. Q x \<longrightarrow> P x"
  then show "filter (\<lambda>x. P x \<and> Q x) xs = filter Q xs" by (auto intro: filter_cong)
qed

subsection \<open>The loops\<close>

text \<open>
  What the kernel documents of matching: an entry for every name, with initial data and
  node exactly for the names found, and their number as result.
\<close>

definition matches_ok :: "int \<times> (init_data option \<times> nat option) list \<Rightarrow> bool" where
  "matches_ok m \<longleftrightarrow> length (snd m) = RK818_NUM_REGULATORS \<and> list_all (\<lambda>e. fst e = None \<longleftrightarrow> snd e = None) (snd m) \<and>
     fst m = int (length (filter (\<lambda>e. snd e \<noteq> None) (snd m)))"

definition found :: "(init_data option \<times> nat option) list \<Rightarrow> nat \<Rightarrow> bool" where
  "found ms i \<longleftrightarrow> snd (ms ! i) \<noteq> None"

lemma board_loop_ok:
  "\<forall>i \<in> set is. i < length ms \<Longrightarrow> list_all (\<lambda>e. fst e = None \<longleftrightarrow> snd e = None) ms \<Longrightarrow>
   \<exists>b'. board_loop ms is b = Some b' \<and> length (bo_rid b') = length (bo_rid b) \<and> length (bo_np b') = length (bo_np b) \<and>
     (\<forall>k < length (bo_rid b). bo_rid b' ! k = (if k \<in> set is \<and> found ms k then fst (ms ! k) else bo_rid b ! k))"
proof (induction "is" arbitrary: b)
  case Nil
  then show ?case by simp
next
  case (Cons i "is")
  have i: "i < length ms" "aref ms (int i) = Some (ms ! i)" using Cons.prems(1) by (simp_all add: aref_def)
  have e: "fst (ms ! i) = None \<longleftrightarrow> snd (ms ! i) = None" using Cons.prems(2) i(1) by (simp add: list_all_length)
  define b1 where "b1 = (if fst (ms ! i) = None \<or> snd (ms ! i) = None then b
      else b\<lparr>bo_rid := (bo_rid b)[i := fst (ms ! i)], bo_np := (bo_np b)[i := snd (ms ! i)]\<rparr>)"
  have l: "length (bo_rid b1) = length (bo_rid b)" "length (bo_np b1) = length (bo_np b)" by (simp_all add: b1_def)
  have v: "bo_rid b1 ! k = (if k = i \<and> found ms k then fst (ms ! k) else bo_rid b ! k)" if "k < length (bo_rid b)" for k
    using that e by (cases "k = i") (auto simp: b1_def found_def)
  obtain b' where "board_loop ms is b1 = Some b'" "length (bo_rid b') = length (bo_rid b)" "length (bo_np b') = length (bo_np b)"
    "\<forall>k < length (bo_rid b). bo_rid b' ! k = (if k \<in> set is \<and> found ms k then fst (ms ! k) else bo_rid b1 ! k)"
    using Cons.IH [of b1] Cons.prems l by auto
  then show ?case using v i(2) by (intro exI [of _ b']) (simp add: b1_def)
qed

lemma register_loop_ok:
  assumes "length (bo_rid b) = 14" "length (bo_np b) = 14"
  shows "\<forall>i \<in> set is. i < 14 \<Longrightarrow> \<exists>regs rdev'. register_loop ok b is rdev = Some (regs, rdev') \<and>
     map fst regs = filter (\<lambda>i. bo_rid b ! i \<noteq> None) is"
proof (induction "is" arbitrary: rdev)
  case Nil
  then show ?case by simp
next
  case (Cons i "is")
  then have i: "i < 14" by simp
  have a: "aref (bo_rid b) (int i) = Some (bo_rid b ! i)" "aref (bo_np b) (int i) = Some (bo_np b ! i)"
    "aref rk818_regulators (int i) = Some (rk818_regulators ! i)"
    using i assms by (simp_all add: aref_def)
  have IH: "\<exists>regs rdev'. register_loop ok b is rdev = Some (regs, rdev') \<and> map fst regs = filter (\<lambda>i. bo_rid b ! i \<noteq> None) is" for rdev
    using Cons.IH Cons.prems by simp
  show ?case
  proof (cases "bo_rid b ! i")
    case None
    then show ?thesis using IH a by simp
  next
    case (Some r)
    obtain regs rdev' where "register_loop ok b is (rdev[i := if ok i (r\<lparr>ri_supply := Some (case ri_name r of Some n \<Rightarrow> n
        | None \<Rightarrow> rd_name (rk818_regulators ! i))\<rparr>) then Rdev i else Err_rdev]) = Some (regs, rdev')"
      "map fst regs = filter (\<lambda>i. bo_rid b ! i \<noteq> None) is"
      using IH by blast
    then show ?thesis using Some a by (simp add: Let_def)
  qed
qed

subsection \<open>The board data\<close>

lemma count_bound: "matches_ok m \<Longrightarrow> 0 \<le> fst m \<and> fst m \<le> 14"
  using length_filter_le [of "\<lambda>e. snd e \<noteq> None" "snd m"] by (simp add: matches_ok_def)

lemma parse_ok:
  assumes "matches_ok (dt_match dt rk818_reg_matches)" "dt_regulators dt" "dt_alloc dt" "valid (dt_gpio dt 0)"
  shows "\<exists>b. rk818_parse_dt valid irq (Some dt) = Some (Some b) \<and> length (bo_rid b) = 14 \<and> length (bo_np b) = 14 \<and>
    bo_irq_gpio b = dt_gpio dt 0 \<and> bo_pmic_sleep_gpio b = dt_gpio dt 1 \<and>
    (\<forall>k < 14. bo_rid b ! k \<noteq> None \<longleftrightarrow> int k < fst (dt_match dt rk818_reg_matches) \<and> found (snd (dt_match dt rk818_reg_matches)) k)"
proof -
  obtain count ms where m: "dt_match dt rk818_reg_matches = (count, ms)" by fastforce
  have ok: "length ms = 14" "list_all (\<lambda>e. fst e = None \<longleftrightarrow> snd e = None) ms" "0 \<le> count" "count \<le> 14"
    using assms(1) count_bound [OF assms(1)] by (simp_all add: m matches_ok_def)
  let ?b = "\<lparr>bo_irq = 0, bo_irq_base = 0, bo_irq_gpio = 0, bo_rid = replicate RK818_NUM_REGULATORS None,
      bo_np = replicate RK818_NUM_REGULATORS None, bo_pmic_sleep_gpio = 0, bo_pmic_sleep = False, bo_pm_off = False\<rparr>"
  obtain b where b: "board_loop ms [0..<nat count] ?b = Some b" "length (bo_rid b) = 14" "length (bo_np b) = 14"
    "\<forall>k < 14. bo_rid b ! k = (if k \<in> set [0..<nat count] \<and> found ms k then fst (ms ! k) else bo_rid ?b ! k)"
  proof -
    have "\<forall>i \<in> set [0..<nat count]. i < length ms" using ok by auto
    moreover have "length (bo_rid ?b) = 14" "length (bo_np ?b) = 14" by (simp_all del: replicate.simps)
    ultimately show ?thesis using board_loop_ok [OF _ ok(2), of "[0..<nat count]" ?b] that by metis
  qed
  have "bo_rid b ! k \<noteq> None \<longleftrightarrow> int k < count \<and> found ms k" if "k < 14" for k
    using b(4) that ok(1,2) by (auto simp: found_def list_all_length simp del: replicate.simps)
  then show ?thesis
    using assms(2-4) ok(3,4) b(1-3)
    by (simp add: rk818_parse_dt_def m Let_def del: replicate.simps)
qed

text \<open>The probe up to the board data.\<close>

lemma rk818_probe_start:
  assumes "delivers xfer" "ps_dt ps \<noteq> None \<longrightarrow> ps_match ps" "ps_alloc ps"
  shows "\<exists>chip. rk_client chip = Some addr \<and> rk_chip_irq chip = 0 \<and> rk818_i2c_probe xfer ps env addr d =
    do { pdata \<leftarrow> (if ps_dt ps \<noteq> None then rk818_parse_dt (ps_gpio_valid ps) 0 (ps_dt ps) else None);
         pdata \<leftarrow> pdata; probe_rest xfer ps env chip pdata }"
proof -
  let ?c = "\<lparr>rk_client = Some addr, rk_bus = d, rk_io_lock = False, rk_irq_lock = False, rk_irq_num = 0,
          rk_chip_irq = 0, rk_irq_gpio = 0, rk_irq_mask = 0, rk_irq_domain = False, rk_irq_wake = False\<rparr>"
  have r: "rk818_ready addr ?c" by (simp add: rk818_ready_def)
  obtain v d1 where 1: "rk818_reg_read xfer ?c 0x2f = Some (v, ?c\<lparr>rk_bus := d1\<rparr>)"
    using reg_read_on_bus [OF assms(1) r, where r = "0x2f"] unfolding on_bus_def by blast
  have "rk818_ready addr (?c\<lparr>rk_bus := d1\<rparr>)" by (simp add: rk818_ready_def)
  then obtain w d2 where 2: "rk818_pre_init xfer (?c\<lparr>rk_bus := d1\<rparr>) = Some (w, ?c\<lparr>rk_bus := d2\<rparr>)"
    using pre_init_on_bus [OF assms(1), where a = addr and c = "?c\<lparr>rk_bus := d1\<rparr>"] unfolding on_bus_def by fastforce
  show ?thesis
    using assms(2,3) 1 2 by (intro exI [of _ "?c\<lparr>rk_bus := d2\<rparr>"]) (simp add: rk818_i2c_probe_def del: not_None_eq)
qed

subsection \<open>Properties\<close>

text \<open>C10: The probe registers exactly those regulators of the device tree whose place in the driver's
  table is below the number of regulators in the device tree: a tree that leaves one out
  loses others at the end of the table, although the probe succeeds, and only a tree that
  has the first ones of the table and no others gets all of its regulators. This holds on
  any bus that delivers a byte for a read, whatever else it answers.\<close>
theorem rk818_probe_registers:
  assumes "delivers xfer" "ps_dt ps = Some dt" "ps_match ps" "ps_alloc ps" "ps_rdev_alloc ps"
    and "dt_match dt rk818_reg_matches = (count, ms)" "matches_ok (count, ms)" "dt_regulators dt" "dt_alloc dt"
    and "ps_gpio_valid ps (dt_gpio dt 0)" "dt_gpio dt 1 = 0 \<or> 0 \<le> ps_gpio_request ps (dt_gpio dt 1)"
  shows "\<exists>dev. rk818_i2c_probe xfer ps env addr d = Some (0, Some dev) \<and>
    map fst (pv_regs dev) = filter (\<lambda>i. int i < count \<and> found ms i) [0..<14] \<and>
    (map fst (pv_regs dev) = filter (found ms) [0..<14] \<longleftrightarrow> (\<forall>i < 14. found ms i = (int i < count)))"
proof -
  obtain b where b: "rk818_parse_dt (ps_gpio_valid ps) 0 (Some dt) = Some (Some b)" "length (bo_rid b) = 14" "length (bo_np b) = 14"
    "bo_irq_gpio b = dt_gpio dt 0" "bo_pmic_sleep_gpio b = dt_gpio dt 1"
    "\<forall>k < 14. bo_rid b ! k \<noteq> None \<longleftrightarrow> int k < count \<and> found ms k"
    using parse_ok [of dt "ps_gpio_valid ps" 0] assms(6-10) by auto
  obtain regs rdev where r: "register_loop (ps_register ps) b [0..<14] (replicate 14 No_rdev) = Some (regs, rdev)"
    "map fst regs = filter (\<lambda>i. bo_rid b ! i \<noteq> None) [0..<14]"
    using register_loop_ok [OF b(2,3), of "[0..<14]" "ps_register ps" "replicate 14 No_rdev"]
    by (auto simp del: upt.simps replicate.simps not_None_eq)
  obtain chip where p: "rk_client chip = Some addr" "rk_chip_irq chip = 0" "rk818_i2c_probe xfer ps env addr d = probe_rest xfer ps env chip b"
    using rk818_probe_start [OF assms(1) _ assms(4), where addr = addr and env = env and d = d] assms(2,3) b(1) by auto
  obtain x t c' where i: "rk818_irq_init xfer env (chip\<lparr>rk_irq_gpio := bo_irq_gpio b\<rparr>) (bo_irq_gpio b) (bo_irq_gpio b) = Some (x, t, c')"
    using irq_init_returns [OF assms(1), of "chip\<lparr>rk_irq_gpio := bo_irq_gpio b\<rparr>" addr env "bo_irq_gpio b"] p(1,2) by auto
  have regs: "map fst regs = filter (\<lambda>i. int i < count \<and> found ms i) [0..<14]"
    unfolding r(2) using b(6) by (intro filter_cong) auto
  have n: "count = int (length (filter (found ms) [0..<14]))"
  proof -
    have "map (\<lambda>i. snd (ms ! i)) [0..<14] = map snd ms"
      using assms(7) by (intro nth_equalityI) (simp_all add: matches_ok_def)
    then have "length (filter (\<lambda>e. e \<noteq> None) (map snd ms)) = length (filter (found ms) [0..<14])"
      by (simp only: filter_map length_map o_def found_def [abs_def] flip: \<open>map (\<lambda>i. snd (ms ! i)) [0..<14] = map snd ms\<close>)
    then show ?thesis using assms(7) by (simp add: matches_ok_def filter_map o_def del: upt.simps)
  qed
  have "found ms i = (int i < count)" if "\<forall>i < 14. found ms i \<longrightarrow> int i < count" "i < 14" for i
  proof -
    have c: "count = int (card {i. i < 14 \<and> found ms i})"
      using n distinct_card [of "filter (found ms) [0..<14]"] by (simp del: upt.simps)
    have "{i. i < 14 \<and> found ms i} \<subseteq> {i. i < nat count}" using that(1) by auto
    then have "{i. i < 14 \<and> found ms i} = {i. i < nat count}" by (rule card_subset_eq [rotated]) (use c in auto)
    then show ?thesis using that by auto
  qed
  moreover have "map fst regs = filter (found ms) [0..<14] \<longleftrightarrow> (\<forall>i < 14. found ms i \<longrightarrow> int i < count)"
    unfolding regs by (auto simp: filter_sub simp del: upt.simps)
  ultimately have "map fst regs = filter (found ms) [0..<14] \<longleftrightarrow> (\<forall>i < 14. found ms i = (int i < count))" by blast
  moreover have "\<not> (bo_pmic_sleep_gpio b \<noteq> 0 \<and> ps_gpio_request ps (bo_pmic_sleep_gpio b) < 0)" using assms(11) b(5) by auto
  then have "rk818_i2c_probe xfer ps env addr d = Some (0, Some \<lparr>pv_chip = c', pv_sleep_gpio = bo_pmic_sleep_gpio b,
      pv_rdev = Some rdev, pv_regs = regs\<rparr>)"
    using assms(5) r(1) i by (simp add: p(3) probe_rest_def Let_def del: upt.simps replicate.simps de_Morgan_conj)
  ultimately show ?thesis using regs by (simp del: upt.simps)
qed

text \<open>A device tree that has only the last LDO, on a chip of plain memory.\<close>

definition ldo10_tree :: "int \<Rightarrow> rk818_dt" where
  "ldo10_tree sleep = \<lparr>dt_regulators = True, dt_match = (\<lambda>names. (1, map (\<lambda>n. if n = ''rk818_ldo10''
      then (Some \<lparr>ri_name = None, ri_supply = None\<rparr>, Some 7) else (None, None)) names)),
     dt_alloc = True, dt_gpio = (\<lambda>k. if k = 0 then 5 else sleep), dt_power_off = False\<rparr>"

definition ldo10_services :: "int \<Rightarrow> rk818_services" where
  "ldo10_services sleep = \<lparr>ps_match = True, ps_alloc = True, ps_dt = Some (ldo10_tree sleep), ps_gpio_valid = (\<lambda>g. 0 \<le> g),
     ps_gpio_request = (\<lambda>g. if 0 \<le> g then 0 else - EINVAL), ps_rdev_alloc = True, ps_register = (\<lambda>_ _. True)\<rparr>"

definition ldo10_irq :: irq_env where
  "ldo10_irq = \<lparr>ie_gpio_to_irq = (\<lambda>g. g + 100), ie_gpio_request = 0, ie_gpio_value = 1, ie_domain_ok = True, ie_request_irq = 0\<rparr>"

lemma ldo10_matches: "dt_match (ldo10_tree sl) rk818_reg_matches =
    (1, replicate 13 (None, None) @ [(Some \<lparr>ri_name = None, ri_supply = None\<rparr>, Some 7)])"
  by (simp add: ldo10_tree_def rk818_reg_matches_def eval_nat_numeral)

lemma mem_delivers: "delivers (\<lambda>d ms. (0, [0], d))"
  by (simp add: delivers_def)

theorem rk818_probe_registers_witness:
  "\<exists>dev. rk818_i2c_probe (\<lambda>d ms. (0, [0], d)) (ldo10_services 6) ldo10_irq 0x1c () = Some (0, Some dev) \<and> pv_regs dev = []"
proof -
  have "matches_ok (1, replicate 13 (None, None) @ [(Some \<lparr>ri_name = None, ri_supply = None\<rparr>, Some 7)])"
    by (simp add: matches_ok_def eval_nat_numeral)
  from rk818_probe_registers [OF mem_delivers _ _ _ _ ldo10_matches [of 6] this, of "ldo10_services 6" ldo10_irq "0x1c" "()"]
  show ?thesis by (auto simp: ldo10_services_def ldo10_tree_def found_def eval_nat_numeral)
qed

text \<open>Failures of the probe that are not reported or not survived: a pin for sleep that cannot be
  requested, for instance because the device tree names none, ends the probe with success
  and without any regulator; a device without a node, a failed allocation, a tree without
  regulators or with an invalid interrupt pin makes the driver use a pointer that is NULL or
  was never set. All this on any bus that delivers a byte for a read.\<close>
theorem rk818_probe_faults:
  assumes "delivers xfer"
  shows "(ps_dt ps = None \<or> (ps_match ps \<and> \<not> ps_alloc ps) \<longrightarrow> rk818_i2c_probe xfer ps env addr d = None) \<and>
    (ps_dt ps = Some dt \<and> ps_match ps \<and> (\<not> dt_regulators dt \<or> \<not> ps_gpio_valid ps (dt_gpio dt 0)) \<and>
       matches_ok (dt_match dt rk818_reg_matches) \<longrightarrow> rk818_i2c_probe xfer ps env addr d = None) \<and>
    (ps_dt ps = Some dt \<and> ps_match ps \<and> ps_alloc ps \<and> matches_ok (dt_match dt rk818_reg_matches) \<and> dt_regulators dt \<and> dt_alloc dt \<and>
       ps_gpio_valid ps (dt_gpio dt 0) \<and> dt_gpio dt 1 \<noteq> 0 \<and> ps_gpio_request ps (dt_gpio dt 1) < 0 \<longrightarrow>
       (\<exists>dev. rk818_i2c_probe xfer ps env addr d = Some (0, Some dev) \<and> pv_regs dev = [] \<and> pv_rdev dev = None))"
proof (intro conjI impI)
  show "rk818_i2c_probe xfer ps env addr d = None" if "ps_dt ps = None \<or> (ps_match ps \<and> \<not> ps_alloc ps)"
  proof (cases "ps_alloc ps")
    case True
    then show ?thesis using rk818_probe_start [OF assms _ True, where addr = addr and env = env and d = d] that by auto
  qed (use that in \<open>auto simp: rk818_i2c_probe_def\<close>)
next
  assume h: "ps_dt ps = Some dt \<and> ps_match ps \<and> (\<not> dt_regulators dt \<or> \<not> ps_gpio_valid ps (dt_gpio dt 0)) \<and>
    matches_ok (dt_match dt rk818_reg_matches)"
  show "rk818_i2c_probe xfer ps env addr d = None"
  proof (cases "ps_alloc ps")
    case True
    obtain chip where p: "rk818_i2c_probe xfer ps env addr d =
        do { pdata \<leftarrow> rk818_parse_dt (ps_gpio_valid ps) 0 (Some dt); pdata \<leftarrow> pdata; probe_rest xfer ps env chip pdata }"
      using rk818_probe_start [OF assms _ True, where addr = addr and env = env and d = d] h by auto
    have "rk818_parse_dt (ps_gpio_valid ps) 0 (Some dt) \<in> {None, Some None}"
      using h by (auto simp: rk818_parse_dt_def Let_def split: prod.splits bind_splits)
    then show ?thesis by (auto simp: p)
  qed (use h in \<open>simp add: rk818_i2c_probe_def\<close>)
next
  assume h: "ps_dt ps = Some dt \<and> ps_match ps \<and> ps_alloc ps \<and> matches_ok (dt_match dt rk818_reg_matches) \<and> dt_regulators dt \<and>
    dt_alloc dt \<and> ps_gpio_valid ps (dt_gpio dt 0) \<and> dt_gpio dt 1 \<noteq> 0 \<and> ps_gpio_request ps (dt_gpio dt 1) < 0"
  obtain chip where p: "rk818_i2c_probe xfer ps env addr d =
      do { pdata \<leftarrow> rk818_parse_dt (ps_gpio_valid ps) 0 (Some dt); pdata \<leftarrow> pdata; probe_rest xfer ps env chip pdata }"
    using rk818_probe_start [OF assms, where addr = addr and env = env and d = d and ps = ps] h by auto
  obtain b where "rk818_parse_dt (ps_gpio_valid ps) 0 (Some dt) = Some (Some b)" "bo_pmic_sleep_gpio b = dt_gpio dt 1"
    using parse_ok [of dt "ps_gpio_valid ps" 0] h by blast
  then show "\<exists>dev. rk818_i2c_probe xfer ps env addr d = Some (0, Some dev) \<and> pv_regs dev = [] \<and> pv_rdev dev = None"
    using h by (simp add: p probe_rest_def Let_def)
qed

theorem rk818_probe_faults_witness:
  "\<exists>dev. rk818_i2c_probe (\<lambda>d ms. (0, [0], d)) (ldo10_services (- 2)) ldo10_irq 0x1c () = Some (0, Some dev) \<and> pv_regs dev = [] \<and> pv_rdev dev = None"
proof -
  have "matches_ok (dt_match (ldo10_tree (- 2)) rk818_reg_matches)"
    unfolding ldo10_matches by (simp add: matches_ok_def eval_nat_numeral)
  then show ?thesis
    using rk818_probe_faults [OF mem_delivers, of "ldo10_services (- 2)" ldo10_irq "0x1c" "()" "ldo10_tree (- 2)"]
    by (simp add: ldo10_services_def ldo10_tree_def)
qed

end
