(* ===== verification/Bytes.thy ===== *)
theory Bytes
  imports Prelude
begin

text \<open>
  Bytes in memory, shared by the wire formats: little-endian words (the CPUs are
  little-endian), network byte order, and reads and writes of a memory object given as
  the list of its bytes, which are undefined (None) outside the object. C's \<^verbatim>\<open>int\<close> is
  modelled by integers; a result outside its range is undefined.
\<close>

subsection \<open>Integers\<close>

definition c_int :: "int \<Rightarrow> int option" where
  "c_int x = (if - (2 ^ 31) \<le> x \<and> x < 2 ^ 31 then Some x else None)"

lemma c_int_in [simp]: "- 2147483648 \<le> x \<Longrightarrow> x < 2147483648 \<Longrightarrow> c_int x = Some x"
  by (simp add: c_int_def)

subsection \<open>Words and bytes\<close>

definition le16 :: "u16 \<Rightarrow> u8 list" where
  "le16 w = [ucast w, ucast (drop_bit 8 w)]"

definition of_le16 :: "u8 \<Rightarrow> u8 \<Rightarrow> u16" where
  "of_le16 a b = ucast a OR push_bit 8 (ucast b)"

definition le32 :: "u32 \<Rightarrow> u8 list" where
  "le32 w = [ucast w, ucast (drop_bit 8 w), ucast (drop_bit 16 w), ucast (drop_bit 24 w)]"

definition of_le32 :: "u8 \<Rightarrow> u8 \<Rightarrow> u8 \<Rightarrow> u8 \<Rightarrow> u32" where
  "of_le32 a b c d = ucast a OR push_bit 8 (ucast b) OR push_bit 16 (ucast c) OR push_bit 24 (ucast d)"

lemma bit_of_le32: "bit (of_le32 a b c d) n \<longleftrightarrow>
    (if n < 8 then bit a n else if n < 16 then bit b (n - 8) else if n < 24 then bit c (n - 16)
     else n < 32 \<and> bit d (n - 24))"
  by (auto simp: of_le32_def bit_simps dest: bit_imp_le_length)

lemma of_le32_le32: "of_le32 (ucast w) (ucast (drop_bit 8 w)) (ucast (drop_bit 16 w)) (ucast (drop_bit 24 w)) = w"
  by (rule bit_word_eqI) (auto simp: bit_of_le32 bit_simps not_less)

lemma le32_of_le32: "le32 (of_le32 a b c d) = [a, b, c, d]"
  by (auto simp: le32_def bit_of_le32 bit_simps intro!: bit_word_eqI)

lemma length_le32 [simp]: "length (le32 w) = 4"
  by (simp add: le32_def)

lemma bit_of_le16: "bit (of_le16 a b) n \<longleftrightarrow> (if n < 8 then bit a n else n < 16 \<and> bit b (n - 8))"
  by (auto simp: of_le16_def bit_simps dest: bit_imp_le_length)

lemma of_le16_le16: "of_le16 (ucast w) (ucast (drop_bit 8 w)) = w"
  by (rule bit_word_eqI) (auto simp: bit_of_le16 bit_simps not_less)

lemma length_le16 [simp]: "length (le16 w) = 2"
  by (simp add: le16_def)

text \<open>\<^verbatim>\<open>htons\<close> and \<^verbatim>\<open>ntohs\<close> swap the two bytes.\<close>

definition htons :: "u16 \<Rightarrow> u16" where
  "htons w = of_le16 (ucast (drop_bit 8 w)) (ucast w)"

abbreviation (input) ntohs :: "u16 \<Rightarrow> u16" where "ntohs \<equiv> htons"

lemma htons_twice [simp]: "htons (htons w) = w"
  by (rule bit_word_eqI) (auto simp: htons_def bit_of_le16 bit_simps)

lemma le16_htons: "le16 (htons w) = [ucast (drop_bit 8 w), ucast w]"
  by (auto simp: le16_def htons_def bit_of_le16 bit_simps intro!: bit_word_eqI)

lemma uint_u16: "n < 65536 \<Longrightarrow> uint (of_nat n :: u16) = int n"
  by (simp add: unsigned_of_nat take_bit_nat_eq_self)

lemma unat_u32: "n < 4294967296 \<Longrightarrow> unat (of_nat n :: u32) = n"
  by (simp add: unsigned_of_nat take_bit_nat_eq_self)

lemma sint_u32: "n < 2147483648 \<Longrightarrow> sint (of_nat n :: u32) = int n"
  by (simp add: signed_of_nat signed_take_bit_int_eq_self)

lemma uint_ucast_u16: "n < 65536 \<Longrightarrow> uint (ucast (of_nat n :: u32) :: u16) = int n"
  by (simp add: unsigned_ucast_eq unsigned_of_nat take_bit_nat_eq_self)

subsection \<open>Reading and writing an object\<close>

definition slice :: "u8 list \<Rightarrow> nat \<Rightarrow> nat \<Rightarrow> u8 list option" where
  "slice b i n = (if i + n \<le> length b then Some (take n (drop i b)) else None)"

definition put_bytes :: "u8 list \<Rightarrow> nat \<Rightarrow> u8 list \<Rightarrow> u8 list option" where
  "put_bytes b i xs = (if i + length xs \<le> length b then Some (take i b @ xs @ drop (i + length xs) b) else None)"

definition rd16 :: "u8 list \<Rightarrow> nat \<Rightarrow> u16 option" where
  "rd16 b i = (if i + 2 \<le> length b then Some (of_le16 (b ! i) (b ! (i + 1))) else None)"

definition rd32 :: "u8 list \<Rightarrow> nat \<Rightarrow> u32 option" where
  "rd32 b i = (if i + 4 \<le> length b then Some (of_le32 (b ! i) (b ! (i + 1)) (b ! (i + 2)) (b ! (i + 3))) else None)"

lemma slice_app: "length xs = i \<Longrightarrow> length ys = n \<Longrightarrow> slice (xs @ ys @ zs) i n = Some ys"
  by (auto simp: slice_def)

lemma rd16_app: "length xs = i \<Longrightarrow> rd16 (xs @ le16 w @ zs) i = Some w"
  by (auto simp: rd16_def le16_def nth_append of_le16_le16)

lemma rd32_app: "length xs = i \<Longrightarrow> rd32 (xs @ le32 w @ zs) i = Some w"
  by (auto simp: rd32_def le32_def nth_append of_le32_le32)

lemma put_bytes_ok: "i + length xs \<le> length b \<Longrightarrow> put_bytes b i xs = Some (take i b @ xs @ drop (i + length xs) b)"
  by (simp add: put_bytes_def)

lemma length_put_bytes: "put_bytes b i xs = Some b' \<Longrightarrow> length b' = length b"
  by (auto simp: put_bytes_def split: if_splits)

end
