(* ===== verification/Rockusb_Wire.thy ===== *)
theory Rockusb_Wire
  imports Bytes
begin

text \<open>
  The bytes of the Rockusb protocol (\<^verbatim>\<open>rk3399/debug/usb/cmd_rockusb.h\<close>): the 31-byte command
  wrapper the host sends, the 13-byte status wrapper it gets back, the big-endian fields
  of the command block, and the string descriptors. The CPU is little-endian.
\<close>

subsection \<open>Byte order\<close>

definition cpu_to_be32 :: "u32 \<Rightarrow> u32" where
  "cpu_to_be32 w = of_le32 (ucast (drop_bit 24 w)) (ucast (drop_bit 16 w)) (ucast (drop_bit 8 w)) (ucast w)"

text \<open>\<^verbatim>\<open>get_unaligned_be16\<close> and \<^verbatim>\<open>get_unaligned_be32\<close> at an index of the command block.\<close>

definition get_unaligned_be16 :: "u8 list \<Rightarrow> nat \<Rightarrow> u16" where
  "get_unaligned_be16 b i = push_bit 8 (ucast (b ! i)) OR ucast (b ! (i + 1))"

definition get_unaligned_be32 :: "u8 list \<Rightarrow> nat \<Rightarrow> u32" where
  "get_unaligned_be32 b i = of_le32 (b ! (i + 3)) (b ! (i + 2)) (b ! (i + 1)) (b ! i)"

lemma cpu_to_be32_twice [simp]: "cpu_to_be32 (cpu_to_be32 w) = w"
  by (rule bit_word_eqI) (auto simp: cpu_to_be32_def bit_of_le32 bit_simps)

subsection \<open>Command and status wrappers\<close>

record fsg_bulk_cb_wrap =
  cb_Signature :: u32
  cb_Tag :: u32
  cb_DataTransferLength :: u32
  cb_Flags :: u8
  cb_Lun :: u8
  cb_Length :: u8
  cb_CDB :: "u8 list"

record bulk_cs_wrap =
  cs_Signature :: u32
  cs_Tag :: u32
  cs_Residue :: u32
  cs_Status :: u8

abbreviation (input) USB_BULK_CB_SIG :: u32 where "USB_BULK_CB_SIG \<equiv> 0x43425355"
abbreviation (input) USB_BULK_CS_SIG :: u32 where "USB_BULK_CS_SIG \<equiv> 0x53425355"
abbreviation (input) CSW_GOOD :: u8 where "CSW_GOOD \<equiv> 0"
abbreviation (input) CSW_FAIL :: u8 where "CSW_FAIL \<equiv> 1"

text \<open>
  The \<^verbatim>\<open>memcpy\<close> of \<^verbatim>\<open>sizeof(usbcmd.cbw)\<close>, 32 with the padding of the structure, bytes from the
  receive buffer into the structure: None when the buffer is shorter than that.
\<close>

definition cbw_of_bytes :: "u8 list \<Rightarrow> fsg_bulk_cb_wrap option" where
  "cbw_of_bytes b =
     (if length b < 32 then None
      else Some \<lparr>cb_Signature = of_le32 (b ! 0) (b ! 1) (b ! 2) (b ! 3),
                 cb_Tag = of_le32 (b ! 4) (b ! 5) (b ! 6) (b ! 7),
                 cb_DataTransferLength = of_le32 (b ! 8) (b ! 9) (b ! 10) (b ! 11),
                 cb_Flags = b ! 12, cb_Lun = b ! 13, cb_Length = b ! 14,
                 cb_CDB = take 16 (drop 15 b)\<rparr>)"

text \<open>The host's side of the same wire format, and the thirteen bytes the device sends.\<close>

definition cbw_bytes :: "fsg_bulk_cb_wrap \<Rightarrow> u8 list" where
  "cbw_bytes c = le32 (cb_Signature c) @ le32 (cb_Tag c) @ le32 (cb_DataTransferLength c) @
     [cb_Flags c, cb_Lun c, cb_Length c] @ cb_CDB c"

definition csw_bytes :: "bulk_cs_wrap \<Rightarrow> u8 list" where
  "csw_bytes c = le32 (cs_Signature c) @ le32 (cs_Tag c) @ le32 (cs_Residue c) @ [cs_Status c]"

lemma length_csw_bytes [simp]: "length (csw_bytes c) = 13"
  by (simp add: csw_bytes_def)

lemma length_cbw_bytes: "length (cbw_bytes c) = 15 + length (cb_CDB c)"
  by (simp add: cbw_bytes_def)

lemma cbw_roundtrip:
  assumes "length (cb_CDB c) = 16" "rest \<noteq> []"
  shows "cbw_of_bytes (cbw_bytes c @ rest) = Some c"
proof -
  have "cbw_bytes c @ rest = le32 (cb_Signature c) @ le32 (cb_Tag c) @ le32 (cb_DataTransferLength c) @
     [cb_Flags c, cb_Lun c, cb_Length c] @ cb_CDB c @ rest"
    by (simp add: cbw_bytes_def)
  then show ?thesis using assms
    by (simp add: cbw_of_bytes_def length_cbw_bytes le32_def of_le32_le32 [simplified])
qed

subsection \<open>String descriptors\<close>

record usb_string_descriptor =
  sd_bLength :: nat
  sd_bDescriptorType :: u8
  sd_wData :: "u16 list"

abbreviation (input) USB_DT_STRING :: u8 where "USB_DT_STRING \<equiv> 3"

text \<open>\<^verbatim>\<open>str2wide\<close>: one 16-bit unit per character up to the terminating zero.\<close>

fun str2wide :: "u8 list \<Rightarrow> u16 list" where
  "str2wide [] = []"
| "str2wide (c # cs) = (if c = 0 then [] else ucast c # str2wide cs)"

definition rkusb_string :: "u8 list \<Rightarrow> usb_string_descriptor" where
  "rkusb_string s = \<lparr>sd_bLength = 2 + 2 * length s, sd_bDescriptorType = USB_DT_STRING, sd_wData = str2wide s\<rparr>"

lemma str2wide_text: "0 \<notin> set s \<Longrightarrow> str2wide s = map ucast s"
  by (induction s) auto

end
