(* ===== verification/Rockusb.thy ===== *)
theory Rockusb
  imports Rockusb_Wire
begin

text \<open>
  The Rockusb gadget (\<^verbatim>\<open>rk3399/debug/usb/cmd_rockusb.c\<close>, in its DWC3 configuration for the
  RK3399): the interface structure, the USB callbacks, the command handlers, the data
  stages and the main loop.

  The storage, USB controller and boot services the code calls are not part of the
  repository. What they are asked to do is recorded in the history \<open>us_log\<close>; what they
  answer is a function of the history (the record \<open>rk_ext\<close>), so a media may well return
  what was written to it. None is undefined behaviour: a NULL buffer, an access past the
  end of a transfer buffer, a division by zero, or a loop that never ends.
\<close>

subsection \<open>State\<close>

datatype rk_status = ST_IDLE | ST_CMD | ST_RXDATA | ST_TXDATA | ST_CSW | ST_RXDATA_PREPARE | ST_TXDATA_PREPARE

datatype gb_state = SEND_IN_PROGRESS | SEND_FINISHED_OK | SEND_FINISHED_ERROR | RECV_READY | RECV_OK | RECV_ERROR

text \<open>\<^verbatim>\<open>struct dwc3_giveback_data\<close>; the buffer is the index of one of the two, None for NULL.\<close>

record giveback =
  gb_status :: gb_state
  gb_actual :: u32
  gb_buf :: "nat option"

record cmd_rockusb_preread =
  pre_buffer :: nat
  pre_lba :: u32
  pre_blocks :: u32

datatype rk_event =
    Usb_write "u8 list" \<comment> \<open>bytes given to the bulk-in endpoint\<close>
  | Usb_arm u32 nat \<comment> \<open>a bulk-out read of that many bytes into that receive buffer\<close>
  | Write_lba u32 "u8 list" u32 u32
  | Write_pba u32 "u8 list" u32
  | Write_vendor_sys u32 u32 "u8 list"
  | Write_vendor u16 "u8 list"
  | Read_lba u32 u32
  | Read_pba u32 u32
  | Erase_block u32 u16 int
  | Secure_boot_unlock "u8 list"
  | Secure_boot_lock_loader
  | Set_loader_flag u32
  | Low_format_enable
  | Low_format_check
  | Reset_cpu

record rockusb =
  us_status :: rk_status
  us_configured :: bool
  us_rx_buffer :: "u8 list list"
  us_tx_buffer :: "u8 list list"
  us_rxbuf_num :: nat
  us_txbuf_num :: nat
  us_d_size :: u32
  us_d_bytes :: u32
  us_u_size :: u32
  us_u_bytes :: u32
  us_lba :: u32
  us_cmnd :: u32
  us_imgwr_mode :: u32
  us_transfer_size :: u32
  us_reset_flag :: u32
  us_rx_giveback :: giveback
  us_tx_giveback :: giveback
  us_csw :: bulk_cs_wrap
  us_cbw :: fsg_bulk_cb_wrap
  us_pre_read :: cmd_rockusb_preread
  us_log :: "rk_event list"

record rk_ext =
  FW_StorageGetValid :: "rk_event list \<Rightarrow> int"
  FW_GetTotleBlk :: "rk_event list \<Rightarrow> u32"
  FW_GetCurEraseBlock :: "rk_event list \<Rightarrow> u32"
  StorageGetCapacity :: "rk_event list \<Rightarrow> u32"
  SecureBootLock :: "rk_event list \<Rightarrow> u32"
  StorageReadId :: "rk_event list \<Rightarrow> u8 list"
  bootrom_chip_version :: "rk_event list \<Rightarrow> u32 list"
  StorageReadFlashInfo :: "rk_event list \<Rightarrow> u8 list"
  StorageEraseBlock :: "rk_event list \<Rightarrow> u32 \<Rightarrow> u16 \<Rightarrow> int \<Rightarrow> int"
  StorageReadPba :: "rk_event list \<Rightarrow> u32 \<Rightarrow> u32 \<Rightarrow> u8 list"
  StorageReadLba :: "rk_event list \<Rightarrow> u32 \<Rightarrow> u32 \<Rightarrow> u8 list"
  StorageVendorSysDataLoad :: "rk_event list \<Rightarrow> u32 \<Rightarrow> u32 \<Rightarrow> u8 list"
  SecureBootUnlockCheck :: "rk_event list \<Rightarrow> u8 list"
  vendor_storage_read :: "rk_event list \<Rightarrow> u16 \<Rightarrow> u32 \<Rightarrow> (nat \<times> u8 list) option"

definition emit :: "rk_event \<Rightarrow> rockusb \<Rightarrow> rockusb" where
  "emit e s = s\<lparr>us_log := us_log s @ [e]\<rparr>"

text \<open>Stores into a buffer stay within it.\<close>

definition poke :: "u8 list \<Rightarrow> nat \<Rightarrow> u8 list \<Rightarrow> u8 list option" where
  "poke b off xs = (if off + length xs \<le> length b then Some (take off b @ xs @ drop (off + length xs) b) else None)"

definition peek :: "u8 list \<Rightarrow> nat \<Rightarrow> nat \<Rightarrow> u8 list option" where
  "peek b off n = (if off + n \<le> length b then Some (take n (drop off b)) else None)"

definition fill_tx :: "nat \<Rightarrow> u8 list \<Rightarrow> rockusb \<Rightarrow> rockusb option" where
  "fill_tx off xs s =
     do { b \<leftarrow> poke (us_tx_buffer s ! us_txbuf_num s) off xs;
          Some (s\<lparr>us_tx_buffer := (us_tx_buffer s)[us_txbuf_num s := b]\<rparr>) }"

abbreviation (input) RKUSB_BUFFER_BLOCK_MAX :: u32 where "RKUSB_BUFFER_BLOCK_MAX \<equiv> 0x80"
abbreviation (input) SYS_LOADER_ERR_FLAG :: u32 where "SYS_LOADER_ERR_FLAG \<equiv> 0x1888AAFF"
abbreviation (input) OFFSET_IN_CDB_INDEX :: nat where "OFFSET_IN_CDB_INDEX \<equiv> 2"
abbreviation (input) NSECTORS_IN_CDB_INDEX :: nat where "NSECTORS_IN_CDB_INDEX \<equiv> 7"
abbreviation (input) K_FW_READ_10 :: u32 where "K_FW_READ_10 \<equiv> 0x04"
abbreviation (input) K_FW_WRITE_10 :: u32 where "K_FW_WRITE_10 \<equiv> 0x05"
abbreviation (input) K_FW_LBA_READ_10 :: u32 where "K_FW_LBA_READ_10 \<equiv> 0x14"
abbreviation (input) K_FW_LBA_WRITE_10 :: u32 where "K_FW_LBA_WRITE_10 \<equiv> 0x15"

subsection \<open>Endpoints and callbacks\<close>

definition rkusb_write_bulk_ep :: "u32 \<Rightarrow> rockusb \<Rightarrow> rockusb option" where
  "rkusb_write_bulk_ep nLen s =
     do { xs \<leftarrow> peek (us_tx_buffer s ! us_txbuf_num s) 0 (unat nLen);
          Some (emit (Usb_write xs)
            (s\<lparr>us_tx_giveback := \<lparr>gb_status = SEND_IN_PROGRESS, gb_actual = 0, gb_buf = None\<rparr>\<rparr>)) }"

definition rkusb_read_bulk_ep :: "u32 \<Rightarrow> rockusb \<Rightarrow> rockusb" where
  "rkusb_read_bulk_ep nLen s =
     emit (Usb_arm nLen (us_rxbuf_num s))
       (s\<lparr>us_rx_giveback := \<lparr>gb_status = RECV_READY, gb_actual = 0, gb_buf = None\<rparr>\<rparr>)"

definition next_txbuf :: "rockusb \<Rightarrow> rockusb" where
  "next_txbuf s = s\<lparr>us_txbuf_num := (us_txbuf_num s + 1) mod 2\<rparr>"

definition next_rxbuf :: "rockusb \<Rightarrow> rockusb" where
  "next_rxbuf s = s\<lparr>us_rxbuf_num := (us_rxbuf_num s + 1) mod 2\<rparr>"

definition tx_idle :: "rockusb \<Rightarrow> rockusb" where
  "tx_idle s = s\<lparr>us_txbuf_num := 0,
     us_tx_giveback := (us_tx_giveback s)\<lparr>gb_status := SEND_FINISHED_OK, gb_actual := 0\<rparr>\<rparr>"

definition rx_command :: "rockusb \<Rightarrow> rockusb" where
  "rx_command s = next_rxbuf (rkusb_read_bulk_ep 31 (s\<lparr>us_rxbuf_num := 0\<rparr>))"

definition rkusb_event_handler_for_dwc3 :: "int \<Rightarrow> rockusb \<Rightarrow> rockusb" where
  "rkusb_event_handler_for_dwc3 nEvent s =
     (let event = nEvent AND 0xffff; param = drop_bit 16 nEvent in
      if event = 1 \<or> event = 5 then s\<lparr>us_configured := False\<rparr>
      else if event = 2 then rx_command (tx_idle (s\<lparr>us_configured := True\<rparr>))
      else if event = 3 then s\<lparr>us_status := ST_IDLE\<rparr>
      else if event = 4 then
        (let s = s\<lparr>us_status := ST_IDLE\<rparr>;
             s = (if param = 0 then tx_idle s else s);
             s = (if param = 0x1 then rx_command s else s)
         in if param = 0x10 then rx_command (tx_idle s) else s)
      else s)"

definition dwc3_rx_handler :: "int \<Rightarrow> u32 \<Rightarrow> nat \<Rightarrow> rockusb \<Rightarrow> rockusb" where
  "dwc3_rx_handler status actual buf s =
     (if status \<noteq> 0 then s\<lparr>us_rx_giveback := (us_rx_giveback s)\<lparr>gb_status := RECV_ERROR\<rparr>\<rparr>
      else s\<lparr>us_rx_giveback := \<lparr>gb_status = RECV_OK, gb_actual = actual, gb_buf = Some buf\<rparr>\<rparr>)"

definition dwc3_tx_handler :: "int \<Rightarrow> u32 \<Rightarrow> nat \<Rightarrow> rockusb \<Rightarrow> rockusb" where
  "dwc3_tx_handler status actual buf s =
     (if status \<noteq> 0 then s\<lparr>us_tx_giveback := (us_tx_giveback s)\<lparr>gb_status := SEND_FINISHED_ERROR\<rparr>\<rparr>
      else s\<lparr>us_tx_giveback := \<lparr>gb_status = SEND_FINISHED_OK, gb_actual = actual, gb_buf = Some buf\<rparr>\<rparr>)"

subsection \<open>Command handlers\<close>

definition set_csw :: "u32 \<Rightarrow> u8 \<Rightarrow> rockusb \<Rightarrow> rockusb" where
  "set_csw residue st s = s\<lparr>us_csw := (us_csw s)\<lparr>cs_Residue := cpu_to_be32 residue, cs_Status := st\<rparr>\<rparr>"

abbreviation (input) cdb :: "rockusb \<Rightarrow> nat \<Rightarrow> u8" where "cdb s i \<equiv> cb_CDB (us_cbw s) ! i"

abbreviation (input) data_length :: "rockusb \<Rightarrow> u32" where
  "data_length s \<equiv> cb_DataTransferLength (us_cbw s)"

definition FW_TestUnitReady :: "rk_ext \<Rightarrow> rockusb \<Rightarrow> rockusb" where
  "FW_TestUnitReady ext s =
     (let h = us_log s in
      (if FW_StorageGetValid ext h = 0 then
         set_csw (push_bit 16 (FW_GetTotleBlk ext h) OR FW_GetCurEraseBlock ext h) CSW_FAIL s
       else if cdb s 1 = 0xFD then
         emit Low_format_enable (set_csw (push_bit 16 (FW_GetTotleBlk ext h) OR 0) CSW_FAIL s)
       else if cdb s 1 = 0xFA then
         (set_csw (data_length s) CSW_GOOD s)\<lparr>us_reset_flag := 0x10\<rparr>
       else if cdb s 1 = 0xF9 then set_csw (StorageGetCapacity ext h) CSW_GOOD s
       else if SecureBootLock ext h \<noteq> 0 then set_csw (data_length s) CSW_FAIL s
       else set_csw 6 CSW_GOOD s)\<lparr>us_status := ST_CSW\<rparr>)"

text \<open>The commands that answer with a few bytes.\<close>

definition reply :: "u8 list \<Rightarrow> u32 \<Rightarrow> rockusb \<Rightarrow> rockusb option" where
  "reply xs n s =
     do { s \<leftarrow> fill_tx 0 xs s;
          Some ((set_csw (data_length s) CSW_GOOD (s\<lparr>us_transfer_size := n\<rparr>))\<lparr>us_status := ST_TXDATA\<rparr>) }"

definition FW_ReadID :: "rk_ext \<Rightarrow> rockusb \<Rightarrow> rockusb option" where
  "FW_ReadID ext s = reply (StorageReadId ext (us_log s)) 5 s"

definition FW_LowFormatSysDisk :: "rockusb \<Rightarrow> rockusb" where
  "FW_LowFormatSysDisk s = (set_csw (data_length s) CSW_GOOD s)\<lparr>us_status := ST_CSW\<rparr>"

text \<open>Four words of chip information; the RK3399 build overwrites the first.\<close>

definition FW_GetChipVer :: "rk_ext \<Rightarrow> rockusb \<Rightarrow> rockusb option" where
  "FW_GetChipVer ext s =
     (let chip_info = (take 4 (bootrom_chip_version ext (us_log s) @ replicate 4 0))[0 := 0x33333043]
      in reply (concat (map le32 chip_info)) 16 s)"

definition FW_TestBadBlock :: "rockusb \<Rightarrow> rockusb option" where
  "FW_TestBadBlock s = reply (replicate 64 0) 64 s"

definition FW_Read10 :: "rockusb \<Rightarrow> rockusb" where
  "FW_Read10 s = s\<lparr>us_u_size := ucast (get_unaligned_be16 (cb_CDB (us_cbw s)) NSECTORS_IN_CDB_INDEX) * 528,
     us_u_bytes := 0, us_lba := get_unaligned_be32 (cb_CDB (us_cbw s)) OFFSET_IN_CDB_INDEX,
     us_status := ST_TXDATA_PREPARE\<rparr>"

text \<open>The prefetched blocks are dropped unless they lie apart from the blocks to be written.\<close>

definition drop_preread :: "u32 \<Rightarrow> rockusb \<Rightarrow> rockusb" where
  "drop_preread rxdata_blocks s =
     (let p = us_pre_read s in
      if \<not> (us_lba s + rxdata_blocks < pre_lba p \<or> us_lba s > pre_lba p + pre_blocks p)
      then s\<lparr>us_pre_read := p\<lparr>pre_blocks := 0, pre_lba := 0\<rparr>\<rparr> else s)"

definition FW_Write10 :: "rockusb \<Rightarrow> rockusb" where
  "FW_Write10 s =
     (let s = s\<lparr>us_d_size := ucast (get_unaligned_be16 (cb_CDB (us_cbw s)) NSECTORS_IN_CDB_INDEX) * 528,
                us_d_bytes := 0, us_lba := get_unaligned_be32 (cb_CDB (us_cbw s)) OFFSET_IN_CDB_INDEX\<rparr>;
          s = drop_preread (us_d_size s div 528) s
      in s\<lparr>us_rx_giveback := (us_rx_giveback s)\<lparr>gb_actual := 0\<rparr>, us_status := ST_RXDATA_PREPARE\<rparr>)"

definition erase :: "int \<Rightarrow> rk_ext \<Rightarrow> rockusb \<Rightarrow> rockusb" where
  "erase force ext s =
     (let blk = get_unaligned_be32 (cb_CDB (us_cbw s)) OFFSET_IN_CDB_INDEX;
          n = get_unaligned_be16 (cb_CDB (us_cbw s)) NSECTORS_IN_CDB_INDEX;
          locked = SecureBootLock ext (us_log s) \<noteq> 0;
          status = (if locked then 0 else StorageEraseBlock ext (us_log s) blk n force);
          s = (if locked then s else emit (Erase_block blk n force) s)
      in (set_csw (data_length s) (if status = 0 then 0 else 1) s)\<lparr>us_status := ST_CSW\<rparr>)"

definition FW_Erase10 :: "rk_ext \<Rightarrow> rockusb \<Rightarrow> rockusb" where
  "FW_Erase10 ext s = erase 0 ext s"

definition FW_Erase10Force :: "rk_ext \<Rightarrow> rockusb \<Rightarrow> rockusb" where
  "FW_Erase10Force ext s = erase 1 ext s"

definition FW_LBARead10 :: "rockusb \<Rightarrow> rockusb" where
  "FW_LBARead10 s = s\<lparr>us_u_size := ucast (get_unaligned_be16 (cb_CDB (us_cbw s)) NSECTORS_IN_CDB_INDEX) * 512,
     us_u_bytes := 0, us_lba := get_unaligned_be32 (cb_CDB (us_cbw s)) 2,
     us_status := ST_TXDATA_PREPARE\<rparr>"

definition FW_LBAWrite10 :: "rockusb \<Rightarrow> rockusb" where
  "FW_LBAWrite10 s =
     (let s = s\<lparr>us_d_size := ucast (get_unaligned_be16 (cb_CDB (us_cbw s)) NSECTORS_IN_CDB_INDEX) * 512,
                us_d_bytes := 0, us_lba := get_unaligned_be32 (cb_CDB (us_cbw s)) OFFSET_IN_CDB_INDEX,
                us_imgwr_mode := ucast (cdb s 1)\<rparr>;
          s = drop_preread (us_d_size s div 512) s
      in s\<lparr>us_rx_giveback := (us_rx_giveback s)\<lparr>gb_actual := 0\<rparr>, us_status := ST_RXDATA_PREPARE\<rparr>)"

definition FW_GetFlashInfo :: "rk_ext \<Rightarrow> rockusb \<Rightarrow> rockusb option" where
  "FW_GetFlashInfo ext s = reply (StorageReadFlashInfo ext (us_log s)) 11 s"

definition FW_LowFormat :: "rockusb \<Rightarrow> rockusb" where
  "FW_LowFormat s = emit Low_format_enable ((set_csw (data_length s) CSW_GOOD s)\<lparr>us_status := ST_CSW\<rparr>)"

definition FW_SetResetFlag :: "rockusb \<Rightarrow> rockusb" where
  "FW_SetResetFlag s = (set_csw (data_length s) CSW_GOOD (s\<lparr>us_reset_flag := 1\<rparr>))\<lparr>us_status := ST_CSW\<rparr>"

definition FW_Reset :: "rockusb \<Rightarrow> rockusb" where
  "FW_Reset s =
     (let s = s\<lparr>us_reset_flag := (if cdb s 1 \<noteq> 0 then ucast (cdb s 1) else 0xff)\<rparr>
      in (set_csw (data_length s) CSW_GOOD s)\<lparr>us_status := ST_CSW\<rparr>)"

subsection \<open>Status and dispatch\<close>

text \<open>
  The status wrapper goes out, and the next command is awaited, only when the previous
  transfer has finished; otherwise -EBUSY and nothing changes.
\<close>

definition rkusb_send_csw :: "rockusb \<Rightarrow> (int \<times> rockusb) option" where
  "rkusb_send_csw s =
     (if gb_status (us_tx_giveback s) \<noteq> SEND_FINISHED_OK then Some (- EBUSY, s)
      else do { (let s = s\<lparr>us_csw := (us_csw s)\<lparr>cs_Signature := USB_BULK_CS_SIG, cs_Tag := cb_Tag (us_cbw s)\<rparr>\<rparr> in
                 do { s \<leftarrow> fill_tx 0 (csw_bytes (us_csw s)) s;
                      s \<leftarrow> rkusb_write_bulk_ep 13 s;
                      (let s = next_rxbuf (rkusb_read_bulk_ep 31 (next_txbuf s))
                       in Some (0, s\<lparr>us_status := ST_IDLE\<rparr>)) }) })"

text \<open>An unknown command is reported on the console only.\<close>

definition do_rockusb_cmd :: "rk_ext \<Rightarrow> rockusb \<Rightarrow> rockusb option" where
  "do_rockusb_cmd ext s =
     do { i \<leftarrow> gb_buf (us_rx_giveback s);
          cbw \<leftarrow> cbw_of_bytes (us_rx_buffer s ! i);
          (let s = s\<lparr>us_cbw := cbw, us_cmnd := ucast (cb_CDB cbw ! 0)\<rparr>; c = cb_CDB cbw ! 0 in
           if c = 0x00 then Some (FW_TestUnitReady ext s)
           else if c = 0x01 then FW_ReadID ext s
           else if c = 0x03 then FW_TestBadBlock s
           else if c = 0x04 then Some (FW_Read10 s)
           else if c = 0x05 then Some (FW_Write10 s)
           else if c = 0x06 then Some (FW_Erase10 ext s)
           else if c = 0x0b then Some (FW_Erase10Force ext s)
           else if c = 0x14 then Some (FW_LBARead10 s)
           else if c = 0x15 then Some (FW_LBAWrite10 s)
           else if c = 0x16 then Some (FW_LowFormatSysDisk s)
           else if c = 0x1A then FW_GetFlashInfo ext s
           else if c = 0x1B then FW_GetChipVer ext s
           else if c = 0x1C then Some (FW_LowFormat s)
           else if c = 0x1E then Some (FW_SetResetFlag s)
           else if c = 0xff then Some (FW_Reset s)
           else Some s) }"

end
