(* ===== verification/Rockusb_Data.thy ===== *)
theory Rockusb_Data
  imports Rockusb
begin

text \<open>
  The data stages of the Rockusb gadget (\<^verbatim>\<open>cmd_rockusb.c\<close>: \<^verbatim>\<open>rkusb_handle_datarx\<close>,
  \<^verbatim>\<open>rkusb_handle_datatx\<close>, \<^verbatim>\<open>rkusb_handle_response\<close>), the reset check, the start-up and the
  main loop of \<^verbatim>\<open>do_rockusb\<close>.
\<close>

subsection \<open>Data from the host\<close>

definition rx_block_length :: "rockusb \<Rightarrow> u32" where
  "rx_block_length s = (if us_cmnd s = K_FW_WRITE_10 then 528 else 512)"

definition le16_at :: "u8 list \<Rightarrow> nat \<Rightarrow> u16" where
  "le16_at b i = ucast (b ! i) OR push_bit 8 (ucast (b ! (i + 1)))"

text \<open>
  Writing received blocks to the media the command and the address select. The results of
  the storage calls are only printed.
\<close>

definition write_media :: "rk_ext \<Rightarrow> u8 list \<Rightarrow> u32 \<Rightarrow> rockusb \<Rightarrow> rockusb option" where
  "write_media ext buf rxdata_blocks s =
     do { data \<leftarrow> peek buf 0 (unat (rxdata_blocks * rx_block_length s));
          (if us_cmnd s = K_FW_WRITE_10 then
             (let s = emit (Set_loader_flag SYS_LOADER_ERR_FLAG) s in
              Some (if SecureBootLock ext (us_log s) = 0
                    then (emit (Write_pba (us_lba s) data rxdata_blocks) s)\<lparr>us_lba := us_lba s + rxdata_blocks\<rparr>
                    else s))
           else if us_cmnd s = K_FW_LBA_WRITE_10 then
             (if us_lba s \<ge> 0xFFFFFF00 then
                Some ((emit (Write_vendor_sys (us_lba s - 0xFFFFFF00) rxdata_blocks data) s)
                        \<lparr>us_lba := us_lba s + rxdata_blocks\<rparr>)
              else if us_lba s = 0xFFFFF000 then Some (emit (Secure_boot_unlock data) s)
              else if us_lba s AND 0xFFFF0000 = 0xFFF00000 then
                do { v \<leftarrow> peek buf 8 (unat (le16_at buf 4));
                     Some ((emit (Write_vendor (le16_at buf 0) v) s)\<lparr>us_lba := us_lba s + rxdata_blocks\<rparr>) }
              else if SecureBootLock ext (us_log s) = 0 then
                Some ((emit (Write_lba (us_lba s) data rxdata_blocks (us_imgwr_mode s)) s)
                        \<lparr>us_lba := us_lba s + rxdata_blocks\<rparr>)
              else Some s)
           else Some s) }"

definition rkusb_handle_datarx :: "rk_ext \<Rightarrow> rockusb \<Rightarrow> rockusb option" where
  "rkusb_handle_datarx ext s =
     (let block_length = rx_block_length s;
          actual = gb_actual (us_rx_giveback s);
          rxdata_buf = (if actual \<noteq> 0 then gb_buf (us_rx_giveback s) else None);
          rxdata_blocks = (if actual \<noteq> 0 then actual div block_length else 0);
          s = (if actual \<noteq> 0 then s\<lparr>us_d_bytes := us_d_bytes s + actual\<rparr> else s)
      in do { s \<leftarrow> (if us_d_bytes s < us_d_size s then
                      (let transfer_length = us_d_size s - us_d_bytes s;
                           rx_blocks = transfer_length div block_length;
                           rx_blocks = (if rx_blocks > RKUSB_BUFFER_BLOCK_MAX then RKUSB_BUFFER_BLOCK_MAX else rx_blocks);
                           s = next_rxbuf (rkusb_read_bulk_ep (rx_blocks * block_length) s)
                       in Some (s\<lparr>us_status := ST_RXDATA\<rparr>))
                    else map_option snd (rkusb_send_csw (set_csw (data_length s) CSW_GOOD s)));
              (if rxdata_blocks \<noteq> 0 then
                 do { i \<leftarrow> rxdata_buf; write_media ext (us_rx_buffer s ! i) rxdata_blocks s }
               else Some s) })"

subsection \<open>Data to the host\<close>

definition tx_block_length :: "rockusb \<Rightarrow> u32 option" where
  "tx_block_length s =
     (if us_cmnd s = K_FW_READ_10 then Some 528
      else if us_cmnd s = K_FW_LBA_READ_10 then Some 512
      else None)"

text \<open>
  Reading blocks from the media the command and the address select into the prefetch
  buffer, which is the transmit buffer in turn, cleared first.
\<close>

definition read_media :: "rk_ext \<Rightarrow> u32 \<Rightarrow> u32 \<Rightarrow> rockusb \<Rightarrow> rockusb option" where
  "read_media ext blocks block_length s =
     do { s \<leftarrow> fill_tx 0 (replicate (unat (blocks * block_length)) 0) s;
          (let h = us_log s; lba = pre_lba (us_pre_read s) in
           if us_cmnd s = K_FW_READ_10 then
             fill_tx 0 (StorageReadPba ext h lba blocks) (emit (Read_pba lba blocks) s)
           else if us_cmnd s = K_FW_LBA_READ_10 then
             (if us_lba s \<ge> 0xFFFFFF00 then fill_tx 0 (StorageVendorSysDataLoad ext h (lba - 0xFFFFFF00) blocks) s
              else if us_lba s = 0xFFFFF000 then fill_tx 0 (SecureBootUnlockCheck ext h) s
              else if us_lba s AND 0xFFFF0000 = 0xFFF00000 then
                (let req_id = ucast (us_lba s AND 0xFFFF) :: u16 in
                 case vendor_storage_read ext h req_id (us_u_size s - 8) of
                   None \<Rightarrow> Some s
                 | Some (iRet, xs) \<Rightarrow>
                     do { s \<leftarrow> fill_tx 8 xs s;
                          s \<leftarrow> fill_tx 0 [ucast req_id, ucast (drop_bit 8 req_id)] s;
                          fill_tx 4 [word_of_nat iRet, ucast (drop_bit 8 (word_of_nat iRet :: u32))] s })
              else fill_tx 0 (StorageReadLba ext h lba blocks) (emit (Read_lba lba blocks) s))
           else Some s) }"

text \<open>One pass from the label \<^verbatim>\<open>start\<close> to the \<^verbatim>\<open>goto\<close>.\<close>

definition datatx_send :: "u32 \<Rightarrow> u32 \<Rightarrow> rockusb \<Rightarrow> rockusb option" where
  "datatx_send txdata_size tx_blocks s =
     (let p = us_pre_read s in
      if tx_blocks \<noteq> 0 \<and> pre_blocks p \<ge> tx_blocks \<and> pre_lba p = us_lba s then
        do { s \<leftarrow> rkusb_write_bulk_ep txdata_size
                (s\<lparr>us_u_bytes := us_u_bytes s + txdata_size, us_lba := us_lba s + tx_blocks,
                   us_pre_read := p\<lparr>pre_blocks := pre_blocks p - tx_blocks\<rparr>\<rparr>);
             Some (next_txbuf s) }
      else Some s)"

definition datatx_prefetch :: "rk_ext \<Rightarrow> u32 \<Rightarrow> u32 \<Rightarrow> rockusb \<Rightarrow> rockusb option" where
  "datatx_prefetch ext tx_blocks block_length s =
     (if us_u_size s = us_u_bytes s then
        Some (s\<lparr>us_pre_read := (us_pre_read s)\<lparr>pre_lba := 0, pre_blocks := 0\<rparr>\<rparr>)
      else if us_u_bytes s = 0 \<or> tx_blocks = RKUSB_BUFFER_BLOCK_MAX then
        (let s = s\<lparr>us_pre_read := \<lparr>pre_buffer = us_txbuf_num s, pre_lba = us_lba s, pre_blocks = tx_blocks\<rparr>\<rparr>
         in if tx_blocks \<noteq> 0 then read_media ext tx_blocks block_length s else Some s)
      else Some s)"

definition datatx_pass :: "rk_ext \<Rightarrow> rockusb \<Rightarrow> rockusb option" where
  "datatx_pass ext s =
     do { block_length \<leftarrow> tx_block_length s;
          (let txdata_size = us_u_size s - us_u_bytes s;
               tx_blocks = txdata_size div block_length;
               (tx_blocks, txdata_size) =
                 (if tx_blocks \<ge> RKUSB_BUFFER_BLOCK_MAX
                  then (RKUSB_BUFFER_BLOCK_MAX, RKUSB_BUFFER_BLOCK_MAX * block_length)
                  else (tx_blocks, txdata_size))
           in do { s \<leftarrow> datatx_send txdata_size tx_blocks s;
                   datatx_prefetch ext tx_blocks block_length s }) }"

partial_function (option) datatx_loop :: "rk_ext \<Rightarrow> rockusb \<Rightarrow> rockusb option" where
  "datatx_loop ext s =
     do { s \<leftarrow> datatx_pass ext s;
          (if us_u_bytes s = 0 then datatx_loop ext s else Some s) }"

definition rkusb_handle_datatx :: "rk_ext \<Rightarrow> rockusb \<Rightarrow> rockusb option" where
  "rkusb_handle_datatx ext s =
     do { s \<leftarrow> datatx_loop ext s;
          Some (if us_u_size s = us_u_bytes s
                then (set_csw (data_length s) CSW_GOOD s)\<lparr>us_status := ST_CSW\<rparr> else s) }"

definition rkusb_handle_response :: "rk_ext \<Rightarrow> rockusb \<Rightarrow> rockusb option" where
  "rkusb_handle_response ext s =
     (case us_status s of
        ST_TXDATA \<Rightarrow>
          do { s \<leftarrow> rkusb_write_bulk_ep (us_transfer_size s) s;
               Some ((set_csw (data_length s) CSW_GOOD (next_txbuf s))\<lparr>us_status := ST_CSW\<rparr>) }
      | ST_RXDATA \<Rightarrow>
          if gb_status (us_rx_giveback s) = RECV_OK then rkusb_handle_datarx ext s else Some s
      | ST_RXDATA_PREPARE \<Rightarrow> rkusb_handle_datarx ext s
      | ST_TXDATA_PREPARE \<Rightarrow>
          if us_u_bytes s = 0 \<or> gb_status (us_tx_giveback s) = SEND_FINISHED_OK
          then rkusb_handle_datatx ext s else Some s
      | _ \<Rightarrow> Some s)"

subsection \<open>Reset, time-out, start-up\<close>

text \<open>The Boolean says that the CPU was reset, which does not return.\<close>

definition rkusb_reset_check :: "u32 \<Rightarrow> rockusb \<Rightarrow> bool \<times> rockusb" where
  "rkusb_reset_check loader_reboot s =
     (let s0 = s\<lparr>us_reset_flag := 0\<rparr> in
      if us_reset_flag s = 0x03 then (True, emit Reset_cpu (emit (Set_loader_flag 0xEF08A53C) s0))
      else if us_reset_flag s = 0x10 then (False, emit Secure_boot_lock_loader s0)
      else if us_reset_flag s = 0xFF then (True, emit Reset_cpu s0)
      else if us_reset_flag s = 0x01 then (True, emit Reset_cpu (emit (Set_loader_flag loader_reboot) s0))
      else (False, s))"

definition rkusb_lowformat_check :: "rockusb \<Rightarrow> rockusb" where
  "rkusb_lowformat_check s = emit Low_format_check s"

text \<open>The time-out: the result and the new base time, from the bus voltage and the timers.\<close>

definition rkusb_timeout_check :: "bool \<Rightarrow> bool \<Rightarrow> (nat \<Rightarrow> nat) \<Rightarrow> nat \<Rightarrow> nat \<Rightarrow> rockusb \<Rightarrow> int \<times> nat" where
  "rkusb_timeout_check flag vbus get_timer ticks TimeOutBase s =
     (if flag then
        (if vbus then (if \<not> us_configured s \<and> get_timer TimeOutBase > 10 * 1000 then (1, TimeOutBase)
                       else (0, TimeOutBase))
         else (0, ticks))
      else (0, TimeOutBase))"

text \<open>Start address of the two receive and the two transmit buffers in the boot buffer.\<close>

definition init_buffers :: "nat \<Rightarrow> nat \<Rightarrow> nat list \<times> nat list" where
  "init_buffers rk_boot_buf_addr boot_buffer_size =
     (let quarter = boot_buffer_size div 4; half = boot_buffer_size div 2; tx0 = rk_boot_buf_addr + half in
      ([rk_boot_buf_addr, rk_boot_buf_addr + quarter], [tx0, tx0 + quarter]))"

text \<open>
  The interface structure after its \<^verbatim>\<open>memset\<close>; the contents of the buffers are whatever the
  boot buffer held, and the two transfer states are those of the value 0.
\<close>

definition rockusb_init :: "gb_state \<Rightarrow> u8 list list \<Rightarrow> u8 list list \<Rightarrow> rk_event list \<Rightarrow> rockusb" where
  "rockusb_init st0 rx tx h =
     \<lparr>us_status = ST_IDLE, us_configured = False, us_rx_buffer = rx, us_tx_buffer = tx,
      us_rxbuf_num = 0, us_txbuf_num = 0, us_d_size = 0, us_d_bytes = 0, us_u_size = 0, us_u_bytes = 0,
      us_lba = 0, us_cmnd = 0, us_imgwr_mode = 0, us_transfer_size = 0, us_reset_flag = 0,
      us_rx_giveback = \<lparr>gb_status = st0, gb_actual = 0, gb_buf = None\<rparr>,
      us_tx_giveback = \<lparr>gb_status = st0, gb_actual = 0, gb_buf = None\<rparr>,
      us_csw = \<lparr>cs_Signature = 0, cs_Tag = 0, cs_Residue = 0, cs_Status = 0\<rparr>,
      us_cbw = \<lparr>cb_Signature = 0, cb_Tag = 0, cb_DataTransferLength = 0, cb_Flags = 0, cb_Lun = 0,
                cb_Length = 0, cb_CDB = replicate 16 0\<rparr>,
      us_pre_read = \<lparr>pre_buffer = 0, pre_lba = 0, pre_blocks = 0\<rparr>, us_log = h\<rparr>"

subsection \<open>The main loop\<close>

text \<open>
  The interrupts one call of \<^verbatim>\<open>dwc3_uboot_handle_interrupt\<close> serves: a finished receive, whose
  data the controller has stored in the buffer, a finished send, a device event.
\<close>

datatype rk_irq = Rx_done int u32 nat "u8 list" | Tx_done int u32 nat | Device_event int

fun serve_irq :: "rk_irq \<Rightarrow> rockusb \<Rightarrow> rockusb option" where
  "serve_irq (Rx_done status actual i xs) s =
     do { b \<leftarrow> poke (us_rx_buffer s ! i) 0 xs;
          Some (dwc3_rx_handler status actual i (s\<lparr>us_rx_buffer := (us_rx_buffer s)[i := b]\<rparr>)) }"
| "serve_irq (Tx_done status actual i) s = Some (dwc3_tx_handler status actual i s)"
| "serve_irq (Device_event e) s = Some (rkusb_event_handler_for_dwc3 e s)"

fun serve_irqs :: "rk_irq list \<Rightarrow> rockusb \<Rightarrow> rockusb option" where
  "serve_irqs [] s = Some s"
| "serve_irqs (i # is) s = do { s \<leftarrow> serve_irq i s; serve_irqs is s }"

definition response_status :: "rk_status \<Rightarrow> bool" where
  "response_status st \<longleftrightarrow> st \<in> {ST_RXDATA, ST_TXDATA, ST_RXDATA_PREPARE, ST_TXDATA_PREPARE}"

definition loop_work :: "rk_ext \<Rightarrow> rockusb \<Rightarrow> rockusb option" where
  "loop_work ext s =
     do { s \<leftarrow> (if us_status s = ST_IDLE \<and> gb_actual (us_rx_giveback s) > 0
                then do_rockusb_cmd ext (s\<lparr>us_status := ST_CMD\<rparr>) else Some s);
          s \<leftarrow> (if response_status (us_status s) then rkusb_handle_response ext s else Some s);
          (if us_status s = ST_CSW then map_option snd (rkusb_send_csw s) else Some s) }"

definition loop_body :: "rk_ext \<Rightarrow> u32 \<Rightarrow> rk_irq list \<Rightarrow> rockusb \<Rightarrow> (bool \<times> rockusb) option" where
  "loop_body ext loader_reboot irqs s =
     do { s \<leftarrow> serve_irqs irqs s;
          s \<leftarrow> loop_work ext s;
          (let (reset, s) = rkusb_reset_check loader_reboot s in
           Some (reset, if reset then s else rkusb_lowformat_check s)) }"

text \<open>The rounds of \<^verbatim>\<open>while (1)\<close> the interrupts given drive, stopped by a reset.\<close>

fun do_rockusb :: "rk_ext \<Rightarrow> u32 \<Rightarrow> rk_irq list list \<Rightarrow> rockusb \<Rightarrow> (bool \<times> rockusb) option" where
  "do_rockusb ext lr [] s = Some (False, s)"
| "do_rockusb ext lr (irqs # rounds) s =
     do { (reset, s) \<leftarrow> loop_body ext lr irqs s;
          (if reset then Some (True, s) else do_rockusb ext lr rounds s) }"

end
