(* ===== verification/Rockusb_Read.thy ===== *)
theory Rockusb_Read
  imports Rockusb_Data
begin

text \<open>
  The upload path of the Rockusb gadget: an LBA read command, from the command wrapper to
  the status wrapper, delivers exactly the sectors asked for, once and in order, however
  many chunks they take and although the chunks are prefetched.
\<close>

subsection \<open>Bytes on the wire\<close>

fun usb_out :: "rk_event list \<Rightarrow> u8 list list" where
  "usb_out [] = []"
| "usb_out (Usb_write xs # es) = xs # usb_out es"
| "usb_out (_ # es) = usb_out es"

lemma usb_out_append [simp]: "usb_out (xs @ ys) = usb_out xs @ usb_out ys"
  by (induction xs rule: usb_out.induct) simp_all

subsection \<open>The media\<close>

definition sectors :: "(nat \<Rightarrow> u8 list) \<Rightarrow> nat \<Rightarrow> nat \<Rightarrow> u8 list" where
  "sectors media a n = concat (map media [a..<a + n])"

text \<open>A media that holds a sector of 512 bytes at every address below the special ones.\<close>

definition media_ok :: "rk_ext \<Rightarrow> (nat \<Rightarrow> u8 list) \<Rightarrow> bool" where
  "media_ok ext media \<longleftrightarrow> (\<forall>a. length (media a) = 512) \<and>
     (\<forall>h l n. unat l < 0xFFF00000 \<and> unat n \<le> 128 \<longrightarrow> StorageReadLba ext h l n = sectors media (unat l) (unat n))"

lemma length_sectors: "media_ok ext media \<Longrightarrow> length (sectors media a n) = 512 * n"
  by (induction n) (simp_all add: sectors_def media_ok_def)

lemma sectors_zero [simp]: "sectors media a 0 = []"
  by (simp add: sectors_def)

lemma sectors_add: "sectors media a (m + n) = sectors media a m @ sectors media (a + m) n"
  using upt_add_eq_append [of a "a + m" n] by (simp add: sectors_def add.assoc)

lemma take_sectors:
  assumes "media_ok ext media" "k \<le> n"
  shows "take (512 * k) (sectors media a n) = sectors media a k"
proof -
  have "sectors media a n = sectors media a k @ sectors media (a + k) (n - k)"
    using sectors_add [of media a k "n - k"] assms(2) by simp
  then show ?thesis using length_sectors [OF assms(1)] by simp
qed

subsection \<open>Buffers\<close>

definition tx_buffers_ok :: "rockusb \<Rightarrow> bool" where
  "tx_buffers_ok s \<longleftrightarrow> us_txbuf_num s < 2 \<and> length (us_tx_buffer s) = 2 \<and>
     (\<forall>b \<in> set (us_tx_buffer s). 65536 \<le> length b)"

lemma tx_buffer_length: "tx_buffers_ok s \<Longrightarrow> 65536 \<le> length (us_tx_buffer s ! us_txbuf_num s)"
  by (simp add: tx_buffers_ok_def)

lemma poke_take: "poke b 0 xs = Some b' \<Longrightarrow> take (length xs) b' = xs \<and> length b' = length b"
  by (auto simp: poke_def split: if_splits)

lemma fill_tx_ok:
  assumes "tx_buffers_ok s" "length xs \<le> 65536"
  shows "\<exists>B. fill_tx 0 xs s = Some (s\<lparr>us_tx_buffer := B\<rparr>) \<and> tx_buffers_ok (s\<lparr>us_tx_buffer := B\<rparr>) \<and>
    take (length xs) (B ! us_txbuf_num s) = xs"
proof -
  let ?b = "us_tx_buffer s ! us_txbuf_num s"
  have l: "length xs \<le> length ?b" using tx_buffer_length [OF assms(1)] assms(2) by simp
  then obtain b' where b': "poke ?b 0 xs = Some b'" by (simp add: poke_def)
  note t = poke_take [OF b']
  have "tx_buffers_ok (s\<lparr>us_tx_buffer := (us_tx_buffer s)[us_txbuf_num s := b']\<rparr>)"
    using assms(1) t tx_buffer_length [OF assms(1)]
    by (auto simp: tx_buffers_ok_def dest!: set_update_subset_insert [THEN subsetD])
  moreover have "us_txbuf_num s < length (us_tx_buffer s)" using assms(1) by (simp add: tx_buffers_ok_def)
  ultimately show ?thesis using b' t by (auto simp: fill_tx_def)
qed

lemma write_bulk_ok:
  assumes "tx_buffers_ok s" "unat n \<le> 65536"
  shows "rkusb_write_bulk_ep n s = Some (emit (Usb_write (take (unat n) (us_tx_buffer s ! us_txbuf_num s)))
    (s\<lparr>us_tx_giveback := \<lparr>gb_status = SEND_IN_PROGRESS, gb_actual = 0, gb_buf = None\<rparr>\<rparr>))"
  using tx_buffer_length [OF assms(1)] assms(2) by (simp add: rkusb_write_bulk_ep_def peek_def)

lemma tx_ok_emit [simp]: "tx_buffers_ok (emit e s) = tx_buffers_ok s"
  by (simp add: tx_buffers_ok_def emit_def)

lemma tx_ok_next [simp]: "tx_buffers_ok s \<Longrightarrow> tx_buffers_ok (next_txbuf s)"
  by (simp add: tx_buffers_ok_def next_txbuf_def)

subsection \<open>Word arithmetic of the transfer\<close>

lemma word_512_minus: "m \<le> n \<Longrightarrow> (word_of_nat (512 * n) :: u32) - word_of_nat (512 * m) = word_of_nat (512 * (n - m))"
  by (simp add: of_nat_diff right_diff_distrib)

lemma unat_small: "m < 2 ^ 32 \<Longrightarrow> unat (word_of_nat m :: u32) = m"
  by (simp add: unsigned_of_nat take_bit_nat_eq_self)

lemma word_512_div: "512 * m < 2 ^ 32 \<Longrightarrow> (word_of_nat (512 * m) :: u32) div 512 = word_of_nat m"
proof -
  assume m: "512 * m < 2 ^ 32"
  have "unat ((word_of_nat (512 * m) :: u32) div 512) = unat (word_of_nat (512 * m) :: u32) div unat (512 :: u32)"
    by (rule unat_div)
  also have "\<dots> = m" using m by (simp only: unat_small) simp
  also have "\<dots> = unat (word_of_nat m :: u32)" using m by (simp add: unat_small)
  finally show ?thesis by (simp only: word_unat_eq_iff)
qed

lemma word_ge_128: "m < 2 ^ 32 \<Longrightarrow> (0x80 :: u32) \<le> word_of_nat m \<longleftrightarrow> 128 \<le> m"
  by (simp add: word_le_nat_alt unat_small)

lemma word_eq_nat: "m < 2 ^ 32 \<Longrightarrow> k < 2 ^ 32 \<Longrightarrow> (word_of_nat m :: u32) = word_of_nat k \<longleftrightarrow> m = k"
  by (metis unat_small)

lemma word_0_nat: "m < 2 ^ 32 \<Longrightarrow> (word_of_nat m :: u32) = 0 \<longleftrightarrow> m = 0"
  using word_eq_nat [of m 0] by simp

subsection \<open>One pass of the upload\<close>

text \<open>\<open>m\<close> of the \<open>n\<close> sectors from \<open>l0\<close> have been sent.\<close>

definition reading :: "nat \<Rightarrow> nat \<Rightarrow> nat \<Rightarrow> rockusb \<Rightarrow> bool" where
  "reading l0 n m s \<longleftrightarrow> us_cmnd s = 0x14 \<and> us_u_size s = word_of_nat (512 * n) \<and>
     us_u_bytes s = word_of_nat (512 * m) \<and> us_lba s = word_of_nat (l0 + m) \<and> tx_buffers_ok s \<and>
     m \<le> n \<and> n < 65536 \<and> l0 + n \<le> 0xFFF00000"

definition prefetched :: "(nat \<Rightarrow> u8 list) \<Rightarrow> nat \<Rightarrow> rockusb \<Rightarrow> bool" where
  "prefetched media k s \<longleftrightarrow> pre_lba (us_pre_read s) = us_lba s \<and> pre_blocks (us_pre_read s) = word_of_nat k \<and>
     take (512 * k) (us_tx_buffer s ! us_txbuf_num s) = sectors media (unat (us_lba s)) k"

lemma reading_lba: "reading l0 n m s \<Longrightarrow> m < n \<Longrightarrow>
    unat (us_lba s) = l0 + m \<and> unat (us_lba s) < 0xFFF00000 \<and> \<not> 0xFFFFFF00 \<le> us_lba s \<and>
    us_lba s \<noteq> 0xFFFFF000 \<and> us_lba s AND 0xFFFF0000 \<noteq> 0xFFF00000"
proof -
  assume r: "reading l0 n m s" and m: "m < n"
  then have l: "us_lba s = word_of_nat (l0 + m)" "l0 + m < 0xFFF00000" by (simp_all add: reading_def)
  then have u: "unat (us_lba s) = l0 + m" by (simp only: l(1)) (rule unat_small, simp)
  have "us_lba s AND 0xFFFF0000 \<le> us_lba s" by (rule word_and_le2)
  then have "us_lba s AND 0xFFFF0000 \<noteq> 0xFFF00000" using u l(2) by (auto simp: word_le_nat_alt)
  then show ?thesis using u l(2) by (auto simp: word_le_nat_alt)
qed

lemma read_media_ok:
  assumes "media_ok ext media" "reading l0 n m s" "m < n" "k \<le> 128" "pre_lba (us_pre_read s) = us_lba s"
  shows "\<exists>B L. read_media ext (word_of_nat k) 512 s = Some (s\<lparr>us_tx_buffer := B, us_log := L\<rparr>) \<and>
    usb_out L = usb_out (us_log s) \<and> tx_buffers_ok (s\<lparr>us_tx_buffer := B\<rparr>) \<and>
    take (512 * k) (B ! us_txbuf_num s) = sectors media (unat (us_lba s)) k"
proof -
  note l = reading_lba [OF assms(2,3)]
  have k: "unat (word_of_nat k * 512 :: u32) = 512 * k"
    using assms(4) by (simp add: unat_word_ariths unat_small)
  have t: "tx_buffers_ok s" and c: "us_cmnd s = 0x14" using assms(2) by (simp_all add: reading_def)
  have z: "length (replicate (512 * k) 0 :: u8 list) \<le> 65536" using assms(4) by simp
  obtain B1 where B1: "fill_tx 0 (replicate (512 * k) 0) s = Some (s\<lparr>us_tx_buffer := B1\<rparr>)"
    "tx_buffers_ok (s\<lparr>us_tx_buffer := B1\<rparr>)"
    using fill_tx_ok [OF t z] by blast
  let ?s1 = "emit (Read_lba (us_lba s) (word_of_nat k)) (s\<lparr>us_tx_buffer := B1\<rparr>)"
  have d: "StorageReadLba ext (us_log s) (us_lba s) (word_of_nat k) = sectors media (unat (us_lba s)) k"
    using assms(1,4) l by (simp add: media_ok_def unat_small)
  have len: "length (sectors media (unat (us_lba s)) k) = 512 * k" by (rule length_sectors [OF assms(1)])
  have "tx_buffers_ok ?s1" using B1(2) by simp
  then obtain B where B: "fill_tx 0 (sectors media (unat (us_lba s)) k) ?s1 = Some (?s1\<lparr>us_tx_buffer := B\<rparr>)"
    "tx_buffers_ok (?s1\<lparr>us_tx_buffer := B\<rparr>)"
    "take (512 * k) (B ! us_txbuf_num s) = sectors media (unat (us_lba s)) k"
    using fill_tx_ok [of ?s1 "sectors media (unat (us_lba s)) k"] len assms(4) by (auto simp: emit_def)
  have "read_media ext (word_of_nat k) 512 s = Some (s\<lparr>us_tx_buffer := B, us_log := us_log s @ [Read_lba (us_lba s) (word_of_nat k)]\<rparr>)"
    using B1(1) B(1) c l d assms(5) by (simp add: read_media_def k Let_def emit_def)
  moreover have "tx_buffers_ok (s\<lparr>us_tx_buffer := B\<rparr>)" using B(2) by (simp add: tx_buffers_ok_def emit_def)
  ultimately show ?thesis using B(3)
    by (intro exI [of _ B] exI [of _ "us_log s @ [Read_lba (us_lba s) (word_of_nat k)]"]) simp
qed

text \<open>What a pass leaves alone.\<close>

definition rd_frame :: "rockusb \<Rightarrow> rockusb \<Rightarrow> bool" where
  "rd_frame s s' \<longleftrightarrow> us_cbw s' = us_cbw s \<and> us_reset_flag s' = us_reset_flag s \<and> us_status s' = us_status s \<and>
     us_rx_giveback s' = us_rx_giveback s \<and> us_rx_buffer s' = us_rx_buffer s \<and> us_rxbuf_num s' = us_rxbuf_num s"

lemma rd_frame_refl [simp]: "rd_frame s s"
  by (simp add: rd_frame_def)

lemma rd_frame_trans: "rd_frame s s' \<Longrightarrow> rd_frame s' s'' \<Longrightarrow> rd_frame s s''"
  by (simp add: rd_frame_def)

abbreviation (input) chunk :: "nat \<Rightarrow> nat \<Rightarrow> nat" where "chunk n m \<equiv> min 128 (n - m)"

lemma pass_sizes:
  assumes "reading l0 n m s"
  shows "datatx_pass ext s = do { s \<leftarrow> datatx_send (word_of_nat (512 * chunk n m)) (word_of_nat (chunk n m)) s;
                                 datatx_prefetch ext (word_of_nat (chunk n m)) 512 s }"
proof -
  define j where "j = n - m"
  have n: "m \<le> n" "n < 65536" using assms by (simp_all add: reading_def)
  then have b: "512 * j < 2 ^ 32" by (simp add: j_def)
  have sz: "us_u_size s - us_u_bytes s = word_of_nat (512 * j)"
    using assms word_512_minus [OF n(1)] by (simp add: reading_def j_def)
  have bl: "tx_block_length s = Some 512" using assms by (simp add: tx_block_length_def reading_def)
  have j: "(0x80 :: u32) \<le> word_of_nat j \<longleftrightarrow> 128 \<le> j" using b by (intro word_ge_128) simp
  show ?thesis
    unfolding datatx_pass_def bl sz bind.bind_lunit word_512_div [OF b] Let_def j j_def [symmetric]
    by (cases "128 \<le> j") (simp_all add: min_def)
qed

lemma send_hit:
  assumes "reading l0 n m s" "m < n" "prefetched media p s" "chunk n m \<le> p" "p \<le> 128" "media_ok ext media"
  shows "\<exists>s'. datatx_send (word_of_nat (512 * chunk n m)) (word_of_nat (chunk n m)) s = Some s' \<and>
    reading l0 n (m + chunk n m) s' \<and> rd_frame s s' \<and>
    usb_out (us_log s') = usb_out (us_log s) @ [sectors media (l0 + m) (chunk n m)] \<and>
    gb_status (us_tx_giveback s') = SEND_IN_PROGRESS"
proof -
  let ?k = "chunk n m" and ?p = "us_pre_read s"
  let ?s1 = "s\<lparr>us_u_bytes := us_u_bytes s + word_of_nat (512 * ?k), us_lba := us_lba s + word_of_nat ?k,
    us_pre_read := ?p\<lparr>pre_blocks := pre_blocks ?p - word_of_nat ?k\<rparr>\<rparr>"
  have k: "0 < ?k" "?k \<le> 128" using assms(2) by simp_all
  have g: "word_of_nat ?k \<noteq> (0 :: u32)" "word_of_nat ?k \<le> pre_blocks ?p" "pre_lba ?p = us_lba s"
    using k assms(3-5) word_0_nat [of ?k] by (simp_all add: prefetched_def word_le_nat_alt unat_small)
  have t: "tx_buffers_ok ?s1" using assms(1) by (simp add: reading_def tx_buffers_ok_def)
  have u: "unat (word_of_nat (512 * ?k) :: u32) = 512 * ?k" using k by (intro unat_small) simp
  have "take (512 * ?k) (take (512 * p) (us_tx_buffer s ! us_txbuf_num s)) = sectors media (unat (us_lba s)) ?k"
    using assms(3) take_sectors [OF assms(6,4)] by (simp add: prefetched_def)
  then have d: "take (512 * ?k) (us_tx_buffer s ! us_txbuf_num s) = sectors media (l0 + m) ?k"
    using reading_lba [OF assms(1,2)] assms(4) by (simp add: min_def split: if_splits)
  have w: "rkusb_write_bulk_ep (word_of_nat (512 * ?k)) ?s1 = Some (emit (Usb_write (sectors media (l0 + m) ?k))
      (?s1\<lparr>us_tx_giveback := \<lparr>gb_status = SEND_IN_PROGRESS, gb_actual = 0, gb_buf = None\<rparr>\<rparr>))"
    using write_bulk_ok [OF t, of "word_of_nat (512 * ?k)"] u k d by simp
  let ?s' = "next_txbuf (emit (Usb_write (sectors media (l0 + m) ?k))
      (?s1\<lparr>us_tx_giveback := \<lparr>gb_status = SEND_IN_PROGRESS, gb_actual = 0, gb_buf = None\<rparr>\<rparr>))"
  have "datatx_send (word_of_nat (512 * ?k)) (word_of_nat ?k) s = Some ?s'"
    using g w by (simp add: datatx_send_def Let_def)
  moreover have "tx_buffers_ok ?s'" using t by (simp add: tx_buffers_ok_def emit_def next_txbuf_def)
  then have "reading l0 n (m + ?k) ?s'"
    using assms(1,2) by (simp add: reading_def emit_def next_txbuf_def distrib_left)
  moreover have "rd_frame s ?s'" by (simp add: rd_frame_def emit_def next_txbuf_def)
  moreover have "usb_out (us_log ?s') = usb_out (us_log s) @ [sectors media (l0 + m) ?k]"
    "gb_status (us_tx_giveback ?s') = SEND_IN_PROGRESS"
    by (simp_all add: emit_def next_txbuf_def)
  ultimately show ?thesis by blast
qed

lemma send_miss: "unat (pre_blocks (us_pre_read s)) < k \<Longrightarrow> k \<le> 128 \<Longrightarrow> datatx_send sz (word_of_nat k) s = Some s"
  by (simp add: datatx_send_def Let_def word_le_nat_alt unat_small)

lemma prefetch_more:
  assumes "reading l0 n m s" "m < n" "0 < k" "k \<le> 128" "m = 0 \<or> k = 128" "media_ok ext media"
  shows "\<exists>s'. datatx_prefetch ext (word_of_nat k) 512 s = Some s' \<and> reading l0 n m s' \<and> prefetched media k s' \<and>
    rd_frame s s' \<and> usb_out (us_log s') = usb_out (us_log s) \<and> us_u_bytes s' = us_u_bytes s \<and>
    us_tx_giveback s' = us_tx_giveback s"
proof -
  let ?s1 = "s\<lparr>us_pre_read := \<lparr>pre_buffer = us_txbuf_num s, pre_lba = us_lba s, pre_blocks = word_of_nat k\<rparr>\<rparr>"
  have n: "n < 65536" using assms(1) by (simp add: reading_def)
  have g: "us_u_size s \<noteq> us_u_bytes s" "us_u_bytes s = 0 \<or> word_of_nat k = (0x80 :: u32)"
    using assms(1,2,5) n word_eq_nat [of "512 * n" "512 * m"] by (auto simp: reading_def)
  have k: "word_of_nat k \<noteq> (0 :: u32)" using assms(3,4) word_0_nat [of k] by simp
  have r: "reading l0 n m ?s1" using assms(1) by (simp add: reading_def tx_buffers_ok_def)
  obtain B L where BL: "read_media ext (word_of_nat k) 512 ?s1 = Some (?s1\<lparr>us_tx_buffer := B, us_log := L\<rparr>)"
    "usb_out L = usb_out (us_log s)" "tx_buffers_ok (?s1\<lparr>us_tx_buffer := B\<rparr>)"
    "take (512 * k) (B ! us_txbuf_num s) = sectors media (unat (us_lba s)) k"
    using read_media_ok [OF assms(6) r assms(2,4)] by auto
  let ?s' = "?s1\<lparr>us_tx_buffer := B, us_log := L\<rparr>"
  have "datatx_prefetch ext (word_of_nat k) 512 s = Some ?s'"
    using g k BL(1) by (auto simp: datatx_prefetch_def Let_def)
  moreover have "reading l0 n m ?s'" using r BL(3) by (simp add: reading_def tx_buffers_ok_def)
  moreover have "prefetched media k ?s'" using BL(4) by (simp add: prefetched_def)
  ultimately show ?thesis using BL(2) by (intro exI [of _ ?s']) (simp add: rd_frame_def)
qed

lemma prefetch_done: "reading l0 n n s \<Longrightarrow> datatx_prefetch ext k bl s =
    Some (s\<lparr>us_pre_read := (us_pre_read s)\<lparr>pre_lba := 0, pre_blocks := 0\<rparr>\<rparr>)"
  by (simp add: datatx_prefetch_def reading_def)

text \<open>The state between two chunks.\<close>

definition ready_to_send :: "(nat \<Rightarrow> u8 list) \<Rightarrow> nat \<Rightarrow> nat \<Rightarrow> nat \<Rightarrow> rockusb \<Rightarrow> bool" where
  "ready_to_send media l0 n m s \<longleftrightarrow> reading l0 n m s \<and>
     (if m = n then pre_blocks (us_pre_read s) = 0 else prefetched media 128 s)"

lemma pass_hit:
  assumes "reading l0 n m s" "m < n" "prefetched media p s" "chunk n m \<le> p" "p \<le> 128" "media_ok ext media"
  shows "\<exists>s'. datatx_pass ext s = Some s' \<and> ready_to_send media l0 n (m + chunk n m) s' \<and> rd_frame s s' \<and>
    usb_out (us_log s') = usb_out (us_log s) @ [sectors media (l0 + m) (chunk n m)] \<and>
    gb_status (us_tx_giveback s') = SEND_IN_PROGRESS"
proof -
  let ?k = "chunk n m"
  obtain s1 where s1: "datatx_send (word_of_nat (512 * ?k)) (word_of_nat ?k) s = Some s1"
    "reading l0 n (m + ?k) s1" "rd_frame s s1"
    "usb_out (us_log s1) = usb_out (us_log s) @ [sectors media (l0 + m) ?k]"
    "gb_status (us_tx_giveback s1) = SEND_IN_PROGRESS"
    using send_hit [OF assms] by blast
  show ?thesis
  proof (cases "m + ?k = n")
    case True
    let ?s' = "s1\<lparr>us_pre_read := (us_pre_read s1)\<lparr>pre_lba := 0, pre_blocks := 0\<rparr>\<rparr>"
    have r: "reading l0 n n s1" using s1(2) True by simp
    have "datatx_pass ext s = Some ?s'" using s1(1) prefetch_done [OF r] by (simp add: pass_sizes [OF assms(1)])
    moreover have "ready_to_send media l0 n (m + ?k) ?s'"
      using r True by (simp add: ready_to_send_def reading_def tx_buffers_ok_def)
    ultimately show ?thesis using s1(3-5) by (intro exI [of _ ?s']) (simp add: rd_frame_def)
  next
    case False
    then have k: "?k = 128" "m + ?k < n" using assms(2) by (auto simp: min_def split: if_splits)
    obtain s' where s': "datatx_prefetch ext (word_of_nat ?k) 512 s1 = Some s'" "reading l0 n (m + ?k) s'"
      "prefetched media ?k s'" "rd_frame s1 s'" "usb_out (us_log s') = usb_out (us_log s1)"
      "us_tx_giveback s' = us_tx_giveback s1"
      using prefetch_more [OF s1(2) k(2), of ?k] k(1) assms(6) by (auto simp only:) auto
    have "datatx_pass ext s = Some s'" using s1(1) s'(1) by (simp add: pass_sizes [OF assms(1)])
    moreover have "ready_to_send media l0 n (m + ?k) s'"
      using s'(2,3) k(2) False unfolding ready_to_send_def k(1) by simp
    ultimately show ?thesis using s1(3-5) s'(4-6) rd_frame_trans by fastforce
  qed
qed

lemma loop_hit:
  assumes "reading l0 n m s" "m < n" "prefetched media p s" "chunk n m \<le> p" "p \<le> 128" "media_ok ext media"
  shows "\<exists>s'. datatx_loop ext s = Some s' \<and> ready_to_send media l0 n (m + chunk n m) s' \<and> rd_frame s s' \<and>
    usb_out (us_log s') = usb_out (us_log s) @ [sectors media (l0 + m) (chunk n m)] \<and>
    gb_status (us_tx_giveback s') = SEND_IN_PROGRESS"
proof -
  obtain s' where s': "datatx_pass ext s = Some s'" "ready_to_send media l0 n (m + chunk n m) s'" "rd_frame s s'"
    "usb_out (us_log s') = usb_out (us_log s) @ [sectors media (l0 + m) (chunk n m)]"
    "gb_status (us_tx_giveback s') = SEND_IN_PROGRESS"
    using pass_hit [OF assms] by blast
  have r: "reading l0 n (m + chunk n m) s'" using s'(2) by (simp add: ready_to_send_def)
  then have "us_u_bytes s' \<noteq> 0"
    using assms(2) word_0_nat [of "512 * (m + chunk n m)"] by (auto simp: reading_def)
  then have "datatx_loop ext s = Some s'" using s'(1) by (subst datatx_loop.simps) simp
  with s' show ?thesis by blast
qed

text \<open>The first chunk takes two passes: prefetch, then send.\<close>

lemma loop_first:
  assumes "reading l0 n 0 s" "0 < n" "pre_blocks (us_pre_read s) = 0" "media_ok ext media"
  shows "\<exists>s'. datatx_loop ext s = Some s' \<and> ready_to_send media l0 n (chunk n 0) s' \<and> rd_frame s s' \<and>
    usb_out (us_log s') = usb_out (us_log s) @ [sectors media l0 (chunk n 0)] \<and>
    gb_status (us_tx_giveback s') = SEND_IN_PROGRESS"
proof -
  have k: "0 < chunk n 0" "chunk n 0 \<le> 128" using assms(2) by simp_all
  obtain s1 where s1: "datatx_prefetch ext (word_of_nat (chunk n 0)) 512 s = Some s1" "reading l0 n 0 s1"
    "prefetched media (chunk n 0) s1" "rd_frame s s1" "usb_out (us_log s1) = usb_out (us_log s)"
    "us_u_bytes s1 = us_u_bytes s"
    using prefetch_more [OF assms(1,2) k _ assms(4)] by blast
  have "datatx_pass ext s = Some s1"
    using s1(1) send_miss [of s "chunk n 0"] k assms(3) by (simp add: pass_sizes [OF assms(1)])
  moreover have "us_u_bytes s1 = 0" using s1(2) by (simp add: reading_def)
  ultimately have "datatx_loop ext s = datatx_loop ext s1" by (subst datatx_loop.simps) simp
  with loop_hit [OF s1(2) assms(2) s1(3) _ k(2) assms(4)] s1(4,5) show ?thesis
    using rd_frame_trans by fastforce
qed

subsection \<open>Rounds of the main loop\<close>

text \<open>After the round that sent the \<open>m\<close>-th sector: the transfer is in flight.\<close>

definition read_round :: "(nat \<Rightarrow> u8 list) \<Rightarrow> nat \<Rightarrow> nat \<Rightarrow> nat \<Rightarrow> rockusb \<Rightarrow> bool" where
  "read_round media l0 n m s \<longleftrightarrow> ready_to_send media l0 n m s \<and> 0 < m \<and> us_reset_flag s = 0 \<and>
     gb_status (us_tx_giveback s) = SEND_IN_PROGRESS \<and>
     (if m = n then us_status s = ST_CSW \<and> cs_Status (us_csw s) = CSW_GOOD \<and>
                    cs_Residue (us_csw s) = cpu_to_be32 (data_length s)
      else us_status s = ST_TXDATA_PREPARE)"

lemma reading_less: "reading l0 n m s \<Longrightarrow> us_u_size s = us_u_bytes s \<longleftrightarrow> m = n"
  using word_eq_nat [of "512 * n" "512 * m"] by (auto simp: reading_def)

lemma ready_simps [simp]:
  "ready_to_send media l0 n m (s\<lparr>us_status := st\<rparr>) = ready_to_send media l0 n m s"
  "ready_to_send media l0 n m (s\<lparr>us_csw := w\<rparr>) = ready_to_send media l0 n m s"
  "ready_to_send media l0 n m (s\<lparr>us_tx_giveback := g\<rparr>) = ready_to_send media l0 n m s"
  "ready_to_send media l0 n m (emit Low_format_check s) = ready_to_send media l0 n m s"
  by (simp_all add: ready_to_send_def reading_def prefetched_def tx_buffers_ok_def emit_def)

text \<open>What is left of a round once \<open>datatx_loop\<close> has sent a chunk.\<close>

lemma round_rest:
  assumes "datatx_loop ext s = Some s'" "ready_to_send media l0 n m s'" "0 < m" "rd_frame s s'"
    "gb_status (us_tx_giveback s') = SEND_IN_PROGRESS" "us_status s = ST_TXDATA_PREPARE" "us_reset_flag s = 0"
    "us_u_bytes s = 0 \<or> gb_status (us_tx_giveback s) = SEND_FINISHED_OK"
  shows "\<exists>t. do { s \<leftarrow> rkusb_handle_response ext s;
                 (if us_status s = ST_CSW then map_option snd (rkusb_send_csw s) else Some s) } = Some t \<and>
    read_round media l0 n m t \<and> us_cbw t = us_cbw s \<and> us_log t = us_log s'"
proof -
  have r: "reading l0 n m s'" using assms(2) by (simp add: ready_to_send_def)
  let ?t = "if m = n then (set_csw (data_length s') CSW_GOOD s')\<lparr>us_status := ST_CSW\<rparr> else s'"
  have "rkusb_handle_response ext s = Some ?t"
    using assms(1,6,8) reading_less [OF r] by (auto simp: rkusb_handle_response_def rkusb_handle_datatx_def)
  moreover have "read_round media l0 n m ?t"
    using assms(2-7) by (auto simp: read_round_def rd_frame_def set_csw_def)
  moreover have "us_cbw ?t = us_cbw s" "us_log ?t = us_log s'" "gb_status (us_tx_giveback ?t) = SEND_IN_PROGRESS"
    using assms(4,5) by (simp_all add: rd_frame_def set_csw_def)
  ultimately show ?thesis by (intro exI [of _ ?t]) (simp add: rkusb_send_csw_def)
qed

lemma reset_none: "us_reset_flag s = 0 \<Longrightarrow> rkusb_reset_check lr s = (False, s)"
  by (simp add: rkusb_reset_check_def)

lemma round_emit [simp]: "read_round media l0 n m (emit Low_format_check s) = read_round media l0 n m s"
  by (simp add: read_round_def) (simp add: emit_def)

lemma usb_out_emit [simp]: "usb_out (us_log (emit Low_format_check s)) = usb_out (us_log s)"
  by (simp add: emit_def)

text \<open>A completed transfer starts the next chunk.\<close>

lemma round_next:
  assumes "read_round media l0 n m s" "m < n" "media_ok ext media"
  shows "\<exists>s'. loop_body ext lr [Tx_done 0 a i] s = Some (False, s') \<and> read_round media l0 n (m + chunk n m) s' \<and>
    us_cbw s' = us_cbw s \<and> usb_out (us_log s') = usb_out (us_log s) @ [sectors media (l0 + m) (chunk n m)]"
proof -
  let ?s1 = "s\<lparr>us_tx_giveback := \<lparr>gb_status = SEND_FINISHED_OK, gb_actual = a, gb_buf = Some i\<rparr>\<rparr>"
  have st: "us_status ?s1 = ST_TXDATA_PREPARE" "us_reset_flag ?s1 = 0" "0 < m"
    using assms(1,2) by (simp_all add: read_round_def)
  have "ready_to_send media l0 n m ?s1" using assms(1) by (simp add: read_round_def)
  then have r: "reading l0 n m ?s1" "prefetched media 128 ?s1" using assms(2) by (simp_all add: ready_to_send_def)
  obtain s2 where s2: "datatx_loop ext ?s1 = Some s2" "ready_to_send media l0 n (m + chunk n m) s2" "rd_frame ?s1 s2"
    "usb_out (us_log s2) = usb_out (us_log ?s1) @ [sectors media (l0 + m) (chunk n m)]"
    "gb_status (us_tx_giveback s2) = SEND_IN_PROGRESS"
    using loop_hit [OF r(1) assms(2) r(2) _ _ assms(3)] by auto
  have "0 < m + chunk n m" using st(3) by simp
  from round_rest [OF s2(1,2) this s2(3,5) st(1,2)] obtain t where
    t: "do { s \<leftarrow> rkusb_handle_response ext ?s1;
             (if us_status s = ST_CSW then map_option snd (rkusb_send_csw s) else Some s) } = Some t"
      "read_round media l0 n (m + chunk n m) t" "us_cbw t = us_cbw ?s1" "us_log t = us_log s2" by auto
  have "loop_work ext ?s1 = Some t" using t(1) st(1) by (simp add: loop_work_def response_status_def)
  moreover have "us_reset_flag t = 0" using t(2) by (simp add: read_round_def)
  ultimately have "loop_body ext lr [Tx_done 0 a i] s = Some (False, emit Low_format_check t)"
    by (simp add: loop_body_def dwc3_tx_handler_def reset_none rkusb_lowformat_check_def)
  moreover have "us_cbw (emit Low_format_check t) = us_cbw s" using t(3) by (simp add: emit_def)
  ultimately show ?thesis using t(2,4) s2(4) by (intro exI [of _ "emit Low_format_check t"]) simp
qed

text \<open>The last completion sends the status wrapper and waits for the next command.\<close>

definition csw_of :: "fsg_bulk_cb_wrap \<Rightarrow> u32 \<Rightarrow> u8 \<Rightarrow> bulk_cs_wrap" where
  "csw_of c residue st = \<lparr>cs_Signature = USB_BULK_CS_SIG, cs_Tag = cb_Tag c, cs_Residue = cpu_to_be32 residue, cs_Status = st\<rparr>"

lemma send_csw_ok:
  assumes "gb_status (us_tx_giveback s) = SEND_FINISHED_OK" "tx_buffers_ok s"
  shows "\<exists>s'. rkusb_send_csw s = Some (0, s') \<and> us_status s' = ST_IDLE \<and> us_cbw s' = us_cbw s \<and>
    us_reset_flag s' = us_reset_flag s \<and> us_pre_read s' = us_pre_read s \<and> tx_buffers_ok s' \<and>
    us_log s' = us_log s @ [Usb_write (csw_bytes ((us_csw s)\<lparr>cs_Signature := USB_BULK_CS_SIG, cs_Tag := cb_Tag (us_cbw s)\<rparr>)),
                            Usb_arm 31 (us_rxbuf_num s)] \<and>
    us_rx_giveback s' = \<lparr>gb_status = RECV_READY, gb_actual = 0, gb_buf = None\<rparr> \<and>
    us_lba s' = us_lba s \<and> us_cmnd s' = us_cmnd s \<and> us_rx_buffer s' = us_rx_buffer s \<and>
    us_imgwr_mode s' = us_imgwr_mode s"
proof -
  let ?w = "(us_csw s)\<lparr>cs_Signature := USB_BULK_CS_SIG, cs_Tag := cb_Tag (us_cbw s)\<rparr>"
  let ?s1 = "s\<lparr>us_csw := ?w\<rparr>"
  have t1: "tx_buffers_ok ?s1" using assms(2) by (simp add: tx_buffers_ok_def)
  obtain B where B: "fill_tx 0 (csw_bytes ?w) ?s1 = Some (?s1\<lparr>us_tx_buffer := B\<rparr>)"
    "tx_buffers_ok (?s1\<lparr>us_tx_buffer := B\<rparr>)" "take 13 (B ! us_txbuf_num s) = csw_bytes ?w"
    using fill_tx_ok [OF t1, of "csw_bytes ?w"] by auto
  have "rkusb_write_bulk_ep 13 (?s1\<lparr>us_tx_buffer := B\<rparr>) = Some (emit (Usb_write (csw_bytes ?w))
      (?s1\<lparr>us_tx_buffer := B, us_tx_giveback := \<lparr>gb_status = SEND_IN_PROGRESS, gb_actual = 0, gb_buf = None\<rparr>\<rparr>))"
    using write_bulk_ok [OF B(2), of 13] B(3) by simp
  with B(1,2) assms show ?thesis
    by (simp add: rkusb_send_csw_def Let_def next_txbuf_def next_rxbuf_def rkusb_read_bulk_ep_def tx_buffers_ok_def emit_def)
qed

lemma round_last:
  assumes "read_round media l0 n n s"
  shows "\<exists>s'. loop_body ext lr [Tx_done 0 a i] s = Some (False, s') \<and> us_status s' = ST_IDLE \<and>
    usb_out (us_log s') = usb_out (us_log s) @ [csw_bytes (csw_of (us_cbw s) (data_length s) CSW_GOOD)] \<and>
    gb_actual (us_rx_giveback s') = 0 \<and> pre_blocks (us_pre_read s') = 0 \<and> us_reset_flag s' = 0"
proof -
  let ?s1 = "s\<lparr>us_tx_giveback := \<lparr>gb_status = SEND_FINISHED_OK, gb_actual = a, gb_buf = Some i\<rparr>\<rparr>"
  have t: "tx_buffers_ok ?s1" "pre_blocks (us_pre_read ?s1) = 0"
    using assms by (simp_all add: read_round_def ready_to_send_def reading_def tx_buffers_ok_def)
  have st: "us_status ?s1 = ST_CSW" "us_reset_flag ?s1 = 0"
    and w: "(us_csw s)\<lparr>cs_Signature := USB_BULK_CS_SIG, cs_Tag := cb_Tag (us_cbw s)\<rparr> = csw_of (us_cbw s) (data_length s) CSW_GOOD"
    using assms by (simp_all add: read_round_def csw_of_def)
  obtain s2 where s2: "rkusb_send_csw ?s1 = Some (0, s2)" "us_status s2 = ST_IDLE" "us_reset_flag s2 = 0"
    "us_pre_read s2 = us_pre_read s"
    "us_log s2 = us_log s @ [Usb_write (csw_bytes (csw_of (us_cbw s) (data_length s) CSW_GOOD)), Usb_arm 31 (us_rxbuf_num s)]"
    "us_rx_giveback s2 = \<lparr>gb_status = RECV_READY, gb_actual = 0, gb_buf = None\<rparr>"
    using send_csw_ok [OF _ t(1)] st w by auto
  have "loop_body ext lr [Tx_done 0 a i] s = Some (False, emit Low_format_check s2)"
    using st s2(1,3) by (simp add: loop_body_def loop_work_def response_status_def dwc3_tx_handler_def reset_none rkusb_lowformat_check_def)
  with s2 t(2) show ?thesis by (intro exI [of _ "emit Low_format_check s2"]) (simp add: emit_def)
qed

text \<open>Rounds without an interrupt change nothing but the history.\<close>

lemma round_quiet:
  assumes "read_round media l0 n m s"
  shows "loop_body ext lr [] s = Some (False, emit Low_format_check s)"
proof -
  have "us_u_bytes s \<noteq> 0"
    using assms word_0_nat [of "512 * m"] by (auto simp: read_round_def ready_to_send_def reading_def)
  then show ?thesis using assms
    by (cases "m = n") (simp_all add: loop_body_def loop_work_def response_status_def rkusb_handle_response_def
        read_round_def rkusb_send_csw_def reset_none rkusb_lowformat_check_def)
qed

lemma idle_quiet: "us_status s = ST_IDLE \<Longrightarrow> gb_actual (us_rx_giveback s) = 0 \<Longrightarrow> us_reset_flag s = 0 \<Longrightarrow>
    loop_body ext lr [] s = Some (False, emit Low_format_check s)"
  by (simp add: loop_body_def loop_work_def response_status_def reset_none rkusb_lowformat_check_def)

text \<open>Any interleaving of quiet rounds and \<open>j\<close> rounds that complete a transfer.\<close>

fun tx_rounds :: "nat \<Rightarrow> rk_irq list list \<Rightarrow> bool" where
  "tx_rounds j [] = (j = 0)"
| "tx_rounds j ([] # rs) = tx_rounds j rs"
| "tx_rounds j ([Tx_done st a i] # rs) = (st = 0 \<and> 0 < j \<and> tx_rounds (j - 1) rs)"
| "tx_rounds j (_ # rs) = False"

lemma idle_rounds: "us_status s = ST_IDLE \<Longrightarrow> gb_actual (us_rx_giveback s) = 0 \<Longrightarrow> us_reset_flag s = 0 \<Longrightarrow>
    tx_rounds 0 rs \<Longrightarrow> \<exists>s'. do_rockusb ext lr rs s = Some (False, s') \<and> us_status s' = ST_IDLE \<and>
      usb_out (us_log s') = usb_out (us_log s) \<and> us_pre_read s' = us_pre_read s"
proof (induction rs arbitrary: s)
  case Nil
  then show ?case by simp
next
  case (Cons r rs)
  then have "r = []" by (cases "(0 :: nat, r # rs)" rule: tx_rounds.cases) auto
  moreover obtain s' where "do_rockusb ext lr rs (emit Low_format_check s) = Some (False, s')" "us_status s' = ST_IDLE"
      "usb_out (us_log s') = usb_out (us_log s)" "us_pre_read s' = us_pre_read s"
    using Cons.IH [of "emit Low_format_check s"] Cons.prems calculation by (auto simp: emit_def)
  ultimately show ?case using Cons.prems by (simp add: idle_quiet)
qed

text \<open>The rounds it takes from the \<open>m\<close>-th sector to the status.\<close>

definition rounds_left :: "nat \<Rightarrow> nat \<Rightarrow> nat" where
  "rounds_left n m = Suc ((n - m + 127) div 128)"

lemma rounds_left_step: "m < n \<Longrightarrow> rounds_left n m = Suc (rounds_left n (m + chunk n m))"
proof -
  assume m: "m < n"
  define j where "j = n - m"
  have j: "0 < j" "n - (m + chunk n m) = j - min 128 j" using m by (simp_all add: j_def)
  have "(j + 127) div 128 = Suc ((j - min 128 j + 127) div 128)"
  proof (cases "128 \<le> j")
    case True
    then have "j + 127 = (j - 128 + 127) + 128" by simp
    then show ?thesis using True by (metis div_add_self2 min_def Suc_eq_plus1 zero_neq_numeral)
  next
    case False
    with j(1) have "j + 127 = (j - 1) + 128" "j - 1 < 128" by simp_all
    then have "(j + 127) div 128 = Suc 0" by (metis Suc_eq_plus1 add_0 div_add_self2 div_less zero_neq_numeral)
    with False show ?thesis by (simp add: min_def)
  qed
  then show ?thesis using j(2) by (simp only: rounds_left_def j_def [symmetric])
qed

lemma rounds_left_end [simp]: "rounds_left n n = 1"
  by (simp add: rounds_left_def)

lemma read_rounds:
  assumes "read_round media l0 n m s" "m \<le> n" "tx_rounds (rounds_left n m) rs" "media_ok ext media"
  shows "\<exists>s' cs. do_rockusb ext lr rs s = Some (False, s') \<and> us_status s' = ST_IDLE \<and>
    usb_out (us_log s') = usb_out (us_log s) @ cs @ [csw_bytes (csw_of (us_cbw s) (data_length s) CSW_GOOD)] \<and>
    concat cs = sectors media (l0 + m) (n - m) \<and> pre_blocks (us_pre_read s') = 0"
  using assms
proof (induction rs arbitrary: s m)
  case Nil
  then show ?case by (simp add: rounds_left_def)
next
  case (Cons r rs)
  show ?case
  proof (cases r)
    case Nil
    with Cons.prems have "tx_rounds (rounds_left n m) rs" by simp
    moreover have "read_round media l0 n m (emit Low_format_check s)" using Cons.prems(1) by simp
    moreover have "us_cbw (emit Low_format_check s) = us_cbw s" by (simp add: emit_def)
    ultimately show ?thesis
      using Cons.IH [of m "emit Low_format_check s"] Cons.prems(2,4) round_quiet [OF Cons.prems(1)] Nil by simp
  next
    case (Cons q qs)
    with Cons.prems(3) obtain a i where q: "r = [Tx_done 0 a i]" and rs: "tx_rounds (rounds_left n m - 1) rs"
      by (cases "(rounds_left n m, r # rs)" rule: tx_rounds.cases) auto
    show ?thesis
    proof (cases "m = n")
      case True
      obtain s1 where s1: "loop_body ext lr r s = Some (False, s1)" "us_status s1 = ST_IDLE"
        "usb_out (us_log s1) = usb_out (us_log s) @ [csw_bytes (csw_of (us_cbw s) (data_length s) CSW_GOOD)]"
        "gb_actual (us_rx_giveback s1) = 0" "pre_blocks (us_pre_read s1) = 0" "us_reset_flag s1 = 0"
        using round_last [of media l0 n s] Cons.prems(1) True q by blast
      have "tx_rounds 0 rs" using rs True by simp
      from idle_rounds [OF s1(2,4,6) this] obtain s' where
        s': "do_rockusb ext lr rs s1 = Some (False, s')" "us_status s' = ST_IDLE"
          "usb_out (us_log s') = usb_out (us_log s1)" "us_pre_read s' = us_pre_read s1" by blast
      with s1 True show ?thesis by (intro exI [of _ s'] exI [of _ "[]"]) simp
    next
      case False
      with Cons.prems(2) have m: "m < n" by simp
      obtain s1 where s1: "loop_body ext lr r s = Some (False, s1)" "read_round media l0 n (m + chunk n m) s1"
        "us_cbw s1 = us_cbw s" "usb_out (us_log s1) = usb_out (us_log s) @ [sectors media (l0 + m) (chunk n m)]"
        using round_next [OF Cons.prems(1) m Cons.prems(4)] q by blast
      have "tx_rounds (rounds_left n (m + chunk n m)) rs" using rs rounds_left_step [OF m] by simp
      moreover have "m + chunk n m \<le> n" using m by simp
      ultimately obtain s' cs where
        s': "do_rockusb ext lr rs s1 = Some (False, s')" "us_status s' = ST_IDLE"
        "usb_out (us_log s') = usb_out (us_log s1) @ cs @ [csw_bytes (csw_of (us_cbw s1) (data_length s1) CSW_GOOD)]"
        "concat cs = sectors media (l0 + (m + chunk n m)) (n - (m + chunk n m))" "pre_blocks (us_pre_read s') = 0"
        using Cons.IH [OF s1(2) _ _ Cons.prems(4)] by blast
      have "sectors media (l0 + m) (n - m) = sectors media (l0 + m) (chunk n m) @ concat cs"
        using sectors_add [of media "l0 + m" "chunk n m" "n - m - chunk n m"] m s'(4) by (simp add: add.assoc)
      with s1 s' show ?thesis by (intro exI [of _ s'] exI [of _ "sectors media (l0 + m) (chunk n m) # cs"]) simp
    qed
  qed
qed

subsection \<open>From the command to the status\<close>

text \<open>
  A command wrapper has arrived in one of the receive buffers of an idle gadget that has
  nothing prefetched and no reset pending.
\<close>

definition command_received :: "fsg_bulk_cb_wrap \<Rightarrow> rockusb \<Rightarrow> bool" where
  "command_received c s \<longleftrightarrow> us_status s = ST_IDLE \<and> gb_actual (us_rx_giveback s) > 0 \<and> length (cb_CDB c) = 16 \<and>
     (case gb_buf (us_rx_giveback s) of None \<Rightarrow> False
      | Some i \<Rightarrow> 31 < length (us_rx_buffer s ! i) \<and> take 31 (us_rx_buffer s ! i) = cbw_bytes c) \<and>
     us_reset_flag s = 0"

lemma command_decoded: "command_received c s \<Longrightarrow>
    \<exists>i. gb_buf (us_rx_giveback s) = Some i \<and> cbw_of_bytes (us_rx_buffer s ! i) = Some c"
proof -
  assume c: "command_received c s"
  then obtain i where i: "gb_buf (us_rx_giveback s) = Some i" "31 < length (us_rx_buffer s ! i)"
    "take 31 (us_rx_buffer s ! i) = cbw_bytes c"
    by (auto simp: command_received_def split: option.splits)
  have "us_rx_buffer s ! i = cbw_bytes c @ drop 31 (us_rx_buffer s ! i)" using i(3) append_take_drop_id by metis
  moreover have "drop 31 (us_rx_buffer s ! i) \<noteq> []" using i(2) by simp
  ultimately show ?thesis using cbw_roundtrip c i(1) by (metis command_received_def)
qed

lemma cmd_step: "command_received c s \<Longrightarrow> cb_CDB c ! 0 = 0x14 \<Longrightarrow>
    do_rockusb_cmd ext (s\<lparr>us_status := ST_CMD\<rparr>) =
      Some (FW_LBARead10 (s\<lparr>us_status := ST_CMD, us_cbw := c, us_cmnd := 0x14\<rparr>))"
  using command_decoded [of c s] by (auto simp: do_rockusb_cmd_def)

text \<open>The request of a read or write command: first sector and number of sectors.\<close>

definition req_lba :: "fsg_bulk_cb_wrap \<Rightarrow> nat" where
  "req_lba c = unat (get_unaligned_be32 (cb_CDB c) 2)"

definition req_sectors :: "fsg_bulk_cb_wrap \<Rightarrow> nat" where
  "req_sectors c = unat (get_unaligned_be16 (cb_CDB c) 7)"

lemma req_sectors_less: "req_sectors c < 65536"
proof -
  have "unat w < 2 ^ LENGTH(16)" for w :: u16 by (rule unsigned_less)
  then show ?thesis by (simp add: req_sectors_def)
qed

lemma req_words: "ucast (get_unaligned_be16 (cb_CDB c) 7) * 512 = (word_of_nat (512 * req_sectors c) :: u32)"
  "get_unaligned_be32 (cb_CDB c) 2 = word_of_nat (req_lba c)"
  by (simp_all add: req_sectors_def req_lba_def)

lemma first_round:
  assumes "command_received c s" "cb_CDB c ! 0 = 0x14" "0 < req_sectors c" "req_lba c + req_sectors c \<le> 0xFFF00000"
    "tx_buffers_ok s" "pre_blocks (us_pre_read s) = 0" "media_ok ext media"
  shows "\<exists>s'. loop_body ext lr [] s = Some (False, s') \<and>
    read_round media (req_lba c) (req_sectors c) (chunk (req_sectors c) 0) s' \<and> us_cbw s' = c \<and>
    usb_out (us_log s') = usb_out (us_log s) @ [sectors media (req_lba c) (chunk (req_sectors c) 0)]"
proof -
  let ?s1 = "FW_LBARead10 (s\<lparr>us_status := ST_CMD, us_cbw := c, us_cmnd := 0x14\<rparr>)"
  have r: "reading (req_lba c) (req_sectors c) 0 ?s1"
  proof -
    have "us_cmnd ?s1 = 0x14" "us_u_size ?s1 = word_of_nat (512 * req_sectors c)" "us_u_bytes ?s1 = 0"
      "us_lba ?s1 = word_of_nat (req_lba c)"
      by (simp_all only: req_words [symmetric]) (simp_all add: FW_LBARead10_def)
    moreover have "tx_buffers_ok ?s1" using assms(5) by (simp add: tx_buffers_ok_def FW_LBARead10_def)
    ultimately show ?thesis using assms(4) req_sectors_less [of c] by (simp add: reading_def)
  qed
  have p: "pre_blocks (us_pre_read ?s1) = 0" using assms(6) by (simp add: FW_LBARead10_def)
  obtain s2 where s2: "datatx_loop ext ?s1 = Some s2"
    "ready_to_send media (req_lba c) (req_sectors c) (chunk (req_sectors c) 0) s2" "rd_frame ?s1 s2"
    "usb_out (us_log s2) = usb_out (us_log ?s1) @ [sectors media (req_lba c) (chunk (req_sectors c) 0)]"
    "gb_status (us_tx_giveback s2) = SEND_IN_PROGRESS"
    using loop_first [OF r assms(3) p assms(7)] by blast
  have st: "us_status ?s1 = ST_TXDATA_PREPARE" "us_reset_flag ?s1 = 0" "us_u_bytes ?s1 = 0"
    "us_cbw ?s1 = c" "us_log ?s1 = us_log s"
    using assms(1) by (simp_all add: FW_LBARead10_def command_received_def)
  have "0 < chunk (req_sectors c) 0" using assms(3) by simp
  from round_rest [OF s2(1,2) this s2(3,5) st(1,2)] st(3) obtain t where
    t: "do { s \<leftarrow> rkusb_handle_response ext ?s1;
             (if us_status s = ST_CSW then map_option snd (rkusb_send_csw s) else Some s) } = Some t"
      "read_round media (req_lba c) (req_sectors c) (chunk (req_sectors c) 0) t" "us_cbw t = us_cbw ?s1" "us_log t = us_log s2"
    by auto
  have "us_status s = ST_IDLE" "0 < gb_actual (us_rx_giveback s)" using assms(1) by (simp_all add: command_received_def)
  then have "loop_work ext s = Some t"
    using cmd_step [OF assms(1,2)] t(1) st(1) by (simp add: loop_work_def response_status_def)
  moreover have "us_reset_flag t = 0" using t(2) by (simp add: read_round_def)
  ultimately have "loop_body ext lr [] s = Some (False, emit Low_format_check t)"
    by (simp add: loop_body_def reset_none rkusb_lowformat_check_def)
  moreover have "us_cbw (emit Low_format_check t) = c" using t(3) st(4) by (simp add: emit_def)
  ultimately show ?thesis using t(2,4) s2(4) st(5) by (intro exI [of _ "emit Low_format_check t"]) simp
qed

lemma read_command:
  assumes "command_received c s" "cb_CDB c ! 0 = 0x14" "0 < req_sectors c" "req_lba c + req_sectors c \<le> 0xFFF00000"
    "tx_buffers_ok s" "pre_blocks (us_pre_read s) = 0" "media_ok ext media"
    "tx_rounds (rounds_left (req_sectors c) 0 - 1) rs"
  shows "\<exists>s' cs. do_rockusb ext lr ([] # rs) s = Some (False, s') \<and> us_status s' = ST_IDLE \<and>
    usb_out (us_log s') = usb_out (us_log s) @ cs @ [csw_bytes (csw_of c (cb_DataTransferLength c) CSW_GOOD)] \<and>
    concat cs = sectors media (req_lba c) (req_sectors c) \<and> pre_blocks (us_pre_read s') = 0"
proof -
  let ?n = "req_sectors c" and ?l = "req_lba c"
  obtain s1 where s1: "loop_body ext lr [] s = Some (False, s1)" "read_round media ?l ?n (chunk ?n 0) s1" "us_cbw s1 = c"
    "usb_out (us_log s1) = usb_out (us_log s) @ [sectors media ?l (chunk ?n 0)]"
    using first_round [OF assms(1-7)] by blast
  have "tx_rounds (rounds_left ?n (chunk ?n 0)) rs"
    using assms(8) rounds_left_step [OF assms(3)] by simp
  moreover have "chunk ?n 0 \<le> ?n" by simp
  ultimately obtain s' cs where
    s': "do_rockusb ext lr rs s1 = Some (False, s')" "us_status s' = ST_IDLE"
      "usb_out (us_log s') = usb_out (us_log s1) @ cs @ [csw_bytes (csw_of (us_cbw s1) (data_length s1) CSW_GOOD)]"
      "concat cs = sectors media (?l + chunk ?n 0) (?n - chunk ?n 0)" "pre_blocks (us_pre_read s') = 0"
    using read_rounds [OF s1(2) _ _ assms(7)] by blast
  have "sectors media ?l ?n = sectors media ?l (chunk ?n 0) @ concat cs"
    using sectors_add [of media ?l "chunk ?n 0" "?n - chunk ?n 0"] s'(4) by simp
  with s1 s' show ?thesis by (intro exI [of _ s'] exI [of _ "sectors media ?l (chunk ?n 0) # cs"]) simp
qed

end
