(* ===== verification/Rockusb_Write.thy ===== *)
theory Rockusb_Write
  imports Rockusb_Read
begin

text \<open>
  The download path of the Rockusb gadget: an LBA write command stores exactly the bytes the
  host sends, chunk by chunk at ascending addresses, and answers with one status wrapper;
  and what happens when the status wrapper cannot be sent.
\<close>

subsection \<open>Writes in the history\<close>

fun lba_writes :: "rk_event list \<Rightarrow> (nat \<times> u8 list) list" where
  "lba_writes [] = []"
| "lba_writes (Write_lba l d n m # es) = (unat l, d) # lba_writes es"
| "lba_writes (_ # es) = lba_writes es"

lemma lba_writes_append [simp]: "lba_writes (xs @ ys) = lba_writes xs @ lba_writes ys"
  by (induction xs rule: lba_writes.induct) simp_all

text \<open>Chunks of whole sectors, each starting where the one before ended.\<close>

fun contiguous :: "nat \<Rightarrow> (nat \<times> u8 list) list \<Rightarrow> bool" where
  "contiguous a [] = True"
| "contiguous a ((b, d) # ws) = (b = a \<and> 512 dvd length d \<and> contiguous (a + length d div 512) ws)"

definition unlocked :: "rk_ext \<Rightarrow> bool" where
  "unlocked ext \<longleftrightarrow> (\<forall>h. SecureBootLock ext h = 0)"

definition rx_buffers_ok :: "rockusb \<Rightarrow> bool" where
  "rx_buffers_ok s \<longleftrightarrow> us_rxbuf_num s < 2 \<and> length (us_rx_buffer s) = 2 \<and>
     (\<forall>b \<in> set (us_rx_buffer s). 65536 \<le> length b)"

subsection \<open>Storing a chunk\<close>

lemma lba_plain:
  assumes "l < 0xFFF00000"
  shows "unat (word_of_nat l :: u32) = l" "\<not> (0xFFFFFF00 :: u32) \<le> word_of_nat l"
    "(word_of_nat l :: u32) \<noteq> 0xFFFFF000" "(word_of_nat l :: u32) AND 0xFFFF0000 \<noteq> 0xFFF00000"
proof -
  show u: "unat (word_of_nat l :: u32) = l" using assms by (intro unat_small) simp
  have "(word_of_nat l :: u32) AND 0xFFFF0000 \<le> word_of_nat l" by (rule word_and_le2)
  then show "(word_of_nat l :: u32) AND 0xFFFF0000 \<noteq> 0xFFF00000" using u assms by (auto simp: word_le_nat_alt)
  show "\<not> (0xFFFFFF00 :: u32) \<le> word_of_nat l" "(word_of_nat l :: u32) \<noteq> 0xFFFFF000"
    using u assms by (auto simp: word_le_nat_alt)
qed

lemma write_media_ok:
  assumes "us_cmnd s = 0x15" "us_lba s = word_of_nat l" "l < 0xFFF00000" "k \<le> 128" "512 * k \<le> length buf" "unlocked ext"
  shows "write_media ext buf (word_of_nat k) s =
    Some ((emit (Write_lba (word_of_nat l) (take (512 * k) buf) (word_of_nat k) (us_imgwr_mode s)) s)
            \<lparr>us_lba := word_of_nat (l + k)\<rparr>)"
proof -
  have "unat (word_of_nat k * 512 :: u32) = 512 * k" using assms(4) by (simp add: unat_word_ariths unat_small)
  then show ?thesis
    using assms lba_plain [OF assms(3)]
    by (simp add: write_media_def rx_block_length_def peek_def unlocked_def emit_def)
qed

lemma rx_chunk_words:
  assumes "0 < k" "k \<le> 128"
  shows "(word_of_nat (512 * k) :: u32) \<noteq> 0" "(word_of_nat (512 * k) :: u32) div 512 = word_of_nat k"
    "(word_of_nat k :: u32) \<noteq> 0"
  using assms word_0_nat [of "512 * k"] word_0_nat [of k] word_512_div [of k] by simp_all

text \<open>\<open>k\<close> sectors \<open>xs\<close> have arrived in buffer \<open>i\<close>, for the LBA write command.\<close>

definition rx_arrived :: "nat \<Rightarrow> u8 list \<Rightarrow> nat \<Rightarrow> rockusb \<Rightarrow> bool" where
  "rx_arrived k xs i s \<longleftrightarrow> us_cmnd s = 0x15 \<and> 0 < k \<and> k \<le> 128 \<and>
     us_rx_giveback s = \<lparr>gb_status = RECV_OK, gb_actual = word_of_nat (512 * k), gb_buf = Some i\<rparr> \<and>
     512 * k \<le> length (us_rx_buffer s ! i) \<and> take (512 * k) (us_rx_buffer s ! i) = xs"

text \<open>\<open>m\<close> of the \<open>n\<close> sectors for \<open>l0\<close> have been stored, and the next chunk is awaited.\<close>

definition writing :: "nat \<Rightarrow> nat \<Rightarrow> nat \<Rightarrow> rockusb \<Rightarrow> bool" where
  "writing l0 n m s \<longleftrightarrow> us_cmnd s = 0x15 \<and> us_d_size s = word_of_nat (512 * n) \<and>
     us_d_bytes s = word_of_nat (512 * m) \<and> us_lba s = word_of_nat (l0 + m) \<and> tx_buffers_ok s \<and> rx_buffers_ok s \<and>
     m \<le> n \<and> n < 65536 \<and> l0 + n \<le> 0xFFF00000 \<and> us_reset_flag s = 0"

text \<open>The request for the next chunk.\<close>

lemma rx_request:
  assumes "m < n" "n < 65536"
  shows "(let t = word_of_nat (512 * n) - word_of_nat (512 * m); b = t div 512;
              b = (if b > (0x80 :: u32) then 0x80 else b) in b * 512) = word_of_nat (512 * chunk n m)"
proof -
  define j where "j = n - m"
  have j: "512 * j < 2 ^ 32" "j < 2 ^ 32" using assms by (simp_all add: j_def)
  have "m \<le> n" using assms by simp
  note d = word_512_minus [OF this, folded j_def]
  have lt: "(0x80 :: u32) < word_of_nat j \<longleftrightarrow> 128 < j" using j(2) by (simp add: word_less_nat_alt unat_small)
  show ?thesis
  proof (cases "128 < j")
    case True
    then show ?thesis unfolding Let_def d word_512_div [OF j(1)] lt j_def [symmetric] by (simp add: min_def)
  next
    case False
    then have "min 128 j = j" by simp
    with False show ?thesis unfolding Let_def d word_512_div [OF j(1)] lt j_def [symmetric] by (simp add: mult.commute)
  qed
qed

lemma rx_less: "m \<le> n \<Longrightarrow> n < 65536 \<Longrightarrow> (word_of_nat (512 * m) :: u32) < word_of_nat (512 * n) \<longleftrightarrow> m < n"
  using unat_small [of "512 * m"] unat_small [of "512 * n"] by (simp add: word_less_nat_alt)

text \<open>One call of the receive handler with a chunk in hand that is not the last.\<close>

lemma datarx_more:
  assumes "writing l0 n m s" "rx_arrived k xs i s" "m + k < n" "unlocked ext"
  shows "\<exists>s'. rkusb_handle_datarx ext s = Some s' \<and> writing l0 n (m + k) s' \<and> us_status s' = ST_RXDATA \<and>
    us_rx_giveback s' = \<lparr>gb_status = RECV_READY, gb_actual = 0, gb_buf = None\<rparr> \<and> us_cbw s' = us_cbw s \<and>
    us_tx_giveback s' = us_tx_giveback s \<and>
    us_log s' = us_log s @ [Usb_arm (word_of_nat (512 * chunk n (m + k))) (us_rxbuf_num s),
      Write_lba (word_of_nat (l0 + m)) xs (word_of_nat k) (us_imgwr_mode s)]"
proof -
  have w: "us_cmnd s = 0x15" "us_d_size s = word_of_nat (512 * n)" "us_lba s = word_of_nat (l0 + m)"
    "n < 65536" "l0 + m < 0xFFF00000" and d: "us_d_bytes s + word_of_nat (512 * k) = word_of_nat (512 * (m + k))"
    using assms(1,3) by (simp_all add: writing_def distrib_left)
  have k: "0 < k" "k \<le> 128" and g: "us_rx_giveback s = \<lparr>gb_status = RECV_OK, gb_actual = word_of_nat (512 * k), gb_buf = Some i\<rparr>"
    and b: "512 * k \<le> length (us_rx_buffer s ! i)" "take (512 * k) (us_rx_buffer s ! i) = xs"
    using assms(2) by (simp_all add: rx_arrived_def)
  note kw = rx_chunk_words [OF k]
  let ?s1 = "s\<lparr>us_d_bytes := us_d_bytes s + word_of_nat (512 * k)\<rparr>"
  have lt: "word_of_nat (512 * (m + k)) < (word_of_nat (512 * n) :: u32)"
    using assms(3) w(4) by (subst rx_less) simp_all
  define s2 where "s2 = (next_rxbuf (rkusb_read_bulk_ep (word_of_nat (512 * chunk n (m + k))) ?s1))\<lparr>us_status := ST_RXDATA\<rparr>"
  have s2: "us_cmnd s2 = 0x15" "us_lba s2 = word_of_nat (l0 + m)" "us_rx_buffer s2 = us_rx_buffer s"
    "us_imgwr_mode s2 = us_imgwr_mode s"
    "us_log s2 = us_log s @ [Usb_arm (word_of_nat (512 * chunk n (m + k))) (us_rxbuf_num s)]"
    using w by (simp_all add: s2_def next_rxbuf_def rkusb_read_bulk_ep_def emit_def)
  let ?s' = "(emit (Write_lba (word_of_nat (l0 + m)) xs (word_of_nat k) (us_imgwr_mode s)) s2)\<lparr>us_lba := word_of_nat (l0 + m + k)\<rparr>"
  have wm: "write_media ext (us_rx_buffer s2 ! i) (word_of_nat k) s2 = Some ?s'"
    using write_media_ok [OF s2(1,2) w(5) k(2) _ assms(4), of "us_rx_buffer s ! i"] b s2 by simp
  have bl: "rx_block_length s = 512" using w(1) by (simp add: rx_block_length_def)
  have "rkusb_handle_datarx ext s = write_media ext (us_rx_buffer s2 ! i) (word_of_nat k) s2"
    using rx_request [OF assms(3) w(4)] lt kw
    by (simp add: rkusb_handle_datarx_def bl g d w(2) s2_def Let_def del: of_nat_mult of_nat_add)
  moreover have "writing l0 n (m + k) ?s'"
    using assms(1,3) d by (simp add: writing_def s2_def next_rxbuf_def rkusb_read_bulk_ep_def emit_def
        tx_buffers_ok_def rx_buffers_ok_def add.assoc)
  ultimately show ?thesis using wm s2(5)
    by (intro exI [of _ ?s']) (simp add: s2_def next_rxbuf_def rkusb_read_bulk_ep_def emit_def)
qed

lemma csw_fields: "w\<lparr>cs_Residue := r, cs_Status := st, cs_Signature := sg, cs_Tag := t\<rparr> =
    \<lparr>cs_Signature = sg, cs_Tag = t, cs_Residue = r, cs_Status = st\<rparr>"
  by (cases w) simp

text \<open>The last chunk: the status wrapper goes out first, then the chunk is stored.\<close>

lemma datarx_last:
  assumes "writing l0 n m s" "rx_arrived k xs i s" "m + k = n" "unlocked ext"
    "gb_status (us_tx_giveback s) = SEND_FINISHED_OK"
  shows "\<exists>s'. rkusb_handle_datarx ext s = Some s' \<and> us_status s' = ST_IDLE \<and> us_reset_flag s' = 0 \<and>
    gb_actual (us_rx_giveback s') = 0 \<and>
    us_log s' = us_log s @ [Usb_write (csw_bytes (csw_of (us_cbw s) (data_length s) CSW_GOOD)), Usb_arm 31 (us_rxbuf_num s),
      Write_lba (word_of_nat (l0 + m)) xs (word_of_nat k) (us_imgwr_mode s)]"
proof -
  have w: "us_cmnd s = 0x15" "us_d_size s = word_of_nat (512 * n)" "us_lba s = word_of_nat (l0 + m)"
    "n < 65536" and d: "us_d_bytes s + word_of_nat (512 * k) = word_of_nat (512 * n)"
    and l: "l0 + m + k \<le> 0xFFF00000"
    using assms(1,3) by (auto simp: writing_def distrib_left)
  have k: "0 < k" "k \<le> 128" and g: "us_rx_giveback s = \<lparr>gb_status = RECV_OK, gb_actual = word_of_nat (512 * k), gb_buf = Some i\<rparr>"
    and b: "512 * k \<le> length (us_rx_buffer s ! i)" "take (512 * k) (us_rx_buffer s ! i) = xs"
    using assms(2) by (simp_all add: rx_arrived_def)
  note kw = rx_chunk_words [OF k]
  let ?s1 = "set_csw (data_length s) CSW_GOOD (s\<lparr>us_d_bytes := us_d_bytes s + word_of_nat (512 * k)\<rparr>)"
  have "tx_buffers_ok ?s1" "gb_status (us_tx_giveback ?s1) = SEND_FINISHED_OK"
    using assms(1,5) by (simp_all add: writing_def tx_buffers_ok_def set_csw_def)
  from send_csw_ok [OF this(2,1)] obtain s2 where s2: "rkusb_send_csw ?s1 = Some (0, s2)" "us_status s2 = ST_IDLE"
    "us_reset_flag s2 = 0" "us_rx_giveback s2 = \<lparr>gb_status = RECV_READY, gb_actual = 0, gb_buf = None\<rparr>"
    "us_log s2 = us_log s @ [Usb_write (csw_bytes (csw_of (us_cbw s) (data_length s) CSW_GOOD)), Usb_arm 31 (us_rxbuf_num s)]"
    "us_lba s2 = us_lba s" "us_cmnd s2 = us_cmnd s" "us_rx_buffer s2 = us_rx_buffer s" "us_imgwr_mode s2 = us_imgwr_mode s"
    using assms(1) by (auto simp: set_csw_def csw_of_def writing_def csw_fields)
  let ?s' = "(emit (Write_lba (word_of_nat (l0 + m)) xs (word_of_nat k) (us_imgwr_mode s)) s2)\<lparr>us_lba := word_of_nat (l0 + m + k)\<rparr>"
  have "l0 + m < 0xFFF00000" using l k by simp
  from write_media_ok [OF _ _ this k(2) _ assms(4), of s2 "us_rx_buffer s ! i"]
  have wm: "write_media ext (us_rx_buffer s2 ! i) (word_of_nat k) s2 = Some ?s'" using b s2 w by simp
  have bl: "rx_block_length s = 512" using w(1) by (simp add: rx_block_length_def)
  have "rkusb_handle_datarx ext s = write_media ext (us_rx_buffer s2 ! i) (word_of_nat k) s2"
    using s2(1) kw by (simp add: rkusb_handle_datarx_def bl g d w(2) Let_def del: of_nat_mult of_nat_add)
  with wm s2 show ?thesis by (intro exI [of _ ?s']) (simp add: emit_def)
qed

subsection \<open>Rounds of a write command\<close>

definition write_round :: "nat \<Rightarrow> nat \<Rightarrow> nat \<Rightarrow> rockusb \<Rightarrow> bool" where
  "write_round l0 n m s \<longleftrightarrow> writing l0 n m s \<and> m < n \<and> us_status s = ST_RXDATA \<and>
     gb_status (us_rx_giveback s) = RECV_READY \<and> gb_status (us_tx_giveback s) = SEND_FINISHED_OK"

lemma write_roundD: "write_round l0 n m s \<Longrightarrow> writing l0 n m s" "write_round l0 n m s \<Longrightarrow> us_status s = ST_RXDATA"
  by (simp_all add: write_round_def)

lemma write_quiet: "write_round l0 n m s \<Longrightarrow> loop_body ext lr [] s = Some (False, emit Low_format_check s)"
  by (simp add: loop_body_def loop_work_def response_status_def rkusb_handle_response_def write_round_def
      writing_def reset_none rkusb_lowformat_check_def)

lemma writing_emit [simp]: "writing l0 n m (emit e s) = writing l0 n m s"
  by (simp add: writing_def emit_def tx_buffers_ok_def rx_buffers_ok_def)

lemma write_round_emit [simp]: "write_round l0 n m (emit e s) = write_round l0 n m s"
  by (simp add: write_round_def) (simp add: emit_def)

text \<open>The controller has stored \<open>xs\<close> and reports it.\<close>

lemma rx_done_arrives:
  assumes "writing l0 n m s" "us_status s = ST_RXDATA" "i < 2" "0 < k" "k \<le> 128" "length xs = 512 * k"
  shows "\<exists>s1. serve_irqs [Rx_done 0 (word_of_nat (512 * k)) i xs] s = Some s1 \<and> writing l0 n m s1 \<and>
    rx_arrived k xs i s1 \<and> us_status s1 = ST_RXDATA \<and> us_tx_giveback s1 = us_tx_giveback s \<and>
    us_log s1 = us_log s \<and> us_cbw s1 = us_cbw s"
proof -
  have r: "rx_buffers_ok s" and c: "us_cmnd s = 0x15" using assms(1) by (simp_all add: writing_def)
  then have i: "i < length (us_rx_buffer s)" "65536 \<le> length (us_rx_buffer s ! i)"
    using assms(3) by (auto simp: rx_buffers_ok_def)
  then obtain b where b: "poke (us_rx_buffer s ! i) 0 xs = Some b" using assms(5,6) by (simp add: poke_def)
  note t = poke_take [OF b]
  let ?s1 = "dwc3_rx_handler 0 (word_of_nat (512 * k)) i (s\<lparr>us_rx_buffer := (us_rx_buffer s)[i := b]\<rparr>)"
  have "rx_buffers_ok ?s1" using r i t
    by (auto simp: rx_buffers_ok_def dwc3_rx_handler_def dest!: set_update_subset_insert [THEN subsetD])
  then have "writing l0 n m ?s1"
    using assms(1) by (simp add: writing_def dwc3_rx_handler_def tx_buffers_ok_def rx_buffers_ok_def)
  moreover have "512 * k \<le> length b" using i(2) assms(5) t by linarith
  then have "rx_arrived k xs i ?s1"
    using assms(4-6) i(1) t c by (simp add: rx_arrived_def dwc3_rx_handler_def)
  ultimately show ?thesis using assms(2) b
    by (intro exI [of _ ?s1]) (simp add: dwc3_rx_handler_def)
qed

lemma loop_work_rx: "us_status s = ST_RXDATA \<Longrightarrow> gb_status (us_rx_giveback s) = RECV_OK \<Longrightarrow>
    rkusb_handle_datarx ext s = Some s' \<Longrightarrow> us_status s' \<noteq> ST_CSW \<Longrightarrow> loop_work ext s = Some s'"
  by (simp add: loop_work_def response_status_def rkusb_handle_response_def)

lemma write_next:
  assumes "write_round l0 n m s" "i < 2" "0 < k" "m + k < n" "k \<le> 128" "length xs = 512 * k" "unlocked ext"
  shows "\<exists>s'. loop_body ext lr [Rx_done 0 (word_of_nat (512 * k)) i xs] s = Some (False, s') \<and>
    write_round l0 n (m + k) s' \<and> us_cbw s' = us_cbw s \<and> usb_out (us_log s') = usb_out (us_log s) \<and>
    lba_writes (us_log s') = lba_writes (us_log s) @ [(l0 + m, xs)]"
proof -
  obtain s1 where s1: "serve_irqs [Rx_done 0 (word_of_nat (512 * k)) i xs] s = Some s1" "writing l0 n m s1"
    "rx_arrived k xs i s1" "us_status s1 = ST_RXDATA" "us_tx_giveback s1 = us_tx_giveback s" "us_log s1 = us_log s"
    "us_cbw s1 = us_cbw s"
    using rx_done_arrives [OF write_roundD(1) [OF assms(1)] write_roundD(2) [OF assms(1)] assms(2,3,5,6)] by blast
  obtain s2 where s2: "rkusb_handle_datarx ext s1 = Some s2" "writing l0 n (m + k) s2" "us_status s2 = ST_RXDATA"
    "us_rx_giveback s2 = \<lparr>gb_status = RECV_READY, gb_actual = 0, gb_buf = None\<rparr>" "us_cbw s2 = us_cbw s1"
    "us_tx_giveback s2 = us_tx_giveback s1"
    "us_log s2 = us_log s1 @ [Usb_arm (word_of_nat (512 * chunk n (m + k))) (us_rxbuf_num s1),
      Write_lba (word_of_nat (l0 + m)) xs (word_of_nat k) (us_imgwr_mode s1)]"
    using datarx_more [OF s1(2,3) assms(4,7)] by blast
  have "loop_work ext s1 = Some s2" using loop_work_rx [OF s1(4) _ s2(1)] s1(3) s2(3) by (simp add: rx_arrived_def)
  moreover have "us_reset_flag s2 = 0" using s2(2) by (simp add: writing_def)
  ultimately have "loop_body ext lr [Rx_done 0 (word_of_nat (512 * k)) i xs] s = Some (False, emit Low_format_check s2)"
    using s1(1) by (simp add: loop_body_def reset_none rkusb_lowformat_check_def)
  moreover have "write_round l0 n (m + k) (emit Low_format_check s2)"
    using s2 s1(5) assms(1,4) by (simp add: write_round_def) (simp add: emit_def)
  moreover have "l0 + m < 2 ^ 32" using s1(2) assms(4) by (simp add: writing_def)
  then have "unat (word_of_nat (l0 + m) :: u32) = l0 + m" by (rule unat_small)
  ultimately show ?thesis using s1(6,7) s2(5,7)
    by (intro exI [of _ "emit Low_format_check s2"]) (simp add: emit_def del: of_nat_add)
qed

lemma write_last:
  assumes "write_round l0 n m s" "i < 2" "0 < k" "m + k = n" "k \<le> 128" "length xs = 512 * k" "unlocked ext"
  shows "\<exists>s'. loop_body ext lr [Rx_done 0 (word_of_nat (512 * k)) i xs] s = Some (False, s') \<and>
    us_status s' = ST_IDLE \<and> us_reset_flag s' = 0 \<and> gb_actual (us_rx_giveback s') = 0 \<and>
    usb_out (us_log s') = usb_out (us_log s) @ [csw_bytes (csw_of (us_cbw s) (data_length s) CSW_GOOD)] \<and>
    lba_writes (us_log s') = lba_writes (us_log s) @ [(l0 + m, xs)]"
proof -
  obtain s1 where s1: "serve_irqs [Rx_done 0 (word_of_nat (512 * k)) i xs] s = Some s1" "writing l0 n m s1"
    "rx_arrived k xs i s1" "us_status s1 = ST_RXDATA" "us_tx_giveback s1 = us_tx_giveback s" "us_log s1 = us_log s"
    "us_cbw s1 = us_cbw s"
    using rx_done_arrives [OF write_roundD(1) [OF assms(1)] write_roundD(2) [OF assms(1)] assms(2,3,5,6)] by blast
  have "gb_status (us_tx_giveback s1) = SEND_FINISHED_OK" using assms(1) s1(5) by (simp add: write_round_def)
  from datarx_last [OF s1(2,3) assms(4,7) this] obtain s2 where s2: "rkusb_handle_datarx ext s1 = Some s2"
    "us_status s2 = ST_IDLE" "us_reset_flag s2 = 0" "gb_actual (us_rx_giveback s2) = 0"
    "us_log s2 = us_log s1 @ [Usb_write (csw_bytes (csw_of (us_cbw s1) (data_length s1) CSW_GOOD)), Usb_arm 31 (us_rxbuf_num s1),
      Write_lba (word_of_nat (l0 + m)) xs (word_of_nat k) (us_imgwr_mode s1)]"
    by blast
  have "loop_work ext s1 = Some s2" using loop_work_rx [OF s1(4) _ s2(1)] s1(3) s2(2) by (simp add: rx_arrived_def)
  then have "loop_body ext lr [Rx_done 0 (word_of_nat (512 * k)) i xs] s = Some (False, emit Low_format_check s2)"
    using s1(1) s2(3) by (simp add: loop_body_def reset_none rkusb_lowformat_check_def)
  moreover have "l0 + m < 2 ^ 32" using s1(2) by (simp add: writing_def)
  then have "unat (word_of_nat (l0 + m) :: u32) = l0 + m" by (rule unat_small)
  ultimately show ?thesis using s1(6,7) s2
    by (intro exI [of _ "emit Low_format_check s2"]) (simp add: emit_def del: of_nat_add)
qed

text \<open>
  The host's rounds: quiet ones, and receives that deliver, in one of the two buffers, the
  next chunk of \<open>data\<close> in the size the gadget asked for.
\<close>

fun rx_rounds :: "nat \<Rightarrow> u8 list \<Rightarrow> rk_irq list list \<Rightarrow> bool" where
  "rx_rounds r data [] = (r = 0 \<and> data = [])"
| "rx_rounds r data ([] # rs) = rx_rounds r data rs"
| "rx_rounds r data ([Rx_done st a i xs] # rs) =
     (let k = min 128 r in st = 0 \<and> 0 < r \<and> i < 2 \<and> length xs = 512 * k \<and> a = word_of_nat (512 * k) \<and>
        xs = take (512 * k) data \<and> rx_rounds (r - k) (drop (512 * k) data) rs)"
| "rx_rounds r data (_ # rs) = False"

lemma idle_write_rounds: "us_status s = ST_IDLE \<Longrightarrow> gb_actual (us_rx_giveback s) = 0 \<Longrightarrow> us_reset_flag s = 0 \<Longrightarrow>
    rx_rounds 0 data rs \<Longrightarrow> \<exists>s'. do_rockusb ext lr rs s = Some (False, s') \<and> us_status s' = ST_IDLE \<and>
      usb_out (us_log s') = usb_out (us_log s) \<and> lba_writes (us_log s') = lba_writes (us_log s) \<and> data = []"
proof (induction rs arbitrary: s)
  case Nil
  then show ?case by simp
next
  case (Cons r rs)
  then have "r = []" by (cases "(0 :: nat, data, r # rs)" rule: rx_rounds.cases) auto
  moreover obtain s' where "do_rockusb ext lr rs (emit Low_format_check s) = Some (False, s')" "us_status s' = ST_IDLE"
      "usb_out (us_log s') = usb_out (us_log s)" "lba_writes (us_log s') = lba_writes (us_log s)" "data = []"
    using Cons.IH [of "emit Low_format_check s"] Cons.prems calculation by (auto simp: emit_def)
  ultimately show ?case using Cons.prems by (simp add: idle_quiet)
qed

lemma write_rounds:
  assumes "write_round l0 n m s" "rx_rounds (n - m) data rs" "unlocked ext"
  shows "\<exists>s' ws. do_rockusb ext lr rs s = Some (False, s') \<and> us_status s' = ST_IDLE \<and>
    usb_out (us_log s') = usb_out (us_log s) @ [csw_bytes (csw_of (us_cbw s) (data_length s) CSW_GOOD)] \<and>
    lba_writes (us_log s') = lba_writes (us_log s) @ ws \<and> contiguous (l0 + m) ws \<and> concat (map snd ws) = data"
  using assms
proof (induction rs arbitrary: s m data)
  case Nil
  then show ?case by (simp add: write_round_def)
next
  case (Cons r rs)
  have m: "m < n" using Cons.prems(1) by (simp add: write_round_def)
  show ?case
  proof (cases r)
    case Nil
    with Cons.prems have "rx_rounds (n - m) data rs" by simp
    moreover have "us_cbw (emit Low_format_check s) = us_cbw s"
      "lba_writes (us_log (emit Low_format_check s)) = lba_writes (us_log s)" by (simp_all add: emit_def)
    ultimately show ?thesis
      using Cons.IH [of m "emit Low_format_check s" data] Cons.prems(1,3) write_quiet [OF Cons.prems(1)] Nil by simp
  next
    case (Cons q qs)
    let ?k = "chunk n m"
    obtain i xs where r: "r = [Rx_done 0 (word_of_nat (512 * ?k)) i xs]" and i: "i < 2" and len: "length xs = 512 * ?k"
      and xs: "xs = take (512 * ?k) data" and rs: "rx_rounds (n - m - ?k) (drop (512 * ?k) data) rs"
      using Cons Cons.prems(2) by (cases "(n - m, data, r # rs)" rule: rx_rounds.cases) (auto simp: Let_def)
    have k: "0 < ?k" "?k \<le> 128" using m by simp_all
    show ?thesis
    proof (cases "m + ?k = n")
      case True
      obtain s1 where s1: "loop_body ext lr r s = Some (False, s1)" "us_status s1 = ST_IDLE" "us_reset_flag s1 = 0"
        "gb_actual (us_rx_giveback s1) = 0"
        "usb_out (us_log s1) = usb_out (us_log s) @ [csw_bytes (csw_of (us_cbw s) (data_length s) CSW_GOOD)]"
        "lba_writes (us_log s1) = lba_writes (us_log s) @ [(l0 + m, xs)]"
        using write_last [OF Cons.prems(1) i k(1) True k(2) len Cons.prems(3)] r by blast
      have "rx_rounds 0 (drop (512 * ?k) data) rs" using rs True by simp
      from idle_write_rounds [OF s1(2,4,3) this] obtain s' where
        s': "do_rockusb ext lr rs s1 = Some (False, s')" "us_status s' = ST_IDLE"
          "usb_out (us_log s') = usb_out (us_log s1)" "lba_writes (us_log s') = lba_writes (us_log s1)"
          "drop (512 * ?k) data = []" by blast
      have "data = xs" using xs s'(5) append_take_drop_id [of "512 * ?k" data] by simp
      moreover have "contiguous (l0 + m) [(l0 + m, xs)]" by (simp add: len)
      ultimately show ?thesis using s1 s' by (intro exI [of _ s'] exI [of _ "[(l0 + m, xs)]"]) simp
    next
      case False
      then have mk: "m + ?k < n" using m by (simp add: min_def split: if_splits)
      obtain s1 where s1: "loop_body ext lr r s = Some (False, s1)" "write_round l0 n (m + ?k) s1" "us_cbw s1 = us_cbw s"
        "usb_out (us_log s1) = usb_out (us_log s)" "lba_writes (us_log s1) = lba_writes (us_log s) @ [(l0 + m, xs)]"
        using write_next [OF Cons.prems(1) i k(1) mk k(2) len Cons.prems(3)] r by blast
      have "rx_rounds (n - (m + ?k)) (drop (512 * ?k) data) rs" using rs by simp
      from Cons.IH [OF s1(2) this Cons.prems(3)] obtain s' ws where
        s': "do_rockusb ext lr rs s1 = Some (False, s')" "us_status s' = ST_IDLE"
          "usb_out (us_log s') = usb_out (us_log s1) @ [csw_bytes (csw_of (us_cbw s1) (data_length s1) CSW_GOOD)]"
          "lba_writes (us_log s') = lba_writes (us_log s1) @ ws" "contiguous (l0 + (m + ?k)) ws"
          "concat (map snd ws) = drop (512 * ?k) data" by blast
      have "contiguous (l0 + m) ((l0 + m, xs) # ws)" using s'(5) by (simp add: len add.assoc)
      moreover have "concat (map snd ((l0 + m, xs) # ws)) = data"
        using s'(6) xs append_take_drop_id [of "512 * ?k" data] by simp
      ultimately show ?thesis using s1 s' by (intro exI [of _ s'] exI [of _ "(l0 + m, xs) # ws"]) simp
    qed
  qed
qed

subsection \<open>From the command to the status\<close>

lemma drop_preread_frame: "\<exists>p. drop_preread b s = s\<lparr>us_pre_read := p\<rparr>"
  by (cases s) (auto simp: drop_preread_def Let_def)

lemma write_cmd_step:
  assumes "command_received c s" "cb_CDB c ! 0 = 0x15"
  shows "\<exists>p. do_rockusb_cmd ext (s\<lparr>us_status := ST_CMD\<rparr>) = Some (s\<lparr>us_cbw := c, us_cmnd := 0x15,
    us_d_size := word_of_nat (512 * req_sectors c), us_d_bytes := 0, us_lba := word_of_nat (req_lba c),
    us_imgwr_mode := ucast (cb_CDB c ! 1), us_pre_read := p,
    us_rx_giveback := (us_rx_giveback s)\<lparr>gb_actual := 0\<rparr>, us_status := ST_RXDATA_PREPARE\<rparr>)"
proof -
  let ?s1 = "s\<lparr>us_status := ST_CMD, us_cbw := c, us_cmnd := 0x15\<rparr>"
  have "do_rockusb_cmd ext (s\<lparr>us_status := ST_CMD\<rparr>) = Some (FW_LBAWrite10 ?s1)"
    using command_decoded [OF assms(1)] assms(2) by (auto simp: do_rockusb_cmd_def)
  moreover have "\<exists>p. FW_LBAWrite10 ?s1 = s\<lparr>us_cbw := c, us_cmnd := 0x15,
    us_d_size := word_of_nat (512 * req_sectors c), us_d_bytes := 0, us_lba := word_of_nat (req_lba c),
    us_imgwr_mode := ucast (cb_CDB c ! 1), us_pre_read := p,
    us_rx_giveback := (us_rx_giveback s)\<lparr>gb_actual := 0\<rparr>, us_status := ST_RXDATA_PREPARE\<rparr>"
  proof -
    let ?s2 = "?s1\<lparr>us_d_size := word_of_nat (512 * req_sectors c), us_d_bytes := 0,
      us_lba := word_of_nat (req_lba c), us_imgwr_mode := ucast (cb_CDB c ! 1)\<rparr>"
    obtain p where "drop_preread (us_d_size ?s2 div 512) ?s2 = ?s2\<lparr>us_pre_read := p\<rparr>" using drop_preread_frame by blast
    then show ?thesis
      by (intro exI [of _ p]) (simp add: FW_LBAWrite10_def Let_def req_words(2) mult.commute [of _ 512]
          req_words(1) [unfolded mult.commute [of _ 512]] del: of_nat_mult)
  qed
  ultimately show ?thesis by auto
qed

lemma write_first:
  assumes "command_received c s" "cb_CDB c ! 0 = 0x15" "0 < req_sectors c" "req_lba c + req_sectors c \<le> 0xFFF00000"
    "tx_buffers_ok s" "rx_buffers_ok s" "gb_status (us_tx_giveback s) = SEND_FINISHED_OK"
  shows "\<exists>s'. loop_body ext lr [] s = Some (False, s') \<and> write_round (req_lba c) (req_sectors c) 0 s' \<and> us_cbw s' = c \<and>
    usb_out (us_log s') = usb_out (us_log s) \<and> lba_writes (us_log s') = lba_writes (us_log s)"
proof -
  let ?n = "req_sectors c"
  obtain p where p: "do_rockusb_cmd ext (s\<lparr>us_status := ST_CMD\<rparr>) = Some (s\<lparr>us_cbw := c, us_cmnd := 0x15,
    us_d_size := word_of_nat (512 * ?n), us_d_bytes := 0, us_lba := word_of_nat (req_lba c),
    us_imgwr_mode := ucast (cb_CDB c ! 1), us_pre_read := p,
    us_rx_giveback := (us_rx_giveback s)\<lparr>gb_actual := 0\<rparr>, us_status := ST_RXDATA_PREPARE\<rparr>)" (is "_ = Some ?s1")
    using write_cmd_step [OF assms(1,2)] by blast
  let ?s2 = "(next_rxbuf (rkusb_read_bulk_ep (word_of_nat (512 * chunk ?n 0)) ?s1))\<lparr>us_status := ST_RXDATA\<rparr>"
  have "(0 :: u32) < word_of_nat (512 * ?n)" using rx_less [of 0 ?n] assms(3) req_sectors_less [of c] by simp
  moreover have "rx_block_length ?s1 = 512" by (simp add: rx_block_length_def)
  ultimately have h: "rkusb_handle_datarx ext ?s1 = Some ?s2"
    using rx_request [OF assms(3) req_sectors_less]
    by (simp add: rkusb_handle_datarx_def Let_def del: of_nat_mult)
  have c: "us_status s = ST_IDLE" "0 < gb_actual (us_rx_giveback s)" "us_reset_flag s = 0"
    using assms(1) by (simp_all add: command_received_def)
  have "loop_work ext s = Some ?s2"
    using c p h by (simp add: loop_work_def response_status_def rkusb_handle_response_def del: of_nat_mult)
  then have "loop_body ext lr [] s = Some (False, emit Low_format_check ?s2)"
    using c(3) by (simp add: loop_body_def reset_none rkusb_lowformat_check_def next_rxbuf_def rkusb_read_bulk_ep_def emit_def
        del: of_nat_mult)
  moreover have "write_round (req_lba c) ?n 0 ?s2"
    using assms(3-7) c(3) req_sectors_less [of c]
    by (simp add: write_round_def writing_def next_rxbuf_def rkusb_read_bulk_ep_def emit_def tx_buffers_ok_def rx_buffers_ok_def)
  ultimately show ?thesis
    by (intro exI [of _ "emit Low_format_check ?s2"]) (simp, simp add: next_rxbuf_def rkusb_read_bulk_ep_def emit_def)
qed

lemma write_command:
  assumes "command_received c s" "cb_CDB c ! 0 = 0x15" "0 < req_sectors c" "req_lba c + req_sectors c \<le> 0xFFF00000"
    "tx_buffers_ok s" "rx_buffers_ok s" "gb_status (us_tx_giveback s) = SEND_FINISHED_OK" "unlocked ext"
    "rx_rounds (req_sectors c) data rs"
  shows "\<exists>s' ws. do_rockusb ext lr ([] # rs) s = Some (False, s') \<and> us_status s' = ST_IDLE \<and>
    usb_out (us_log s') = usb_out (us_log s) @ [csw_bytes (csw_of c (cb_DataTransferLength c) CSW_GOOD)] \<and>
    lba_writes (us_log s') = lba_writes (us_log s) @ ws \<and> contiguous (req_lba c) ws \<and> concat (map snd ws) = data"
proof -
  obtain s1 where s1: "loop_body ext lr [] s = Some (False, s1)" "write_round (req_lba c) (req_sectors c) 0 s1"
    "us_cbw s1 = c" "usb_out (us_log s1) = usb_out (us_log s)" "lba_writes (us_log s1) = lba_writes (us_log s)"
    using write_first [OF assms(1-7)] by blast
  have "rx_rounds (req_sectors c - 0) data rs" using assms(9) by simp
  from write_rounds [OF s1(2) this assms(8)] s1 show ?thesis by fastforce
qed

end
