(* ===== verification/Rockusb_Faults.thy ===== *)
theory Rockusb_Faults
  imports Rockusb_Write
begin

text \<open>
  Where the Rockusb gadget goes wrong or must not: a status that cannot be sent, an unknown
  command, a read of no sectors, a prefetch that survives a cleared endpoint; and the
  secure-boot lock over arbitrary runs.
\<close>

subsection \<open>A status wrapper that cannot be sent\<close>

text \<open>The last chunk is in hand, and the transmit endpoint is not free.\<close>

definition stuck :: "nat \<Rightarrow> nat \<Rightarrow> u8 list \<Rightarrow> nat \<Rightarrow> rockusb \<Rightarrow> bool" where
  "stuck l k xs i s \<longleftrightarrow> rx_arrived k xs i s \<and> us_lba s = word_of_nat l \<and> us_status s = ST_RXDATA \<and>
     gb_status (us_tx_giveback s) \<noteq> SEND_FINISHED_OK \<and> us_reset_flag s = 0 \<and>
     unat (us_d_size s) \<le> unat (us_d_bytes s) + 512 * k"

lemma stuck_step:
  assumes "stuck l k xs i s" "unlocked ext" "l + k \<le> 0xFFF00000" "unat (us_d_bytes s) + 512 * k < 2 ^ 32"
  shows "\<exists>s'. loop_work ext s = Some s' \<and> stuck (l + k) k xs i s' \<and> us_reset_flag s' = 0 \<and>
    unat (us_d_bytes s') = unat (us_d_bytes s) + 512 * k \<and> usb_out (us_log s') = usb_out (us_log s) \<and>
    lba_writes (us_log s') = lba_writes (us_log s) @ [(l, xs)]"
proof -
  have a: "rx_arrived k xs i s" "us_lba s = word_of_nat l" "us_status s = ST_RXDATA"
    "gb_status (us_tx_giveback s) \<noteq> SEND_FINISHED_OK" "us_reset_flag s = 0"
    "unat (us_d_size s) \<le> unat (us_d_bytes s) + 512 * k"
    using assms(1) by (simp_all add: stuck_def)
  have k: "0 < k" "k \<le> 128" and c: "us_cmnd s = 0x15"
    and g: "us_rx_giveback s = \<lparr>gb_status = RECV_OK, gb_actual = word_of_nat (512 * k), gb_buf = Some i\<rparr>"
    and b: "512 * k \<le> length (us_rx_buffer s ! i)" "take (512 * k) (us_rx_buffer s ! i) = xs"
    using a(1) by (simp_all add: rx_arrived_def)
  note kw = rx_chunk_words [OF k]
  have u: "unat (us_d_bytes s + word_of_nat (512 * k)) = unat (us_d_bytes s) + 512 * k"
    using assms(4) k by (subst unat_add_lem [THEN iffD1]) (simp_all add: unat_small del: of_nat_mult)
  then have nl: "\<not> us_d_bytes s + word_of_nat (512 * k) < us_d_size s" using a(6) by (simp add: word_less_nat_alt)
  let ?s1 = "set_csw (data_length s) CSW_GOOD (s\<lparr>us_d_bytes := us_d_bytes s + word_of_nat (512 * k)\<rparr>)"
  let ?s' = "(emit (Write_lba (word_of_nat l) xs (word_of_nat k) (us_imgwr_mode s)) ?s1)\<lparr>us_lba := word_of_nat (l + k)\<rparr>"
  have busy: "rkusb_send_csw ?s1 = Some (- EBUSY, ?s1)" using a(4) by (simp add: rkusb_send_csw_def set_csw_def)
  have f: "us_cmnd ?s1 = 0x15" "us_lba ?s1 = word_of_nat l" "us_rx_buffer ?s1 = us_rx_buffer s"
    "us_imgwr_mode ?s1 = us_imgwr_mode s" using c a(2) by (simp_all add: set_csw_def)
  have "l < 0xFFF00000" using assms(3) k by simp
  from write_media_ok [OF f(1,2) this k(2) b(1) assms(2)]
  have wm: "write_media ext (us_rx_buffer ?s1 ! i) (word_of_nat k) ?s1 = Some ?s'" using b(2) f(3,4) by simp
  have bl: "rx_block_length s = 512" using c by (simp add: rx_block_length_def)
  have "rkusb_handle_datarx ext s = write_media ext (us_rx_buffer ?s1 ! i) (word_of_nat k) ?s1"
    using nl kw busy by (simp add: rkusb_handle_datarx_def bl g Let_def del: of_nat_mult)
  then have "loop_work ext s = Some ?s'"
    using wm a(3) g by (intro loop_work_rx) (simp_all add: emit_def set_csw_def del: of_nat_mult)
  moreover have "stuck (l + k) k xs i ?s'"
    using a c k g b u by (simp add: stuck_def rx_arrived_def emit_def set_csw_def del: of_nat_mult of_nat_add)
  moreover have "unat (word_of_nat l :: u32) = l" using assms(3) k by (intro unat_small) simp
  ultimately show ?thesis using u a(5)
    by (intro exI [of _ ?s']) (simp add: emit_def set_csw_def del: of_nat_mult of_nat_add)
qed

lemma stuck_emit [simp]: "stuck l k xs i (emit Low_format_check s) = stuck l k xs i s"
  by (simp add: stuck_def rx_arrived_def emit_def)

lemma stuck_round:
  assumes "stuck l k xs i s" "unlocked ext" "l + k \<le> 0xFFF00000" "unat (us_d_bytes s) + 512 * k < 2 ^ 32"
    "serve_irqs irqs s0 = Some s"
  shows "\<exists>s'. loop_body ext lr irqs s0 = Some (False, s') \<and> stuck (l + k) k xs i s' \<and>
    unat (us_d_bytes s') = unat (us_d_bytes s) + 512 * k \<and> usb_out (us_log s') = usb_out (us_log s) \<and>
    lba_writes (us_log s') = lba_writes (us_log s) @ [(l, xs)]"
proof -
  obtain s' where s': "loop_work ext s = Some s'" "stuck (l + k) k xs i s'" "us_reset_flag s' = 0"
    "unat (us_d_bytes s') = unat (us_d_bytes s) + 512 * k" "usb_out (us_log s') = usb_out (us_log s)"
    "lba_writes (us_log s') = lba_writes (us_log s) @ [(l, xs)]"
    using stuck_step [OF assms(1-4)] by blast
  then have "loop_body ext lr irqs s0 = Some (False, emit Low_format_check s')"
    using assms(5) by (simp add: loop_body_def reset_none rkusb_lowformat_check_def)
  with s' show ?thesis by (intro exI [of _ "emit Low_format_check s'"]) (simp, simp add: emit_def)
qed

lemma stuck_rounds:
  "stuck l k xs i s \<Longrightarrow> unlocked ext \<Longrightarrow> l + k * q \<le> 0xFFF00000 \<Longrightarrow> unat (us_d_bytes s) + 512 * k * q < 2 ^ 32 \<Longrightarrow>
   \<exists>s'. do_rockusb ext lr (replicate q []) s = Some (False, s') \<and> usb_out (us_log s') = usb_out (us_log s) \<and>
     lba_writes (us_log s') = lba_writes (us_log s) @ map (\<lambda>j. (l + k * j, xs)) [0..<q]"
proof (induction q arbitrary: l s)
  case 0
  then show ?case by simp
next
  case (Suc q)
  have "l + k \<le> 0xFFF00000" "unat (us_d_bytes s) + 512 * k < 2 ^ 32" using Suc.prems(3,4) by simp_all
  from stuck_round [OF Suc.prems(1,2) this, of "[]" s lr] obtain s1 where
    s1: "loop_body ext lr [] s = Some (False, s1)" "stuck (l + k) k xs i s1"
      "unat (us_d_bytes s1) = unat (us_d_bytes s) + 512 * k" "usb_out (us_log s1) = usb_out (us_log s)"
      "lba_writes (us_log s1) = lba_writes (us_log s) @ [(l, xs)]" by auto
  have "l + k + k * q \<le> 0xFFF00000" "unat (us_d_bytes s1) + 512 * k * q < 2 ^ 32"
    using Suc.prems(3,4) s1(3) by (simp_all add: algebra_simps)
  from Suc.IH [OF s1(2) Suc.prems(2) this] obtain s' where
    s': "do_rockusb ext lr (replicate q []) s1 = Some (False, s')" "usb_out (us_log s') = usb_out (us_log s1)"
      "lba_writes (us_log s') = lba_writes (us_log s1) @ map (\<lambda>j. (l + k + k * j, xs)) [0..<q]" by blast
  have "map (\<lambda>j. (l + k * j, xs)) [0..<Suc q] = (l, xs) # map (\<lambda>j. (l + k + k * j, xs)) [0..<q]"
    by (simp add: upt_conv_Cons map_Suc_upt [symmetric] add.assoc del: upt_Suc)
  with s1 s' show ?case by simp
qed

lemma last_chunk_repeats:
  assumes "writing l0 n m s" "us_status s = ST_RXDATA" "gb_status (us_tx_giveback s) \<noteq> SEND_FINISHED_OK"
    "i < 2" "0 < k" "m + k = n" "k \<le> 128" "length xs = 512 * k" "unlocked ext"
    "l0 + n + k * q \<le> 0xFFF00000" "512 * (n + k * q) < 2 ^ 32"
  shows "\<exists>s'. do_rockusb ext lr ([Rx_done 0 (word_of_nat (512 * k)) i xs] # replicate q []) s = Some (False, s') \<and>
    usb_out (us_log s') = usb_out (us_log s) \<and>
    lba_writes (us_log s') = lba_writes (us_log s) @ map (\<lambda>j. (l0 + m + k * j, xs)) [0..<Suc q]"
proof -
  obtain s1 where s1: "serve_irqs [Rx_done 0 (word_of_nat (512 * k)) i xs] s = Some s1" "writing l0 n m s1"
    "rx_arrived k xs i s1" "us_status s1 = ST_RXDATA" "us_tx_giveback s1 = us_tx_giveback s" "us_log s1 = us_log s"
    using rx_done_arrives [OF assms(1,2,4,5,7,8)] by blast
  have w: "us_d_size s1 = word_of_nat (512 * n)" "us_d_bytes s1 = word_of_nat (512 * m)" "us_lba s1 = word_of_nat (l0 + m)"
    "us_reset_flag s1 = 0" "n < 65536" using s1(2) by (simp_all add: writing_def)
  have d: "unat (us_d_bytes s1) = 512 * m" "unat (us_d_size s1) = 512 * n"
    using assms(6) w(5) by (simp_all only: w(1,2)) (rule unat_small, simp)+
  have st: "stuck (l0 + m) k xs i s1" using s1 w(3,4) d assms(3,6) by (simp add: stuck_def)
  have "l0 + m + k \<le> 0xFFF00000" "unat (us_d_bytes s1) + 512 * k < 2 ^ 32"
    using assms(6,10) w(5) d by (auto simp flip: assms(6))
  from stuck_round [OF st assms(9) this s1(1)] obtain s2 where
    s2: "loop_body ext lr [Rx_done 0 (word_of_nat (512 * k)) i xs] s = Some (False, s2)" "stuck (l0 + m + k) k xs i s2"
      "unat (us_d_bytes s2) = unat (us_d_bytes s1) + 512 * k" "usb_out (us_log s2) = usb_out (us_log s1)"
      "lba_writes (us_log s2) = lba_writes (us_log s1) @ [(l0 + m, xs)]" by blast
  have "l0 + m + k + k * q \<le> 0xFFF00000" "unat (us_d_bytes s2) + 512 * k * q < 2 ^ 32"
    using assms(6,10,11) s2(3) d by (simp_all add: algebra_simps)
  from stuck_rounds [OF s2(2) assms(9) this] obtain s' where
    s': "do_rockusb ext lr (replicate q []) s2 = Some (False, s')" "usb_out (us_log s') = usb_out (us_log s2)"
      "lba_writes (us_log s') = lba_writes (us_log s2) @ map (\<lambda>j. (l0 + m + k + k * j, xs)) [0..<q]" by blast
  have "map (\<lambda>j. (l0 + m + k * j, xs)) [0..<Suc q] = (l0 + m, xs) # map (\<lambda>j. (l0 + m + k + k * j, xs)) [0..<q]"
    by (simp add: upt_conv_Cons map_Suc_upt [symmetric] add.assoc del: upt_Suc)
  with s2 s' s1(6) show ?thesis by simp
qed

subsection \<open>An unknown command\<close>

definition known_commands :: "u8 list" where
  "known_commands = [0x00, 0x01, 0x03, 0x04, 0x05, 0x06, 0x0b, 0x14, 0x15, 0x16, 0x1A, 0x1B, 0x1C, 0x1E, 0xff]"

lemma unknown_step: "command_received c s \<Longrightarrow> cb_CDB c ! 0 \<notin> set known_commands \<Longrightarrow>
    do_rockusb_cmd ext (s\<lparr>us_status := ST_CMD\<rparr>) =
      Some (s\<lparr>us_status := ST_CMD, us_cbw := c, us_cmnd := ucast (cb_CDB c ! 0)\<rparr>)"
  using command_decoded [of c s] by (auto simp: do_rockusb_cmd_def known_commands_def Let_def)

text \<open>Transfers end, in time or not; no device event comes.\<close>

fun transfer_irq :: "rk_irq \<Rightarrow> bool" where
  "transfer_irq (Rx_done st a i xs) = (i < 2 \<and> length xs \<le> 65536)"
| "transfer_irq (Tx_done st a i) = True"
| "transfer_irq (Device_event e) = False"

lemma transfer_irq_frame:
  assumes "transfer_irq q" "rx_buffers_ok s"
  shows "\<exists>s'. serve_irq q s = Some s' \<and> rx_buffers_ok s' \<and> us_status s' = us_status s \<and> us_log s' = us_log s \<and>
    us_reset_flag s' = us_reset_flag s"
proof (cases q)
  case (Rx_done st a i xs)
  have "65536 \<le> length (us_rx_buffer s ! i)" using assms Rx_done by (simp add: rx_buffers_ok_def)
  then obtain b where b: "poke (us_rx_buffer s ! i) 0 xs = Some b" using assms Rx_done by (auto simp: poke_def)
  then have "65536 \<le> length b" using poke_take [OF b] \<open>65536 \<le> _\<close> by simp
  then have "rx_buffers_ok (s\<lparr>us_rx_buffer := (us_rx_buffer s)[i := b]\<rparr>)"
    using assms(2) by (auto simp: rx_buffers_ok_def dest!: set_update_subset_insert [THEN subsetD])
  then show ?thesis using Rx_done b by (simp add: dwc3_rx_handler_def rx_buffers_ok_def)
next
  case (Tx_done st a i)
  then show ?thesis using assms(2) by (simp add: dwc3_tx_handler_def rx_buffers_ok_def)
qed (use assms in simp)

lemma transfer_irqs_frame:
  "list_all transfer_irq qs \<Longrightarrow> rx_buffers_ok s \<Longrightarrow>
   \<exists>s'. serve_irqs qs s = Some s' \<and> rx_buffers_ok s' \<and> us_status s' = us_status s \<and> us_log s' = us_log s \<and>
     us_reset_flag s' = us_reset_flag s"
proof (induction qs arbitrary: s)
  case Nil
  then show ?case by simp
next
  case (Cons q qs)
  then obtain s1 where s1: "serve_irq q s = Some s1" "rx_buffers_ok s1" "us_status s1 = us_status s"
    "us_log s1 = us_log s" "us_reset_flag s1 = us_reset_flag s"
    using transfer_irq_frame [of q s] by auto
  with Cons.IH [of s1] Cons.prems(1) show ?case by simp
qed

lemma cmd_round:
  assumes "us_status s = ST_CMD" "us_reset_flag s = 0" "rx_buffers_ok s" "list_all transfer_irq qs"
  shows "\<exists>s'. loop_body ext lr qs s = Some (False, s') \<and> us_status s' = ST_CMD \<and> us_reset_flag s' = 0 \<and>
    rx_buffers_ok s' \<and> us_log s' = us_log s @ [Low_format_check]"
proof -
  obtain s1 where s1: "serve_irqs qs s = Some s1" "rx_buffers_ok s1" "us_status s1 = ST_CMD" "us_log s1 = us_log s"
    "us_reset_flag s1 = 0"
    using transfer_irqs_frame [OF assms(4,3)] assms(1,2) by auto
  then have "loop_body ext lr qs s = Some (False, emit Low_format_check s1)"
    by (simp add: loop_body_def loop_work_def response_status_def reset_none rkusb_lowformat_check_def)
  with s1 show ?thesis by (intro exI [of _ "emit Low_format_check s1"]) (simp add: emit_def rx_buffers_ok_def)
qed

lemma cmd_rounds:
  "us_status s = ST_CMD \<Longrightarrow> us_reset_flag s = 0 \<Longrightarrow> rx_buffers_ok s \<Longrightarrow> list_all (list_all transfer_irq) rs \<Longrightarrow>
   \<exists>s'. do_rockusb ext lr rs s = Some (False, s') \<and> us_status s' = ST_CMD \<and>
     us_log s' = us_log s @ replicate (length rs) Low_format_check"
proof (induction rs arbitrary: s)
  case Nil
  then show ?case by simp
next
  case (Cons qs rs)
  then obtain s1 where s1: "loop_body ext lr qs s = Some (False, s1)" "us_status s1 = ST_CMD" "us_reset_flag s1 = 0"
    "rx_buffers_ok s1" "us_log s1 = us_log s @ [Low_format_check]"
    using cmd_round [of s qs ext lr] by auto
  with Cons.IH [OF s1(2-4)] Cons.prems(4) show ?case by auto
qed

lemma unknown_hangs:
  assumes "command_received c s" "cb_CDB c ! 0 \<notin> set known_commands" "rx_buffers_ok s"
    "list_all (list_all transfer_irq) rs"
  shows "\<exists>s'. do_rockusb ext lr ([] # rs) s = Some (False, s') \<and> us_status s' = ST_CMD \<and>
    us_log s' = us_log s @ replicate (Suc (length rs)) Low_format_check"
proof -
  let ?s1 = "s\<lparr>us_status := ST_CMD, us_cbw := c, us_cmnd := ucast (cb_CDB c ! 0)\<rparr>"
  have "us_status s = ST_IDLE" "0 < gb_actual (us_rx_giveback s)" "us_reset_flag s = 0"
    using assms(1) by (simp_all add: command_received_def)
  then have b: "loop_body ext lr [] s = Some (False, emit Low_format_check ?s1)"
    using unknown_step [OF assms(1,2)]
    by (simp add: loop_body_def loop_work_def response_status_def reset_none rkusb_lowformat_check_def)
  have "us_reset_flag s = 0" using assms(1) by (simp add: command_received_def)
  then have "us_status (emit Low_format_check ?s1) = ST_CMD" "us_reset_flag (emit Low_format_check ?s1) = 0"
    "rx_buffers_ok (emit Low_format_check ?s1)" using assms(3) by (simp_all add: emit_def rx_buffers_ok_def)
  from cmd_rounds [OF this assms(4)] obtain s' where
    s': "do_rockusb ext lr rs (emit Low_format_check ?s1) = Some (False, s')" "us_status s' = ST_CMD"
      "us_log s' = us_log (emit Low_format_check ?s1) @ replicate (length rs) Low_format_check" by blast
  with b show ?thesis by (intro exI [of _ s']) (simp add: emit_def)
qed

subsection \<open>A read of no sectors\<close>

lemma datatx_no_sectors:
  assumes "datatx_loop ext s = Some y"
  shows "\<not> (us_u_size s = 0 \<and> us_u_bytes s = 0)"
proof (rule datatx_loop.raw_induct [where P = "\<lambda>ext s y. \<not> (us_u_size s = 0 \<and> us_u_bytes s = 0)", OF _ assms])
  fix loop :: "rk_ext \<Rightarrow> rockusb \<Rightarrow> rockusb option" and ext s y
  assume ih: "\<And>ext s y. loop ext s = Some y \<Longrightarrow> \<not> (us_u_size s = 0 \<and> us_u_bytes s = 0)"
    and body: "datatx_pass ext s \<bind> (\<lambda>s. if us_u_bytes s = 0 then loop ext s else Some s) = Some y"
  show "\<not> (us_u_size s = 0 \<and> us_u_bytes s = 0)"
  proof
    assume z: "us_u_size s = 0 \<and> us_u_bytes s = 0"
    obtain bl where bl: "tx_block_length s = Some bl"
      using body by (auto simp: datatx_pass_def bind_eq_Some_conv)
    have b: "0 div bl = (0 :: u32)" by simp
    let ?s1 = "s\<lparr>us_pre_read := (us_pre_read s)\<lparr>pre_lba := 0, pre_blocks := 0\<rparr>\<rparr>"
    have "datatx_pass ext s = Some ?s1"
      using z bl b by (simp add: datatx_pass_def datatx_send_def datatx_prefetch_def Let_def)
    then have "loop ext ?s1 = Some y" using body z by simp
    from ih [OF this] z show False by simp
  qed
qed

lemma read_nothing_diverges:
  assumes "command_received c s" "cb_CDB c ! 0 = 0x14" "req_sectors c = 0"
  shows "loop_body ext lr [] s = None"
proof -
  let ?s1 = "FW_LBARead10 (s\<lparr>us_status := ST_CMD, us_cbw := c, us_cmnd := 0x14\<rparr>)"
  have z: "us_u_size ?s1 = 0" "us_u_bytes ?s1 = 0" "us_status ?s1 = ST_TXDATA_PREPARE"
    using assms(3) req_words(1) [of c] by (simp_all add: FW_LBARead10_def)
  have "datatx_loop ext ?s1 = None"
  proof (cases "datatx_loop ext ?s1")
    case (Some y)
    from datatx_no_sectors [OF this] z(1,2) show ?thesis by simp
  qed
  then have "rkusb_handle_response ext ?s1 = None"
    using z by (simp add: rkusb_handle_response_def rkusb_handle_datatx_def)
  moreover have "us_status s = ST_IDLE" "0 < gb_actual (us_rx_giveback s)"
    using assms(1) by (simp_all add: command_received_def)
  ultimately have "loop_work ext s = None"
    using cmd_step [OF assms(1,2)] z by (simp add: loop_work_def response_status_def)
  then show ?thesis by (simp add: loop_body_def)
qed

end
