(* ===== verification/Rockusb_Lock.thy ===== *)
theory Rockusb_Lock
  imports Rockusb_Faults
begin

text \<open>
  With the secure-boot lock set, no run of the gadget writes or erases the flash: every
  operation leaves the flash events of the history as they are.
\<close>

fun flash_event :: "rk_event \<Rightarrow> bool" where
  "flash_event (Write_lba l d n m) = True"
| "flash_event (Write_pba l d n) = True"
| "flash_event (Erase_block b n f) = True"
| "flash_event _ = False"

definition flash :: "rockusb \<Rightarrow> rk_event list" where
  "flash s = filter flash_event (us_log s)"

definition locked :: "rk_ext \<Rightarrow> bool" where
  "locked ext \<longleftrightarrow> (\<forall>h. SecureBootLock ext h \<noteq> 0)"

lemma flash_emit [simp]: "\<not> flash_event e \<Longrightarrow> flash (emit e s) = flash s"
  by (simp add: flash_def emit_def)

lemma flash_upd [simp]:
  "flash (s\<lparr>us_status := v1\<rparr>) = flash s" "flash (s\<lparr>us_reset_flag := v2\<rparr>) = flash s"
  "flash (s\<lparr>us_lba := v3\<rparr>) = flash s" "flash (s\<lparr>us_pre_read := v4\<rparr>) = flash s"
  "flash (s\<lparr>us_csw := v5\<rparr>) = flash s" "flash (s\<lparr>us_tx_giveback := v6\<rparr>) = flash s"
  "flash (s\<lparr>us_rx_giveback := v7\<rparr>) = flash s" "flash (s\<lparr>us_d_bytes := v8\<rparr>) = flash s"
  "flash (s\<lparr>us_u_bytes := v9\<rparr>) = flash s" "flash (s\<lparr>us_tx_buffer := v10\<rparr>) = flash s"
  "flash (s\<lparr>us_rx_buffer := v11\<rparr>) = flash s" "flash (s\<lparr>us_cmnd := v12\<rparr>) = flash s"
  "flash (s\<lparr>us_cbw := v13\<rparr>) = flash s" "flash (s\<lparr>us_transfer_size := v14\<rparr>) = flash s"
  "flash (s\<lparr>us_rxbuf_num := v15\<rparr>) = flash s" "flash (s\<lparr>us_txbuf_num := v16\<rparr>) = flash s"
  "flash (s\<lparr>us_configured := v17\<rparr>) = flash s"
  by (simp_all add: flash_def)

lemma flash_set_csw [simp]: "flash (set_csw r st s) = flash s"
  by (simp add: set_csw_def)

lemma flash_small [simp]: "flash (next_txbuf s) = flash s" "flash (next_rxbuf s) = flash s"
  "flash (rkusb_read_bulk_ep n s) = flash s" "flash (tx_idle s) = flash s"
  by (simp_all add: next_txbuf_def next_rxbuf_def rkusb_read_bulk_ep_def tx_idle_def)

lemma flash_rx_command [simp]: "flash (rx_command s) = flash s"
  by (simp add: rx_command_def)

lemma flash_fill_tx: "fill_tx off xs s = Some s' \<Longrightarrow> flash s' = flash s"
  by (auto simp: fill_tx_def bind_eq_Some_conv)

lemma flash_write_bulk: "rkusb_write_bulk_ep n s = Some s' \<Longrightarrow> flash s' = flash s"
  by (auto simp: rkusb_write_bulk_ep_def bind_eq_Some_conv)

lemma flash_send_csw: "rkusb_send_csw s = Some (r, s') \<Longrightarrow> flash s' = flash s"
  by (auto simp: rkusb_send_csw_def Let_def bind_eq_Some_conv dest!: flash_fill_tx flash_write_bulk split: if_splits)

lemma flash_reply: "reply xs n s = Some s' \<Longrightarrow> flash s' = flash s"
  by (auto simp: reply_def bind_eq_Some_conv dest!: flash_fill_tx)

lemma flash_handlers [simp]:
  "flash (FW_TestUnitReady ext s) = flash s" "flash (FW_Read10 s) = flash s"
  "flash (FW_LBARead10 s) = flash s" "flash (FW_LowFormatSysDisk s) = flash s" "flash (FW_LowFormat s) = flash s"
  "flash (FW_SetResetFlag s) = flash s" "flash (FW_Reset s) = flash s"
  by (simp_all add: FW_TestUnitReady_def FW_Read10_def FW_LBARead10_def FW_LowFormatSysDisk_def FW_LowFormat_def
      FW_SetResetFlag_def FW_Reset_def Let_def) (simp_all add: flash_def)

lemma flash_preread [simp]: "flash (drop_preread b s) = flash s"
  by (simp add: drop_preread_def Let_def)

lemma flash_write_handlers [simp]: "flash (FW_Write10 s) = flash s" "flash (FW_LBAWrite10 s) = flash s"
  by (simp_all add: FW_Write10_def FW_LBAWrite10_def Let_def) (simp_all add: flash_def)

lemma flash_erase: "locked ext \<Longrightarrow> flash (erase f ext s) = flash s"
  by (simp add: erase_def locked_def Let_def)

lemma flash_cmd:
  assumes "locked ext" "do_rockusb_cmd ext s = Some s'"
  shows "flash s' = flash s"
proof -
  obtain i c where "gb_buf (us_rx_giveback s) = Some i" "cbw_of_bytes (us_rx_buffer s ! i) = Some c"
    using assms(2) by (auto simp: do_rockusb_cmd_def bind_eq_Some_conv)
  with assms show ?thesis
    by (auto simp: do_rockusb_cmd_def Let_def FW_Erase10_def FW_Erase10Force_def flash_erase FW_ReadID_def
        FW_TestBadBlock_def FW_GetFlashInfo_def FW_GetChipVer_def split: if_splits dest!: flash_reply)
qed

lemma flash_write_media: "locked ext \<Longrightarrow> write_media ext buf n s = Some s' \<Longrightarrow> flash s' = flash s"
  by (auto simp: write_media_def Let_def bind_eq_Some_conv locked_def split: if_splits)

lemma flash_datarx: "locked ext \<Longrightarrow> rkusb_handle_datarx ext s = Some s' \<Longrightarrow> flash s' = flash s"
  by (auto simp: rkusb_handle_datarx_def Let_def bind_eq_Some_conv split: if_splits
      dest!: flash_write_media flash_send_csw)

lemma flash_read_media: "read_media ext n bl s = Some s' \<Longrightarrow> flash s' = flash s"
  by (auto simp: read_media_def Let_def bind_eq_Some_conv split: if_splits option.splits dest!: flash_fill_tx)

lemma flash_datatx_send: "datatx_send sz n s = Some s' \<Longrightarrow> flash s' = flash s"
  by (auto simp: datatx_send_def Let_def bind_eq_Some_conv split: if_splits dest!: flash_write_bulk)

lemma flash_datatx_prefetch: "datatx_prefetch ext n bl s = Some s' \<Longrightarrow> flash s' = flash s"
  by (auto simp: datatx_prefetch_def Let_def split: if_splits dest!: flash_read_media)

lemma flash_datatx_pass: "datatx_pass ext s = Some s' \<Longrightarrow> flash s' = flash s"
  by (auto simp: datatx_pass_def Let_def bind_eq_Some_conv split: if_splits
      dest!: flash_datatx_send flash_datatx_prefetch)

lemma flash_datatx_loop:
  assumes "datatx_loop ext s = Some s'"
  shows "flash s' = flash s"
proof (rule datatx_loop.raw_induct [where P = "\<lambda>ext s s'. flash s' = flash s", OF _ assms])
  fix loop :: "rk_ext \<Rightarrow> rockusb \<Rightarrow> rockusb option" and ext s y
  assume ih: "\<And>ext s y. loop ext s = Some y \<Longrightarrow> flash y = flash s"
    and body: "datatx_pass ext s \<bind> (\<lambda>s. if us_u_bytes s = 0 then loop ext s else Some s) = Some y"
  then obtain s1 where s1: "datatx_pass ext s = Some s1" "(if us_u_bytes s1 = 0 then loop ext s1 else Some s1) = Some y"
    by (auto simp: bind_eq_Some_conv)
  show "flash y = flash s"
    using flash_datatx_pass [OF s1(1)] s1(2) ih [of ext s1 y] by (auto split: if_splits)
qed

lemma flash_response: "locked ext \<Longrightarrow> rkusb_handle_response ext s = Some s' \<Longrightarrow> flash s' = flash s"
  by (auto simp: rkusb_handle_response_def rkusb_handle_datatx_def bind_eq_Some_conv split: rk_status.splits if_splits
      dest!: flash_write_bulk flash_datarx flash_datatx_loop)

lemma flash_work:
  assumes "locked ext" "loop_work ext s = Some s'"
  shows "flash s' = flash s"
proof -
  obtain s1 where 1: "(if us_status s = ST_IDLE \<and> gb_actual (us_rx_giveback s) > 0
      then do_rockusb_cmd ext (s\<lparr>us_status := ST_CMD\<rparr>) else Some s) = Some s1"
    using assms(2) by (auto simp: loop_work_def bind_eq_Some_conv)
  obtain s2 where 2: "(if response_status (us_status s1) then rkusb_handle_response ext s1 else Some s1) = Some s2"
    "(if us_status s2 = ST_CSW then map_option snd (rkusb_send_csw s2) else Some s2) = Some s'"
    using assms(2) 1 by (auto simp: loop_work_def bind_eq_Some_conv)
  have "flash s1 = flash s" using 1 flash_cmd [OF assms(1)] by (auto split: if_splits)
  moreover have "flash s2 = flash s1" using 2(1) flash_response [OF assms(1)] by (auto split: if_splits)
  moreover have "flash s' = flash s2" using 2(2) by (auto split: if_splits dest!: flash_send_csw)
  ultimately show ?thesis by simp
qed

lemma flash_event_handler: "flash (rkusb_event_handler_for_dwc3 e s) = flash s"
  by (simp add: rkusb_event_handler_for_dwc3_def Let_def)

lemma flash_irq: "serve_irq q s = Some s' \<Longrightarrow> flash s' = flash s"
  by (cases q) (auto simp: bind_eq_Some_conv dwc3_rx_handler_def dwc3_tx_handler_def flash_event_handler)

lemma flash_irqs: "serve_irqs qs s = Some s' \<Longrightarrow> flash s' = flash s"
proof (induction qs arbitrary: s)
  case Nil
  then show ?case by simp
next
  case (Cons q qs)
  then obtain s1 where "serve_irq q s = Some s1" "serve_irqs qs s1 = Some s'" by (auto simp: bind_eq_Some_conv)
  then show ?case using Cons.IH flash_irq by simp
qed

lemma flash_reset: "rkusb_reset_check lr s = (b, s') \<Longrightarrow> flash s' = flash s"
  by (auto simp: rkusb_reset_check_def Let_def split: if_splits)

lemma flash_body:
  assumes "locked ext" "loop_body ext lr qs s = Some (b, s')"
  shows "flash s' = flash s"
proof -
  obtain s1 s2 where s: "serve_irqs qs s = Some s1" "loop_work ext s1 = Some s2"
    using assms(2) by (auto simp: loop_body_def bind_eq_Some_conv)
  obtain s3 where s3: "rkusb_reset_check lr s2 = (b, s3)" "s' = (if b then s3 else rkusb_lowformat_check s3)"
    using assms(2) s by (cases "rkusb_reset_check lr s2") (auto simp: loop_body_def)
  then show ?thesis
    using flash_irqs [OF s(1)] flash_work [OF assms(1) s(2)] flash_reset [OF s3(1)]
    by (simp add: rkusb_lowformat_check_def)
qed

lemma flash_run: "locked ext \<Longrightarrow> do_rockusb ext lr rs s = Some (b, s') \<Longrightarrow> flash s' = flash s"
proof (induction rs arbitrary: s)
  case Nil
  then show ?case by simp
next
  case (Cons qs rs)
  obtain b1 s1 where s1: "loop_body ext lr qs s = Some (b1, s1)"
    "(if b1 then Some (True, s1) else do_rockusb ext lr rs s1) = Some (b, s')"
    using Cons.prems(2) by (auto simp: bind_eq_Some_conv)
  then show ?case using flash_body [OF Cons.prems(1) s1(1)] Cons.IH [OF Cons.prems(1)] by (cases b1) auto
qed

end
