(* ===== verification/Rockusb_Props.thy ===== *)
theory Rockusb_Props
  imports Rockusb_Lock
begin

text \<open>
  The commands of the Rockusb gadget that carry no long transfer, the prefetch, and the
  properties of the whole gadget.
\<close>

subsection \<open>Commands answered by a status wrapper\<close>

text \<open>What a handler that ends in the status stage leaves for it.\<close>

definition csw_ready :: "fsg_bulk_cb_wrap \<Rightarrow> rockusb \<Rightarrow> rockusb \<Rightarrow> bool" where
  "csw_ready c s s1 \<longleftrightarrow> us_status s1 = ST_CSW \<and> us_cbw s1 = c \<and> us_tx_giveback s1 = us_tx_giveback s \<and>
     us_tx_buffer s1 = us_tx_buffer s \<and> us_txbuf_num s1 = us_txbuf_num s \<and>
     usb_out (us_log s1) = usb_out (us_log s) \<and> cs_Status (us_csw s1) \<le> 1"

definition status_commands :: "u8 list" where
  "status_commands = [0x00, 0x06, 0x0b, 0x16, 0x1C, 0x1E, 0xff]"

text \<open>The reset request a command leaves behind, on a gadget without one.\<close>

definition requested_reset :: "rk_ext \<Rightarrow> rk_event list \<Rightarrow> fsg_bulk_cb_wrap \<Rightarrow> u32" where
  "requested_reset ext h c =
     (if cb_CDB c ! 0 = 0x1E then 1
      else if cb_CDB c ! 0 = 0xff then (if cb_CDB c ! 1 = 0 then 0xff else ucast (cb_CDB c ! 1))
      else if cb_CDB c ! 0 = 0 \<and> FW_StorageGetValid ext h \<noteq> 0 \<and> cb_CDB c ! 1 = 0xFA then 0x10
      else 0)"

lemma status_cmd:
  assumes "command_received c s" "cb_CDB c ! 0 \<in> set status_commands"
  shows "\<exists>s1. do_rockusb_cmd ext (s\<lparr>us_status := ST_CMD\<rparr>) = Some s1 \<and> csw_ready c s s1 \<and>
    us_reset_flag s1 = requested_reset ext (us_log s) c"
proof -
  have "us_reset_flag s = 0" using assms(1) by (simp add: command_received_def)
  moreover obtain i where "gb_buf (us_rx_giveback s) = Some i" "cbw_of_bytes (us_rx_buffer s ! i) = Some c"
    using command_decoded [OF assms(1)] by blast
  ultimately show ?thesis using assms(2)
    by (auto simp: do_rockusb_cmd_def Let_def status_commands_def csw_ready_def requested_reset_def
        FW_TestUnitReady_def FW_Erase10_def FW_Erase10Force_def erase_def FW_LowFormatSysDisk_def FW_LowFormat_def
        FW_SetResetFlag_def FW_Reset_def set_csw_def emit_def)
qed

lemma usb_out_reset: "rkusb_reset_check lr s = (b, s') \<Longrightarrow> usb_out (us_log s') = usb_out (us_log s) \<and>
    us_status s' = us_status s \<and> (b \<longleftrightarrow> us_reset_flag s \<in> {0x01, 0x03, 0xff})"
  by (auto simp: rkusb_reset_check_def Let_def emit_def split: if_splits)

lemma status_answer:
  assumes "command_received c s" "cb_CDB c ! 0 \<in> set status_commands" "tx_buffers_ok s"
    "gb_status (us_tx_giveback s) = SEND_FINISHED_OK"
  shows "\<exists>b s' residue st. loop_body ext lr [] s = Some (b, s') \<and> us_status s' = ST_IDLE \<and> st \<le> 1 \<and>
    usb_out (us_log s') = usb_out (us_log s) @ [csw_bytes (csw_of c residue st)] \<and>
    (b \<longleftrightarrow> requested_reset ext (us_log s) c \<in> {0x01, 0x03, 0xff})"
proof -
  obtain s1 where s1: "do_rockusb_cmd ext (s\<lparr>us_status := ST_CMD\<rparr>) = Some s1" "csw_ready c s s1"
    "us_reset_flag s1 = requested_reset ext (us_log s) c"
    using status_cmd [OF assms(1,2)] by blast
  have r: "us_status s1 = ST_CSW" "us_cbw s1 = c" "gb_status (us_tx_giveback s1) = SEND_FINISHED_OK" "tx_buffers_ok s1"
    "usb_out (us_log s1) = usb_out (us_log s)" "cs_Status (us_csw s1) \<le> 1"
    using s1(2) assms(3,4) by (simp_all add: csw_ready_def tx_buffers_ok_def)
  define w where "w = (us_csw s1)\<lparr>cs_Signature := USB_BULK_CS_SIG, cs_Tag := cb_Tag c\<rparr>"
  obtain s2 where s2: "rkusb_send_csw s1 = Some (0, s2)" "us_status s2 = ST_IDLE"
    "us_reset_flag s2 = us_reset_flag s1" "us_log s2 = us_log s1 @ [Usb_write (csw_bytes w), Usb_arm 31 (us_rxbuf_num s1)]"
    using send_csw_ok [OF r(3,4)] r(2) by (auto simp: w_def)
  have "us_status s = ST_IDLE" "0 < gb_actual (us_rx_giveback s)" using assms(1) by (simp_all add: command_received_def)
  then have lw: "loop_work ext s = Some s2" using s1(1) r(1) s2(1) by (simp add: loop_work_def response_status_def)
  obtain b s3 where s3: "rkusb_reset_check lr s2 = (b, s3)" by (cases "rkusb_reset_check lr s2")
  have body: "loop_body ext lr [] s = Some (b, if b then s3 else rkusb_lowformat_check s3)"
    by (simp add: loop_body_def lw s3)
  have "w = csw_of c (cpu_to_be32 (cs_Residue (us_csw s1))) (cs_Status (us_csw s1))"
    by (cases "us_csw s1") (simp add: w_def csw_of_def)
  then have out: "usb_out (us_log s3) = usb_out (us_log s) @
      [csw_bytes (csw_of c (cpu_to_be32 (cs_Residue (us_csw s1))) (cs_Status (us_csw s1)))]"
    using usb_out_reset [OF s3] s2(4) r(5) by simp
  let ?s' = "if b then s3 else rkusb_lowformat_check s3"
  have "us_status ?s' = ST_IDLE" "usb_out (us_log ?s') = usb_out (us_log s3)"
    using usb_out_reset [OF s3] s2(2) by (simp_all add: rkusb_lowformat_check_def emit_def)
  with body out usb_out_reset [OF s3] s2(3) s1(3) r(6) show ?thesis by metis
qed

subsection \<open>Commands answered by a few bytes\<close>

text \<open>The bytes, which the storage and boot services provide in the lengths they document.\<close>

definition reply_bytes :: "rk_ext \<Rightarrow> rk_event list \<Rightarrow> u8 \<Rightarrow> u8 list" where
  "reply_bytes ext h k =
     (if k = 0x01 then StorageReadId ext h
      else if k = 0x03 then replicate 64 0
      else if k = 0x1A then StorageReadFlashInfo ext h
      else concat (map le32 ((bootrom_chip_version ext h)[0 := 0x33333043])))"

definition services_ok :: "rk_ext \<Rightarrow> bool" where
  "services_ok ext \<longleftrightarrow> (\<forall>h. length (StorageReadId ext h) = 5 \<and> length (StorageReadFlashInfo ext h) = 11 \<and>
     length (bootrom_chip_version ext h) = 4)"

lemma length_concat_le32: "length (concat (map le32 ws)) = 4 * length ws"
  by (induction ws) simp_all

lemma reply_ok:
  assumes "tx_buffers_ok s" "length xs = unat n" "unat n \<le> 65536"
  shows "\<exists>B. reply xs n s = Some (s\<lparr>us_tx_buffer := B, us_transfer_size := n, us_status := ST_TXDATA,
      us_csw := (us_csw s)\<lparr>cs_Residue := cpu_to_be32 (data_length s), cs_Status := CSW_GOOD\<rparr>\<rparr>) \<and>
    tx_buffers_ok (s\<lparr>us_tx_buffer := B\<rparr>) \<and> take (unat n) (B ! us_txbuf_num s) = xs"
proof -
  have "length xs \<le> 65536" using assms(2,3) by simp
  from fill_tx_ok [OF assms(1) this] obtain B where B: "fill_tx 0 xs s = Some (s\<lparr>us_tx_buffer := B\<rparr>)"
    "tx_buffers_ok (s\<lparr>us_tx_buffer := B\<rparr>)" "take (length xs) (B ! us_txbuf_num s) = xs" by blast
  then show ?thesis using assms(2) by (intro exI [of _ B]) (simp add: reply_def set_csw_def)
qed

lemma reply_cmd:
  assumes "command_received c s" "cb_CDB c ! 0 = k" "k \<in> {0x01, 0x03, 0x1A, 0x1B}" "services_ok ext"
  shows "\<exists>n. unat n = length (reply_bytes ext (us_log s) k) \<and> unat n \<le> 64 \<and>
    do_rockusb_cmd ext (s\<lparr>us_status := ST_CMD\<rparr>) =
      reply (reply_bytes ext (us_log s) k) n (s\<lparr>us_status := ST_CMD, us_cbw := c, us_cmnd := ucast k\<rparr>)"
proof -
  obtain i where i: "gb_buf (us_rx_giveback s) = Some i" "cbw_of_bytes (us_rx_buffer s ! i) = Some c"
    using command_decoded [OF assms(1)] by blast
  have v: "take 4 (bootrom_chip_version ext (us_log s) @ replicate 4 0) = bootrom_chip_version ext (us_log s)"
    using assms(4) by (simp add: services_ok_def)
  from assms(3) consider "k = 0x01" | "k = 0x03" | "k = 0x1A" | "k = 0x1B" by blast
  then show ?thesis
  proof cases
    case 1
    with i assms(2,4) show ?thesis
      by (intro exI [of _ 5]) (simp add: do_rockusb_cmd_def FW_ReadID_def reply_bytes_def services_ok_def)
  next
    case 2
    with i assms(2) show ?thesis
      by (intro exI [of _ 64]) (simp add: do_rockusb_cmd_def FW_TestBadBlock_def reply_bytes_def)
  next
    case 3
    with i assms(2,4) show ?thesis
      by (intro exI [of _ 11]) (simp add: do_rockusb_cmd_def FW_GetFlashInfo_def reply_bytes_def services_ok_def)
  next
    case 4
    with i assms(2,4) v show ?thesis
      by (intro exI [of _ 16]) (simp add: do_rockusb_cmd_def FW_GetChipVer_def reply_bytes_def services_ok_def
          length_concat_le32 Let_def)
  qed
qed

lemma reply_answer:
  assumes "command_received c s" "cb_CDB c ! 0 = k" "k \<in> {0x01, 0x03, 0x1A, 0x1B}" "services_ok ext"
    "tx_buffers_ok s"
  shows "\<exists>s'. do_rockusb ext lr [[], [Tx_done 0 a i]] s = Some (False, s') \<and> us_status s' = ST_IDLE \<and>
    usb_out (us_log s') = usb_out (us_log s) @
      [reply_bytes ext (us_log s) k, csw_bytes (csw_of c (cb_DataTransferLength c) CSW_GOOD)]"
proof -
  let ?xs = "reply_bytes ext (us_log s) k"
  let ?s0 = "s\<lparr>us_status := ST_CMD, us_cbw := c, us_cmnd := ucast k\<rparr>"
  obtain n where n: "unat n = length ?xs" "unat n \<le> 64"
    "do_rockusb_cmd ext (s\<lparr>us_status := ST_CMD\<rparr>) = reply ?xs n ?s0"
    using reply_cmd [OF assms(1-4)] by blast
  have t0: "tx_buffers_ok ?s0" using assms(5) by (simp add: tx_buffers_ok_def)
  let ?s1 = "\<lambda>B. ?s0\<lparr>us_tx_buffer := B, us_transfer_size := n, us_status := ST_TXDATA,
      us_csw := (us_csw s)\<lparr>cs_Residue := cpu_to_be32 (cb_DataTransferLength c), cs_Status := CSW_GOOD\<rparr>\<rparr>"
  obtain B where B: "reply ?xs n ?s0 = Some (?s1 B)" "tx_buffers_ok (?s0\<lparr>us_tx_buffer := B\<rparr>)"
    "take (unat n) (B ! us_txbuf_num s) = ?xs"
    using reply_ok [OF t0 n(1) [symmetric]] n(2) by auto
  have t1: "tx_buffers_ok (?s1 B)" using B(2) by (simp add: tx_buffers_ok_def)
  let ?s2 = "(set_csw (cb_DataTransferLength c) CSW_GOOD (next_txbuf (emit (Usb_write ?xs)
      ((?s1 B)\<lparr>us_tx_giveback := \<lparr>gb_status = SEND_IN_PROGRESS, gb_actual = 0, gb_buf = None\<rparr>\<rparr>))))\<lparr>us_status := ST_CSW\<rparr>"
  have h: "rkusb_handle_response ext (?s1 B) = Some ?s2"
    using write_bulk_ok [OF t1, of n] n(2) B(3) by (simp add: rkusb_handle_response_def next_txbuf_def emit_def)
  have f: "us_status s = ST_IDLE" "0 < gb_actual (us_rx_giveback s)" "us_reset_flag s = 0"
    using assms(1) by (simp_all add: command_received_def)
  have "loop_work ext s = Some ?s2"
    using n(3) B(1) h f by (simp add: loop_work_def response_status_def)
      (simp add: rkusb_send_csw_def set_csw_def next_txbuf_def emit_def)
  moreover have r2: "us_reset_flag ?s2 = 0" using f(3) by (simp add: set_csw_def next_txbuf_def emit_def)
  ultimately have b1: "loop_body ext lr [] s = Some (False, emit Low_format_check ?s2)"
    by (simp only: loop_body_def serve_irqs.simps bind.bind_lunit reset_none [OF r2] Let_def case_prod_conv
        rkusb_lowformat_check_def if_False)
  let ?s3 = "(emit Low_format_check ?s2)\<lparr>us_tx_giveback := \<lparr>gb_status = SEND_FINISHED_OK, gb_actual = a, gb_buf = Some i\<rparr>\<rparr>"
  have s3: "tx_buffers_ok ?s3" "gb_status (us_tx_giveback ?s3) = SEND_FINISHED_OK" "us_status ?s3 = ST_CSW"
    "us_reset_flag ?s3 = 0" "us_cbw ?s3 = c"
    "us_log ?s3 = us_log s @ [Usb_write ?xs, Low_format_check]"
    "(us_csw ?s3)\<lparr>cs_Signature := USB_BULK_CS_SIG, cs_Tag := cb_Tag (us_cbw ?s3)\<rparr> = csw_of c (cb_DataTransferLength c) CSW_GOOD"
    using t1 f(3) by (simp_all add: tx_buffers_ok_def set_csw_def next_txbuf_def emit_def csw_of_def)
  obtain s4 where s4: "rkusb_send_csw ?s3 = Some (0, s4)" "us_status s4 = ST_IDLE" "us_reset_flag s4 = us_reset_flag ?s3"
    "us_log s4 = us_log ?s3 @ [Usb_write (csw_bytes (csw_of c (cb_DataTransferLength c) CSW_GOOD)), Usb_arm 31 (us_rxbuf_num ?s3)]"
    using send_csw_ok [OF s3(2,1)] s3(7) by auto
  have "serve_irqs [Tx_done 0 a i] (emit Low_format_check ?s2) = Some ?s3" by (simp add: dwc3_tx_handler_def)
  moreover have "loop_work ext ?s3 = Some s4"
    using s3(3) s4(1) by (simp add: loop_work_def response_status_def)
  ultimately have "loop_body ext lr [Tx_done 0 a i] (emit Low_format_check ?s2) = Some (False, emit Low_format_check s4)"
    using s4(3) s3(4) by (simp add: loop_body_def reset_none rkusb_lowformat_check_def)
  with b1 s4 s3(6) show ?thesis by (intro exI [of _ "emit Low_format_check s4"]) (simp add: emit_def)
qed

subsection \<open>The prefetch\<close>

definition prefetch_range :: "rockusb \<Rightarrow> nat set" where
  "prefetch_range s = {unat (pre_lba (us_pre_read s)) ..<
     unat (pre_lba (us_pre_read s)) + unat (pre_blocks (us_pre_read s))}"

lemma drop_preread_apart:
  assumes "us_lba s = word_of_nat l" "b = word_of_nat n" "l + n < 2 ^ 32"
    "unat (pre_lba (us_pre_read s)) + unat (pre_blocks (us_pre_read s)) < 2 ^ 32"
  shows "{l ..< l + n} \<inter> prefetch_range (drop_preread b s) = {}"
proof -
  let ?p = "us_pre_read s"
  have u: "unat (us_lba s) = l" "unat (us_lba s + b) = l + n"
    using assms(1-3) by (simp_all add: unat_small flip: of_nat_add)
  have "unat (pre_lba ?p + pre_blocks ?p) = unat (pre_lba ?p) + unat (pre_blocks ?p)"
    using assms(4) by (simp add: unat_add_lem [THEN iffD1])
  with u show ?thesis
    by (auto simp: drop_preread_def Let_def prefetch_range_def word_less_nat_alt)
qed

lemma preread_upd [simp]: "prefetch_range (s\<lparr>us_rx_giveback := g, us_status := st\<rparr>) = prefetch_range s"
  by (simp add: prefetch_range_def)

lemma lba_write_apart:
  assumes "us_cbw s = c" "req_lba c + req_sectors c < 2 ^ 32"
    "unat (pre_lba (us_pre_read s)) + unat (pre_blocks (us_pre_read s)) < 2 ^ 32"
  shows "{req_lba c ..< req_lba c + req_sectors c} \<inter> prefetch_range (FW_LBAWrite10 s) = {}"
proof -
  let ?s1 = "s\<lparr>us_d_size := ucast (get_unaligned_be16 (cb_CDB c) 7) * 512, us_d_bytes := 0,
    us_lba := get_unaligned_be32 (cb_CDB c) 2, us_imgwr_mode := ucast (cb_CDB c ! 1)\<rparr>"
  have b: "us_d_size ?s1 div 512 = word_of_nat (req_sectors c)"
    using word_512_div [of "req_sectors c"] req_sectors_less [of c] req_words(1) [of c] by simp
  have l: "us_lba ?s1 = word_of_nat (req_lba c)" by (simp add: req_words(2))
  have p: "unat (pre_lba (us_pre_read ?s1)) + unat (pre_blocks (us_pre_read ?s1)) < 2 ^ 32" using assms(3) by simp
  have "FW_LBAWrite10 s = (let s = drop_preread (us_d_size ?s1 div 512) ?s1
      in s\<lparr>us_rx_giveback := (us_rx_giveback s)\<lparr>gb_actual := 0\<rparr>, us_status := ST_RXDATA_PREPARE\<rparr>)"
    using assms(1) by (simp add: FW_LBAWrite10_def Let_def)
  then show ?thesis using drop_preread_apart [OF l b assms(2) p] by (simp add: Let_def)
qed

text \<open>A read that the prefetch serves: what is in the transmit buffer goes out, nothing is read.\<close>

lemma prefetch_hit:
  assumes "command_received c s" "cb_CDB c ! 0 = 0x14" "0 < req_sectors c" "req_sectors c \<le> 128"
    "req_lba c + req_sectors c \<le> 0xFFF00000" "tx_buffers_ok s"
    "req_sectors c \<le> unat (pre_blocks (us_pre_read s))" "pre_lba (us_pre_read s) = word_of_nat (req_lba c)"
  shows "\<exists>s'. loop_work ext s = Some s' \<and> us_reset_flag s' = 0 \<and>
    us_log s' = us_log s @ [Usb_write (take (512 * req_sectors c) (us_tx_buffer s ! us_txbuf_num s))]"
proof -
  let ?n = "req_sectors c" and ?l = "req_lba c"
  let ?s1 = "FW_LBARead10 (s\<lparr>us_status := ST_CMD, us_cbw := c, us_cmnd := 0x14\<rparr>)"
  have f: "us_cmnd ?s1 = 0x14" "us_u_size ?s1 = word_of_nat (512 * ?n)" "us_u_bytes ?s1 = 0"
    "us_lba ?s1 = word_of_nat ?l"
    by (simp_all only: req_words [symmetric]) (simp_all add: FW_LBARead10_def)
  have g: "us_pre_read ?s1 = us_pre_read s" "us_tx_buffer ?s1 = us_tx_buffer s" "us_txbuf_num ?s1 = us_txbuf_num s"
    "us_log ?s1 = us_log s" "us_status ?s1 = ST_TXDATA_PREPARE" "us_reset_flag ?s1 = 0"
    using assms(1) by (simp_all add: FW_LBARead10_def command_received_def)
  have r: "reading ?l ?n 0 ?s1"
    using f assms(5,6) g req_sectors_less [of c] by (simp add: reading_def tx_buffers_ok_def)
  have ch: "chunk ?n 0 = ?n" using assms(4) by simp
  let ?p = "us_pre_read s"
  let ?s2 = "?s1\<lparr>us_u_bytes := us_u_bytes ?s1 + word_of_nat (512 * ?n), us_lba := us_lba ?s1 + word_of_nat ?n,
    us_pre_read := ?p\<lparr>pre_blocks := pre_blocks ?p - word_of_nat ?n\<rparr>\<rparr>"
  have t: "tx_buffers_ok ?s2" using assms(6) g by (simp add: tx_buffers_ok_def)
  have u: "unat (word_of_nat (512 * ?n) :: u32) = 512 * ?n" using assms(4) by (intro unat_small) simp
  define xs where "xs = take (512 * ?n) (us_tx_buffer s ! us_txbuf_num s)"
  let ?s3 = "next_txbuf (emit (Usb_write xs)
      (?s2\<lparr>us_tx_giveback := \<lparr>gb_status = SEND_IN_PROGRESS, gb_actual = 0, gb_buf = None\<rparr>\<rparr>))"
  have w: "rkusb_write_bulk_ep (word_of_nat (512 * ?n)) ?s2 = Some (emit (Usb_write xs)
      (?s2\<lparr>us_tx_giveback := \<lparr>gb_status = SEND_IN_PROGRESS, gb_actual = 0, gb_buf = None\<rparr>\<rparr>))"
    using write_bulk_ok [OF t, of "word_of_nat (512 * ?n)"] u assms(4) g by (simp add: xs_def)
  have "word_of_nat ?n \<noteq> (0 :: u32)" "word_of_nat ?n \<le> pre_blocks ?p"
    using assms(3,4,7) word_0_nat [of ?n] by (simp_all add: word_le_nat_alt unat_small)
  then have send: "datatx_send (word_of_nat (512 * ?n)) (word_of_nat ?n) ?s1 = Some ?s3"
    using w g f assms(8) by (simp add: datatx_send_def Let_def)
  have r3: "reading ?l ?n ?n ?s3"
    using r t assms(5) by (simp add: reading_def tx_buffers_ok_def emit_def next_txbuf_def)
  let ?s4 = "?s3\<lparr>us_pre_read := (us_pre_read ?s3)\<lparr>pre_lba := 0, pre_blocks := 0\<rparr>\<rparr>"
  have pass: "datatx_pass ext ?s1 = Some ?s4"
    using send prefetch_done [OF r3] by (simp only: pass_sizes [OF r] ch bind.bind_lunit)
  have ub: "us_u_bytes ?s4 \<noteq> 0" "us_u_size ?s4 = us_u_bytes ?s4"
    using r3 assms(3) req_sectors_less [of c] word_0_nat [of "512 * ?n"] by (auto simp: reading_def)
  have loop: "datatx_loop ext ?s1 = Some ?s4" using pass ub by (subst datatx_loop.simps) simp
  let ?s5 = "(set_csw (data_length ?s4) CSW_GOOD ?s4)\<lparr>us_status := ST_CSW\<rparr>"
  have h: "rkusb_handle_response ext ?s1 = Some ?s5"
    using loop ub g(5) f(3) by (simp add: rkusb_handle_response_def rkusb_handle_datatx_def)
  have busy: "rkusb_send_csw ?s5 = Some (- EBUSY, ?s5)"
    by (simp add: rkusb_send_csw_def set_csw_def next_txbuf_def emit_def)
  have "us_status s = ST_IDLE" "0 < gb_actual (us_rx_giveback s)" using assms(1) by (simp_all add: command_received_def)
  then have "loop_work ext s = Some ?s5"
    using cmd_step [OF assms(1,2)] h busy g(5) by (simp add: loop_work_def response_status_def)
  moreover have "us_log ?s5 = us_log s @ [Usb_write xs]" "us_reset_flag ?s5 = 0"
    using g(4,6) by (simp_all add: set_csw_def next_txbuf_def emit_def)
  ultimately show ?thesis by (auto simp: xs_def)
qed

text \<open>The host clears both endpoints in the middle of an upload and reads on from there.\<close>

lemma stale_prefetch:
  assumes "read_round media l0 n m s" "m < n" "rx_buffers_ok s"
    "length (cb_CDB c) = 16" "cb_CDB c ! 0 = 0x14" "req_lba c = l0 + m" "0 < req_sectors c" "req_sectors c \<le> 128"
    "l0 + m + req_sectors c \<le> 0xFFF00000"
  shows "\<exists>s'. do_rockusb ext lr [[Device_event 0x100004], [Rx_done 0 31 0 (cbw_bytes c)]] s = Some (False, s') \<and>
    usb_out (us_log s') = usb_out (us_log s) @ [take (512 * req_sectors c) (us_tx_buffer s ! 0)]"
proof -
  have rr: "reading l0 n m s" "prefetched media 128 s" "us_reset_flag s = 0"
    using assms(1,2) by (simp_all add: read_round_def ready_to_send_def)
  let ?s1 = "rkusb_event_handler_for_dwc3 0x100004 s"
  have e: "(0x100004 :: int) AND 0xffff = 4" "drop_bit 16 (0x100004 :: int) = 0x10" by simp_all
  have s1: "us_status ?s1 = ST_IDLE" "us_txbuf_num ?s1 = 0" "us_tx_buffer ?s1 = us_tx_buffer s"
    "us_rx_buffer ?s1 = us_rx_buffer s" "us_pre_read ?s1 = us_pre_read s" "us_reset_flag ?s1 = 0"
    "gb_actual (us_rx_giveback ?s1) = 0" "usb_out (us_log ?s1) = usb_out (us_log s)"
    using rr(3) unfolding rkusb_event_handler_for_dwc3_def e Let_def
    by (simp_all add: rx_command_def tx_idle_def next_rxbuf_def rkusb_read_bulk_ep_def emit_def)
  let ?s2 = "emit Low_format_check ?s1"
  have b1: "loop_body ext lr [Device_event 0x100004] s = Some (False, ?s2)"
    using s1 by (simp add: loop_body_def loop_work_def response_status_def reset_none rkusb_lowformat_check_def)
  have len: "length (cbw_bytes c) = 31" using assms(4) by (simp add: length_cbw_bytes)
  have b0: "65536 \<le> length (us_rx_buffer s ! 0)" "0 < length (us_rx_buffer s)"
    using assms(3) by (auto simp: rx_buffers_ok_def)
  then obtain b where b: "poke (us_rx_buffer s ! 0) 0 (cbw_bytes c) = Some b" using len by (simp add: poke_def)
  note pt = poke_take [OF b]
  let ?s3 = "dwc3_rx_handler 0 31 0 (?s2\<lparr>us_rx_buffer := (us_rx_buffer ?s2)[0 := b]\<rparr>)"
  have sv: "serve_irqs [Rx_done 0 31 0 (cbw_bytes c)] ?s2 = Some ?s3" using b s1(4) by (simp add: emit_def)
  have cr: "command_received c ?s3"
    using s1 pt len assms(4) b0 by (simp add: command_received_def dwc3_rx_handler_def emit_def)
  have t3: "tx_buffers_ok ?s3" using rr(1) s1(2,3) by (simp add: reading_def tx_buffers_ok_def dwc3_rx_handler_def emit_def)
  have l: "req_lba c + req_sectors c \<le> 0xFFF00000" using assms(6,9) by simp
  have p3: "req_sectors c \<le> unat (pre_blocks (us_pre_read ?s3))" "pre_lba (us_pre_read ?s3) = word_of_nat (req_lba c)"
    using rr assms(6,8) s1(5) by (simp_all add: prefetched_def reading_def dwc3_rx_handler_def emit_def)
  obtain s4 where s4: "loop_work ext ?s3 = Some s4" "us_reset_flag s4 = 0"
    "us_log s4 = us_log ?s3 @ [Usb_write (take (512 * req_sectors c) (us_tx_buffer ?s3 ! us_txbuf_num ?s3))]"
    using prefetch_hit [OF cr assms(5,7,8) l t3 p3] by blast
  have "loop_body ext lr [Rx_done 0 31 0 (cbw_bytes c)] ?s2 = Some (False, emit Low_format_check s4)"
    using sv s4(1,2) by (simp add: loop_body_def reset_none rkusb_lowformat_check_def)
  moreover have "us_tx_buffer ?s3 ! us_txbuf_num ?s3 = us_tx_buffer s ! 0" "usb_out (us_log ?s3) = usb_out (us_log s)"
    using s1 by (simp_all add: dwc3_rx_handler_def emit_def)
  ultimately show ?thesis using b1 s4(3) by (intro exI [of _ "emit Low_format_check s4"]) simp
qed

end
