(* ===== verification/Rockusb_Claims.thy ===== *)
theory Rockusb_Claims
  imports Rockusb_Props
begin

text \<open>
  The properties of the Rockusb gadget, each with an instance on a concrete gadget: buffers
  of 64 KiB and more, a media of constant sectors, a command wrapper in receive buffer 0.
\<close>

subsection \<open>A concrete gadget\<close>

definition demo_cbw :: "u8 \<Rightarrow> u8 \<Rightarrow> u8 \<Rightarrow> fsg_bulk_cb_wrap" where
  "demo_cbw op lba n = \<lparr>cb_Signature = USB_BULK_CB_SIG, cb_Tag = 0x11223344, cb_DataTransferLength = 512,
     cb_Flags = 0x80, cb_Lun = 0, cb_Length = 10,
     cb_CDB = [op, 0, 0, 0, 0, lba, 0, 0, n, 0, 0, 0, 0, 0, 0, 0]\<rparr>"

definition demo_ext :: "u32 \<Rightarrow> (nat \<Rightarrow> u8 list) \<Rightarrow> rk_ext" where
  "demo_ext lock media = \<lparr>FW_StorageGetValid = \<lambda>h. 1, FW_GetTotleBlk = \<lambda>h. 0, FW_GetCurEraseBlock = \<lambda>h. 0,
     StorageGetCapacity = \<lambda>h. 4096, SecureBootLock = \<lambda>h. lock, StorageReadId = \<lambda>h. [1, 2, 3, 4, 5],
     bootrom_chip_version = \<lambda>h. [1, 2, 3, 4], StorageReadFlashInfo = \<lambda>h. replicate 11 0,
     StorageEraseBlock = \<lambda>h b n f. 0, StorageReadPba = \<lambda>h l n. [],
     StorageReadLba = \<lambda>h l n. sectors media (unat l) (unat n), StorageVendorSysDataLoad = \<lambda>h l n. [],
     SecureBootUnlockCheck = \<lambda>h. [], vendor_storage_read = \<lambda>h i n. None\<rparr>"

definition demo :: "fsg_bulk_cb_wrap \<Rightarrow> rockusb" where
  "demo c = (rockusb_init SEND_FINISHED_OK [cbw_bytes c @ replicate 65536 0, replicate 65536 0]
       [replicate 65536 0, replicate 65536 0] [])
     \<lparr>us_rx_giveback := \<lparr>gb_status = RECV_OK, gb_actual = 31, gb_buf = Some 0\<rparr>\<rparr>"


lemma demo_unlocked: "unlocked (demo_ext 0 media)" "locked (demo_ext 1 media)"
  by (simp_all add: unlocked_def locked_def demo_ext_def)

lemma demo_cdb: "length (cb_CDB (demo_cbw op l n)) = 16" "cb_CDB (demo_cbw op l n) ! 0 = op"
  "cb_DataTransferLength (demo_cbw op l n) = 512"
  by (simp_all add: demo_cbw_def)

lemma demo_request: "req_lba (demo_cbw op 5 1) = 5" "req_sectors (demo_cbw op 5 1) = 1"
  "req_sectors (demo_cbw op 5 0) = 0"
  by (simp_all add: req_lba_def req_sectors_def demo_cbw_def get_unaligned_be32_def get_unaligned_be16_def of_le32_def)

lemma demo_received: "command_received (demo_cbw op l n) (demo (demo_cbw op l n))"
  by (simp add: command_received_def demo_def rockusb_init_def length_cbw_bytes demo_cdb)

lemma demo_buffers: "tx_buffers_ok (demo c)" "rx_buffers_ok (demo c)" "pre_blocks (us_pre_read (demo c)) = 0"
  "gb_status (us_tx_giveback (demo c)) = SEND_FINISHED_OK" "us_log (demo c) = []"
  by (simp_all add: tx_buffers_ok_def rx_buffers_ok_def demo_def rockusb_init_def)

subsection \<open>Properties\<close>





text \<open>A chunk is stored again and again while the status wrapper cannot be sent: when the last
  chunk of a write arrives and the transmit endpoint has not finished cleanly, every further
  round of the main loop writes the same bytes once more, each time at the addresses after
  the previous copy, and no status is sent.\<close>
theorem rockusb_last_chunk_repeats:
  assumes "writing l0 n m s" "us_status s = ST_RXDATA" "gb_status (us_tx_giveback s) \<noteq> SEND_FINISHED_OK"
    "i < 2" "0 < k" "m + k = n" "k \<le> 128" "length xs = 512 * k" "unlocked ext"
    "l0 + n + k * q \<le> 0xFFF00000" "512 * (n + k * q) < 2 ^ 32"
  shows "\<exists>s'. do_rockusb ext lr ([Rx_done 0 (word_of_nat (512 * k)) i xs] # replicate q []) s = Some (False, s') \<and>
    usb_out (us_log s') = usb_out (us_log s) \<and>
    lba_writes (us_log s') = lba_writes (us_log s) @ map (\<lambda>j. (l0 + m + k * j, xs)) [0..<Suc q]"
  by (rule last_chunk_repeats [OF assms])

definition demo_writing :: "gb_state \<Rightarrow> rockusb" where
  "demo_writing g = (rockusb_init g [replicate 65536 0, replicate 65536 0] [replicate 65536 0, replicate 65536 0] [])
     \<lparr>us_status := ST_RXDATA, us_cmnd := 0x15, us_d_size := 512, us_lba := 5\<rparr>"

lemma demo_writing_ok: "writing 5 1 0 (demo_writing g)" "us_status (demo_writing g) = ST_RXDATA"
  "gb_status (us_tx_giveback (demo_writing g)) = g" "us_log (demo_writing g) = []"
  by (simp_all add: writing_def demo_writing_def rockusb_init_def tx_buffers_ok_def rx_buffers_ok_def)

theorem rockusb_last_chunk_repeats_witness:
  "\<exists>s'. do_rockusb (demo_ext 0 (\<lambda>a. [])) 0 [[Rx_done 0 512 0 (replicate 512 9)], [], []] (demo_writing SEND_FINISHED_ERROR) =
      Some (False, s') \<and> lba_writes (us_log s') = [(5, replicate 512 9), (6, replicate 512 9), (7, replicate 512 9)]"
proof -
  have "replicate 2 [] = [[], [] :: rk_irq list]" "[0..<Suc 2] = [0, 1, 2]" by (simp_all add: numeral_2_eq_2)
  then show ?thesis using rockusb_last_chunk_repeats [OF demo_writing_ok(1,2), of SEND_FINISHED_ERROR 0 1 "replicate 512 9"
      "demo_ext 0 (\<lambda>a. [])" 2 0]
    by (auto simp: demo_writing_ok demo_unlocked simp del: do_rockusb.simps replicate.simps upt.simps)
qed

text \<open>The status goes out before the data is stored: handling the last chunk sends the passing
  status wrapper and asks for the next command first, and writes the chunk to the media
  after that, whatever the result of the write will be.\<close>
theorem rockusb_status_first:
  assumes "writing l0 n m s" "rx_arrived k xs i s" "m + k = n" "unlocked ext"
    "gb_status (us_tx_giveback s) = SEND_FINISHED_OK"
  shows "\<exists>s'. rkusb_handle_datarx ext s = Some s' \<and> us_status s' = ST_IDLE \<and>
    us_log s' = us_log s @ [Usb_write (csw_bytes (csw_of (us_cbw s) (cb_DataTransferLength (us_cbw s)) CSW_GOOD)),
      Usb_arm 31 (us_rxbuf_num s), Write_lba (word_of_nat (l0 + m)) xs (word_of_nat k) (us_imgwr_mode s)]"
  using datarx_last [OF assms] by blast

theorem rockusb_status_first_witness:
  "\<exists>s' w. rkusb_handle_datarx (demo_ext 0 (\<lambda>a. [])) ((demo_writing SEND_FINISHED_OK)
       \<lparr>us_rx_giveback := \<lparr>gb_status = RECV_OK, gb_actual = 512, gb_buf = Some 1\<rparr>\<rparr>) = Some s' \<and>
     us_log s' = [Usb_write w, Usb_arm 31 0, Write_lba 5 (replicate 512 0) 1 0]"
proof -
  let ?s = "(demo_writing SEND_FINISHED_OK)\<lparr>us_rx_giveback := \<lparr>gb_status = RECV_OK, gb_actual = 512, gb_buf = Some 1\<rparr>\<rparr>"
  have "writing 5 1 0 ?s" using demo_writing_ok(1) by (simp add: writing_def tx_buffers_ok_def rx_buffers_ok_def)
  moreover have "rx_arrived 1 (replicate 512 0) 1 ?s"
    by (simp add: rx_arrived_def demo_writing_def rockusb_init_def)
  ultimately show ?thesis
    using rockusb_status_first [of 5 1 0 ?s 1 "replicate 512 0" 1 "demo_ext 0 (\<lambda>a. [])"]
    by (simp add: demo_unlocked demo_writing_ok del: replicate.simps) (auto simp: demo_writing_def rockusb_init_def)
qed

text \<open>An unknown command hangs the gadget: a command outside the fifteen handled ones leaves
  the status stage neither passed nor failed; in every later round, whatever transfers
  finish, nothing is sent, received or written, and no command is taken again until a device
  event resets the state.\<close>
theorem rockusb_unknown_hangs:
  assumes "command_received c s" "cb_CDB c ! 0 \<notin> set known_commands" "rx_buffers_ok s"
    "list_all (list_all transfer_irq) rs"
  shows "\<exists>s'. do_rockusb ext lr ([] # rs) s = Some (False, s') \<and> us_status s' = ST_CMD \<and>
    us_log s' = us_log s @ replicate (Suc (length rs)) Low_format_check"
  by (rule unknown_hangs [OF assms])

theorem rockusb_unknown_hangs_witness:
  "\<exists>s'. do_rockusb (demo_ext 0 (\<lambda>a. [])) 0 [[], [Tx_done 0 13 0], [Rx_done 0 31 1 (replicate 31 0)]] (demo (demo_cbw 0x0c 0 0)) =
      Some (False, s') \<and> us_status s' = ST_CMD"
  using rockusb_unknown_hangs [OF demo_received, of "0x0c" 0 0 "[[Tx_done 0 13 0], [Rx_done 0 31 1 (replicate 31 0)]]"
      "demo_ext 0 (\<lambda>a. [])" 0]
  by (auto simp: demo_cdb known_commands_def demo_buffers)

text \<open>A read of no sectors never returns: the round of the main loop that takes such a command
  jumps back to the start of the transfer for ever.\<close>
theorem rockusb_read_nothing:
  assumes "command_received c s" "cb_CDB c ! 0 = 0x14" "req_sectors c = 0"
  shows "loop_body ext lr [] s = None"
  by (rule read_nothing_diverges [OF assms])

theorem rockusb_read_nothing_witness:
  "loop_body (demo_ext 0 (\<lambda>a. [])) 0 [] (demo (demo_cbw 0x14 5 0)) = None"
  by (rule rockusb_read_nothing [OF demo_received]) (simp_all add: demo_cdb demo_request)



text \<open>C4: The commands without a data stage are answered at once: the round that takes one sends
  exactly one status wrapper, with the tag of the command and a pass or fail status, is idle
  again, and resets the CPU exactly when the command asked for one of the three resets.\<close>
theorem rockusb_status_answer:
  assumes "command_received c s" "cb_CDB c ! 0 \<in> set status_commands" "tx_buffers_ok s"
    "gb_status (us_tx_giveback s) = SEND_FINISHED_OK"
  shows "\<exists>b s' residue st. loop_body ext lr [] s = Some (b, s') \<and> us_status s' = ST_IDLE \<and> st \<le> 1 \<and>
    usb_out (us_log s') = usb_out (us_log s) @ [csw_bytes (csw_of c residue st)] \<and>
    (b \<longleftrightarrow> requested_reset ext (us_log s) c \<in> {0x01, 0x03, 0xff})"
  by (rule status_answer [OF assms])

theorem rockusb_status_answer_witness:
  "\<exists>s' residue st. loop_body (demo_ext 0 (\<lambda>a. [])) 0 [] (demo (demo_cbw 0xff 0 0)) = Some (True, s') \<and>
    usb_out (us_log s') = [csw_bytes (csw_of (demo_cbw 0xff 0 0) residue st)]"
proof -
  have "requested_reset (demo_ext 0 (\<lambda>a. [])) [] (demo_cbw 0xff 0 0) = 0xff"
    by (simp add: requested_reset_def demo_cbw_def)
  then show ?thesis
    using rockusb_status_answer [OF demo_received [of "0xff" 0 0] _ demo_buffers(1,4), of "demo_ext 0 (\<lambda>a. [])" 0]
    by (auto simp: demo_cdb status_commands_def demo_buffers) blast
qed

text \<open>The commands answered by a few bytes (flash id, bad-block test, flash info, chip
  version) send those bytes, in the length the storage and boot services give, and after the
  transfer one passing status wrapper with the tag of the command.\<close>
theorem rockusb_reply_answer:
  assumes "command_received c s" "cb_CDB c ! 0 = k" "k \<in> {0x01, 0x03, 0x1A, 0x1B}" "services_ok ext"
    "tx_buffers_ok s"
  shows "\<exists>s'. do_rockusb ext lr [[], [Tx_done 0 a i]] s = Some (False, s') \<and> us_status s' = ST_IDLE \<and>
    usb_out (us_log s') = usb_out (us_log s) @
      [reply_bytes ext (us_log s) k, csw_bytes (csw_of c (cb_DataTransferLength c) CSW_GOOD)]"
  by (rule reply_answer [OF assms])

theorem rockusb_reply_answer_witness:
  "\<exists>s'. do_rockusb (demo_ext 0 (\<lambda>a. [])) 0 [[], [Tx_done 0 5 0]] (demo (demo_cbw 0x01 0 0)) = Some (False, s') \<and>
    usb_out (us_log s') = [[1, 2, 3, 4, 5], csw_bytes (csw_of (demo_cbw 0x01 0 0) 512 CSW_GOOD)]"
proof -
  have "services_ok (demo_ext 0 (\<lambda>a. []))" by (simp add: services_ok_def demo_ext_def)
  moreover have "reply_bytes (demo_ext 0 (\<lambda>a. [])) [] 0x01 = [1, 2, 3, 4, 5]"
    by (simp add: reply_bytes_def demo_ext_def)
  ultimately show ?thesis
    using rockusb_reply_answer [OF demo_received [of "0x01" 0 0] demo_cdb(2) _ _ demo_buffers(1),
        of "demo_ext 0 (\<lambda>a. [])" 0 5 0]
    by (auto simp: demo_buffers demo_cdb simp del: do_rockusb.simps)
qed

text \<open>C5: A write command leaves no stale prefetch of the blocks it writes: after the handler of an
  LBA write, the prefetched range and the range to be written are disjoint (when neither
  wraps around).\<close>
theorem rockusb_write_drops_prefetch:
  assumes "us_cbw s = c" "req_lba c + req_sectors c < 2 ^ 32"
    "unat (pre_lba (us_pre_read s)) + unat (pre_blocks (us_pre_read s)) < 2 ^ 32"
  shows "{req_lba c ..< req_lba c + req_sectors c} \<inter> prefetch_range (FW_LBAWrite10 s) = {}"
  by (rule lba_write_apart [OF assms])

theorem rockusb_write_drops_prefetch_witness:
  "{5 ..< 6} \<inter> prefetch_range (FW_LBAWrite10 ((demo (demo_cbw 0x15 5 1))
     \<lparr>us_cbw := demo_cbw 0x15 5 1, us_pre_read := \<lparr>pre_buffer = 0, pre_lba = 0, pre_blocks = 128\<rparr>\<rparr>)) = {}"
  using rockusb_write_drops_prefetch [of "(demo (demo_cbw 0x15 5 1))\<lparr>us_cbw := demo_cbw 0x15 5 1,
      us_pre_read := \<lparr>pre_buffer = 0, pre_lba = 0, pre_blocks = 128\<rparr>\<rparr>" "demo_cbw 0x15 5 1"]
  by (simp add: demo_request)

text \<open>A prefetch survives the clearing of the endpoints but its buffer does not stay the next
  one: when the host clears both endpoints in the middle of an upload and reads on from the
  same address, the gadget answers, without reading the media, with whatever the first
  transmit buffer holds, not with the prefetched sectors.\<close>
theorem rockusb_stale_prefetch:
  assumes "read_round media l0 n m s" "m < n" "rx_buffers_ok s"
    "length (cb_CDB c) = 16" "cb_CDB c ! 0 = 0x14" "req_lba c = l0 + m" "0 < req_sectors c" "req_sectors c \<le> 128"
    "l0 + m + req_sectors c \<le> 0xFFF00000"
  shows "\<exists>s'. do_rockusb ext lr [[Device_event 0x100004], [Rx_done 0 31 0 (cbw_bytes c)]] s = Some (False, s') \<and>
    usb_out (us_log s') = usb_out (us_log s) @ [take (512 * req_sectors c) (us_tx_buffer s ! 0)]"
  by (rule stale_prefetch [OF assms])

definition demo_reading :: rockusb where
  "demo_reading = (rockusb_init SEND_IN_PROGRESS [replicate 65536 0, replicate 65536 0]
       [replicate 65536 1, replicate 65536 2] [])
     \<lparr>us_status := ST_TXDATA_PREPARE, us_cmnd := 0x14, us_u_size := 512 * 200, us_u_bytes := 512 * 5, us_lba := 5,
      us_txbuf_num := 1, us_pre_read := \<lparr>pre_buffer = 1, pre_lba = 5, pre_blocks = 128\<rparr>\<rparr>"

lemma concat_const: "concat (map (\<lambda>a. replicate k x) ys) = replicate (length ys * k) x"
  by (induction ys) (simp_all add: replicate_add)

lemma demo_reading_ok: "read_round (\<lambda>a. replicate 512 2) 0 200 5 demo_reading" "rx_buffers_ok demo_reading"
proof -
  have "prefetched (\<lambda>a. replicate 512 2) 128 demo_reading"
    by (simp add: prefetched_def demo_reading_def rockusb_init_def sectors_def concat_const del: replicate.simps upt_rec_numeral)
  moreover have "reading 0 200 5 demo_reading"
    by (simp add: reading_def demo_reading_def rockusb_init_def tx_buffers_ok_def)
  ultimately show "read_round (\<lambda>a. replicate 512 2) 0 200 5 demo_reading"
    by (simp add: read_round_def ready_to_send_def) (simp add: demo_reading_def rockusb_init_def)
  show "rx_buffers_ok demo_reading" by (simp add: rx_buffers_ok_def demo_reading_def rockusb_init_def)
qed

theorem rockusb_stale_prefetch_witness:
  "\<exists>s'. do_rockusb (demo_ext 0 (\<lambda>a. replicate 512 2)) 0
      [[Device_event 0x100004], [Rx_done 0 31 0 (cbw_bytes (demo_cbw 0x14 5 1))]] demo_reading = Some (False, s') \<and>
    usb_out (us_log s') = [replicate 512 1]"
  using rockusb_stale_prefetch [OF demo_reading_ok(1) _ demo_reading_ok(2), of "demo_cbw 0x14 5 1"
      "demo_ext 0 (\<lambda>a. replicate 512 2)" 0]
  by (auto simp: demo_cdb demo_request simp del: replicate.simps) (auto simp: demo_reading_def rockusb_init_def)

text \<open>The four transfer buffers lie in the boot buffer one after the other without overlap,
  each with room for a full chunk of 128 blocks of 528 bytes, whenever the boot buffer has
  room for four such chunks.\<close>
theorem rockusb_buffers_apart:
  assumes "4 * (128 * 528) \<le> room" "init_buffers base room = (rx, tx)"
  shows "length (rx @ tx) = 4 \<and>
    (\<forall>j < 4. base \<le> (rx @ tx) ! j \<and> (rx @ tx) ! j + 128 * 528 \<le> base + room) \<and>
    (\<forall>j < 3. (rx @ tx) ! j + 128 * 528 \<le> (rx @ tx) ! Suc j)"
proof -
  have "rx @ tx = [base, base + room div 4, base + room div 2, base + room div 2 + room div 4]"
    using assms(2) by (auto simp: init_buffers_def Let_def)
  moreover obtain q h where q: "q = room div 4" and h: "h = room div 2" by blast
  moreover have "128 * 528 \<le> q" "q + q \<le> h" "h + h \<le> room"
    using assms(1) unfolding q h by linarith+
  moreover have below: "(\<forall>j < 4. P j) \<longleftrightarrow> P 0 \<and> P 1 \<and> P 2 \<and> P (3 :: nat)"
      "(\<forall>j < 3. P j) \<longleftrightarrow> P 0 \<and> P 1 \<and> P (2 :: nat)" for P
    by (simp_all add: numeral_nat All_less_Suc2 conj_ac)
  ultimately show ?thesis by (simp add: below)
qed

theorem rockusb_buffers_apart_witness:
  "init_buffers 0x2000000 0x100000 = ([0x2000000, 0x2040000], [0x2080000, 0x20c0000]) \<and>
   (0x2000000 :: nat) + 128 * 528 \<le> 0x2040000 \<and> (0x2080000 :: nat) + 128 * 528 \<le> 0x20c0000"
proof -
  have b: "init_buffers 0x2000000 0x100000 = ([0x2000000, 0x2040000], [0x2080000, 0x20c0000])"
    by (simp add: init_buffers_def)
  from rockusb_buffers_apart [OF _ this] have
    "\<forall>j < 3. [0x2000000, 0x2040000, 0x2080000, 0x20c0000] ! j + 128 * 528 \<le>
      [0x2000000, 0x2040000, 0x2080000, 0x20c0000 :: nat] ! Suc j" by simp
  from this [rule_format, of 0] this [rule_format, of 2] b show ?thesis by simp
qed



end
