(* ===== verification/Rk_I2s.thy ===== *)
theory Rk_I2s
  imports Reg_Bus
begin

text \<open>
  The I2S controller of the RK3288 (\<^verbatim>\<open>rk3288/debug/codec/rk_i2s.c\<close>, \<^verbatim>\<open>rk_i2s.h\<close>): register
  access rules, stream control, the DAI operations and the probe. The register map and the
  clock framework are kernel services, parameters of the model. The spin lock is the flag
  \<open>i2s_locked\<close>; taking it while it is held never returns (None).
\<close>

subsection \<open>Registers\<close>

abbreviation (input) I2S_TXCR :: u32 where "I2S_TXCR \<equiv> 0x0000"
abbreviation (input) I2S_RXCR :: u32 where "I2S_RXCR \<equiv> 0x0004"
abbreviation (input) I2S_CKR :: u32 where "I2S_CKR \<equiv> 0x0008"
abbreviation (input) I2S_FIFOLR :: u32 where "I2S_FIFOLR \<equiv> 0x000c"
abbreviation (input) I2S_DMACR :: u32 where "I2S_DMACR \<equiv> 0x0010"
abbreviation (input) I2S_INTCR :: u32 where "I2S_INTCR \<equiv> 0x0014"
abbreviation (input) I2S_INTSR :: u32 where "I2S_INTSR \<equiv> 0x0018"
abbreviation (input) I2S_XFER :: u32 where "I2S_XFER \<equiv> 0x001c"
abbreviation (input) I2S_CLR :: u32 where "I2S_CLR \<equiv> 0x0020"
abbreviation (input) I2S_TXDR :: u32 where "I2S_TXDR \<equiv> 0x0024"
abbreviation (input) I2S_RXDR :: u32 where "I2S_RXDR \<equiv> 0x0028"

abbreviation (input) I2S_TXCR_CSR_MASK :: u32 where "I2S_TXCR_CSR_MASK \<equiv> push_bit 15 3"
abbreviation (input) I2S_TXCR_IBM_MASK :: u32 where "I2S_TXCR_IBM_MASK \<equiv> push_bit 9 3"
abbreviation (input) I2S_TXCR_VDW_MASK :: u32 where "I2S_TXCR_VDW_MASK \<equiv> 0x1f"
abbreviation (input) I2S_RXCR_IBM_MASK :: u32 where "I2S_RXCR_IBM_MASK \<equiv> push_bit 9 3"
abbreviation (input) I2S_RXCR_VDW_MASK :: u32 where "I2S_RXCR_VDW_MASK \<equiv> 0x1f"
abbreviation (input) I2S_CKR_MSS_MASK :: u32 where "I2S_CKR_MSS_MASK \<equiv> push_bit 27 1"
abbreviation (input) I2S_CKR_MDIV_MASK :: u32 where "I2S_CKR_MDIV_MASK \<equiv> push_bit 16 0xff"
abbreviation (input) I2S_CKR_RSD_MASK :: u32 where "I2S_CKR_RSD_MASK \<equiv> push_bit 8 0xff"
abbreviation (input) I2S_CKR_TSD_MASK :: u32 where "I2S_CKR_TSD_MASK \<equiv> 0xff"
abbreviation (input) I2S_DMACR_RDE_MASK :: u32 where "I2S_DMACR_RDE_MASK \<equiv> push_bit 24 1"
abbreviation (input) I2S_DMACR_RDL_MASK :: u32 where "I2S_DMACR_RDL_MASK \<equiv> push_bit 16 0x1f"
abbreviation (input) I2S_DMACR_TDE_MASK :: u32 where "I2S_DMACR_TDE_MASK \<equiv> push_bit 8 1"
abbreviation (input) I2S_DMACR_TDL_MASK :: u32 where "I2S_DMACR_TDL_MASK \<equiv> 0x1f"
abbreviation (input) I2S_XFER_TXS_MASK :: u32 where "I2S_XFER_TXS_MASK \<equiv> 1"
abbreviation (input) I2S_XFER_RXS_MASK :: u32 where "I2S_XFER_RXS_MASK \<equiv> push_bit 1 1"
abbreviation (input) I2S_CLR_TXC_MASK :: u32 where "I2S_CLR_TXC_MASK \<equiv> 1"
abbreviation (input) I2S_CLR_RXC_MASK :: u32 where "I2S_CLR_RXC_MASK \<equiv> push_bit 1 1"

definition rockchip_i2s_wr_reg :: "u32 \<Rightarrow> bool" where
  "rockchip_i2s_wr_reg r \<longleftrightarrow>
     r \<in> {I2S_TXCR, I2S_RXCR, I2S_CKR, I2S_DMACR, I2S_INTCR, I2S_XFER, I2S_CLR, I2S_TXDR}"

definition rockchip_i2s_rd_reg :: "u32 \<Rightarrow> bool" where
  "rockchip_i2s_rd_reg r \<longleftrightarrow>
     r \<in> {I2S_TXCR, I2S_RXCR, I2S_CKR, I2S_DMACR, I2S_INTCR, I2S_XFER, I2S_CLR, I2S_RXDR, I2S_FIFOLR, I2S_INTSR}"

definition rockchip_i2s_volatile_reg :: "u32 \<Rightarrow> bool" where
  "rockchip_i2s_volatile_reg r \<longleftrightarrow> r \<in> {I2S_INTSR, I2S_CLR}"

definition rockchip_i2s_precious_reg :: "u32 \<Rightarrow> bool" where
  "rockchip_i2s_precious_reg r \<longleftrightarrow> False"

record regmap_config =
  reg_bits :: nat
  reg_stride :: nat
  val_bits :: nat
  max_register :: u32
  writeable_reg :: "u32 \<Rightarrow> bool"
  readable_reg :: "u32 \<Rightarrow> bool"
  volatile_reg :: "u32 \<Rightarrow> bool"
  precious_reg :: "u32 \<Rightarrow> bool"

definition rockchip_i2s_regmap_config :: regmap_config where
  "rockchip_i2s_regmap_config =
     \<lparr>reg_bits = 32, reg_stride = 4, val_bits = 32, max_register = I2S_RXDR,
      writeable_reg = rockchip_i2s_wr_reg, readable_reg = rockchip_i2s_rd_reg,
      volatile_reg = rockchip_i2s_volatile_reg, precious_reg = rockchip_i2s_precious_reg\<rparr>"

subsection \<open>State\<close>

text \<open>One direction's DMA parameters: FIFO address, bus width in bytes, burst length.\<close>

record dma_data =
  dma_addr :: u32
  dma_addr_width :: nat
  dma_maxburst :: u32

record 'd rk_i2s_dev =
  i2s_locked :: bool
  i2s_tx_start :: bool
  i2s_rx_start :: bool
  i2s_playback_dma :: dma_data
  i2s_capture_dma :: dma_data
  i2s_bus :: 'd

datatype pcm_stream = SNDRV_PCM_STREAM_PLAYBACK | SNDRV_PCM_STREAM_CAPTURE

definition i2s_lock :: "'d rk_i2s_dev \<Rightarrow> 'd rk_i2s_dev option" where
  "i2s_lock s = map_option (\<lambda>l. s\<lparr>i2s_locked := l\<rparr>) (mutex_lock (i2s_locked s))"

definition i2s_unlock :: "'d rk_i2s_dev \<Rightarrow> 'd rk_i2s_dev" where
  "i2s_unlock s = s\<lparr>i2s_locked := False\<rparr>"

definition i2s_update :: "'d regmap_ops \<Rightarrow> u32 \<Rightarrow> u32 \<Rightarrow> u32 \<Rightarrow> 'd rk_i2s_dev \<Rightarrow> 'd rk_i2s_dev" where
  "i2s_update rm r m v s = s\<lparr>i2s_bus := snd (rm_update_bits rm (i2s_bus s) r m v)\<rparr>"

subsection \<open>Stream control\<close>

text \<open>
  \<^verbatim>\<open>regmap_read(i2s->regmap, I2S_CLR, &val)\<close>: a failed read leaves \<^verbatim>\<open>val\<close> as it was.
\<close>

definition read_clr :: "'d regmap_ops \<Rightarrow> u32 \<Rightarrow> 'd \<Rightarrow> u32 \<times> 'd" where
  "read_clr rm val d = (case rm_read rm d I2S_CLR of (_, v, d) \<Rightarrow> (case v of None \<Rightarrow> val | Some v \<Rightarrow> v, d))"

text \<open>The wait for the clear to finish, with the number of retries left (it starts at 10).\<close>

fun clr_wait :: "'d regmap_ops \<Rightarrow> nat \<Rightarrow> u32 \<Rightarrow> 'd \<Rightarrow> 'd" where
  "clr_wait rm 0 val d = d"
| "clr_wait rm (Suc retry) val d =
     (if val \<noteq> 0 then
        (let (val, d) = read_clr rm val d in if retry = 0 then d else clr_wait rm retry val d)
      else d)"

definition stop_xfer :: "'d regmap_ops \<Rightarrow> 'd rk_i2s_dev \<Rightarrow> 'd rk_i2s_dev" where
  "stop_xfer rm s =
     (let s = i2s_update rm I2S_XFER (I2S_XFER_TXS_MASK OR I2S_XFER_RXS_MASK) 0 s;
          s = i2s_update rm I2S_CLR (I2S_CLR_TXC_MASK OR I2S_CLR_RXC_MASK) (1 OR push_bit 1 1) s;
          (val, d) = read_clr rm 0 (i2s_bus s)
      in s\<lparr>i2s_bus := clr_wait rm 10 val d\<rparr>)"

definition rockchip_snd_txctrl :: "'d regmap_ops \<Rightarrow> bool \<Rightarrow> 'd rk_i2s_dev \<Rightarrow> 'd rk_i2s_dev option" where
  "rockchip_snd_txctrl rm on s =
     do { s \<leftarrow> i2s_lock s;
          (let s = (if on then
                      (let s = i2s_update rm I2S_DMACR I2S_DMACR_TDE_MASK (push_bit 8 1) s;
                           s = i2s_update rm I2S_XFER (I2S_XFER_TXS_MASK OR I2S_XFER_RXS_MASK) (1 OR push_bit 1 1) s
                       in s\<lparr>i2s_tx_start := True\<rparr>)
                    else
                      (let s = s\<lparr>i2s_tx_start := False\<rparr>;
                           s = i2s_update rm I2S_DMACR I2S_DMACR_TDE_MASK 0 s
                       in if \<not> i2s_rx_start s then stop_xfer rm s else s))
           in Some (i2s_unlock s)) }"

definition rockchip_snd_rxctrl :: "'d regmap_ops \<Rightarrow> bool \<Rightarrow> 'd rk_i2s_dev \<Rightarrow> 'd rk_i2s_dev option" where
  "rockchip_snd_rxctrl rm on s =
     do { s \<leftarrow> i2s_lock s;
          (let s = (if on then
                      (let s = i2s_update rm I2S_DMACR I2S_DMACR_RDE_MASK (push_bit 24 1) s;
                           s = i2s_update rm I2S_XFER (I2S_XFER_TXS_MASK OR I2S_XFER_RXS_MASK) (1 OR push_bit 1 1) s
                       in s\<lparr>i2s_rx_start := True\<rparr>)
                    else
                      (let s = s\<lparr>i2s_rx_start := False\<rparr>;
                           s = i2s_update rm I2S_DMACR I2S_DMACR_RDE_MASK 0 s
                       in if \<not> i2s_tx_start s then stop_xfer rm s else s))
           in Some (i2s_unlock s)) }"

abbreviation (input) SNDRV_PCM_TRIGGER_STOP :: int where "SNDRV_PCM_TRIGGER_STOP \<equiv> 0"
abbreviation (input) SNDRV_PCM_TRIGGER_START :: int where "SNDRV_PCM_TRIGGER_START \<equiv> 1"
abbreviation (input) SNDRV_PCM_TRIGGER_PAUSE_PUSH :: int where "SNDRV_PCM_TRIGGER_PAUSE_PUSH \<equiv> 3"
abbreviation (input) SNDRV_PCM_TRIGGER_PAUSE_RELEASE :: int where "SNDRV_PCM_TRIGGER_PAUSE_RELEASE \<equiv> 4"
abbreviation (input) SNDRV_PCM_TRIGGER_SUSPEND :: int where "SNDRV_PCM_TRIGGER_SUSPEND \<equiv> 5"
abbreviation (input) SNDRV_PCM_TRIGGER_RESUME :: int where "SNDRV_PCM_TRIGGER_RESUME \<equiv> 6"

definition rockchip_i2s_trigger ::
    "'d regmap_ops \<Rightarrow> pcm_stream \<Rightarrow> int \<Rightarrow> 'd rk_i2s_dev \<Rightarrow> (int \<times> 'd rk_i2s_dev) option" where
  "rockchip_i2s_trigger rm stream cmd s =
     (if cmd \<in> {SNDRV_PCM_TRIGGER_START, SNDRV_PCM_TRIGGER_RESUME, SNDRV_PCM_TRIGGER_PAUSE_RELEASE} then
        map_option (Pair 0) (if stream = SNDRV_PCM_STREAM_CAPTURE then rockchip_snd_rxctrl rm True s
                             else rockchip_snd_txctrl rm True s)
      else if cmd \<in> {SNDRV_PCM_TRIGGER_SUSPEND, SNDRV_PCM_TRIGGER_STOP, SNDRV_PCM_TRIGGER_PAUSE_PUSH} then
        map_option (Pair 0) (if stream = SNDRV_PCM_STREAM_CAPTURE then rockchip_snd_rxctrl rm False s
                             else rockchip_snd_txctrl rm False s)
      else Some (- EINVAL, s))"

subsection \<open>Stream parameters\<close>

record pcm_params =
  p_format :: int
  p_channels :: u32
  p_rate :: u32

abbreviation (input) SNDRV_PCM_FORMAT_S8 :: int where "SNDRV_PCM_FORMAT_S8 \<equiv> 0"
abbreviation (input) SNDRV_PCM_FORMAT_S16_LE :: int where "SNDRV_PCM_FORMAT_S16_LE \<equiv> 2"
abbreviation (input) SNDRV_PCM_FORMAT_S24_LE :: int where "SNDRV_PCM_FORMAT_S24_LE \<equiv> 6"
abbreviation (input) SNDRV_PCM_FORMAT_S32_LE :: int where "SNDRV_PCM_FORMAT_S32_LE \<equiv> 10"
abbreviation (input) SNDRV_PCM_FORMAT_S24_3LE :: int where "SNDRV_PCM_FORMAT_S24_3LE \<equiv> 32"
abbreviation (input) SNDRV_PCM_FORMAT_S20_3LE :: int where "SNDRV_PCM_FORMAT_S20_3LE \<equiv> 36"

definition i2s_vdw :: "int \<Rightarrow> u32 option" where
  "i2s_vdw fmt =
     (if fmt = SNDRV_PCM_FORMAT_S8 then Some (8 - 1)
      else if fmt = SNDRV_PCM_FORMAT_S16_LE then Some (16 - 1)
      else if fmt = SNDRV_PCM_FORMAT_S20_3LE then Some (20 - 1)
      else if fmt = SNDRV_PCM_FORMAT_S24_LE \<or> fmt = SNDRV_PCM_FORMAT_S24_3LE then Some (24 - 1)
      else if fmt = SNDRV_PCM_FORMAT_S32_LE then Some (32 - 1)
      else None)"

definition i2s_csr :: "u32 \<Rightarrow> u32 option" where
  "i2s_csr ch =
     (if ch = 8 then Some (push_bit 15 3) else if ch = 6 then Some (push_bit 15 2)
      else if ch = 4 then Some (push_bit 15 1) else if ch = 2 then Some (push_bit 15 0) else None)"

definition rockchip_i2s_hw_params ::
    "'d regmap_ops \<Rightarrow> pcm_stream \<Rightarrow> pcm_params \<Rightarrow> 'd rk_i2s_dev \<Rightarrow> (int \<times> 'd rk_i2s_dev) option" where
  "rockchip_i2s_hw_params rm stream params s =
     do { s \<leftarrow> i2s_lock s;
          (case i2s_vdw (p_format params) of None \<Rightarrow> Some (- EINVAL, i2s_unlock s) | Some vdw \<Rightarrow>
           case i2s_csr (p_channels params) of None \<Rightarrow> Some (- EINVAL, i2s_unlock s) | Some csr \<Rightarrow>
           (let val = vdw OR csr;
                s = (if stream = SNDRV_PCM_STREAM_PLAYBACK
                     then i2s_update rm I2S_TXCR (I2S_TXCR_VDW_MASK OR I2S_TXCR_CSR_MASK) val s
                     else i2s_update rm I2S_RXCR I2S_RXCR_VDW_MASK val s);
                s = i2s_update rm I2S_DMACR (I2S_DMACR_TDL_MASK OR I2S_DMACR_RDL_MASK)
                      (16 OR push_bit 16 (16 - 1)) s
            in Some (0, i2s_unlock s))) }"

abbreviation (input) SND_SOC_DAIFMT_I2S :: u32 where "SND_SOC_DAIFMT_I2S \<equiv> 1"
abbreviation (input) SND_SOC_DAIFMT_RIGHT_J :: u32 where "SND_SOC_DAIFMT_RIGHT_J \<equiv> 2"
abbreviation (input) SND_SOC_DAIFMT_LEFT_J :: u32 where "SND_SOC_DAIFMT_LEFT_J \<equiv> 3"
abbreviation (input) SND_SOC_DAIFMT_DSP_A :: u32 where "SND_SOC_DAIFMT_DSP_A \<equiv> 4"
abbreviation (input) SND_SOC_DAIFMT_DSP_B :: u32 where "SND_SOC_DAIFMT_DSP_B \<equiv> 5"
abbreviation (input) SND_SOC_DAIFMT_CBM_CFM :: u32 where "SND_SOC_DAIFMT_CBM_CFM \<equiv> 0x1000"
abbreviation (input) SND_SOC_DAIFMT_CBS_CFS :: u32 where "SND_SOC_DAIFMT_CBS_CFS \<equiv> 0x4000"
abbreviation (input) SND_SOC_DAIFMT_FORMAT_MASK :: u32 where "SND_SOC_DAIFMT_FORMAT_MASK \<equiv> 0x000f"
abbreviation (input) SND_SOC_DAIFMT_MASTER_MASK :: u32 where "SND_SOC_DAIFMT_MASTER_MASK \<equiv> 0xf000"

definition i2s_mss :: "u32 \<Rightarrow> u32 option" where
  "i2s_mss master =
     (if master = SND_SOC_DAIFMT_CBS_CFS then Some 0
      else if master = SND_SOC_DAIFMT_CBM_CFM then Some (push_bit 27 1) else None)"

definition i2s_ibm :: "u32 \<Rightarrow> u32 option" where
  "i2s_ibm fmt =
     (if fmt = SND_SOC_DAIFMT_RIGHT_J then Some (push_bit 9 2)
      else if fmt = SND_SOC_DAIFMT_LEFT_J then Some (push_bit 9 1)
      else if fmt = SND_SOC_DAIFMT_I2S then Some 0 else None)"

text \<open>The result is 0 on every path: the label at the end returns 0, not \<^verbatim>\<open>ret\<close>.\<close>

definition rockchip_i2s_set_fmt :: "'d regmap_ops \<Rightarrow> u32 \<Rightarrow> 'd rk_i2s_dev \<Rightarrow> (int \<times> 'd rk_i2s_dev) option" where
  "rockchip_i2s_set_fmt rm fmt s =
     do { s \<leftarrow> i2s_lock s;
          (case i2s_mss (fmt AND SND_SOC_DAIFMT_MASTER_MASK) of None \<Rightarrow> Some (0, i2s_unlock s) | Some mss \<Rightarrow>
           (let s = i2s_update rm I2S_CKR I2S_CKR_MSS_MASK mss s in
            case i2s_ibm (fmt AND SND_SOC_DAIFMT_FORMAT_MASK) of None \<Rightarrow> Some (0, i2s_unlock s) | Some ibm \<Rightarrow>
            (let s = i2s_update rm I2S_TXCR I2S_TXCR_IBM_MASK ibm s;
                 s = i2s_update rm I2S_RXCR I2S_RXCR_IBM_MASK ibm s
             in Some (0, i2s_unlock s)))) }"

text \<open>A left shift of an int: undefined for a negative value or when the result does not fit.\<close>

definition shl_int :: "int \<Rightarrow> nat \<Rightarrow> u32 option" where
  "shl_int x n = (if 0 \<le> x \<and> x * 2 ^ n < 2 ^ 31 then Some (word_of_int (x * 2 ^ n)) else None)"

abbreviation (input) ROCKCHIP_DIV_MCLK :: int where "ROCKCHIP_DIV_MCLK \<equiv> 0"
abbreviation (input) ROCKCHIP_DIV_BCLK :: int where "ROCKCHIP_DIV_BCLK \<equiv> 1"

definition rockchip_i2s_set_clkdiv ::
    "'d regmap_ops \<Rightarrow> int \<Rightarrow> int \<Rightarrow> 'd rk_i2s_dev \<Rightarrow> (int \<times> 'd rk_i2s_dev) option" where
  "rockchip_i2s_set_clkdiv rm div_id n s =
     do { s \<leftarrow> i2s_lock s;
          (if div_id = ROCKCHIP_DIV_BCLK then
             do { tsd \<leftarrow> shl_int n 0; rsd \<leftarrow> shl_int n 8;
                  Some (0, i2s_unlock (i2s_update rm I2S_CKR (I2S_CKR_TSD_MASK OR I2S_CKR_RSD_MASK) (tsd OR rsd) s)) }
           else if div_id = ROCKCHIP_DIV_MCLK then
             do { mdiv \<leftarrow> shl_int n 16;
                  Some (0, i2s_unlock (i2s_update rm I2S_CKR I2S_CKR_MDIV_MASK mdiv s)) }
           else Some (- EINVAL, i2s_unlock s)) }"

definition rockchip_i2s_set_sysclk ::
    "(u32 \<Rightarrow> 'd \<Rightarrow> int \<times> 'd) \<Rightarrow> u32 \<Rightarrow> 'd rk_i2s_dev \<Rightarrow> int \<times> 'd rk_i2s_dev" where
  "rockchip_i2s_set_sysclk clk_set_rate freq s =
     (let (ret, d) = clk_set_rate freq (i2s_bus s) in (ret, s\<lparr>i2s_bus := d\<rparr>))"

subsection \<open>The DAI table\<close>

abbreviation (input) SNDRV_PCM_FMTBIT :: "nat \<Rightarrow> 64 word" where "SNDRV_PCM_FMTBIT n \<equiv> push_bit n 1"

text \<open>As written: the last operand is the format number 10, not its bit.\<close>

definition ROCKCHIP_I2S_FORMATS :: "64 word" where
  "ROCKCHIP_I2S_FORMATS = SNDRV_PCM_FMTBIT 2 OR SNDRV_PCM_FMTBIT 36 OR SNDRV_PCM_FMTBIT 6 OR 10"

record snd_soc_dai_driver =
  dai_id :: nat
  playback_channels :: "u32 \<times> u32"
  capture_channels :: "u32 \<times> u32"
  dai_formats :: "64 word"

definition rockchip_i2s_dai :: "snd_soc_dai_driver list" where
  "rockchip_i2s_dai =
     [\<lparr>dai_id = 0, playback_channels = (2, 8), capture_channels = (2, 2), dai_formats = ROCKCHIP_I2S_FORMATS\<rparr>,
      \<lparr>dai_id = 1, playback_channels = (2, 2), capture_channels = (2, 2), dai_formats = ROCKCHIP_I2S_FORMATS\<rparr>]"

subsection \<open>Probe and removal\<close>

abbreviation (input) I2S_DEFAULT_FREQ :: u32 where "I2S_DEFAULT_FREQ \<equiv> 11289600"
abbreviation (input) I2S_DMA_BURST_SIZE :: u32 where "I2S_DMA_BURST_SIZE \<equiv> 16"

definition rockchip_dma_setup :: "u32 \<Rightarrow> 'd rk_i2s_dev \<Rightarrow> 'd rk_i2s_dev" where
  "rockchip_dma_setup start s =
     s\<lparr>i2s_playback_dma := \<lparr>dma_addr = start + I2S_TXDR, dma_addr_width = 4, dma_maxburst = I2S_DMA_BURST_SIZE\<rparr>,
       i2s_capture_dma := \<lparr>dma_addr = start + I2S_RXDR, dma_addr_width = 4, dma_maxburst = I2S_DMA_BURST_SIZE\<rparr>\<rparr>"

datatype i2s_clock = HCLK | BCLK | MCLK

datatype i2s_event =
    Clk_enable i2s_clock
  | Clk_disable i2s_clock
  | Clk_rate i2s_clock u32
  | Register_component nat
  | Unregister_component
  | Register_pcm
  | Unregister_pcm

text \<open>
  The answers of the kernel services the probe asks: a return code, a negative error for an
  error pointer, whether memory was there, the id and the resource found.
\<close>

record i2s_services =
  sv_alloc :: bool
  sv_read_id :: "int \<times> nat"
  sv_clk :: "i2s_clock \<Rightarrow> int"
  sv_resource :: "u32 option"
  sv_ioremap :: int
  sv_regmap :: int
  sv_component :: int
  sv_pcm :: int

definition parse_from_dt :: "i2s_services \<Rightarrow> int" where
  "parse_from_dt sv =
     (let ret = fst (sv_read_id sv) in
      if ret < 0 then - EINVAL
      else if sv_clk sv HCLK < 0 then sv_clk sv HCLK
      else if sv_clk sv BCLK < 0 then sv_clk sv BCLK
      else if sv_clk sv MCLK < 0 then sv_clk sv MCLK
      else ret)"

definition enable_clks :: "i2s_event list" where
  "enable_clks = [Clk_enable HCLK, Clk_enable BCLK, Clk_enable MCLK,
     Clk_rate BCLK I2S_DEFAULT_FREQ, Clk_rate MCLK I2S_DEFAULT_FREQ]"

text \<open>
  The device is the one the probe has allocated: the bus as it is, everything else zero
  until it is set. The result is the return code, the kernel calls that took effect, and the
  device when it was bound.
\<close>

definition rockchip_i2s_probe ::
    "'d regmap_ops \<Rightarrow> i2s_services \<Rightarrow> 'd \<Rightarrow> (int \<times> i2s_event list \<times> 'd rk_i2s_dev option) option" where
  "rockchip_i2s_probe rm sv d =
     (if \<not> sv_alloc sv then Some (- ENOMEM, [], None)
      else if parse_from_dt sv < 0 then Some (parse_from_dt sv, [], None)
      else do { start \<leftarrow> sv_resource sv;
        (if sv_ioremap sv < 0 then Some (sv_ioremap sv, enable_clks, None)
         else if sv_regmap sv < 0 then Some (sv_regmap sv, enable_clks, None)
         else
          (let zero = \<lparr>dma_addr = 0, dma_addr_width = 0, dma_maxburst = 0\<rparr>;
               s = rockchip_dma_setup start \<lparr>i2s_locked = False, i2s_tx_start = False, i2s_rx_start = False,
                     i2s_playback_dma = zero, i2s_capture_dma = zero, i2s_bus = d\<rparr>
           in do { dai \<leftarrow> aref rockchip_i2s_dai (int (snd (sv_read_id sv)));
                   (if sv_component sv \<noteq> 0 then Some (- ENOMEM, enable_clks, None)
                    else if sv_pcm sv \<noteq> 0 then
                      Some (sv_pcm sv, enable_clks @ [Register_component (dai_id dai), Unregister_component], None)
                    else do { s \<leftarrow> rockchip_snd_txctrl rm False s;
                              s \<leftarrow> rockchip_snd_rxctrl rm False s;
                              Some (0, enable_clks @ [Register_component (dai_id dai), Register_pcm], Some s) }) })) })"

definition rockchip_i2s_remove :: "i2s_event list" where
  "rockchip_i2s_remove = [Clk_disable MCLK, Clk_disable BCLK, Clk_disable HCLK, Unregister_pcm, Unregister_component]"

end
