(* ===== verification/Rk_I2s_Correct.thy ===== *)
theory Rk_I2s_Correct
  imports Rk_I2s
begin

text \<open>
  What the I2S controller's operations do to the registers: the contract of the register
  map as a locale, the streams as an abstract state, the invariant that ties the start
  flags to the enable bits, and the accesses an operation may make.
\<close>

subsection \<open>The register map of the controller\<close>

text \<open>Configuration registers keep their value; the clear register only reports progress.\<close>

definition i2s_plain :: "u32 \<Rightarrow> bool" where
  "i2s_plain r \<longleftrightarrow> r \<in> {I2S_TXCR, I2S_RXCR, I2S_CKR, I2S_DMACR, I2S_INTCR, I2S_XFER}"

lemma i2s_plain_simps [simp]: "i2s_plain I2S_TXCR" "i2s_plain I2S_RXCR" "i2s_plain I2S_CKR"
  "i2s_plain I2S_DMACR" "i2s_plain I2S_XFER" "\<not> i2s_plain I2S_CLR"
  by (simp_all add: i2s_plain_def)

locale i2s_port = regmap_dev rm reg i2s_plain for rm :: "'d regmap_ops" and reg +
  assumes clr_update: "i2s_plain r \<Longrightarrow> reg (snd (rm_update_bits rm d I2S_CLR m v)) r = reg d r"
    and clr_read: "i2s_plain r \<Longrightarrow> reg (snd (snd (rm_read rm d I2S_CLR))) r = reg d r"
begin

lemma reg_update: "i2s_plain r \<Longrightarrow> reg (i2s_bus (i2s_update rm r m v s)) =
    (reg (i2s_bus s))(r := put_field (reg (i2s_bus s) r) m (v AND m))"
  using rm_update [of r "i2s_bus s" m v] by (auto simp: i2s_update_def)

lemma bit_update: "i2s_plain r \<Longrightarrow> n < 32 \<Longrightarrow> bit (reg (i2s_bus (i2s_update rm r m v s)) r') n =
    (if r' = r \<and> bit m n then bit v n else bit (reg (i2s_bus s) r') n)"
  by (auto simp: reg_update bit_put_field [OF fits_and] bit_simps)

lemma field_update: "i2s_plain r \<Longrightarrow> reg (i2s_bus (i2s_update rm r m v s)) r AND m = v AND m"
  by (simp add: reg_update put_field_masked fits_and)

lemma outside_update: "i2s_plain r \<Longrightarrow> r' \<noteq> r \<or> k AND m = 0 \<Longrightarrow>
    reg (i2s_bus (i2s_update rm r m v s)) r' AND k = reg (i2s_bus s) r' AND k"
  by (auto simp: reg_update put_field_outside fits_and)

lemma other_update: "i2s_plain r \<Longrightarrow> r' \<noteq> r \<Longrightarrow> reg (i2s_bus (i2s_update rm r m v s)) r' = reg (i2s_bus s) r'"
  by (simp add: reg_update)

lemma read_clr_quiet: "i2s_plain r \<Longrightarrow> reg (snd (read_clr rm val d)) r = reg d r"
  using clr_read [of r d] by (auto simp: read_clr_def split: prod.splits)

lemma clr_wait_quiet: "i2s_plain r \<Longrightarrow> reg (clr_wait rm n val d) r = reg d r"
proof (induction n arbitrary: val d)
  case (Suc n)
  then show ?case using read_clr_quiet [of r val d] by (auto simp: Let_def split: prod.splits)
qed simp

lemma stop_xfer_reg: "i2s_plain r \<Longrightarrow> reg (i2s_bus (stop_xfer rm s)) r =
    reg (i2s_bus (i2s_update rm I2S_XFER (I2S_XFER_TXS_MASK OR I2S_XFER_RXS_MASK) 0 s)) r"
  using read_clr_quiet [of r 0] clr_update [of r]
  by (auto simp: stop_xfer_def Let_def clr_wait_quiet i2s_update_def split: prod.splits) (metis snd_conv)+

end

lemma i2s_update_flags [simp]:
  "i2s_tx_start (i2s_update rm r m v s) = i2s_tx_start s" "i2s_rx_start (i2s_update rm r m v s) = i2s_rx_start s"
  "i2s_locked (i2s_update rm r m v s) = i2s_locked s"
  by (simp_all add: i2s_update_def)

lemma stop_xfer_flags [simp]:
  "i2s_tx_start (stop_xfer rm s) = i2s_tx_start s" "i2s_rx_start (stop_xfer rm s) = i2s_rx_start s"
  "i2s_locked (stop_xfer rm s) = i2s_locked s"
  by (simp_all add: stop_xfer_def Let_def split: prod.splits)

lemma i2s_lock_free [simp]: "\<not> i2s_locked s \<Longrightarrow> i2s_lock s = Some (s\<lparr>i2s_locked := True\<rparr>)"
  by (simp add: i2s_lock_def)

lemma i2s_unlock_simps [simp]: "i2s_tx_start (i2s_unlock s) = i2s_tx_start s" "i2s_rx_start (i2s_unlock s) = i2s_rx_start s"
  "\<not> i2s_locked (i2s_unlock s)" "i2s_bus (i2s_unlock s) = i2s_bus s"
  by (simp_all add: i2s_unlock_def)

text \<open>A controller whose clear takes a number of reads of the register to finish.\<close>

definition i2s_chip :: "nat \<Rightarrow> ((u32 \<Rightarrow> u32) \<times> nat) regmap_ops" where
  "i2s_chip k = \<lparr>rm_read = (\<lambda>(f, n) r. if r = I2S_CLR then (0, Some (if n = 0 then 0 else f r), (f, n - 1))
                                      else (0, Some (f r), (f, n))),
     rm_write = (\<lambda>(f, n) r v. (0, (f(r := v), if r = I2S_CLR then k else n))),
     rm_update_bits = (\<lambda>(f, n) r m v. (0, (f(r := put_field (f r) m (v AND m)), if r = I2S_CLR then k else n)))\<rparr>"

interpretation chip: i2s_port "i2s_chip k" fst for k
  by unfold_locales (auto simp: i2s_chip_def i2s_plain_def)

subsection \<open>Calls\<close>

datatype i2s_call = Trigger pcm_stream int | Hw_params pcm_stream pcm_params | Set_fmt u32 | Set_clkdiv int int

fun i2s_do :: "'d regmap_ops \<Rightarrow> i2s_call \<Rightarrow> 'd rk_i2s_dev \<Rightarrow> (int \<times> 'd rk_i2s_dev) option" where
  "i2s_do rm (Trigger st c) s = rockchip_i2s_trigger rm st c s"
| "i2s_do rm (Hw_params st p) s = rockchip_i2s_hw_params rm st p s"
| "i2s_do rm (Set_fmt f) s = rockchip_i2s_set_fmt rm f s"
| "i2s_do rm (Set_clkdiv i n) s = rockchip_i2s_set_clkdiv rm i n s"

fun i2s_run :: "'d regmap_ops \<Rightarrow> i2s_call list \<Rightarrow> 'd rk_i2s_dev \<Rightarrow> (int list \<times> 'd rk_i2s_dev) option" where
  "i2s_run rm [] s = Some ([], s)"
| "i2s_run rm (c # cs) s =
     do { (r, s) \<leftarrow> i2s_do rm c s; (rs, s) \<leftarrow> i2s_run rm cs s; Some (r # rs, s) }"

text \<open>Divisors the shifts are defined for.\<close>

fun i2s_defined :: "i2s_call \<Rightarrow> bool" where
  "i2s_defined (Set_clkdiv i n) \<longleftrightarrow> 0 \<le> n \<and> n < 2 ^ 15"
| "i2s_defined _ \<longleftrightarrow> True"

text \<open>The streams that run, as the calls ask for them: playback and capture.\<close>

definition starts :: "int \<Rightarrow> bool" where "starts c \<longleftrightarrow> c \<in> {1, 4, 6}"
definition stops :: "int \<Rightarrow> bool" where "stops c \<longleftrightarrow> c \<in> {0, 3, 5}"

fun streams :: "i2s_call \<Rightarrow> bool \<times> bool \<Rightarrow> bool \<times> bool" where
  "streams (Trigger st c) (p, r) =
     (let new = (\<lambda>old. if starts c then True else if stops c then False else old) in
      if st = SNDRV_PCM_STREAM_CAPTURE then (p, new r) else (new p, r))"
| "streams _ pr = pr"

text \<open>The flags agree with the enable bits, the transfer runs when a stream does, the lock is free.\<close>

definition i2s_shape :: "('d \<Rightarrow> u32 \<Rightarrow> u32) \<Rightarrow> 'd rk_i2s_dev \<Rightarrow> bool" where
  "i2s_shape reg s \<longleftrightarrow>
     bit (reg (i2s_bus s) I2S_DMACR) 8 = i2s_tx_start s \<and>
     bit (reg (i2s_bus s) I2S_DMACR) 24 = i2s_rx_start s \<and>
     bit (reg (i2s_bus s) I2S_XFER) 0 = (i2s_tx_start s \<or> i2s_rx_start s) \<and>
     bit (reg (i2s_bus s) I2S_XFER) 1 = (i2s_tx_start s \<or> i2s_rx_start s) \<and> \<not> i2s_locked s"

lemma shl_int_defined: "0 \<le> n \<Longrightarrow> n < 2 ^ 15 \<Longrightarrow> k \<le> 16 \<Longrightarrow> \<exists>w. shl_int n k = Some w"
proof -
  assume n: "0 \<le> n" "n < 2 ^ 15" and k: "k \<le> 16"
  have "n * 2 ^ k \<le> n * 2 ^ 16" using n k by (intro mult_left_mono power_increasing) auto
  also have "\<dots> < 2 ^ 31" using n by simp
  finally show ?thesis using n by (simp add: shl_int_def)
qed

context i2s_port
begin

lemma shape_update:
  assumes "i2s_plain r" "r \<noteq> I2S_XFER" "r = I2S_DMACR \<Longrightarrow> \<not> bit m 8 \<and> \<not> bit m 24"
    and "i2s_shape reg (s\<lparr>i2s_locked := False\<rparr>)"
  shows "i2s_shape reg ((i2s_update rm r m v s)\<lparr>i2s_locked := False\<rparr>)"
  using assms by (auto simp: i2s_shape_def bit_update)

lemma txctrl_on:
  assumes "i2s_shape reg s"
  shows "\<exists>s'. rockchip_snd_txctrl rm True s = Some s' \<and> i2s_shape reg s' \<and> i2s_tx_start s' \<and> i2s_rx_start s' = i2s_rx_start s"
  using assms by (auto simp: rockchip_snd_txctrl_def i2s_shape_def Let_def bit_update)

lemma txctrl_off:
  assumes "\<not> i2s_locked s" "bit (reg (i2s_bus s) I2S_DMACR) 24 = i2s_rx_start s"
    "i2s_rx_start s \<Longrightarrow> bit (reg (i2s_bus s) I2S_XFER) 0 \<and> bit (reg (i2s_bus s) I2S_XFER) 1"
  shows "\<exists>s'. rockchip_snd_txctrl rm False s = Some s' \<and> i2s_shape reg s' \<and> \<not> i2s_tx_start s' \<and> i2s_rx_start s' = i2s_rx_start s"
  using assms by (auto simp: rockchip_snd_txctrl_def i2s_shape_def Let_def bit_update stop_xfer_reg)

lemma rxctrl_on:
  assumes "i2s_shape reg s"
  shows "\<exists>s'. rockchip_snd_rxctrl rm True s = Some s' \<and> i2s_shape reg s' \<and> i2s_rx_start s' \<and> i2s_tx_start s' = i2s_tx_start s"
  using assms by (auto simp: rockchip_snd_rxctrl_def i2s_shape_def Let_def bit_update)

lemma rxctrl_off:
  assumes "\<not> i2s_locked s" "bit (reg (i2s_bus s) I2S_DMACR) 8 = i2s_tx_start s"
    "i2s_tx_start s \<Longrightarrow> bit (reg (i2s_bus s) I2S_XFER) 0 \<and> bit (reg (i2s_bus s) I2S_XFER) 1"
  shows "\<exists>s'. rockchip_snd_rxctrl rm False s = Some s' \<and> i2s_shape reg s' \<and> \<not> i2s_rx_start s' \<and> i2s_tx_start s' = i2s_tx_start s"
  using assms by (auto simp: rockchip_snd_rxctrl_def i2s_shape_def Let_def bit_update stop_xfer_reg)

abbreviation (input) flags :: "'d rk_i2s_dev \<Rightarrow> bool \<times> bool" where
  "flags s \<equiv> (i2s_tx_start s, i2s_rx_start s)"

lemma trigger_shape:
  assumes "i2s_shape reg s"
  shows "\<exists>s'. rockchip_i2s_trigger rm st c s = Some (if starts c \<or> stops c then 0 else - EINVAL, s') \<and>
    i2s_shape reg s' \<and> flags s' = streams (Trigger st c) (flags s)"
proof -
  have off: "\<not> i2s_locked s" "bit (reg (i2s_bus s) I2S_DMACR) 24 = i2s_rx_start s"
    "bit (reg (i2s_bus s) I2S_DMACR) 8 = i2s_tx_start s"
    "i2s_rx_start s \<Longrightarrow> bit (reg (i2s_bus s) I2S_XFER) 0 \<and> bit (reg (i2s_bus s) I2S_XFER) 1"
    "i2s_tx_start s \<Longrightarrow> bit (reg (i2s_bus s) I2S_XFER) 0 \<and> bit (reg (i2s_bus s) I2S_XFER) 1"
    using assms by (auto simp: i2s_shape_def)
  show ?thesis
    using txctrl_on [OF assms] rxctrl_on [OF assms] txctrl_off [OF off(1,2,4)] rxctrl_off [OF off(1,3,5)] assms
    by (cases st) (auto simp: rockchip_i2s_trigger_def starts_def stops_def)
qed

lemma shape_unlock: "i2s_shape reg (i2s_unlock s) \<longleftrightarrow> i2s_shape reg (s\<lparr>i2s_locked := False\<rparr>)"
  by (simp add: i2s_unlock_def)

lemma call_shape:
  assumes "i2s_shape reg s" "i2s_defined c"
  shows "\<exists>x s'. i2s_do rm c s = Some (x, s') \<and> i2s_shape reg s' \<and> flags s' = streams c (flags s)"
proof (cases c)
  case (Trigger st cmd)
  then show ?thesis using trigger_shape [OF assms(1), of st cmd] by auto
next
  case (Hw_params st p)
  have u: "\<not> i2s_locked s" using assms(1) by (simp add: i2s_shape_def)
  have sh: "i2s_shape reg (s\<lparr>i2s_locked := False\<rparr>)" using assms(1) u by (simp add: i2s_shape_def)
  show ?thesis using Hw_params u sh
    by (auto simp: rockchip_i2s_hw_params_def Let_def shape_unlock split: option.splits intro!: shape_update)
next
  case (Set_fmt f)
  have u: "\<not> i2s_locked s" using assms(1) by (simp add: i2s_shape_def)
  have sh: "i2s_shape reg (s\<lparr>i2s_locked := False\<rparr>)" using assms(1) u by (simp add: i2s_shape_def)
  show ?thesis using Set_fmt u sh
    by (auto simp: rockchip_i2s_set_fmt_def Let_def shape_unlock split: option.splits intro!: shape_update)
next
  case (Set_clkdiv i n)
  have u: "\<not> i2s_locked s" using assms(1) by (simp add: i2s_shape_def)
  have sh: "i2s_shape reg (s\<lparr>i2s_locked := False\<rparr>)" using assms(1) u by (simp add: i2s_shape_def)
  obtain a b e where "shl_int n 0 = Some a" "shl_int n 8 = Some b" "shl_int n 16 = Some e"
    using assms(2) Set_clkdiv shl_int_defined [of n 0] shl_int_defined [of n 8] shl_int_defined [of n 16] by auto
  then show ?thesis using Set_clkdiv u sh
    by (auto simp: rockchip_i2s_set_clkdiv_def shape_unlock intro!: shape_update)
qed

lemma run_shape:
  assumes "i2s_shape reg s" "list_all i2s_defined cs"
  shows "\<exists>rs s'. i2s_run rm cs s = Some (rs, s') \<and> i2s_shape reg s' \<and> flags s' = fold streams cs (flags s)"
  using assms
proof (induction cs arbitrary: s)
  case (Cons c cs)
  obtain x s1 where 1: "i2s_do rm c s = Some (x, s1)" "i2s_shape reg s1" "flags s1 = streams c (flags s)"
    using call_shape [OF Cons.prems(1), of c] Cons.prems(2) by auto
  with Cons.IH [OF 1(2)] Cons.prems(2) show ?case by auto
qed simp

lemma run_trigger_result:
  assumes "i2s_shape reg s" "i2s_do rm (Trigger st c) s = Some (x, s')"
  shows "x = (if starts c \<or> stops c then 0 else - EINVAL)"
  using trigger_shape [OF assms(1), of st c] assms(2) by auto

lemma both_off:
  assumes "\<not> i2s_locked s" "\<not> i2s_rx_start s"
  shows "\<exists>s1 s'. rockchip_snd_txctrl rm False s = Some s1 \<and> rockchip_snd_rxctrl rm False s1 = Some s' \<and>
    i2s_shape reg s' \<and> flags s' = (False, False)"
  using assms
  by (auto simp: rockchip_snd_txctrl_def rockchip_snd_rxctrl_def i2s_shape_def Let_def bit_update stop_xfer_reg)

lemma probe_shape:
  assumes "rockchip_i2s_probe rm sv d = Some (r, es, Some s)"
  shows "i2s_shape reg s \<and> flags s = (False, False)"
proof -
  let ?s = "\<lambda>start. rockchip_dma_setup start \<lparr>i2s_locked = False, i2s_tx_start = False, i2s_rx_start = False,
     i2s_playback_dma = \<lparr>dma_addr = 0, dma_addr_width = 0, dma_maxburst = 0\<rparr>,
     i2s_capture_dma = \<lparr>dma_addr = 0, dma_addr_width = 0, dma_maxburst = 0\<rparr>, i2s_bus = d\<rparr>"
  obtain start s1 where "rockchip_snd_txctrl rm False (?s start) = Some s1" "rockchip_snd_rxctrl rm False s1 = Some s"
    using assms by (auto simp: rockchip_i2s_probe_def Let_def split: if_splits bind_splits)
  with both_off [of "?s start"] show ?thesis by (auto simp: rockchip_dma_setup_def)
qed

end

subsection \<open>Accesses\<close>

text \<open>
  A register map that watches its user: how many reads were made, and whether every access
  was to a register the configuration allows (an update reads and writes).
\<close>

definition allowed :: "regmap_config \<Rightarrow> u32 \<Rightarrow> bool" where
  "allowed cfg r \<longleftrightarrow> r \<le> max_register cfg \<and> unat r mod reg_stride cfg = 0 \<and> readable_reg cfg r \<and> \<not> precious_reg cfg r"

definition watched :: "regmap_config \<Rightarrow> 'd regmap_ops \<Rightarrow> ('d \<times> nat \<times> bool) regmap_ops" where
  "watched cfg rm =
     \<lparr>rm_read = (\<lambda>(d, n, ok) r. case rm_read rm d r of (e, v, d) \<Rightarrow> (e, v, (d, Suc n, ok \<and> allowed cfg r))),
      rm_write = (\<lambda>(d, n, ok) r v. case rm_write rm d r v of (e, d) \<Rightarrow>
        (e, (d, n, ok \<and> r \<le> max_register cfg \<and> writeable_reg cfg r))),
      rm_update_bits = (\<lambda>(d, n, ok) r m v. case rm_update_bits rm d r m v of (e, d) \<Rightarrow>
        (e, (d, n, ok \<and> allowed cfg r \<and> writeable_reg cfg r)))\<rparr>"

abbreviation (input) i2s_watched :: "'d regmap_ops \<Rightarrow> ('d \<times> nat \<times> bool) regmap_ops" where
  "i2s_watched rm \<equiv> watched rockchip_i2s_regmap_config rm"

definition reads :: "('d \<times> nat \<times> bool) rk_i2s_dev \<Rightarrow> nat" where "reads s = fst (snd (i2s_bus s))"
definition all_allowed :: "('d \<times> nat \<times> bool) rk_i2s_dev \<Rightarrow> bool" where "all_allowed s = snd (snd (i2s_bus s))"

lemma watched_update:
  "reads (i2s_update (i2s_watched rm) r m v s) = reads s"
  "r \<in> {I2S_TXCR, I2S_RXCR, I2S_CKR, I2S_DMACR, I2S_XFER, I2S_CLR} \<Longrightarrow>
   all_allowed (i2s_update (i2s_watched rm) r m v s) = all_allowed s"
  by (auto simp: i2s_update_def watched_def reads_def all_allowed_def allowed_def rockchip_i2s_regmap_config_def
      rockchip_i2s_rd_reg_def rockchip_i2s_wr_reg_def rockchip_i2s_precious_reg_def split: prod.splits)

lemma watched_read_clr:
  "read_clr (i2s_watched rm) val d = (w, d') \<Longrightarrow> fst (snd d') = Suc (fst (snd d)) \<and> snd (snd d') = snd (snd d)"
  by (auto simp: read_clr_def watched_def allowed_def rockchip_i2s_regmap_config_def
      rockchip_i2s_rd_reg_def rockchip_i2s_precious_reg_def split: prod.splits)

lemma watched_clr_wait:
  "fst (snd (clr_wait (i2s_watched rm) n val d)) \<le> fst (snd d) + n \<and>
   snd (snd (clr_wait (i2s_watched rm) n val d)) = snd (snd d)"
proof (induction n arbitrary: val d)
  case (Suc n)
  obtain w d' where r: "read_clr (i2s_watched rm) val d = (w, d')" by (cases "read_clr (i2s_watched rm) val d")
  from watched_read_clr [OF this] Suc.IH [of w d'] show ?case by (auto simp: r)
qed simp

lemma watched_stop: "reads (stop_xfer (i2s_watched rm) s) \<le> reads s + 11 \<and>
    all_allowed (stop_xfer (i2s_watched rm) s) = all_allowed s"
proof -
  let ?s = "i2s_update (i2s_watched rm) I2S_CLR (I2S_CLR_TXC_MASK OR I2S_CLR_RXC_MASK) (1 OR push_bit 1 1)
     (i2s_update (i2s_watched rm) I2S_XFER (I2S_XFER_TXS_MASK OR I2S_XFER_RXS_MASK) 0 s)"
  obtain w d where r: "read_clr (i2s_watched rm) 0 (i2s_bus ?s) = (w, d)"
    by (cases "read_clr (i2s_watched rm) 0 (i2s_bus ?s)")
  have "stop_xfer (i2s_watched rm) s = ?s\<lparr>i2s_bus := clr_wait (i2s_watched rm) 10 w d\<rparr>"
    unfolding stop_xfer_def Let_def r prod.case ..
  moreover have "reads ?s = reads s" "all_allowed ?s = all_allowed s" by (simp_all add: watched_update)
  ultimately show ?thesis using watched_read_clr [OF r] watched_clr_wait [of rm 10 w d]
    by (simp add: reads_def all_allowed_def)
qed

lemma watched_flags [simp]: "reads (s\<lparr>i2s_tx_start := b\<rparr>) = reads s" "reads (s\<lparr>i2s_rx_start := b\<rparr>) = reads s"
  "reads (s\<lparr>i2s_locked := b\<rparr>) = reads s" "all_allowed (s\<lparr>i2s_tx_start := b\<rparr>) = all_allowed s"
  "all_allowed (s\<lparr>i2s_rx_start := b\<rparr>) = all_allowed s" "all_allowed (s\<lparr>i2s_locked := b\<rparr>) = all_allowed s"
  "reads (i2s_unlock s) = reads s" "all_allowed (i2s_unlock s) = all_allowed s"
  by (simp_all add: reads_def all_allowed_def i2s_unlock_def)

lemma i2s_lock_SomeD: "i2s_lock s = Some s' \<Longrightarrow> s' = s\<lparr>i2s_locked := True\<rparr>"
  by (auto simp: i2s_lock_def mutex_lock_def split: if_splits)

lemmas watched_stop_reads = watched_stop [THEN conjunct1] and watched_stop_allowed = watched_stop [THEN conjunct2]

lemma watched_txctrl:
  "rockchip_snd_txctrl (i2s_watched rm) on s = Some s' \<Longrightarrow> reads s' \<le> reads s + 11 \<and> all_allowed s' = all_allowed s"
  by (cases on) (auto simp: rockchip_snd_txctrl_def Let_def watched_update watched_stop_allowed
      dest!: i2s_lock_SomeD split: bind_splits if_splits intro!: order_trans [OF watched_stop_reads])

lemma watched_rxctrl:
  "rockchip_snd_rxctrl (i2s_watched rm) on s = Some s' \<Longrightarrow> reads s' \<le> reads s + 11 \<and> all_allowed s' = all_allowed s"
  by (cases on) (auto simp: rockchip_snd_rxctrl_def Let_def watched_update watched_stop_allowed
      dest!: i2s_lock_SomeD split: bind_splits if_splits intro!: order_trans [OF watched_stop_reads])

lemma watched_call:
  "i2s_do (i2s_watched rm) c s = Some (x, s') \<Longrightarrow> reads s' \<le> reads s + 11 \<and> all_allowed s' = all_allowed s"
proof (cases c)
  case (Trigger st cmd)
  assume "i2s_do (i2s_watched rm) c s = Some (x, s')"
  then show ?thesis using Trigger watched_txctrl [of rm _ s s'] watched_rxctrl [of rm _ s s']
    by (auto simp: rockchip_i2s_trigger_def split: if_splits)
qed (auto simp: rockchip_i2s_hw_params_def rockchip_i2s_set_fmt_def rockchip_i2s_set_clkdiv_def Let_def watched_update
      dest!: i2s_lock_SomeD split: if_splits bind_splits option.splits)

lemma watched_run:
  "i2s_run (i2s_watched rm) cs s = Some (rs, s') \<Longrightarrow>
   reads s' \<le> reads s + 11 * length cs \<and> all_allowed s' = all_allowed s"
proof (induction cs arbitrary: s rs)
  case (Cons c cs)
  then obtain x s1 rs1 where 1: "i2s_do (i2s_watched rm) c s = Some (x, s1)" "i2s_run (i2s_watched rm) cs s1 = Some (rs1, s')"
    by (auto split: bind_splits)
  from Cons.IH [OF 1(2)] watched_call [OF 1(1)] show ?case by simp
qed simp

end
