(* ===== verification/Rk_I2s_Props.thy ===== *)
theory Rk_I2s_Props
  imports Rk_I2s_Correct
begin

text \<open>
  The properties of the I2S controller driver: streams, stream parameters, formats, clock
  dividers, register accesses, probe and removal.
\<close>

subsection \<open>Operations on the fields\<close>

definition sample_width :: "int \<Rightarrow> nat option" where
  "sample_width f = (if f = 0 then Some 8 else if f = 2 then Some 16 else if f = 36 then Some 20
     else if f = 6 \<or> f = 32 then Some 24 else if f = 10 then Some 32 else None)"

lemma i2s_vdw_width: "i2s_vdw f = map_option (\<lambda>w. word_of_nat (w - 1)) (sample_width f)"
  by (simp add: i2s_vdw_def sample_width_def)

lemma sample_width_cases: "sample_width f = Some w \<Longrightarrow> w \<in> {8, 16, 20, 24, 32}"
  by (auto simp: sample_width_def split: if_splits)

lemma i2s_csr_channels: "i2s_csr ch = (if ch \<in> {2, 4, 6, 8} then Some (push_bit 15 (word_of_nat (unat ch div 2 - 1))) else None)"
  by (auto simp: i2s_csr_def)

text \<open>The register a stream's format goes to, and the bits a format may change.\<close>

definition format_reg :: "pcm_stream \<Rightarrow> u32" where
  "format_reg st = (if st = SNDRV_PCM_STREAM_PLAYBACK then I2S_TXCR else I2S_RXCR)"

definition format_bits :: "pcm_stream \<Rightarrow> u32 \<Rightarrow> u32" where
  "format_bits st r = (if r = format_reg st then (if st = SNDRV_PCM_STREAM_PLAYBACK then 0x1801f else 0x1f)
     else if r = I2S_DMACR then 0x1f001f else 0)"

lemma put_field_frame: "k AND m = 0 \<Longrightarrow> put_field w m (v AND m) AND k = w AND (k :: u32)"
  by (rule put_field_outside) (auto intro: fitsI simp: bit_simps)

lemma put_field_read: "put_field w m (v AND m) AND m = v AND (m :: u32)"
  by (rule put_field_masked) (auto intro: fitsI simp: bit_simps)

lemma put_field_part: "m' AND m = m' \<Longrightarrow> put_field w m (v AND m) AND m' = v AND (m' :: u32)"
proof (rule bit_word_eqI)
  fix n assume m: "m' AND m = m'" and n: "n < LENGTH(32)"
  have "bit (m' AND m) n = bit m' n" by (simp only: m)
  then show "bit (put_field w m (v AND m) AND m') n = bit (v AND m') n"
    using n by (auto simp: put_field_def bit_simps)
qed

context i2s_port
begin

lemma hw_params_reg:
  assumes "\<not> i2s_locked s" "sample_width (p_format p) = Some w" "p_channels p \<in> {2, 4, 6, 8}"
  shows "\<exists>s'. rockchip_i2s_hw_params rm st p s = Some (0, s') \<and>
    reg (i2s_bus s') = (reg (i2s_bus s))(format_reg st := put_field (reg (i2s_bus s) (format_reg st))
        (format_bits st (format_reg st)) ((word_of_nat (w - 1) OR push_bit 15 (word_of_nat (unat (p_channels p) div 2 - 1)))
          AND format_bits st (format_reg st)),
      I2S_DMACR := put_field (reg (i2s_bus s) I2S_DMACR) 0x1f001f 0xf0010)"
  using assms
  by (auto simp: rockchip_i2s_hw_params_def i2s_vdw_width i2s_csr_channels Let_def reg_update
      format_reg_def format_bits_def)

lemma hw_params_ok:
  assumes "\<not> i2s_locked s" "sample_width (p_format p) = Some w" "p_channels p \<in> {2, 4, 6, 8}"
  shows "\<exists>s'. rockchip_i2s_hw_params rm st p s = Some (0, s') \<and>
    unat (reg (i2s_bus s') (format_reg st) AND 0x1f) + 1 = w \<and>
    (st = SNDRV_PCM_STREAM_PLAYBACK \<longrightarrow>
       (unat (drop_bit 15 (reg (i2s_bus s') I2S_TXCR AND 0x18000)) + 1) * 2 = unat (p_channels p)) \<and>
    (\<forall>r k. k AND format_bits st r = 0 \<longrightarrow> reg (i2s_bus s') r AND k = reg (i2s_bus s) r AND k)"
proof -
  obtain s' where s': "rockchip_i2s_hw_params rm st p s = Some (0, s')"
    "reg (i2s_bus s') = (reg (i2s_bus s))(format_reg st := put_field (reg (i2s_bus s) (format_reg st))
        (format_bits st (format_reg st)) ((word_of_nat (w - 1) OR push_bit 15 (word_of_nat (unat (p_channels p) div 2 - 1)))
          AND format_bits st (format_reg st)),
      I2S_DMACR := put_field (reg (i2s_bus s) I2S_DMACR) 0x1f001f (0xf0010 AND 0x1f001f))"
    using hw_params_reg [OF assms, of st] by auto
  have "reg (i2s_bus s') (format_reg st) AND 0x1f =
      (word_of_nat (w - 1) OR push_bit 15 (word_of_nat (unat (p_channels p) div 2 - 1))) AND 0x1f"
    unfolding s'(2) by (cases st) (simp_all add: put_field_part format_reg_def format_bits_def)
  then have "unat (reg (i2s_bus s') (format_reg st) AND 0x1f) + 1 = w"
    using sample_width_cases [OF assms(2)] assms(3) by auto
  moreover have "st = SNDRV_PCM_STREAM_PLAYBACK \<Longrightarrow>
      (unat (drop_bit 15 (reg (i2s_bus s') I2S_TXCR AND 0x18000)) + 1) * 2 = unat (p_channels p)"
    using sample_width_cases [OF assms(2)] assms(3) unfolding s'(2)
    by (auto simp: put_field_part format_reg_def format_bits_def)
  moreover have "k AND format_bits st r = 0 \<Longrightarrow> reg (i2s_bus s') r AND k = reg (i2s_bus s) r AND k" for r k
    unfolding s'(2) using put_field_frame [of k "0x1f001f" "reg (i2s_bus s) I2S_DMACR" "0xf0010"]
    by (auto simp: put_field_frame format_reg_def format_bits_def split: if_splits)
  ultimately show ?thesis using s'(1) by blast
qed

lemma hw_params_refused:
  assumes "\<not> i2s_locked s" "sample_width (p_format p) = None \<or> p_channels p \<notin> {2, 4, 6, 8}"
  shows "rockchip_i2s_hw_params rm st p s = Some (- EINVAL, s\<lparr>i2s_locked := False\<rparr>)"
  using assms by (auto simp: rockchip_i2s_hw_params_def i2s_vdw_width i2s_csr_channels i2s_unlock_def split: option.splits)

lemma set_fmt_reg:
  assumes "\<not> i2s_locked s"
  shows "\<exists>s'. rockchip_i2s_set_fmt rm f s = Some (0, s') \<and>
    reg (i2s_bus s') = (case i2s_mss (f AND 0xf000) of None \<Rightarrow> reg (i2s_bus s) | Some mss \<Rightarrow>
      (let g = (reg (i2s_bus s))(I2S_CKR := put_field (reg (i2s_bus s) I2S_CKR) 0x8000000 (mss AND 0x8000000)) in
       case i2s_ibm (f AND 0xf) of None \<Rightarrow> g | Some ibm \<Rightarrow>
       g(I2S_TXCR := put_field (g I2S_TXCR) 0x600 (ibm AND 0x600), I2S_RXCR := put_field (g I2S_RXCR) 0x600 (ibm AND 0x600)))) \<and>
    \<not> i2s_locked s'"
  using assms by (auto simp: rockchip_i2s_set_fmt_def Let_def reg_update i2s_unlock_def split: option.splits)

lemma clkdiv_reg:
  assumes "\<not> i2s_locked s" "0 \<le> n" "n < 2 ^ 15"
  shows "\<exists>s'. rockchip_i2s_set_clkdiv rm i n s = Some (if i = 0 \<or> i = 1 then 0 else - EINVAL, s') \<and>
    reg (i2s_bus s') = (if i = 1 then (reg (i2s_bus s))(I2S_CKR := put_field (reg (i2s_bus s) I2S_CKR) 0xffff
                          ((word_of_int n OR word_of_int (n * 2 ^ 8)) AND 0xffff))
                        else if i = 0 then (reg (i2s_bus s))(I2S_CKR := put_field (reg (i2s_bus s) I2S_CKR) 0xff0000
                          (word_of_int (n * 2 ^ 16) AND 0xff0000))
                        else reg (i2s_bus s)) \<and> \<not> i2s_locked s'"
proof -
  have "n * 2 ^ k < 2 ^ 31" if "k \<le> 16" for k
    using shl_int_defined [OF assms(2,3) that] by (auto simp: shl_int_def split: if_splits)
  from this [of 0] this [of 8] this [of 16]
  have "shl_int n 0 = Some (word_of_int n)" "shl_int n 8 = Some (word_of_int (n * 2 ^ 8))"
    "shl_int n 16 = Some (word_of_int (n * 2 ^ 16))"
    using assms(2) by (simp_all add: shl_int_def)
  then show ?thesis using assms(1)
    by (auto simp: rockchip_i2s_set_clkdiv_def reg_update i2s_unlock_def)
qed

end

lemma low_byte: "(word_of_int n :: u32) AND 0xff = word_of_int (n mod 256)"
proof -
  have "(word_of_int n :: u32) AND 0xff = take_bit 8 (word_of_int n)"
    by (simp add: take_bit_eq_mask mask_eq_exp_minus_1)
  also have "\<dots> = word_of_int (take_bit 8 n)" by (rule bit_word_eqI) (auto simp: bit_simps)
  finally show ?thesis by (simp add: take_bit_eq_mod)
qed

lemma shifted_byte: "k + 8 \<le> 32 \<Longrightarrow> drop_bit k ((word_of_int (n * 2 ^ k) :: u32) AND push_bit k 0xff) = word_of_int (n mod 256)"
proof -
  assume k: "k + 8 \<le> 32"
  have "(word_of_int (n * 2 ^ k) :: u32) = push_bit k (word_of_int n)"
    by (simp add: push_bit_eq_mult)
  then have "drop_bit k ((word_of_int (n * 2 ^ k) :: u32) AND push_bit k 0xff) = word_of_int n AND 0xff"
    using k by (intro bit_word_eqI) (auto simp: bit_simps bit_byte)
  then show ?thesis by (simp add: low_byte)
qed

lemma low_of_shifted: "(word_of_int (n * 2 ^ 8) :: u32) AND 0xff = 0"
proof -
  have "(word_of_int (n * 2 ^ 8) :: u32) = push_bit 8 (word_of_int n)" by (simp add: push_bit_eq_mult)
  then show ?thesis by (intro bit_word_eqI) (auto simp: bit_simps bit_byte)
qed

lemma high_of_byte: "0 \<le> n \<Longrightarrow> n < 256 \<Longrightarrow> (word_of_int n :: u32) AND 0xff00 = 0"
proof -
  assume "0 \<le> n" "n < 256"
  then have "(word_of_int n :: u32) = word_of_int n AND 0xff" by (simp add: low_byte)
  moreover have "(word_of_int n AND 0xff) AND 0xff00 = (0 :: u32)" by (simp add: and.assoc)
  ultimately show ?thesis by (simp only:)
qed

lemma drop_bit_or: "drop_bit k (x OR y) = drop_bit k x OR drop_bit k (y :: u32)"
  by (rule bit_word_eqI) (auto simp: bit_simps)

subsection \<open>What probe and removal leave behind\<close>

fun outstanding :: "i2s_event list \<Rightarrow> i2s_clock set \<times> bool \<times> bool \<Rightarrow> i2s_clock set \<times> bool \<times> bool" where
  "outstanding [] h = h"
| "outstanding (e # es) (cl, c, p) = outstanding es
     (case e of Clk_enable x \<Rightarrow> (insert x cl, c, p) | Clk_disable x \<Rightarrow> (cl - {x}, c, p) | Clk_rate _ _ \<Rightarrow> (cl, c, p)
      | Register_component _ \<Rightarrow> (cl, True, p) | Unregister_component \<Rightarrow> (cl, False, p)
      | Register_pcm \<Rightarrow> (cl, c, True) | Unregister_pcm \<Rightarrow> (cl, c, False))"

abbreviation (input) nothing :: "i2s_clock set \<times> bool \<times> bool" where "nothing \<equiv> ({}, False, False)"

lemma all_clocks: "{HCLK, BCLK, MCLK} = UNIV"
  by (auto intro: i2s_clock.exhaust)

lemma probe_outstanding:
  assumes "rockchip_i2s_probe rm sv d = Some (r, es, dev)"
  shows "outstanding es nothing = (if r = 0 then (UNIV, True, True)
      else (if sv_alloc sv \<and> 0 \<le> parse_from_dt sv then UNIV else {}, False, False))"
    and "dev = None \<longleftrightarrow> r \<noteq> 0"
proof -
  have "insert MCLK (insert BCLK {HCLK}) = UNIV" using all_clocks by auto
  then show "outstanding es nothing = (if r = 0 then (UNIV, True, True)
      else (if sv_alloc sv \<and> 0 \<le> parse_from_dt sv then UNIV else {}, False, False))"
    using assms by (auto simp: rockchip_i2s_probe_def Let_def enable_clks_def split: if_splits bind_splits)
  show "dev = None \<longleftrightarrow> r \<noteq> 0"
    using assms by (cases dev) (auto simp: rockchip_i2s_probe_def Let_def split: if_splits bind_splits)
qed

lemma outstanding_append: "outstanding (xs @ ys) h = outstanding ys (outstanding xs h)"
proof (induction xs arbitrary: h)
  case (Cons e xs) then show ?case by (cases h) auto
qed simp

lemma remove_outstanding: "outstanding rockchip_i2s_remove (UNIV, True, True) = nothing"
proof -
  have "(UNIV :: i2s_clock set) - {MCLK} - {BCLK} - {HCLK} = {}" using all_clocks by blast
  then show ?thesis by (simp add: rockchip_i2s_remove_def)
qed

subsection \<open>Properties\<close>

definition demo_services :: i2s_services where
  "demo_services = \<lparr>sv_alloc = True, sv_read_id = (0, 1), sv_clk = (\<lambda>_. 0), sv_resource = Some 0xff890000,
     sv_ioremap = 0, sv_regmap = 0, sv_component = 0, sv_pcm = 0\<rparr>"

definition demo_dev :: "'d \<Rightarrow> 'd rk_i2s_dev" where
  "demo_dev d = \<lparr>i2s_locked = False, i2s_tx_start = False, i2s_rx_start = False,
     i2s_playback_dma = \<lparr>dma_addr = 0, dma_addr_width = 0, dma_maxburst = 0\<rparr>,
     i2s_capture_dma = \<lparr>dma_addr = 0, dma_addr_width = 0, dma_maxburst = 0\<rparr>, i2s_bus = d\<rparr>"

abbreviation (input) demo_i2s :: "((u32 \<Rightarrow> u32) \<times> nat) rk_i2s_dev" where
  "demo_i2s \<equiv> demo_dev (\<lambda>_. 0, 0)"

lemma demo_i2s_free: "\<not> i2s_locked (demo_dev d)"
  by (simp add: demo_dev_def)

text \<open>C11: The two streams are controlled independently: after a successful probe, for any sequence
  of DAI calls with defined divisors, every call returns, the DMA enable bit of each
  direction is set exactly when the last trigger of that direction started it, the
  transfer bits of both directions are on exactly while one of them runs, and the lock is
  free.\<close>
theorem i2s_streams:
  assumes "i2s_port rm reg" "rockchip_i2s_probe rm sv d = Some (0, es, Some s)" "list_all i2s_defined cs"
  shows "\<exists>rs s'. i2s_run rm cs s = Some (rs, s') \<and>
    (bit (reg (i2s_bus s') I2S_DMACR) 8, bit (reg (i2s_bus s') I2S_DMACR) 24) = fold streams cs (False, False) \<and>
    (\<forall>n < 2. bit (reg (i2s_bus s') I2S_XFER) n \<longleftrightarrow>
       fst (fold streams cs (False, False)) \<or> snd (fold streams cs (False, False))) \<and> \<not> i2s_locked s'"
proof -
  note probe = i2s_port.probe_shape [OF assms(1,2)]
  obtain rs s' where "i2s_run rm cs s = Some (rs, s')" "i2s_shape reg s'"
    "(i2s_tx_start s', i2s_rx_start s') = fold streams cs (False, False)"
    using i2s_port.run_shape [OF assms(1) _ assms(3), of s] probe by auto
  then show ?thesis by (auto simp: i2s_shape_def less_2_cases_iff) (metis fst_conv snd_conv)+
qed

theorem i2s_streams_witness:
  "\<exists>s rs s'. rockchip_i2s_probe (i2s_chip 3) demo_services (\<lambda>_. 0xffffffff, 0) =
      Some (0, enable_clks @ [Register_component 1, Register_pcm], Some s) \<and>
    i2s_run (i2s_chip 3) [Trigger SNDRV_PCM_STREAM_CAPTURE 1, Trigger SNDRV_PCM_STREAM_PLAYBACK 1,
      Trigger SNDRV_PCM_STREAM_CAPTURE 0] s = Some (rs, s') \<and>
    bit (fst (i2s_bus s') I2S_DMACR) 8 \<and> \<not> bit (fst (i2s_bus s') I2S_DMACR) 24"
proof -
  obtain s where p: "rockchip_i2s_probe (i2s_chip 3) demo_services (\<lambda>_. 0xffffffff, 0) =
      Some (0, enable_clks @ [Register_component 1, Register_pcm], Some s)"
    using i2s_port.both_off [OF chip.i2s_port_axioms [of 3]]
    by (auto simp: rockchip_i2s_probe_def demo_services_def parse_from_dt_def rockchip_i2s_dai_def Let_def
        rockchip_dma_setup_def) (smt (verit) rk_i2s_dev.select_convs(1,3) bind.bind_lunit)
  then show ?thesis
    using i2s_streams [OF chip.i2s_port_axioms p, of "[Trigger SNDRV_PCM_STREAM_CAPTURE 1,
       Trigger SNDRV_PCM_STREAM_PLAYBACK 1, Trigger SNDRV_PCM_STREAM_CAPTURE 0]"]
    by (auto simp: starts_def stops_def simp del: i2s_run.simps)
qed

text \<open>C12: Setting the stream parameters: a supported sample format and channel count is accepted,
  the valid data width of that direction and, for playback, the channel count are what was
  asked for, and no other bit of any register changes except the DMA watermarks; anything
  else is refused without an access to the registers.\<close>
theorem i2s_hw_params:
  assumes "i2s_port rm reg" "\<not> i2s_locked s"
  shows "case sample_width (p_format p) of
      Some w \<Rightarrow> if p_channels p \<in> {2, 4, 6, 8} then
        \<exists>s'. rockchip_i2s_hw_params rm st p s = Some (0, s') \<and>
          unat (reg (i2s_bus s') (format_reg st) AND 0x1f) + 1 = w \<and>
          (st = SNDRV_PCM_STREAM_PLAYBACK \<longrightarrow>
             (unat (drop_bit 15 (reg (i2s_bus s') I2S_TXCR AND 0x18000)) + 1) * 2 = unat (p_channels p)) \<and>
          (\<forall>r k. k AND format_bits st r = 0 \<longrightarrow> reg (i2s_bus s') r AND k = reg (i2s_bus s) r AND k)
        else rockchip_i2s_hw_params rm st p s = Some (- EINVAL, s\<lparr>i2s_locked := False\<rparr>)
    | None \<Rightarrow> rockchip_i2s_hw_params rm st p s = Some (- EINVAL, s\<lparr>i2s_locked := False\<rparr>)"
  using i2s_port.hw_params_ok [OF assms(1,2)] i2s_port.hw_params_refused [OF assms(1,2)]
  by (auto split: option.split)

theorem i2s_hw_params_witness:
  "\<exists>s'. rockchip_i2s_hw_params (i2s_chip 3) SNDRV_PCM_STREAM_PLAYBACK \<lparr>p_format = 36, p_channels = 6, p_rate = 48000\<rparr> demo_i2s
      = Some (0, s') \<and> unat (fst (i2s_bus s') I2S_TXCR AND 0x1f) + 1 = 20 \<and>
    (unat (drop_bit 15 (fst (i2s_bus s') I2S_TXCR AND 0x18000)) + 1) * 2 = 6"
  using i2s_hw_params [OF chip.i2s_port_axioms [of 3] demo_i2s_free [of "(\<lambda>_. 0, 0)"],
      of SNDRV_PCM_STREAM_PLAYBACK "\<lparr>p_format = 36, p_channels = 6, p_rate = 48000\<rparr>"]
  by (auto simp: sample_width_def format_reg_def)

text \<open>The DAI format: a supported clock role and alignment puts the controller in the opposite
  role of the codec and both directions in the alignment asked for. The call reports success
  in every case: an unsupported role changes nothing and an unsupported alignment only the
  role.\<close>
theorem i2s_set_fmt:
  assumes "i2s_port rm reg" "\<not> i2s_locked s"
  shows "\<exists>s'. rockchip_i2s_set_fmt rm f s = Some (0, s') \<and>
    (case i2s_mss (f AND SND_SOC_DAIFMT_MASTER_MASK) of None \<Rightarrow> reg (i2s_bus s') = reg (i2s_bus s)
     | Some mss \<Rightarrow> reg (i2s_bus s') I2S_CKR AND 0x8000000 = mss \<and>
       (case i2s_ibm (f AND SND_SOC_DAIFMT_FORMAT_MASK) of None \<Rightarrow> (\<forall>r. r \<noteq> I2S_CKR \<longrightarrow> reg (i2s_bus s') r = reg (i2s_bus s) r)
        | Some ibm \<Rightarrow> reg (i2s_bus s') I2S_TXCR AND 0x600 = ibm \<and> reg (i2s_bus s') I2S_RXCR AND 0x600 = ibm))"
proof -
  have fit: "i2s_mss x = Some mss \<Longrightarrow> mss AND 0x8000000 = mss" "i2s_ibm x = Some ibm \<Longrightarrow> ibm AND 0x600 = ibm" for x mss ibm
    by (auto simp: i2s_mss_def i2s_ibm_def split: if_splits)
  have rd: "i2s_mss x = Some mss \<Longrightarrow> put_field w 0x8000000 mss AND 0x8000000 = mss"
      "i2s_ibm x = Some ibm \<Longrightarrow> put_field w 0x600 ibm AND 0x600 = ibm" for x mss ibm w
    using put_field_read [of w "0x8000000" mss] put_field_read [of w "0x600" ibm] fit by simp_all
  obtain s' where s': "rockchip_i2s_set_fmt rm f s = Some (0, s')" and
    reg: "reg (i2s_bus s') = (case i2s_mss (f AND 0xf000) of None \<Rightarrow> reg (i2s_bus s) | Some mss \<Rightarrow>
      (let g = (reg (i2s_bus s))(I2S_CKR := put_field (reg (i2s_bus s) I2S_CKR) 0x8000000 (mss AND 0x8000000)) in
       case i2s_ibm (f AND 0xf) of None \<Rightarrow> g | Some ibm \<Rightarrow>
       g(I2S_TXCR := put_field (g I2S_TXCR) 0x600 (ibm AND 0x600), I2S_RXCR := put_field (g I2S_RXCR) 0x600 (ibm AND 0x600))))"
    using i2s_port.set_fmt_reg [OF assms, of f] by blast
  show ?thesis
  proof (intro exI conjI)
    show "rockchip_i2s_set_fmt rm f s = Some (0, s')" by (rule s')
  qed (use reg in \<open>cases "i2s_mss (f AND 0xf000)"; cases "i2s_ibm (f AND 0xf)"\<close>,
      simp_all add: Let_def rd fit)
qed

theorem i2s_set_fmt_witness:
  "\<exists>s' s''. rockchip_i2s_set_fmt (i2s_chip 3) 0x1001 demo_i2s = Some (0, s') \<and>
    fst (i2s_bus s') I2S_CKR AND 0x8000000 = 0x8000000 \<and> fst (i2s_bus s') I2S_TXCR AND 0x600 = 0 \<and>
    rockchip_i2s_set_fmt (i2s_chip 3) 0x2001 demo_i2s = Some (0, s'') \<and> fst (i2s_bus s'') = fst (i2s_bus demo_i2s)"
  using i2s_set_fmt [OF chip.i2s_port_axioms [of 3] demo_i2s_free [of "(\<lambda>_. 0, 0)"], of "0x1001"]
    i2s_set_fmt [OF chip.i2s_port_axioms [of 3] demo_i2s_free [of "(\<lambda>_. 0, 0)"], of "0x2001"]
  by (auto simp: i2s_mss_def i2s_ibm_def)

text \<open>The clock dividers: a divider below 256 is stored as it is, the bit clock's in both
  directions at once and the master clock's in its own field; an unknown divider is refused
  without an access. The bit clock call does not check its argument: from 256 up to 32767
  it succeeds and stores the argument modulo 256 for the transmitter.\<close>
theorem i2s_clkdiv:
  assumes "i2s_port rm reg" "\<not> i2s_locked s" "0 \<le> n" "n < 2 ^ 15"
  shows "\<exists>s'. rockchip_i2s_set_clkdiv rm i n s = Some (if i \<in> {0, 1} then 0 else - EINVAL, s') \<and>
    (i = ROCKCHIP_DIV_BCLK \<longrightarrow> reg (i2s_bus s') I2S_CKR AND 0xff = word_of_int (n mod 256) \<and>
       (n < 256 \<longrightarrow> drop_bit 8 (reg (i2s_bus s') I2S_CKR AND 0xff00) = word_of_int n)) \<and>
    (i = ROCKCHIP_DIV_MCLK \<longrightarrow> drop_bit 16 (reg (i2s_bus s') I2S_CKR AND 0xff0000) = word_of_int (n mod 256)) \<and>
    (i \<notin> {0, 1} \<longrightarrow> reg (i2s_bus s') = reg (i2s_bus s))"
proof -
  obtain s' where s': "rockchip_i2s_set_clkdiv rm i n s = Some (if i = 0 \<or> i = 1 then 0 else - EINVAL, s')"
    and reg: "reg (i2s_bus s') = (if i = 1 then (reg (i2s_bus s))(I2S_CKR := put_field (reg (i2s_bus s) I2S_CKR) 0xffff
                          ((word_of_int n OR word_of_int (n * 2 ^ 8)) AND 0xffff))
                        else if i = 0 then (reg (i2s_bus s))(I2S_CKR := put_field (reg (i2s_bus s) I2S_CKR) 0xff0000
                          (word_of_int (n * 2 ^ 16) AND 0xff0000))
                        else reg (i2s_bus s))"
    using i2s_port.clkdiv_reg [OF assms, of i] by blast
  have ckr1: "reg (i2s_bus s') I2S_CKR AND k = (word_of_int n OR word_of_int (n * 2 ^ 8)) AND k"
    if "i = 1" "k AND 0xffff = k" for k
    using that put_field_part [OF that(2)] by (simp add: reg)
  have ckr0: "reg (i2s_bus s') I2S_CKR AND 0xff0000 = word_of_int (n * 2 ^ 16) AND 0xff0000" if "i = 0"
    using that put_field_read by (simp add: reg)
  show ?thesis
  proof (intro exI conjI impI)
    show "rockchip_i2s_set_clkdiv rm i n s = Some (if i \<in> {0, 1} then 0 else - EINVAL, s')" using s' by simp
    show "i = 1 \<Longrightarrow> reg (i2s_bus s') I2S_CKR AND 0xff = word_of_int (n mod 256)"
      using low_byte [of n] low_of_shifted [of n] by (subst ckr1) (simp_all add: bit.conj_disj_distrib2)
    show "i = 1 \<Longrightarrow> n < 256 \<Longrightarrow> drop_bit 8 (reg (i2s_bus s') I2S_CKR AND 0xff00) = word_of_int n"
      using shifted_byte [of 8 n] high_of_byte [OF assms(3)] assms(3)
      by (subst ckr1) (simp_all add: bit.conj_disj_distrib2 drop_bit_or)
    show "i = 0 \<Longrightarrow> drop_bit 16 (reg (i2s_bus s') I2S_CKR AND 0xff0000) = word_of_int (n mod 256)"
      using shifted_byte [of 16 n] ckr0 by simp
  qed (simp add: reg)
qed

theorem i2s_clkdiv_witness:
  "\<exists>s' s''. rockchip_i2s_set_clkdiv (i2s_chip 3) ROCKCHIP_DIV_BCLK 63 demo_i2s = Some (0, s') \<and>
    fst (i2s_bus s') I2S_CKR AND 0xff = 63 \<and>
    rockchip_i2s_set_clkdiv (i2s_chip 3) ROCKCHIP_DIV_BCLK 256 demo_i2s = Some (0, s'') \<and>
    fst (i2s_bus s'') I2S_CKR AND 0xff = 0"
  using i2s_clkdiv [OF chip.i2s_port_axioms [of 3] demo_i2s_free [of "(\<lambda>_. 0, 0)"], of 63 1]
    i2s_clkdiv [OF chip.i2s_port_axioms [of 3] demo_i2s_free [of "(\<lambda>_. 0, 0)"], of 256 1]
  by auto

text \<open>Register accesses are allowed and bounded, whatever the hardware answers: every call
  only reads registers the configuration declares readable and only writes writeable ones,
  none beyond the last register, off the stride or precious, and makes at most eleven reads
  of the clear register, even when the clear never finishes.\<close>
theorem i2s_accesses:
  assumes "i2s_run (watched rockchip_i2s_regmap_config rm) cs s = Some (rs, s')"
  shows "all_allowed s' = all_allowed s \<and> reads s' \<le> reads s + 11 * length cs"
  using watched_run [OF assms] by simp

theorem i2s_accesses_witness:
  "\<exists>rs s'. i2s_run (watched rockchip_i2s_regmap_config (i2s_chip 99))
      [Trigger SNDRV_PCM_STREAM_PLAYBACK 1, Trigger SNDRV_PCM_STREAM_PLAYBACK 0]
      (demo_dev ((\<lambda>_. 3, 0), 0, True)) = Some (rs, s') \<and> all_allowed s' \<and> reads s' \<le> 22"
proof -
  let ?s = "demo_dev ((\<lambda>_. 3, 0), 0, True) :: (((u32 \<Rightarrow> u32) \<times> nat) \<times> nat \<times> bool) rk_i2s_dev"
  obtain rs s' where r: "i2s_run (watched rockchip_i2s_regmap_config (i2s_chip 99))
      [Trigger SNDRV_PCM_STREAM_PLAYBACK 1, Trigger SNDRV_PCM_STREAM_PLAYBACK 0] ?s = Some (rs, s')"
    by (simp add: rockchip_i2s_trigger_def rockchip_snd_txctrl_def demo_dev_def Let_def)
  from i2s_accesses [OF this] show ?thesis
    using r by (auto simp: reads_def all_allowed_def demo_dev_def)
qed

text \<open>The advertised formats are not the ones the driver accepts: the format mask of both DAIs
  has the bits of S16, S24 and 20-bit samples, but, by an operand that is a format number
  instead of its bit, those of two formats that setting the parameters refuses in either
  direction, and not the bit of the 32-bit format that it accepts.\<close>
theorem i2s_formats_advertised:
  "{f. bit ROCKCHIP_I2S_FORMATS f} = {1, 2, 3, 6, 36} \<and>
   map dai_formats rockchip_i2s_dai = [ROCKCHIP_I2S_FORMATS, ROCKCHIP_I2S_FORMATS] \<and>
   {f. bit ROCKCHIP_I2S_FORMATS f \<and> i2s_vdw (int f) = None} = {1, 3} \<and>
   i2s_vdw SNDRV_PCM_FORMAT_S32_LE = Some 31"
proof -
  have ten: "bit (10 :: 64 word) f \<longleftrightarrow> f = 1 \<or> f = 3" for f
  proof -
    have "(10 :: 64 word) = 2 ^ 1 OR 2 ^ 3" by simp
    then show ?thesis by (simp only: bit_or_iff bit_single) auto
  qed
  have "bit ROCKCHIP_I2S_FORMATS f \<longleftrightarrow> f \<in> {1, 2, 3, 6, 36}" for f
    unfolding ROCKCHIP_I2S_FORMATS_def bit_or_iff ten bit_push_bit_iff bit_1_iff possible_bit_word by auto
  then show ?thesis by (auto simp: rockchip_i2s_dai_def i2s_vdw_def)
qed

text \<open>Probe and removal: a successful probe leaves the three clocks on and the component and
  PCM registered, and removal gives all of it back. A failing probe leaves nothing
  registered, but once the device tree was read the three clocks stay on.\<close>
theorem i2s_probe_balance:
  assumes "rockchip_i2s_probe rm sv d = Some (r, es, dev)"
  shows "(r = 0 \<longrightarrow> dev \<noteq> None \<and> outstanding es ({}, False, False) = (UNIV, True, True) \<and>
      outstanding (es @ rockchip_i2s_remove) ({}, False, False) = ({}, False, False)) \<and>
    (r \<noteq> 0 \<longrightarrow> dev = None \<and> outstanding es ({}, False, False) =
      (if sv_alloc sv \<and> 0 \<le> parse_from_dt sv then UNIV else {}, False, False))"
  using probe_outstanding [OF assms] by (auto simp: outstanding_append remove_outstanding)

theorem i2s_probe_balance_witness:
  "rockchip_i2s_probe (i2s_chip 3) (demo_services\<lparr>sv_component := - 517\<rparr>) (\<lambda>_. 0, 0) = Some (- ENOMEM, enable_clks, None) \<and>
   outstanding enable_clks ({}, False, False) = (UNIV, False, False)"
proof -
  have p: "rockchip_i2s_probe (i2s_chip 3) (demo_services\<lparr>sv_component := - 517\<rparr>) (\<lambda>_. 0, 0) = Some (- ENOMEM, enable_clks, None)"
    by (simp add: rockchip_i2s_probe_def demo_services_def parse_from_dt_def rockchip_i2s_dai_def Let_def)
  from i2s_probe_balance [OF this] p show ?thesis by (simp add: demo_services_def parse_from_dt_def)
qed

end
