(* ===== verification/Codec_Common.thy ===== *)
theory Codec_Common
  imports Rk_I2s
begin

text \<open>
  What the two codec drivers share: the services they call (I2C, GPIO and jack reporting
  are the kernel's, so parameters), the contract these services keep as a locale, the
  search in a coefficient table, the sample rate lists of the clock constraints.
\<close>

subsection \<open>Services\<close>

record 'b codec_io =
  io_send :: "'b \<Rightarrow> u8 list \<Rightarrow> int \<times> 'b" \<comment> \<open>\<^verbatim>\<open>i2c_master_send\<close>\<close>
  io_gpio_set :: "'b \<Rightarrow> int \<Rightarrow> bool \<Rightarrow> 'b" \<comment> \<open>\<^verbatim>\<open>gpio_set_value\<close>\<close>
  io_gpio_out :: "'b \<Rightarrow> int \<Rightarrow> bool \<Rightarrow> 'b" \<comment> \<open>\<^verbatim>\<open>gpio_direction_output\<close>\<close>
  io_gpio_in :: "'b \<Rightarrow> int \<Rightarrow> 'b" \<comment> \<open>\<^verbatim>\<open>gpio_direction_input\<close>\<close>
  io_gpio_get :: "'b \<Rightarrow> int \<Rightarrow> bool \<times> 'b" \<comment> \<open>\<^verbatim>\<open>gpio_get_value\<close>\<close>
  io_irq_type :: "'b \<Rightarrow> int \<Rightarrow> bool \<Rightarrow> int \<times> 'b" \<comment> \<open>\<^verbatim>\<open>irq_set_irq_type\<close>; True is the falling edge\<close>
  io_jack :: "'b \<Rightarrow> nat \<Rightarrow> nat \<Rightarrow> 'b" \<comment> \<open>\<^verbatim>\<open>snd_soc_jack_report\<close>\<close>

text \<open>A device-tree GPIO: its number or a negative error, its polarity, the answer to the request.\<close>

datatype gpio_name = SPK_CON | HP_CON | HP_DET

record gpio_dt =
  gd_gpio :: "gpio_name \<Rightarrow> int"
  gd_active_low :: "gpio_name \<Rightarrow> bool"
  gd_request :: "gpio_name \<Rightarrow> int"

abbreviation (input) INVALID_GPIO :: int where "INVALID_GPIO \<equiv> - 1"

datatype bias_level = BIAS_OFF | BIAS_STANDBY | BIAS_PREPARE | BIAS_ON

text \<open>
  The GPIO services work: a pin that is set has that level, reading it, configuring the
  interrupt and reporting a jack change no pin.
\<close>

locale gpio_port =
  fixes io :: "('b, 'z) codec_io_scheme"
    and pin :: "'b \<Rightarrow> int \<Rightarrow> bool"
  assumes gpio_set: "pin (io_gpio_set io b p l) = (pin b)(p := l)"
    and gpio_out: "pin (io_gpio_out io b p l) = (pin b)(p := l)"
    and gpio_in: "pin (io_gpio_in io b p) = pin b"
    and gpio_get: "io_gpio_get io b p = (pin b p, b)"
    and irq_type: "pin (snd (io_irq_type io b i e)) = pin b"
    and jack: "pin (io_jack io b st m) = pin b"

text \<open>
  The bus works as well: a two-byte message stores a register of the chip and moves no pin,
  and the other services leave the registers alone.
\<close>

locale codec_bus = gpio_port io pin for io :: "'b codec_io" and pin +
  fixes dev :: "'b \<Rightarrow> u8 \<Rightarrow> u8"
  assumes send: "\<exists>b'. io_send io b [r, v] = (2, b') \<and> dev b' = (dev b)(r := v) \<and> pin b' = pin b"
    and dev_quiet: "dev (io_gpio_set io b p l) = dev b" "dev (io_gpio_out io b p l) = dev b"
      "dev (io_gpio_in io b p) = dev b" "dev (snd (io_irq_type io b i e)) = dev b" "dev (io_jack io b st m) = dev b"

text \<open>A chip on a working bus, with a log of the jack reports.\<close>

record chip_bus =
  cb_dev :: "u8 \<Rightarrow> u8"
  cb_pin :: "int \<Rightarrow> bool"
  cb_jack :: "(nat \<times> nat) list"

definition chip_io :: "int \<Rightarrow> chip_bus codec_io" where
  "chip_io irq_ret = \<lparr>io_send = (\<lambda>b m. case m of [r, v] \<Rightarrow> (2, b\<lparr>cb_dev := (cb_dev b)(r := v)\<rparr>) | _ \<Rightarrow> (- EIO, b)),
     io_gpio_set = (\<lambda>b p l. b\<lparr>cb_pin := (cb_pin b)(p := l)\<rparr>), io_gpio_out = (\<lambda>b p l. b\<lparr>cb_pin := (cb_pin b)(p := l)\<rparr>),
     io_gpio_in = (\<lambda>b p. b), io_gpio_get = (\<lambda>b p. (cb_pin b p, b)), io_irq_type = (\<lambda>b i e. (irq_ret, b)),
     io_jack = (\<lambda>b st m. b\<lparr>cb_jack := cb_jack b @ [(st, m)]\<rparr>)\<rparr>"

interpretation chip_io: codec_bus "chip_io e" cb_pin cb_dev for e
  by unfold_locales (simp_all add: chip_io_def)

subsection \<open>Register access through the codec core\<close>

text \<open>
  With \<^verbatim>\<open>snd_soc_codec_set_cache_io\<close> the codec core accesses the registers: reads give the
  value, or \<^verbatim>\<open>(unsigned)-1\<close> when they fail.
\<close>

record 'b soc_io = "'b codec_io" +
  sr_read :: "'b \<Rightarrow> u32 \<Rightarrow> u32 \<times> 'b" \<comment> \<open>\<^verbatim>\<open>snd_soc_read\<close>\<close>
  sr_write :: "'b \<Rightarrow> u32 \<Rightarrow> u32 \<Rightarrow> int \<times> 'b" \<comment> \<open>\<^verbatim>\<open>snd_soc_write\<close>\<close>
  sr_update :: "'b \<Rightarrow> u32 \<Rightarrow> u32 \<Rightarrow> u32 \<Rightarrow> int \<times> 'b" \<comment> \<open>\<^verbatim>\<open>snd_soc_update_bits\<close>\<close>

text \<open>A working chip: registers are read as they were written, and moving a pin changes none.\<close>

locale soc_bus = gpio_port io pin for io :: "'b soc_io" and pin +
  fixes reg :: "'b \<Rightarrow> u32 \<Rightarrow> u32"
  assumes soc_read: "sr_read io b r = (reg b r, b)"
    and soc_write: "reg (snd (sr_write io b r v)) = (reg b)(r := v)" "pin (snd (sr_write io b r v)) = pin b"
    and soc_update: "reg (snd (sr_update io b r m v)) = (reg b)(r := put_field (reg b r) m (v AND m))"
      "pin (snd (sr_update io b r m v)) = pin b"
    and soc_quiet: "reg (io_gpio_set io b p l) = reg b" "reg (io_gpio_out io b p l) = reg b"
      "reg (io_gpio_in io b p) = reg b" "reg (snd (io_irq_type io b i e)) = reg b"

record soc_chip =
  sm_reg :: "u32 \<Rightarrow> u32"
  sm_pin :: "int \<Rightarrow> bool"

definition soc_chip_io :: "int \<Rightarrow> soc_chip soc_io" where
  "soc_chip_io irq_ret = \<lparr>io_send = (\<lambda>b m. (- EIO, b)),
     io_gpio_set = (\<lambda>b p l. b\<lparr>sm_pin := (sm_pin b)(p := l)\<rparr>), io_gpio_out = (\<lambda>b p l. b\<lparr>sm_pin := (sm_pin b)(p := l)\<rparr>),
     io_gpio_in = (\<lambda>b p. b), io_gpio_get = (\<lambda>b p. (sm_pin b p, b)), io_irq_type = (\<lambda>b i e. (irq_ret, b)),
     io_jack = (\<lambda>b st m. b), sr_read = (\<lambda>b r. (sm_reg b r, b)),
     sr_write = (\<lambda>b r v. (0, b\<lparr>sm_reg := (sm_reg b)(r := v)\<rparr>)),
     sr_update = (\<lambda>b r m v. (0, b\<lparr>sm_reg := (sm_reg b)(r := put_field (sm_reg b r) m (v AND m))\<rparr>))\<rparr>"

interpretation soc_chip: soc_bus "soc_chip_io e" sm_pin sm_reg for e
  by unfold_locales (simp_all add: soc_chip_io_def)

subsection \<open>Coefficient tables\<close>

text \<open>
  The search both drivers make: the index of the first entry for the rate and the master
  clock, or \<^verbatim>\<open>-EINVAL\<close>.
\<close>

fun coeff_search :: "(u32 \<times> u32) list \<Rightarrow> int \<Rightarrow> u32 \<Rightarrow> u32 \<Rightarrow> int" where
  "coeff_search [] i mclk rate = - EINVAL"
| "coeff_search ((m, r) # t) i mclk rate = (if r = rate \<and> m = mclk then i else coeff_search t (i + 1) mclk rate)"

lemma coeff_search_found:
  "0 \<le> i \<Longrightarrow> coeff_search t i mclk rate \<noteq> - EINVAL \<Longrightarrow>
   i \<le> coeff_search t i mclk rate \<and> coeff_search t i mclk rate < i + int (length t) \<and>
   t ! nat (coeff_search t i mclk rate - i) = (mclk, rate)"
proof (induction t arbitrary: i)
  case (Cons e t)
  obtain m r where e: "e = (m, r)" by (cases e)
  show ?case
  proof (cases "r = rate \<and> m = mclk")
    case False
    then have c: "coeff_search (e # t) i mclk rate = coeff_search t (i + 1) mclk rate" by (auto simp: e)
    with Cons.IH [of "i + 1"] Cons.prems have 1: "i + 1 \<le> coeff_search t (i + 1) mclk rate"
      "coeff_search t (i + 1) mclk rate < i + 1 + int (length t)"
      "t ! nat (coeff_search t (i + 1) mclk rate - (i + 1)) = (mclk, rate)" by auto
    have "nat (coeff_search t (i + 1) mclk rate - i) = Suc (nat (coeff_search t (i + 1) mclk rate - (i + 1)))"
      using 1(1) by linarith
    with 1 c show ?thesis by simp
  qed (simp add: e)
qed simp

lemma coeff_search_missing: "coeff_search t i mclk rate = - EINVAL \<Longrightarrow> 0 \<le> i \<Longrightarrow> (mclk, rate) \<notin> set t"
proof (induction t arbitrary: i)
  case (Cons e t) then show ?case by (cases e) (auto split: if_splits)
qed simp

lemma coeff_search_range:
  assumes "0 \<le> i" shows "coeff_search t i mclk rate = - EINVAL \<or> i \<le> coeff_search t i mclk rate"
  using coeff_search_found [OF assms] by blast

subsection \<open>Rates per master clock\<close>

definition rates_12288 :: "u32 list" where
  "rates_12288 = [8000, 12000, 16000, 24000, 24000, 32000, 48000, 96000]"

definition rates_112896 :: "u32 list" where
  "rates_112896 = [8000, 11025, 22050, 44100]"

definition rates_12 :: "u32 list" where
  "rates_12 = [8000, 11025, 12000, 16000, 22050, 24000, 32000, 44100, 48000, 48000, 88235, 96000]"

abbreviation (input) SND_SOC_DAIFMT_NB_NF :: u32 where "SND_SOC_DAIFMT_NB_NF \<equiv> 0x100"
abbreviation (input) SND_SOC_DAIFMT_NB_IF :: u32 where "SND_SOC_DAIFMT_NB_IF \<equiv> 0x200"
abbreviation (input) SND_SOC_DAIFMT_IB_NF :: u32 where "SND_SOC_DAIFMT_IB_NF \<equiv> 0x300"
abbreviation (input) SND_SOC_DAIFMT_IB_IF :: u32 where "SND_SOC_DAIFMT_IB_IF \<equiv> 0x400"
abbreviation (input) SND_SOC_DAIFMT_INV_MASK :: u32 where "SND_SOC_DAIFMT_INV_MASK \<equiv> 0x0f00"

end
