(* ===== verification/Es8323.thy ===== *)
theory Es8323
  imports Codec_Common
begin

text \<open>
  The ES8323 codec (\<^verbatim>\<open>rk3288/debug/codec/es8323.c\<close>): the register cache and the I2C
  write below it, the codec and DAI operations, the headphone detection, GPIO set-up. The
  codec core's \<^verbatim>\<open>snd_soc_read\<close> and \<^verbatim>\<open>snd_soc_write\<close> call the two functions the probe installs.
  Delays and log output are not modelled.
\<close>

subsection \<open>State\<close>

abbreviation (input) ES8323_CONTROL1 :: u32 where "ES8323_CONTROL1 \<equiv> 0x00"
abbreviation (input) ES8323_CHIPPOWER :: u32 where "ES8323_CHIPPOWER \<equiv> 0x02"
abbreviation (input) ES8323_ADCPOWER :: u32 where "ES8323_ADCPOWER \<equiv> 0x03"
abbreviation (input) ES8323_DACPOWER :: u32 where "ES8323_DACPOWER \<equiv> 0x04"
abbreviation (input) ES8323_CHIPLOPOW1 :: u32 where "ES8323_CHIPLOPOW1 \<equiv> 0x05"
abbreviation (input) ES8323_CHIPLOPOW2 :: u32 where "ES8323_CHIPLOPOW2 \<equiv> 0x06"
abbreviation (input) ES8323_ANAVOLMANAG :: u32 where "ES8323_ANAVOLMANAG \<equiv> 0x07"
abbreviation (input) ES8323_IFACE :: u32 where "ES8323_IFACE \<equiv> 0x08"
abbreviation (input) ES8323_ADC_IFACE :: u32 where "ES8323_ADC_IFACE \<equiv> 0x0c"
abbreviation (input) ES8323_ADCCONTROL5 :: u32 where "ES8323_ADCCONTROL5 \<equiv> 0x0d"
abbreviation (input) ES8323_DAC_IFACE :: u32 where "ES8323_DAC_IFACE \<equiv> 0x17"
abbreviation (input) ES8323_DACCONTROL2 :: u32 where "ES8323_DACCONTROL2 \<equiv> 0x18"
abbreviation (input) ES8323_DACCONTROL3 :: u32 where "ES8323_DACCONTROL3 \<equiv> 0x19"
abbreviation (input) ES8323_DEF_VOL :: u32 where "ES8323_DEF_VOL \<equiv> 0x20"

text \<open>The initial contents of the static register cache.\<close>

definition es8323_reg :: "u16 list" where
  "es8323_reg =
     [0x06, 0x1C, 0xC3, 0xFC, 0xC0, 0x00, 0x00, 0x7C, 0x80, 0x00, 0x00, 0x06, 0x00, 0x06, 0x30, 0x30,
      0xC0, 0xC0, 0x38, 0xB0, 0x32, 0x06, 0x00, 0x00, 0x06, 0x30, 0xC0, 0xC0, 0x08, 0x06, 0x1F, 0xF7,
      0xFD, 0xFF, 0x1F, 0xF7, 0xFD, 0xFF, 0x00, 0x38, 0x38, 0x38, 0x38, 0x38, 0x38, 0x00, 0x00, 0x00,
      0x00, 0x00, 0x00, 0x00, 0x00, 0x00, 0x00, 0x00]"

record 'b es8323_chip =
  ec_reg :: "u16 list"
  ec_sysclk :: u32
  ec_constraints :: "u32 list option"
  spk_ctl_gpio :: int
  hp_ctl_gpio :: int
  hp_det_gpio :: int
  spk_gpio_level :: bool
  hp_gpio_level :: bool
  hp_det_level :: bool
  ec_bias :: bias_level
  g_jack_new :: bool
  ec_irq_depth :: int \<comment> \<open>how often the detect interrupt is disabled\<close>
  ec_work :: bool \<comment> \<open>the detect work is pending\<close>
  ec_bus :: 'b

subsection \<open>Register access\<close>

definition es8323_read_reg_cache :: "'b es8323_chip \<Rightarrow> u32 \<Rightarrow> u32" where
  "es8323_read_reg_cache s reg = (if unat reg \<ge> length (ec_reg s) then - 1 else ucast (ec_reg s ! unat reg))"

definition es8323_write :: "'b codec_io \<Rightarrow> u32 \<Rightarrow> u32 \<Rightarrow> 'b es8323_chip \<Rightarrow> int \<times> 'b es8323_chip" where
  "es8323_write io reg val s =
     (let s = (if unat reg < length (ec_reg s) then s\<lparr>ec_reg := (ec_reg s)[unat reg := ucast val]\<rparr> else s);
          (ret, b) = io_send io (ec_bus s) [ucast reg, ucast (val AND 0x00ff)]
      in (if ret = 2 then 0 else if ret < 0 then ret else - EIO, s\<lparr>ec_bus := b\<rparr>))"

text \<open>A run of \<^verbatim>\<open>snd_soc_write\<close> calls whose results the code ignores.\<close>

definition es8323_writes :: "'b codec_io \<Rightarrow> (u32 \<times> u32) list \<Rightarrow> 'b es8323_chip \<Rightarrow> 'b es8323_chip" where
  "es8323_writes io ws s = fold (\<lambda>(r, v) s. snd (es8323_write io r v s)) ws s"

definition es8323_gpio_set :: "'b codec_io \<Rightarrow> int \<Rightarrow> bool \<Rightarrow> 'b es8323_chip \<Rightarrow> 'b es8323_chip" where
  "es8323_gpio_set io p l s = s\<lparr>ec_bus := io_gpio_set io (ec_bus s) p l\<rparr>"

subsection \<open>Codec operations\<close>

definition es8323_reset :: "'b codec_io \<Rightarrow> 'b es8323_chip \<Rightarrow> int \<times> 'b es8323_chip" where
  "es8323_reset io s = es8323_write io ES8323_CONTROL1 0x00 (snd (es8323_write io ES8323_CONTROL1 0x80 s))"

definition es8323_set_bias_level :: "'b codec_io \<Rightarrow> bias_level \<Rightarrow> 'b es8323_chip \<Rightarrow> int \<times> 'b es8323_chip" where
  "es8323_set_bias_level io level s =
     (let s = (case level of
         BIAS_ON \<Rightarrow> s
       | BIAS_PREPARE \<Rightarrow> es8323_writes io [(ES8323_ANAVOLMANAG, 0x7C), (ES8323_CHIPLOPOW1, 0x00),
           (ES8323_CHIPLOPOW2, 0x00), (ES8323_CHIPPOWER, 0x00), (ES8323_ADCPOWER, 0x59)] s
       | BIAS_STANDBY \<Rightarrow> es8323_writes io [(ES8323_ANAVOLMANAG, 0x7C), (ES8323_CHIPLOPOW1, 0x00),
           (ES8323_CHIPLOPOW2, 0x00), (ES8323_CHIPPOWER, 0x00), (ES8323_ADCPOWER, 0x59)] s
       | BIAS_OFF \<Rightarrow> es8323_writes io [(ES8323_ADCPOWER, 0xFF), (ES8323_DACPOWER, 0xC0),
           (ES8323_CHIPLOPOW1, 0xFF), (ES8323_CHIPLOPOW2, 0xFF), (ES8323_CHIPPOWER, 0xFF), (ES8323_ANAVOLMANAG, 0x7B)] s)
      in (0, s\<lparr>ec_bias := level\<rparr>))"

text \<open>The register settings of the probe, in order.\<close>

definition es8323_probe_regs :: "(u32 \<times> u32) list" where
  "es8323_probe_regs =
     [(0x02, 0xf3), (0x2B, 0x80), (0x08, 0x00), (0x00, 0x35), (0x01, 0x50), (0x03, 0x59), (0x05, 0x00), (0x06, 0x00),
      (0x07, 0x7c), (0x09, 0x88), (0x0a, 0xf0), (0x0b, 0x82), (0x0C, 0x4c), (0x0d, 0x02), (0x10, 0x00), (0x11, 0x00),
      (0x12, 0xea), (0x13, 0xc0), (0x14, 0x05), (0x15, 0x06), (0x16, 0x53), (0x17, 0x18), (0x18, 0x02), (0x1A, 0x18),
      (0x1B, 0x18), (0x26, 0x12), (0x27, 0xb8), (0x28, 0x38), (0x29, 0x38), (0x2A, 0xb8), (0x02, 0x00), (0x19, 0x02),
      (0x04, 0x0c), (0x2e, 0x00), (0x2f, 0x00), (0x30, 0x08), (0x31, 0x08), (0x30, 0x0f), (0x31, 0x0f), (0x30, 0x18),
      (0x31, 0x18), (0x04, 0x2c), (ES8323_DACCONTROL3, 0x06)]"

text \<open>\<open>jack_new\<close> is the result of \<^verbatim>\<open>snd_soc_jack_new\<close>; a failing reset is only reported.\<close>

definition es8323_probe :: "'b codec_io \<Rightarrow> int \<Rightarrow> 'b es8323_chip \<Rightarrow> int \<times> 'b es8323_chip" where
  "es8323_probe io jack_new s =
     (let s = snd (es8323_reset io s);
          s = es8323_writes io es8323_probe_regs s;
          s = snd (es8323_set_bias_level io BIAS_STANDBY s)
      in if jack_new \<noteq> 0 then (jack_new, s) else (0, s\<lparr>g_jack_new := True\<rparr>))"

subsection \<open>DAI operations\<close>

record coeff_div =
  cd_mclk :: u32
  cd_rate :: u32
  cd_fs :: u16
  cd_sr :: u32
  cd_usb :: u32

definition coeff :: "u32 \<Rightarrow> u32 \<Rightarrow> u16 \<Rightarrow> u32 \<Rightarrow> u32 \<Rightarrow> coeff_div" where
  "coeff m r fs sr usb = \<lparr>cd_mclk = m, cd_rate = r, cd_fs = fs, cd_sr = sr, cd_usb = usb\<rparr>"

definition es8323_coeff_div :: "coeff_div list" where
  "es8323_coeff_div =
     [coeff 12288000 8000 1536 0xa 0, coeff 11289600 8000 1408 0x9 0, coeff 18432000 8000 2304 0xc 0,
      coeff 16934400 8000 2112 0xb 0, coeff 12000000 8000 1500 0xb 1,
      coeff 11289600 11025 1024 0x7 0, coeff 16934400 11025 1536 0xa 0, coeff 12000000 11025 1088 0x9 1,
      coeff 12288000 16000 768 0x6 0, coeff 18432000 16000 1152 0x8 0, coeff 12000000 16000 750 0x7 1,
      coeff 11289600 22050 512 0x4 0, coeff 16934400 22050 768 0x6 0, coeff 12000000 22050 544 0x6 1,
      coeff 12288000 32000 384 0x3 0, coeff 18432000 32000 576 0x5 0, coeff 12000000 32000 375 0x4 1,
      coeff 11289600 44100 256 0x2 0, coeff 16934400 44100 384 0x3 0, coeff 12000000 44100 272 0x3 1,
      coeff 12288000 48000 256 0x2 0, coeff 18432000 48000 384 0x3 0, coeff 12000000 48000 250 0x2 1,
      coeff 11289600 88200 128 0x0 0, coeff 16934400 88200 192 0x1 0, coeff 12000000 88200 136 0x1 1,
      coeff 12288000 96000 128 0x0 0, coeff 18432000 96000 192 0x1 0, coeff 12000000 96000 125 0x0 1]"

definition es8323_get_coeff :: "u32 \<Rightarrow> u32 \<Rightarrow> int" where
  "es8323_get_coeff mclk rate = coeff_search (map (\<lambda>c. (cd_mclk c, cd_rate c)) es8323_coeff_div) 0 mclk rate"

text \<open>The bits of the sample size in the two interface registers.\<close>

definition es8323_adc_size :: "int \<Rightarrow> u32" where
  "es8323_adc_size fmt = (if fmt = SNDRV_PCM_FORMAT_S16_LE then 0x000C else if fmt = SNDRV_PCM_FORMAT_S20_3LE then 0x0004
     else if fmt = SNDRV_PCM_FORMAT_S32_LE then 0x0010 else 0)"

definition es8323_dac_size :: "int \<Rightarrow> u32" where
  "es8323_dac_size fmt = (if fmt = SNDRV_PCM_FORMAT_S16_LE then 0x0018 else if fmt = SNDRV_PCM_FORMAT_S20_3LE then 0x0008
     else if fmt = SNDRV_PCM_FORMAT_S32_LE then 0x0020 else 0)"

definition es8323_pcm_hw_params :: "'b codec_io \<Rightarrow> pcm_params \<Rightarrow> 'b es8323_chip \<Rightarrow> (int \<times> 'b es8323_chip) option" where
  "es8323_pcm_hw_params io params s =
     (let srate = es8323_read_reg_cache s ES8323_IFACE AND 0x80;
          adciface = es8323_read_reg_cache s ES8323_ADC_IFACE AND 0xE3;
          daciface = es8323_read_reg_cache s ES8323_DAC_IFACE AND 0xC7;
          c = es8323_get_coeff (ec_sysclk s) (p_rate params);
          (c, srate) = (if c < 0 then (es8323_get_coeff (ec_sysclk s div 2) (p_rate params), srate OR 0x40) else (c, srate))
      in if c < 0 then Some (c, s)
         else do { e \<leftarrow> aref es8323_coeff_div c;
                   Some (0, es8323_writes io
                     [(ES8323_DAC_IFACE, daciface OR es8323_dac_size (p_format params)),
                      (ES8323_ADC_IFACE, adciface OR es8323_adc_size (p_format params)),
                      (ES8323_IFACE, srate),
                      (ES8323_ADCCONTROL5, cd_sr e OR push_bit 4 (cd_usb e)),
                      (ES8323_DACCONTROL2, cd_sr e OR push_bit 4 (cd_usb e))] s) })"

definition es8323_set_dai_fmt :: "'b codec_io \<Rightarrow> u32 \<Rightarrow> 'b es8323_chip \<Rightarrow> int \<times> 'b es8323_chip" where
  "es8323_set_dai_fmt io fmt s =
     (let iface = ucast (es8323_read_reg_cache s ES8323_IFACE) :: u8;
          adciface = ucast (es8323_read_reg_cache s ES8323_ADC_IFACE) :: u8;
          daciface = ucast (es8323_read_reg_cache s ES8323_DAC_IFACE) :: u8;
          master = fmt AND SND_SOC_DAIFMT_MASTER_MASK; format = fmt AND SND_SOC_DAIFMT_FORMAT_MASK;
          inv = fmt AND SND_SOC_DAIFMT_INV_MASK
      in if master \<notin> {SND_SOC_DAIFMT_CBM_CFM, SND_SOC_DAIFMT_CBS_CFS} then (- EINVAL, s)
         else let iface = (if master = SND_SOC_DAIFMT_CBM_CFM then iface OR 0x80 else iface AND 0x7F)
         in if format \<notin> {SND_SOC_DAIFMT_I2S, SND_SOC_DAIFMT_RIGHT_J, SND_SOC_DAIFMT_LEFT_J, SND_SOC_DAIFMT_DSP_A,
              SND_SOC_DAIFMT_DSP_B} then (- EINVAL, s)
         else let (adciface, daciface) = (if format = SND_SOC_DAIFMT_I2S then (adciface AND 0xFC, daciface AND 0xF9)
                                          else (adciface, daciface))
         in if inv \<notin> {SND_SOC_DAIFMT_NB_NF, SND_SOC_DAIFMT_IB_IF, SND_SOC_DAIFMT_IB_NF, SND_SOC_DAIFMT_NB_IF}
         then (- EINVAL, s)
         else let iface = (if inv \<in> {SND_SOC_DAIFMT_IB_IF, SND_SOC_DAIFMT_IB_NF} then iface OR 0x20 else iface AND 0xDF);
                  (adciface, daciface) = (if inv \<in> {SND_SOC_DAIFMT_IB_IF, SND_SOC_DAIFMT_NB_IF}
                     then (adciface OR 0x20, daciface OR 0x40) else (adciface AND 0xDF, daciface AND 0xBF))
         in (0, es8323_writes io [(ES8323_IFACE, ucast iface), (ES8323_ADC_IFACE, ucast adciface),
                                  (ES8323_DAC_IFACE, ucast daciface)] s))"

text \<open>A frequency that is not listed changes nothing, and the result is 0 all the same.\<close>

definition es8323_set_dai_sysclk :: "u32 \<Rightarrow> 'b es8323_chip \<Rightarrow> int \<times> 'b es8323_chip" where
  "es8323_set_dai_sysclk freq s =
     (0, if freq \<in> {11289600, 18432000, 22579200, 36864000}
         then s\<lparr>ec_constraints := Some rates_112896, ec_sysclk := freq\<rparr>
         else if freq \<in> {12288000, 16934400, 24576000, 33868800}
         then s\<lparr>ec_constraints := Some rates_12288, ec_sysclk := freq\<rparr>
         else if freq \<in> {12000000, 24000000} then s\<lparr>ec_constraints := Some rates_12, ec_sysclk := freq\<rparr>
         else s)"

text \<open>
  Opening a stream hands the rates of the clock to the sound core, which reads the list when
  it refines the parameters: without a clock set before, through a NULL pointer.
\<close>

definition es8323_pcm_startup :: "'b es8323_chip \<Rightarrow> (int \<times> u32 list) option" where
  "es8323_pcm_startup s = (case ec_constraints s of None \<Rightarrow> None | Some rates \<Rightarrow> Some (0, rates))"

definition es8323_mute :: "'b codec_io \<Rightarrow> bool \<Rightarrow> 'b es8323_chip \<Rightarrow> int \<times> 'b es8323_chip" where
  "es8323_mute io mute s =
     (if mute then
        (let s = es8323_gpio_set io (spk_ctl_gpio s) (\<not> spk_gpio_level s) s;
             s = es8323_gpio_set io (hp_ctl_gpio s) (\<not> hp_gpio_level s) s
         in (0, snd (es8323_write io ES8323_DACCONTROL3 0x06 s)))
      else
        (let s = es8323_writes io [(ES8323_DACCONTROL3, 0x02), (0x30, ES8323_DEF_VOL), (0x31, ES8323_DEF_VOL)] s;
             (det, b) = io_gpio_get io (ec_bus s) (hp_det_gpio s);
             s = s\<lparr>ec_bus := b\<rparr>
         in (0, if hp_det_level s \<noteq> det then es8323_gpio_set io (spk_ctl_gpio s) (spk_gpio_level s) s
                else es8323_gpio_set io (hp_ctl_gpio s) (\<not> hp_gpio_level s) s)))"

subsection \<open>Headphone detection\<close>

abbreviation (input) SND_JACK_HEADPHONE :: nat where "SND_JACK_HEADPHONE \<equiv> 1"
abbreviation (input) SND_JACK_HEADSET :: nat where "SND_JACK_HEADSET \<equiv> 3"

definition es8323_hp_det_irq_handler :: "'b es8323_chip \<Rightarrow> 'b es8323_chip" where
  "es8323_hp_det_irq_handler s = s\<lparr>ec_irq_depth := ec_irq_depth s + 1, ec_work := True\<rparr>"

text \<open>When the interrupt type cannot be set the work returns without enabling the interrupt.\<close>

definition hp_detect_work :: "'b codec_io \<Rightarrow> int \<Rightarrow> 'b es8323_chip \<Rightarrow> 'b es8323_chip" where
  "hp_detect_work io irq s =
     (let s = s\<lparr>ec_work := False\<rparr>;
          (det, b) = io_gpio_get io (ec_bus s) (hp_det_gpio s);
          (ret, b) = io_irq_type io b irq det;
          s = s\<lparr>ec_bus := b\<rparr>
      in if ret < 0 then s
         else let (det, b) = io_gpio_get io (ec_bus s) (hp_det_gpio s);
                  s = s\<lparr>ec_bus := b\<rparr>;
                  s = (if hp_det_level s = det then
                         (let s = es8323_gpio_set io (spk_ctl_gpio s) (\<not> spk_gpio_level s) s;
                              s = es8323_gpio_set io (hp_ctl_gpio s) (\<not> hp_gpio_level s) s
                          in s\<lparr>ec_bus := io_jack io (ec_bus s) SND_JACK_HEADPHONE SND_JACK_HEADSET\<rparr>)
                       else
                         (let s = es8323_gpio_set io (spk_ctl_gpio s) (spk_gpio_level s) s;
                              s = es8323_gpio_set io (hp_ctl_gpio s) (\<not> hp_gpio_level s) s
                          in if g_jack_new s then s\<lparr>ec_bus := io_jack io (ec_bus s) SND_JACK_HEADSET SND_JACK_HEADSET\<rparr> else s))
              in s\<lparr>ec_irq_depth := ec_irq_depth s - 1\<rparr>)"

subsection \<open>GPIO set-up\<close>

definition es8323_gpio_setup :: "'b codec_io \<Rightarrow> gpio_dt \<Rightarrow> 'b es8323_chip \<Rightarrow> int \<times> 'b es8323_chip" where
  "es8323_gpio_setup io dt s =
     (let s = s\<lparr>spk_ctl_gpio := gd_gpio dt SPK_CON\<rparr>;
          s = (if spk_ctl_gpio s < 0 then s else s\<lparr>spk_gpio_level := \<not> gd_active_low dt SPK_CON\<rparr>)
      in if 0 \<le> spk_ctl_gpio s \<and> gd_request dt SPK_CON \<noteq> 0 then (gd_request dt SPK_CON, s)
         else let s = (if spk_ctl_gpio s < 0 then s
                       else s\<lparr>ec_bus := io_gpio_out io (ec_bus s) (spk_ctl_gpio s) (\<not> spk_gpio_level s)\<rparr>);
                  s = s\<lparr>hp_ctl_gpio := gd_gpio dt HP_CON\<rparr>;
                  s = (if hp_ctl_gpio s < 0 then s\<lparr>hp_ctl_gpio := INVALID_GPIO\<rparr>
                       else s\<lparr>hp_gpio_level := \<not> gd_active_low dt HP_CON\<rparr>)
         in if 0 \<le> hp_ctl_gpio s \<and> gd_request dt HP_CON \<noteq> 0 then (gd_request dt HP_CON, s)
         else let s = (if hp_ctl_gpio s < 0 then s
                       else s\<lparr>ec_bus := io_gpio_out io (ec_bus s) (hp_ctl_gpio s) (\<not> hp_gpio_level s)\<rparr>);
                  s = s\<lparr>hp_det_gpio := gd_gpio dt HP_DET\<rparr>;
                  s = (if hp_det_gpio s < 0 then s\<lparr>hp_det_gpio := INVALID_GPIO\<rparr>
                       else s\<lparr>hp_det_level := \<not> gd_active_low dt HP_DET\<rparr>)
         in if 0 \<le> hp_det_gpio s \<and> gd_request dt HP_DET \<noteq> 0 then (gd_request dt HP_DET, s)
         else (0, if hp_det_gpio s < 0 then s else s\<lparr>ec_bus := io_gpio_in io (ec_bus s) (hp_det_gpio s)\<rparr>))"

subsection \<open>Probe of the I2C device\<close>

text \<open>
  The chip structure is zeroed; the register cache and \<^verbatim>\<open>g_jack_new\<close> are static. A failing
  GPIO set-up or interrupt request is only printed; the result is that of registering the
  codec.
\<close>

definition es8323_i2c_probe :: "'b codec_io \<Rightarrow> bool \<Rightarrow> bool \<Rightarrow> gpio_dt \<Rightarrow> int \<Rightarrow> 'b es8323_chip \<Rightarrow> int \<times> 'b es8323_chip" where
  "es8323_i2c_probe io functional memory dt register s =
     (if \<not> functional then (- EIO, s) else if \<not> memory then (- ENOMEM, s)
      else let s = s\<lparr>ec_sysclk := 0, ec_constraints := None, spk_ctl_gpio := 0, hp_ctl_gpio := 0, hp_det_gpio := 0,
                      spk_gpio_level := False, hp_gpio_level := False, hp_det_level := False, ec_work := False\<rparr>
           in (register, snd (es8323_gpio_setup io dt s)))"

end
