(* ===== verification/Es8316.thy ===== *)
theory Es8316
  imports Codec_Common
begin

text \<open>
  The ES8316 codec (\<^verbatim>\<open>rk3288/debug/codec/es8316.c\<close>): its registers go through the codec
  core's \<^verbatim>\<open>snd_soc_read\<close>, \<^verbatim>\<open>snd_soc_write\<close> and \<^verbatim>\<open>snd_soc_update_bits\<close> (a record of services);
  the DAI operations, power counting, the speaker pin and headphone interrupt, probe,
  resume and shutdown. Delays and log output are not modelled.
\<close>

subsection \<open>Registers\<close>

abbreviation (input) ES8316_RESET_REG00 :: u32 where "ES8316_RESET_REG00 \<equiv> 0x00"
abbreviation (input) ES8316_CLKMGR_CLKSW_REG01 :: u32 where "ES8316_CLKMGR_CLKSW_REG01 \<equiv> 0x01"
abbreviation (input) ES8316_CLKMGR_CLKSEL_REG02 :: u32 where "ES8316_CLKMGR_CLKSEL_REG02 \<equiv> 0x02"
abbreviation (input) ES8316_CLKMGR_ADCOSR_REG03 :: u32 where "ES8316_CLKMGR_ADCOSR_REG03 \<equiv> 0x03"
abbreviation (input) ES8316_CLKMGR_ADCDIV1_REG04 :: u32 where "ES8316_CLKMGR_ADCDIV1_REG04 \<equiv> 0x04"
abbreviation (input) ES8316_CLKMGR_ADCDIV2_REG05 :: u32 where "ES8316_CLKMGR_ADCDIV2_REG05 \<equiv> 0x05"
abbreviation (input) ES8316_CLKMGR_DACDIV1_REG06 :: u32 where "ES8316_CLKMGR_DACDIV1_REG06 \<equiv> 0x06"
abbreviation (input) ES8316_CLKMGR_DACDIV2_REG07 :: u32 where "ES8316_CLKMGR_DACDIV2_REG07 \<equiv> 0x07"
abbreviation (input) ES8316_CLKMGR_CPDIV_REG08 :: u32 where "ES8316_CLKMGR_CPDIV_REG08 \<equiv> 0x08"
abbreviation (input) ES8316_SDP_MS_BCKDIV_REG09 :: u32 where "ES8316_SDP_MS_BCKDIV_REG09 \<equiv> 0x09"
abbreviation (input) ES8316_SDP_ADCFMT_REG0A :: u32 where "ES8316_SDP_ADCFMT_REG0A \<equiv> 0x0a"
abbreviation (input) ES8316_SDP_DACFMT_REG0B :: u32 where "ES8316_SDP_DACFMT_REG0B \<equiv> 0x0b"
abbreviation (input) ES8316_SYS_VMIDSEL_REG0C :: u32 where "ES8316_SYS_VMIDSEL_REG0C \<equiv> 0x0c"
abbreviation (input) ES8316_SYS_PDN_REG0D :: u32 where "ES8316_SYS_PDN_REG0D \<equiv> 0x0d"
abbreviation (input) ES8316_SYS_LP1_REG0E :: u32 where "ES8316_SYS_LP1_REG0E \<equiv> 0x0e"
abbreviation (input) ES8316_SYS_LP2_REG0F :: u32 where "ES8316_SYS_LP2_REG0F \<equiv> 0x0f"
abbreviation (input) ES8316_SYS_VMIDLOW_REG10 :: u32 where "ES8316_SYS_VMIDLOW_REG10 \<equiv> 0x10"
abbreviation (input) ES8316_SYS_VSEL_REG11 :: u32 where "ES8316_SYS_VSEL_REG11 \<equiv> 0x11"
abbreviation (input) ES8316_SYS_REF_REG12 :: u32 where "ES8316_SYS_REF_REG12 \<equiv> 0x12"
abbreviation (input) ES8316_HPMIX_SEL_REG13 :: u32 where "ES8316_HPMIX_SEL_REG13 \<equiv> 0x13"
abbreviation (input) ES8316_HPMIX_SWITCH_REG14 :: u32 where "ES8316_HPMIX_SWITCH_REG14 \<equiv> 0x14"
abbreviation (input) ES8316_HPMIX_PDN_REG15 :: u32 where "ES8316_HPMIX_PDN_REG15 \<equiv> 0x15"
abbreviation (input) ES8316_HPMIX_VOL_REG16 :: u32 where "ES8316_HPMIX_VOL_REG16 \<equiv> 0x16"
abbreviation (input) ES8316_CPHP_OUTEN_REG17 :: u32 where "ES8316_CPHP_OUTEN_REG17 \<equiv> 0x17"
abbreviation (input) ES8316_CPHP_ICAL_VOL_REG18 :: u32 where "ES8316_CPHP_ICAL_VOL_REG18 \<equiv> 0x18"
abbreviation (input) ES8316_CPHP_PDN1_REG19 :: u32 where "ES8316_CPHP_PDN1_REG19 \<equiv> 0x19"
abbreviation (input) ES8316_CPHP_PDN2_REG1A :: u32 where "ES8316_CPHP_PDN2_REG1A \<equiv> 0x1a"
abbreviation (input) ES8316_CPHP_LDOCTL_REG1B :: u32 where "ES8316_CPHP_LDOCTL_REG1B \<equiv> 0x1b"
abbreviation (input) ES8316_CAL_TYPE_REG1C :: u32 where "ES8316_CAL_TYPE_REG1C \<equiv> 0x1c"
abbreviation (input) ES8316_CAL_HPLIV_REG1E :: u32 where "ES8316_CAL_HPLIV_REG1E \<equiv> 0x1e"
abbreviation (input) ES8316_CAL_HPRIV_REG1F :: u32 where "ES8316_CAL_HPRIV_REG1F \<equiv> 0x1f"
abbreviation (input) ES8316_ADC_PDN_LINSEL_REG22 :: u32 where "ES8316_ADC_PDN_LINSEL_REG22 \<equiv> 0x22"
abbreviation (input) ES8316_ADC_PGAGAIN_REG23 :: u32 where "ES8316_ADC_PGAGAIN_REG23 \<equiv> 0x23"
abbreviation (input) ES8316_ADC_D2SEPGA_REG24 :: u32 where "ES8316_ADC_D2SEPGA_REG24 \<equiv> 0x24"
abbreviation (input) ES8316_ADC_DMIC_REG25 :: u32 where "ES8316_ADC_DMIC_REG25 \<equiv> 0x25"
abbreviation (input) ES8316_ADC_VOLUME_REG27 :: u32 where "ES8316_ADC_VOLUME_REG27 \<equiv> 0x27"
abbreviation (input) ES8316_ADC_ALC1_REG29 :: u32 where "ES8316_ADC_ALC1_REG29 \<equiv> 0x29"
abbreviation (input) ES8316_ADC_ALC2_REG2A :: u32 where "ES8316_ADC_ALC2_REG2A \<equiv> 0x2a"
abbreviation (input) ES8316_ADC_ALC3_REG2B :: u32 where "ES8316_ADC_ALC3_REG2B \<equiv> 0x2b"
abbreviation (input) ES8316_ADC_ALC4_REG2C :: u32 where "ES8316_ADC_ALC4_REG2C \<equiv> 0x2c"
abbreviation (input) ES8316_ADC_ALC5_REG2D :: u32 where "ES8316_ADC_ALC5_REG2D \<equiv> 0x2d"
abbreviation (input) ES8316_ADC_ALC6_REG2E :: u32 where "ES8316_ADC_ALC6_REG2E \<equiv> 0x2e"
abbreviation (input) ES8316_DAC_PDN_REG2F :: u32 where "ES8316_DAC_PDN_REG2F \<equiv> 0x2f"
abbreviation (input) ES8316_DAC_SET1_REG30 :: u32 where "ES8316_DAC_SET1_REG30 \<equiv> 0x30"
abbreviation (input) ES8316_DAC_SET2_REG31 :: u32 where "ES8316_DAC_SET2_REG31 \<equiv> 0x31"
abbreviation (input) ES8316_DAC_SET3_REG32 :: u32 where "ES8316_DAC_SET3_REG32 \<equiv> 0x32"
abbreviation (input) ES8316_DAC_VOLL_REG33 :: u32 where "ES8316_DAC_VOLL_REG33 \<equiv> 0x33"
abbreviation (input) ES8316_DAC_VOLR_REG34 :: u32 where "ES8316_DAC_VOLR_REG34 \<equiv> 0x34"
abbreviation (input) ES8316_GPIO_SEL_REG4D :: u32 where "ES8316_GPIO_SEL_REG4D \<equiv> 0x4d"
abbreviation (input) ES8316_GPIO_DEBUNCE_INT_REG4E :: u32 where "ES8316_GPIO_DEBUNCE_INT_REG4E \<equiv> 0x4e"
abbreviation (input) ES8316_GPIO_FLAG :: u32 where "ES8316_GPIO_FLAG \<equiv> 0x4f"
abbreviation (input) ES8316_TESTMODE_REG50 :: u32 where "ES8316_TESTMODE_REG50 \<equiv> 0x50"
abbreviation (input) ES8316_TEST1_REG51 :: u32 where "ES8316_TEST1_REG51 \<equiv> 0x51"
abbreviation (input) ES8316_TEST2_REG52 :: u32 where "ES8316_TEST2_REG52 \<equiv> 0x52"
abbreviation (input) ES8316_IFACE :: u32 where "ES8316_IFACE \<equiv> ES8316_SDP_MS_BCKDIV_REG09"
abbreviation (input) ES8316_ADC_IFACE :: u32 where "ES8316_ADC_IFACE \<equiv> ES8316_SDP_ADCFMT_REG0A"
abbreviation (input) ES8316_DAC_IFACE :: u32 where "ES8316_DAC_IFACE \<equiv> ES8316_SDP_DACFMT_REG0B"

abbreviation (input) ES8316_CLKMGR_MCLK_DIV_MASK :: u32 where "ES8316_CLKMGR_MCLK_DIV_MASK \<equiv> 0x80"
abbreviation (input) ES8316_CLKMGR_ADC_MCLK_MASK :: u32 where "ES8316_CLKMGR_ADC_MCLK_MASK \<equiv> 0x08"
abbreviation (input) ES8316_CLKMGR_DAC_MCLK_MASK :: u32 where "ES8316_CLKMGR_DAC_MCLK_MASK \<equiv> 0x04"
abbreviation (input) ES8316_CLKMGR_ADC_ANALOG_MASK :: u32 where "ES8316_CLKMGR_ADC_ANALOG_MASK \<equiv> 0x02"
abbreviation (input) ES8316_CLKMGR_DAC_ANALOG_MASK :: u32 where "ES8316_CLKMGR_DAC_ANALOG_MASK \<equiv> 0x01"

text \<open>The default values the driver gives to the register cache, from register 0 on.\<close>

definition es8316_reg_defaults :: "u8 list" where
  "es8316_reg_defaults =
     [0x03, 0x03, 0x00, 0x20, 0x11, 0x00, 0x11, 0x00, 0x00, 0x01, 0x00, 0x00, 0xf8, 0x3f, 0x00, 0x00,
      0x01, 0xfc, 0x28, 0x00, 0x00, 0x33, 0x00, 0x00, 0x88, 0x06, 0x22, 0x03, 0x0f, 0x00, 0x80, 0x80,
      0x00, 0x00, 0xc0, 0x00, 0x01, 0x08, 0x10, 0xc0, 0x00, 0x1c, 0x00, 0xb0, 0x32, 0x03, 0x00, 0x11,
      0x10, 0x00, 0x00, 0xc0, 0xc0, 0x1f, 0xf7, 0xfd, 0xff, 0x1f, 0xf7, 0xfd, 0xff, 0x1f, 0xf7, 0xfd,
      0xff, 0x1f, 0xf7, 0xfd, 0xff, 0x1f, 0xf7, 0xfd, 0xff, 0x1f, 0xf7, 0xfd, 0xff, 0x00, 0x00, 0xff,
      0x00, 0x00, 0x00, 0x00]"

definition es8316_readable :: "u32 \<Rightarrow> bool" where
  "es8316_readable reg \<longleftrightarrow> reg \<le> 90"

definition es8316_volatile :: "u32 \<Rightarrow> bool" where
  "es8316_volatile reg \<longleftrightarrow> reg \<le> 90"

subsection \<open>State\<close>

text \<open>The chip structure, the static variables of the file, the interrupt and the bus.\<close>

record 'b es8316_chip =
  e6_dmic_amic :: u32
  e6_sysclk :: u32
  e6_constraints :: "u32 list option"
  e6_spk_ctl_gpio :: int
  e6_hp_ctl_gpio :: int
  e6_hp_det_gpio :: int
  e6_spk_gpio_level :: bool
  e6_hp_gpio_level :: bool
  e6_hp_det_level :: bool
  e6_pwr_count :: u32
  hp_irq_flag :: bool
  mute_flag :: u8
  es8316_init_reg :: bool
  es8316_codec :: bool \<comment> \<open>the global pointer is set\<close>
  e6_bias :: bias_level
  e6_irq_depth :: int \<comment> \<open>how often the detect interrupt is disabled\<close>
  e6_bus :: 'b

definition e6_read :: "'b soc_io \<Rightarrow> u32 \<Rightarrow> 'b es8316_chip \<Rightarrow> u32 \<times> 'b es8316_chip" where
  "e6_read io r s = (case sr_read io (e6_bus s) r of (v, b) \<Rightarrow> (v, s\<lparr>e6_bus := b\<rparr>))"

definition e6_write :: "'b soc_io \<Rightarrow> u32 \<Rightarrow> u32 \<Rightarrow> 'b es8316_chip \<Rightarrow> 'b es8316_chip" where
  "e6_write io r v s = s\<lparr>e6_bus := snd (sr_write io (e6_bus s) r v)\<rparr>"

definition e6_update :: "'b soc_io \<Rightarrow> u32 \<Rightarrow> u32 \<Rightarrow> u32 \<Rightarrow> 'b es8316_chip \<Rightarrow> 'b es8316_chip" where
  "e6_update io r m v s = s\<lparr>e6_bus := snd (sr_update io (e6_bus s) r m v)\<rparr>"

text \<open>A run of \<^verbatim>\<open>snd_soc_write\<close> calls whose results the code ignores.\<close>

definition e6_writes :: "'b soc_io \<Rightarrow> (u32 \<times> u32) list \<Rightarrow> 'b es8316_chip \<Rightarrow> 'b es8316_chip" where
  "e6_writes io ws s = fold (\<lambda>(r, v) s. e6_write io r v s) ws s"

definition es8316_reset :: "'b soc_io \<Rightarrow> 'b es8316_chip \<Rightarrow> int \<times> 'b es8316_chip" where
  "es8316_reset io s =
     (let s = e6_write io ES8316_RESET_REG00 0x3F s
      in case sr_write io (e6_bus s) ES8316_RESET_REG00 0x03 of (ret, b) \<Rightarrow> (ret, s\<lparr>e6_bus := b\<rparr>))"

subsection \<open>Speaker and headphones\<close>

abbreviation (input) ES8316_CODEC_SET_SPK :: nat where "ES8316_CODEC_SET_SPK \<equiv> 1"
abbreviation (input) ES8316_CODEC_SET_HP :: nat where "ES8316_CODEC_SET_HP \<equiv> 2"

definition es8316_set_gpio :: "'b soc_io \<Rightarrow> nat \<Rightarrow> bool \<Rightarrow> 'b es8316_chip \<Rightarrow> int \<times> 'b es8316_chip" where
  "es8316_set_gpio io gpio level s =
     (0, if gpio AND ES8316_CODEC_SET_SPK \<noteq> 0 \<and> e6_spk_ctl_gpio s \<noteq> INVALID_GPIO
         then s\<lparr>e6_bus := io_gpio_set io (e6_bus s) (e6_spk_ctl_gpio s) level\<rparr> else s)"

abbreviation (input) IRQ_HANDLED :: int where "IRQ_HANDLED \<equiv> 1"

definition e6_gpio_get :: "'b soc_io \<Rightarrow> int \<Rightarrow> 'b es8316_chip \<Rightarrow> bool \<times> 'b es8316_chip" where
  "e6_gpio_get io p s = (case io_gpio_get io (e6_bus s) p of (l, b) \<Rightarrow> (l, s\<lparr>e6_bus := b\<rparr>))"

text \<open>When the interrupt type cannot be set the handler returns without enabling the interrupt.\<close>

definition es8316_hp_det_irq_handler :: "'b soc_io \<Rightarrow> int \<Rightarrow> 'b es8316_chip \<Rightarrow> int \<times> 'b es8316_chip" where
  "es8316_hp_det_irq_handler io irq s =
     (let s = s\<lparr>e6_irq_depth := e6_irq_depth s + 1\<rparr>;
          (det, s) = e6_gpio_get io (e6_hp_det_gpio s) s;
          (ret, b) = io_irq_type io (e6_bus s) irq det;
          s = s\<lparr>e6_bus := b\<rparr>
      in if ret < 0 then (- 1, s)
         else let (det, s) = e6_gpio_get io (e6_hp_det_gpio s) s;
                  s = s\<lparr>hp_irq_flag := (e6_hp_det_level s = det)\<rparr>;
                  s = (if mute_flag s = 0 then
                         let (det, s) = e6_gpio_get io (e6_hp_det_gpio s) s
                         in if e6_hp_det_level s = det
                            then snd (es8316_set_gpio io ES8316_CODEC_SET_SPK (\<not> e6_spk_gpio_level s) s)
                            else snd (es8316_set_gpio io ES8316_CODEC_SET_SPK (e6_spk_gpio_level s) s)
                       else s)
              in (IRQ_HANDLED, s\<lparr>e6_irq_depth := e6_irq_depth s - 1\<rparr>))"

subsection \<open>DAI operations\<close>

record e6_coeff_div =
  e6_mclk :: u32
  e6_rate :: u32
  e6_div :: u8
  e6_lrck_h :: u8
  e6_lrck_l :: u8
  e6_sr :: u8
  e6_osr :: u8

definition coeff6 :: "u32 \<Rightarrow> u32 \<Rightarrow> u8 \<Rightarrow> u8 \<Rightarrow> u8 \<Rightarrow> u8 \<Rightarrow> u8 \<Rightarrow> e6_coeff_div" where
  "coeff6 m r d h l sr osr =
     \<lparr>e6_mclk = m, e6_rate = r, e6_div = d, e6_lrck_h = h, e6_lrck_l = l, e6_sr = sr, e6_osr = osr\<rparr>"

definition es8316_coeff_div :: "e6_coeff_div list" where
  "es8316_coeff_div =
     [coeff6 12288000 8000 6 0x06 0x00 21 32, coeff6 11289600 8000 6 0x05 0x83 20 29,
      coeff6 18432000 8000 9 0x09 0x00 27 32, coeff6 16934400 8000 8 0x08 0x44 25 33,
      coeff6 12000000 8000 7 0x05 0xdc 21 25, coeff6 19200000 8000 12 0x09 0x60 27 25,
      coeff6 11289600 11025 4 0x04 0x00 16 32, coeff6 16934400 11025 6 0x06 0x00 21 32,
      coeff6 12000000 11025 4 0x04 0x40 17 34, coeff6 12288000 16000 3 0x03 0x00 12 32,
      coeff6 18432000 16000 5 0x04 0x80 18 25, coeff6 12000000 16000 3 0x02 0xee 12 31,
      coeff6 19200000 16000 6 0x04 0xb0 18 25, coeff6 11289600 22050 2 0x02 0x00 8 32,
      coeff6 16934400 22050 3 0x03 0x00 12 32, coeff6 12000000 22050 2 0x02 0x20 8 34,
      coeff6 12288000 32000 1 0x01 0x80 6 48, coeff6 18432000 32000 2 0x02 0x40 9 32,
      coeff6 12000000 32000 1 0x01 0x77 6 31, coeff6 19200000 32000 3 0x02 0x58 10 25,
      coeff6 11289600 44100 1 0x01 0x00 4 32, coeff6 16934400 44100 1 0x01 0x80 6 32,
      coeff6 12000000 44100 1 0x01 0x10 4 34, coeff6 12288000 48000 1 0x01 0x00 4 32,
      coeff6 18432000 48000 1 0x01 0x80 6 32, coeff6 12000000 48000 1 0x00 0xfa 4 31,
      coeff6 19200000 48000 2 0x01 0x90 6 25, coeff6 11289600 88200 1 0x00 0x80 2 32,
      coeff6 16934400 88200 1 0x00 0xc0 3 48, coeff6 12000000 88200 1 0x00 0x88 2 34,
      coeff6 12288000 96000 1 0x00 0x80 2 32, coeff6 18432000 96000 1 0x00 0xc0 3 48,
      coeff6 12000000 96000 1 0x00 0x7d 1 31, coeff6 19200000 96000 1 0x00 0xc8 3 25]"

definition es8316_get_coeff :: "u32 \<Rightarrow> u32 \<Rightarrow> int" where
  "es8316_get_coeff mclk rate = coeff_search (map (\<lambda>c. (e6_mclk c, e6_rate c)) es8316_coeff_div) 0 mclk rate"

definition es8316_set_dai_sysclk :: "u32 \<Rightarrow> 'b es8316_chip \<Rightarrow> int \<times> 'b es8316_chip" where
  "es8316_set_dai_sysclk freq s =
     (if freq \<in> {11289600, 18432000, 22579200, 36864000}
      then (0, s\<lparr>e6_constraints := Some rates_112896, e6_sysclk := freq\<rparr>)
      else if freq \<in> {12288000, 19200000, 16934400, 24576000, 33868800}
      then (0, s\<lparr>e6_constraints := Some rates_12288, e6_sysclk := freq\<rparr>)
      else if freq \<in> {12000000, 24000000} then (0, s\<lparr>e6_constraints := Some rates_12, e6_sysclk := freq\<rparr>)
      else (- EINVAL, s))"

text \<open>The format bits of the two data interface registers, None for a format that is refused.\<close>

definition e6_fmt_bits :: "u32 \<Rightarrow> u8 \<Rightarrow> u8 option" where
  "e6_fmt_bits format w =
     (if format = SND_SOC_DAIFMT_I2S then Some (w AND 0xFC)
      else if format = SND_SOC_DAIFMT_RIGHT_J then None
      else if format = SND_SOC_DAIFMT_LEFT_J then Some (w AND 0xFC OR 0x01)
      else if format = SND_SOC_DAIFMT_DSP_A then Some (w AND 0xDC OR 0x03)
      else if format = SND_SOC_DAIFMT_DSP_B then Some (w AND 0xDC OR 0x23)
      else None)"

definition es8316_set_dai_fmt :: "'b soc_io \<Rightarrow> u32 \<Rightarrow> 'b es8316_chip \<Rightarrow> int \<times> 'b es8316_chip" where
  "es8316_set_dai_fmt io fmt s =
     (let (v, s) = e6_read io ES8316_IFACE s; iface = ucast v :: u8;
          (v, s) = e6_read io ES8316_ADC_IFACE s; adciface = ucast v :: u8;
          (v, s) = e6_read io ES8316_DAC_IFACE s; daciface = ucast v :: u8;
          master = fmt AND SND_SOC_DAIFMT_MASTER_MASK; format = fmt AND SND_SOC_DAIFMT_FORMAT_MASK;
          inv = fmt AND SND_SOC_DAIFMT_INV_MASK
      in if master \<notin> {SND_SOC_DAIFMT_CBM_CFM, SND_SOC_DAIFMT_CBS_CFS} then (- EINVAL, s)
         else let iface = (if master = SND_SOC_DAIFMT_CBM_CFM then iface OR 0x80 else iface AND 0x7F)
         in case (e6_fmt_bits format adciface, e6_fmt_bits format daciface) of
              (Some adciface, Some daciface) \<Rightarrow>
                if inv \<notin> {SND_SOC_DAIFMT_NB_NF, SND_SOC_DAIFMT_IB_IF, SND_SOC_DAIFMT_IB_NF, SND_SOC_DAIFMT_NB_IF}
                then (- EINVAL, s)
                else let iface = (if inv \<in> {SND_SOC_DAIFMT_IB_IF, SND_SOC_DAIFMT_IB_NF} then iface OR 0x20 else iface AND 0xDF);
                         adciface = (if inv \<in> {SND_SOC_DAIFMT_IB_IF, SND_SOC_DAIFMT_NB_IF} then adciface OR 0x20 else adciface AND 0xDF);
                         daciface = (if inv \<in> {SND_SOC_DAIFMT_IB_IF, SND_SOC_DAIFMT_NB_IF} then daciface OR 0x20 else daciface AND 0xDF)
                     in (0, e6_writes io [(ES8316_IFACE, ucast iface), (ES8316_ADC_IFACE, ucast adciface),
                                          (ES8316_DAC_IFACE, ucast daciface)] s)
            | _ \<Rightarrow> (- EINVAL, s))"

definition es8316_pcm_startup :: "'b soc_io \<Rightarrow> pcm_stream \<Rightarrow> 'b es8316_chip \<Rightarrow> int \<times> 'b es8316_chip" where
  "es8316_pcm_startup io st s =
     (let s = e6_writes io [(ES8316_RESET_REG00, 0xC0), (ES8316_SYS_PDN_REG0D, 0x00)] s;
          s = e6_update io ES8316_CLKMGR_CLKSW_REG01 (ES8316_CLKMGR_MCLK_DIV_MASK OR ES8316_CLKMGR_DAC_MCLK_MASK)
                (0 OR ES8316_CLKMGR_DAC_MCLK_MASK) s;
          s = s\<lparr>e6_pwr_count := e6_pwr_count s + 1\<rparr>;
          s = (if st = SNDRV_PCM_STREAM_PLAYBACK then
                 e6_update io ES8316_CLKMGR_CLKSW_REG01 (ES8316_CLKMGR_DAC_MCLK_MASK OR ES8316_CLKMGR_DAC_ANALOG_MASK)
                   (ES8316_CLKMGR_DAC_MCLK_MASK OR ES8316_CLKMGR_DAC_ANALOG_MASK)
                   (e6_writes io
                     [(ES8316_SYS_LP1_REG0E, 0x3F), (ES8316_SYS_LP2_REG0F, 0x1F), (ES8316_HPMIX_SWITCH_REG14, 0x88),
                      (ES8316_HPMIX_PDN_REG15, 0x00), (ES8316_HPMIX_VOL_REG16, 0xBB), (ES8316_CPHP_PDN2_REG1A, 0x10),
                      (ES8316_CPHP_LDOCTL_REG1B, 0x30), (ES8316_CPHP_PDN1_REG19, 0x02), (ES8316_DAC_PDN_REG2F, 0x00),
                      (ES8316_CPHP_OUTEN_REG17, 0x66)] s)
               else
                 e6_update io ES8316_CLKMGR_CLKSW_REG01 (ES8316_CLKMGR_ADC_MCLK_MASK OR ES8316_CLKMGR_ADC_ANALOG_MASK)
                   (ES8316_CLKMGR_ADC_MCLK_MASK OR ES8316_CLKMGR_ADC_ANALOG_MASK)
                   (e6_update io ES8316_ADC_PDN_LINSEL_REG22 0xC0 0x20 s))
      in (if e6_sysclk s = 0 then - EINVAL else 0, s))"

definition es8316_pcm_shutdown :: "'b soc_io \<Rightarrow> pcm_stream \<Rightarrow> 'b es8316_chip \<Rightarrow> 'b es8316_chip" where
  "es8316_pcm_shutdown io st s =
     (let s = (if st = SNDRV_PCM_STREAM_PLAYBACK then
                 e6_update io ES8316_CLKMGR_CLKSW_REG01 ES8316_CLKMGR_DAC_ANALOG_MASK 0
                   (e6_writes io
                     [(ES8316_CPHP_OUTEN_REG17, 0x00), (ES8316_DAC_PDN_REG2F, 0x11), (ES8316_CPHP_LDOCTL_REG1B, 0x03),
                      (ES8316_CPHP_PDN2_REG1A, 0x22), (ES8316_CPHP_PDN1_REG19, 0x06), (ES8316_HPMIX_SWITCH_REG14, 0x00),
                      (ES8316_HPMIX_PDN_REG15, 0x33), (ES8316_HPMIX_VOL_REG16, 0x00), (ES8316_SYS_PDN_REG0D, 0x00),
                      (ES8316_SYS_LP1_REG0E, 0xFF), (ES8316_SYS_LP2_REG0F, 0xFF)] s)
               else
                 e6_update io ES8316_CLKMGR_CLKSW_REG01 (ES8316_CLKMGR_ADC_MCLK_MASK OR ES8316_CLKMGR_ADC_ANALOG_MASK) 0
                   (e6_write io ES8316_ADC_PDN_LINSEL_REG22 0xc0 s));
          s = s\<lparr>e6_pwr_count := e6_pwr_count s - 1\<rparr>
      in if e6_pwr_count s \<noteq> 0 then s
         else e6_writes io [(ES8316_SYS_PDN_REG0D, 0x3F), (ES8316_CLKMGR_CLKSW_REG01, 0xF3)] s)"

text \<open>
  What the settings become for a table entry: oversampling, serial clock, and for the ADC
  and the DAC the divider with the high bits of the frame divider, and its low byte.
\<close>

record e6_dividers =
  d_osrate :: u16
  d_srate :: u16
  d_adcdiv :: u16
  d_adclrckdiv_l :: u16
  d_dacdiv :: u16
  d_daclrckdiv_l :: u16

definition es8316_dividers :: "e6_coeff_div \<Rightarrow> u16 \<Rightarrow> u16 \<Rightarrow> u16 \<Rightarrow> e6_dividers" where
  "es8316_dividers e srate adcdiv dacdiv =
     (let adclrckdiv_h = adcdiv AND 0xf0; daclrckdiv_h = dacdiv AND 0xf0;
          adcdiv = adcdiv AND 0x0f; dacdiv = dacdiv AND 0x0f;
          adcdiv = (adcdiv OR push_bit 4 (ucast (e6_div e))) AND 0xf0;
          adclrckdiv_h = (adclrckdiv_h OR ucast (e6_lrck_h e)) AND 0x0f;
          dacdiv = (dacdiv OR push_bit 4 (ucast (e6_div e))) AND 0xf0;
          daclrckdiv_h = (daclrckdiv_h OR ucast (e6_lrck_h e)) AND 0x0f
      in \<lparr>d_osrate = ucast (e6_osr e) AND 0x3f, d_srate = (srate OR ucast (e6_sr e)) AND 0x1f,
          d_adcdiv = adcdiv OR adclrckdiv_h, d_adclrckdiv_l = ucast (e6_lrck_l e),
          d_dacdiv = dacdiv OR daclrckdiv_h, d_daclrckdiv_l = ucast (e6_lrck_l e)\<rparr>)"

text \<open>
  The code computes these settings into local variables and returns; none of them is
  written to the chip, so the call does not occur below.
\<close>

definition es8316_size :: "int \<Rightarrow> u16" where
  "es8316_size fmt = (if fmt = SNDRV_PCM_FORMAT_S16_LE then 0x000C else if fmt = SNDRV_PCM_FORMAT_S20_3LE then 0x0004
     else if fmt = SNDRV_PCM_FORMAT_S32_LE then 0x0010 else 0)"

definition es8316_pcm_hw_params :: "'b soc_io \<Rightarrow> pcm_params \<Rightarrow> 'b es8316_chip \<Rightarrow> int \<times> 'b es8316_chip" where
  "es8316_pcm_hw_params io params s =
     (let (_, s) = e6_read io ES8316_CLKMGR_ADCOSR_REG03 s;
          (v, s) = e6_read io ES8316_CLKMGR_CLKSW_REG01 s; mclkdiv = ucast v AND 0x7f :: u16;
          (_, s) = e6_read io ES8316_SDP_MS_BCKDIV_REG09 s;
          (v, s) = e6_read io ES8316_SDP_ADCFMT_REG0A s; adciface = ucast v AND 0xE3 :: u16;
          (v, s) = e6_read io ES8316_SDP_DACFMT_REG0B s; daciface = ucast v AND 0xE3 :: u16;
          (_, s) = e6_read io ES8316_CLKMGR_ADCDIV1_REG04 s;
          (_, s) = e6_read io ES8316_CLKMGR_ADCDIV2_REG05 s;
          (_, s) = e6_read io ES8316_CLKMGR_DACDIV1_REG06 s;
          (_, s) = e6_read io ES8316_CLKMGR_DACDIV2_REG07 s;
          c = es8316_get_coeff (e6_sysclk s) (p_rate params);
          (c, mclkdiv) = (if c < 0 then (es8316_get_coeff (e6_sysclk s div 2) (p_rate params), mclkdiv OR 0x80)
                          else (c, mclkdiv))
      in if c < 0 then (c, s)
         else let adciface = adciface OR es8316_size (p_format params); daciface = daciface OR es8316_size (p_format params);
                  s = e6_update io ES8316_SDP_DACFMT_REG0B 0xe3 (ucast daciface) s;
                  s = e6_update io ES8316_SDP_ADCFMT_REG0A 0xe3 (ucast adciface) s;
                  s = e6_update io ES8316_CLKMGR_CLKSW_REG01 0x80 (ucast mclkdiv) s;
                  (_, s) = e6_read io ES8316_GPIO_FLAG s
              in (0, s))"

text \<open>\<open>active\<close> is the DAI's \<^verbatim>\<open>playback_active\<close>.\<close>

definition es8316_mute :: "'b soc_io \<Rightarrow> bool \<Rightarrow> u32 \<Rightarrow> 'b es8316_chip \<Rightarrow> int \<times> 'b es8316_chip" where
  "es8316_mute io active mute s =
     (let s = s\<lparr>mute_flag := ucast mute\<rparr>
      in (0, if mute \<noteq> 0 then
               e6_write io ES8316_DAC_SET1_REG30 0x20
                 (snd (es8316_set_gpio io ES8316_CODEC_SET_SPK (e6_spk_gpio_level s) s))
             else if active then
               (let s = e6_write io ES8316_DAC_SET1_REG30 0x00 s
                in if \<not> hp_irq_flag s then snd (es8316_set_gpio io ES8316_CODEC_SET_SPK (e6_spk_gpio_level s) s) else s)
             else s))"

subsection \<open>Codec operations\<close>

definition es8316_off_regs :: "(u32 \<times> u32) list" where
  "es8316_off_regs =
     [(ES8316_CPHP_OUTEN_REG17, 0x00), (ES8316_DAC_PDN_REG2F, 0x11), (ES8316_CPHP_LDOCTL_REG1B, 0x03),
      (ES8316_CPHP_PDN2_REG1A, 0x22), (ES8316_CPHP_PDN1_REG19, 0x06), (ES8316_HPMIX_SWITCH_REG14, 0x00),
      (ES8316_HPMIX_PDN_REG15, 0x33), (ES8316_HPMIX_VOL_REG16, 0x00), (ES8316_ADC_PDN_LINSEL_REG22, 0xC0),
      (ES8316_SYS_PDN_REG0D, 0x3F), (ES8316_SYS_LP1_REG0E, 0x3F), (ES8316_SYS_LP2_REG0F, 0x1F),
      (ES8316_RESET_REG00, 0x00)]"

definition es8316_set_bias_level :: "'b soc_io \<Rightarrow> bias_level \<Rightarrow> 'b es8316_chip \<Rightarrow> int \<times> 'b es8316_chip" where
  "es8316_set_bias_level io level s =
     (let s = (case level of BIAS_ON \<Rightarrow> s | BIAS_PREPARE \<Rightarrow> s | BIAS_STANDBY \<Rightarrow> s
                 | BIAS_OFF \<Rightarrow> e6_writes io es8316_off_regs s)
      in (0, s\<lparr>e6_bias := level\<rparr>))"

definition es8316_init_seq :: "(u32 \<times> u32) list" where
  "es8316_init_seq =
     [(ES8316_RESET_REG00, 0x3f), (ES8316_RESET_REG00, 0x00), (ES8316_SYS_VMIDSEL_REG0C, 0xFF),
      (ES8316_CLKMGR_CLKSEL_REG02, 0x08), (ES8316_CLKMGR_ADCOSR_REG03, 0x20), (ES8316_CLKMGR_ADCDIV1_REG04, 0x11),
      (ES8316_CLKMGR_ADCDIV2_REG05, 0x00), (ES8316_CLKMGR_DACDIV1_REG06, 0x11), (ES8316_CLKMGR_DACDIV2_REG07, 0x00),
      (ES8316_CLKMGR_CPDIV_REG08, 0x00), (ES8316_SDP_MS_BCKDIV_REG09, 0x04), (ES8316_CLKMGR_CLKSW_REG01, 0x7F),
      (ES8316_CAL_TYPE_REG1C, 0x0F), (ES8316_CAL_HPLIV_REG1E, 0x90), (ES8316_CAL_HPRIV_REG1F, 0x90),
      (ES8316_ADC_VOLUME_REG27, 0x00), (ES8316_ADC_PDN_LINSEL_REG22, 0xc0), (ES8316_ADC_D2SEPGA_REG24, 0x00),
      (ES8316_ADC_DMIC_REG25, 0x08), (ES8316_DAC_SET2_REG31, 0x20), (ES8316_DAC_SET3_REG32, 0x00),
      (ES8316_DAC_VOLL_REG33, 0x00), (ES8316_DAC_VOLR_REG34, 0x00), (ES8316_SDP_ADCFMT_REG0A, 0x00),
      (ES8316_SDP_DACFMT_REG0B, 0x00), (ES8316_SYS_VMIDLOW_REG10, 0x11), (ES8316_SYS_VSEL_REG11, 0xFC),
      (ES8316_SYS_REF_REG12, 0x28), (ES8316_SYS_LP1_REG0E, 0x04), (ES8316_SYS_LP2_REG0F, 0x0C),
      (ES8316_DAC_PDN_REG2F, 0x11), (ES8316_HPMIX_SEL_REG13, 0x00), (ES8316_HPMIX_SWITCH_REG14, 0x88),
      (ES8316_HPMIX_PDN_REG15, 0x00), (ES8316_HPMIX_VOL_REG16, 0xBB), (ES8316_CPHP_PDN2_REG1A, 0x10),
      (ES8316_CPHP_LDOCTL_REG1B, 0x30), (ES8316_CPHP_PDN1_REG19, 0x02), (ES8316_CPHP_ICAL_VOL_REG18, 0x00),
      (ES8316_GPIO_SEL_REG4D, 0x00), (ES8316_GPIO_DEBUNCE_INT_REG4E, 0x02), (ES8316_TESTMODE_REG50, 0xA0),
      (ES8316_TEST1_REG51, 0x00), (ES8316_TEST2_REG52, 0x00), (ES8316_SYS_PDN_REG0D, 0x00),
      (ES8316_RESET_REG00, 0xC0), (ES8316_ADC_PGAGAIN_REG23, 0x60), (ES8316_ADC_D2SEPGA_REG24, 0x01),
      (ES8316_ADC_DMIC_REG25, 0x08), (ES8316_ADC_ALC1_REG29, 0xcd), (ES8316_ADC_ALC2_REG2A, 0x08),
      (ES8316_ADC_ALC3_REG2B, 0xa0), (ES8316_ADC_ALC4_REG2C, 0x05), (ES8316_ADC_ALC5_REG2D, 0x06),
      (ES8316_ADC_ALC6_REG2E, 0x61)]"

definition es8316_init_regs :: "'b soc_io \<Rightarrow> 'b es8316_chip \<Rightarrow> int \<times> 'b es8316_chip" where
  "es8316_init_regs io s = (0, e6_writes io es8316_init_seq s)"

text \<open>The settings that probe and resume make after the initial ones: everything powered down.\<close>

definition es8316_idle_seq :: "(u32 \<times> u32) list" where
  "es8316_idle_seq =
     [(ES8316_CPHP_OUTEN_REG17, 0x00), (ES8316_DAC_PDN_REG2F, 0x11), (ES8316_CPHP_LDOCTL_REG1B, 0x03),
      (ES8316_CPHP_PDN2_REG1A, 0x22), (ES8316_CPHP_PDN1_REG19, 0x06), (ES8316_HPMIX_SWITCH_REG14, 0x00),
      (ES8316_HPMIX_PDN_REG15, 0x33), (ES8316_HPMIX_VOL_REG16, 0x00), (ES8316_SYS_PDN_REG0D, 0x3F),
      (ES8316_SYS_LP1_REG0E, 0xFF), (ES8316_SYS_LP2_REG0F, 0xFF), (ES8316_CLKMGR_CLKSW_REG01, 0xF3),
      (ES8316_ADC_PDN_LINSEL_REG22, 0xc0)]"

abbreviation (input) dmic_used :: u32 where "dmic_used \<equiv> 1"
abbreviation (input) amic_used :: u32 where "amic_used \<equiv> 0"

definition es8316_set_up :: "'b soc_io \<Rightarrow> 'b es8316_chip \<Rightarrow> 'b es8316_chip" where
  "es8316_set_up io s =
     (let s = snd (es8316_init_regs io s);
          s = e6_write io ES8316_GPIO_SEL_REG4D (if e6_dmic_amic s = dmic_used then 0x02 else 0x00) s;
          s = e6_write io ES8316_GPIO_DEBUNCE_INT_REG4E 0xf3 s;
          s = e6_writes io es8316_idle_seq s
      in s\<lparr>es8316_init_reg := True\<rparr>)"

definition es8316_suspend :: "'b es8316_chip \<Rightarrow> int \<times> 'b es8316_chip" where
  "es8316_suspend s = (0, s)"

definition es8316_resume :: "'b soc_io \<Rightarrow> 'b es8316_chip \<Rightarrow> int \<times> 'b es8316_chip" where
  "es8316_resume io s =
     (let s = snd (es8316_reset io s);
          (retv, s) = e6_read io ES8316_CLKMGR_ADCDIV2_REG05 s
      in (0, if retv = 0 then es8316_set_up io s else s))"

text \<open>\<open>cache_io\<close> is the result of \<^verbatim>\<open>snd_soc_codec_set_cache_io\<close>.\<close>

definition es8316_probe :: "'b soc_io \<Rightarrow> int \<Rightarrow> 'b es8316_chip \<Rightarrow> int \<times> 'b es8316_chip" where
  "es8316_probe io cache_io s =
     (if cache_io < 0 then (cache_io, s)
      else let (retv, s) = e6_read io ES8316_CLKMGR_ADCDIV2_REG05 s
      in (cache_io,
          if retv = 0 then
            (let s = snd (es8316_reset io s);
                 (retv, s) = e6_read io ES8316_CLKMGR_ADCDIV2_REG05 s
             in if retv = 0 then es8316_set_up io s else s)
          else s))"

definition es8316_remove :: "'b soc_io \<Rightarrow> 'b es8316_chip \<Rightarrow> int \<times> 'b es8316_chip" where
  "es8316_remove io s = (0, snd (es8316_set_bias_level io BIAS_OFF s))"

text \<open>
  Shutdown takes the chip structure from the client by \<^verbatim>\<open>container_of\<close> although the
  structure holds a pointer to the client, not the client: whatever is read through the
  result is undefined (None). It gets there only if the global codec pointer is set.
\<close>

definition es8316_i2c_shutdown :: "'b es8316_chip \<Rightarrow> 'b es8316_chip option" where
  "es8316_i2c_shutdown s = (if \<not> es8316_codec s then Some s else None)"

subsection \<open>Set-up\<close>

text \<open>
  The function ends without a return statement: its result is a number only when the
  request for the detection pin fails. The other requests' results are ignored.
\<close>

definition es8316_gpio_setup :: "'b soc_io \<Rightarrow> gpio_dt \<Rightarrow> 'b es8316_chip \<Rightarrow> int option \<times> 'b es8316_chip" where
  "es8316_gpio_setup io dt s =
     (let s = s\<lparr>e6_spk_ctl_gpio := gd_gpio dt SPK_CON\<rparr>;
          s = (if e6_spk_ctl_gpio s < 0 then s\<lparr>e6_spk_ctl_gpio := INVALID_GPIO\<rparr>
               else let s = s\<lparr>e6_spk_gpio_level := \<not> gd_active_low dt SPK_CON\<rparr>
                    in s\<lparr>e6_bus := io_gpio_out io (e6_bus s) (e6_spk_ctl_gpio s) (\<not> e6_spk_gpio_level s)\<rparr>);
          s = s\<lparr>e6_hp_ctl_gpio := gd_gpio dt HP_CON\<rparr>;
          s = (if e6_hp_ctl_gpio s < 0 then s\<lparr>e6_hp_ctl_gpio := INVALID_GPIO\<rparr>
               else let s = s\<lparr>e6_hp_gpio_level := \<not> gd_active_low dt HP_CON\<rparr>
                    in s\<lparr>e6_bus := io_gpio_out io (e6_bus s) (e6_hp_ctl_gpio s) (\<not> e6_hp_gpio_level s)\<rparr>);
          s = s\<lparr>e6_hp_det_gpio := gd_gpio dt HP_DET\<rparr>
      in if e6_hp_det_gpio s < 0 then (None, s\<lparr>e6_hp_det_gpio := INVALID_GPIO\<rparr>)
         else let s = s\<lparr>e6_hp_det_level := \<not> gd_active_low dt HP_DET\<rparr>
              in if gd_request dt HP_DET \<noteq> 0 then (Some (gd_request dt HP_DET), s)
                 else (None, s\<lparr>e6_bus := io_gpio_in io (e6_bus s) (e6_hp_det_gpio s)\<rparr>))"

text \<open>The result of the GPIO set-up is only printed, the one of the interrupt request as well.\<close>

definition es8316_i2c_probe ::
  "'b soc_io \<Rightarrow> bool \<Rightarrow> bool \<Rightarrow> gpio_dt \<Rightarrow> int \<Rightarrow> 'b es8316_chip \<Rightarrow> int \<times> 'b es8316_chip" where
  "es8316_i2c_probe io functional memory dt register s =
     (if \<not> functional then (- EIO, s) else if \<not> memory then (- ENOMEM, s)
      else let s = s\<lparr>e6_dmic_amic := amic_used, e6_sysclk := 0, e6_constraints := None, e6_spk_ctl_gpio := 0,
                      e6_hp_ctl_gpio := 0, e6_hp_det_gpio := 0, e6_spk_gpio_level := False, e6_hp_gpio_level := False,
                      e6_hp_det_level := False, e6_pwr_count := 0\<rparr>
           in (register, snd (es8316_gpio_setup io dt s)))"

subsection \<open>Removal of the I2C device\<close>

text \<open>The chip structure belongs to the device, which frees it after the removal; the removal frees it as well.\<close>

datatype remove_event = Unregister_codec | Free_chip

definition es8316_i2c_remove :: "int \<times> remove_event list" where
  "es8316_i2c_remove = (0, [Unregister_codec, Free_chip])"

end
