(* ===== verification/Rk_Cards.thy ===== *)
theory Rk_Cards
  imports Es8323 Es8316 Rk_I2s
begin

text \<open>
  The two sound cards (\<^verbatim>\<open>rk3288/debug/codec/rk_es8323.c\<close>, \<^verbatim>\<open>rk_es8316.c\<close>): they join the I2S
  controller and a codec. A card's state is the pair of both chips. What a card needs of its
  codec is the locale \<open>codec_dai\<close>, which both codec models meet. Device-tree nodes and the
  registration of the card are parameters.
\<close>

subsection \<open>Device tree\<close>

text \<open>A child of the \<^verbatim>\<open>dais\<close> node: the format the core parses from it, and the two phandles.\<close>

record 'n dai_node =
  dn_fmt :: u32
  dn_codec :: "'n option"
  dn_controller :: "'n option"

record 'n dai_link =
  dl_fmt :: u32
  dl_codec :: "'n option"
  dl_cpu :: "'n option"
  dl_platform :: "'n option"

text \<open>
  The loop over the children, with the number of links filled so far. Writing a link that
  the card does not have is out of bounds (None).
\<close>

fun parse_dais :: "'n dai_node list \<Rightarrow> nat \<Rightarrow> 'n dai_link list \<Rightarrow> (int \<times> nat \<times> 'n dai_link list) option" where
  "parse_dais [] n links = Some (0, n, links)"
| "parse_dais (d # ds) n links =
     (if length links \<le> n then None
      else let links = links[n := (links ! n)\<lparr>dl_fmt := dn_fmt d\<rparr>]
      in if dl_fmt (links ! n) AND SND_SOC_DAIFMT_MASTER_MASK = 0 then Some (- EINVAL, n, links)
      else let links = links[n := (links ! n)\<lparr>dl_codec := dn_codec d\<rparr>]
      in if dl_codec (links ! n) = None then Some (- EINVAL, n, links)
      else let links = links[n := (links ! n)\<lparr>dl_cpu := dn_controller d\<rparr>]
      in if dl_cpu (links ! n) = None then Some (- EINVAL, n, links)
      else let links = links[n := (links ! n)\<lparr>dl_platform := dl_cpu (links ! n)\<rparr>]
      in if length links \<le> n + 1 then Some (0, n + 1, links) else parse_dais ds (n + 1) links)"

definition parse_card_info_from_dt :: "'n dai_node list option \<Rightarrow> 'n dai_link list \<Rightarrow> (int \<times> 'n dai_link list) option" where
  "parse_card_info_from_dt dais links =
     (case dais of None \<Rightarrow> Some (- EINVAL, links)
      | Some ds \<Rightarrow> do { (ret, n, links) \<leftarrow> parse_dais ds 0 links;
          Some (if ret \<noteq> 0 then ret else if n < length links then - EINVAL else 0, links) })"

text \<open>\<open>register\<close> is the result of \<^verbatim>\<open>snd_soc_register_card\<close>; the flag says whether it was called.\<close>

definition rockchip_audio_probe :: "'n dai_node list option \<Rightarrow> int \<Rightarrow> 'n dai_link list \<Rightarrow> (int \<times> bool \<times> 'n dai_link list) option" where
  "rockchip_audio_probe dais register links =
     do { (ret, links) \<leftarrow> parse_card_info_from_dt dais links;
          Some (if ret \<noteq> 0 then (ret, False, links) else (register, True, links)) }"

subsection \<open>Clocks\<close>

definition pll_for_rate :: "u32 \<Rightarrow> u32 option" where
  "pll_for_rate rate =
     (if rate \<in> {8000, 16000, 24000, 32000, 48000} then Some 12288000
      else if rate \<in> {11025, 22050, 44100} then Some 11289600 else None)"

text \<open>
  The clock set-up of a card whose controller drives the clocks. The results of the calls
  are ignored; a division by a rate of zero is undefined; the unsigned quotient less one is
  passed as an int.
\<close>

definition card_clocks ::
  "'d regmap_ops \<Rightarrow> (u32 \<Rightarrow> 'd \<Rightarrow> int \<times> 'd) \<Rightarrow> u32 \<Rightarrow> u32 \<Rightarrow> u32 \<Rightarrow> 'd rk_i2s_dev \<Rightarrow> 'd rk_i2s_dev option" where
  "card_clocks rm clk fmt pll rate i =
     (if fmt AND SND_SOC_DAIFMT_MASTER_MASK = SND_SOC_DAIFMT_CBS_CFS then
        do { i \<leftarrow> Some (snd (rockchip_i2s_set_sysclk clk pll i));
             n \<leftarrow> (if rate = 0 then None else Some (sint ((pll div 4) div rate - 1)));
             (_, i) \<leftarrow> rockchip_i2s_set_clkdiv rm ROCKCHIP_DIV_BCLK n i;
             (_, i) \<leftarrow> rockchip_i2s_set_clkdiv rm ROCKCHIP_DIV_MCLK 3 i;
             Some i }
      else Some i)"

subsection \<open>Stream parameters\<close>

text \<open>
  \<open>set_fmt\<close> is the codec's format operation, which the core calls for the codec DAI. The
  final log line divides by the rate.
\<close>

definition rk_es8323_hw_params ::
  "(u32 \<Rightarrow> 'c \<Rightarrow> int \<times> 'c) \<Rightarrow> 'd regmap_ops \<Rightarrow> (u32 \<Rightarrow> 'd \<Rightarrow> int \<times> 'd) \<Rightarrow> u32 \<Rightarrow> u32 \<Rightarrow>
   'c \<times> 'd rk_i2s_dev \<Rightarrow> (int \<times> 'c \<times> 'd rk_i2s_dev) option" where
  "rk_es8323_hw_params set_fmt rm clk fmt rate ci =
     (let (c, i) = ci; (ret, c) = set_fmt fmt c
      in if ret < 0 then Some (ret, c, i)
         else do { (ret, i) \<leftarrow> rockchip_i2s_set_fmt rm fmt i;
                   (if ret < 0 then Some (ret, c, i)
                    else let (ret, pll) = (case pll_for_rate rate of Some p \<Rightarrow> (ret, p) | None \<Rightarrow> (- 1, 0))
                         in do { i \<leftarrow> card_clocks rm clk fmt pll rate i;
                                 (if rate = 0 then None else Some (ret, c, i)) }) })"

definition rk_es8316_hw_params ::
  "(u32 \<Rightarrow> 'c \<Rightarrow> int \<times> 'c) \<Rightarrow> 'd regmap_ops \<Rightarrow> (u32 \<Rightarrow> 'd \<Rightarrow> int \<times> 'd) \<Rightarrow> u32 \<Rightarrow> u32 \<Rightarrow>
   'c \<times> 'd rk_i2s_dev \<Rightarrow> (int \<times> 'c \<times> 'd rk_i2s_dev) option" where
  "rk_es8316_hw_params set_fmt rm clk fmt rate ci =
     (let (c, i) = ci; (ret, c) = set_fmt fmt c
      in if ret < 0 then Some (ret, c, i)
         else do { (ret, i) \<leftarrow> rockchip_i2s_set_fmt rm fmt i;
                   (if ret < 0 then Some (ret, c, i)
                    else case pll_for_rate rate of None \<Rightarrow> Some (- EINVAL, c, i)
                         | Some pll \<Rightarrow> do { i \<leftarrow> card_clocks rm clk fmt pll rate i; Some (0, c, i) }) })"

subsection \<open>Codec clock\<close>

definition rk3288_es8323_init :: "'b es8323_chip \<Rightarrow> int \<times> 'b es8323_chip" where
  "rk3288_es8323_init c = es8323_set_dai_sysclk 11289600 c"

definition rk3288_es8316_init :: "'b es8316_chip \<Rightarrow> int \<times> 'b es8316_chip" where
  "rk3288_es8316_init c =
     (let (ret, c) = es8316_set_dai_sysclk 11289600 c in (if ret < 0 then ret else 0, c))"

end
