(* ===== verification/Es8323_Correct.thy ===== *)
theory Es8323_Correct
  imports Es8323
begin

text \<open>
  What the ES8323 operations do to the chip and to the register cache, on a working bus:
  the cache holds what the chip holds for every register written so far, and the effect of
  each operation on registers, pins and the other fields.
\<close>

subsection \<open>Byte values\<close>

lemma fits_or: "fits m a \<Longrightarrow> fits m b \<Longrightarrow> fits m (a OR b)"
  by (simp add: fits_def bit.conj_disj_distrib2)

lemma fits_and_mask: "m AND k = k \<Longrightarrow> fits m (w AND k :: u32)"
proof (rule fitsI)
  fix n assume k: "m AND k = k" and n: "n < LENGTH(32)" and b: "bit (w AND k) n"
  have "bit (m AND k) n = bit k n" by (simp only: k)
  then show "bit m n" using b n by (simp add: bit_simps)
qed

lemma fits_byte_ucast: "fits 0xff (ucast (b :: u8) :: u32)"
  by (rule fitsI) (auto simp: bit_byte bit_simps dest: bit_imp_le_length)

lemma ucast_byte: "fits 0xff (v :: u32) \<Longrightarrow> (ucast (ucast v :: u8) :: u16) = ucast v"
proof (rule bit_word_eqI)
  fix n assume v: "fits 0xff v" and n: "n < LENGTH(16)"
  have "bit v n \<Longrightarrow> n < 8" using fits_bitD [OF v, of n] by (simp add: bit_byte)
  then show "bit (ucast (ucast v :: u8) :: u16) n = bit (ucast v :: u16) n" using n by (auto simp: bit_simps)
qed

lemma ucast_low_byte: "(ucast (v AND 0xff :: u32) :: u8) = ucast v"
proof (rule bit_word_eqI)
  fix n assume n: "n < LENGTH(8)"
  then show "bit (ucast (v AND 0xff :: u32) :: u8) n = bit (ucast v :: u8) n"
    by (auto simp: bit_simps bit_byte)
qed

subsection \<open>Fields a write leaves alone\<close>

lemma es8323_write_frame [simp]:
  "ec_sysclk (snd (es8323_write io r v s)) = ec_sysclk s" "ec_constraints (snd (es8323_write io r v s)) = ec_constraints s"
  "spk_ctl_gpio (snd (es8323_write io r v s)) = spk_ctl_gpio s" "hp_ctl_gpio (snd (es8323_write io r v s)) = hp_ctl_gpio s"
  "hp_det_gpio (snd (es8323_write io r v s)) = hp_det_gpio s"
  "spk_gpio_level (snd (es8323_write io r v s)) = spk_gpio_level s"
  "hp_gpio_level (snd (es8323_write io r v s)) = hp_gpio_level s"
  "hp_det_level (snd (es8323_write io r v s)) = hp_det_level s"
  "ec_irq_depth (snd (es8323_write io r v s)) = ec_irq_depth s" "g_jack_new (snd (es8323_write io r v s)) = g_jack_new s"
  by (simp_all add: es8323_write_def Let_def split: prod.splits)

lemma es8323_writes_simps [simp]:
  "es8323_writes io [] s = s" "es8323_writes io ((r, v) # ws) s = es8323_writes io ws (snd (es8323_write io r v s))"
  by (simp_all add: es8323_writes_def)

lemma es8323_writes_field:
  assumes "\<And>r v s. f (snd (es8323_write io r v s)) = f s"
  shows "f (es8323_writes io ws s) = f s"
proof (induction ws arbitrary: s)
  case (Cons w ws) then show ?case by (cases w) (simp add: assms)
qed simp

lemma es8323_writes_frame [simp]:
  "ec_sysclk (es8323_writes io ws s) = ec_sysclk s" "ec_constraints (es8323_writes io ws s) = ec_constraints s"
  "spk_ctl_gpio (es8323_writes io ws s) = spk_ctl_gpio s" "hp_ctl_gpio (es8323_writes io ws s) = hp_ctl_gpio s"
  "hp_det_gpio (es8323_writes io ws s) = hp_det_gpio s" "spk_gpio_level (es8323_writes io ws s) = spk_gpio_level s"
  "hp_gpio_level (es8323_writes io ws s) = hp_gpio_level s" "hp_det_level (es8323_writes io ws s) = hp_det_level s"
  "ec_irq_depth (es8323_writes io ws s) = ec_irq_depth s" "g_jack_new (es8323_writes io ws s) = g_jack_new s"
  by (rule es8323_writes_field, simp)+

lemma es8323_gpio_set_frame [simp]:
  "ec_reg (es8323_gpio_set io p l s) = ec_reg s" "hp_ctl_gpio (es8323_gpio_set io p l s) = hp_ctl_gpio s"
  "hp_gpio_level (es8323_gpio_set io p l s) = hp_gpio_level s" "spk_ctl_gpio (es8323_gpio_set io p l s) = spk_ctl_gpio s"
  "spk_gpio_level (es8323_gpio_set io p l s) = spk_gpio_level s" "g_jack_new (es8323_gpio_set io p l s) = g_jack_new s"
  "ec_irq_depth (es8323_gpio_set io p l s) = ec_irq_depth s" "hp_det_gpio (es8323_gpio_set io p l s) = hp_det_gpio s"
  "hp_det_level (es8323_gpio_set io p l s) = hp_det_level s" "ec_sysclk (es8323_gpio_set io p l s) = ec_sysclk s"
  "ec_bus (es8323_gpio_set io p l s) = io_gpio_set io (ec_bus s) p l"
  by (simp_all add: es8323_gpio_set_def)

subsection \<open>Cache and chip\<close>

text \<open>The cache is complete, and agrees with the chip on the registers of a set.\<close>

definition es8323_coherent :: "('b \<Rightarrow> u8 \<Rightarrow> u8) \<Rightarrow> nat set \<Rightarrow> 'b es8323_chip \<Rightarrow> bool" where
  "es8323_coherent dev R s \<longleftrightarrow> length (ec_reg s) = 56 \<and> R \<subseteq> {..<56} \<and>
     (\<forall>r \<in> R. ec_reg s ! r = ucast (dev (ec_bus s) (word_of_nat r)))"

abbreviation (input) es8323_write_ok :: "u32 \<times> u32 \<Rightarrow> bool" where
  "es8323_write_ok w \<equiv> fst w < 56 \<and> fits 0xff (snd w)"

context codec_bus
begin

lemma es8323_write_chip:
  "ec_reg (snd (es8323_write io r v s)) = (ec_reg s)[unat r := ucast v]"
  "dev (ec_bus (snd (es8323_write io r v s))) = (dev (ec_bus s))(ucast r := ucast v)"
  "pin (ec_bus (snd (es8323_write io r v s))) = pin (ec_bus s)"
  "fst (es8323_write io r v s) = 0"
proof -
  have "ucast (v AND 255) = (ucast v :: u8)" by (rule ucast_low_byte)
  with send [of "ec_bus s" "ucast r" "ucast (v AND 0xff)"]
  show "ec_reg (snd (es8323_write io r v s)) = (ec_reg s)[unat r := ucast v]"
    "dev (ec_bus (snd (es8323_write io r v s))) = (dev (ec_bus s))(ucast r := ucast v)"
    "pin (ec_bus (snd (es8323_write io r v s))) = pin (ec_bus s)" "fst (es8323_write io r v s) = 0"
    by (auto simp: es8323_write_def Let_def list_update_beyond)
qed

lemma es8323_writes_pin [simp]: "pin (ec_bus (es8323_writes io ws s)) = pin (ec_bus s)"
  by (rule es8323_writes_field) (simp add: es8323_write_chip)

lemma coherent_write:
  assumes "es8323_coherent dev R s" "r < 56" "fits 0xff v"
  shows "es8323_coherent dev (insert (unat r) R) (snd (es8323_write io r v s))"
proof -
  have r: "unat r < 56" using assms(2) by (simp add: word_less_nat_alt)
  have inj: "(word_of_nat k :: u8) = ucast r \<longleftrightarrow> k = unat r" if "k < 56" for k
  proof -
    have "(word_of_nat k :: u8) = ucast r \<longleftrightarrow> unat (word_of_nat k :: u8) = unat (ucast r :: u8)"
      by (simp add: word_unat_eq_iff)
    then show ?thesis using that r by (simp add: unat_of_nat unsigned_ucast_eq take_bit_nat_eq_self)
  qed
  show ?thesis using assms r
    by (auto simp: es8323_coherent_def es8323_write_chip inj ucast_byte nth_list_update)
qed

lemma coherent_writes:
  assumes "es8323_coherent dev R s" "list_all es8323_write_ok ws"
  shows "es8323_coherent dev (R \<union> (unat \<circ> fst) ` set ws) (es8323_writes io ws s)"
  using assms
proof (induction ws arbitrary: s R)
  case (Cons w ws)
  obtain r v where w: "w = (r, v)" by (cases w)
  have "es8323_coherent dev (insert (unat r) R \<union> (unat \<circ> fst) ` set ws)
      (es8323_writes io ws (snd (es8323_write io r v s)))"
    using Cons.prems w by (intro Cons.IH coherent_write) auto
  then show ?case using w by simp
qed simp

lemma coherent_mono: "es8323_coherent dev R s \<Longrightarrow> R' \<subseteq> R \<Longrightarrow> es8323_coherent dev R' s"
  by (auto simp: es8323_coherent_def)

lemma coherent_writes_same:
  "es8323_coherent dev R s \<Longrightarrow> list_all es8323_write_ok ws \<Longrightarrow> es8323_coherent dev R (es8323_writes io ws s)"
  by (rule coherent_mono [OF coherent_writes]) auto

lemma coherent_gpio [simp]: "es8323_coherent dev R (es8323_gpio_set io p l s) = es8323_coherent dev R s"
  by (simp add: es8323_coherent_def dev_quiet)

lemma coherent_same_bus:
  "ec_reg s' = ec_reg s \<Longrightarrow> dev (ec_bus s') = dev (ec_bus s) \<Longrightarrow> es8323_coherent dev R s' = es8323_coherent dev R s"
  by (simp add: es8323_coherent_def)

lemma cache_read:
  assumes "es8323_coherent dev R s" "unat r \<in> R"
  shows "es8323_read_reg_cache s r = ucast (dev (ec_bus s) (ucast r))"
proof -
  have "unat r < 56" "ec_reg s ! unat r = ucast (dev (ec_bus s) (word_of_nat (unat r)))" "length (ec_reg s) = 56"
    using assms by (auto simp: es8323_coherent_def)
  then show ?thesis
    by (simp add: es8323_read_reg_cache_def) (rule bit_word_eqI, auto simp: bit_simps dest: bit_imp_le_length)
qed

end

subsection \<open>Calls\<close>

datatype es8323_call =
    C_hw_params pcm_params
  | C_set_fmt u32
  | C_set_sysclk u32
  | C_mute bool
  | C_bias bias_level
  | C_detect_irq
  | C_detect_work int

fun es8323_do :: "'b codec_io \<Rightarrow> es8323_call \<Rightarrow> 'b es8323_chip \<Rightarrow> 'b es8323_chip option" where
  "es8323_do io (C_hw_params p) s = map_option snd (es8323_pcm_hw_params io p s)"
| "es8323_do io (C_set_fmt f) s = Some (snd (es8323_set_dai_fmt io f s))"
| "es8323_do io (C_set_sysclk f) s = Some (snd (es8323_set_dai_sysclk f s))"
| "es8323_do io (C_mute m) s = Some (snd (es8323_mute io m s))"
| "es8323_do io (C_bias l) s = Some (snd (es8323_set_bias_level io l s))"
| "es8323_do io C_detect_irq s = Some (es8323_hp_det_irq_handler s)"
| "es8323_do io (C_detect_work irq) s = Some (hp_detect_work io irq s)"

fun es8323_run :: "'b codec_io \<Rightarrow> es8323_call list \<Rightarrow> 'b es8323_chip \<Rightarrow> 'b es8323_chip option" where
  "es8323_run io [] s = Some s"
| "es8323_run io (c # cs) s = do { s \<leftarrow> es8323_do io c s; es8323_run io cs s }"

text \<open>The registers the probe writes, and with them every register an operation reads back.\<close>

definition es8323_known :: "nat set" where
  "es8323_known = insert 0 ((unat \<circ> fst) ` set es8323_probe_regs)"

text \<open>The coefficient found by the search.\<close>

lemma es8323_get_coeff_cases:
  obtains (missing) "es8323_get_coeff m r = - EINVAL" "\<forall>e \<in> set es8323_coeff_div. (cd_mclk e, cd_rate e) \<noteq> (m, r)"
  | (found) e where "0 \<le> es8323_get_coeff m r" "aref es8323_coeff_div (es8323_get_coeff m r) = Some e"
      "e \<in> set es8323_coeff_div" "cd_mclk e = m" "cd_rate e = r"
proof (cases "es8323_get_coeff m r = - EINVAL")
  case True
  then have "(m, r) \<notin> set (map (\<lambda>c. (cd_mclk c, cd_rate c)) es8323_coeff_div)"
    unfolding es8323_get_coeff_def by (rule coeff_search_missing) simp
  then show ?thesis using True missing by force
next
  case False
  let ?t = "map (\<lambda>c. (cd_mclk c, cd_rate c)) es8323_coeff_div" and ?i = "es8323_get_coeff m r"
  have i: "0 \<le> ?i" "?i < int (length es8323_coeff_div)" "?t ! nat ?i = (m, r)"
    using coeff_search_found [of 0 ?t m r] False by (auto simp: es8323_get_coeff_def)
  then have "nat ?i < length es8323_coeff_div" by linarith
  with i show ?thesis
    using found [of "es8323_coeff_div ! nat ?i"] by simp
qed

lemma es8323_coeff_bytes:
  "list_all (\<lambda>e. fits 0xff (cd_sr e OR push_bit 4 (cd_usb e))) es8323_coeff_div"
  by (simp add: es8323_coeff_div_def coeff_def fits_def)

lemma es8323_size_bytes: "fits 0xff (es8323_adc_size f)" "fits 0xff (es8323_dac_size f)"
  by (simp_all add: es8323_adc_size_def es8323_dac_size_def fits_def)

context codec_bus
begin

lemma hw_params_coherent:
  assumes "es8323_coherent dev R s"
  shows "\<exists>x s'. es8323_pcm_hw_params io p s = Some (x, s') \<and> es8323_coherent dev R s'"
proof -
  have b: "e \<in> set es8323_coeff_div \<Longrightarrow> fits 0xff (cd_sr e OR push_bit 4 (cd_usb e))" for e
    using es8323_coeff_bytes by (simp add: list_all_iff)
  have "fits 0xff (0x40 :: u32)" by (simp add: fits_def)
  note ok = this b es8323_size_bytes fits_or fits_and_mask
  show ?thesis
    by (rule es8323_get_coeff_cases [of "ec_sysclk s" "p_rate p"];
        rule es8323_get_coeff_cases [of "ec_sysclk s div 2" "p_rate p"])
      (auto simp: es8323_pcm_hw_params_def Let_def assms ok simp del: es8323_writes_simps
        intro!: coherent_writes_same [OF assms])
qed

lemma set_fmt_coherent: "es8323_coherent dev R s \<Longrightarrow> es8323_coherent dev R (snd (es8323_set_dai_fmt io f s))"
  by (auto simp: es8323_set_dai_fmt_def Let_def fits_byte_ucast simp del: es8323_writes_simps
      intro!: coherent_writes_same split: prod.splits)

lemma mute_coherent:
  assumes "es8323_coherent dev R s"
  shows "es8323_coherent dev R (snd (es8323_mute io m s))"
proof (cases m)
  case True
  have "es8323_coherent dev R (es8323_writes io [(ES8323_DACCONTROL3, 0x06)]
      (es8323_gpio_set io (hp_ctl_gpio s) (\<not> hp_gpio_level s) (es8323_gpio_set io (spk_ctl_gpio s) (\<not> spk_gpio_level s) s)))"
    by (rule coherent_writes_same) (simp_all add: assms fits_def)
  then show ?thesis using True by (simp add: es8323_mute_def Let_def)
next
  case False
  have "es8323_coherent dev R (es8323_writes io [(ES8323_DACCONTROL3, 0x02), (0x30, ES8323_DEF_VOL), (0x31, ES8323_DEF_VOL)] s)"
    by (rule coherent_writes_same) (simp_all add: assms fits_def)
  then show ?thesis using False
    by (simp add: es8323_mute_def Let_def gpio_get coherent_gpio coherent_same_bus [where s = "es8323_writes io ws s" for ws])
qed

lemma bias_coherent:
  assumes "es8323_coherent dev R s"
  shows "es8323_coherent dev R (snd (es8323_set_bias_level io l s))"
proof -
  have "es8323_coherent dev R (s'\<lparr>ec_bias := l\<rparr>)" if "es8323_coherent dev R s'" for s'
    using that by (simp add: coherent_same_bus [of "s'\<lparr>ec_bias := l\<rparr>" s'])
  with assms show ?thesis
    by (cases l) (simp_all add: es8323_set_bias_level_def Let_def fits_def coherent_writes_same del: es8323_writes_simps)
qed

lemma detect_work_simp:
  "ec_reg (hp_detect_work io irq s) = ec_reg s \<and> dev (ec_bus (hp_detect_work io irq s)) = dev (ec_bus s)"
  by (auto simp: hp_detect_work_def Let_def gpio_get dev_quiet split: prod.splits)
    (metis dev_quiet(4) snd_conv)+

lemma call_coherent:
  assumes "es8323_coherent dev R s"
  shows "\<exists>s'. es8323_do io c s = Some s' \<and> es8323_coherent dev R s'"
proof (cases c)
  case (C_hw_params p) then show ?thesis using hw_params_coherent [OF assms, of p] by auto
next
  case (C_set_fmt f) then show ?thesis using set_fmt_coherent [OF assms] by simp
next
  case (C_set_sysclk f) then show ?thesis
    using assms coherent_same_bus [of "snd (es8323_set_dai_sysclk f s)" s] by (auto simp: es8323_set_dai_sysclk_def)
next
  case (C_mute m) then show ?thesis using mute_coherent [OF assms] by simp
next
  case (C_bias l) then show ?thesis using bias_coherent [OF assms] by simp
next
  case C_detect_irq then show ?thesis
    using assms coherent_same_bus [of "es8323_hp_det_irq_handler s" s] by (simp add: es8323_hp_det_irq_handler_def)
next
  case (C_detect_work irq) then show ?thesis
    using assms coherent_same_bus [of "hp_detect_work io irq s" s] detect_work_simp by simp
qed

lemma run_coherent:
  "es8323_coherent dev R s \<Longrightarrow> \<exists>s'. es8323_run io cs s = Some s' \<and> es8323_coherent dev R s'"
proof (induction cs arbitrary: s)
  case (Cons c cs)
  then obtain s1 where "es8323_do io c s = Some s1" "es8323_coherent dev R s1" using call_coherent by blast
  with Cons.IH show ?case by simp
qed simp

lemma probe_coherent:
  assumes "length (ec_reg s) = 56"
  shows "es8323_coherent dev es8323_known (snd (es8323_probe io j s))"
proof -
  let ?s1 = "es8323_writes io [(ES8323_CONTROL1, 0x80), (ES8323_CONTROL1, 0x00)] s"
  have "es8323_coherent dev ({} \<union> (unat \<circ> fst) ` set [(ES8323_CONTROL1, 0x80 :: u32), (ES8323_CONTROL1, 0x00)]) ?s1"
    by (rule coherent_writes) (simp_all add: assms es8323_coherent_def fits_def)
  then have "es8323_coherent dev {0} ?s1" by simp
  moreover have "list_all es8323_write_ok es8323_probe_regs" by (simp add: es8323_probe_regs_def fits_def)
  ultimately have "es8323_coherent dev es8323_known (es8323_writes io es8323_probe_regs ?s1)"
    using coherent_writes [of "{0}"] by (simp add: es8323_known_def del: es8323_writes_simps)
  from bias_coherent [OF this, of BIAS_STANDBY] show ?thesis
    using coherent_same_bus [of "(snd (es8323_set_bias_level io BIAS_STANDBY (es8323_writes io es8323_probe_regs ?s1)))\<lparr>g_jack_new := True\<rparr>"
        "snd (es8323_set_bias_level io BIAS_STANDBY (es8323_writes io es8323_probe_regs ?s1))"]
    by (simp add: es8323_probe_def es8323_reset_def Let_def)
qed

end

end
