(* ===== verification/Es8323_Props.thy ===== *)
theory Es8323_Props
  imports Es8323_Correct
begin

text \<open>
  The properties of the ES8323 driver: register cache, stream parameters, amplifier pins,
  headphone detection.
\<close>

subsection \<open>Stream parameters\<close>

context codec_bus
begin

lemma hw_params_writes:
  assumes "es8323_coherent dev es8323_known s" "e \<in> set es8323_coeff_div"
    and c: "(c, x) = (if es8323_get_coeff (ec_sysclk s) (p_rate p) < 0
          then (es8323_get_coeff (ec_sysclk s div 2) (p_rate p), 0x40) else (es8323_get_coeff (ec_sysclk s) (p_rate p), 0))"
    and e: "0 \<le> c" "aref es8323_coeff_div c = Some e"
  shows "\<exists>s'. es8323_pcm_hw_params io p s = Some (0, s') \<and>
    dev (ec_bus s') 0x08 = (dev (ec_bus s) 0x08 AND 0x80) OR x \<and>
    dev (ec_bus s') 0x0c = (dev (ec_bus s) 0x0c AND 0xE3) OR ucast (es8323_adc_size (p_format p)) \<and>
    dev (ec_bus s') 0x17 = (dev (ec_bus s) 0x17 AND 0xC7) OR ucast (es8323_dac_size (p_format p)) \<and>
    dev (ec_bus s') 0x0d = ucast (cd_sr e OR push_bit 4 (cd_usb e)) \<and>
    dev (ec_bus s') 0x18 = ucast (cd_sr e OR push_bit 4 (cd_usb e)) \<and>
    (\<forall>r. r \<notin> {0x08, 0x0c, 0x17, 0x0d, 0x18} \<longrightarrow> dev (ec_bus s') r = dev (ec_bus s) r)"
proof -
  have k: "es8323_read_reg_cache s 0x08 = ucast (dev (ec_bus s) 0x08)"
    "es8323_read_reg_cache s 0x0c = ucast (dev (ec_bus s) 0x0c)" "es8323_read_reg_cache s 0x17 = ucast (dev (ec_bus s) 0x17)"
    using cache_read [OF assms(1), of 8] cache_read [OF assms(1), of "0xc"] cache_read [OF assms(1), of "0x17"]
    by (simp_all add: es8323_known_def es8323_probe_regs_def)
  have u: "(ucast ((ucast (b :: u8) AND m) OR v :: u32) :: u8) = (b AND ucast m) OR ucast v" for b m v
    by (rule bit_word_eqI) (auto simp: bit_simps)
  have u0: "(ucast (ucast (b :: u8) AND m :: u32) :: u8) = b AND ucast m" for b m
    by (rule bit_word_eqI) (auto simp: bit_simps)
  show ?thesis
    using c e by (auto simp: es8323_pcm_hw_params_def Let_def k es8323_write_chip u u0 split: if_splits)
qed

lemma hw_params_result:
  assumes "es8323_coherent dev es8323_known s"
  shows "\<exists>ret s'. es8323_pcm_hw_params io p s = Some (ret, s') \<and>
   (ret = 0 \<and>
    (\<exists>e \<in> set es8323_coeff_div. cd_rate e = p_rate p \<and>
       (cd_mclk e = ec_sysclk s \<and> \<not> bit (dev (ec_bus s') 0x08) 6 \<or> cd_mclk e = ec_sysclk s div 2 \<and> bit (dev (ec_bus s') 0x08) 6) \<and>
       dev (ec_bus s') 0x0d = ucast (cd_sr e OR push_bit 4 (cd_usb e)) \<and>
       dev (ec_bus s') 0x18 = ucast (cd_sr e OR push_bit 4 (cd_usb e))) \<and>
    dev (ec_bus s') 0x0c AND 0x1c = ucast (es8323_adc_size (p_format p)) \<and>
    dev (ec_bus s') 0x17 AND 0x38 = ucast (es8323_dac_size (p_format p)) \<and>
    bit (dev (ec_bus s') 0x08) 7 = bit (dev (ec_bus s) 0x08) 7 \<and> \<not> bit (dev (ec_bus s') 0x08) 5 \<and>
    (\<forall>r. r \<notin> {0x08, 0x0c, 0x17, 0x0d, 0x18} \<longrightarrow> dev (ec_bus s') r = dev (ec_bus s) r)
    \<or> ret = - EINVAL \<and> s' = s \<and>
      (\<forall>e \<in> set es8323_coeff_div. cd_rate e = p_rate p \<longrightarrow> cd_mclk e \<notin> {ec_sysclk s, ec_sysclk s div 2}))"
  (is "\<exists>ret s'. _ \<and> (?ok ret s' \<or> ?no ret s')")
proof -
  have sz: "(w AND 0xE3 OR ucast (es8323_adc_size f)) AND 0x1c = (ucast (es8323_adc_size f) :: u8)"
    "(w AND 0xC7 OR ucast (es8323_dac_size f)) AND 0x38 = (ucast (es8323_dac_size f) :: u8)" for w :: u8 and f
    by (simp_all add: es8323_adc_size_def es8323_dac_size_def bit.conj_disj_distrib2 and.assoc)
  have written: "\<exists>ret s'. es8323_pcm_hw_params io p s = Some (ret, s') \<and> ?ok ret s'"
    if e: "e \<in> set es8323_coeff_div" "cd_rate e = p_rate p" "0 \<le> c" "aref es8323_coeff_div c = Some e"
      and m: "x = 0 \<and> cd_mclk e = ec_sysclk s \<or> x = 0x40 \<and> cd_mclk e = ec_sysclk s div 2"
      and c: "(c, x) = (if es8323_get_coeff (ec_sysclk s) (p_rate p) < 0
          then (es8323_get_coeff (ec_sysclk s div 2) (p_rate p), 0x40) else (es8323_get_coeff (ec_sysclk s) (p_rate p), 0))"
    for e c and x :: u8
    using hw_params_writes [OF assms e(1) c e(3,4)] e(1,2) m
    by (auto simp: sz bit_or_iff bit_and_iff)
  show ?thesis
  proof (cases rule: es8323_get_coeff_cases [of "ec_sysclk s" "p_rate p"])
    case (found e)
    then show ?thesis using written [of e "es8323_get_coeff (ec_sysclk s) (p_rate p)" 0] by auto
  next
    case missing
    show ?thesis
    proof (cases rule: es8323_get_coeff_cases [of "ec_sysclk s div 2" "p_rate p"])
      case (found e)
      then show ?thesis using missing written [of e "es8323_get_coeff (ec_sysclk s div 2) (p_rate p)" "0x40"] by auto
    next
      case m2: missing
      then have "es8323_pcm_hw_params io p s = Some (- EINVAL, s)"
        using missing by (simp add: es8323_pcm_hw_params_def Let_def)
      then show ?thesis using missing m2 by (intro exI conjI) auto
    qed
  qed
qed

end

subsection \<open>Amplifier pins\<close>

text \<open>The headphone pin is inactive; the two control pins are different pins.\<close>

definition hp_off :: "('b \<Rightarrow> int \<Rightarrow> bool) \<Rightarrow> 'b es8323_chip \<Rightarrow> bool" where
  "hp_off pin s \<longleftrightarrow> spk_ctl_gpio s \<noteq> hp_ctl_gpio s \<and> pin (ec_bus s) (hp_ctl_gpio s) = (\<not> hp_gpio_level s)"

context codec_bus
begin

lemma hp_off_gpio [simp]:
  "hp_off pin s \<Longrightarrow> hp_off pin (es8323_gpio_set io (spk_ctl_gpio s) l s)"
  "spk_ctl_gpio s \<noteq> hp_ctl_gpio s \<Longrightarrow> hp_off pin (es8323_gpio_set io (hp_ctl_gpio s) (\<not> hp_gpio_level s) s)"
  by (auto simp: hp_off_def gpio_set)

lemma hp_off_frame:
  "pin (ec_bus s') = pin (ec_bus s) \<Longrightarrow> hp_ctl_gpio s' = hp_ctl_gpio s \<Longrightarrow> spk_ctl_gpio s' = spk_ctl_gpio s \<Longrightarrow>
   hp_gpio_level s' = hp_gpio_level s \<Longrightarrow> hp_off pin s' = hp_off pin s"
  by (simp add: hp_off_def)

lemma hp_off_writes [simp]: "hp_off pin (es8323_writes io ws s) = hp_off pin s"
  by (rule hp_off_frame) simp_all

lemma hp_off_write [simp]: "hp_off pin (snd (es8323_write io r v s)) = hp_off pin s"
  by (rule hp_off_frame) (simp_all add: es8323_write_chip)

lemma detect_hp_off:
  assumes "hp_off pin s" shows "hp_off pin (hp_detect_work io irq s)"
proof -
  obtain ret b where "io_irq_type io (ec_bus s) irq (pin (ec_bus s) (hp_det_gpio s)) = (ret, b)"
    by (cases "io_irq_type io (ec_bus s) irq (pin (ec_bus s) (hp_det_gpio s))")
  moreover from this have "pin b = pin (ec_bus s)" using irq_type [of "ec_bus s" irq "pin (ec_bus s) (hp_det_gpio s)"] by simp
  ultimately show ?thesis using assms
    by (auto simp: hp_detect_work_def Let_def gpio_get gpio_set jack hp_off_def)
qed

lemma call_hp_off:
  assumes "hp_off pin s" "es8323_do io c s = Some s'"
  shows "hp_off pin s'"
proof (cases c)
  case (C_hw_params p) then show ?thesis using assms
    by (auto simp: es8323_pcm_hw_params_def Let_def simp del: es8323_writes_simps split: if_splits bind_splits)
next
  case (C_set_fmt f) then show ?thesis using assms
    by (auto simp: es8323_set_dai_fmt_def Let_def case_prod_beta if_distrib [where f = snd]
        if_distrib [where f = "hp_off pin"] simp del: es8323_writes_simps)
next
  case (C_set_sysclk f) then show ?thesis using assms
    by (auto simp: es8323_set_dai_sysclk_def hp_off_def split: if_splits)
next
  case (C_mute m) then show ?thesis using assms
    by (cases m) (auto simp: es8323_mute_def Let_def gpio_get hp_off_def es8323_write_chip gpio_set split: if_splits)
next
  case (C_bias l) then show ?thesis using assms
    by (cases l) (auto simp: es8323_set_bias_level_def Let_def hp_off_def es8323_write_chip)
next
  case C_detect_irq then show ?thesis using assms by (auto simp: es8323_hp_det_irq_handler_def hp_off_def)
next
  case (C_detect_work irq) then show ?thesis using assms detect_hp_off by auto
qed

lemma run_hp_off: "hp_off pin s \<Longrightarrow> es8323_run io cs s = Some s' \<Longrightarrow> hp_off pin s'"
proof (induction cs arbitrary: s)
  case (Cons c cs)
  then obtain s1 where "es8323_do io c s = Some s1" "es8323_run io cs s1 = Some s'" by (auto split: bind_splits)
  with Cons show ?case using call_hp_off by blast
qed simp

lemma setup_hp_off:
  assumes "fst (es8323_gpio_setup io dt s) = 0" "0 \<le> gd_gpio dt HP_CON" "gd_gpio dt SPK_CON \<noteq> gd_gpio dt HP_CON"
  shows "hp_off pin (snd (es8323_gpio_setup io dt s))"
  using assms by (auto simp: es8323_gpio_setup_def Let_def hp_off_def gpio_out gpio_in)

text \<open>The wiring does not change after the set-up.\<close>

abbreviation (input) wiring :: "'b es8323_chip \<Rightarrow> (int \<times> bool) \<times> (int \<times> bool) \<times> (int \<times> bool)" where
  "wiring s \<equiv> ((hp_ctl_gpio s, hp_gpio_level s), (spk_ctl_gpio s, spk_gpio_level s), (hp_det_gpio s, hp_det_level s))"

lemma call_wiring:
  assumes "es8323_do io c s = Some s'"
  shows "wiring s' = wiring s"
proof (cases c)
  case (C_hw_params p) then show ?thesis using assms
    by (auto simp: es8323_pcm_hw_params_def Let_def simp del: es8323_writes_simps split: if_splits bind_splits)
next
  case (C_set_fmt f)
  then have "s' = snd (es8323_set_dai_fmt io f s)" using assms by simp
  then show ?thesis
    by (simp add: es8323_set_dai_fmt_def Let_def case_prod_beta if_distrib [where f = snd]
        if_distrib [where f = hp_ctl_gpio] if_distrib [where f = hp_gpio_level] if_distrib [where f = spk_ctl_gpio]
        if_distrib [where f = spk_gpio_level] if_distrib [where f = hp_det_gpio] if_distrib [where f = hp_det_level]
        del: es8323_writes_simps)
next
  case (C_set_sysclk f) then show ?thesis using assms
    by (auto simp: es8323_set_dai_sysclk_def split: if_splits)
next
  case (C_mute m) then show ?thesis using assms
    by (cases m) (auto simp: es8323_mute_def Let_def gpio_get split: if_splits)
next
  case (C_bias l) then show ?thesis using assms
    by (cases l) (auto simp: es8323_set_bias_level_def Let_def)
next
  case C_detect_irq then show ?thesis using assms by (auto simp: es8323_hp_det_irq_handler_def)
next
  case (C_detect_work irq) then show ?thesis using assms
    by (auto simp: hp_detect_work_def Let_def gpio_get split: prod.splits if_splits)
qed

lemma run_wiring: "es8323_run io cs s = Some s' \<Longrightarrow> wiring s' = wiring s"
proof (induction cs arbitrary: s)
  case (Cons c cs)
  then obtain s1 where "es8323_do io c s = Some s1" "es8323_run io cs s1 = Some s'" by (auto split: bind_splits)
  with Cons.IH [of s1] call_wiring [of c s s1] show ?case by simp
qed simp

text \<open>One detection: the level of the pin decides, and the interrupt is enabled again.\<close>

lemma detect_result:
  assumes "spk_ctl_gpio s \<noteq> hp_ctl_gpio s" "io_irq_type io (ec_bus s) irq (pin (ec_bus s) (hp_det_gpio s)) = (ret, b)"
  shows "ec_irq_depth (hp_detect_work io irq (es8323_hp_det_irq_handler s)) = ec_irq_depth s + (if ret < 0 then 1 else 0)"
    and "pin (ec_bus (hp_detect_work io irq (es8323_hp_det_irq_handler s))) =
      (if ret < 0 then pin (ec_bus s)
       else (pin (ec_bus s))(spk_ctl_gpio s := ((hp_det_level s \<noteq> pin (ec_bus s) (hp_det_gpio s)) = spk_gpio_level s),
              hp_ctl_gpio s := \<not> hp_gpio_level s))"
proof -
  have "pin b = pin (ec_bus s)"
    using irq_type [of "ec_bus s" irq "pin (ec_bus s) (hp_det_gpio s)"] assms(2) by simp
  then show "ec_irq_depth (hp_detect_work io irq (es8323_hp_det_irq_handler s)) = ec_irq_depth s + (if ret < 0 then 1 else 0)"
    "pin (ec_bus (hp_detect_work io irq (es8323_hp_det_irq_handler s))) =
      (if ret < 0 then pin (ec_bus s)
       else (pin (ec_bus s))(spk_ctl_gpio s := ((hp_det_level s \<noteq> pin (ec_bus s) (hp_det_gpio s)) = spk_gpio_level s),
              hp_ctl_gpio s := \<not> hp_gpio_level s))"
    using assms by (auto simp: hp_detect_work_def es8323_hp_det_irq_handler_def Let_def gpio_get gpio_set jack)
qed

end

subsection \<open>Properties\<close>

definition demo_bus :: chip_bus where
  "demo_bus = \<lparr>cb_dev = (\<lambda>_. 0xaa), cb_pin = (\<lambda>_. True), cb_jack = []\<rparr>"

definition demo_es8323 :: "chip_bus es8323_chip" where
  "demo_es8323 = \<lparr>ec_reg = es8323_reg, ec_sysclk = 11289600, ec_constraints = None, spk_ctl_gpio = 5, hp_ctl_gpio = 6,
     hp_det_gpio = 7, spk_gpio_level = True, hp_gpio_level = True, hp_det_level = False, ec_bias = BIAS_OFF,
     g_jack_new = False, ec_irq_depth = 0, ec_work = False, ec_bus = demo_bus\<rparr>"

lemma demo_es8323_cache: "length (ec_reg demo_es8323) = 56"
  by (simp add: demo_es8323_def es8323_reg_def)



text \<open>Setting the stream parameters: a rate with a table entry for the system clock, or for
  half of it with the divider bit set, is accepted; both rate registers get that entry's
  code, both interface registers the sample size, the clock role stays, no other register
  changes, and a bit clock inversion that was set is lost. Any other rate is refused and
  nothing is written.\<close>
theorem es8323_hw_params:
  assumes "codec_bus io pin dev" "es8323_coherent dev es8323_known s"
  shows "\<exists>ret s'. es8323_pcm_hw_params io p s = Some (ret, s') \<and>
   (ret = 0 \<and>
    (\<exists>e \<in> set es8323_coeff_div. cd_rate e = p_rate p \<and>
       (cd_mclk e = ec_sysclk s \<and> \<not> bit (dev (ec_bus s') 0x08) 6 \<or> cd_mclk e = ec_sysclk s div 2 \<and> bit (dev (ec_bus s') 0x08) 6) \<and>
       dev (ec_bus s') 0x0d = ucast (cd_sr e OR push_bit 4 (cd_usb e)) \<and>
       dev (ec_bus s') 0x18 = ucast (cd_sr e OR push_bit 4 (cd_usb e))) \<and>
    dev (ec_bus s') 0x0c AND 0x1c = ucast (es8323_adc_size (p_format p)) \<and>
    dev (ec_bus s') 0x17 AND 0x38 = ucast (es8323_dac_size (p_format p)) \<and>
    bit (dev (ec_bus s') 0x08) 7 = bit (dev (ec_bus s) 0x08) 7 \<and> \<not> bit (dev (ec_bus s') 0x08) 5 \<and>
    (\<forall>r. r \<notin> {0x08, 0x0c, 0x17, 0x0d, 0x18} \<longrightarrow> dev (ec_bus s') r = dev (ec_bus s) r)
    \<or> ret = - EINVAL \<and> s' = s \<and>
      (\<forall>e \<in> set es8323_coeff_div. cd_rate e = p_rate p \<longrightarrow> cd_mclk e \<notin> {ec_sysclk s, ec_sysclk s div 2}))"
  by (rule codec_bus.hw_params_result [OF assms])

lemma demo_es8323_probed: "es8323_coherent cb_dev es8323_known (snd (es8323_probe (chip_io 0) 0 demo_es8323))"
  by (rule chip_io.probe_coherent [OF demo_es8323_cache])

theorem es8323_hw_params_witness:
  "\<exists>s'. es8323_pcm_hw_params (chip_io 0) \<lparr>p_format = 2, p_channels = 2, p_rate = 48000\<rparr>
      (snd (es8323_probe (chip_io 0) 0 demo_es8323)) = Some (- EINVAL, s')"
proof -
  have "ec_sysclk (snd (es8323_probe (chip_io 0) 0 demo_es8323)) = 11289600"
    by (simp add: es8323_probe_def es8323_reset_def es8323_set_bias_level_def Let_def demo_es8323_def
        del: es8323_writes_simps)
  then show ?thesis
    using es8323_hw_params [OF chip_io.codec_bus_axioms [of 0] demo_es8323_probed,
        of "\<lparr>p_format = 2, p_channels = 2, p_rate = 48000\<rparr>"]
    by (auto simp: es8323_coeff_div_def coeff_def)
qed

text \<open>The headphone amplifier is never switched on: once the GPIO set-up has succeeded with
  two distinct control pins, no sequence of codec calls and detections, muted or not and
  whether or not a headphone is plugged in, drives the headphone control pin to its active
  level.\<close>
theorem es8323_headphone_off:
  assumes "codec_bus io pin dev" "fst (es8323_gpio_setup io dt s) = 0"
    "0 \<le> gd_gpio dt HP_CON" "gd_gpio dt SPK_CON \<noteq> gd_gpio dt HP_CON"
    "es8323_run io cs (snd (es8323_gpio_setup io dt s)) = Some s'"
  shows "pin (ec_bus s') (gd_gpio dt HP_CON) \<longleftrightarrow> gd_active_low dt HP_CON"
proof -
  have "hp_off pin s'"
    by (rule codec_bus.run_hp_off [OF assms(1) codec_bus.setup_hp_off [OF assms(1-4)] assms(5)])
  moreover have "hp_ctl_gpio s' = gd_gpio dt HP_CON \<and> hp_gpio_level s' = (\<not> gd_active_low dt HP_CON)"
    using codec_bus.run_wiring [OF assms(1,5)] assms(2,3) by (auto simp: es8323_gpio_setup_def Let_def split: if_splits)
  ultimately show ?thesis by (simp add: hp_off_def)
qed

definition demo_gpios :: gpio_dt where
  "demo_gpios = \<lparr>gd_gpio = (\<lambda>n. case n of SPK_CON \<Rightarrow> 5 | HP_CON \<Rightarrow> 6 | HP_DET \<Rightarrow> 7),
     gd_active_low = (\<lambda>_. False), gd_request = (\<lambda>_. 0)\<rparr>"

theorem es8323_headphone_off_witness:
  "\<exists>s'. es8323_run (chip_io 0) [C_mute False, C_detect_irq, C_detect_work 39]
      (snd (es8323_gpio_setup (chip_io 0) demo_gpios demo_es8323)) = Some s' \<and> \<not> cb_pin (ec_bus s') 6"
proof -
  let ?s = "snd (es8323_gpio_setup (chip_io 0) demo_gpios demo_es8323)"
  have "fst (es8323_gpio_setup (chip_io 0) demo_gpios demo_es8323) = 0"
    by (simp add: es8323_gpio_setup_def demo_gpios_def Let_def)
  moreover obtain s' where "es8323_run (chip_io 0) [C_mute False, C_detect_irq, C_detect_work 39] ?s = Some s'" by simp
  ultimately show ?thesis
    using es8323_headphone_off [OF chip_io.codec_bus_axioms [of 0], of demo_gpios demo_es8323 _ s']
    by (auto simp: demo_gpios_def simp del: es8323_run.simps)
qed

text \<open>Headphone detection: an interrupt and the work it schedules set the speaker pin active
  exactly when the detect pin does not show a headphone, and leave the interrupt enabled as
  it was. If the trigger type of the interrupt cannot be set, nothing is switched and the
  interrupt stays disabled.\<close>
theorem es8323_detect:
  assumes "codec_bus io pin dev" "spk_ctl_gpio s \<noteq> hp_ctl_gpio s"
    "io_irq_type io (ec_bus s) irq (pin (ec_bus s) (hp_det_gpio s)) = (ret, b)"
  shows "\<exists>s'. es8323_run io [C_detect_irq, C_detect_work irq] s = Some s' \<and>
    (if 0 \<le> ret
     then ec_irq_depth s' = ec_irq_depth s \<and>
       (pin (ec_bus s') (spk_ctl_gpio s) = spk_gpio_level s \<longleftrightarrow> pin (ec_bus s) (hp_det_gpio s) \<noteq> hp_det_level s)
     else ec_irq_depth s' = ec_irq_depth s + 1 \<and> pin (ec_bus s') = pin (ec_bus s))"
  using codec_bus.detect_result [OF assms] assms(2) by auto

theorem es8323_detect_witness:
  "\<exists>s'. es8323_run (chip_io (- 22)) [C_detect_irq, C_detect_work 39] demo_es8323 = Some s' \<and> ec_irq_depth s' = 1"
proof -
  have "io_irq_type (chip_io (- 22)) (ec_bus demo_es8323) 39 (cb_pin (ec_bus demo_es8323) (hp_det_gpio demo_es8323)) =
      (- 22, ec_bus demo_es8323)" by (simp add: chip_io_def)
  from es8323_detect [OF chip_io.codec_bus_axioms _ this] show ?thesis by (simp add: demo_es8323_def)
qed

text \<open>After the probe no stream can be opened before the system clock is set to a frequency of the list.\<close>

lemma gpio_setup_constraints: "ec_constraints (snd (es8323_gpio_setup io dt s)) = ec_constraints s"
  by (auto simp: es8323_gpio_setup_def Let_def)

lemma es8323_startup_needs_clock:
  "es8323_pcm_startup (snd (es8323_i2c_probe io True True dt reg s)) = None"
  by (simp add: es8323_pcm_startup_def es8323_i2c_probe_def gpio_setup_constraints Let_def)

lemma es8323_startup_after_clock:
  "es8323_pcm_startup (snd (es8323_set_dai_sysclk f (s\<lparr>ec_constraints := None\<rparr>))) \<noteq> None \<longleftrightarrow>
   f \<in> {11289600, 18432000, 22579200, 36864000, 12288000, 16934400, 24576000, 33868800, 12000000, 24000000}"
  by (auto simp: es8323_pcm_startup_def es8323_set_dai_sysclk_def)

end
