(* ===== verification/Es8316_Correct.thy ===== *)
theory Es8316_Correct
  imports Es8316
begin

text \<open>
  What the ES8316 operations do on a working chip: the effect on registers and pins, the
  frames, and the power accounting over any sequence of calls.
\<close>

subsection \<open>Frames\<close>

lemma e6_write_frame [simp]:
  "e6_sysclk (e6_write io r v s) = e6_sysclk s" "e6_pwr_count (e6_write io r v s) = e6_pwr_count s"
  "e6_spk_ctl_gpio (e6_write io r v s) = e6_spk_ctl_gpio s" "e6_hp_ctl_gpio (e6_write io r v s) = e6_hp_ctl_gpio s"
  "e6_spk_gpio_level (e6_write io r v s) = e6_spk_gpio_level s" "e6_hp_gpio_level (e6_write io r v s) = e6_hp_gpio_level s"
  "hp_irq_flag (e6_write io r v s) = hp_irq_flag s" "es8316_codec (e6_write io r v s) = es8316_codec s"
  "e6_dmic_amic (e6_write io r v s) = e6_dmic_amic s"
  by (simp_all add: e6_write_def)

lemma e6_update_frame [simp]:
  "e6_sysclk (e6_update io r m v s) = e6_sysclk s" "e6_pwr_count (e6_update io r m v s) = e6_pwr_count s"
  "e6_spk_ctl_gpio (e6_update io r m v s) = e6_spk_ctl_gpio s" "e6_hp_ctl_gpio (e6_update io r m v s) = e6_hp_ctl_gpio s"
  "e6_spk_gpio_level (e6_update io r m v s) = e6_spk_gpio_level s" "e6_hp_gpio_level (e6_update io r m v s) = e6_hp_gpio_level s"
  "hp_irq_flag (e6_update io r m v s) = hp_irq_flag s" "es8316_codec (e6_update io r m v s) = es8316_codec s"
  by (simp_all add: e6_update_def)

lemma e6_writes_simps [simp]:
  "e6_writes io [] s = s" "e6_writes io ((r, v) # ws) s = e6_writes io ws (e6_write io r v s)"
  by (simp_all add: e6_writes_def)

lemma e6_writes_field:
  assumes "\<And>r v s. f (e6_write io r v s) = f s"
  shows "f (e6_writes io ws s) = f s"
proof (induction ws arbitrary: s)
  case (Cons w ws) then show ?case by (cases w) (simp add: assms)
qed simp

lemma e6_writes_frame [simp]:
  "e6_sysclk (e6_writes io ws s) = e6_sysclk s" "e6_pwr_count (e6_writes io ws s) = e6_pwr_count s"
  "e6_spk_ctl_gpio (e6_writes io ws s) = e6_spk_ctl_gpio s" "e6_hp_ctl_gpio (e6_writes io ws s) = e6_hp_ctl_gpio s"
  "e6_spk_gpio_level (e6_writes io ws s) = e6_spk_gpio_level s" "e6_hp_gpio_level (e6_writes io ws s) = e6_hp_gpio_level s"
  "hp_irq_flag (e6_writes io ws s) = hp_irq_flag s" "es8316_codec (e6_writes io ws s) = es8316_codec s"
  "e6_dmic_amic (e6_writes io ws s) = e6_dmic_amic s"
  by (rule e6_writes_field, simp)+

lemma e6_pwr_frame [simp]:
  "e6_bus (s\<lparr>e6_pwr_count := n\<rparr>) = e6_bus s" by simp

subsection \<open>Registers\<close>

text \<open>The registers after a list of writes: the last write to a register counts.\<close>

definition reg_seq :: "(u32 \<times> u32) list \<Rightarrow> (u32 \<Rightarrow> u32) \<Rightarrow> u32 \<Rightarrow> u32" where
  "reg_seq ws f r = (case map_of (rev ws) r of None \<Rightarrow> f r | Some v \<Rightarrow> v)"

lemma reg_seq_Nil [simp]: "reg_seq [] f = f"
  by (simp add: reg_seq_def fun_eq_iff)

lemma reg_seq_Cons: "reg_seq ((r, v) # ws) f = reg_seq ws (f(r := v))"
  by (auto simp: reg_seq_def fun_eq_iff map_add_def split: option.splits)

lemma reg_seq_written: "r \<in> fst ` set ws \<Longrightarrow> reg_seq ws f r = reg_seq ws g r"
proof -
  assume "r \<in> fst ` set ws"
  then have "map_of (rev ws) r \<noteq> None" by (simp add: map_of_eq_None_iff)
  then show ?thesis by (auto simp: reg_seq_def)
qed

lemma reg_seq_unwritten: "r \<notin> fst ` set ws \<Longrightarrow> reg_seq ws f r = f r"
proof -
  assume "r \<notin> fst ` set ws"
  then have "map_of (rev ws) r = None" by (simp add: map_of_eq_None_iff)
  then show ?thesis by (simp add: reg_seq_def)
qed

context soc_bus
begin

lemma e6_reg:
  "reg (e6_bus (e6_write io r v s)) = (reg (e6_bus s))(r := v)"
  "reg (e6_bus (e6_update io r m v s)) = (reg (e6_bus s))(r := put_field (reg (e6_bus s) r) m (v AND m))"
  "pin (e6_bus (e6_write io r v s)) = pin (e6_bus s)" "pin (e6_bus (e6_update io r m v s)) = pin (e6_bus s)"
  by (simp_all add: e6_write_def e6_update_def soc_write soc_update)

lemma e6_reg_seq: "reg (e6_bus (e6_writes io ws s)) = reg_seq ws (reg (e6_bus s))"
proof (induction ws arbitrary: s)
  case (Cons w ws) then show ?case by (cases w) (simp add: reg_seq_Cons e6_reg fun_upd_def)
qed simp

lemma e6_writes_pin [simp]: "pin (e6_bus (e6_writes io ws s)) = pin (e6_bus s)"
  by (rule e6_writes_field) (simp add: e6_reg)

lemma e6_read [simp]: "e6_read io r s = (reg (e6_bus s) r, s)"
  by (simp add: e6_read_def soc_read)

lemma e6_gpio_get [simp]: "e6_gpio_get io p s = (pin (e6_bus s) p, s)"
  by (simp add: e6_gpio_get_def gpio_get)

lemma set_gpio_reg [simp]: "reg (e6_bus (snd (es8316_set_gpio io g l s))) = reg (e6_bus s)"
  by (simp add: es8316_set_gpio_def soc_quiet)

lemma reset_reg:
  "reg (e6_bus (snd (es8316_reset io s))) = (reg (e6_bus s))(ES8316_RESET_REG00 := 0x03)"
  by (simp add: es8316_reset_def Let_def split: prod.split) (metis e6_reg(1) fun_upd_upd snd_conv soc_write(1))

end

lemma set_gpio_frame [simp]:
  "e6_sysclk (snd (es8316_set_gpio io g l s)) = e6_sysclk s" "e6_pwr_count (snd (es8316_set_gpio io g l s)) = e6_pwr_count s"
  "e6_spk_ctl_gpio (snd (es8316_set_gpio io g l s)) = e6_spk_ctl_gpio s"
  "e6_hp_ctl_gpio (snd (es8316_set_gpio io g l s)) = e6_hp_ctl_gpio s"
  "e6_spk_gpio_level (snd (es8316_set_gpio io g l s)) = e6_spk_gpio_level s"
  "e6_hp_gpio_level (snd (es8316_set_gpio io g l s)) = e6_hp_gpio_level s"
  "es8316_codec (snd (es8316_set_gpio io g l s)) = es8316_codec s"
  by (simp_all add: es8316_set_gpio_def)

subsection \<open>Calls of the sound core\<close>

text \<open>
  The core opens a stream that is not open, and closes only a stream whose opening has
  succeeded. \<open>e6_failed\<close> counts the openings the codec has refused.
\<close>

datatype e6_call =
    E_open pcm_stream
  | E_close pcm_stream
  | E_hw_params pcm_params
  | E_set_fmt u32
  | E_set_sysclk u32
  | E_mute bool u32
  | E_detect int

record 'b e6_core =
  e6_opened :: "pcm_stream set"
  e6_failed :: nat
  e6_chip :: "'b es8316_chip"

fun e6_do :: "'b soc_io \<Rightarrow> e6_call \<Rightarrow> 'b e6_core \<Rightarrow> 'b e6_core" where
  "e6_do io (E_open st) c =
     (if st \<in> e6_opened c then c
      else let (ret, s) = es8316_pcm_startup io st (e6_chip c)
           in if ret < 0 then c\<lparr>e6_failed := e6_failed c + 1, e6_chip := s\<rparr>
              else c\<lparr>e6_opened := insert st (e6_opened c), e6_chip := s\<rparr>)"
| "e6_do io (E_close st) c =
     (if st \<notin> e6_opened c then c
      else c\<lparr>e6_opened := e6_opened c - {st}, e6_chip := es8316_pcm_shutdown io st (e6_chip c)\<rparr>)"
| "e6_do io (E_hw_params p) c =
     (if e6_opened c = {} then c else c\<lparr>e6_chip := snd (es8316_pcm_hw_params io p (e6_chip c))\<rparr>)"
| "e6_do io (E_set_fmt f) c = c\<lparr>e6_chip := snd (es8316_set_dai_fmt io f (e6_chip c))\<rparr>"
| "e6_do io (E_set_sysclk f) c = c\<lparr>e6_chip := snd (es8316_set_dai_sysclk f (e6_chip c))\<rparr>"
| "e6_do io (E_mute active m) c = c\<lparr>e6_chip := snd (es8316_mute io active m (e6_chip c))\<rparr>"
| "e6_do io (E_detect irq) c = c\<lparr>e6_chip := snd (es8316_hp_det_irq_handler io irq (e6_chip c))\<rparr>"

definition e6_run :: "'b soc_io \<Rightarrow> e6_call list \<Rightarrow> 'b e6_core \<Rightarrow> 'b e6_core" where
  "e6_run io cs c = fold (e6_do io) cs c"

subsection \<open>Power accounting\<close>

text \<open>The registers a stream switches, and those no other call touches.\<close>

definition e6_power_regs :: "u32 set" where
  "e6_power_regs = {ES8316_CLKMGR_ADCDIV2_REG05, ES8316_SYS_PDN_REG0D, ES8316_CPHP_OUTEN_REG17, ES8316_DAC_PDN_REG2F, ES8316_ADC_PDN_LINSEL_REG22}"

definition e6_users :: "'b e6_core \<Rightarrow> nat" where
  "e6_users c = card (e6_opened c) + e6_failed c"

definition e6_power :: "('b \<Rightarrow> u32 \<Rightarrow> u32) \<Rightarrow> 'b e6_core \<Rightarrow> bool" where
  "e6_power reg c \<longleftrightarrow>
     e6_pwr_count (e6_chip c) = of_nat (e6_users c) \<and>
     reg (e6_bus (e6_chip c)) ES8316_SYS_PDN_REG0D = (if e6_users c = 0 then 0x3F else 0x00) \<and>
     (SNDRV_PCM_STREAM_PLAYBACK \<in> e6_opened c \<longrightarrow>
        reg (e6_bus (e6_chip c)) ES8316_CPHP_OUTEN_REG17 = 0x66 \<and> reg (e6_bus (e6_chip c)) ES8316_DAC_PDN_REG2F = 0x00) \<and>
     (SNDRV_PCM_STREAM_CAPTURE \<in> e6_opened c \<longrightarrow> reg (e6_bus (e6_chip c)) ES8316_ADC_PDN_LINSEL_REG22 AND 0xC0 = 0)"

lemma pcm_stream_card: "card (A :: pcm_stream set) \<le> 2"
proof -
  have "A \<subseteq> {SNDRV_PCM_STREAM_PLAYBACK, SNDRV_PCM_STREAM_CAPTURE}" using pcm_stream.exhaust by blast
  from card_mono [OF _ this] show ?thesis by simp
qed

lemma pcm_stream_finite [simp]: "finite (A :: pcm_stream set)"
proof -
  have "A \<subseteq> {SNDRV_PCM_STREAM_PLAYBACK, SNDRV_PCM_STREAM_CAPTURE}" using pcm_stream.exhaust by blast
  then show ?thesis by (rule finite_subset) simp
qed

context soc_bus
begin

lemma startup_effect:
  "e6_pwr_count (snd (es8316_pcm_startup io st s)) = e6_pwr_count s + 1"
  "e6_sysclk (snd (es8316_pcm_startup io st s)) = e6_sysclk s"
  "fst (es8316_pcm_startup io st s) = (if e6_sysclk s = 0 then - EINVAL else 0)"
  "reg (e6_bus (snd (es8316_pcm_startup io st s))) ES8316_SYS_PDN_REG0D = 0x00"
  "reg (e6_bus (snd (es8316_pcm_startup io st s))) ES8316_CPHP_OUTEN_REG17 =
     (if st = SNDRV_PCM_STREAM_PLAYBACK then 0x66 else reg (e6_bus s) ES8316_CPHP_OUTEN_REG17)"
  "reg (e6_bus (snd (es8316_pcm_startup io st s))) ES8316_DAC_PDN_REG2F =
     (if st = SNDRV_PCM_STREAM_PLAYBACK then 0x00 else reg (e6_bus s) ES8316_DAC_PDN_REG2F)"
  "reg (e6_bus (snd (es8316_pcm_startup io st s))) ES8316_ADC_PDN_LINSEL_REG22 =
     (if st = SNDRV_PCM_STREAM_PLAYBACK then reg (e6_bus s) ES8316_ADC_PDN_LINSEL_REG22
      else put_field (reg (e6_bus s) ES8316_ADC_PDN_LINSEL_REG22) 0xC0 0)"
  "reg (e6_bus (snd (es8316_pcm_startup io st s))) ES8316_CLKMGR_ADCDIV2_REG05 = reg (e6_bus s) ES8316_CLKMGR_ADCDIV2_REG05"
  "pin (e6_bus (snd (es8316_pcm_startup io st s))) = pin (e6_bus s)"
  by (cases "st = SNDRV_PCM_STREAM_PLAYBACK"; simp add: es8316_pcm_startup_def Let_def e6_reg)+

lemma shutdown_effect:
  "e6_pwr_count (es8316_pcm_shutdown io st s) = e6_pwr_count s - 1"
  "e6_sysclk (es8316_pcm_shutdown io st s) = e6_sysclk s"
  "reg (e6_bus (es8316_pcm_shutdown io st s)) ES8316_SYS_PDN_REG0D =
     (if e6_pwr_count s = 1 then 0x3F else if st = SNDRV_PCM_STREAM_PLAYBACK then 0x00
      else reg (e6_bus s) ES8316_SYS_PDN_REG0D)"
  "reg (e6_bus (es8316_pcm_shutdown io st s)) ES8316_CPHP_OUTEN_REG17 =
     (if st = SNDRV_PCM_STREAM_PLAYBACK then 0x00 else reg (e6_bus s) ES8316_CPHP_OUTEN_REG17)"
  "reg (e6_bus (es8316_pcm_shutdown io st s)) ES8316_DAC_PDN_REG2F =
     (if st = SNDRV_PCM_STREAM_PLAYBACK then 0x11 else reg (e6_bus s) ES8316_DAC_PDN_REG2F)"
  "reg (e6_bus (es8316_pcm_shutdown io st s)) ES8316_ADC_PDN_LINSEL_REG22 =
     (if st = SNDRV_PCM_STREAM_PLAYBACK then reg (e6_bus s) ES8316_ADC_PDN_LINSEL_REG22 else 0xc0)"
  "reg (e6_bus (es8316_pcm_shutdown io st s)) ES8316_CLKMGR_ADCDIV2_REG05 = reg (e6_bus s) ES8316_CLKMGR_ADCDIV2_REG05"
  "pin (e6_bus (es8316_pcm_shutdown io st s)) = pin (e6_bus s)"
  by (cases "st = SNDRV_PCM_STREAM_PLAYBACK"; simp add: es8316_pcm_shutdown_def Let_def e6_reg)+

end

text \<open>The other calls leave the power state alone.\<close>

definition e6_quiet :: "('b \<Rightarrow> u32 \<Rightarrow> u32) \<Rightarrow> 'b es8316_chip \<Rightarrow> 'b es8316_chip \<Rightarrow> bool" where
  "e6_quiet reg s s' \<longleftrightarrow> e6_pwr_count s' = e6_pwr_count s \<and> (e6_sysclk s \<noteq> 0 \<longrightarrow> e6_sysclk s' \<noteq> 0) \<and>
     (\<forall>r \<in> e6_power_regs. reg (e6_bus s') r = reg (e6_bus s) r)"

context soc_bus
begin

lemma quiet_hw_params: "e6_quiet reg s (snd (es8316_pcm_hw_params io p s))"
  by (auto simp: e6_quiet_def es8316_pcm_hw_params_def Let_def e6_reg e6_power_regs_def)

lemma quiet_set_fmt: "e6_quiet reg s (snd (es8316_set_dai_fmt io f s))"
  by (auto simp: e6_quiet_def es8316_set_dai_fmt_def Let_def e6_reg e6_power_regs_def split: option.splits)

lemma quiet_sysclk: "e6_quiet reg s (snd (es8316_set_dai_sysclk f s))"
  by (auto simp: e6_quiet_def es8316_set_dai_sysclk_def)

lemma quiet_mute: "e6_quiet reg s (snd (es8316_mute io a m s))"
  by (auto simp: e6_quiet_def es8316_mute_def Let_def e6_reg e6_power_regs_def)

lemma quiet_detect: "e6_quiet reg s (snd (es8316_hp_det_irq_handler io irq s))"
proof -
  obtain ret b where t: "io_irq_type io (e6_bus s) irq (pin (e6_bus s) (e6_hp_det_gpio s)) = (ret, b)" by fastforce
  then have "reg b = reg (e6_bus s)" using soc_quiet(4) [of "e6_bus s" irq] by (metis snd_conv)
  with t show ?thesis
    by (auto simp: e6_quiet_def es8316_hp_det_irq_handler_def Let_def)
qed

lemma power_quiet:
  assumes "e6_power reg c" "e6_quiet reg (e6_chip c) s'"
  shows "e6_power reg (c\<lparr>e6_chip := s'\<rparr>)"
  using assms by (simp add: e6_power_def e6_quiet_def e6_users_def e6_power_regs_def)

lemma power_open:
  assumes "e6_power reg c" "e6_users c < 2 ^ 32 - 1"
  shows "e6_power reg (e6_do io (E_open st) c)"
proof (cases "st \<in> e6_opened c")
  case False
  note e = startup_effect [of st "e6_chip c"]
  have p: "put_field w 0xC0 0 AND 0xC0 = (0 :: u32)" for w by (simp add: put_field_masked)
  show ?thesis
    using assms False e p
    by (cases st; auto simp: e6_power_def e6_users_def split: prod.splits)
qed (simp add: assms)

lemma power_close:
  assumes "e6_power reg c" "e6_users c < 2 ^ 32"
  shows "e6_power reg (e6_do io (E_close st) c)"
proof (cases "st \<in> e6_opened c")
  case True
  note e = shutdown_effect [of st "e6_chip c"]
  define n where "n = card (e6_opened c - {st}) + e6_failed c"
  have "card (e6_opened c) = Suc (card (e6_opened c - {st}))"
    using card_Suc_Diff1 [of "e6_opened c" st] True by simp
  then have u: "e6_users c = Suc n" by (simp add: e6_users_def n_def)
  have 1: "(of_nat (Suc n) :: u32) = 1 \<longleftrightarrow> n = 0"
  proof -
    have "Suc n < 2 ^ LENGTH(32)" using assms(2) u by simp
    then have "unat (of_nat (Suc n) :: u32) = Suc n" by (simp only: unat_of_nat mod_less)
    moreover have "(of_nat (Suc n) :: u32) = 1 \<longleftrightarrow> unat (of_nat (Suc n) :: u32) = unat (1 :: u32)"
      by (rule word_unat_eq_iff)
    ultimately show ?thesis by simp
  qed
  have c: "e6_pwr_count (e6_chip c) = of_nat (Suc n)" "reg (e6_bus (e6_chip c)) ES8316_SYS_PDN_REG0D = 0x00"
    using assms(1) u by (simp_all add: e6_power_def)
  have users: "e6_users (e6_do io (E_close st) c) = n" using True by (simp add: e6_users_def n_def)
  have "e6_pwr_count (e6_chip (e6_do io (E_close st) c)) = of_nat n"
    "reg (e6_bus (e6_chip (e6_do io (E_close st) c))) ES8316_SYS_PDN_REG0D = (if n = 0 then 0x3F else 0x00)"
    using True e(1,3) c 1 by auto
  moreover have "SNDRV_PCM_STREAM_PLAYBACK \<in> e6_opened (e6_do io (E_close st) c) \<longrightarrow>
      reg (e6_bus (e6_chip (e6_do io (E_close st) c))) ES8316_CPHP_OUTEN_REG17 = 0x66 \<and>
      reg (e6_bus (e6_chip (e6_do io (E_close st) c))) ES8316_DAC_PDN_REG2F = 0x00"
    "SNDRV_PCM_STREAM_CAPTURE \<in> e6_opened (e6_do io (E_close st) c) \<longrightarrow>
      reg (e6_bus (e6_chip (e6_do io (E_close st) c))) ES8316_ADC_PDN_LINSEL_REG22 AND 0xC0 = 0"
    using assms(1) True e(4,5,6) by (cases st; simp add: e6_power_def)+
  ultimately show ?thesis unfolding e6_power_def users by blast
qed (simp add: assms)

lemma e6_do_users: "e6_users (e6_do io x c) \<le> e6_users c + 1"
  by (cases x) (auto simp: e6_users_def card_insert_if card_Diff_singleton split: prod.splits)

lemma power_do:
  assumes "e6_power reg c" "e6_users c < 2 ^ 32 - 1"
  shows "e6_power reg (e6_do io x c)"
proof (cases x)
  case (E_open st) then show ?thesis using power_open [OF assms] by simp
next
  case (E_close st) then show ?thesis using power_close [of c st] assms by simp
qed (simp_all add: power_quiet [OF assms(1)] assms quiet_hw_params quiet_set_fmt quiet_sysclk quiet_mute quiet_detect)

lemma power_run:
  "e6_power reg c \<Longrightarrow> e6_users c + length cs < 2 ^ 32 \<Longrightarrow> e6_power reg (e6_run io cs c)"
proof (induction cs arbitrary: c)
  case (Cons x cs)
  have "e6_power reg (e6_do io x c)" by (rule power_do) (use Cons.prems in simp_all)
  moreover have "e6_users (e6_do io x c) + length cs < 2 ^ 32" using Cons.prems(2) e6_do_users [of x c] by simp
  ultimately show ?case using Cons.IH [of "e6_do io x c"] by (simp add: e6_run_def)
qed (simp add: e6_run_def)

text \<open>With a system clock set no opening is refused.\<close>

lemma run_no_failure:
  "e6_sysclk (e6_chip c) \<noteq> 0 \<Longrightarrow>
   e6_failed (e6_run io cs c) = e6_failed c \<and> e6_sysclk (e6_chip (e6_run io cs c)) \<noteq> 0"
proof (induction cs arbitrary: c)
  case (Cons x cs)
  have "e6_failed (e6_do io x c) = e6_failed c \<and> e6_sysclk (e6_chip (e6_do io x c)) \<noteq> 0"
    using Cons.prems quiet_hw_params quiet_set_fmt quiet_sysclk quiet_mute quiet_detect
    by (cases x) (auto simp: e6_quiet_def startup_effect shutdown_effect prod.case_eq_if)
  with Cons.IH [of "e6_do io x c"] show ?case by (simp add: e6_run_def)
qed (simp add: e6_run_def)

end

subsection \<open>Wiring and pins\<close>

definition e6_wiring :: "'b es8316_chip \<Rightarrow> u32 \<times> int \<times> int \<times> bool \<times> bool" where
  "e6_wiring s = (e6_dmic_amic s, e6_spk_ctl_gpio s, e6_hp_ctl_gpio s, e6_spk_gpio_level s, e6_hp_gpio_level s)"

lemma e6_wiring_basic [simp]:
  "e6_wiring (e6_write io r v s) = e6_wiring s" "e6_wiring (e6_update io r m v s) = e6_wiring s"
  "e6_wiring (snd (es8316_set_gpio io g l s)) = e6_wiring s" "e6_wiring (s\<lparr>e6_pwr_count := n\<rparr>) = e6_wiring s"
  "e6_wiring (s\<lparr>e6_bus := b\<rparr>) = e6_wiring s" "e6_wiring (s\<lparr>e6_irq_depth := i\<rparr>) = e6_wiring s"
  "e6_wiring (s\<lparr>hp_irq_flag := f\<rparr>) = e6_wiring s" "e6_wiring (s\<lparr>mute_flag := mf\<rparr>) = e6_wiring s"
  "e6_wiring (s\<lparr>e6_constraints := co, e6_sysclk := c\<rparr>) = e6_wiring s"
  "e6_wiring (s\<lparr>es8316_init_reg := True\<rparr>) = e6_wiring s"
  by (simp_all add: e6_wiring_def e6_write_def e6_update_def es8316_set_gpio_def)

lemma e6_wiring_writes [simp]: "e6_wiring (e6_writes io ws s) = e6_wiring s"
  by (rule e6_writes_field) simp

text \<open>What the calls can do to the pins: the speaker pin moves, no other.\<close>

definition spk_only :: "('b \<Rightarrow> int \<Rightarrow> bool) \<Rightarrow> 'b es8316_chip \<Rightarrow> 'b es8316_chip \<Rightarrow> bool" where
  "spk_only pin s s' \<longleftrightarrow> e6_wiring s' = e6_wiring s \<and>
     (\<forall>p. p \<noteq> e6_spk_ctl_gpio s \<longrightarrow> pin (e6_bus s') p = pin (e6_bus s) p)"

fun is_detect :: "e6_call \<Rightarrow> bool" where
  "is_detect (E_detect irq) = True"
| "is_detect _ = False"

context soc_bus
begin

lemma set_gpio_pin:
  "pin (e6_bus (snd (es8316_set_gpio io (Suc 0) l s))) =
     (if e6_spk_ctl_gpio s = INVALID_GPIO then pin (e6_bus s) else (pin (e6_bus s))(e6_spk_ctl_gpio s := l))"
  by (simp add: es8316_set_gpio_def gpio_set)

lemma mute_pin:
  "pin (e6_bus (snd (es8316_mute io a m s))) =
     (if e6_spk_ctl_gpio s \<noteq> INVALID_GPIO \<and> (m \<noteq> 0 \<or> a \<and> \<not> hp_irq_flag s)
      then (pin (e6_bus s))(e6_spk_ctl_gpio s := e6_spk_gpio_level s) else pin (e6_bus s))"
  "e6_wiring (snd (es8316_mute io a m s)) = e6_wiring s"
  by (auto simp: es8316_mute_def Let_def set_gpio_pin e6_reg)

lemma detect_pin:
  "p \<noteq> e6_spk_ctl_gpio s \<Longrightarrow> pin (e6_bus (snd (es8316_hp_det_irq_handler io irq s))) p = pin (e6_bus s) p"
  "e6_wiring (snd (es8316_hp_det_irq_handler io irq s)) = e6_wiring s"
proof -
  obtain ret b where t: "io_irq_type io (e6_bus s) irq (pin (e6_bus s) (e6_hp_det_gpio s)) = (ret, b)" by fastforce
  then have "pin b = pin (e6_bus s)" using irq_type [of "e6_bus s" irq] by (metis snd_conv)
  with t show "p \<noteq> e6_spk_ctl_gpio s \<Longrightarrow> pin (e6_bus (snd (es8316_hp_det_irq_handler io irq s))) p = pin (e6_bus s) p"
    "e6_wiring (snd (es8316_hp_det_irq_handler io irq s)) = e6_wiring s"
    by (auto simp: es8316_hp_det_irq_handler_def Let_def set_gpio_pin)
qed

lemma plain_pin:
  "pin (e6_bus (snd (es8316_pcm_hw_params io p s))) = pin (e6_bus s)"
  "e6_wiring (snd (es8316_pcm_hw_params io p s)) = e6_wiring s"
  "pin (e6_bus (snd (es8316_set_dai_fmt io f s))) = pin (e6_bus s)"
  "e6_wiring (snd (es8316_set_dai_fmt io f s)) = e6_wiring s"
  "pin (e6_bus (snd (es8316_set_dai_sysclk q s))) = pin (e6_bus s)"
  "e6_wiring (snd (es8316_set_dai_sysclk q s)) = e6_wiring s"
  "e6_wiring (snd (es8316_pcm_startup io st s)) = e6_wiring s"
  "e6_wiring (es8316_pcm_shutdown io st s) = e6_wiring s"
  by (auto simp: es8316_pcm_hw_params_def es8316_set_dai_fmt_def es8316_set_dai_sysclk_def es8316_pcm_startup_def
      es8316_pcm_shutdown_def Let_def e6_reg split: option.splits)

lemma wiring_levels: "e6_wiring s' = e6_wiring s \<Longrightarrow>
    e6_spk_ctl_gpio s' = e6_spk_ctl_gpio s \<and> e6_spk_gpio_level s' = e6_spk_gpio_level s \<and>
    e6_hp_ctl_gpio s' = e6_hp_ctl_gpio s \<and> e6_hp_gpio_level s' = e6_hp_gpio_level s \<and> e6_dmic_amic s' = e6_dmic_amic s"
  by (simp add: e6_wiring_def)

lemma do_spk_only: "spk_only pin (e6_chip c) (e6_chip (e6_do io x c))"
  by (cases x) (auto simp: spk_only_def startup_effect shutdown_effect mute_pin plain_pin detect_pin prod.case_eq_if)

lemma run_spk_only: "spk_only pin (e6_chip c) (e6_chip (e6_run io cs c))"
proof (induction cs arbitrary: c)
  case (Cons x cs)
  have "spk_only pin (e6_chip (e6_do io x c)) (e6_chip (e6_run io (x # cs) c))"
    using Cons.IH by (simp add: e6_run_def)
  with do_spk_only [of c x] show ?case by (auto simp: spk_only_def dest: wiring_levels)
qed (simp add: e6_run_def spk_only_def)

text \<open>Without a detection nothing drives the speaker pin to its inactive level.\<close>

lemma do_spk_stays:
  "\<not> is_detect x \<Longrightarrow> pin (e6_bus (e6_chip c)) (e6_spk_ctl_gpio (e6_chip c)) = e6_spk_gpio_level (e6_chip c) \<Longrightarrow>
   pin (e6_bus (e6_chip (e6_do io x c))) (e6_spk_ctl_gpio (e6_chip (e6_do io x c))) = e6_spk_gpio_level (e6_chip (e6_do io x c))"
  using wiring_levels [of "e6_chip (e6_do io x c)" "e6_chip c"] do_spk_only [of c x]
  by (cases x) (auto simp: spk_only_def startup_effect shutdown_effect mute_pin plain_pin prod.case_eq_if)

lemma run_spk_stays:
  "list_all (\<lambda>x. \<not> is_detect x) cs \<Longrightarrow>
   pin (e6_bus (e6_chip c)) (e6_spk_ctl_gpio (e6_chip c)) = e6_spk_gpio_level (e6_chip c) \<Longrightarrow>
   pin (e6_bus (e6_chip (e6_run io cs c))) (e6_spk_ctl_gpio (e6_chip (e6_run io cs c))) =
     e6_spk_gpio_level (e6_chip (e6_run io cs c))"
proof (induction cs arbitrary: c)
  case (Cons x cs)
  then show ?case using do_spk_stays [of x c] by (simp add: e6_run_def)
qed (simp add: e6_run_def)

end

subsection \<open>Set-up\<close>

definition es8316_set_up_seq :: "u32 \<Rightarrow> (u32 \<times> u32) list" where
  "es8316_set_up_seq dmic = es8316_init_seq @
     [(ES8316_GPIO_SEL_REG4D, if dmic = dmic_used then 0x02 else 0x00), (ES8316_GPIO_DEBUNCE_INT_REG4E, 0xf3)] @ es8316_idle_seq"

lemma reg_seq_append: "reg_seq (ws @ ws') f = reg_seq ws' (reg_seq ws f)"
  by (induction ws arbitrary: f) (auto simp: reg_seq_Cons)

context soc_bus
begin

lemma set_up_reg: "reg (e6_bus (es8316_set_up io s)) = reg_seq (es8316_set_up_seq (e6_dmic_amic s)) (reg (e6_bus s))"
  by (simp add: es8316_set_up_def es8316_set_up_seq_def es8316_init_regs_def Let_def e6_reg_seq reg_seq_append e6_reg
      reg_seq_Cons fun_upd_def)

lemma set_up_frame: "e6_wiring (es8316_set_up io s) = e6_wiring s" "e6_pwr_count (es8316_set_up io s) = e6_pwr_count s"
  "e6_sysclk (es8316_set_up io s) = e6_sysclk s"
  by (simp_all add: es8316_set_up_def es8316_init_regs_def Let_def)

lemma reset_frame: "e6_wiring (snd (es8316_reset io s)) = e6_wiring s" "e6_pwr_count (snd (es8316_reset io s)) = e6_pwr_count s"
  "e6_sysclk (snd (es8316_reset io s)) = e6_sysclk s"
  by (simp_all add: es8316_reset_def Let_def split: prod.splits)

lemma do_reg5: "reg (e6_bus (e6_chip (e6_do io x c))) 0x05 = reg (e6_bus (e6_chip c)) 0x05"
  using quiet_hw_params quiet_set_fmt quiet_sysclk quiet_mute quiet_detect
  by (cases x) (auto simp: e6_quiet_def e6_power_regs_def startup_effect shutdown_effect prod.case_eq_if)

lemma run_reg5: "reg (e6_bus (e6_chip (e6_run io cs c))) 0x05 = reg (e6_bus (e6_chip c)) 0x05"
  by (induction cs arbitrary: c) (simp_all add: e6_run_def do_reg5)

end

end
