(* ===== verification/Es8316_Props.thy ===== *)
theory Es8316_Props
  imports Es8316_Correct
begin

text \<open>
  The properties of the ES8316 driver: power accounting, what the stream parameters and the
  format really program, the clock table, what resume restores, the speaker pin.
\<close>

subsection \<open>Stream parameters\<close>

lemma es8316_get_coeff_cases:
  obtains (missing) "es8316_get_coeff m r = - EINVAL" "(m, r) \<notin> (\<lambda>e. (e6_mclk e, e6_rate e)) ` set es8316_coeff_div"
  | (found) "0 \<le> es8316_get_coeff m r" "(m, r) \<in> (\<lambda>e. (e6_mclk e, e6_rate e)) ` set es8316_coeff_div"
proof (cases "es8316_get_coeff m r = - EINVAL")
  case True
  then have "(m, r) \<notin> set (map (\<lambda>c. (e6_mclk c, e6_rate c)) es8316_coeff_div)"
    unfolding es8316_get_coeff_def by (rule coeff_search_missing) simp
  then show ?thesis using missing [OF True] unfolding set_map by blast
next
  case False
  let ?t = "map (\<lambda>c. (e6_mclk c, e6_rate c)) es8316_coeff_div" and ?i = "es8316_get_coeff m r"
  have i: "0 \<le> ?i" "?i < int (length ?t)" "?t ! nat ?i = (m, r)"
    using coeff_search_found [of 0 ?t m r] False by (simp_all add: es8316_get_coeff_def)
  then have "nat ?i < length ?t" by linarith
  then have "?t ! nat ?i \<in> set ?t" by (rule nth_mem)
  then have "(m, r) \<in> set ?t" unfolding i(3) .
  then show ?thesis using found [OF i(1)] unfolding set_map by blast
qed

lemma ucast_and_half: "(ucast (ucast (w :: u32) AND (k :: u16)) :: u32) = w AND ucast k"
  by (rule bit_word_eqI) (auto simp: bit_and_iff bit_ucast_iff dest: bit_imp_le_length)

lemma e6_word_length_masked: "ucast ((ucast (w :: u32) AND 0xE3 :: u16) OR es8316_size f) AND 0xe3 = w AND (0xe3 :: u32)"
proof -
  have "ucast (es8316_size f) AND (0xe3 :: u32) = 0" by (simp add: es8316_size_def)
  then show ?thesis
    by (simp add: unsigned_or_eq ucast_and_half bit.conj_disj_distrib2 and.assoc)
qed

lemma e6_mclkdiv_masked:
  "ucast (ucast (w :: u32) AND 0x7f :: u16) AND 0x80 = (0 :: u32)"
  "ucast ((ucast (w :: u32) AND 0x7f :: u16) OR 0x80) AND 0x80 = (0x80 :: u32)"
  by (simp_all add: unsigned_or_eq ucast_and_half bit.conj_disj_distrib2 and.assoc)

context soc_bus
begin

lemma hw_params_effect:
  fixes s :: "'b es8316_chip" and p :: pcm_params
  defines "direct \<equiv> (e6_sysclk s, p_rate p) \<in> (\<lambda>e. (e6_mclk e, e6_rate e)) ` set es8316_coeff_div"
    and "halved \<equiv> (e6_sysclk s div 2, p_rate p) \<in> (\<lambda>e. (e6_mclk e, e6_rate e)) ` set es8316_coeff_div"
  shows "fst (es8316_pcm_hw_params io p s) = (if direct \<or> halved then 0 else - EINVAL) \<and>
    reg (e6_bus (snd (es8316_pcm_hw_params io p s))) =
      (if direct \<or> halved
       then (reg (e6_bus s))(0x01 := put_field (reg (e6_bus s) 0x01) 0x80 (if direct then 0 else 0x80))
       else reg (e6_bus s))"
proof -
  have id: "put_field w m (w AND m) = w" for w m :: u32
    by (rule put_field_same) (simp_all add: fits_def and.assoc)
  have e: "((reg b)(r := reg b r)) = reg b" for b r by simp
  show ?thesis
    unfolding direct_def halved_def
    by (rule es8316_get_coeff_cases [of "e6_sysclk s" "p_rate p"];
        rule es8316_get_coeff_cases [of "e6_sysclk s div 2" "p_rate p"])
      (simp_all add: es8316_pcm_hw_params_def Let_def e6_reg e6_word_length_masked e6_mclkdiv_masked id)
qed

end

text \<open>The dividers computed for an entry do not depend on what the registers held.\<close>

lemma or_and_drop: "x AND m = 0 \<Longrightarrow> (x OR y) AND m = y AND (m :: u16)"
  by (simp add: bit.conj_disj_distrib2)

lemma es8316_dividers_eq:
  "es8316_dividers e sr a b =
     \<lparr>d_osrate = ucast (e6_osr e) AND 0x3f, d_srate = (sr OR ucast (e6_sr e)) AND 0x1f,
      d_adcdiv = push_bit 4 (ucast (e6_div e)) AND 0xf0 OR ucast (e6_lrck_h e) AND 0x0f,
      d_adclrckdiv_l = ucast (e6_lrck_l e),
      d_dacdiv = push_bit 4 (ucast (e6_div e)) AND 0xf0 OR ucast (e6_lrck_h e) AND 0x0f,
      d_daclrckdiv_l = ucast (e6_lrck_l e)\<rparr>"
  by (simp add: es8316_dividers_def Let_def or_and_drop and.assoc)

subsection \<open>Format\<close>

text \<open>
  Bits of the data interface registers: 0 and 1 the format code, 5 the frame inversion.
\<close>

definition e6_fmt_code :: "u32 \<Rightarrow> u8 option" where
  "e6_fmt_code format =
     (if format = SND_SOC_DAIFMT_I2S then Some 0 else if format = SND_SOC_DAIFMT_LEFT_J then Some 1
      else if format = SND_SOC_DAIFMT_DSP_A \<or> format = SND_SOC_DAIFMT_DSP_B then Some 3 else None)"

definition e6_set_bit5 :: "bool \<Rightarrow> u8 \<Rightarrow> u8" where
  "e6_set_bit5 b w = (if b then w OR 0x20 else w AND 0xDF)"

lemma u8_eqI:
  assumes "bit x 0 = bit y 0" "bit x 1 = bit y 1" "bit x 2 = bit y 2" "bit x 3 = bit y 3"
    "bit x 4 = bit y 4" "bit x 5 = bit y 5" "bit x 6 = bit y 6" "bit x 7 = bit y 7"
  shows "x = (y :: u8)"
proof (rule bit_word_eqI)
  fix n assume "n < LENGTH(8)"
  then have "n \<in> {0, 1, 2, 3, 4, 5, 6, 7}" by auto
  then show "bit x n = bit y n" using assms by auto
qed

lemma e6_fmt_bits_then_inversion:
  "map_option (e6_set_bit5 b) (e6_fmt_bits f w) =
   map_option (\<lambda>c. put_field w 0x23 (c OR (if b then 0x20 else 0))) (e6_fmt_code f)"
proof -
  have "e6_set_bit5 b (w AND 0xFC) = put_field w 0x23 (0 OR (if b then 0x20 else 0))"
    "e6_set_bit5 b (w AND 0xFC OR 1) = put_field w 0x23 (1 OR (if b then 0x20 else 0))"
    "e6_set_bit5 b (w AND 0xDC OR 3) = put_field w 0x23 (3 OR (if b then 0x20 else 0))"
    "e6_set_bit5 b (w AND 0xDC OR 0x23) = put_field w 0x23 (3 OR (if b then 0x20 else 0))"
    by (cases b; rule u8_eqI; simp add: e6_set_bit5_def put_field_def bit_and_iff bit_or_iff bit_not_iff)+
  then show ?thesis by (auto simp: e6_fmt_bits_def e6_fmt_code_def)
qed

text \<open>
  The format programming as a function on the register file, None for a refused format:
  interface register bit 7 the clock role, bit 5 the bit clock inversion; both data registers
  the format code and the frame inversion; every other bit stays.
\<close>

definition e6_fmt_spec :: "u32 \<Rightarrow> (u32 \<Rightarrow> u32) \<Rightarrow> (u32 \<Rightarrow> u32) option" where
  "e6_fmt_spec fmt f =
     (let master = fmt AND SND_SOC_DAIFMT_MASTER_MASK; inversion = fmt AND SND_SOC_DAIFMT_INV_MASK;
          put = (\<lambda>m v w. ucast (put_field (ucast w) m v :: u8))
      in case e6_fmt_code (fmt AND SND_SOC_DAIFMT_FORMAT_MASK) of
           None \<Rightarrow> None
         | Some c \<Rightarrow>
             if master \<in> {SND_SOC_DAIFMT_CBM_CFM, SND_SOC_DAIFMT_CBS_CFS} \<and>
                inversion \<in> {SND_SOC_DAIFMT_NB_NF, SND_SOC_DAIFMT_IB_IF, SND_SOC_DAIFMT_IB_NF, SND_SOC_DAIFMT_NB_IF}
             then let bclk = (if inversion \<in> {SND_SOC_DAIFMT_IB_IF, SND_SOC_DAIFMT_IB_NF} then 0x20 else 0);
                      frame = (if inversion \<in> {SND_SOC_DAIFMT_IB_IF, SND_SOC_DAIFMT_NB_IF} then 0x20 else 0)
                  in Some (f(0x09 := put 0xa0 ((if master = SND_SOC_DAIFMT_CBM_CFM then 0x80 else 0) OR bclk) (f 0x09),
                             0x0a := put 0x23 (c OR frame) (f 0x0a), 0x0b := put 0x23 (c OR frame) (f 0x0b)))
             else None)"

context soc_bus
begin

lemma set_fmt_effect:
  "case e6_fmt_spec fmt (reg (e6_bus s)) of
     None \<Rightarrow> es8316_set_dai_fmt io fmt s = (- EINVAL, s)
   | Some f \<Rightarrow> fst (es8316_set_dai_fmt io fmt s) = 0 \<and> reg (e6_bus (snd (es8316_set_dai_fmt io fmt s))) = f"
proof -
  have iface: "(if b then (if a then w OR 0x80 else w AND 0x7F) OR 0x20 else (if a then w OR 0x80 else w AND 0x7F) AND 0xDF) =
      put_field w 0xa0 ((if a then 0x80 else 0) OR (if b then 0x20 else 0))" for a b and w :: u8
    by (cases a; cases b; rule u8_eqI; simp add: put_field_def bit_and_iff bit_or_iff bit_not_iff)
  have data: "e6_fmt_bits f w = None \<longleftrightarrow> e6_fmt_code f = None"
    "e6_fmt_bits f w = Some x \<Longrightarrow> (if b then x OR 0x20 else x AND 0xDF) = put_field w 0x23 (the (e6_fmt_code f) OR (if b then 0x20 else 0))"
    for f w x b
    using e6_fmt_bits_then_inversion [of b f w] by (cases "e6_fmt_code f"; auto simp: e6_set_bit5_def split: if_splits)+
  show ?thesis
  proof (cases "e6_fmt_code (fmt AND SND_SOC_DAIFMT_FORMAT_MASK)")
    case None
    then have "e6_fmt_bits (fmt AND SND_SOC_DAIFMT_FORMAT_MASK) w = None" for w using data(1) by blast
    with None show ?thesis by (simp add: es8316_set_dai_fmt_def Let_def e6_fmt_spec_def)
  next
    case (Some c)
    have "e6_fmt_bits (fmt AND SND_SOC_DAIFMT_FORMAT_MASK) w \<noteq> None" for w using data(1) Some by auto
    then obtain x y where xy: "e6_fmt_bits (fmt AND SND_SOC_DAIFMT_FORMAT_MASK) (ucast (reg (e6_bus s) 0x0a)) = Some x"
      "e6_fmt_bits (fmt AND SND_SOC_DAIFMT_FORMAT_MASK) (ucast (reg (e6_bus s) 0x0b)) = Some y" by blast
    show ?thesis
      by (simp only: es8316_set_dai_fmt_def e6_fmt_spec_def Let_def e6_read prod.case option.case Some option.sel xy
          iface data(2) [OF xy(1)] data(2) [OF xy(2)])
        (simp add: e6_reg fun_upd_def)
  qed
qed

end

subsection \<open>Probe\<close>

abbreviation (input) e6_start :: "'b es8316_chip \<Rightarrow> 'b e6_core" where
  "e6_start s \<equiv> \<lparr>e6_opened = {}, e6_failed = 0, e6_chip = s\<rparr>"

definition es8316_probed :: "'b soc_io \<Rightarrow> gpio_dt \<Rightarrow> 'b es8316_chip \<Rightarrow> 'b es8316_chip" where
  "es8316_probed io dt s = snd (es8316_probe io 0 (snd (es8316_i2c_probe io True True dt 0 s)))"

lemma es8316_seq_ends:
  "reg_seq (es8316_set_up_seq d) f ES8316_SYS_PDN_REG0D = 0x3F"
  "reg_seq (es8316_set_up_seq d) f ES8316_CLKMGR_ADCDIV2_REG05 = 0x00"
  by (simp_all add: reg_seq_def es8316_set_up_seq_def es8316_idle_seq_def es8316_init_seq_def)

context soc_bus
begin

lemma gpio_setup_reg: "reg (e6_bus (snd (es8316_gpio_setup io dt s))) = reg (e6_bus s)"
  "e6_pwr_count (snd (es8316_gpio_setup io dt s)) = e6_pwr_count s"
  "e6_dmic_amic (snd (es8316_gpio_setup io dt s)) = e6_dmic_amic s"
  by (simp_all add: es8316_gpio_setup_def Let_def soc_quiet)

lemma gpio_setup_pins:
  assumes "0 \<le> gd_gpio dt HP_CON" "gd_gpio dt SPK_CON \<noteq> gd_gpio dt HP_CON"
  shows "pin (e6_bus (snd (es8316_gpio_setup io dt s))) (gd_gpio dt HP_CON) = gd_active_low dt HP_CON"
    "e6_spk_ctl_gpio (snd (es8316_gpio_setup io dt s)) = (if gd_gpio dt SPK_CON < 0 then INVALID_GPIO else gd_gpio dt SPK_CON)"
    "0 \<le> gd_gpio dt SPK_CON \<Longrightarrow> e6_spk_gpio_level (snd (es8316_gpio_setup io dt s)) = (\<not> gd_active_low dt SPK_CON)"
  using assms by (simp_all add: es8316_gpio_setup_def Let_def gpio_out gpio_in)

lemma probed_state:
  assumes "reg (e6_bus s) ES8316_CLKMGR_ADCDIV2_REG05 = 0"
  shows "\<exists>s1. es8316_probed io dt s = es8316_set_up io (snd (es8316_reset io (snd (es8316_gpio_setup io dt s1)))) \<and>
    e6_pwr_count s1 = 0 \<and> e6_dmic_amic s1 = 0 \<and> e6_bus s1 = e6_bus s"
proof -
  let ?s1 = "s\<lparr>e6_dmic_amic := amic_used, e6_sysclk := 0, e6_constraints := None, e6_spk_ctl_gpio := 0,
         e6_hp_ctl_gpio := 0, e6_hp_det_gpio := 0, e6_spk_gpio_level := False, e6_hp_gpio_level := False,
         e6_hp_det_level := False, e6_pwr_count := 0\<rparr>"
  have "reg (e6_bus (snd (es8316_gpio_setup io dt ?s1))) ES8316_CLKMGR_ADCDIV2_REG05 = 0"
    using assms by (simp add: gpio_setup_reg)
  then have "es8316_probed io dt s = es8316_set_up io (snd (es8316_reset io (snd (es8316_gpio_setup io dt ?s1))))"
    by (simp add: es8316_probed_def es8316_i2c_probe_def es8316_probe_def Let_def reset_reg)
  then show ?thesis by (intro exI [of _ ?s1]) simp
qed

lemma probed_power:
  assumes "reg (e6_bus s) ES8316_CLKMGR_ADCDIV2_REG05 = 0"
  shows "e6_power reg (e6_start (es8316_probed io dt s))"
    "reg (e6_bus (es8316_probed io dt s)) ES8316_CLKMGR_ADCDIV2_REG05 = 0"
  using probed_state [OF assms, of dt]
  by (auto simp: e6_power_def e6_users_def set_up_reg set_up_frame reset_frame gpio_setup_reg es8316_seq_ends)

end


definition demo_es8316 :: "soc_chip es8316_chip" where
  "demo_es8316 = \<lparr>e6_dmic_amic = 0, e6_sysclk = 0, e6_constraints = None, e6_spk_ctl_gpio = 0, e6_hp_ctl_gpio = 0,
     e6_hp_det_gpio = 0, e6_spk_gpio_level = False, e6_hp_gpio_level = False, e6_hp_det_level = False, e6_pwr_count = 0,
     hp_irq_flag = False, mute_flag = 1, es8316_init_reg = False, es8316_codec = False, e6_bias = BIAS_OFF,
     e6_irq_depth = 0, e6_bus = \<lparr>sm_reg = (\<lambda>_. 0), sm_pin = (\<lambda>_. False)\<rparr>\<rparr>"

definition demo_gpios6 :: gpio_dt where
  "demo_gpios6 = \<lparr>gd_gpio = (\<lambda>n. case n of SPK_CON \<Rightarrow> 5 | HP_CON \<Rightarrow> 6 | HP_DET \<Rightarrow> 7),
     gd_active_low = (\<lambda>_. False), gd_request = (\<lambda>_. 0)\<rparr>"

lemma demo_es8316_reg5: "sm_reg (e6_bus demo_es8316) 0x05 = 0"
  by (simp add: demo_es8316_def)


text \<open>The stream parameters: a rate with a table entry for the system clock or half of it is
  accepted and any other refused with no change, but all that reaches the chip is the clock
  halving bit; the sample size is masked out of both data interface registers, and the
  dividers computed for the entry, which give exactly the master clock per sample, are never
  written.\<close>
theorem es8316_hw_params:
  assumes "soc_bus io pin reg"
    and "direct \<longleftrightarrow> (e6_sysclk s, p_rate p) \<in> (\<lambda>e. (e6_mclk e, e6_rate e)) ` set es8316_coeff_div"
    and "halved \<longleftrightarrow> (e6_sysclk s div 2, p_rate p) \<in> (\<lambda>e. (e6_mclk e, e6_rate e)) ` set es8316_coeff_div"
  shows "fst (es8316_pcm_hw_params io p s) = (if direct \<or> halved then 0 else - EINVAL) \<and>
    reg (e6_bus (snd (es8316_pcm_hw_params io p s))) =
      (if direct \<or> halved
       then (reg (e6_bus s))(0x01 := put_field (reg (e6_bus s) 0x01) 0x80 (if direct then 0 else 0x80))
       else reg (e6_bus s)) \<and>
    map (\<lambda>e. let d = es8316_dividers e srate adcdiv dacdiv
             in (push_bit 8 (d_adcdiv d AND 0x0f) OR d_adclrckdiv_l d, push_bit 8 (d_dacdiv d AND 0x0f) OR d_daclrckdiv_l d))
      es8316_coeff_div =
    map (\<lambda>e. (ucast (e6_mclk e div e6_rate e), ucast (e6_mclk e div e6_rate e))) es8316_coeff_div"
  using soc_bus.hw_params_effect [OF assms(1), of p s]
  unfolding assms(2,3) es8316_dividers_eq Let_def
  by (simp add: es8316_coeff_div_def coeff6_def)

theorem es8316_hw_params_witness:
  "fst (es8316_pcm_hw_params (soc_chip_io 0) \<lparr>p_format = 2, p_channels = 2, p_rate = 48000\<rparr>
     (demo_es8316\<lparr>e6_sysclk := 11289600\<rparr>)) = - EINVAL"
  using es8316_hw_params [OF soc_chip.soc_bus_axioms [of 0] refl refl,
      of "\<lparr>p_format = 2, p_channels = 2, p_rate = 48000\<rparr>" "demo_es8316\<lparr>e6_sysclk := 11289600\<rparr>"]
  by (simp add: es8316_coeff_div_def coeff6_def)

lemma e6_fmt_dsp: "fmt AND NOT 0x0f = fmt' AND NOT 0x0f \<Longrightarrow> fmt AND 0x0f = SND_SOC_DAIFMT_DSP_A \<Longrightarrow>
    fmt' AND 0x0f = SND_SOC_DAIFMT_DSP_B \<Longrightarrow> e6_fmt_spec fmt f = e6_fmt_spec fmt' f"
proof -
  assume h: "fmt AND NOT 0x0f = fmt' AND NOT 0x0f" and d: "fmt AND 0x0f = SND_SOC_DAIFMT_DSP_A" "fmt' AND 0x0f = SND_SOC_DAIFMT_DSP_B"
  have "x AND SND_SOC_DAIFMT_MASTER_MASK = (x AND NOT 0x0f) AND SND_SOC_DAIFMT_MASTER_MASK"
    "x AND SND_SOC_DAIFMT_INV_MASK = (x AND NOT 0x0f) AND SND_SOC_DAIFMT_INV_MASK" for x :: u32
    by (simp_all add: and.assoc)
  then have "fmt AND SND_SOC_DAIFMT_MASTER_MASK = fmt' AND SND_SOC_DAIFMT_MASTER_MASK"
    "fmt AND SND_SOC_DAIFMT_INV_MASK = fmt' AND SND_SOC_DAIFMT_INV_MASK" using h by metis+
  then show "e6_fmt_spec fmt f = e6_fmt_spec fmt' f"
    using d by (simp add: e6_fmt_spec_def Let_def e6_fmt_code_def)
qed

text \<open>The format call implements its specification on the register file: clock role and bit
  clock inversion in the interface register, format code and frame inversion in both data
  registers, all other bits and registers kept, a refused format without any change. The
  frame inversion shares its bit with the DSP mode: formats DSP A and DSP B program the same
  registers.\<close>
theorem es8316_set_fmt:
  assumes "soc_bus io pin reg"
  shows "(case e6_fmt_spec fmt (reg (e6_bus s)) of
     None \<Rightarrow> es8316_set_dai_fmt io fmt s = (- EINVAL, s)
   | Some f \<Rightarrow> fst (es8316_set_dai_fmt io fmt s) = 0 \<and> reg (e6_bus (snd (es8316_set_dai_fmt io fmt s))) = f) \<and>
   (fmt AND NOT 0x0f = fmt' AND NOT 0x0f \<and> fmt AND 0x0f = SND_SOC_DAIFMT_DSP_A \<and> fmt' AND 0x0f = SND_SOC_DAIFMT_DSP_B \<longrightarrow>
    fst (es8316_set_dai_fmt io fmt s) = fst (es8316_set_dai_fmt io fmt' s) \<and>
    reg (e6_bus (snd (es8316_set_dai_fmt io fmt s))) = reg (e6_bus (snd (es8316_set_dai_fmt io fmt' s))))"
  using soc_bus.set_fmt_effect [OF assms, of fmt s] soc_bus.set_fmt_effect [OF assms, of fmt' s]
    e6_fmt_dsp [of fmt fmt' "reg (e6_bus s)"]
  by (auto split: option.splits)

theorem es8316_set_fmt_witness:
  "sm_reg (e6_bus (snd (es8316_set_dai_fmt (soc_chip_io 0) 0x1104 demo_es8316))) =
   sm_reg (e6_bus (snd (es8316_set_dai_fmt (soc_chip_io 0) 0x1105 demo_es8316)))"
  using es8316_set_fmt [OF soc_chip.soc_bus_axioms [of 0], of "0x1104" demo_es8316 "0x1105"] by simp

text \<open>Resume restores what the probe has set: after any sequence of calls, every register of
  the set-up sequence, and the reset register, has the value it had after the probe. The
  power count is not part of that: with a stream still open the chip is left powered down.\<close>
theorem es8316_resume_restores:
  assumes "soc_bus io pin reg" "reg (e6_bus s) 0x05 = 0" "length cs < 2 ^ 32 - 1"
    and c: "c = e6_run io cs (e6_start (es8316_probed io dt s))"
  shows "(r \<in> fst ` set (es8316_set_up_seq 0) \<longrightarrow>
      reg (e6_bus (snd (es8316_resume io (e6_chip c)))) r = reg (e6_bus (es8316_probed io dt s)) r) \<and>
    reg (e6_bus (snd (es8316_resume io (e6_chip c)))) 0x0d = 0x3F \<and>
    e6_pwr_count (snd (es8316_resume io (e6_chip c))) = of_nat (card (e6_opened c) + e6_failed c)"
proof -
  note [simp] = soc_bus.reset_reg [OF assms(1)] soc_bus.e6_read [OF assms(1)] soc_bus.set_up_reg [OF assms(1)]
    soc_bus.reset_frame [OF assms(1)] soc_bus.set_up_frame [OF assms(1)]
  note pr = soc_bus.probed_power [OF assms(1,2), of dt]
  obtain s1 where s1: "es8316_probed io dt s = es8316_set_up io (snd (es8316_reset io (snd (es8316_gpio_setup io dt s1))))"
    "e6_dmic_amic s1 = 0" using soc_bus.probed_state [OF assms(1,2)] by blast
  have "e6_wiring (es8316_probed io dt s) = e6_wiring (snd (es8316_gpio_setup io dt s1))" by (simp add: s1(1))
  then have "e6_dmic_amic (es8316_probed io dt s) = 0"
    using soc_bus.gpio_setup_reg(3) [OF assms(1), of dt s1] s1(2) by (simp add: e6_wiring_def)
  moreover have w: "e6_wiring (e6_chip c) = e6_wiring (es8316_probed io dt s)"
    using soc_bus.run_spk_only [OF assms(1), of "e6_start (es8316_probed io dt s)" cs] by (simp add: c spk_only_def)
  ultimately have d: "e6_dmic_amic (snd (es8316_reset io (e6_chip c))) = 0"
    "e6_dmic_amic (snd (es8316_reset io (snd (es8316_gpio_setup io dt s1)))) = 0"
    using soc_bus.reset_frame(1) [OF assms(1)] s1 soc_bus.gpio_setup_reg(3) [OF assms(1), of dt s1]
    by (metis e6_wiring_def fst_conv)+
  have "reg (e6_bus (e6_chip c)) 0x05 = 0"
    using soc_bus.run_reg5 [OF assms(1), of cs "e6_start (es8316_probed io dt s)"] pr(2) by (simp add: c)
  then have r: "snd (es8316_resume io (e6_chip c)) = es8316_set_up io (snd (es8316_reset io (e6_chip c)))"
    by (simp add: es8316_resume_def Let_def)
  have "e6_power reg c" unfolding c
    by (rule soc_bus.power_run [OF assms(1) pr(1)]) (use assms(3) in \<open>simp add: e6_users_def\<close>)
  then show ?thesis
    using reg_seq_written [of r "es8316_set_up_seq 0"]
    by (auto simp: r s1(1) d es8316_seq_ends e6_power_def e6_users_def)
qed

theorem es8316_resume_restores_witness:
  "sm_reg (e6_bus (snd (es8316_resume (soc_chip_io 0)
      (e6_chip (e6_run (soc_chip_io 0) [E_set_fmt 0x1101] (e6_start (es8316_probed (soc_chip_io 0) demo_gpios6 demo_es8316))))))) 0x0d = 0x3F"
  using es8316_resume_restores [OF soc_chip.soc_bus_axioms [of 0] demo_es8316_reg5 _ refl, of "[E_set_fmt 0x1101]" 0 demo_gpios6]
  by simp


text \<open>The speaker pin: once the GPIO set-up is done, muting switches the speaker amplifier on,
  whether or not a headphone is in, and without a headphone interrupt it stays on whatever
  is called; the headphone control pin stays at its inactive level throughout.\<close>
theorem es8316_mute_speaker:
  assumes "soc_bus io pin reg" "0 \<le> gd_gpio dt SPK_CON" "0 \<le> gd_gpio dt HP_CON" "gd_gpio dt SPK_CON \<noteq> gd_gpio dt HP_CON"
    and "m \<noteq> 0" "list_all (\<lambda>x. \<not> is_detect x) cs2"
    and c: "c = e6_run io (cs1 @ E_mute a m # cs2) (e6_start (snd (es8316_gpio_setup io dt s)))"
  shows "pin (e6_bus (e6_chip c)) (gd_gpio dt SPK_CON) = (\<not> gd_active_low dt SPK_CON) \<and>
    pin (e6_bus (e6_chip c)) (gd_gpio dt HP_CON) = gd_active_low dt HP_CON"
proof -
  let ?s0 = "snd (es8316_gpio_setup io dt s)"
  define c1 where "c1 = e6_run io cs1 (e6_start ?s0)"
  define c2 where "c2 = e6_do io (E_mute a m) c1"
  have c': "c = e6_run io cs2 c2" by (simp add: c c1_def c2_def e6_run_def)
  note gs = soc_bus.gpio_setup_pins [OF assms(1,3,4), of s]
  have all: "spk_only pin ?s0 (e6_chip c)"
    using soc_bus.run_spk_only [OF assms(1), of "e6_start ?s0"] by (simp add: c)
  have s0: "e6_spk_ctl_gpio ?s0 = gd_gpio dt SPK_CON" "e6_spk_gpio_level ?s0 = (\<not> gd_active_low dt SPK_CON)"
    using gs(2,3) assms(2) by simp_all
  have "spk_only pin ?s0 (e6_chip c1)"
    using soc_bus.run_spk_only [OF assms(1), of "e6_start ?s0"] by (simp add: c1_def)
  then have l1: "e6_spk_ctl_gpio (e6_chip c1) = gd_gpio dt SPK_CON" "e6_spk_gpio_level (e6_chip c1) = (\<not> gd_active_low dt SPK_CON)"
    using soc_bus.wiring_levels [OF assms(1), of "e6_chip c1" ?s0] s0 by (auto simp: spk_only_def)
  have "e6_wiring (e6_chip c2) = e6_wiring (e6_chip c1)"
    by (simp add: c2_def soc_bus.mute_pin(2) [OF assms(1)])
  then have l2: "e6_spk_ctl_gpio (e6_chip c2) = gd_gpio dt SPK_CON" "e6_spk_gpio_level (e6_chip c2) = (\<not> gd_active_low dt SPK_CON)"
    using soc_bus.wiring_levels [OF assms(1), of "e6_chip c2" "e6_chip c1"] l1 by auto
  have "pin (e6_bus (e6_chip c2)) (gd_gpio dt SPK_CON) = (\<not> gd_active_low dt SPK_CON)"
    using assms(2,5) by (simp add: c2_def soc_bus.mute_pin(1) [OF assms(1)] l1)
  then have "pin (e6_bus (e6_chip c)) (e6_spk_ctl_gpio (e6_chip c)) = e6_spk_gpio_level (e6_chip c)"
    using soc_bus.run_spk_stays [OF assms(1,6), of c2] l2 by (simp add: c')
  then show ?thesis
    using all soc_bus.wiring_levels [OF assms(1), of "e6_chip c" ?s0] s0 gs(1) assms(4) by (auto simp: spk_only_def)
qed

theorem es8316_mute_speaker_witness:
  "\<exists>c. c = e6_run (soc_chip_io 0) ([E_detect 40] @ E_mute True 1 # [E_set_fmt 0x1101])
      (e6_start (snd (es8316_gpio_setup (soc_chip_io 0) demo_gpios6 demo_es8316))) \<and>
    sm_pin (e6_bus (e6_chip c)) 5 \<and> \<not> sm_pin (e6_bus (e6_chip c)) 6"
  using es8316_mute_speaker [OF soc_chip.soc_bus_axioms [of 0] _ _ _ _ _ refl,
      of demo_gpios6 1 "[E_set_fmt 0x1101]" "[E_detect 40]" True demo_es8316]
  by (simp add: demo_gpios6_def del: e6_do.simps)

end
