(* ===== verification/Rk_Cards_Props.thy ===== *)
theory Rk_Cards_Props
  imports Rk_Cards Es8323_Props Es8316_Props Rk_I2s_Props
begin

text \<open>
  What the sound cards make of their two chips: opposite clock roles, one behaviour of both
  cards on the rates they support, the frame clock that results, and the rates that work
  end to end.
\<close>

subsection \<open>The codec as the card sees it\<close>

locale codec_dai =
  fixes set_fmt :: "u32 \<Rightarrow> 'c \<Rightarrow> int \<times> 'c"
    and ready :: "'c \<Rightarrow> bool"
    and drives :: "'c \<Rightarrow> bool" \<comment> \<open>the codec drives bit and frame clock\<close>
  assumes fmt_accepted: "ready c \<Longrightarrow> 0 \<le> fst (set_fmt f c) \<Longrightarrow>
      f AND SND_SOC_DAIFMT_MASTER_MASK \<in> {SND_SOC_DAIFMT_CBM_CFM, SND_SOC_DAIFMT_CBS_CFS} \<and>
      drives (snd (set_fmt f c)) = (f AND SND_SOC_DAIFMT_MASTER_MASK = SND_SOC_DAIFMT_CBM_CFM) \<and>
      ready (snd (set_fmt f c))"
    and fmt_refused: "ready c \<Longrightarrow> fst (set_fmt f c) < 0 \<Longrightarrow> snd (set_fmt f c) = c"

text \<open>The clock framework sets a rate without touching the controller's registers.\<close>

locale i2s_clocked = i2s_port rm reg for rm :: "'d regmap_ops" and reg +
  fixes clk :: "u32 \<Rightarrow> 'd \<Rightarrow> int \<times> 'd"
  assumes clk_regs: "reg (snd (clk f d)) = reg d"

interpretation chip_clk: i2s_clocked "i2s_chip k" fst "\<lambda>f d. (0, d)" for k
  by unfold_locales simp

lemma e6_fmt_spec_role:
  assumes "e6_fmt_spec f r = Some g"
  shows "f AND SND_SOC_DAIFMT_MASTER_MASK \<in> {SND_SOC_DAIFMT_CBM_CFM, SND_SOC_DAIFMT_CBS_CFS}"
    "bit (g 0x09) 7 = (f AND SND_SOC_DAIFMT_MASTER_MASK = SND_SOC_DAIFMT_CBM_CFM)"
proof -
  have b: "bit (ucast (put_field (w :: u8) 0xa0 ((if m then 0x80 else 0) OR (if i then 0x20 else 0))) :: u32) 7 = m" for w m i
    by (simp add: put_field_def bit_or_iff bit_and_iff bit_ucast_iff)
  have "\<exists>i. g 0x09 = ucast (put_field (ucast (r 0x09)) 0xa0
      ((if f AND SND_SOC_DAIFMT_MASTER_MASK = SND_SOC_DAIFMT_CBM_CFM then 0x80 else 0) OR (if i then 0x20 else 0) :: u8))"
    using assms unfolding e6_fmt_spec_def Let_def
    by (intro exI [of _ "f AND SND_SOC_DAIFMT_INV_MASK \<in> {SND_SOC_DAIFMT_IB_IF, SND_SOC_DAIFMT_IB_NF}"])
      (simp only: fun_upd_apply split: option.splits if_splits; auto)
  then show "bit (g 0x09) 7 = (f AND SND_SOC_DAIFMT_MASTER_MASK = SND_SOC_DAIFMT_CBM_CFM)" by (elim exE) (simp only: b)
  show "f AND SND_SOC_DAIFMT_MASTER_MASK \<in> {SND_SOC_DAIFMT_CBM_CFM, SND_SOC_DAIFMT_CBS_CFS}"
    using assms by (auto simp: e6_fmt_spec_def Let_def split: option.splits if_splits)
qed

lemma es8323_fmt_writes:
  assumes "0 \<le> fst (es8323_set_dai_fmt io f c)"
  shows "f AND SND_SOC_DAIFMT_MASTER_MASK \<in> {SND_SOC_DAIFMT_CBM_CFM, SND_SOC_DAIFMT_CBS_CFS}"
    "\<exists>w a d. snd (es8323_set_dai_fmt io f c) = es8323_writes io [(0x08, ucast w), (0x0c, a), (0x17, d)] c \<and>
      bit (w :: u8) 7 = (f AND SND_SOC_DAIFMT_MASTER_MASK = SND_SOC_DAIFMT_CBM_CFM)"
proof -
  have b: "bit (if i then (if m then w OR 0x80 else w AND 0x7F) OR 0x20 else (if m then w OR 0x80 else w AND 0x7F) AND 0xDF) 7 = m"
    for i m and w :: u8 by (simp add: bit_or_iff bit_and_iff)
  let ?m = "f AND SND_SOC_DAIFMT_MASTER_MASK \<in> {SND_SOC_DAIFMT_CBM_CFM, SND_SOC_DAIFMT_CBS_CFS}"
    and ?f = "f AND SND_SOC_DAIFMT_FORMAT_MASK \<in> {SND_SOC_DAIFMT_I2S, SND_SOC_DAIFMT_RIGHT_J, SND_SOC_DAIFMT_LEFT_J,
      SND_SOC_DAIFMT_DSP_A, SND_SOC_DAIFMT_DSP_B}"
    and ?i = "f AND SND_SOC_DAIFMT_INV_MASK \<in> {SND_SOC_DAIFMT_NB_NF, SND_SOC_DAIFMT_IB_IF, SND_SOC_DAIFMT_IB_NF, SND_SOC_DAIFMT_NB_IF}"
  have refused: "fst (es8323_set_dai_fmt io f c) = - EINVAL" if "\<not> (?m \<and> ?f \<and> ?i)"
    using that
    by (cases ?m; cases ?f)
      (simp_all only: es8323_set_dai_fmt_def Let_def prod.case_eq_if if_True if_False not_True_eq_False
        not_False_eq_True fst_conv simp_thms)
  with assms have ok: "?m" "?f" "?i" by (metis neg_0_le_iff_le not_numeral_le_zero)+
  show ?m by (rule ok)
  show "\<exists>w a d. snd (es8323_set_dai_fmt io f c) = es8323_writes io [(0x08, ucast w), (0x0c, a), (0x17, d)] c \<and>
      bit (w :: u8) 7 = (f AND SND_SOC_DAIFMT_MASTER_MASK = SND_SOC_DAIFMT_CBM_CFM)"
    by (simp only: es8323_set_dai_fmt_def Let_def ok if_True if_False not_True_eq_False snd_conv prod.case_eq_if)
      (intro exI conjI, rule refl, rule b)
qed

sublocale codec_bus \<subseteq> es8323_port: codec_dai "es8323_set_dai_fmt io" "es8323_coherent dev es8323_known"
    "\<lambda>s. bit (dev (ec_bus s) 0x08) 7"
proof
  fix c f assume c: "es8323_coherent dev es8323_known c" and ok: "0 \<le> fst (es8323_set_dai_fmt io f c)"
  show "f AND SND_SOC_DAIFMT_MASTER_MASK \<in> {SND_SOC_DAIFMT_CBM_CFM, SND_SOC_DAIFMT_CBS_CFS} \<and>
      bit (dev (ec_bus (snd (es8323_set_dai_fmt io f c))) 0x08) 7 = (f AND SND_SOC_DAIFMT_MASTER_MASK = SND_SOC_DAIFMT_CBM_CFM) \<and>
      es8323_coherent dev es8323_known (snd (es8323_set_dai_fmt io f c))"
    using es8323_fmt_writes [OF ok] set_fmt_coherent [OF c, of f] by (auto simp: es8323_write_chip bit_ucast_iff)
next
  fix c f assume "fst (es8323_set_dai_fmt io f c) < 0"
  then show "snd (es8323_set_dai_fmt io f c) = c"
    by (auto simp: es8323_set_dai_fmt_def Let_def split: if_splits prod.splits)
qed

sublocale soc_bus \<subseteq> es8316_port: codec_dai "es8316_set_dai_fmt io" "\<lambda>_. True" "\<lambda>s. bit (reg (e6_bus s) 0x09) 7"
proof
  fix c :: "'b es8316_chip" and f
  note eff = set_fmt_effect [of f c]
  show "f AND SND_SOC_DAIFMT_MASTER_MASK \<in> {SND_SOC_DAIFMT_CBM_CFM, SND_SOC_DAIFMT_CBS_CFS} \<and>
      bit (reg (e6_bus (snd (es8316_set_dai_fmt io f c))) 0x09) 7 = (f AND SND_SOC_DAIFMT_MASTER_MASK = SND_SOC_DAIFMT_CBM_CFM) \<and> True"
    if "0 \<le> fst (es8316_set_dai_fmt io f c)"
    using that eff e6_fmt_spec_role by (auto split: option.splits)
  show "snd (es8316_set_dai_fmt io f c) = c" if "fst (es8316_set_dai_fmt io f c) < 0"
    using that eff by (auto split: option.splits)
qed

context codec_bus
begin

lemma es8323_dai: "codec_dai (es8323_set_dai_fmt io) (es8323_coherent dev es8323_known) (\<lambda>s. bit (dev (ec_bus s) 0x08) 7)"
  by (rule es8323_port.codec_dai_axioms)

end

context soc_bus
begin

lemma es8316_dai: "codec_dai (es8316_set_dai_fmt io) (\<lambda>_. True) (\<lambda>s. bit (reg (e6_bus s) 0x09) 7)"
  by (rule es8316_port.codec_dai_axioms)

end

subsection \<open>The two cards\<close>

lemma i2s_set_fmt_ret: "rockchip_i2s_set_fmt rm f i = Some (r, i') \<Longrightarrow> r = 0"
  by (auto simp: rockchip_i2s_set_fmt_def Let_def split: option.splits bind_splits)

lemma pll_rate_nonzero: "pll_for_rate rate = Some p \<Longrightarrow> rate \<noteq> 0"
  by (auto simp: pll_for_rate_def split: if_splits)

lemma cards_equal: "pll_for_rate rate = Some p \<Longrightarrow> rk_es8323_hw_params f rm clk fmt rate ci = rk_es8316_hw_params f rm clk fmt rate ci"
  using pll_rate_nonzero [of rate p] i2s_set_fmt_ret
  by (cases ci; cases "f fmt (fst ci)"; cases "rockchip_i2s_set_fmt rm fmt (snd ci)")
    (auto simp: rk_es8323_hw_params_def rk_es8316_hw_params_def split: prod.splits dest!: i2s_set_fmt_ret)



context i2s_clocked
begin

lemma sysclk_reg: "reg (i2s_bus (snd (rockchip_i2s_set_sysclk clk q i))) = reg (i2s_bus i)"
  "i2s_locked (snd (rockchip_i2s_set_sysclk clk q i)) = i2s_locked i"
  by (simp_all add: rockchip_i2s_set_sysclk_def Let_def clk_regs split: prod.split) (metis clk_regs snd_conv)

lemma card_divisor:
  assumes "pll_for_rate rate = Some pll"
  shows "sint ((pll div 4) div rate - 1) = int (unat pll div 4 div unat rate) - 1"
    "unat pll div 4 div unat rate < 512"
    "rate = 8000 \<Longrightarrow> unat pll div 4 div unat rate = 384"
    "rate \<noteq> 8000 \<Longrightarrow> unat pll div 4 div unat rate \<le> 256 \<and> 0 < unat pll div 4 div unat rate \<and>
       unat pll div 4 div unat rate * unat rate = unat pll div 4"
  using assms by (auto simp: pll_for_rate_def split: if_splits)

lemma card_clocks_result:
  assumes i: "\<not> i2s_locked i" and pll: "pll_for_rate rate = Some pll"
  shows "\<exists>i'. card_clocks rm clk fmt pll rate i = Some i' \<and>
    bit (reg (i2s_bus i') I2S_CKR) 27 = bit (reg (i2s_bus i) I2S_CKR) 27 \<and>
    (fmt AND SND_SOC_DAIFMT_MASTER_MASK = SND_SOC_DAIFMT_CBS_CFS \<longrightarrow>
       reg (i2s_bus i') I2S_CKR AND 0xff = word_of_int ((int (unat pll div 4 div unat rate) - 1) mod 256) \<and>
       drop_bit 16 (reg (i2s_bus i') I2S_CKR AND 0xff0000) = 3)"
proof (cases "fmt AND SND_SOC_DAIFMT_MASTER_MASK = SND_SOC_DAIFMT_CBS_CFS")
  case True
  define n where "n = int (unat pll div 4 div unat rate) - 1"
  have n: "0 \<le> n" "n < 2 ^ 15" "sint ((pll div 4) div rate - 1) = n"
    using card_divisor [OF pll] by (cases "rate = 8000"; auto simp: n_def)+
  let ?i0 = "snd (rockchip_i2s_set_sysclk clk pll i)"
  have l0: "\<not> i2s_locked ?i0" using i by (simp add: sysclk_reg)
  obtain i1 where i1: "rockchip_i2s_set_clkdiv rm 1 n ?i0 = Some (0, i1)" "\<not> i2s_locked i1"
    "reg (i2s_bus i1) = (reg (i2s_bus i))(I2S_CKR := put_field (reg (i2s_bus i) I2S_CKR) 0xffff
      ((word_of_int n OR word_of_int (n * 2 ^ 8)) AND 0xffff))"
    using clkdiv_reg [OF l0 n(1,2), of 1] by (auto simp: sysclk_reg)
  obtain i2 where i2: "rockchip_i2s_set_clkdiv rm 0 3 i1 = Some (0, i2)"
    "reg (i2s_bus i2) = (reg (i2s_bus i1))(I2S_CKR := put_field (reg (i2s_bus i1) I2S_CKR) 0xff0000
      (word_of_int (3 * 2 ^ 16) AND 0xff0000))"
    using clkdiv_reg [OF i1(2), of 3 0] by auto
  have "card_clocks rm clk fmt pll rate i = Some i2"
    using True pll_rate_nonzero [OF pll] n(3) i1(1) i2(1) by (simp add: card_clocks_def)
  moreover have "reg (i2s_bus i2) I2S_CKR AND 0xff = word_of_int (n mod 256)"
  proof -
    have "reg (i2s_bus i2) I2S_CKR AND 0xff = reg (i2s_bus i1) I2S_CKR AND 0xff"
      unfolding i2(2) using put_field_frame [of "0xff" "0xff0000" "reg (i2s_bus i1) I2S_CKR" "0x30000"] by simp
    also have "\<dots> = (word_of_int n OR word_of_int (n * 2 ^ 8)) AND 0xff"
      unfolding i1(3) using put_field_part [of "0xff" "0xffff"] by simp
    finally show ?thesis using low_byte [of n] low_of_shifted [of n] by (simp add: bit.conj_disj_distrib2)
  qed
  moreover have "drop_bit 16 (reg (i2s_bus i2) I2S_CKR AND 0xff0000) = 3"
  proof -
    have "reg (i2s_bus i2) I2S_CKR AND 0xff0000 = 0x30000"
      unfolding i2(2) using put_field_read [of "reg (i2s_bus i1) I2S_CKR" "0xff0000" "0x30000"] by simp
    then have "drop_bit 16 (reg (i2s_bus i2) I2S_CKR AND 0xff0000) = drop_bit 16 0x30000" by (simp only:)
    then show ?thesis by simp
  qed
  moreover have "bit (reg (i2s_bus i2) I2S_CKR) 27 = bit (reg (i2s_bus i) I2S_CKR) 27"
    unfolding i2(2) i1(3) by (simp add: put_field_def bit_or_iff bit_and_iff bit_not_iff)
  ultimately show ?thesis using n_def by auto
qed (simp add: card_clocks_def)

lemma set_fmt_role:
  assumes "\<not> i2s_locked i" "f AND SND_SOC_DAIFMT_MASTER_MASK \<in> {SND_SOC_DAIFMT_CBM_CFM, SND_SOC_DAIFMT_CBS_CFS}"
  shows "\<exists>i'. rockchip_i2s_set_fmt rm f i = Some (0, i') \<and> \<not> i2s_locked i' \<and>
    bit (reg (i2s_bus i') I2S_CKR) 27 = (f AND SND_SOC_DAIFMT_MASTER_MASK = SND_SOC_DAIFMT_CBM_CFM)"
proof -
  obtain i' where i': "rockchip_i2s_set_fmt rm f i = Some (0, i')" "\<not> i2s_locked i'"
    "reg (i2s_bus i') = (case i2s_mss (f AND 0xf000) of None \<Rightarrow> reg (i2s_bus i) | Some mss \<Rightarrow>
      (let g = (reg (i2s_bus i))(I2S_CKR := put_field (reg (i2s_bus i) I2S_CKR) 0x8000000 (mss AND 0x8000000)) in
       case i2s_ibm (f AND 0xf) of None \<Rightarrow> g | Some ibm \<Rightarrow>
       g(I2S_TXCR := put_field (g I2S_TXCR) 0x600 (ibm AND 0x600), I2S_RXCR := put_field (g I2S_RXCR) 0x600 (ibm AND 0x600))))"
    using set_fmt_reg [OF assms(1), of f] by blast
  obtain mss where m: "i2s_mss (f AND 0xf000) = Some mss"
    "mss = (if f AND SND_SOC_DAIFMT_MASTER_MASK = SND_SOC_DAIFMT_CBM_CFM then 0x8000000 else 0)"
    using assms(2) by (auto simp: i2s_mss_def)
  have "bit (reg (i2s_bus i') I2S_CKR) 27 = bit (put_field (reg (i2s_bus i) I2S_CKR) 0x8000000 (mss AND 0x8000000)) 27"
    unfolding i'(3) m(1) by (simp add: Let_def split: option.split)
  also have "\<dots> = (f AND SND_SOC_DAIFMT_MASTER_MASK = SND_SOC_DAIFMT_CBM_CFM)"
    unfolding m(2) by (simp add: put_field_def bit_or_iff bit_and_iff bit_not_iff)
  finally show ?thesis using i' by blast
qed

end

subsection \<open>Properties\<close>

text \<open>A codec and a clocked controller: what a card's set-up leaves, whatever the codec.\<close>

lemma card_result:
  assumes "codec_dai set_fmt ready drives" "i2s_clocked rm reg clk" "ready c" "\<not> i2s_locked i"
    and pll: "pll_for_rate rate = Some pll" and ok: "0 \<le> fst (set_fmt fmt c)"
  shows "\<exists>c' i'. rk_es8316_hw_params set_fmt rm clk fmt rate (c, i) = Some (0, c', i') \<and>
    bit (reg (i2s_bus i') I2S_CKR) 27 = drives c' \<and>
    drives c' = (fmt AND SND_SOC_DAIFMT_MASTER_MASK = SND_SOC_DAIFMT_CBM_CFM) \<and>
    (\<not> drives c' \<longrightarrow>
       reg (i2s_bus i') I2S_CKR AND 0xff = word_of_int ((int (unat pll div 4 div unat rate) - 1) mod 256) \<and>
       drop_bit 16 (reg (i2s_bus i') I2S_CKR AND 0xff0000) = 3)"
proof -
  obtain r c' where f: "set_fmt fmt c = (r, c')" "0 \<le> r" using ok by (cases "set_fmt fmt c") simp
  have d: "fmt AND SND_SOC_DAIFMT_MASTER_MASK \<in> {SND_SOC_DAIFMT_CBM_CFM, SND_SOC_DAIFMT_CBS_CFS}"
    "drives c' = (fmt AND SND_SOC_DAIFMT_MASTER_MASK = SND_SOC_DAIFMT_CBM_CFM)"
    using codec_dai.fmt_accepted [OF assms(1,3) ok] by (simp_all add: f)
  obtain i1 where i1: "rockchip_i2s_set_fmt rm fmt i = Some (0, i1)" "\<not> i2s_locked i1"
    "bit (reg (i2s_bus i1) I2S_CKR) 27 = (fmt AND SND_SOC_DAIFMT_MASTER_MASK = SND_SOC_DAIFMT_CBM_CFM)"
    using i2s_clocked.set_fmt_role [OF assms(2,4) d(1)] by blast
  obtain i2 where i2: "card_clocks rm clk fmt pll rate i1 = Some i2"
    "bit (reg (i2s_bus i2) I2S_CKR) 27 = bit (reg (i2s_bus i1) I2S_CKR) 27"
    "fmt AND SND_SOC_DAIFMT_MASTER_MASK = SND_SOC_DAIFMT_CBS_CFS \<longrightarrow>
       reg (i2s_bus i2) I2S_CKR AND 0xff = word_of_int ((int (unat pll div 4 div unat rate) - 1) mod 256) \<and>
       drop_bit 16 (reg (i2s_bus i2) I2S_CKR AND 0xff0000) = 3"
    using i2s_clocked.card_clocks_result [OF assms(2) i1(2) pll, of fmt] by blast
  have "rk_es8316_hw_params set_fmt rm clk fmt rate (c, i) = Some (0, c', i2)"
    using f i1(1) i2(1) pll by (simp add: rk_es8316_hw_params_def)
  then show ?thesis using d i1(3) i2(2,3) by auto
qed

text \<open>C16: Clock roles: with either card, a supported rate and a format the codec accepts, setting
  the parameters succeeds and exactly one side drives the bit and frame clock, the codec or
  the controller, as the device tree's format says.\<close>
theorem cards_roles:
  assumes "codec_bus io pin dev" "soc_bus io' pin' reg'" "i2s_clocked rm reg clk"
    and "es8323_coherent dev es8323_known c3" "\<not> i2s_locked i" "pll_for_rate rate \<noteq> None"
  shows "(0 \<le> fst (es8323_set_dai_fmt io fmt c3) \<longrightarrow>
      (\<exists>c' i'. rk_es8323_hw_params (es8323_set_dai_fmt io) rm clk fmt rate (c3, i) = Some (0, c', i') \<and>
        bit (reg (i2s_bus i') I2S_CKR) 27 = bit (dev (ec_bus c') 0x08) 7 \<and>
        bit (dev (ec_bus c') 0x08) 7 = (fmt AND SND_SOC_DAIFMT_MASTER_MASK = SND_SOC_DAIFMT_CBM_CFM))) \<and>
    (0 \<le> fst (es8316_set_dai_fmt io' fmt c6) \<longrightarrow>
      (\<exists>c' i'. rk_es8316_hw_params (es8316_set_dai_fmt io') rm clk fmt rate (c6, i) = Some (0, c', i') \<and>
        bit (reg (i2s_bus i') I2S_CKR) 27 = bit (reg' (e6_bus c') 0x09) 7 \<and>
        bit (reg' (e6_bus c') 0x09) 7 = (fmt AND SND_SOC_DAIFMT_MASTER_MASK = SND_SOC_DAIFMT_CBM_CFM)))"
proof -
  obtain pll where pll: "pll_for_rate rate = Some pll" using assms(6) by blast
  have e: "rk_es8323_hw_params (es8323_set_dai_fmt io) rm clk fmt rate (c3, i) =
      rk_es8316_hw_params (es8323_set_dai_fmt io) rm clk fmt rate (c3, i)" by (rule cards_equal [OF pll])
  show ?thesis
    using card_result [OF codec_bus.es8323_dai [OF assms(1)] assms(3,4,5) pll, of fmt]
      card_result [OF soc_bus.es8316_dai [OF assms(2)] assms(3) TrueI assms(5) pll, of fmt c6]
    unfolding e by fast
qed

lemma demo_card_i2s: "\<not> i2s_locked (demo_dev (\<lambda>_. 0, 0))"
  by (simp add: demo_dev_def)

theorem cards_roles_witness:
  "\<exists>c' i'. rk_es8316_hw_params (es8316_set_dai_fmt (soc_chip_io 0)) (i2s_chip 3) (\<lambda>f d. (0, d)) 0x4101 44100
      (demo_es8316, demo_dev (\<lambda>_. 0, 0)) = Some (0, c', i') \<and> \<not> bit (fst (i2s_bus i') I2S_CKR) 27"
proof -
  have "fst (es8316_set_dai_fmt (soc_chip_io 0) 0x4101 demo_es8316) = 0"
    using soc_bus.set_fmt_effect [OF soc_chip.soc_bus_axioms [of 0], of "0x4101" demo_es8316]
    by (simp add: e6_fmt_spec_def e6_fmt_code_def)
  moreover have "pll_for_rate 44100 \<noteq> None" by (simp add: pll_for_rate_def)
  ultimately show ?thesis
    using cards_roles [OF chip_io.codec_bus_axioms [of 0] soc_chip.soc_bus_axioms [of 0] chip_clk.i2s_clocked_axioms [of 3]
        demo_es8323_probed demo_card_i2s, of 44100 "0x4101" demo_es8316]
    by auto
qed



text \<open>C18: The frame clock: when the controller drives the clocks, on a supported rate the master
  clock divider is 4 and the frame divider makes exactly the sample rate out of it, except
  for 8000 Hz: there the divider does not fit its field and the frame clock comes out as
  24000 Hz.\<close>
theorem cards_frame_clock:
  assumes "codec_dai set_fmt ready drives" "i2s_clocked rm reg clk" "ready c" "\<not> i2s_locked i"
    and "pll_for_rate rate = Some pll" "0 \<le> fst (set_fmt fmt c)"
    and "fmt AND SND_SOC_DAIFMT_MASTER_MASK = SND_SOC_DAIFMT_CBS_CFS"
  shows "\<exists>c' i'. rk_es8323_hw_params set_fmt rm clk fmt rate (c, i) = Some (0, c', i') \<and>
    (unat (drop_bit 16 (reg (i2s_bus i') I2S_CKR AND 0xff0000)) + 1) * (unat (reg (i2s_bus i') I2S_CKR AND 0xff) + 1) *
      (if rate = 8000 then 24000 else unat rate) = unat pll"
proof -
  obtain c' i' where r: "rk_es8316_hw_params set_fmt rm clk fmt rate (c, i) = Some (0, c', i')"
    "reg (i2s_bus i') I2S_CKR AND 0xff = word_of_int ((int (unat pll div 4 div unat rate) - 1) mod 256)"
    "drop_bit 16 (reg (i2s_bus i') I2S_CKR AND 0xff0000) = 3"
    using card_result [OF assms(1-6)] assms(7) by auto
  have n: "(unat (3 :: u32) + 1) * (unat (word_of_int ((int (unat pll div 4 div unat rate) - 1) mod 256) :: u32) + 1) *
      (if rate = 8000 then 24000 else unat rate) = unat pll"
    using assms(5) by (auto simp: pll_for_rate_def split: if_splits)
  show ?thesis
    by (intro exI conjI, subst cards_equal [OF assms(5)], rule r(1), unfold r(2,3), rule n)
qed

theorem cards_frame_clock_witness:
  "\<exists>c' i'. rk_es8323_hw_params (es8316_set_dai_fmt (soc_chip_io 0)) (i2s_chip 3) (\<lambda>f d. (0, d)) 0x4101 8000
      (demo_es8316, demo_dev (\<lambda>_. 0, 0)) = Some (0, c', i') \<and>
    (unat (drop_bit 16 (fst (i2s_bus i') I2S_CKR AND 0xff0000)) + 1) * (unat (fst (i2s_bus i') I2S_CKR AND 0xff) + 1) * 24000 = 12288000"
proof -
  have "0 \<le> fst (es8316_set_dai_fmt (soc_chip_io 0) 0x4101 demo_es8316)"
    using soc_bus.set_fmt_effect [OF soc_chip.soc_bus_axioms [of 0], of "0x4101" demo_es8316]
    by (simp add: e6_fmt_spec_def e6_fmt_code_def)
  moreover have "pll_for_rate 8000 = Some 12288000" by (simp add: pll_for_rate_def)
  ultimately show ?thesis
    using cards_frame_clock [OF soc_bus.es8316_dai [OF soc_chip.soc_bus_axioms [of 0]] chip_clk.i2s_clocked_axioms [of 3]
        TrueI demo_card_i2s, of 8000 12288000 "0x4101" demo_es8316] by simp
qed

subsection \<open>Rates that work end to end\<close>

text \<open>The codec operation accepts a rate that has a table entry for its clock or half of it.\<close>

definition es8323_accepts :: "u32 \<Rightarrow> u32 \<Rightarrow> bool" where
  "es8323_accepts sysclk rate \<longleftrightarrow> 0 \<le> es8323_get_coeff sysclk rate \<or> 0 \<le> es8323_get_coeff (sysclk div 2) rate"

definition es8316_accepts :: "u32 \<Rightarrow> u32 \<Rightarrow> bool" where
  "es8316_accepts sysclk rate \<longleftrightarrow> 0 \<le> es8316_get_coeff sysclk rate \<or> 0 \<le> es8316_get_coeff (sysclk div 2) rate"

text \<open>The codecs' clock: the cards tell the codec once that its clock is 11289600 Hz. With that
  both codecs accept the same rates, five of the 44.1 kHz family and 8000 Hz, and of the
  rates the cards clock only 11025, 22050 and 44100 Hz are accepted with the clock the codec
  believes in; 8000 Hz is accepted with another clock, the rest of the cards' rates refused.\<close>
theorem cards_rates:
  "fst (rk3288_es8323_init c3) = 0 \<and> ec_sysclk (snd (rk3288_es8323_init c3)) = 11289600 \<and>
   fst (rk3288_es8316_init c6) = 0 \<and> e6_sysclk (snd (rk3288_es8316_init c6)) = 11289600 \<and>
   {r. es8323_accepts 11289600 r} = {8000, 11025, 22050, 44100, 88200} \<and>
   {r. es8316_accepts 11289600 r} = {8000, 11025, 22050, 44100, 88200} \<and>
   {r. es8316_accepts 11289600 r \<and> pll_for_rate r = Some 11289600} = {11025, 22050, 44100} \<and>
   {r. es8316_accepts 11289600 r \<and> pll_for_rate r = Some 12288000} = {8000}"
proof -
  have 3: "es8323_accepts 11289600 r \<longleftrightarrow> r \<in> {8000, 11025, 22050, 44100, 88200}" for r
    by (auto simp: es8323_accepts_def es8323_get_coeff_def es8323_coeff_div_def coeff_def)
  have 6: "es8316_accepts 11289600 r \<longleftrightarrow> r \<in> {8000, 11025, 22050, 44100, 88200}" for r
    by (auto simp: es8316_accepts_def es8316_get_coeff_def es8316_coeff_div_def coeff6_def)
  show ?thesis unfolding 3 6
    by (auto simp: rk3288_es8323_init_def es8323_set_dai_sysclk_def rk3288_es8316_init_def es8316_set_dai_sysclk_def
        pll_for_rate_def split: if_splits)
qed

subsection \<open>Device tree\<close>

text \<open>
  With the one link both cards have, only the first child counts: the parse succeeds exactly
  when it has a format with a clock role and both phandles, and fills the link from it.
\<close>

lemma parse_card_one_link:
  "parse_card_info_from_dt dais [l] =
     (case dais of Some (d # _) \<Rightarrow>
        if dn_fmt d AND SND_SOC_DAIFMT_MASTER_MASK = 0 then Some (- EINVAL, [l\<lparr>dl_fmt := dn_fmt d\<rparr>])
        else if dn_codec d = None then Some (- EINVAL, [l\<lparr>dl_fmt := dn_fmt d, dl_codec := None\<rparr>])
        else if dn_controller d = None
        then Some (- EINVAL, [l\<lparr>dl_fmt := dn_fmt d, dl_codec := dn_codec d, dl_cpu := None\<rparr>])
        else Some (0, [l\<lparr>dl_fmt := dn_fmt d, dl_codec := dn_codec d, dl_cpu := dn_controller d, dl_platform := dn_controller d\<rparr>])
      | _ \<Rightarrow> Some (- EINVAL, [l]))"
  by (cases dais; cases "the dais") (auto simp: parse_card_info_from_dt_def)

end
