(* ===== verification/Codec_Tables.thy ===== *)
theory Codec_Tables
  imports Codec_Common
begin

text \<open>
  The tables the codec drivers hand to the sound core, as data: volume scales, enumerations,
  controls, widgets and routes, with the source's macros as constructors; what makes them
  well-formed; and when a path between two widgets is connected.
\<close>

subsection \<open>Data\<close>

text \<open>A volume scale: one step width from a minimum, or ranges behind a head that announces their number.\<close>

datatype tlv_item = TLV_DB_SCALE_ITEM int int bool

datatype tlv = TLV_DB_SCALE int int bool | TLV_DB_RANGE nat "(nat \<times> nat \<times> tlv_item) list"

datatype soc_enum =
  SOC_ENUM_SINGLE u8 nat nat "string list"
| SOC_VALUE_ENUM_SINGLE u8 nat nat nat "string list" "nat list" \<comment> \<open>register, shift, mask, count, texts, values\<close>

text \<open>Name, register, shift, maximum, inversion; two shifts or two registers for a double control.\<close>

datatype control =
  SOC_SINGLE string u8 nat nat bool
| SOC_SINGLE_TLV string u8 nat nat bool tlv
| SOC_DOUBLE_TLV string u8 nat nat nat bool tlv
| SOC_DOUBLE_R_TLV string u8 u8 nat nat bool tlv
| SOC_ENUM string soc_enum

datatype widget_kind =
  Input | Output | Micbias | Pga | Adc | Dac | Aif_in string | Aif_out string | Mux soc_enum | Mixer "control list"

text \<open>A widget: name, kind, and its power bit, a register, shift and inversion, if it has one.\<close>

record widget =
  wd_name :: string
  wd_kind :: widget_kind
  wd_power :: "(u8 \<times> nat \<times> bool) option"

text \<open>Sink, control (None for a fixed connection) and source.\<close>

type_synonym route = "string \<times> string option \<times> string"

subsection \<open>Well-formed tables\<close>

fun bit_length :: "nat \<Rightarrow> nat" where
  "bit_length 0 = 0"
| "bit_length (Suc n) = Suc (bit_length (Suc n div 2))"

lemma bit_length_pos: "0 < n \<Longrightarrow> bit_length n = Suc (bit_length (n div 2))"
  by (cases n) simp_all

lemma bit_length_numeral [simp]: "bit_length (numeral k) = Suc (bit_length (numeral k div 2))"
  by (rule bit_length_pos) simp

lemma bit_length_one [simp]: "bit_length 1 = 1" "bit_length (Suc 0) = 1"
  using bit_length.simps(2) [of 0] by simp_all

declare bit_length.simps(2) [simp del]

definition field_bits :: "u8 \<Rightarrow> nat \<Rightarrow> nat \<Rightarrow> (u8 \<times> nat) list" where
  "field_bits r shift w = map (\<lambda>k. (r, shift + k)) [0..<w]"

fun enum_texts :: "soc_enum \<Rightarrow> string list" where
  "enum_texts (SOC_ENUM_SINGLE _ _ _ ts) = ts"
| "enum_texts (SOC_VALUE_ENUM_SINGLE _ _ _ _ ts _) = ts"

text \<open>The bits of a register an enumeration may change.\<close>

fun enum_bits :: "soc_enum \<Rightarrow> (u8 \<times> nat) list" where
  "enum_bits (SOC_ENUM_SINGLE r s n _) = field_bits r s (bit_length (n - 1))"
| "enum_bits (SOC_VALUE_ENUM_SINGLE r s m _ _ _) = filter (\<lambda>(_, k). bit m (k - s)) (field_bits r s (bit_length m))"

text \<open>A text for every value, and every value within the mask.\<close>

fun enum_ok :: "soc_enum \<Rightarrow> bool" where
  "enum_ok (SOC_ENUM_SINGLE _ _ n ts) \<longleftrightarrow> length ts = n \<and> 1 < n"
| "enum_ok (SOC_VALUE_ENUM_SINGLE _ _ m n ts vs) \<longleftrightarrow> length ts = n \<and> length vs = n \<and> distinct vs \<and> list_all (\<lambda>v. v AND m = v) vs"

fun control_name :: "control \<Rightarrow> string" where
  "control_name (SOC_SINGLE n _ _ _ _) = n"
| "control_name (SOC_SINGLE_TLV n _ _ _ _ _) = n"
| "control_name (SOC_DOUBLE_TLV n _ _ _ _ _ _) = n"
| "control_name (SOC_DOUBLE_R_TLV n _ _ _ _ _ _) = n"
| "control_name (SOC_ENUM n _) = n"

fun control_bits :: "control \<Rightarrow> (u8 \<times> nat) list" where
  "control_bits (SOC_SINGLE _ r s mx _) = field_bits r s (bit_length mx)"
| "control_bits (SOC_SINGLE_TLV _ r s mx _ _) = field_bits r s (bit_length mx)"
| "control_bits (SOC_DOUBLE_TLV _ r s1 s2 mx _ _) = field_bits r s1 (bit_length mx) @ field_bits r s2 (bit_length mx)"
| "control_bits (SOC_DOUBLE_R_TLV _ r1 r2 s mx _ _) = field_bits r1 s (bit_length mx) @ field_bits r2 s (bit_length mx)"
| "control_bits (SOC_ENUM _ e) = enum_bits e"

text \<open>A scale says something for every value of the control, and its head announces the ranges it has.\<close>

fun tlv_ok :: "nat \<Rightarrow> tlv \<Rightarrow> bool" where
  "tlv_ok mx (TLV_DB_SCALE _ step _) \<longleftrightarrow> 0 < step"
| "tlv_ok mx (TLV_DB_RANGE n items) \<longleftrightarrow> length items = n \<and> concat (map (\<lambda>(a, b, _). [a..<Suc b]) items) = [0..<Suc mx]"

text \<open>A control has a value to choose, lies in the eight bits of a register, and its enumeration or scale is well-formed.\<close>

fun control_ok :: "control \<Rightarrow> bool" where
  "control_ok (SOC_ENUM n e) \<longleftrightarrow> enum_ok e \<and> list_all (\<lambda>(_, k). k < 8) (enum_bits e)"
| "control_ok (SOC_SINGLE n r s mx i) \<longleftrightarrow> 0 < mx \<and> s + bit_length mx \<le> 8"
| "control_ok (SOC_SINGLE_TLV n r s mx i t) \<longleftrightarrow> 0 < mx \<and> s + bit_length mx \<le> 8 \<and> tlv_ok mx t"
| "control_ok (SOC_DOUBLE_TLV n r s1 s2 mx i t) \<longleftrightarrow> 0 < mx \<and> s1 + bit_length mx \<le> 8 \<and> s2 + bit_length mx \<le> 8 \<and> tlv_ok mx t"
| "control_ok (SOC_DOUBLE_R_TLV n r1 r2 s mx i t) \<longleftrightarrow> 0 < mx \<and> s + bit_length mx \<le> 8 \<and> tlv_ok mx t"

text \<open>Everything in a widget table that changes bits of a register, by name.\<close>

fun widget_fields :: "widget \<Rightarrow> (string \<times> (u8 \<times> nat) list) list" where
  "widget_fields w = (case wd_power w of Some (r, s, _) \<Rightarrow> [(wd_name w, [(r, s)])] | None \<Rightarrow> []) @
     (case wd_kind w of Mux e \<Rightarrow> [(wd_name w, enum_bits e)] | Mixer cs \<Rightarrow> map (\<lambda>c. (control_name c, control_bits c)) cs | _ \<Rightarrow> [])"

definition table_fields :: "control list \<Rightarrow> widget list \<Rightarrow> (string \<times> (u8 \<times> nat) list) list" where
  "table_fields cs ws = map (\<lambda>c. (control_name c, control_bits c)) cs @ concat (map widget_fields ws)"

text \<open>The pairs of names, the first before the second in the list, that share a bit.\<close>

fun overlaps :: "(string \<times> (u8 \<times> nat) list) list \<Rightarrow> (string \<times> string) list" where
  "overlaps [] = []"
| "overlaps ((n, bs) # fs) = map (\<lambda>(n', _). (n, n')) (filter (\<lambda>(_, bs'). list_ex (\<lambda>b. b \<in> set bs') bs) fs) @ overlaps fs"

definition find_widget :: "widget list \<Rightarrow> string \<Rightarrow> widget option" where
  "find_widget ws n = find (\<lambda>w. wd_name w = n) ws"

fun kind_choices :: "widget_kind \<Rightarrow> string list option" where
  "kind_choices (Mux e) = Some (enum_texts e)"
| "kind_choices (Mixer cs) = Some (map control_name cs)"
| "kind_choices _ = None"

text \<open>A route joins declared widgets, by a choice of its sink if and only if the sink is a mux or a mixer.\<close>

fun route_ok :: "widget list \<Rightarrow> route \<Rightarrow> bool" where
  "route_ok ws (snk, c, src) \<longleftrightarrow> find_widget ws src \<noteq> None \<and>
     (case find_widget ws snk of
        None \<Rightarrow> False
      | Some w \<Rightarrow> (case (kind_choices (wd_kind w), c) of (Some ts, Some t) \<Rightarrow> t \<in> set ts | (None, None) \<Rightarrow> True | _ \<Rightarrow> False))"

text \<open>The choices of muxes and mixers that no route uses.\<close>

definition dead_choices :: "widget list \<Rightarrow> route list \<Rightarrow> (string \<times> string) list" where
  "dead_choices ws rs = concat (map (\<lambda>w. case kind_choices (wd_kind w) of None \<Rightarrow> []
     | Some ts \<Rightarrow> map (\<lambda>t. (wd_name w, t)) (filter (\<lambda>t. \<not> list_ex (\<lambda>(snk, c, _). snk = wd_name w \<and> c = Some t) rs) ts)) ws)"

subsection \<open>Paths\<close>

text \<open>
  What is chosen: for a widget and one of its choices, whether it is selected (mux) or
  switched on (mixer). Paths follow the routes whose choice is.
\<close>

type_synonym chosen = "string \<Rightarrow> string \<Rightarrow> bool"

inductive path :: "route list \<Rightarrow> chosen \<Rightarrow> string \<Rightarrow> string \<Rightarrow> bool" for rs ch where
  here: "path rs ch s s"
| step: "path rs ch s m \<Longrightarrow> (k, c, m) \<in> set rs \<Longrightarrow> (case c of None \<Rightarrow> True | Some t \<Rightarrow> ch k t) \<Longrightarrow> path rs ch s k"

text \<open>The choices and sources that lead into a widget.\<close>

definition incoming :: "route list \<Rightarrow> string \<Rightarrow> (string option \<times> string) list" where
  "incoming rs k = map snd (filter (\<lambda>(k', _). k' = k) rs)"

lemma path_back: "path rs ch s k \<longleftrightarrow> s = k \<or>
    list_ex (\<lambda>(c, m). (case c of None \<Rightarrow> True | Some t \<Rightarrow> ch k t) \<and> path rs ch s m) (incoming rs k)"
proof
  assume "path rs ch s k"
  then show "s = k \<or> list_ex (\<lambda>(c, m). (case c of None \<Rightarrow> True | Some t \<Rightarrow> ch k t) \<and> path rs ch s m) (incoming rs k)"
    by (cases rule: path.cases) (force simp: list_ex_iff incoming_def)+
next
  assume "s = k \<or> list_ex (\<lambda>(c, m). (case c of None \<Rightarrow> True | Some t \<Rightarrow> ch k t) \<and> path rs ch s m) (incoming rs k)"
  then show "path rs ch s k"
    by (auto simp: list_ex_iff incoming_def intro: path.intros)
qed

end
