(* ===== verification/Es8316_Tables.thy ===== *)
theory Es8316_Tables
  imports Codec_Tables
begin

text \<open>
  The tables of the ES8316 codec driver (\<^verbatim>\<open>rk3288/debug/codec/es8316.c\<close>): volume scales,
  enumerations, controls, widgets and routes, entry by entry.
\<close>

subsection \<open>Scales and enumerations\<close>

definition es_dac_vol_tlv :: tlv where "es_dac_vol_tlv = TLV_DB_SCALE (- 9600) 50 True"
definition es_adc_vol_tlv :: tlv where "es_adc_vol_tlv = TLV_DB_SCALE (- 9600) 50 True"
definition es_hpmixer_gain_tlv :: tlv where "es_hpmixer_gain_tlv = TLV_DB_SCALE (- 1200) 150 False"
definition es_mic_bst_tlv :: tlv where "es_mic_bst_tlv = TLV_DB_SCALE 0 1200 False"

definition es_linin_pga_tlv :: tlv where
  "es_linin_pga_tlv = TLV_DB_RANGE 12 [
     (0, 0, TLV_DB_SCALE_ITEM 0 0 False), (1, 1, TLV_DB_SCALE_ITEM 300 0 False), (2, 2, TLV_DB_SCALE_ITEM 600 0 False),
     (3, 3, TLV_DB_SCALE_ITEM 900 0 False), (4, 4, TLV_DB_SCALE_ITEM 1200 0 False), (5, 5, TLV_DB_SCALE_ITEM 1500 0 False),
     (6, 6, TLV_DB_SCALE_ITEM 1800 0 False), (7, 7, TLV_DB_SCALE_ITEM 2100 0 False), (8, 8, TLV_DB_SCALE_ITEM 2400 0 False)]"

definition es_hpout_vol_tlv :: tlv where
  "es_hpout_vol_tlv = TLV_DB_RANGE 1 [(0, 3, TLV_DB_SCALE_ITEM (- 4800) 1200 False)]"

definition alc_func :: soc_enum where
  "alc_func = SOC_ENUM_SINGLE 0x29 6 2 [''Off'', ''On'']"

definition ng_type :: soc_enum where
  "ng_type = SOC_ENUM_SINGLE 0x2e 6 2 [''Constant PGA Gain'', ''Mute ADC Output'']"

definition adcpol :: soc_enum where
  "adcpol = SOC_ENUM_SINGLE 0x26 1 2 [''Normal'', ''Invert'']"

definition dacpol :: soc_enum where
  "dacpol = SOC_ENUM_SINGLE 0x30 0 4 [''Normal'', ''R Invert'', ''L Invert'', ''L + R Invert'']"

definition es8316_analog_input_enum :: soc_enum where
  "es8316_analog_input_enum = SOC_VALUE_ENUM_SINGLE 0x22 4 3 4
     [''lin1-rin1'', ''lin2-rin2'', ''lin1-rin1 with 20db Boost'', ''lin2-rin2 with 20db Boost''] [0, 1, 2, 3]"

definition es8316_dmic_src_enum :: soc_enum where
  "es8316_dmic_src_enum = SOC_VALUE_ENUM_SINGLE 0x25 0 3 3
     [''dmic disable'', ''dmic data at high level'', ''dmic data at low level''] [0, 1, 2]"

definition es8316_hpmux_texts :: "string list" where
  "es8316_hpmux_texts = [''lin1-rin1'', ''lin2-rin2'', ''lin-rin with Boost'', ''lin-rin with Boost and PGA'']"

definition es8316_left_hpmux_enum :: soc_enum where
  "es8316_left_hpmux_enum = SOC_VALUE_ENUM_SINGLE 0x13 4 7 4 es8316_hpmux_texts [0, 1, 2, 3]"

definition es8316_right_hpmux_enum :: soc_enum where
  "es8316_right_hpmux_enum = SOC_VALUE_ENUM_SINGLE 0x13 0 7 4 es8316_hpmux_texts [0, 1, 2, 3]"

definition es8316_dacsrc_mux_enum :: soc_enum where
  "es8316_dacsrc_mux_enum = SOC_VALUE_ENUM_SINGLE 0x30 6 4 4
     [''LDATA TO LDAC, RDATA TO RDAC'', ''LDATA TO LDAC, LDATA TO RDAC'', ''RDATA TO LDAC, RDATA TO RDAC'',
      ''RDATA TO LDAC, LDATA TO RDAC''] [0, 1, 2, 3]"

subsection \<open>Controls\<close>

definition es8316_snd_controls :: "control list" where
  "es8316_snd_controls = [
     SOC_DOUBLE_TLV ''HP Playback Volume'' 0x18 4 0 0 True es_hpout_vol_tlv,
     SOC_DOUBLE_TLV ''HPMixer Gain'' 0x16 0 4 7 False es_hpmixer_gain_tlv,
     SOC_DOUBLE_R_TLV ''DAC Playback Volume'' 0x33 0x34 0 0xC0 True es_dac_vol_tlv,
     SOC_SINGLE ''Enable DAC Soft Ramp'' 0x30 4 1 True,
     SOC_SINGLE ''DAC Soft Ramp Rate'' 0x30 2 4 False,
     SOC_ENUM ''Playback Polarity'' dacpol,
     SOC_SINGLE ''DAC Notch Filter'' 0x31 6 1 False,
     SOC_SINGLE ''DAC Double Fs Mode'' 0x31 7 1 False,
     SOC_SINGLE ''DAC Volume Control-LeR'' 0x31 2 1 False,
     SOC_SINGLE ''DAC Stereo Enhancement'' 0x32 0 7 False,
     SOC_SINGLE_TLV ''MIC Boost'' 0x24 0 1 False es_mic_bst_tlv,
     SOC_SINGLE_TLV ''Input PGA'' 0x23 4 8 False es_linin_pga_tlv,
     SOC_SINGLE_TLV ''ADC Capture Volume'' 0x27 0 0xC0 True es_adc_vol_tlv,
     SOC_SINGLE ''ADC Soft Ramp'' 0x26 4 1 False,
     SOC_ENUM ''Capture Polarity'' adcpol,
     SOC_SINGLE ''ADC Double FS Mode'' 0x25 4 1 False,
     SOC_SINGLE ''ALC Capture Target Volume'' 0x2b 4 10 False,
     SOC_SINGLE ''ALC Capture Max PGA'' 0x29 0 28 False,
     SOC_SINGLE ''ALC Capture Min PGA'' 0x2a 0 28 False,
     SOC_ENUM ''ALC Capture Function'' alc_func,
     SOC_SINGLE ''ALC Capture Hold Time'' 0x2b 0 10 False,
     SOC_SINGLE ''ALC Capture Decay Time'' 0x2c 4 10 False,
     SOC_SINGLE ''ALC Capture Attack Time'' 0x2c 0 10 False,
     SOC_SINGLE ''ALC Capture NG Threshold'' 0x2e 0 31 False,
     SOC_ENUM ''ALC Capture NG Type'' ng_type,
     SOC_SINGLE ''ALC Capture NG Switch'' 0x2e 5 1 False]"

definition es8316_out_left_mix :: "control list" where
  "es8316_out_left_mix = [SOC_SINGLE ''LLIN Switch'' 0x14 6 1 False, SOC_SINGLE ''Left DAC Switch'' 0x14 7 1 False]"

definition es8316_out_right_mix :: "control list" where
  "es8316_out_right_mix = [SOC_SINGLE ''RLIN Switch'' 0x14 2 1 False, SOC_SINGLE ''Right DAC Switch'' 0x14 3 1 False]"

subsection \<open>Widgets and routes\<close>

abbreviation (input) SND_SOC_NOPM :: "(u8 \<times> nat \<times> bool) option" where "SND_SOC_NOPM \<equiv> None"

definition es8316_dapm_widgets :: "widget list" where
  "es8316_dapm_widgets = [
     \<lparr>wd_name = ''DMIC'', wd_kind = Input, wd_power = SND_SOC_NOPM\<rparr>,
     \<lparr>wd_name = ''MIC1'', wd_kind = Input, wd_power = SND_SOC_NOPM\<rparr>,
     \<lparr>wd_name = ''MIC2'', wd_kind = Input, wd_power = SND_SOC_NOPM\<rparr>,
     \<lparr>wd_name = ''micbias'', wd_kind = Micbias, wd_power = SND_SOC_NOPM\<rparr>,
     \<lparr>wd_name = ''Differential Mux'', wd_kind = Mux es8316_analog_input_enum, wd_power = SND_SOC_NOPM\<rparr>,
     \<lparr>wd_name = ''Line input PGA'', wd_kind = Pga, wd_power = Some (0x22, 7, True)\<rparr>,
     \<lparr>wd_name = ''Mono ADC'', wd_kind = Adc, wd_power = Some (0x22, 6, True)\<rparr>,
     \<lparr>wd_name = ''Digital Mic Mux'', wd_kind = Mux es8316_dmic_src_enum, wd_power = SND_SOC_NOPM\<rparr>,
     \<lparr>wd_name = ''I2S OUT'', wd_kind = Aif_out ''Capture'', wd_power = Some (0x0a, 6, False)\<rparr>,
     \<lparr>wd_name = ''I2S IN'', wd_kind = Aif_in ''Playback'', wd_power = SND_SOC_NOPM\<rparr>,
     \<lparr>wd_name = ''DAC SRC Mux'', wd_kind = Mux es8316_dacsrc_mux_enum, wd_power = SND_SOC_NOPM\<rparr>,
     \<lparr>wd_name = ''Right DAC'', wd_kind = Dac, wd_power = Some (0x2f, 0, True)\<rparr>,
     \<lparr>wd_name = ''Left DAC'', wd_kind = Dac, wd_power = Some (0x2f, 4, True)\<rparr>,
     \<lparr>wd_name = ''Left Hp mux'', wd_kind = Mux es8316_left_hpmux_enum, wd_power = SND_SOC_NOPM\<rparr>,
     \<lparr>wd_name = ''Right Hp mux'', wd_kind = Mux es8316_right_hpmux_enum, wd_power = SND_SOC_NOPM\<rparr>,
     \<lparr>wd_name = ''Left Hp mixer'', wd_kind = Mixer es8316_out_left_mix, wd_power = Some (0x15, 4, True)\<rparr>,
     \<lparr>wd_name = ''Right Hp mixer'', wd_kind = Mixer es8316_out_right_mix, wd_power = Some (0x15, 0, True)\<rparr>,
     \<lparr>wd_name = ''HPCP L'', wd_kind = Pga, wd_power = Some (0x17, 6, False)\<rparr>,
     \<lparr>wd_name = ''HPCP R'', wd_kind = Pga, wd_power = Some (0x17, 2, False)\<rparr>,
     \<lparr>wd_name = ''HPVOL L'', wd_kind = Pga, wd_power = Some (0x17, 5, False)\<rparr>,
     \<lparr>wd_name = ''HPVOL R'', wd_kind = Pga, wd_power = Some (0x17, 1, False)\<rparr>,
     \<lparr>wd_name = ''HPOL'', wd_kind = Output, wd_power = SND_SOC_NOPM\<rparr>,
     \<lparr>wd_name = ''HPOR'', wd_kind = Output, wd_power = SND_SOC_NOPM\<rparr>]"

definition es8316_dapm_routes :: "route list" where
  "es8316_dapm_routes = [
     (''MIC1'', None, ''micbias''),
     (''MIC2'', None, ''micbias''),
     (''DMIC'', None, ''micbias''),
     (''Differential Mux'', Some ''lin1-rin1'', ''MIC1''),
     (''Differential Mux'', Some ''lin2-rin2'', ''MIC2''),
     (''Line input PGA'', None, ''Differential Mux''),
     (''Mono ADC'', None, ''Line input PGA''),
     (''Digital Mic Mux'', Some ''dmic disable'', ''Mono ADC''),
     (''Digital Mic Mux'', Some ''dmic data at high level'', ''DMIC''),
     (''Digital Mic Mux'', Some ''dmic data at low level'', ''DMIC''),
     (''I2S OUT'', None, ''Digital Mic Mux''),
     (''DAC SRC Mux'', Some ''LDATA TO LDAC, RDATA TO RDAC'', ''I2S IN''),
     (''DAC SRC Mux'', Some ''LDATA TO LDAC, LDATA TO RDAC'', ''I2S IN''),
     (''DAC SRC Mux'', Some ''RDATA TO LDAC, RDATA TO RDAC'', ''I2S IN''),
     (''DAC SRC Mux'', Some ''RDATA TO LDAC, LDATA TO RDAC'', ''I2S IN''),
     (''Left DAC'', None, ''DAC SRC Mux''),
     (''Right DAC'', None, ''DAC SRC Mux''),
     (''Left Hp mux'', Some ''lin1-rin1'', ''MIC1''),
     (''Left Hp mux'', Some ''lin2-rin2'', ''MIC2''),
     (''Left Hp mux'', Some ''lin-rin with Boost'', ''Differential Mux''),
     (''Left Hp mux'', Some ''lin-rin with Boost and PGA'', ''Line input PGA''),
     (''Right Hp mux'', Some ''lin1-rin1'', ''MIC1''),
     (''Right Hp mux'', Some ''lin2-rin2'', ''MIC2''),
     (''Right Hp mux'', Some ''lin-rin with Boost'', ''Differential Mux''),
     (''Right Hp mux'', Some ''lin-rin with Boost and PGA'', ''Line input PGA''),
     (''Left Hp mixer'', Some ''LLIN Switch'', ''Left Hp mux''),
     (''Left Hp mixer'', Some ''Left DAC Switch'', ''Left DAC''),
     (''Right Hp mixer'', Some ''RLIN Switch'', ''Right Hp mux''),
     (''Right Hp mixer'', Some ''Right DAC Switch'', ''Right DAC''),
     (''HPCP L'', None, ''Left Hp mixer''),
     (''HPCP R'', None, ''Right Hp mixer''),
     (''HPVOL L'', None, ''HPCP L''),
     (''HPVOL R'', None, ''HPCP R''),
     (''HPOL'', None, ''HPVOL L''),
     (''HPOR'', None, ''HPVOL R'')]"

lemmas es8316_enums = alc_func_def ng_type_def adcpol_def dacpol_def es8316_analog_input_enum_def es8316_dmic_src_enum_def
  es8316_hpmux_texts_def es8316_left_hpmux_enum_def es8316_right_hpmux_enum_def es8316_dacsrc_mux_enum_def

lemmas es8316_tlvs = es_dac_vol_tlv_def es_adc_vol_tlv_def es_hpmixer_gain_tlv_def es_mic_bst_tlv_def es_linin_pga_tlv_def
  es_hpout_vol_tlv_def

end
