(* ===== verification/Es8323_Tables.thy ===== *)
theory Es8323_Tables
  imports Codec_Tables
begin

text \<open>
  The tables of the ES8323 codec driver (\<^verbatim>\<open>rk3288/debug/codec/es8323.c\<close>): volume scales,
  enumerations and controls, entry by entry.
\<close>

definition es23_adc_tlv :: tlv where "es23_adc_tlv = TLV_DB_SCALE (- 9600) 50 True"
definition es23_dac_tlv :: tlv where "es23_dac_tlv = TLV_DB_SCALE (- 9600) 50 True"
definition es23_out_tlv :: tlv where "es23_out_tlv = TLV_DB_SCALE (- 4500) 150 False"
definition es23_bypass_tlv :: tlv where "es23_bypass_tlv = TLV_DB_SCALE (- 1500) 300 False"

definition es8323_line_values :: "nat list" where
  "es8323_line_values = [0, 1, 3]"

definition es8323_line_texts :: "string list" where
  "es8323_line_texts = [''Line 1'', ''Line 2'', ''PGA'']"

definition es8323_pga_sel :: "string list" where
  "es8323_pga_sel = [''Line 1'', ''Line 2'', ''Differential'']"

definition stereo_3d_txt :: "string list" where
  "stereo_3d_txt = [''No 3D  '', ''Level 1'', ''Level 2'', ''Level 3'', ''Level 4'', ''Level 5'', ''Level 6'', ''Level 7'']"

definition es23_alc_func_txt :: "string list" where
  "es23_alc_func_txt = [''Off'', ''Right'', ''Left'', ''Stereo'']"

definition es23_ng_type_txt :: "string list" where
  "es23_ng_type_txt = [''Constant PGA Gain'', ''Mute ADC Output'']"

definition deemph_txt :: "string list" where
  "deemph_txt = [''None'', ''32Khz'', ''44.1Khz'', ''48Khz'']"

definition es23_adcpol_txt :: "string list" where
  "es23_adcpol_txt = [''Normal'', ''L Invert'', ''R Invert'', ''L + R Invert'']"

definition es8323_mono_mux :: "string list" where
  "es8323_mono_mux = [''Stereo'', ''Mono (Left)'', ''Mono (Right)'']"

definition es8323_diff_sel :: "string list" where
  "es8323_diff_sel = [''Line 1'', ''Line 2'']"

definition es8323_enum :: "soc_enum list" where
  "es8323_enum = [
     SOC_VALUE_ENUM_SINGLE 0x26 3 7 (length es8323_line_texts) es8323_line_texts es8323_line_values,
     SOC_VALUE_ENUM_SINGLE 0x26 0 7 (length es8323_line_texts) es8323_line_texts es8323_line_values,
     SOC_VALUE_ENUM_SINGLE 0x0a 6 3 (length es8323_pga_sel) es8323_line_texts es8323_line_values,
     SOC_VALUE_ENUM_SINGLE 0x0a 4 3 (length es8323_pga_sel) es8323_line_texts es8323_line_values,
     SOC_ENUM_SINGLE 0x1d 2 8 stereo_3d_txt,
     SOC_ENUM_SINGLE 0x12 6 4 es23_alc_func_txt,
     SOC_ENUM_SINGLE 0x16 1 2 es23_ng_type_txt,
     SOC_ENUM_SINGLE 0x1c 6 4 deemph_txt,
     SOC_ENUM_SINGLE 0x0e 6 4 es23_adcpol_txt,
     SOC_ENUM_SINGLE 0x0b 3 3 es8323_mono_mux,
     SOC_ENUM_SINGLE 0x0b 7 2 es8323_diff_sel]"

definition es8323_snd_controls :: "control list" where
  "es8323_snd_controls = [
     SOC_ENUM ''3D Mode'' (es8323_enum ! 4),
     SOC_SINGLE ''ALC Capture Target Volume'' 0x13 4 15 False,
     SOC_SINGLE ''ALC Capture Max PGA'' 0x12 3 7 False,
     SOC_SINGLE ''ALC Capture Min PGA'' 0x12 0 7 False,
     SOC_ENUM ''ALC Capture Function'' (es8323_enum ! 5),
     SOC_SINGLE ''ALC Capture ZC Switch'' 0x15 6 1 False,
     SOC_SINGLE ''ALC Capture Hold Time'' 0x13 0 15 False,
     SOC_SINGLE ''ALC Capture Decay Time'' 0x14 4 15 False,
     SOC_SINGLE ''ALC Capture Attack Time'' 0x14 0 15 False,
     SOC_SINGLE ''ALC Capture NG Threshold'' 0x16 3 31 False,
     SOC_ENUM ''ALC Capture NG Type'' (es8323_enum ! 6),
     SOC_SINGLE ''ALC Capture NG Switch'' 0x16 0 1 False,
     SOC_SINGLE ''ZC Timeout Switch'' 0x15 6 1 False,
     SOC_DOUBLE_R_TLV ''Capture Digital Volume'' 0x10 0x11 0 255 True es23_adc_tlv,
     SOC_SINGLE ''Capture Mute'' 0x0f 2 1 False,
     SOC_SINGLE_TLV ''Left Channel Capture Volume'' 0x09 4 15 False es23_bypass_tlv,
     SOC_SINGLE_TLV ''Right Channel Capture Volume'' 0x09 0 15 False es23_bypass_tlv,
     SOC_ENUM ''Playback De-emphasis'' (es8323_enum ! 7),
     SOC_ENUM ''Capture Polarity'' (es8323_enum ! 8),
     SOC_DOUBLE_R_TLV ''PCM Volume'' 0x1a 0x1b 0 255 True es23_dac_tlv,
     SOC_SINGLE_TLV ''Left Mixer Left Bypass Volume'' 0x27 3 7 True es23_bypass_tlv,
     SOC_SINGLE_TLV ''Right Mixer Right Bypass Volume'' 0x2a 3 7 True es23_bypass_tlv,
     SOC_DOUBLE_R_TLV ''Output 1 Playback Volume'' 0x2e 0x2f 0 64 False es23_out_tlv,
     SOC_DOUBLE_R_TLV ''Output 2 Playback Volume'' 0x30 0x31 0 64 False es23_out_tlv]"

lemmas es8323_table_defs = es23_adc_tlv_def es23_dac_tlv_def es23_out_tlv_def es23_bypass_tlv_def es8323_line_values_def
  es8323_line_texts_def es8323_pga_sel_def stereo_3d_txt_def es23_alc_func_txt_def es23_ng_type_txt_def deemph_txt_def es23_adcpol_txt_def es8323_mono_mux_def es8323_diff_sel_def
  es8323_enum_def es8323_snd_controls_def

end
