(* ===== verification/Codec_Tables_Props.thy ===== *)
theory Codec_Tables_Props
  imports Es8316_Tables Es8323_Tables
begin

text \<open>
  The codec tables checked: which controls are well-formed, which share bits, whether the
  routes fit the widgets, and which settings connect which inputs to which outputs.
\<close>

subsection \<open>Tables\<close>



text \<open>The controls of the ES8323 are well-formed, every enumeration has a text and a value within its
  mask for each of its choices, and no two controls share a bit but the two zero-crossing
  switches, which are the same bit; the two input muxes of the amplifier have the texts of
  the line muxes and not those declared for them.\<close>
theorem es8323_tables:
  "list_all control_ok es8323_snd_controls \<and> list_all enum_ok es8323_enum \<and>
   overlaps (table_fields es8323_snd_controls []) = [(''ALC Capture ZC Switch'', ''ZC Timeout Switch'')] \<and>
   enum_texts (es8323_enum ! 2) \<noteq> es8323_pga_sel \<and> enum_texts (es8323_enum ! 3) \<noteq> es8323_pga_sel"
proof (intro conjI)
  show "list_all control_ok es8323_snd_controls" by code_simp
  show "list_all enum_ok es8323_enum" by code_simp
  show "overlaps (table_fields es8323_snd_controls []) = [(''ALC Capture ZC Switch'', ''ZC Timeout Switch'')]" by code_simp
  show "enum_texts (es8323_enum ! 2) \<noteq> es8323_pga_sel" "enum_texts (es8323_enum ! 3) \<noteq> es8323_pga_sel"
    by (simp_all add: es8323_table_defs)
qed

subsection \<open>Paths\<close>

lemma es8316_incoming:
  "incoming es8316_dapm_routes ''MIC1'' = [(None, ''micbias'')]"
  "incoming es8316_dapm_routes ''micbias'' = []"
  "incoming es8316_dapm_routes ''MIC2'' = [(None, ''micbias'')]"
  "incoming es8316_dapm_routes ''DMIC'' = [(None, ''micbias'')]"
  "incoming es8316_dapm_routes ''Differential Mux'' = [(Some ''lin1-rin1'', ''MIC1''), (Some ''lin2-rin2'', ''MIC2'')]"
  "incoming es8316_dapm_routes ''Line input PGA'' = [(None, ''Differential Mux'')]"
  "incoming es8316_dapm_routes ''Mono ADC'' = [(None, ''Line input PGA'')]"
  "incoming es8316_dapm_routes ''Digital Mic Mux'' = [(Some ''dmic disable'', ''Mono ADC''), (Some ''dmic data at high level'', ''DMIC''), (Some ''dmic data at low level'', ''DMIC'')]"
  "incoming es8316_dapm_routes ''I2S OUT'' = [(None, ''Digital Mic Mux'')]"
  "incoming es8316_dapm_routes ''DAC SRC Mux'' = [(Some ''LDATA TO LDAC, RDATA TO RDAC'', ''I2S IN''), (Some ''LDATA TO LDAC, LDATA TO RDAC'', ''I2S IN''), (Some ''RDATA TO LDAC, RDATA TO RDAC'', ''I2S IN''), (Some ''RDATA TO LDAC, LDATA TO RDAC'', ''I2S IN'')]"
  "incoming es8316_dapm_routes ''I2S IN'' = []"
  "incoming es8316_dapm_routes ''Left DAC'' = [(None, ''DAC SRC Mux'')]"
  "incoming es8316_dapm_routes ''Right DAC'' = [(None, ''DAC SRC Mux'')]"
  "incoming es8316_dapm_routes ''Left Hp mux'' = [(Some ''lin1-rin1'', ''MIC1''), (Some ''lin2-rin2'', ''MIC2''), (Some ''lin-rin with Boost'', ''Differential Mux''), (Some ''lin-rin with Boost and PGA'', ''Line input PGA'')]"
  "incoming es8316_dapm_routes ''Right Hp mux'' = [(Some ''lin1-rin1'', ''MIC1''), (Some ''lin2-rin2'', ''MIC2''), (Some ''lin-rin with Boost'', ''Differential Mux''), (Some ''lin-rin with Boost and PGA'', ''Line input PGA'')]"
  "incoming es8316_dapm_routes ''Left Hp mixer'' = [(Some ''LLIN Switch'', ''Left Hp mux''), (Some ''Left DAC Switch'', ''Left DAC'')]"
  "incoming es8316_dapm_routes ''Right Hp mixer'' = [(Some ''RLIN Switch'', ''Right Hp mux''), (Some ''Right DAC Switch'', ''Right DAC'')]"
  "incoming es8316_dapm_routes ''HPCP L'' = [(None, ''Left Hp mixer'')]"
  "incoming es8316_dapm_routes ''HPCP R'' = [(None, ''Right Hp mixer'')]"
  "incoming es8316_dapm_routes ''HPVOL L'' = [(None, ''HPCP L'')]"
  "incoming es8316_dapm_routes ''HPVOL R'' = [(None, ''HPCP R'')]"
  "incoming es8316_dapm_routes ''HPOL'' = [(None, ''HPVOL L'')]"
  "incoming es8316_dapm_routes ''HPOR'' = [(None, ''HPVOL R'')]"
  by code_simp+

lemma es8316_nodes:
  fixes ch s
  defines "P \<equiv> path es8316_dapm_routes ch s"
  shows "P ''HPOL'' \<longleftrightarrow> s = ''HPOL'' \<or> P ''HPVOL L''" "P ''HPOR'' \<longleftrightarrow> s = ''HPOR'' \<or> P ''HPVOL R''"
    "P ''HPVOL L'' \<longleftrightarrow> s = ''HPVOL L'' \<or> P ''HPCP L''" "P ''HPVOL R'' \<longleftrightarrow> s = ''HPVOL R'' \<or> P ''HPCP R''"
    "P ''HPCP L'' \<longleftrightarrow> s = ''HPCP L'' \<or> P ''Left Hp mixer''" "P ''HPCP R'' \<longleftrightarrow> s = ''HPCP R'' \<or> P ''Right Hp mixer''"
    "P ''Left Hp mixer'' \<longleftrightarrow> s = ''Left Hp mixer'' \<or> ch ''Left Hp mixer'' ''LLIN Switch'' \<and> P ''Left Hp mux'' \<or>
       ch ''Left Hp mixer'' ''Left DAC Switch'' \<and> P ''Left DAC''"
    "P ''Right Hp mixer'' \<longleftrightarrow> s = ''Right Hp mixer'' \<or> ch ''Right Hp mixer'' ''RLIN Switch'' \<and> P ''Right Hp mux'' \<or>
       ch ''Right Hp mixer'' ''Right DAC Switch'' \<and> P ''Right DAC''"
    "P ''Left Hp mux'' \<longleftrightarrow> s = ''Left Hp mux'' \<or> ch ''Left Hp mux'' ''lin1-rin1'' \<and> P ''MIC1'' \<or> ch ''Left Hp mux'' ''lin2-rin2'' \<and> P ''MIC2'' \<or>
       ch ''Left Hp mux'' ''lin-rin with Boost'' \<and> P ''Differential Mux'' \<or> ch ''Left Hp mux'' ''lin-rin with Boost and PGA'' \<and> P ''Line input PGA''"
    "P ''Right Hp mux'' \<longleftrightarrow> s = ''Right Hp mux'' \<or> ch ''Right Hp mux'' ''lin1-rin1'' \<and> P ''MIC1'' \<or> ch ''Right Hp mux'' ''lin2-rin2'' \<and> P ''MIC2'' \<or>
       ch ''Right Hp mux'' ''lin-rin with Boost'' \<and> P ''Differential Mux'' \<or> ch ''Right Hp mux'' ''lin-rin with Boost and PGA'' \<and> P ''Line input PGA''"
    "P ''Left DAC'' \<longleftrightarrow> s = ''Left DAC'' \<or> P ''DAC SRC Mux''" "P ''Right DAC'' \<longleftrightarrow> s = ''Right DAC'' \<or> P ''DAC SRC Mux''"
    "P ''DAC SRC Mux'' \<longleftrightarrow> s = ''DAC SRC Mux'' \<or> list_ex (ch ''DAC SRC Mux'') (enum_texts es8316_dacsrc_mux_enum) \<and> P ''I2S IN''"
    "P ''I2S OUT'' \<longleftrightarrow> s = ''I2S OUT'' \<or> P ''Digital Mic Mux''"
    "P ''Digital Mic Mux'' \<longleftrightarrow> s = ''Digital Mic Mux'' \<or> ch ''Digital Mic Mux'' ''dmic disable'' \<and> P ''Mono ADC'' \<or>
       (ch ''Digital Mic Mux'' ''dmic data at high level'' \<or> ch ''Digital Mic Mux'' ''dmic data at low level'') \<and> P ''DMIC''"
    "P ''Mono ADC'' \<longleftrightarrow> s = ''Mono ADC'' \<or> P ''Line input PGA''" "P ''Line input PGA'' \<longleftrightarrow> s = ''Line input PGA'' \<or> P ''Differential Mux''"
    "P ''Differential Mux'' \<longleftrightarrow> s = ''Differential Mux'' \<or> ch ''Differential Mux'' ''lin1-rin1'' \<and> P ''MIC1'' \<or>
       ch ''Differential Mux'' ''lin2-rin2'' \<and> P ''MIC2''"
    "P ''MIC1'' \<longleftrightarrow> s = ''MIC1'' \<or> P ''micbias''" "P ''MIC2'' \<longleftrightarrow> s = ''MIC2'' \<or> P ''micbias''" "P ''DMIC'' \<longleftrightarrow> s = ''DMIC'' \<or> P ''micbias''"
    "P ''I2S IN'' \<longleftrightarrow> s = ''I2S IN''" "P ''micbias'' \<longleftrightarrow> s = ''micbias''"
  unfolding P_def by (subst path_back, simp only: es8316_incoming, (auto simp: es8316_dacsrc_mux_enum_def)[1])+

text \<open>Paths through the ES8316, with any setting of its muxes and mixers: playback reaches an
  output exactly if the DAC switch of its side's mixer is on and the source mux has one of
  its choices; a microphone reaches the capture interface exactly if the digital microphone
  mux is off and the differential mux has its input chosen without boost, so with a boost
  chosen neither does; the digital microphone reaches it at either level; a microphone
  reaches the left output directly exactly over the mixer's line switch with the mux on its
  line, or on boost with the differential mux on its line.\<close>
theorem es8316_paths:
  fixes ch
  defines "P \<equiv> path es8316_dapm_routes ch" and "B \<equiv> \<lambda>t. path es8316_dapm_routes (ch(''Differential Mux'' := (=) t))"
  shows "(P ''I2S IN'' ''HPOL'' \<longleftrightarrow> ch ''Left Hp mixer'' ''Left DAC Switch'' \<and> list_ex (ch ''DAC SRC Mux'') (enum_texts es8316_dacsrc_mux_enum)) \<and>
    (P ''I2S IN'' ''HPOR'' \<longleftrightarrow> ch ''Right Hp mixer'' ''Right DAC Switch'' \<and> list_ex (ch ''DAC SRC Mux'') (enum_texts es8316_dacsrc_mux_enum)) \<and>
    (P ''MIC1'' ''I2S OUT'' \<longleftrightarrow> ch ''Digital Mic Mux'' ''dmic disable'' \<and> ch ''Differential Mux'' ''lin1-rin1'') \<and>
    (P ''MIC2'' ''I2S OUT'' \<longleftrightarrow> ch ''Digital Mic Mux'' ''dmic disable'' \<and> ch ''Differential Mux'' ''lin2-rin2'') \<and>
    (P ''DMIC'' ''I2S OUT'' \<longleftrightarrow> ch ''Digital Mic Mux'' ''dmic data at high level'' \<or> ch ''Digital Mic Mux'' ''dmic data at low level'') \<and>
    (P ''MIC1'' ''HPOL'' \<longleftrightarrow> ch ''Left Hp mixer'' ''LLIN Switch'' \<and> (ch ''Left Hp mux'' ''lin1-rin1'' \<or>
      (ch ''Left Hp mux'' ''lin-rin with Boost'' \<or> ch ''Left Hp mux'' ''lin-rin with Boost and PGA'') \<and> ch ''Differential Mux'' ''lin1-rin1'')) \<and>
    \<not> B ''lin1-rin1 with 20db Boost'' ''MIC1'' ''I2S OUT'' \<and> \<not> B ''lin1-rin1 with 20db Boost'' ''MIC2'' ''I2S OUT'' \<and>
    \<not> B ''lin2-rin2 with 20db Boost'' ''MIC1'' ''I2S OUT'' \<and> \<not> B ''lin2-rin2 with 20db Boost'' ''MIC2'' ''I2S OUT''"
  unfolding P_def B_def by (auto simp: es8316_nodes)

end
