(* ===== verification/Wk2xxx.thy ===== *)
theory Wk2xxx
  imports Prelude
begin

text \<open>
  The SPI to UART bridge (\<^verbatim>\<open>rk3288/debug/spi/spi2uart.c\<close>): register access over SPI with the
  global lock and the hand-driven chip select, the transmit path from the serial core's
  ring, the work function, interrupt, probe and removal. The header \<^verbatim>\<open>wk2xxx.h\<close> with the
  chip's register numbers and masks is not in the repository, so they are a parameter (a
  record); SPI, pin and serial core calls are parameters as well. Delays and log output are
  not modelled. Taking the held lock never returns (None).
\<close>

subsection \<open>Parameters\<close>

record wk_header =
  WK2XXX_GPORT :: u8
  WK2XXX_GENA :: u8
  WK2XXX_GIER :: u8
  WK2XXX_GIFR :: u8
  WK2XXX_SPAGE :: u8
  WK2XXX_SIER :: u8
  WK2XXX_SIFR :: u8
  WK2XXX_FSR :: u8
  WK2XXX_TFCNT :: u8
  WK2XXX_FDAT :: u8
  WK2XXX_TFULL :: u8
  WK2XXX_TDAT :: u8
  WK2XXX_TBUSY :: u8
  WK2XXX_TFTRIG_IEN :: u8
  WK2XXX_TFTRIG_INT :: u8
  WK2XXX_RFTRIG_INT :: u8
  WK2XXX_RXOVT_INT :: u8
  PORT_WK2XXX :: u32

abbreviation (input) WK2XXX_PAGE0 :: u8 where "WK2XXX_PAGE0 \<equiv> 0"

datatype mux = GPIO0_D7 | SPI1_CS0

text \<open>\<open>wio_sync\<close> transfers two bytes each way: status and the two received bytes.\<close>

record 'b wk_io =
  wio_mux :: "'b \<Rightarrow> mux \<Rightarrow> 'b"
  wio_gpio :: "'b \<Rightarrow> bool \<Rightarrow> 'b"
  wio_sync :: "'b \<Rightarrow> u8 \<times> u8 \<Rightarrow> int \<times> (u8 \<times> u8) \<times> 'b"

subsection \<open>State\<close>

text \<open>The serial core's transmit ring of a port: a page of bytes, the next free and the next used index.\<close>

definition UART_XMIT_SIZE :: nat where "UART_XMIT_SIZE = 4096"

abbreviation (input) WAKEUP_CHARS :: nat where "WAKEUP_CHARS \<equiv> 256"

record circ_buf =
  cb_buf :: "u8 list"
  cb_head :: nat
  cb_tail :: nat

definition uart_circ_empty :: "circ_buf \<Rightarrow> bool" where
  "uart_circ_empty c \<longleftrightarrow> cb_head c = cb_tail c"

definition uart_circ_chars_pending :: "circ_buf \<Rightarrow> nat" where
  "uart_circ_chars_pending c = (cb_head c + UART_XMIT_SIZE - cb_tail c) mod UART_XMIT_SIZE"

record 'b wk2xxx_port =
  wk_lock :: bool \<comment> \<open>the global register lock is held\<close>
  wk_iobase :: u8
  wk_x_char :: u8
  wk_xmit :: circ_buf
  wk_tx_stopped :: bool
  wk_icount_tx :: u32
  wk_wakeups :: nat \<comment> \<open>calls of \<^verbatim>\<open>uart_write_wakeup\<close>\<close>
  wk_queued :: bool \<comment> \<open>the work is queued\<close>
  wk_irq_depth :: int \<comment> \<open>how often the interrupt is disabled\<close>
  wk_type :: u32 \<comment> \<open>the kind of port, 0 when not configured\<close>
  wk_bus :: 'b

subsection \<open>Register access\<close>

definition chip_select_enable :: "'b wk_io \<Rightarrow> bool \<Rightarrow> 'b wk2xxx_port \<Rightarrow> 'b wk2xxx_port" where
  "chip_select_enable io enable s =
     s\<lparr>wk_bus := wio_mux io (wio_gpio io (wio_mux io (wk_bus s) GPIO0_D7) enable) SPI1_CS0\<rparr>"

abbreviation (input) CS_HIGH :: bool where "CS_HIGH \<equiv> True"
abbreviation (input) CS_LOW :: bool where "CS_LOW \<equiv> False"

text \<open>\<^verbatim>\<open>(port - 1) << 4\<close>: the shift of a negative number is undefined.\<close>

definition sub_number :: "u8 \<Rightarrow> u8 option" where
  "sub_number port = (if port = 0 then None else Some (push_bit 4 (port - 1)))"

definition wk2xxx_write_reg :: "'b wk_io \<Rightarrow> u8 \<Rightarrow> u8 \<Rightarrow> u8 \<Rightarrow> 'b wk2xxx_port \<Rightarrow> (int \<times> 'b wk2xxx_port) option" where
  "wk2xxx_write_reg io port reg data s =
     do { sub \<leftarrow> sub_number port;
          l \<leftarrow> mutex_lock (wk_lock s);
          let s = chip_select_enable io CS_LOW (s\<lparr>wk_lock := l\<rparr>);
              (status, _, b) = wio_sync io (wk_bus s) (sub OR reg, data);
              s = s\<lparr>wk_bus := b\<rparr>
          in Some (if status \<noteq> 0 then (status, s)
                   else (status, chip_select_enable io CS_HIGH (s\<lparr>wk_lock := False\<rparr>))) }"

text \<open>The second result is the byte stored through the pointer, None when none is stored.\<close>

definition wk2xxx_read_reg :: "'b wk_io \<Rightarrow> u8 \<Rightarrow> u8 \<Rightarrow> 'b wk2xxx_port \<Rightarrow> (int \<times> u8 option \<times> 'b wk2xxx_port) option" where
  "wk2xxx_read_reg io port reg s =
     do { sub \<leftarrow> sub_number port;
          l \<leftarrow> mutex_lock (wk_lock s);
          let s = chip_select_enable io CS_LOW (s\<lparr>wk_lock := l\<rparr>);
              (status, r, b) = wio_sync io (wk_bus s) (0x40 OR sub OR reg, 0x00);
              s = s\<lparr>wk_bus := b\<rparr>
          in Some (if status \<noteq> 0 then (status, None, s)
                   else (0, Some (snd r), chip_select_enable io CS_HIGH (s\<lparr>wk_lock := False\<rparr>))) }"

text \<open>The uses below ignore the status: a write, and a read into a variable that keeps its value.\<close>

definition wk_put :: "'b wk_io \<Rightarrow> u8 \<Rightarrow> u8 \<Rightarrow> u8 \<Rightarrow> 'b wk2xxx_port \<Rightarrow> 'b wk2xxx_port option" where
  "wk_put io port reg data s = map_option snd (wk2xxx_write_reg io port reg data s)"

definition wk_get :: "'b wk_io \<Rightarrow> u8 \<Rightarrow> u8 \<Rightarrow> u8 option \<Rightarrow> 'b wk2xxx_port \<Rightarrow> (u8 option \<times> 'b wk2xxx_port) option" where
  "wk_get io port reg var s =
     map_option (\<lambda>(_, v, s). (case v of None \<Rightarrow> var | Some v \<Rightarrow> Some v, s)) (wk2xxx_read_reg io port reg s)"

subsection \<open>Transmit\<close>

text \<open>How many bytes the fill count and the full bit leave room for.\<close>

definition tx_room :: "wk_header \<Rightarrow> u8 \<Rightarrow> u8 \<Rightarrow> nat" where
  "tx_room h fsr tfcnt =
     (if tfcnt = 0 then (if fsr AND WK2XXX_TFULL h \<noteq> 0 then 0 else 255) else 255 - unat tfcnt)"

text \<open>
  The loop that takes bytes from the ring into \<^verbatim>\<open>txbuf\<close>. Its body runs before the count is
  tested, so also for a count of 0. A read outside the ring's page is undefined.
\<close>

function take_chars :: "int \<Rightarrow> 'b wk2xxx_port \<Rightarrow> (u8 list \<times> 'b wk2xxx_port) option" where
  "take_chars count s =
     (if uart_circ_empty (wk_xmit s) then Some ([], s)
      else do { c \<leftarrow> aref (cb_buf (wk_xmit s)) (int (cb_tail (wk_xmit s)));
                let s = s\<lparr>wk_xmit := (wk_xmit s)\<lparr>cb_tail := (cb_tail (wk_xmit s) + 1) mod UART_XMIT_SIZE\<rparr>,
                          wk_icount_tx := wk_icount_tx s + 1\<rparr>;
                    count = count - 1
                in if 0 < count then map_option (\<lambda>(cs, s). (c # cs, s)) (take_chars count s) else Some ([c], s) })"
  by pat_completeness auto
termination by (relation "measure (\<lambda>(count, s). nat count)") auto

declare take_chars.simps [simp del]

fun put_chars :: "wk_header \<Rightarrow> 'b wk_io \<Rightarrow> u8 list \<Rightarrow> 'b wk2xxx_port \<Rightarrow> 'b wk2xxx_port option" where
  "put_chars h io [] s = Some s"
| "put_chars h io (c # cs) s = do { s \<leftarrow> wk_put io (wk_iobase s) (WK2XXX_FDAT h) c s; put_chars h io cs s }"

definition wk2xxx_stop_tx :: "'b wk2xxx_port \<Rightarrow> 'b wk2xxx_port" where
  "wk2xxx_stop_tx s = s"

text \<open>The end of the transmit function, with the status byte as far as it is set.\<close>

definition tx_out :: "wk_header \<Rightarrow> 'b wk_io \<Rightarrow> u8 option \<Rightarrow> 'b wk2xxx_port \<Rightarrow> 'b wk2xxx_port option" where
  "tx_out h io dat s =
     do { (dat, s) \<leftarrow> wk_get io (wk_iobase s) (WK2XXX_FSR h) dat s;
          fsr \<leftarrow> dat;
          Some (if fsr AND WK2XXX_TDAT h = 0 \<and> fsr AND WK2XXX_TBUSY h = 0 then
                  (let s = (if uart_circ_chars_pending (wk_xmit s) < WAKEUP_CHARS
                            then s\<lparr>wk_wakeups := wk_wakeups s + 1\<rparr> else s)
                   in if uart_circ_empty (wk_xmit s) then wk2xxx_stop_tx s else s)
                else s) }"

definition wk2xxx_tx_chars :: "wk_header \<Rightarrow> 'b wk_io \<Rightarrow> 'b wk2xxx_port \<Rightarrow> 'b wk2xxx_port option" where
  "wk2xxx_tx_chars h io s =
     do { s \<leftarrow> wk_put io (wk_iobase s) (WK2XXX_SPAGE h) WK2XXX_PAGE0 s;
          (if wk_x_char s \<noteq> 0 then
             do { s \<leftarrow> wk_put io (wk_iobase s) (WK2XXX_FDAT h) (wk_x_char s) s;
                  tx_out h io None (s\<lparr>wk_icount_tx := wk_icount_tx s + 1, wk_x_char := 0\<rparr>) }
           else if uart_circ_empty (wk_xmit s) \<or> wk_tx_stopped s then tx_out h io None s
           else do { (dat, s) \<leftarrow> wk_get io (wk_iobase s) (WK2XXX_FSR h) None s;
                     fsr \<leftarrow> dat;
                     (dat, s) \<leftarrow> wk_get io (wk_iobase s) (WK2XXX_TFCNT h) dat s;
                     tfcnt \<leftarrow> dat;
                     (cs, s) \<leftarrow> take_chars (int (tx_room h fsr tfcnt)) s;
                     s \<leftarrow> put_chars h io cs s;
                     tx_out h io dat s }) }"

definition wk2xxx_start_tx :: "'b wk2xxx_port \<Rightarrow> 'b wk2xxx_port" where
  "wk2xxx_start_tx s = s\<lparr>wk_queued := True\<rparr>"

definition wk2xxx_tx_empty :: "'b wk2xxx_port \<Rightarrow> u32" where
  "wk2xxx_tx_empty s = 0"

subsection \<open>Port configuration\<close>

text \<open>
  The other operations of the port: reported modem lines, resources (none), the port type.
  The rest of the table (modem control, stop of reception, start-up, shutdown, terminal
  settings, break, check of the port) does nothing.
\<close>

abbreviation (input) TIOCM_CAR :: u32 where "TIOCM_CAR \<equiv> 0x040"
abbreviation (input) TIOCM_CTS :: u32 where "TIOCM_CTS \<equiv> 0x020"
abbreviation (input) TIOCM_DSR :: u32 where "TIOCM_DSR \<equiv> 0x100"
abbreviation (input) UART_CONFIG_TYPE :: u32 where "UART_CONFIG_TYPE \<equiv> 1"

definition wk2xxx_get_mctrl :: "'b wk2xxx_port \<Rightarrow> u32" where
  "wk2xxx_get_mctrl s = TIOCM_CTS OR TIOCM_DSR OR TIOCM_CAR"

definition wk2xxx_request_port :: "'b wk2xxx_port \<Rightarrow> int" where
  "wk2xxx_request_port s = 0"

definition wk2xxx_config_port :: "wk_header \<Rightarrow> u32 \<Rightarrow> 'b wk2xxx_port \<Rightarrow> 'b wk2xxx_port" where
  "wk2xxx_config_port h flags s =
     (if flags AND UART_CONFIG_TYPE \<noteq> 0 \<and> wk2xxx_request_port s = 0 then s\<lparr>wk_type := PORT_WK2XXX h\<rparr> else s)"

definition wk2xxx_type :: "wk_header \<Rightarrow> 'b wk2xxx_port \<Rightarrow> string option" where
  "wk2xxx_type h s = (if wk_type s = PORT_WK2XXX h then Some ''wk2xxx'' else None)"

subsection \<open>Work\<close>

text \<open>
  The first loop writes the interrupt enable register until it reads back as first wanted;
  the value to write becomes what was read. A variable without a value is undefined.
\<close>

definition sier_round :: "wk_header \<Rightarrow> 'b wk_io \<Rightarrow> u8 \<Rightarrow> 'b wk2xxx_port \<Rightarrow> (u8 \<times> 'b wk2xxx_port) option" where
  "sier_round h io val s =
     do { s \<leftarrow> wk_put io (WK2XXX_GPORT h) (WK2XXX_GENA h) 0x0F s;
          s \<leftarrow> wk_put io (wk_iobase s) (WK2XXX_SIER h) val s;
          (val, s) \<leftarrow> wk_get io (wk_iobase s) (WK2XXX_SIER h) (Some val) s;
          val \<leftarrow> val;
          Some (val, s) }"

partial_function (option) sier_loop :: "wk_header \<Rightarrow> 'b wk_io \<Rightarrow> u8 \<Rightarrow> u8 \<Rightarrow> 'b wk2xxx_port \<Rightarrow> 'b wk2xxx_port option" where
  "sier_loop h io val_bak val s =
     do { (val, s) \<leftarrow> sier_round h io val s;
          (if val \<noteq> val_bak then sier_loop h io val_bak val s else Some s) }"

text \<open>The registers read and the pages selected before transmitting; the values are only printed.\<close>

fun wk_reads :: "'b wk_io \<Rightarrow> (u8 \<times> u8) list \<Rightarrow> 'b wk2xxx_port \<Rightarrow> 'b wk2xxx_port option" where
  "wk_reads io [] s = Some s"
| "wk_reads io ((port, reg) # rs) s = do { (_, s) \<leftarrow> wk_get io port reg None s; wk_reads io rs s }"

fun wk_puts :: "'b wk_io \<Rightarrow> (u8 \<times> u8 \<times> u8) list \<Rightarrow> 'b wk2xxx_port \<Rightarrow> 'b wk2xxx_port option" where
  "wk_puts io [] s = Some s"
| "wk_puts io ((port, reg, v) # rs) s = do { s \<leftarrow> wk_put io port reg v s; wk_puts io rs s }"

text \<open>The transmit loop: its condition tests variables the loop does not change.\<close>

definition tx_again :: "wk_header \<Rightarrow> u8 \<Rightarrow> u8 \<Rightarrow> bool" where
  "tx_again h sifr sier \<longleftrightarrow> sifr AND WK2XXX_RXOVT_INT h \<noteq> 0 \<or> sifr AND WK2XXX_RFTRIG_INT h \<noteq> 0 \<or>
     (sifr AND WK2XXX_TFTRIG_INT h \<noteq> 0 \<and> sier AND WK2XXX_TFTRIG_IEN h \<noteq> 0)"

partial_function (option) tx_loop :: "wk_header \<Rightarrow> 'b wk_io \<Rightarrow> u8 \<Rightarrow> u8 \<Rightarrow> 'b wk2xxx_port \<Rightarrow> 'b wk2xxx_port option" where
  "tx_loop h io sifr sier s =
     do { s \<leftarrow> wk2xxx_tx_chars h io s;
          (if tx_again h sifr sier then tx_loop h io sifr sier s else Some s) }"

definition wk2xxx_work :: "wk_header \<Rightarrow> 'b wk_io \<Rightarrow> 'b wk2xxx_port \<Rightarrow> 'b wk2xxx_port option" where
  "wk2xxx_work h io s =
     do { s \<leftarrow> Some (s\<lparr>wk_queued := False\<rparr>);
          (val, s) \<leftarrow> wk_get io (wk_iobase s) (WK2XXX_SIER h) None s;
          val \<leftarrow> map_option (\<lambda>v. v OR WK2XXX_TFTRIG_IEN h) val;
          s \<leftarrow> sier_loop h io val val s;
          s \<leftarrow> wk_reads io [(WK2XXX_GPORT h, WK2XXX_GIFR h), (WK2XXX_GPORT h, WK2XXX_GIER h)] s;
          s \<leftarrow> wk_puts io (map (\<lambda>p. (p, WK2XXX_SPAGE h, WK2XXX_PAGE0)) [1, 2, 3, 4]) s;
          s \<leftarrow> wk_reads io (map (\<lambda>p. (p, WK2XXX_SIFR h)) [1, 2, 3, 4] @ map (\<lambda>p. (p, WK2XXX_SIER h)) [1, 2, 3, 4]) s;
          (sifr, s) \<leftarrow> wk_get io (wk_iobase s) (WK2XXX_SIFR h) None s;
          sifr \<leftarrow> sifr;
          (sier, s) \<leftarrow> wk_get io (wk_iobase s) (WK2XXX_SIER h) (Some sifr) s;
          sier \<leftarrow> sier;
          s \<leftarrow> tx_loop h io sifr sier s;
          wk_reads io [(wk_iobase s, WK2XXX_SIFR h), (wk_iobase s, WK2XXX_SIER h)] s }"

subsection \<open>Interrupt\<close>

abbreviation (input) IRQ_HANDLED :: int where "IRQ_HANDLED \<equiv> 1"

definition wk2xxx_irq :: "'b wk2xxx_port \<Rightarrow> int \<times> 'b wk2xxx_port" where
  "wk2xxx_irq s = (IRQ_HANDLED, s\<lparr>wk_irq_depth := wk_irq_depth s + 1\<rparr>)"

subsection \<open>Probe and removal\<close>

text \<open>
  The ports of the chip: their number on the bus. The array has four initialised entries,
  which is taken as the value of the header's \<^verbatim>\<open>NR_PORTS\<close>.
\<close>

definition wk2xxxs :: "u8 list" where
  "wk2xxxs = [1, 2, 3, 4]"

datatype wk_event =
    Register_driver
  | Unregister_driver
  | Add_port u8
  | Remove_port u8
  | Create_queue u8
  | Destroy_queue u8
  | Request_irq u8
  | Free_irq u8

text \<open>The answers of the kernel services.\<close>

record wk_services =
  ws_register :: int
  ws_add_port :: "u8 \<Rightarrow> int"
  ws_queue :: "u8 \<Rightarrow> bool"
  ws_irq :: "u8 \<Rightarrow> int"

text \<open>The ten test rounds at the start of the probe: a read and a write of the enable register.\<close>

fun probe_test :: "wk_header \<Rightarrow> 'b wk_io \<Rightarrow> nat \<Rightarrow> nat \<Rightarrow> 'b wk2xxx_port \<Rightarrow> 'b wk2xxx_port option" where
  "probe_test h io i 0 s = Some s"
| "probe_test h io i (Suc n) s =
     do { (_, s) \<leftarrow> wk_get io (WK2XXX_GPORT h) (WK2XXX_GENA h) (Some 0) s;
          s \<leftarrow> wk_put io (WK2XXX_GPORT h) (WK2XXX_GENA h) (of_nat i) s;
          probe_test h io (i + 1) n s }"

fun probe_ports :: "wk_services \<Rightarrow> u8 list \<Rightarrow> int \<times> wk_event list" where
  "probe_ports sv [] = (0, [])"
| "probe_ports sv (p # ps) =
     (if ws_add_port sv p < 0 then (ws_add_port sv p, [])
      else if \<not> ws_queue sv p then (- 1, [Add_port p])
      else if ws_irq sv p < 0 then (- 1, [Add_port p, Create_queue p])
      else (let (r, es) = probe_ports sv ps in (r, [Add_port p, Create_queue p, Request_irq p] @ es)))"

definition wk2xxx_probe :: "wk_header \<Rightarrow> 'b wk_io \<Rightarrow> wk_services \<Rightarrow> 'b wk2xxx_port \<Rightarrow> (int \<times> wk_event list \<times> 'b wk2xxx_port) option" where
  "wk2xxx_probe h io sv s =
     do { s \<leftarrow> probe_test h io 0 10 s;
          Some (if ws_register sv \<noteq> 0 then (ws_register sv, [], s)
                else (let (r, es) = probe_ports sv wk2xxxs in (r, Register_driver # es, s))) }"

definition wk2xxx_remove :: "wk_event list" where
  "wk2xxx_remove = concat (map (\<lambda>p. [Remove_port p, Free_irq p, Destroy_queue p]) wk2xxxs) @ [Unregister_driver]"

end
