(* ===== verification/Wk2xxx_Correct.thy ===== *)
theory Wk2xxx_Correct
  imports Wk2xxx
begin

text \<open>
  What the bridge's operations do: on a working SPI bus every access is one message and
  leaves the lock free; the transmit path against the queue that the ring stands for; what
  is left when a transfer fails; the loops of the work function.
\<close>

subsection \<open>The ring as a queue\<close>

definition ring_ok :: "circ_buf \<Rightarrow> bool" where
  "ring_ok c \<longleftrightarrow> length (cb_buf c) = UART_XMIT_SIZE \<and> cb_head c < UART_XMIT_SIZE \<and> cb_tail c < UART_XMIT_SIZE"

definition ring_pending :: "circ_buf \<Rightarrow> u8 list" where
  "ring_pending c = map (\<lambda>k. cb_buf c ! ((cb_tail c + k) mod UART_XMIT_SIZE)) [0 ..< uart_circ_chars_pending c]"

definition ring_advance :: "nat \<Rightarrow> circ_buf \<Rightarrow> circ_buf" where
  "ring_advance n c = c\<lparr>cb_tail := (cb_tail c + n) mod UART_XMIT_SIZE\<rparr>"

lemma ring_advance_0 [simp]: "ring_ok c \<Longrightarrow> ring_advance 0 c = c"
  by (simp add: ring_advance_def ring_ok_def)

lemma ring_advance_add: "ring_advance m (ring_advance n c) = ring_advance (n + m) c"
  by (simp add: ring_advance_def mod_simps add.assoc)

lemma ring_advance_ok [simp]: "ring_ok c \<Longrightarrow> ring_ok (ring_advance n c)"
  by (simp add: ring_ok_def ring_advance_def UART_XMIT_SIZE_def)

lemma length_ring_pending [simp]: "length (ring_pending c) = uart_circ_chars_pending c"
  by (simp add: ring_pending_def)

lemma ring_count: "h < N \<Longrightarrow> t < N \<Longrightarrow> (h + N - t) mod N = (if t \<le> h then h - t else h + N - t)" for h t N :: nat
proof (cases "t \<le> h")
  assume "h < N" "t < N" "t \<le> h"
  then have e: "h + N - t = h - t + N" by linarith
  have "(h - t + N) mod N = h - t" using \<open>h < N\<close> by simp
  then show ?thesis using \<open>t \<le> h\<close> by (simp only: e if_True)
qed simp

lemma ring_count_step:
  assumes "h < N" "t < N" "n \<le> (h + N - t) mod N"
  shows "(h + N - (t + n) mod N) mod N = (h + N - t) mod N - (n :: nat)"
proof -
  define q where "q = (if t + n < N then t + n else t + n - N)"
  have c: "(h + N - t) mod N = (if t \<le> h then h - t else h + N - t)" by (rule ring_count [OF assms(1,2)])
  then have n: "n \<le> (if t \<le> h then h - t else h + N - t)" using assms(3) by simp
  have "t + n < 2 * N" using n assms(1,2) by (cases "t \<le> h") auto
  then have q: "(t + n) mod N = q" "q < N" by (auto simp: q_def mod_if)
  have "(h + N - q) mod N = (if q \<le> h then h - q else h + N - q)" by (rule ring_count [OF assms(1) q(2)])
  also have "\<dots> = (if t \<le> h then h - t else h + N - t) - n"
    using n assms(1,2) by (cases "t \<le> h"; cases "t + n < N"; simp add: q_def)
  finally show ?thesis unfolding q(1) c .
qed

lemma chars_pending_eq:
  "ring_ok c \<Longrightarrow> uart_circ_chars_pending c =
     (if cb_tail c \<le> cb_head c then cb_head c - cb_tail c else cb_head c + UART_XMIT_SIZE - cb_tail c)"
  by (simp only: uart_circ_chars_pending_def ring_ok_def ring_count)

lemma pending_empty: "ring_ok c \<Longrightarrow> ring_pending c = [] \<longleftrightarrow> uart_circ_empty c"
proof -
  assume c: "ring_ok c"
  have "ring_pending c = [] \<longleftrightarrow> uart_circ_chars_pending c = 0" by (metis length_0_conv length_ring_pending)
  then show ?thesis using c by (auto simp: chars_pending_eq uart_circ_empty_def ring_ok_def)
qed

lemma pending_advance:
  assumes "ring_ok c" "n \<le> uart_circ_chars_pending c"
  shows "ring_pending (ring_advance n c) = drop n (ring_pending c)"
proof -
  have "uart_circ_chars_pending (ring_advance n c) = uart_circ_chars_pending c - n"
    using assms unfolding uart_circ_chars_pending_def ring_ok_def ring_advance_def
    by (simp add: ring_count_step)
  moreover have "ring_pending (ring_advance n c) ! i = drop n (ring_pending c) ! i"
    if "i < uart_circ_chars_pending c - n" for i
  proof -
    have "n + i < uart_circ_chars_pending c" using that by linarith
    then show ?thesis
      using that calculation by (simp add: ring_pending_def) (simp add: ring_advance_def mod_simps add.assoc)
  qed
  ultimately show ?thesis by (intro nth_equalityI) simp_all
qed

lemma pending_Cons:
  assumes "ring_ok c" "\<not> uart_circ_empty c"
  shows "ring_pending c = cb_buf c ! cb_tail c # ring_pending (ring_advance 1 c)" "0 < uart_circ_chars_pending c"
proof -
  show n: "0 < uart_circ_chars_pending c" using pending_empty [OF assms(1)] assms(2)
    by (metis length_greater_0_conv length_ring_pending)
  have "ring_pending c = ring_pending c ! 0 # drop 1 (ring_pending c)"
    using n by (metis Cons_nth_drop_Suc One_nat_def drop0 length_ring_pending)
  also have "ring_pending c ! 0 = cb_buf c ! cb_tail c" using n assms(1) by (simp add: ring_pending_def ring_ok_def)
  finally show "ring_pending c = cb_buf c ! cb_tail c # ring_pending (ring_advance 1 c)"
    using pending_advance [OF assms(1), of 1] n by simp
qed

text \<open>The loop takes the queue's front: at least one byte, whatever the count.\<close>

lemma take_chars_result:
  "ring_ok (wk_xmit s) \<Longrightarrow> n = min (uart_circ_chars_pending (wk_xmit s)) (max 1 (nat count)) \<Longrightarrow>
   take_chars count s = Some (take n (ring_pending (wk_xmit s)),
     s\<lparr>wk_xmit := ring_advance n (wk_xmit s), wk_icount_tx := wk_icount_tx s + of_nat n\<rparr>)"
proof (induction count s arbitrary: n rule: take_chars.induct)
  case (1 count s)
  show ?case
  proof (cases "uart_circ_empty (wk_xmit s)")
    case True
    then have p: "ring_pending (wk_xmit s) = []" using pending_empty [OF "1.prems"(1)] by simp
    then have "n = 0" using "1.prems"(2) by (metis length_ring_pending list.size(3) min_0L)
    then show ?thesis using True "1.prems"(1) by (simp add: take_chars.simps [of count s] p)
  next
    case False
    let ?c = "wk_xmit s"
    let ?s = "s\<lparr>wk_xmit := ring_advance 1 ?c, wk_icount_tx := wk_icount_tx s + 1\<rparr>"
    note P = pending_Cons [OF "1.prems"(1) False]
    have a: "aref (cb_buf ?c) (int (cb_tail ?c)) = Some (cb_buf ?c ! cb_tail ?c)"
      using "1.prems"(1) by (simp add: ring_ok_def)
    have adv: "?c\<lparr>cb_tail := (cb_tail ?c + 1) mod UART_XMIT_SIZE\<rparr> = ring_advance 1 ?c"
      by (simp add: ring_advance_def)
    have n1: "uart_circ_chars_pending (ring_advance 1 ?c) = uart_circ_chars_pending ?c - 1"
      using P by (metis diff_Suc_1 length_Cons length_ring_pending)
    have rec: "take_chars count s =
        (if 0 < count - 1 then map_option (\<lambda>(cs, s). (cb_buf ?c ! cb_tail ?c # cs, s)) (take_chars (count - 1) ?s)
         else Some ([cb_buf ?c ! cb_tail ?c], ?s))"
      using False a by (simp add: take_chars.simps [of count s] ring_advance_def)
    show ?thesis
    proof (cases "0 < count - 1")
      case True
      obtain m where m: "n = Suc m" "m = min (uart_circ_chars_pending (wk_xmit ?s)) (max 1 (nat (count - 1)))"
      proof
        show "n = Suc (min (uart_circ_chars_pending (wk_xmit ?s)) (max 1 (nat (count - 1))))"
          using "1.prems"(2) P(2) True n1 by simp
      qed (rule refl)
      have "take_chars (count - 1) ?s = Some (take m (ring_pending (wk_xmit ?s)),
          ?s\<lparr>wk_xmit := ring_advance m (wk_xmit ?s), wk_icount_tx := wk_icount_tx ?s + of_nat m\<rparr>)"
        by (rule "1.IH" [OF False a refl refl True, unfolded adv]) (use "1.prems"(1) m(2) in simp_all)
      then show ?thesis using rec True P(1) m(1) by (simp add: ring_advance_add ac_simps)
    next
      case count: False
      then have "n = 1" using "1.prems"(2) P(2) by auto
      then show ?thesis using rec count P(1) by simp
    qed
  qed
qed

subsection \<open>A working bus\<close>

text \<open>
  Every transfer succeeds and is one message; the chip's reply is a function of the
  messages it has got so far; the pin calls send nothing.
\<close>

locale wk_spi =
  fixes io :: "'b wk_io"
    and msgs :: "'b \<Rightarrow> (u8 \<times> u8) list"
    and reply :: "(u8 \<times> u8) list \<Rightarrow> u8"
  assumes sync: "\<exists>x b'. wio_sync io b m = (0, (x, reply (msgs b @ [m])), b') \<and> msgs b' = msgs b @ [m]"
    and pins: "msgs (wio_mux io b mx) = msgs b" "msgs (wio_gpio io b l) = msgs b"

definition log_io :: "((u8 \<times> u8) list \<Rightarrow> u8) \<Rightarrow> (u8 \<times> u8) list wk_io" where
  "log_io reply = \<lparr>wio_mux = (\<lambda>b mx. b), wio_gpio = (\<lambda>b l. b), wio_sync = (\<lambda>b m. (0, (0, reply (b @ [m])), b @ [m]))\<rparr>"

interpretation log_spi: wk_spi "log_io reply" "\<lambda>b. b" reply for reply
  by unfold_locales (simp_all add: log_io_def)

text \<open>The first byte of a message: a write and a read of a port's register.\<close>

abbreviation (input) wr_cmd :: "u8 \<Rightarrow> u8 \<Rightarrow> u8" where "wr_cmd port reg \<equiv> push_bit 4 (port - 1) OR reg"
abbreviation (input) rd_cmd :: "u8 \<Rightarrow> u8 \<Rightarrow> u8" where "rd_cmd port reg \<equiv> 0x40 OR push_bit 4 (port - 1) OR reg"

text \<open>The access around the transfer: locked and selected before, released after.\<close>

definition cs_raise :: "'b wk_io \<Rightarrow> 'b \<Rightarrow> 'b" where
  "cs_raise io b = wio_mux io (wio_gpio io (wio_mux io b GPIO0_D7) CS_HIGH) SPI1_CS0"

definition cs_lower :: "'b wk_io \<Rightarrow> 'b \<Rightarrow> 'b" where
  "cs_lower io b = wio_mux io (wio_gpio io (wio_mux io b GPIO0_D7) CS_LOW) SPI1_CS0"

lemma chip_select_bus:
  "wk_bus (chip_select_enable io CS_LOW (s\<lparr>wk_lock := True\<rparr>)) = cs_lower io (wk_bus s)"
  "\<not> wk_lock s \<Longrightarrow> chip_select_enable io CS_HIGH (chip_select_enable io CS_LOW (s\<lparr>wk_lock := True\<rparr>)\<lparr>wk_bus := b, wk_lock := False\<rparr>) =
     s\<lparr>wk_bus := cs_raise io b\<rparr>"
  by (cases s; simp add: chip_select_enable_def cs_lower_def cs_raise_def)+

context wk_spi
begin

lemma cs_msgs: "msgs (cs_lower io b) = msgs b" "msgs (cs_raise io b) = msgs b"
  by (simp_all add: cs_lower_def cs_raise_def pins)

lemma write_ok:
  assumes "\<not> wk_lock s" "port \<noteq> 0"
  shows "\<exists>b'. wk2xxx_write_reg io port reg data s = Some (0, s\<lparr>wk_bus := b'\<rparr>) \<and>
    msgs b' = msgs (wk_bus s) @ [(wr_cmd port reg, data)]"
proof -
  obtain x b' where b': "wio_sync io (cs_lower io (wk_bus s)) (wr_cmd port reg, data) = (0, x, b')"
    "msgs b' = msgs (wk_bus s) @ [(wr_cmd port reg, data)]"
    using sync [of "cs_lower io (wk_bus s)" "(wr_cmd port reg, data)"] by (auto simp: cs_msgs)
  then have "wk2xxx_write_reg io port reg data s = Some (0, s\<lparr>wk_bus := cs_raise io b'\<rparr>)"
    using assms chip_select_bus(2) [of s io b']
    by (simp add: wk2xxx_write_reg_def sub_number_def Let_def chip_select_bus(1))
  with b'(2) show ?thesis by (intro exI [of _ "cs_raise io b'"]) (simp add: cs_msgs)
qed

lemma read_ok:
  assumes "\<not> wk_lock s" "port \<noteq> 0"
  shows "\<exists>b'. wk2xxx_read_reg io port reg s = Some (0, Some (reply (msgs (wk_bus s) @ [(rd_cmd port reg, 0)])), s\<lparr>wk_bus := b'\<rparr>) \<and>
    msgs b' = msgs (wk_bus s) @ [(rd_cmd port reg, 0)]"
proof -
  obtain x b' where b': "wio_sync io (cs_lower io (wk_bus s)) (rd_cmd port reg, 0) =
      (0, (x, reply (msgs (wk_bus s) @ [(rd_cmd port reg, 0)])), b')"
    "msgs b' = msgs (wk_bus s) @ [(rd_cmd port reg, 0)]"
    using sync [of "cs_lower io (wk_bus s)" "(rd_cmd port reg, 0)"] by (auto simp: cs_msgs)
  then have "wk2xxx_read_reg io port reg s =
      Some (0, Some (reply (msgs (wk_bus s) @ [(rd_cmd port reg, 0)])), s\<lparr>wk_bus := cs_raise io b'\<rparr>)"
    using assms chip_select_bus(2) [of s io b']
    by (simp add: wk2xxx_read_reg_def sub_number_def Let_def chip_select_bus(1))
  with b'(2) show ?thesis by (intro exI [of _ "cs_raise io b'"]) (simp add: cs_msgs)
qed

lemma put_ok:
  "\<not> wk_lock s \<Longrightarrow> port \<noteq> 0 \<Longrightarrow> \<exists>b'. wk_put io port reg data s = Some (s\<lparr>wk_bus := b'\<rparr>) \<and>
    msgs b' = msgs (wk_bus s) @ [(wr_cmd port reg, data)]"
  using write_ok [of s port reg data] by (auto simp: wk_put_def)

lemma get_ok:
  "\<not> wk_lock s \<Longrightarrow> port \<noteq> 0 \<Longrightarrow> \<exists>b'. wk_get io port reg var s =
      Some (Some (reply (msgs (wk_bus s) @ [(rd_cmd port reg, 0)])), s\<lparr>wk_bus := b'\<rparr>) \<and>
    msgs b' = msgs (wk_bus s) @ [(rd_cmd port reg, 0)]"
  using read_ok [of s port reg] by (auto simp: wk_get_def)

lemma put_chars_ok:
  "\<not> wk_lock s \<Longrightarrow> wk_iobase s \<noteq> 0 \<Longrightarrow> \<exists>b'. put_chars h io cs s = Some (s\<lparr>wk_bus := b'\<rparr>) \<and>
    msgs b' = msgs (wk_bus s) @ map (\<lambda>c. (wr_cmd (wk_iobase s) (WK2XXX_FDAT h), c)) cs"
proof (induction cs arbitrary: s)
  case (Cons c cs)
  obtain b1 where b1: "wk_put io (wk_iobase s) (WK2XXX_FDAT h) c s = Some (s\<lparr>wk_bus := b1\<rparr>)"
    "msgs b1 = msgs (wk_bus s) @ [(wr_cmd (wk_iobase s) (WK2XXX_FDAT h), c)]"
    using put_ok [OF Cons.prems] by blast
  obtain b2 where "put_chars h io cs (s\<lparr>wk_bus := b1\<rparr>) = Some (s\<lparr>wk_bus := b2\<rparr>)"
    "msgs b2 = msgs b1 @ map (\<lambda>c. (wr_cmd (wk_iobase s) (WK2XXX_FDAT h), c)) cs"
    using Cons.IH [of "s\<lparr>wk_bus := b1\<rparr>"] Cons.prems by auto
  then show ?case using b1 by (intro exI [of _ b2]) simp
next
  case Nil show ?case by (intro exI [of _ "wk_bus s"]) simp
qed

text \<open>The end of the transmit function: one more status read, nothing else on the bus or the ring.\<close>

lemma tx_out_ok:
  assumes "\<not> wk_lock s" "wk_iobase s \<noteq> 0"
  shows "\<exists>s'. tx_out h io dat s = Some s' \<and> wk_xmit s' = wk_xmit s \<and> wk_lock s' = wk_lock s \<and>
    wk_icount_tx s' = wk_icount_tx s \<and> wk_x_char s' = wk_x_char s \<and> wk_irq_depth s' = wk_irq_depth s \<and>
    wk_tx_stopped s' = wk_tx_stopped s \<and> wk_iobase s' = wk_iobase s \<and>
    msgs (wk_bus s') = msgs (wk_bus s) @ [(rd_cmd (wk_iobase s) (WK2XXX_FSR h), 0)]"
  using get_ok [OF assms, of "WK2XXX_FSR h" dat]
  by (auto simp: tx_out_def Let_def wk2xxx_stop_tx_def)

text \<open>The transmit function with something to send and nothing urgent.\<close>

lemma tx_chars_ok:
  fixes s :: "'b wk2xxx_port" and h :: wk_header
  defines "p \<equiv> wk_iobase s"
  defines "L \<equiv> msgs (wk_bus s) @ [(wr_cmd p (WK2XXX_SPAGE h), 0), (rd_cmd p (WK2XXX_FSR h), 0)]"
  defines "room \<equiv> tx_room h (reply L) (reply (L @ [(rd_cmd p (WK2XXX_TFCNT h), 0)]))"
  defines "n \<equiv> min (uart_circ_chars_pending (wk_xmit s)) (max 1 room)"
  assumes s: "\<not> wk_lock s" "p \<noteq> 0" "ring_ok (wk_xmit s)" "wk_x_char s = 0" "\<not> wk_tx_stopped s"
    "\<not> uart_circ_empty (wk_xmit s)"
  shows "\<exists>s'. wk2xxx_tx_chars h io s = Some s' \<and> wk_xmit s' = ring_advance n (wk_xmit s) \<and> \<not> wk_lock s' \<and>
    wk_iobase s' = p \<and> wk_icount_tx s' = wk_icount_tx s + of_nat n \<and>
    wk_x_char s' = 0 \<and> wk_tx_stopped s' = wk_tx_stopped s \<and> wk_irq_depth s' = wk_irq_depth s \<and>
    msgs (wk_bus s') = L @ [(rd_cmd p (WK2XXX_TFCNT h), 0)] @
      map (\<lambda>c. (wr_cmd p (WK2XXX_FDAT h), c)) (take n (ring_pending (wk_xmit s))) @ [(rd_cmd p (WK2XXX_FSR h), 0)]"
proof -
  obtain b1 where b1: "wk_put io p (WK2XXX_SPAGE h) 0 s = Some (s\<lparr>wk_bus := b1\<rparr>)"
    "msgs b1 = msgs (wk_bus s) @ [(wr_cmd p (WK2XXX_SPAGE h), 0)]"
    using put_ok [OF s(1,2)] by blast
  obtain b2 where b2: "wk_get io p (WK2XXX_FSR h) None (s\<lparr>wk_bus := b1\<rparr>) = Some (Some (reply L), s\<lparr>wk_bus := b2\<rparr>)" "msgs b2 = L"
    using get_ok [of "s\<lparr>wk_bus := b1\<rparr>" p "WK2XXX_FSR h" None] s(1,2) b1(2) by (auto simp: L_def)
  obtain b3 where b3: "wk_get io p (WK2XXX_TFCNT h) (Some (reply L)) (s\<lparr>wk_bus := b2\<rparr>) =
      Some (Some (reply (L @ [(rd_cmd p (WK2XXX_TFCNT h), 0)])), s\<lparr>wk_bus := b3\<rparr>)"
    "msgs b3 = L @ [(rd_cmd p (WK2XXX_TFCNT h), 0)]"
    using get_ok [of "s\<lparr>wk_bus := b2\<rparr>" p "WK2XXX_TFCNT h" "Some (reply L)"] s(1,2) b2(2) by auto
  let ?s3 = "s\<lparr>wk_bus := b3\<rparr>"
  let ?s4 = "?s3\<lparr>wk_xmit := ring_advance n (wk_xmit s), wk_icount_tx := wk_icount_tx s + of_nat n\<rparr>"
  have take: "take_chars (int room) ?s3 = Some (take n (ring_pending (wk_xmit s)), ?s4)"
    using take_chars_result [of ?s3 n "int room"] s(3) by (simp add: n_def)
  obtain b5 where b5: "put_chars h io (take n (ring_pending (wk_xmit s))) ?s4 = Some (?s4\<lparr>wk_bus := b5\<rparr>)"
    "msgs b5 = msgs b3 @ map (\<lambda>c. (wr_cmd p (WK2XXX_FDAT h), c)) (take n (ring_pending (wk_xmit s)))"
    using put_chars_ok [of ?s4 h "take n (ring_pending (wk_xmit s))"] s(1,2) by (auto simp: p_def)
  obtain s' where s': "tx_out h io (Some (reply (L @ [(rd_cmd p (WK2XXX_TFCNT h), 0)]))) (?s4\<lparr>wk_bus := b5\<rparr>) = Some s'"
    "wk_xmit s' = ring_advance n (wk_xmit s)" "\<not> wk_lock s'" "wk_icount_tx s' = wk_icount_tx s + of_nat n"
    "wk_x_char s' = 0" "wk_tx_stopped s' = wk_tx_stopped s" "wk_irq_depth s' = wk_irq_depth s"
    "wk_iobase s' = p" "msgs (wk_bus s') = msgs b5 @ [(rd_cmd p (WK2XXX_FSR h), 0)]"
    using tx_out_ok [of "?s4\<lparr>wk_bus := b5\<rparr>" h] s(1,2,4) by (auto simp: p_def)
  have "wk2xxx_tx_chars h io s = Some s'"
    using b1(1) b2(1) b3(1) take b5(1) s'(1) s(4-6) unfolding wk2xxx_tx_chars_def p_def room_def by simp
  then show ?thesis using s' b5(2) b3(2) by simp
qed

text \<open>An urgent character goes alone, and an empty or stopped ring sends nothing.\<close>

lemma tx_chars_other:
  assumes "\<not> wk_lock s" "wk_iobase s \<noteq> 0" "wk_x_char s \<noteq> 0 \<or> uart_circ_empty (wk_xmit s) \<or> wk_tx_stopped s"
  shows "\<exists>s'. wk2xxx_tx_chars h io s = Some s' \<and> wk_xmit s' = wk_xmit s \<and> \<not> wk_lock s' \<and> wk_iobase s' = wk_iobase s \<and>
    wk_x_char s' = 0 \<and> wk_tx_stopped s' = wk_tx_stopped s \<and> wk_irq_depth s' = wk_irq_depth s \<and>
    wk_icount_tx s' = wk_icount_tx s + (if wk_x_char s = 0 then 0 else 1) \<and>
    msgs (wk_bus s') = msgs (wk_bus s) @ [(wr_cmd (wk_iobase s) (WK2XXX_SPAGE h), 0)] @
      (if wk_x_char s = 0 then [] else [(wr_cmd (wk_iobase s) (WK2XXX_FDAT h), wk_x_char s)]) @
      [(rd_cmd (wk_iobase s) (WK2XXX_FSR h), 0)]"
proof -
  obtain b1 where b1: "wk_put io (wk_iobase s) (WK2XXX_SPAGE h) 0 s = Some (s\<lparr>wk_bus := b1\<rparr>)"
    "msgs b1 = msgs (wk_bus s) @ [(wr_cmd (wk_iobase s) (WK2XXX_SPAGE h), 0)]"
    using put_ok [OF assms(1,2)] by blast
  show ?thesis
  proof (cases "wk_x_char s = 0")
    case True
    then show ?thesis
      using b1 assms tx_out_ok [of "s\<lparr>wk_bus := b1\<rparr>" h None] by (auto simp: wk2xxx_tx_chars_def)
  next
    case False
    obtain b2 where "wk_put io (wk_iobase s) (WK2XXX_FDAT h) (wk_x_char s) (s\<lparr>wk_bus := b1\<rparr>) = Some (s\<lparr>wk_bus := b2\<rparr>)"
      "msgs b2 = msgs b1 @ [(wr_cmd (wk_iobase s) (WK2XXX_FDAT h), wk_x_char s)]"
      using put_ok [of "s\<lparr>wk_bus := b1\<rparr>" "wk_iobase s" "WK2XXX_FDAT h" "wk_x_char s"] assms by auto
    then show ?thesis
      using False b1 assms tx_out_ok [of "s\<lparr>wk_bus := b2, wk_icount_tx := wk_icount_tx s + 1, wk_x_char := 0\<rparr>" h None]
      by (auto simp: wk2xxx_tx_chars_def)
  qed
qed

end

subsection \<open>A failing transfer\<close>

text \<open>With the lock held nothing returns.\<close>

lemma locked_access:
  assumes "wk_lock s"
  shows "wk2xxx_write_reg io port reg data s = None" "wk2xxx_read_reg io port reg s = None"
    "wk_put io port reg data s = None" "wk_get io port reg var s = None"
  using assms by (cases "sub_number port"; simp add: wk2xxx_write_reg_def wk2xxx_read_reg_def wk_put_def wk_get_def)+

lemma locked_calls:
  assumes "wk_lock s"
  shows "wk2xxx_tx_chars h io s = None" "wk2xxx_work h io s = None"
  using assms by (simp_all add: wk2xxx_tx_chars_def wk2xxx_work_def locked_access)

lemma failed_write:
  assumes "wk2xxx_write_reg io port reg data s = Some (st, s')" "st \<noteq> 0"
  shows "wk_lock s'"
  using assms by (auto simp: wk2xxx_write_reg_def Let_def chip_select_enable_def mutex_lock_def split: bind_splits if_splits prod.splits)

lemma failed_read:
  assumes "wk2xxx_read_reg io port reg s = Some (st, v, s')" "st \<noteq> 0"
  shows "wk_lock s' \<and> v = None"
  using assms by (auto simp: wk2xxx_read_reg_def Let_def chip_select_enable_def mutex_lock_def split: bind_splits if_splits prod.splits)

lemma ok_write:
  assumes "wk2xxx_write_reg io port reg data s = Some (0, s')" shows "\<not> wk_lock s'"
  using assms by (auto simp: wk2xxx_write_reg_def Let_def chip_select_enable_def split: bind_splits if_splits prod.splits)

subsection \<open>Loops\<close>

lemma tx_loop_returns:
  assumes "tx_loop h io sifr sier s = Some s'" shows "\<not> tx_again h sifr sier"
proof (rule tx_loop.raw_induct [OF _ assms, where P = "\<lambda>h io sifr sier s s'. \<not> tx_again h sifr sier"])
  fix f :: "wk_header \<Rightarrow> 'a wk_io \<Rightarrow> u8 \<Rightarrow> u8 \<Rightarrow> 'a wk2xxx_port \<Rightarrow> 'a wk2xxx_port option" and h io sifr sier s y
  assume "\<And>h io sifr sier s y. f h io sifr sier s = Some y \<Longrightarrow> \<not> tx_again h sifr sier"
    "do { s \<leftarrow> wk2xxx_tx_chars h io s; if tx_again h sifr sier then f h io sifr sier s else Some s } = Some y"
  then show "\<not> tx_again h sifr sier" by (auto split: bind_splits if_splits)
qed

lemma tx_loop_once: "\<not> tx_again h sifr sier \<Longrightarrow> tx_loop h io sifr sier s = wk2xxx_tx_chars h io s"
  by (subst tx_loop.simps) simp

lemma sier_loop_once:
  "sier_round h io val_bak s = Some (val_bak, s') \<Longrightarrow> sier_loop h io val_bak val_bak s = Some s'"
  by (subst sier_loop.simps) simp

text \<open>A chip that never reads back the wanted value keeps the loop going.\<close>

lemma sier_loop_never:
  assumes "sier_loop h io val_bak val s = Some s'" shows "\<exists>v s1. sier_round h io v s1 = Some (val_bak, s')"
proof (rule sier_loop.raw_induct [OF _ assms, where P = "\<lambda>h io val_bak val s s'. \<exists>v s1. sier_round h io v s1 = Some (val_bak, s')"])
  fix f :: "wk_header \<Rightarrow> 'a wk_io \<Rightarrow> u8 \<Rightarrow> u8 \<Rightarrow> 'a wk2xxx_port \<Rightarrow> 'a wk2xxx_port option" and h io val_bak val s y
  assume "\<And>h io val_bak val s y. f h io val_bak val s = Some y \<Longrightarrow> \<exists>v s1. sier_round h io v s1 = Some (val_bak, y)"
    "do { (val, s) \<leftarrow> sier_round h io val s; if val \<noteq> val_bak then f h io val_bak val s else Some s } = Some y"
  then show "\<exists>v s1. sier_round h io v s1 = Some (val_bak, y)" by (auto split: bind_splits if_splits prod.splits)
qed

end
