(* ===== verification/Wk2xxx_Props.thy ===== *)
theory Wk2xxx_Props
  imports Wk2xxx_Correct
begin

text \<open>
  The properties of the SPI to UART bridge: what a transmit round sends, that rounds drain
  the ring, what a failing transfer leaves, the work function's loop, probe and removal.
\<close>

subsection \<open>Transmit rounds\<close>

text \<open>The bytes put into the transmit register of a port, among the messages.\<close>

definition fdat_bytes :: "wk_header \<Rightarrow> u8 \<Rightarrow> (u8 \<times> u8) list \<Rightarrow> u8 list" where
  "fdat_bytes h p ms = map snd (filter (\<lambda>m. fst m = wr_cmd p (WK2XXX_FDAT h)) ms)"

text \<open>The command for the transmit register is none of the others a round uses.\<close>

definition fdat_distinct :: "wk_header \<Rightarrow> u8 \<Rightarrow> bool" where
  "fdat_distinct h p \<longleftrightarrow> wr_cmd p (WK2XXX_FDAT h) \<notin>
     {wr_cmd p (WK2XXX_SPAGE h), rd_cmd p (WK2XXX_FSR h), rd_cmd p (WK2XXX_TFCNT h)}"

fun tx_rounds :: "wk_header \<Rightarrow> 'b wk_io \<Rightarrow> nat \<Rightarrow> 'b wk2xxx_port \<Rightarrow> 'b wk2xxx_port option" where
  "tx_rounds h io 0 s = Some s"
| "tx_rounds h io (Suc k) s = do { s \<leftarrow> wk2xxx_tx_chars h io s; tx_rounds h io k s }"

lemma fdat_append [simp]: "fdat_bytes h p (xs @ ys) = fdat_bytes h p xs @ fdat_bytes h p ys"
  by (simp add: fdat_bytes_def)

lemma fdat_same: "fdat_bytes h p (map (\<lambda>c. (wr_cmd p (WK2XXX_FDAT h), c)) cs) = cs"
  by (induction cs) (simp_all add: fdat_bytes_def)

lemma tx_room_bound: "tx_room h fsr tfcnt \<le> 255"
  by (simp add: tx_room_def)

context wk_spi
begin

lemma tx_round_bytes:
  assumes "\<not> wk_lock s" "wk_iobase s \<noteq> 0" "ring_ok (wk_xmit s)" "wk_x_char s = 0" "\<not> wk_tx_stopped s"
    and "fdat_distinct h (wk_iobase s)"
  shows "\<exists>s' n. wk2xxx_tx_chars h io s = Some s' \<and> \<not> wk_lock s' \<and> wk_iobase s' = wk_iobase s \<and> ring_ok (wk_xmit s') \<and>
    wk_x_char s' = 0 \<and> wk_tx_stopped s' = wk_tx_stopped s \<and>
    ring_pending (wk_xmit s') = drop n (ring_pending (wk_xmit s)) \<and> (ring_pending (wk_xmit s) \<noteq> [] \<longrightarrow> 0 < n) \<and>
    fdat_bytes h (wk_iobase s) (msgs (wk_bus s')) =
      fdat_bytes h (wk_iobase s) (msgs (wk_bus s)) @ take n (ring_pending (wk_xmit s))"
proof (cases "uart_circ_empty (wk_xmit s)")
  case True
  then have "ring_pending (wk_xmit s) = []" using pending_empty assms(3) by blast
  moreover obtain s' where "wk2xxx_tx_chars h io s = Some s'" "wk_xmit s' = wk_xmit s" "\<not> wk_lock s'"
    "wk_iobase s' = wk_iobase s" "wk_x_char s' = 0" "wk_tx_stopped s' = wk_tx_stopped s"
    "msgs (wk_bus s') = msgs (wk_bus s) @ [(wr_cmd (wk_iobase s) (WK2XXX_SPAGE h), 0), (rd_cmd (wk_iobase s) (WK2XXX_FSR h), 0)]"
    using tx_chars_other [OF assms(1,2)] True assms(4) by auto
  ultimately show ?thesis using assms(3,6)
    by (intro exI [of _ s'] exI [of _ 0]) (auto simp: fdat_bytes_def fdat_distinct_def)
next
  case False
  obtain s' n L where s': "wk2xxx_tx_chars h io s = Some s'" "wk_xmit s' = ring_advance n (wk_xmit s)" "\<not> wk_lock s'"
    "wk_iobase s' = wk_iobase s" "wk_x_char s' = 0" "wk_tx_stopped s' = wk_tx_stopped s"
    "L = [(wr_cmd (wk_iobase s) (WK2XXX_SPAGE h), 0), (rd_cmd (wk_iobase s) (WK2XXX_FSR h), 0), (rd_cmd (wk_iobase s) (WK2XXX_TFCNT h), 0)]"
    "msgs (wk_bus s') = msgs (wk_bus s) @ L @ map (\<lambda>c. (wr_cmd (wk_iobase s) (WK2XXX_FDAT h), c)) (take n (ring_pending (wk_xmit s))) @
      [(rd_cmd (wk_iobase s) (WK2XXX_FSR h), 0)]"
    and n: "n \<le> uart_circ_chars_pending (wk_xmit s)" "0 < n"
    using tx_chars_ok [OF assms(1-5) False, of h] pending_Cons(2) [OF assms(3) False] by auto
  have "fdat_bytes h (wk_iobase s) L = []" "fdat_bytes h (wk_iobase s) [(rd_cmd (wk_iobase s) (WK2XXX_FSR h), 0)] = []"
    using assms(6) by (auto simp: s'(7) fdat_bytes_def fdat_distinct_def)
  then have "fdat_bytes h (wk_iobase s) (msgs (wk_bus s')) =
      fdat_bytes h (wk_iobase s) (msgs (wk_bus s)) @ take n (ring_pending (wk_xmit s))"
    by (simp only: s'(8) fdat_append fdat_same append_Nil append_Nil2)
  then show ?thesis using s' n pending_advance [OF assms(3) n(1)] assms(3) by (intro exI [of _ s'] exI [of _ n]) simp
qed

text \<open>Rounds drain the ring.\<close>

lemma tx_rounds_drain:
  "\<not> wk_lock s \<Longrightarrow> wk_iobase s \<noteq> 0 \<Longrightarrow> ring_ok (wk_xmit s) \<Longrightarrow> wk_x_char s = 0 \<Longrightarrow> \<not> wk_tx_stopped s \<Longrightarrow>
   fdat_distinct h (wk_iobase s) \<Longrightarrow> length (ring_pending (wk_xmit s)) \<le> k \<Longrightarrow>
   \<exists>s'. tx_rounds h io k s = Some s' \<and> uart_circ_empty (wk_xmit s') \<and> \<not> wk_lock s' \<and>
     fdat_bytes h (wk_iobase s) (msgs (wk_bus s')) =
       fdat_bytes h (wk_iobase s) (msgs (wk_bus s)) @ ring_pending (wk_xmit s)"
proof (induction k arbitrary: s)
  case 0
  then have "ring_pending (wk_xmit s) = []" by (metis le_0_eq length_0_conv)
  then show ?case using 0 pending_empty [of "wk_xmit s"] by simp
next
  case (Suc k)
  obtain s1 n where s1: "wk2xxx_tx_chars h io s = Some s1" "\<not> wk_lock s1" "wk_iobase s1 = wk_iobase s" "ring_ok (wk_xmit s1)"
    "wk_x_char s1 = 0" "wk_tx_stopped s1 = wk_tx_stopped s" "ring_pending (wk_xmit s1) = drop n (ring_pending (wk_xmit s))"
    "ring_pending (wk_xmit s) \<noteq> [] \<longrightarrow> 0 < n"
    "fdat_bytes h (wk_iobase s) (msgs (wk_bus s1)) =
      fdat_bytes h (wk_iobase s) (msgs (wk_bus s)) @ take n (ring_pending (wk_xmit s))"
    using tx_round_bytes [OF Suc.prems(1-6)] by blast
  have "length (drop n (ring_pending (wk_xmit s))) \<le> k"
    using Suc.prems(7) s1(8) by (cases "ring_pending (wk_xmit s) = []") auto
  then obtain s2 where "tx_rounds h io k s1 = Some s2" "uart_circ_empty (wk_xmit s2)" "\<not> wk_lock s2"
    "fdat_bytes h (wk_iobase s) (msgs (wk_bus s2)) =
      fdat_bytes h (wk_iobase s) (msgs (wk_bus s1)) @ drop n (ring_pending (wk_xmit s))"
    using Suc.IH [of s1] s1 Suc.prems(2,5,6) by (auto simp: s1(3,7))
  then show ?case using s1(1,9) by simp
qed

end

subsection \<open>What probe and removal hold\<close>

text \<open>The resources held after a list of events, each named by the event that takes it.\<close>

definition wk_held :: "wk_event list \<Rightarrow> wk_event set" where
  "wk_held es = fold (\<lambda>e H. case e of
       Unregister_driver \<Rightarrow> H - {Register_driver} | Remove_port p \<Rightarrow> H - {Add_port p}
     | Destroy_queue p \<Rightarrow> H - {Create_queue p} | Free_irq p \<Rightarrow> H - {Request_irq p} | e \<Rightarrow> insert e H) es {}"

definition wk_all :: "wk_event set" where
  "wk_all = insert Register_driver (\<Union>p \<in> set wk2xxxs. {Add_port p, Create_queue p, Request_irq p})"

lemma probe_ports_cases:
  "probe_ports sv [p1, p2, p3, p4] = (r, es) \<Longrightarrow>
   (r = 0 \<and> es = concat (map (\<lambda>p. [Add_port p, Create_queue p, Request_irq p]) [p1, p2, p3, p4])) \<or> r < 0"
  by (auto split: if_splits)

lemma probe_test_ok: "\<not> wk_lock s \<Longrightarrow> WK2XXX_GPORT h \<noteq> 0 \<Longrightarrow> \<exists>s'. probe_test h (log_io r) i n s = Some s'"
proof (induction n arbitrary: s i)
  case (Suc n)
  have 1: "\<exists>v b. wk_get (log_io r) (WK2XXX_GPORT h) (WK2XXX_GENA h) (Some 0) s = Some (v, s\<lparr>wk_bus := b\<rparr>)"
    using log_spi.get_ok [OF Suc.prems, where reply = r] by blast
  have 2: "\<exists>b'. wk_put (log_io r) (WK2XXX_GPORT h) (WK2XXX_GENA h) (of_nat i) (s\<lparr>wk_bus := b\<rparr>) = Some (s\<lparr>wk_bus := b'\<rparr>)" for b
    using log_spi.put_ok [OF _ Suc.prems(2), of "s\<lparr>wk_bus := b\<rparr>"] Suc.prems(1) by fastforce
  from 1 obtain v b where b: "wk_get (log_io r) (WK2XXX_GPORT h) (WK2XXX_GENA h) (Some 0) s = Some (v, s\<lparr>wk_bus := b\<rparr>)" by blast
  from 2 [of b] obtain b' where b': "wk_put (log_io r) (WK2XXX_GPORT h) (WK2XXX_GENA h) (of_nat i) (s\<lparr>wk_bus := b\<rparr>) =
      Some (s\<lparr>wk_bus := b'\<rparr>)" by blast
  show ?case using b b' Suc.IH [of "s\<lparr>wk_bus := b'\<rparr>"] Suc.prems by simp
qed simp

lemma probe_ports_held: "probe_ports sv ps = (r, es) \<Longrightarrow> Unregister_driver \<notin> set es"
  by (induction ps arbitrary: r es) (auto split: if_splits prod.splits)

lemma held_driver: "Unregister_driver \<notin> set es \<Longrightarrow> Register_driver \<in> wk_held (Register_driver # es)"
proof -
  have "Unregister_driver \<notin> set es \<Longrightarrow> Register_driver \<in> H \<Longrightarrow> Register_driver \<in> fold (\<lambda>e H. case e of
       Unregister_driver \<Rightarrow> H - {Register_driver} | Remove_port p \<Rightarrow> H - {Add_port p}
     | Destroy_queue p \<Rightarrow> H - {Create_queue p} | Free_irq p \<Rightarrow> H - {Request_irq p} | e \<Rightarrow> insert e H) es H" for H
    by (induction es arbitrary: H) (auto split: wk_event.splits)
  then show "Unregister_driver \<notin> set es \<Longrightarrow> Register_driver \<in> wk_held (Register_driver # es)" by (simp add: wk_held_def)
qed

subsection \<open>Properties\<close>

definition demo_header :: wk_header where
  "demo_header = \<lparr>WK2XXX_GPORT = 1, WK2XXX_GENA = 0, WK2XXX_GIER = 0x10, WK2XXX_GIFR = 0x11, WK2XXX_SPAGE = 3,
     WK2XXX_SIER = 7, WK2XXX_SIFR = 8, WK2XXX_FSR = 0xb, WK2XXX_TFCNT = 9, WK2XXX_FDAT = 0xd, WK2XXX_TFULL = 2,
     WK2XXX_TDAT = 4, WK2XXX_TBUSY = 1, WK2XXX_TFTRIG_IEN = 4, WK2XXX_TFTRIG_INT = 4, WK2XXX_RFTRIG_INT = 1,
     WK2XXX_RXOVT_INT = 2, PORT_WK2XXX = 77\<rparr>"

lemma demo_gport: "WK2XXX_GPORT demo_header \<noteq> 0"
  by (simp add: demo_header_def)

definition demo_ring :: circ_buf where
  "demo_ring = \<lparr>cb_buf = replicate UART_XMIT_SIZE 0x41, cb_head = 3, cb_tail = 0\<rparr>"

definition demo_wk :: "'b \<Rightarrow> 'b wk2xxx_port" where
  "demo_wk b = \<lparr>wk_lock = False, wk_iobase = 1, wk_x_char = 0, wk_xmit = demo_ring, wk_tx_stopped = False,
     wk_icount_tx = 0, wk_wakeups = 0, wk_queued = True, wk_irq_depth = 0, wk_type = 0, wk_bus = b\<rparr>"

lemma demo_wk_simps [simp]: "\<not> wk_lock (demo_wk b)" "wk_iobase (demo_wk b) = 1" "wk_x_char (demo_wk b) = 0"
  "\<not> wk_tx_stopped (demo_wk b)" "wk_xmit (demo_wk b) = demo_ring" "wk_bus (demo_wk b) = b"
  by (simp_all add: demo_wk_def)

lemma demo_ring_ok: "ring_ok demo_ring" "\<not> uart_circ_empty demo_ring" "uart_circ_chars_pending demo_ring = 3"
  by (simp_all add: ring_ok_def demo_ring_def uart_circ_empty_def uart_circ_chars_pending_def UART_XMIT_SIZE_def)

text \<open>A transmit round sends the front of the queue: on a working bus, with bytes pending,
  nothing urgent and the port not stopped, the messages are the page selection, the reads of
  status and fill count, then the first bytes pending in order, each to the transmit
  register, and a last status read; exactly these bytes leave the ring. Their number is the
  room the chip reports or what is pending if less, but never zero: a chip that reports a
  full buffer is sent a byte all the same.\<close>
theorem wk_tx_chars:
  assumes "wk_spi io msgs reply" "\<not> wk_lock s" "wk_iobase s = p" "p \<noteq> 0" "ring_ok (wk_xmit s)" "wk_x_char s = 0"
    "\<not> wk_tx_stopped s" "\<not> uart_circ_empty (wk_xmit s)"
    and L: "L = msgs (wk_bus s) @ [(wr_cmd p (WK2XXX_SPAGE h), 0), (rd_cmd p (WK2XXX_FSR h), 0)]"
    and room: "room = tx_room h (reply L) (reply (L @ [(rd_cmd p (WK2XXX_TFCNT h), 0)]))"
    and n: "n = min (length (ring_pending (wk_xmit s))) (max 1 room)"
  shows "\<exists>s'. wk2xxx_tx_chars h io s = Some s' \<and> \<not> wk_lock s' \<and>
    ring_pending (wk_xmit s') = drop n (ring_pending (wk_xmit s)) \<and>
    msgs (wk_bus s') = L @ [(rd_cmd p (WK2XXX_TFCNT h), 0)] @
      map (\<lambda>c. (wr_cmd p (WK2XXX_FDAT h), c)) (take n (ring_pending (wk_xmit s))) @ [(rd_cmd p (WK2XXX_FSR h), 0)] \<and>
    n \<le> 255 \<and> (room = 0 \<longrightarrow> n = 1)"
proof -
  note P = pending_Cons(2) [OF assms(5,8)]
  have "n \<le> uart_circ_chars_pending (wk_xmit s)" "room \<le> 255" using n room by (simp_all add: tx_room_bound)
  moreover obtain s' where "wk2xxx_tx_chars h io s = Some s'" "wk_xmit s' = ring_advance n (wk_xmit s)" "\<not> wk_lock s'"
    "msgs (wk_bus s') = L @ [(rd_cmd p (WK2XXX_TFCNT h), 0)] @
      map (\<lambda>c. (wr_cmd p (WK2XXX_FDAT h), c)) (take n (ring_pending (wk_xmit s))) @ [(rd_cmd p (WK2XXX_FSR h), 0)]"
    using wk_spi.tx_chars_ok [OF assms(1,2) _ assms(5-8), of h] assms(3,4) unfolding L room n length_ring_pending by blast
  ultimately show ?thesis
    using pending_advance [OF assms(5), of n] P n by (intro exI [of _ s']) auto
qed

theorem wk_tx_chars_witness:
  "\<exists>s'. wk2xxx_tx_chars demo_header (log_io (\<lambda>_. 2)) (demo_wk []) = Some s' \<and>
    wk_bus s' = [(3, 0), (0x4b, 0), (0x49, 0), (0xd, 0x41), (0xd, 0x41), (0xd, 0x41), (0x4b, 0)]"
proof -
  have "ring_pending demo_ring = [0x41, 0x41, 0x41]"
    by (simp add: ring_pending_def demo_ring_ok upt_rec_numeral)
       (simp add: demo_ring_def UART_XMIT_SIZE_def nth_replicate upt_rec_numeral numeral_3_eq_3 del: replicate.simps)
  then show ?thesis
    using wk_tx_chars [OF log_spi.wk_spi_axioms [of "\<lambda>_. 2"], of "demo_wk []", OF _ refl _ _ _ _ _ refl refl refl, of demo_header]
    by (simp add: demo_ring_ok demo_header_def tx_room_def) blast
qed



text \<open>C20: A failing transfer stops the driver: the register access that meets it returns the error
  with the global lock still held, and from then on no access, transmit round or work
  function of any port ever returns.\<close>
theorem wk_failed_transfer:
  assumes "st \<noteq> 0" "wk2xxx_write_reg io port reg data s = Some (st, s') \<or> wk2xxx_read_reg io port reg s = Some (st, v, s')"
  shows "wk_lock s' \<and> (\<forall>p r d. wk2xxx_write_reg io p r d s' = None \<and> wk2xxx_read_reg io p r s' = None) \<and>
    wk2xxx_tx_chars h io s' = None \<and> wk2xxx_work h io s' = None"
proof -
  have "wk_lock s'" using assms failed_write failed_read by blast
  then show ?thesis by (simp add: locked_access locked_calls)
qed

theorem wk_failed_transfer_witness:
  "\<exists>s'. wk2xxx_write_reg ((log_io (\<lambda>_. 0))\<lparr>wio_sync := \<lambda>b m. (- 5, (0, 0), b)\<rparr>) 1 3 0 (demo_wk []) = Some (- 5, s') \<and>
    wk2xxx_tx_chars demo_header ((log_io (\<lambda>_. 0))\<lparr>wio_sync := \<lambda>b m. (- 5, (0, 0), b)\<rparr>) s' = None"
proof -
  let ?io = "(log_io (\<lambda>_. 0))\<lparr>wio_sync := \<lambda>b m. (- 5, (0, 0), b)\<rparr>"
  have "\<exists>s'. wk2xxx_write_reg ?io 1 3 0 (demo_wk []) = Some (- 5, s')"
    by (simp add: wk2xxx_write_reg_def sub_number_def Let_def)
  then obtain s' where w: "wk2xxx_write_reg ?io 1 3 0 (demo_wk []) = Some (- 5, s')" by (rule exE)
  have "wk2xxx_tx_chars demo_header ?io s' = None"
    using wk_failed_transfer [of "- 5" ?io 1 3 0 "demo_wk []" s' None demo_header, OF _ disjI1 [OF w]] by simp
  then show ?thesis using w by (intro exI [of _ s'] conjI)
qed

text \<open>The work function's transmit loop does not look at the chip again: it makes one transmit
  round, or, if the interrupt flags read before it ask for more, never returns whatever the
  chip does.\<close>
theorem wk_work_loops:
  "tx_loop h io sifr sier s = (if tx_again h sifr sier then None else wk2xxx_tx_chars h io s)"
  using tx_loop_returns [of h io sifr sier s] tx_loop_once [of h sifr sier io s] by (cases "tx_loop h io sifr sier s") auto

text \<open>Probe and removal: a successful probe holds the driver registration and for each of the
  four ports the port, its queue and its interrupt, and removal gives all of it back; a
  probe that fails after the registration leaves the driver registered.\<close>
theorem wk_probe_release:
  assumes "wk2xxx_probe h io sv s = Some (r, es, s')"
  shows "(r = 0 \<longrightarrow> wk_held es = wk_all \<and> wk_held (es @ wk2xxx_remove) = {}) \<and>
    (r \<noteq> 0 \<longrightarrow> (ws_register sv = 0 \<longleftrightarrow> Register_driver \<in> wk_held es))"
proof (cases "ws_register sv = 0")
  case True
  obtain r' es' where p: "probe_ports sv [1, 2, 3, 4] = (r', es')" by fastforce
  have e: "r = r'" "es = Register_driver # es'"
    using assms True p by (auto simp: wk2xxx_probe_def wk2xxxs_def split: bind_splits)
  show ?thesis
  proof (cases "r = 0")
    case True
    then have "es' = concat (map (\<lambda>p. [Add_port p, Create_queue p, Request_irq p]) [1, 2, 3, 4])"
      using probe_ports_cases [OF p] e(1) by auto
    then show ?thesis using True by (simp add: e(2) wk_held_def wk_all_def wk2xxx_remove_def wk2xxxs_def) blast
  next
    case False
    then show ?thesis using held_driver [OF probe_ports_held [OF p]] \<open>ws_register sv = 0\<close> by (simp add: e(2))
  qed
next
  case False
  then show ?thesis using assms by (auto simp: wk2xxx_probe_def wk_held_def split: bind_splits)
qed

theorem wk_probe_release_witness:
  "\<exists>es s'. wk2xxx_probe demo_header (log_io (\<lambda>_. 0x30)) \<lparr>ws_register = 0, ws_add_port = (\<lambda>_. 0), ws_queue = (\<lambda>_. True),
      ws_irq = (\<lambda>p. if p = 3 then - 16 else 0)\<rparr> (demo_wk []) = Some (- 1, es, s') \<and> Register_driver \<in> wk_held es"
proof -
  let ?sv = "\<lparr>ws_register = 0, ws_add_port = (\<lambda>_. 0), ws_queue = (\<lambda>_. True), ws_irq = (\<lambda>p. if p = 3 then - 16 else 0)\<rparr>"
  obtain s' where "probe_test demo_header (log_io (\<lambda>_. 0x30)) 0 10 (demo_wk []) = Some s'"
    using probe_test_ok [of "demo_wk []" demo_header] by (metis demo_wk_simps(1) demo_gport)
  then have p: "wk2xxx_probe demo_header (log_io (\<lambda>_. 0x30)) ?sv (demo_wk []) =
      Some (- 1, [Register_driver, Add_port 1, Create_queue 1, Request_irq 1, Add_port 2, Create_queue 2, Request_irq 2,
        Add_port 3, Create_queue 3], s')"
    by (simp add: wk2xxx_probe_def wk2xxxs_def)
  from wk_probe_release [OF this] p show ?thesis by simp
qed

end
