(* ===== verification/Genl_User.thy ===== *)
theory Genl_User
  imports Bytes
begin

text \<open>
  The generic netlink test programs (\<^verbatim>\<open>rk3288/debug/netlink/demo2_user.c\<close> and \<^verbatim>\<open>demo3_user.c\<close>,
  which share all functions but the last): building a message, sending it, receiving, and
  walking the messages and attributes received. The buffers are lists of bytes, so an
  access outside them is undefined (None). The layout of the headers and the length
  macros of \<^verbatim>\<open>linux/netlink.h\<close> are the documented wire format: 16 bytes of message header,
  4 of generic header, 4 of attribute header, everything aligned to 4. The system calls
  are a parameter. Log output is not modelled except for the text the tests print.
\<close>

subsection \<open>Wire format\<close>

abbreviation (input) NLMSG_HDRLEN :: nat where "NLMSG_HDRLEN \<equiv> 16"
abbreviation (input) GENL_HDRLEN :: nat where "GENL_HDRLEN \<equiv> 4"
abbreviation (input) NLA_HDRLEN :: nat where "NLA_HDRLEN \<equiv> 4"
abbreviation (input) NLMSG_ERROR :: u16 where "NLMSG_ERROR \<equiv> 2"
abbreviation (input) NLMSG_DONE :: u16 where "NLMSG_DONE \<equiv> 3"
abbreviation (input) NLM_F_REQUEST :: u16 where "NLM_F_REQUEST \<equiv> 1"
abbreviation (input) GENL_ID_CTRL :: u16 where "GENL_ID_CTRL \<equiv> 0x10"
abbreviation (input) CTRL_CMD_GETFAMILY :: u8 where "CTRL_CMD_GETFAMILY \<equiv> 3"
abbreviation (input) CTRL_ATTR_FAMILY_ID :: u16 where "CTRL_ATTR_FAMILY_ID \<equiv> 1"
abbreviation (input) CTRL_ATTR_FAMILY_NAME :: u16 where "CTRL_ATTR_FAMILY_NAME \<equiv> 2"
abbreviation (input) DOC_EXMPL_C_ECHO :: u8 where "DOC_EXMPL_C_ECHO \<equiv> 1"
abbreviation (input) DOC_EXMPL_A_MSG :: u16 where "DOC_EXMPL_A_MSG \<equiv> 1"

text \<open>\<^verbatim>\<open>NLA_ALIGN\<close> on an \<^verbatim>\<open>int\<close>, \<^verbatim>\<open>NLMSG_ALIGN\<close> on an \<^verbatim>\<open>unsigned int\<close>.\<close>

definition NLA_ALIGN :: "int \<Rightarrow> int" where
  "NLA_ALIGN x = (x + 3) AND NOT 3"

definition NLMSG_ALIGN :: "u32 \<Rightarrow> u32" where
  "NLMSG_ALIGN w = (w + 3) AND NOT 3"

subsection \<open>System calls and the state of the process\<close>

datatype send_result = Sent nat | Send_again | Send_error

record 'w genl_os =
  os_malloc :: "'w \<Rightarrow> int \<Rightarrow> bool \<times> 'w"
  os_socket :: "'w \<Rightarrow> int \<times> 'w"
  os_bind :: "'w \<Rightarrow> int \<times> 'w"
  os_send :: "'w \<Rightarrow> u8 list \<Rightarrow> send_result \<times> 'w"
  os_recv :: "'w \<Rightarrow> nat \<Rightarrow> u8 list option \<times> 'w"
  os_pid :: u32

record 'w proc =
  pr_bufs :: nat \<comment> \<open>buffers allocated and not freed\<close>
  pr_socks :: nat \<comment> \<open>sockets open\<close>
  pr_net :: 'w

subsection \<open>Allocation and the socket\<close>

definition nla_attr_size :: "int \<Rightarrow> int option" where
  "nla_attr_size payload = c_int (int NLA_HDRLEN + payload)"

definition nla_total_size :: "int \<Rightarrow> int option" where
  "nla_total_size payload = do { n \<leftarrow> nla_attr_size payload; n \<leftarrow> c_int (n + 3); Some (n AND NOT 3) }"

text \<open>The second result is the buffer, None when there is no memory; the first the size stored back.\<close>

definition genlmsg_alloc :: "'w genl_os \<Rightarrow> int \<Rightarrow> 'w proc \<Rightarrow> (int \<times> u8 list option \<times> 'w proc) option" where
  "genlmsg_alloc io sz s =
     do { len \<leftarrow> nla_total_size sz;
          len \<leftarrow> Some (sint (word_of_int len + of_nat GENL_HDRLEN :: u32));
          len \<leftarrow> c_int (len + int NLMSG_HDRLEN);
          len \<leftarrow> Some (sint (NLMSG_ALIGN (word_of_int len)));
          let (ok, w) = os_malloc io (pr_net s) len; s = s\<lparr>pr_net := w\<rparr>
          in Some (if \<not> ok then (sz, None, s)
                   else (len, Some (replicate (nat len) 0), s\<lparr>pr_bufs := pr_bufs s + 1\<rparr>)) }"

definition genlmsg_free :: "'w proc \<Rightarrow> 'w proc" where
  "genlmsg_free s = s\<lparr>pr_bufs := pr_bufs s - 1\<rparr>"

definition genlmsg_open :: "'w genl_os \<Rightarrow> 'w proc \<Rightarrow> int \<times> 'w proc" where
  "genlmsg_open io s =
     (let (fd, w) = os_socket io (pr_net s); s = s\<lparr>pr_net := w\<rparr>
      in if fd < 0 then (- 1, s)
         else (let (ret, w) = os_bind io (pr_net s); s = s\<lparr>pr_net := w, pr_socks := pr_socks s + 1\<rparr>
               in if ret < 0 then (- 1, s\<lparr>pr_socks := pr_socks s - 1\<rparr>) else (fd, s)))"

definition genlmsg_close :: "int \<Rightarrow> 'w proc \<Rightarrow> 'w proc" where
  "genlmsg_close fd s = (if 0 \<le> fd then s\<lparr>pr_socks := pr_socks s - 1\<rparr> else s)"

subsection \<open>Sending\<close>

text \<open>The message written into the zeroed buffer, field by field.\<close>

definition genl_fill :: "u8 list \<Rightarrow> int \<Rightarrow> u16 \<Rightarrow> u32 \<Rightarrow> u8 \<Rightarrow> u8 \<Rightarrow> u16 \<Rightarrow> u8 list \<Rightarrow> u32 \<Rightarrow> u8 list option" where
  "genl_fill buf len nlmsg_type nlmsg_pid genl_cmd genl_version nla_type nla_data nla_len =
     do { buf \<leftarrow> put_bytes buf 0 (le32 (word_of_int len));
          buf \<leftarrow> put_bytes buf 4 (le16 nlmsg_type);
          buf \<leftarrow> put_bytes buf 6 (le16 NLM_F_REQUEST);
          buf \<leftarrow> put_bytes buf 8 (le32 0);
          buf \<leftarrow> put_bytes buf 12 (le32 nlmsg_pid);
          buf \<leftarrow> put_bytes buf NLMSG_HDRLEN [genl_cmd];
          buf \<leftarrow> put_bytes buf (NLMSG_HDRLEN + 1) [genl_version];
          buf \<leftarrow> put_bytes buf (NLMSG_HDRLEN + GENL_HDRLEN + 2) (le16 nla_type);
          n \<leftarrow> nla_attr_size (sint nla_len);
          buf \<leftarrow> put_bytes buf (NLMSG_HDRLEN + GENL_HDRLEN) (le16 (word_of_int n));
          d \<leftarrow> slice nla_data 0 (unat nla_len);
          put_bytes buf (NLMSG_HDRLEN + GENL_HDRLEN + NLA_HDRLEN) d }"

text \<open>The loop that sends until everything is sent; an interrupted call is repeated at once.\<close>

partial_function (option) send_loop :: "'w genl_os \<Rightarrow> u8 list \<Rightarrow> nat \<Rightarrow> nat \<Rightarrow> 'w \<Rightarrow> (int \<times> 'w) option" where
  "send_loop io buf len count w =
     do { d \<leftarrow> slice buf count (len - count);
          let (r, w) = os_send io w d
          in case r of
               Send_error \<Rightarrow> Some (- 1, w)
             | Send_again \<Rightarrow> if count < len then send_loop io buf len count w else Some (int count, w)
             | Sent n \<Rightarrow> if count + n < len then send_loop io buf len (count + n) w else Some (int (count + n), w) }"

definition genlmsg_send :: "'w genl_os \<Rightarrow> u16 \<Rightarrow> u32 \<Rightarrow> u8 \<Rightarrow> u8 \<Rightarrow> u16 \<Rightarrow> u8 list option \<Rightarrow> u32 \<Rightarrow> 'w proc \<Rightarrow> (int \<times> 'w proc) option" where
  "genlmsg_send io nlmsg_type nlmsg_pid genl_cmd genl_version nla_type nla_data nla_len s =
     (case nla_data of
        None \<Rightarrow> Some (- 1, s)
      | Some data \<Rightarrow>
          if nlmsg_type = 0 \<or> nla_len = 0 then Some (- 1, s)
          else do { (len, buf, s) \<leftarrow> genlmsg_alloc io (sint nla_len) s;
                    (case buf of
                       None \<Rightarrow> Some (- 1, s)
                     | Some buf \<Rightarrow>
                         do { buf \<leftarrow> genl_fill buf len nlmsg_type nlmsg_pid genl_cmd genl_version nla_type data nla_len;
                              (count, w) \<leftarrow> send_loop io buf (nat len) 0 (pr_net s);
                              Some (count, genlmsg_free (s\<lparr>pr_net := w\<rparr>)) }) })"

subsection \<open>Receiving\<close>

definition genlmsg_recv :: "'w genl_os \<Rightarrow> u8 list \<Rightarrow> nat \<Rightarrow> 'w proc \<Rightarrow> (int \<times> u8 list \<times> 'w proc) option" where
  "genlmsg_recv io buf len s =
     (let (r, w) = os_recv io (pr_net s) len; s = s\<lparr>pr_net := w\<rparr>
      in case r of
           None \<Rightarrow> Some (- 1, buf, s)
         | Some xs \<Rightarrow> do { buf \<leftarrow> put_bytes buf 0 xs;
                           Some (if xs \<noteq> [] then int (length xs) else - 1, buf, s) })"

text \<open>
  The attributes of one message, from a position with a remaining length; the result says
  whether the attribute was found, with the caller's buffer and length.
\<close>

function attr_loop :: "u8 list \<Rightarrow> int \<Rightarrow> nat \<Rightarrow> int \<Rightarrow> u8 list \<Rightarrow> int \<Rightarrow> (bool \<times> u8 list \<times> int) option" where
  "attr_loop b nla_type nla nla_len out len =
     (if nla_len < int NLA_HDRLEN then Some (False, out, len)
      else do { alen \<leftarrow> rd16 b nla;
                (if uint alen < int NLA_HDRLEN \<or> nla_len < uint alen then Some (False, out, len)
                 else do { ty \<leftarrow> rd16 b (nla + 2);
                           (if nla_type = uint ty then
                              (let l = uint alen - int NLA_HDRLEN; len = (if l < len then l else len)
                               in if len < 0 then None
                                  else do { d \<leftarrow> slice b (nla + NLA_HDRLEN) (nat len);
                                            out \<leftarrow> put_bytes out 0 d;
                                            Some (True, out, len) })
                            else attr_loop b nla_type (nla + nat (NLA_ALIGN (uint alen))) (nla_len - NLA_ALIGN (uint alen)) out len) }) })"
  by pat_completeness auto

lemma NLA_ALIGN_div: "NLA_ALIGN x = (x + 3) div 4 * 4"
proof -
  have n: "2 \<le> n \<Longrightarrow> Suc (Suc (n - 2)) = n" for n :: nat by simp
  have "(x + 3) AND NOT 3 = (x + 3) AND NOT (mask 2)" by (simp add: mask_eq_exp_minus_1)
  also have "\<dots> = push_bit 2 (drop_bit 2 (x + 3))" by (rule bit_eqI) (auto simp: bit_simps n not_less)
  finally show ?thesis by (simp add: NLA_ALIGN_def push_bit_eq_mult drop_bit_eq_div)
qed

lemma NLA_ALIGN_ge: "x \<le> NLA_ALIGN x" "NLA_ALIGN x < x + 4"
  unfolding NLA_ALIGN_div by linarith+

termination attr_loop
  by (relation "measure (\<lambda>(b, ty, p, l, out, len). nat l)") (auto simp: NLA_ALIGN_div)

declare attr_loop.simps [simp del]

text \<open>The messages of the received bytes; the remaining length is unsigned and wraps.\<close>

partial_function (option) msg_loop :: "u8 list \<Rightarrow> int \<Rightarrow> nat \<Rightarrow> u32 \<Rightarrow> u8 list \<Rightarrow> int \<Rightarrow> int \<Rightarrow> (int \<times> u8 list \<times> int) option" where
  "msg_loop b nla_type nlh nlh_len out len ret =
     (if nlh_len < of_nat NLMSG_HDRLEN then Some (ret, out, len)
      else do { mlen \<leftarrow> rd32 b nlh;
                (if mlen < of_nat NLMSG_HDRLEN \<or> nlh_len < mlen then Some (ret, out, len)
                 else do { mty \<leftarrow> rd16 b (nlh + 4);
                           (if mty = NLMSG_DONE then Some (0, out, len)
                            else if mty = NLMSG_ERROR then Some (- 1, out, len)
                            else do { (found, out, len) \<leftarrow>
                                        attr_loop b nla_type (nlh + NLMSG_HDRLEN + GENL_HDRLEN) (sint (mlen - of_nat GENL_HDRLEN)) out len;
                                      msg_loop b nla_type (nlh + unat (NLMSG_ALIGN mlen)) (nlh_len - NLMSG_ALIGN mlen) out len
                                        (if found then 0 else ret) }) }) })"

definition genlmsg_dispatch :: "u8 list \<Rightarrow> u32 \<Rightarrow> int \<Rightarrow> int \<Rightarrow> u8 list \<Rightarrow> int \<Rightarrow> (int \<times> u8 list \<times> int) option" where
  "genlmsg_dispatch b nlh_len nlmsg_type nla_type out len =
     do { ty \<leftarrow> rd16 b 4;
          (if nlmsg_type \<noteq> 0 \<and> uint ty \<noteq> nlmsg_type then Some (- 1, out, len)
           else msg_loop b nla_type 0 nlh_len out len (- 1)) }"

subsection \<open>The tests\<close>

text \<open>The bytes of a string literal, and the text \<^verbatim>\<open>%s\<close> prints: undefined without a zero byte.\<close>

definition ascii :: "string \<Rightarrow> u8 list" where
  "ascii cs = map of_char cs"

definition c_str :: "u8 list \<Rightarrow> u8 list option" where
  "c_str b = (if 0 \<in> set b then Some (takeWhile (\<lambda>x. x \<noteq> 0) b) else None)"

definition genlmsg_get_family_id :: "'w genl_os \<Rightarrow> u8 list \<Rightarrow> 'w proc \<Rightarrow> (int \<times> 'w proc) option" where
  "genlmsg_get_family_id io family_name s =
     do { (ret, s) \<leftarrow> genlmsg_send io GENL_ID_CTRL 0 CTRL_CMD_GETFAMILY 1 CTRL_ATTR_FAMILY_NAME
                       (Some (family_name @ [0])) (of_nat (length family_name + 1)) s;
          (if ret < 0 then Some (- 1, s)
           else do { (len, buf, s) \<leftarrow> genlmsg_alloc io 256 s;
                     (case buf of
                        None \<Rightarrow> Some (- 1, s)
                      | Some buf \<Rightarrow>
                          do { (len, buf, s) \<leftarrow> genlmsg_recv io buf (nat len) s;
                               (if len < 0 then Some (len, s)
                                else do { (_, idb, _) \<leftarrow> genlmsg_dispatch buf (word_of_int len) 0 (uint CTRL_ATTR_FAMILY_ID) [0, 0] 2;
                                          fam \<leftarrow> rd16 idb 0;
                                          Some (if 0 < fam then uint fam else - 1, genlmsg_free s) }) }) }) }"

abbreviation (input) BUF_SIZE :: nat where "BUF_SIZE \<equiv> 256"

definition DOC_EXMPL :: "u8 list" where "DOC_EXMPL = ascii ''DOC_EXMPL''"

definition MESSAGE_TO_KERNEL :: "u8 list" where "MESSAGE_TO_KERNEL = ascii ''Hello World from user space!''"

text \<open>
  What both tests do with the answer: the result of the dispatch and the text printed,
  if any. The caller's variable \<^verbatim>\<open>ret\<close> keeps the result of the receive if it is negative.
\<close>

definition show_answer :: "u8 list \<Rightarrow> int \<Rightarrow> int \<Rightarrow> (int \<times> u8 list option) option" where
  "show_answer nlh ret fam =
     (if 0 < ret then
        do { (ret, buf, _) \<leftarrow> genlmsg_dispatch nlh (word_of_int ret) fam (uint DOC_EXMPL_A_MSG) (replicate BUF_SIZE 0) (int BUF_SIZE);
             (if ret = 0 then do { t \<leftarrow> c_str buf; Some (ret, Some t) } else Some (ret, None)) }
      else Some (ret, None))"

definition test_netlink_unicast :: "'w genl_os \<Rightarrow> 'w proc \<Rightarrow> (int \<times> u8 list option \<times> 'w proc) option" where
  "test_netlink_unicast io s =
     do { (len, nlh, s) \<leftarrow> genlmsg_alloc io (int BUF_SIZE) s;
          (case nlh of
             None \<Rightarrow> Some (- 1, None, s)
           | Some nlh \<Rightarrow>
               let (fd, s) = genlmsg_open io s
               in if fd < 0 then Some (- 1, None, s)
                  else do { (fam, s) \<leftarrow> genlmsg_get_family_id io DOC_EXMPL s;
                            (if fam \<le> 0 then Some (- 1, None, genlmsg_free (genlmsg_close fd s))
                             else do { (ret, s) \<leftarrow> genlmsg_send io (word_of_int fam) (os_pid io) DOC_EXMPL_C_ECHO 1 DOC_EXMPL_A_MSG
                                          (Some (MESSAGE_TO_KERNEL @ [0])) (of_nat (length MESSAGE_TO_KERNEL + 1)) s;
                                       (if ret < 0 then Some (ret, None, genlmsg_free (genlmsg_close fd s))
                                        else do { (ret, nlh, s) \<leftarrow> genlmsg_recv io nlh (nat len) s;
                                                  (ret, t) \<leftarrow> show_answer nlh ret fam;
                                                  Some (ret, t, genlmsg_free (genlmsg_close fd s)) }) }) }) }"

definition test_netlink_multicast :: "'w genl_os \<Rightarrow> 'w proc \<Rightarrow> (int \<times> u8 list option \<times> 'w proc) option" where
  "test_netlink_multicast io s =
     do { (len, nlh, s) \<leftarrow> genlmsg_alloc io (int BUF_SIZE) s;
          (case nlh of
             None \<Rightarrow> Some (- 1, None, s)
           | Some nlh \<Rightarrow>
               let (fd, s) = genlmsg_open io s
               in if fd < 0 then Some (0, None, genlmsg_free (genlmsg_close fd s))
                  else do { (fam, s) \<leftarrow> genlmsg_get_family_id io DOC_EXMPL s;
                            (if fam \<le> 0 then Some (0, None, genlmsg_free (genlmsg_close fd s))
                             else do { (ret, nlh, s) \<leftarrow> genlmsg_recv io nlh (nat len) s;
                                       (_, t) \<leftarrow> show_answer nlh ret fam;
                                       Some (0, t, genlmsg_free (genlmsg_close fd s)) }) }) }"

end
