(* ===== verification/Genl_User_Correct.thy ===== *)
theory Genl_User_Correct
  imports Genl_User
begin

text \<open>
  The wire format as data: messages with lists of attributes, the bytes they stand for, and
  what walking these bytes finds. The walk of the source is shown to agree with it.
\<close>

subsection \<open>Alignment\<close>

definition aligned :: "nat \<Rightarrow> nat" where
  "aligned n = (n + 3) div 4 * 4"

lemma NLA_ALIGN_nat: "NLA_ALIGN (int n) = int (aligned n)"
  by (simp add: NLA_ALIGN_div aligned_def)

lemma NLMSG_ALIGN_div: "NLMSG_ALIGN w = (w + 3) div 4 * 4"
proof -
  have n: "2 \<le> n \<Longrightarrow> Suc (Suc (n - 2)) = n" for n :: nat by simp
  have "(w + 3) AND NOT 3 = (w + 3) AND NOT (mask 2)" by (simp add: mask_eq_exp_minus_1)
  also have "\<dots> = push_bit 2 (drop_bit 2 (w + 3))" by (rule bit_word_eqI) (auto simp: bit_simps n not_less)
  finally show ?thesis by (simp add: NLMSG_ALIGN_def push_bit_eq_mult drop_bit_eq_div)
qed

lemma unat_NLMSG_ALIGN: "unat w + 3 < 2 ^ 32 \<Longrightarrow> unat (NLMSG_ALIGN w) = aligned (unat w)"
proof -
  assume w: "unat w + 3 < 2 ^ 32"
  have 1: "unat (w + 3) = unat w + 3" using w by (subst unat_add_lem [THEN iffD1]) simp_all
  have 2: "(unat w + 3) div 4 * 4 < 2 ^ 32" using w by linarith
  have "unat ((w + 3) div 4 * 4) = unat ((w + 3) div 4) * unat (4 :: u32)"
    by (rule unat_mult_lem [THEN iffD1]) (use 1 2 in \<open>simp add: unat_div\<close>)
  then show ?thesis by (simp add: NLMSG_ALIGN_div aligned_def unat_div 1)
qed

lemma aligned_dvd: "4 dvd n \<Longrightarrow> aligned n = n"
  by (auto simp: aligned_def elim!: dvdE)

lemma aligned_bounds: "n \<le> aligned n" "aligned n < n + 4" "4 dvd aligned n"
  unfolding aligned_def by presburger+

subsection \<open>Messages as data\<close>

record nl_msg =
  nm_type :: u16
  nm_flags :: u16
  nm_seq :: u32
  nm_pid :: u32
  nm_cmd :: u8
  nm_version :: u8
  nm_attrs :: "(u16 \<times> u8 list) list"

definition attr_bytes :: "u16 \<times> u8 list \<Rightarrow> u8 list" where
  "attr_bytes a = le16 (of_nat (4 + length (snd a))) @ le16 (fst a) @ snd a @
     replicate (aligned (4 + length (snd a)) - (4 + length (snd a))) 0"

definition attrs_bytes :: "(u16 \<times> u8 list) list \<Rightarrow> u8 list" where
  "attrs_bytes as = concat (map attr_bytes as)"

definition msg_bytes :: "nl_msg \<Rightarrow> u8 list" where
  "msg_bytes m = le32 (of_nat (20 + length (attrs_bytes (nm_attrs m)))) @ le16 (nm_type m) @ le16 (nm_flags m) @
     le32 (nm_seq m) @ le32 (nm_pid m) @ [nm_cmd m, nm_version m, 0, 0] @ attrs_bytes (nm_attrs m)"

definition attr_ok :: "u16 \<times> u8 list \<Rightarrow> bool" where
  "attr_ok a \<longleftrightarrow> length (snd a) < 65532"

definition msg_ok :: "nl_msg \<Rightarrow> bool" where
  "msg_ok m \<longleftrightarrow> list_all attr_ok (nm_attrs m) \<and> length (attrs_bytes (nm_attrs m)) < 65516"

lemma length_attr_bytes [simp]: "length (attr_bytes a) = aligned (4 + length (snd a))"
  using aligned_bounds(1) [of "4 + length (snd a)"] by (simp add: attr_bytes_def)

lemma attrs_bytes_simps [simp]: "attrs_bytes [] = []" "attrs_bytes (a # as) = attr_bytes a @ attrs_bytes as"
  by (simp_all add: attrs_bytes_def)

lemma length_msg_bytes [simp]: "length (msg_bytes m) = 20 + length (attrs_bytes (nm_attrs m))"
  by (simp add: msg_bytes_def)

lemma attrs_dvd: "4 dvd length (attrs_bytes as)"
  by (induction as) (simp_all add: aligned_bounds(3))

subsection \<open>Walking the attributes\<close>

text \<open>What the walk leaves in the caller's buffer and length: the payload, cut to the space.\<close>

definition give :: "u8 list \<Rightarrow> u8 list \<Rightarrow> nat \<Rightarrow> u8 list \<times> int" where
  "give d out len = (take (min len (length d)) d @ drop (min len (length d)) out, int (min len (length d)))"

text \<open>
  Bytes at which a walk with 16 bytes left stops, as the length they hold is none of an
  attribute that fits.
\<close>

definition stops :: "u8 list \<Rightarrow> bool" where
  "stops b = (case b of x # y # _ \<Rightarrow> uint (of_le16 x y) < 4 \<or> 16 < uint (of_le16 x y) | _ \<Rightarrow> False)"

lemma rd16_stops: "stops post \<Longrightarrow> \<exists>w. rd16 (pre @ post) (length pre) = Some w \<and> (uint w < 4 \<or> 16 < uint w)"
  by (auto simp: stops_def rd16_def nth_append split: list.splits)

text \<open>One attribute: it is the one looked for, or the walk goes on behind it.\<close>

lemma attr_loop_cons:
  assumes "attr_ok a" "len \<le> length out"
  shows "attr_loop (pre @ attr_bytes a @ rest) (uint ty) (length pre) (int (aligned (4 + length (snd a)) + k)) out (int len) =
    (if fst a = ty then Some (True, give (snd a) out len)
     else attr_loop (pre @ attr_bytes a @ rest) (uint ty) (length pre + aligned (4 + length (snd a))) (int k) out (int len))"
proof -
  obtain t d where a: "a = (t, d)" by fastforce
  let ?n = "4 + length d" let ?b = "pre @ attr_bytes a @ rest"
  have n: "?n < 65536" using assms(1) by (simp add: a attr_ok_def)
  then have u: "uint (of_nat ?n :: u16) = int ?n" by (rule uint_u16)
  have b: "?b = pre @ le16 (of_nat ?n) @ (le16 t @ d @ replicate (aligned ?n - ?n) 0 @ rest)"
    "?b = (pre @ le16 (of_nat ?n)) @ le16 t @ (d @ replicate (aligned ?n - ?n) 0 @ rest)"
    "?b = (pre @ le16 (of_nat ?n) @ le16 t) @ d @ (replicate (aligned ?n - ?n) 0 @ rest)"
    by (simp_all add: a attr_bytes_def)
  have r: "rd16 ?b (length pre) = Some (of_nat ?n)" "rd16 ?b (length pre + 2) = Some t"
    by (subst b(1), rule rd16_app, rule refl) (subst b(2), rule rd16_app, simp)
  have l: "\<not> int (aligned ?n + k) < 4" "\<not> int (aligned ?n + k) < int ?n"
    using aligned_bounds(1) [of ?n] by simp_all
  show ?thesis
  proof (cases "t = ty")
    case True
    have "slice ?b (length pre + 4) (min len (length d)) = Some (take (min len (length d)) d)"
      by (subst b(3)) (simp add: slice_def)
    moreover have "put_bytes out 0 (take (min len (length d)) d) = Some (fst (give d out len))"
      using assms(2) by (simp add: put_bytes_def give_def)
    moreover have "(if int (length d) < int len then int (length d) else int len) = int (min len (length d))" by simp
    ultimately show ?thesis using r l u True
      by (subst attr_loop.simps) (simp add: Let_def a give_def)
  next
    case False
    then have "uint ty \<noteq> uint t" by (simp add: word_uint_eq_iff eq_commute)
    then show ?thesis using r l u False
      by (subst attr_loop.simps) (simp add: a NLA_ALIGN_nat [of ?n, simplified])
  qed
qed

lemma attr_loop_attrs:
  assumes "list_all attr_ok as" "stops post" "len \<le> length out"
  shows "attr_loop (pre @ attrs_bytes as @ post) (uint ty) (length pre) (int (length (attrs_bytes as) + 16)) out (int len) =
    Some (case map_of as ty of None \<Rightarrow> (False, out, int len) | Some d \<Rightarrow> (True, give d out len))"
  using assms
proof (induction as arbitrary: pre)
  case Nil
  obtain w where "rd16 (pre @ post) (length pre) = Some w" "uint w < 4 \<or> 16 < uint w"
    using rd16_stops Nil.prems(2) by blast
  then show ?case by (subst attr_loop.simps) auto
next
  case (Cons a as)
  show ?case
    using Cons.IH [of "pre @ attr_bytes a"] Cons.prems
      attr_loop_cons [of a len out pre "attrs_bytes as @ post" ty "length (attrs_bytes as) + 16"]
    by (cases a) (simp add: add.assoc)
qed

text \<open>Without readable bytes behind the attributes the walk leaves the memory object.\<close>

lemma attr_loop_overrun:
  "list_all attr_ok as \<Longrightarrow> map_of as ty = None \<Longrightarrow> len \<le> length out \<Longrightarrow>
   attr_loop (pre @ attrs_bytes as) (uint ty) (length pre) (int (length (attrs_bytes as) + 16)) out (int len) = None"
proof (induction as arbitrary: pre)
  case Nil
  then show ?case by (subst attr_loop.simps) (simp add: rd16_def)
next
  case (Cons a as)
  show ?case
    using Cons.IH [of "pre @ attr_bytes a"] Cons.prems
      attr_loop_cons [of a len out pre "attrs_bytes as" ty "length (attrs_bytes as) + 16"]
    by (cases a) (simp add: add.assoc split: if_splits)
qed

subsection \<open>Walking the messages\<close>

text \<open>The same walk over messages as data.\<close>

fun walk :: "u16 \<Rightarrow> nl_msg list \<Rightarrow> u8 list \<Rightarrow> int \<Rightarrow> int \<Rightarrow> int \<times> u8 list \<times> int" where
  "walk ty [] out len ret = (ret, out, len)"
| "walk ty (m # ms) out len ret =
     (if nm_type m = NLMSG_DONE then (0, out, len)
      else if nm_type m = NLMSG_ERROR then (- 1, out, len)
      else (case map_of (nm_attrs m) ty of
              None \<Rightarrow> walk ty ms out len ret
            | Some d \<Rightarrow> walk ty ms (fst (give d out (nat len))) (snd (give d out (nat len))) 0))"

definition msgs_bytes :: "nl_msg list \<Rightarrow> u8 list" where
  "msgs_bytes ms = concat (map msg_bytes ms)"

lemma msgs_bytes_simps [simp]: "msgs_bytes [] = []" "msgs_bytes (m # ms) = msg_bytes m @ msgs_bytes ms"
  by (simp_all add: msgs_bytes_def)

lemma length_give: "len \<le> length out \<Longrightarrow> length (fst (give d out len)) = length out"
  by (simp add: give_def)

lemma snd_give: "snd (give d out len) = int (min len (length d))"
  by (simp add: give_def)

text \<open>A walk of attributes that runs on into the next message stops there.\<close>

lemma stops_msg:
  assumes "msg_ok m"
  shows "stops (msg_bytes m @ post)"
proof -
  let ?n = "20 + length (attrs_bytes (nm_attrs m))"
  have n: "?n < 65536" using assms by (simp add: msg_ok_def)
  have "of_le16 (ucast (of_nat ?n :: u32)) (ucast (drop_bit 8 (of_nat ?n :: u32))) = (ucast (of_nat ?n :: u32) :: u16)"
    by (rule bit_word_eqI) (auto simp: bit_of_le16 bit_simps)
  also have "uint (ucast (of_nat ?n :: u32) :: u16) = int ?n"
    using n by (rule uint_ucast_u16)
  finally show ?thesis by (simp add: stops_def msg_bytes_def le32_def del: of_nat_add)
qed

lemma stops_next: "list_all msg_ok ms \<Longrightarrow> stops slack \<Longrightarrow> stops (msgs_bytes ms @ slack)"
  by (cases ms) (simp_all add: stops_msg)

lemma msg_loop_walk:
  assumes "list_all msg_ok ms" "length (msgs_bytes ms) < 2 ^ 31" "stops slack" "0 \<le> len" "len \<le> int (length out)"
  shows "msg_loop (pre @ msgs_bytes ms @ slack) (uint ty) (length pre) (of_nat (length (msgs_bytes ms))) out len ret =
    Some (walk ty ms out len ret)"
  using assms
proof (induction ms arbitrary: pre out len ret)
  case Nil
  then show ?case by (subst msg_loop.simps) simp
next
  case (Cons m ms)
  let ?a = "attrs_bytes (nm_attrs m)" and ?b = "pre @ msgs_bytes (m # ms) @ slack"
  let ?n = "20 + length ?a" and ?L = "length (msgs_bytes (m # ms))"
  have n: "?n < 65536" using Cons.prems(1) by (simp add: msg_ok_def)
  have L: "?L < 4294967296" "?L = ?n + length (msgs_bytes ms)" using Cons.prems(2) by simp_all
  have u: "unat (of_nat ?n :: u32) = ?n" "unat (of_nat ?L :: u32) = ?L"
    by (rule unat_u32, use n in simp) (rule unat_u32 [OF L(1)])
  have al: "aligned ?n = ?n" by (rule aligned_dvd) (use attrs_dvd [of "nm_attrs m"] in presburger)
  have na: "NLMSG_ALIGN (of_nat ?n) = of_nat ?n"
    by (rule word_unat_eq_iff [THEN iffD2]) (use n u(1) in \<open>simp add: unat_NLMSG_ALIGN al\<close>)
  define hd where "hd = le16 (nm_flags m) @ le32 (nm_seq m) @ le32 (nm_pid m) @ [nm_cmd m, nm_version m, 0, 0]"
  have b: "?b = pre @ le32 (of_nat ?n) @ (le16 (nm_type m) @ hd @ ?a @ msgs_bytes ms @ slack)"
    "?b = (pre @ le32 (of_nat ?n)) @ le16 (nm_type m) @ (hd @ ?a @ msgs_bytes ms @ slack)"
    "?b = (pre @ le32 (of_nat ?n) @ le16 (nm_type m) @ hd) @ ?a @ (msgs_bytes ms @ slack)"
    "?b = (pre @ msg_bytes m) @ msgs_bytes ms @ slack"
    by (simp_all add: msg_bytes_def hd_def)
  have r: "rd32 ?b (length pre) = Some (of_nat ?n)" "rd16 ?b (length pre + 4) = Some (nm_type m)"
    by (subst b(1), rule rd32_app, rule refl) (subst b(2), rule rd16_app, simp)
  have c: "\<not> (of_nat ?L :: u32) < 16" "\<not> (of_nat ?n :: u32) < 16" "\<not> (of_nat ?L :: u32) < of_nat ?n"
    unfolding word_less_nat_alt u using L(2) by simp_all
  have sn: "sint (of_nat ?n - 4 :: u32) = int (length ?a + 16)"
  proof -
    have "of_nat ?n - 4 = (of_nat (length ?a + 16) :: u32)" by simp
    also have "sint \<dots> = int (length ?a + 16)"
      by (rule sint_u32) (use n in simp)
    finally show ?thesis by simp
  qed
  have "attr_loop ?b (uint ty) (length (pre @ le32 (of_nat ?n) @ le16 (nm_type m) @ hd)) (int (length ?a + 16)) out (int (nat len)) =
    Some (case map_of (nm_attrs m) ty of None \<Rightarrow> (False, out, int (nat len)) | Some d \<Rightarrow> (True, give d out (nat len)))"
    unfolding b(3)
  proof (rule attr_loop_attrs)
    show "list_all attr_ok (nm_attrs m)" using Cons.prems(1) by (simp add: msg_ok_def)
    show "stops (msgs_bytes ms @ slack)" using Cons.prems(1,3) by (simp add: stops_next)
    show "nat len \<le> length out" using Cons.prems(5) by (simp add: nat_le_iff)
  qed
  moreover have "length (pre @ le32 (of_nat ?n) @ le16 (nm_type m) @ hd) = 20 + length pre" by (simp add: hd_def)
  ultimately have a: "attr_loop ?b (uint ty) (20 + length pre) (sint (of_nat ?n - 4 :: u32)) out len =
    Some (case map_of (nm_attrs m) ty of None \<Rightarrow> (False, out, len) | Some d \<Rightarrow> (True, give d out (nat len)))"
    using Cons.prems(4) by (simp only: sn int_nat_eq if_True)
  have ll: "of_nat ?L - of_nat ?n = (of_nat (length (msgs_bytes ms)) :: u32)" by (simp add: L(2))
  have step: "msg_loop ?b (uint ty) (length pre + ?n) (of_nat ?L - of_nat ?n) out' len' ret' = Some (walk ty ms out' len' ret')"
    if "0 \<le> len'" "len' \<le> int (length out')" for out' len' ret'
  proof -
    have "msg_loop ((pre @ msg_bytes m) @ msgs_bytes ms @ slack) (uint ty) (length (pre @ msg_bytes m))
        (of_nat (length (msgs_bytes ms))) out' len' ret' = Some (walk ty ms out' len' ret')"
      by (rule Cons.IH) (use Cons.prems that in simp_all)
    then show ?thesis unfolding b(4) ll by simp
  qed
  show ?case
  proof (cases "map_of (nm_attrs m) ty")
    case None
    then show ?thesis using a r c step [OF Cons.prems(4,5), of ret]
      by (subst msg_loop.simps) (simp add: na u(1) del: msgs_bytes_simps of_nat_add)
  next
    case (Some d)
    have g: "0 \<le> snd (give d out (nat len))" "snd (give d out (nat len)) \<le> int (length (fst (give d out (nat len))))"
      using Cons.prems(4,5) by (simp_all add: snd_give length_give nat_le_iff)
    show ?thesis using a r c step [OF g, of 0] Some
      by (subst msg_loop.simps) (simp add: na u(1) split_beta del: msgs_bytes_simps of_nat_add)
  qed
qed

subsection \<open>Building a message\<close>

text \<open>A buffer filled so far, the rest zero; the writes that extend it and that change it.\<close>

definition filled :: "u8 list \<Rightarrow> nat \<Rightarrow> u8 list" where
  "filled h k = h @ replicate k 0"

lemma put_filled:
  "length h \<le> i \<Longrightarrow> i - length h + length xs \<le> k \<Longrightarrow>
   put_bytes (filled h k) i xs = Some (filled (h @ replicate (i - length h) 0 @ xs) (k - (i - length h) - length xs))"
  "i + length xs \<le> length h \<Longrightarrow> put_bytes (filled h k) i xs = Some (filled (take i h @ xs @ drop (i + length xs) h) k)"
  by (simp_all add: put_bytes_def filled_def)

definition user_msg :: "u16 \<Rightarrow> u32 \<Rightarrow> u8 \<Rightarrow> u8 \<Rightarrow> u16 \<Rightarrow> u8 list \<Rightarrow> nl_msg" where
  "user_msg ty pid cmd ver at d =
     \<lparr>nm_type = ty, nm_flags = NLM_F_REQUEST, nm_seq = 0, nm_pid = pid, nm_cmd = cmd, nm_version = ver, nm_attrs = [(at, d)]\<rparr>"

lemma user_msg_simps [simp]: "nm_attrs (user_msg ty pid cmd ver at d) = [(at, d)]" "nm_type (user_msg ty pid cmd ver at d) = ty"
  by (simp_all add: user_msg_def)

lemma length_user_msg: "length (msg_bytes (user_msg ty pid cmd ver at d)) = 20 + aligned (4 + length d)"
  by simp

lemma genl_fill_msg:
  assumes "length d = n" "n \<le> 65000" "n \<le> length data" "take n data = d"
  shows "genl_fill (replicate (20 + aligned (4 + n)) 0) (int (20 + aligned (4 + n))) ty pid cmd ver at data (of_nat n) =
    Some (msg_bytes (user_msg ty pid cmd ver at d))"
proof -
  obtain m where m: "aligned (4 + n) = 4 + m" "n \<le> m"
    using aligned_bounds(1) [of "4 + n"] le_Suc_ex [of 4 "aligned (4 + n)"] by auto
  have r2: "replicate 2 x = [x, x]" for x :: u8 by (simp add: numeral_2_eq_2)
  have f: "replicate (20 + aligned (4 + n)) 0 = filled [] (24 + m)" by (simp add: filled_def m(1))
  have l: "sint (of_nat n :: u32) = int n" "unat (of_nat n :: u32) = n"
    using assms(2) by (simp_all add: sint_u32 unat_u32)
  have "slice data 0 n = Some d" "nla_attr_size (int n) = Some (int (4 + n))"
    using assms(2-4) by (simp_all add: slice_def nla_attr_size_def)
  moreover have "msg_bytes (user_msg ty pid cmd ver at d) = filled (le32 (of_nat (24 + m)) @ le16 ty @ le16 1 @ le32 0 @
      le32 pid @ [cmd, ver, 0, 0] @ le16 (of_nat (4 + n)) @ le16 at @ d) (m - n)"
    using assms(1) m by (simp add: msg_bytes_def user_msg_def attr_bytes_def filled_def)
  ultimately show ?thesis
    using m(2) assms(1) unfolding genl_fill_def f l
    by (simp add: m(1) put_filled r2)
qed

lemma genlmsg_alloc_ok:
  assumes "n \<le> 65000" "os_malloc io (pr_net s) (int (20 + aligned (4 + n))) = (True, w)"
  shows "genlmsg_alloc io (int n) s = Some (int (20 + aligned (4 + n)), Some (replicate (20 + aligned (4 + n)) 0),
    s\<lparr>pr_net := w, pr_bufs := pr_bufs s + 1\<rparr>)"
proof -
  let ?a = "aligned (4 + n)"
  have a: "?a < 65100" "4 dvd ?a" using aligned_bounds [of "4 + n"] assms(1) by simp_all
  have t: "nla_total_size (int n) = Some (int ?a)"
    using assms(1) NLA_ALIGN_nat [of "4 + n"] by (simp add: nla_total_size_def nla_attr_size_def NLA_ALIGN_def add.commute)
  have w1: "word_of_int (int ?a) + of_nat 4 = (of_nat (?a + 4) :: u32)" by simp
  have s1: "sint (of_nat (?a + 4) :: u32) = int (?a + 4)" using a(1) by (intro sint_u32) simp
  have w2: "word_of_int (int (?a + 4) + int 16) = (of_nat (20 + ?a) :: u32)" by simp
  have u: "unat (of_nat (20 + ?a) :: u32) = 20 + ?a" using a(1) by (intro unat_u32) simp
  have "NLMSG_ALIGN (of_nat (20 + ?a)) = of_nat (20 + ?a)"
    by (rule word_unat_eq_iff [THEN iffD2], subst unat_NLMSG_ALIGN) (use a in \<open>simp_all only: u, simp_all add: aligned_dvd\<close>)
  then have s2: "sint (NLMSG_ALIGN (of_nat (20 + ?a))) = int (20 + ?a)" using a(1) sint_u32 [of "20 + ?a"] by simp
  have c: "c_int (int (?a + 4) + int 16) = Some (int (?a + 4) + int 16)" using a(1) by simp
  show ?thesis
    unfolding genlmsg_alloc_def
    by (simp only: t w1 s1 w2 s2 c bind.bind_lunit Let_def assms(2) split_conv simp_thms if_False if_True nat_int) simp
qed

subsection \<open>Sending\<close>

text \<open>
  What the sending loop needs of the socket: bytes accepted are a front part of what was
  offered, an interrupted call sends nothing, and only finitely many calls make no progress.
\<close>

locale stream_sock =
  fixes io :: "'w genl_os" and sent :: "'w \<Rightarrow> u8 list" and idle :: "'w \<Rightarrow> nat"
  assumes accepted: "os_send io w d = (Sent n, w') \<Longrightarrow> n \<le> length d \<and> sent w' = sent w @ take n d"
    and interrupted: "os_send io w d = (Send_again, w') \<Longrightarrow> sent w' = sent w"
    and progress: "os_send io w d = (r, w') \<Longrightarrow> r = Send_again \<or> r = Sent 0 \<Longrightarrow> d \<noteq> [] \<Longrightarrow> idle w' < idle w"
    and patient: "os_send io w d = (r, w') \<Longrightarrow> idle w' \<le> idle w"
begin

text \<open>The loop returns, and either everything is sent or the socket reported an error.\<close>

lemma send_loop_all:
  "length buf = len \<Longrightarrow> count < len \<Longrightarrow>
   \<exists>r w'. send_loop io buf len count w = Some (r, w') \<and> (r = - 1 \<or> r = int len \<and> sent w' = sent w @ drop count buf)"
proof (induction "len - count + idle w" arbitrary: count w rule: less_induct)
  case less
  let ?d = "drop count buf"
  have d: "slice buf count (len - count) = Some ?d" "?d \<noteq> []" using less.prems by (simp_all add: slice_def)
  obtain r w1 where o: "os_send io w ?d = (r, w1)" by fastforce
  show ?case
  proof (cases r)
    case Send_error
    then show ?thesis using o d by (subst send_loop.simps) simp
  next
    case Send_again
    have "idle w1 < idle w" "sent w1 = sent w" using o Send_again d(2) progress interrupted by blast+
    then show ?thesis using less.hyps [of count w1] less.prems o d Send_again
      by (subst send_loop.simps) simp
  next
    case (Sent n)
    have n: "n \<le> len - count" "sent w1 = sent w @ take n ?d" using accepted o Sent less.prems(1) by fastforce+
    have m: "len - (count + n) + idle w1 < len - count + idle w" if "count + n < len"
      using that progress [OF o] patient [OF o] Sent d(2) by (cases n) auto
    show ?thesis
    proof (cases "count + n < len")
      case True
      obtain r' w' where "send_loop io buf len (count + n) w1 = Some (r', w')"
        "r' = - 1 \<or> r' = int len \<and> sent w' = sent w1 @ drop (count + n) buf"
        using less.hyps [OF m [OF True] less.prems(1) True] by blast
      moreover have "take n ?d @ drop (count + n) buf = ?d" by (metis append_take_drop_id drop_drop add.commute)
      ultimately show ?thesis using o d Sent True n(2) by (subst send_loop.simps) auto
    next
      case False
      then have "count + n = len" using n(1) less.prems(2) by simp
      then show ?thesis using o d Sent n less.prems(1) by (subst send_loop.simps) auto
    qed
  qed
qed

end

text \<open>A socket that follows a script of results and then takes everything, with a log of what it took.\<close>

fun script_send :: "send_result list \<times> u8 list \<Rightarrow> u8 list \<Rightarrow> send_result \<times> send_result list \<times> u8 list" where
  "script_send ([], out) d = (Sent (length d), [], out @ d)"
| "script_send (Sent n # rs, out) d = (Sent (min n (length d)), rs, out @ take n d)"
| "script_send (r # rs, out) d = (r, rs, out)"

definition script_os :: "u8 list list \<Rightarrow> (send_result list \<times> u8 list) genl_os" where
  "script_os answers = \<lparr>os_malloc = (\<lambda>w _. (True, w)), os_socket = (\<lambda>w. (3, w)), os_bind = (\<lambda>w. (0, w)), os_send = script_send,
     os_recv = (\<lambda>w n. (case answers of [] \<Rightarrow> None | a # _ \<Rightarrow> Some (take n a), w)), os_pid = 77\<rparr>"

interpretation script: stream_sock "script_os answers" snd "\<lambda>w. length (fst w)"
proof
  fix w :: "send_result list \<times> u8 list" and d r w'
  assume o: "os_send (script_os answers) w d = (r, w')"
  then show "length (fst w') \<le> length (fst w)"
    by (cases "(w, d)" rule: script_send.cases) (auto simp: script_os_def)
  show "length (fst w') < length (fst w)" if "r = Send_again \<or> r = Sent 0" "d \<noteq> []"
    using o that by (cases "(w, d)" rule: script_send.cases) (auto simp: script_os_def)
next
  fix w :: "send_result list \<times> u8 list" and d n w'
  assume "os_send (script_os answers) w d = (Sent n, w')"
  then show "n \<le> length d \<and> snd w' = snd w @ take n d"
    by (cases "(w, d)" rule: script_send.cases) (auto simp: script_os_def min_def)
next
  fix w :: "send_result list \<times> u8 list" and d w'
  assume "os_send (script_os answers) w d = (Send_again, w')"
  then show "snd w' = snd w" by (cases "(w, d)" rule: script_send.cases) (auto simp: script_os_def)
qed

text \<open>A socket that interrupts every call keeps the loop busy for ever.\<close>

lemma send_loop_busy:
  assumes "send_loop io buf len count w = Some y" "\<And>w d. fst (os_send io w d) = Send_again" shows "\<not> count < len"
proof -
  have "(\<forall>w d. fst (os_send io w d) = Send_again) \<longrightarrow> \<not> count < len"
  proof (rule send_loop.raw_induct [OF _ assms(1),
      where P = "\<lambda>io buf len count w y. (\<forall>w d. fst (os_send io w d) = Send_again) \<longrightarrow> \<not> count < len"])
    fix f :: "'a genl_os \<Rightarrow> u8 list \<Rightarrow> nat \<Rightarrow> nat \<Rightarrow> 'a \<Rightarrow> (int \<times> 'a) option" and io buf len count w y
    assume IH: "\<And>io buf len count w y. f io buf len count w = Some y \<Longrightarrow>
        (\<forall>w d. fst (os_send io w d) = Send_again) \<longrightarrow> \<not> count < len"
      and y: "do { d \<leftarrow> slice buf count (len - count);
          let (r, w) = os_send io w d
          in case r of Sent n \<Rightarrow> if count + n < len then f io buf len (count + n) w else Some (int (count + n), w)
             | Send_again \<Rightarrow> if count < len then f io buf len count w else Some (int count, w)
             | Send_error \<Rightarrow> Some (- 1, w) } = Some y"
    show "(\<forall>w d. fst (os_send io w d) = Send_again) \<longrightarrow> \<not> count < len"
    proof
      assume b: "\<forall>w d. fst (os_send io w d) = Send_again"
      obtain d where d: "slice buf count (len - count) = Some d" using y by (cases "slice buf count (len - count)") auto
      obtain w1 where "os_send io w d = (Send_again, w1)" using b by (metis prod.collapse)
      then show "\<not> count < len" using y d b IH [of io buf len count w1 y] by auto
    qed
  qed
  then show ?thesis using assms(2) by blast
qed

end
