(* ===== verification/Genl_Kernel.thy ===== *)
theory Genl_Kernel
  imports Genl_User_Correct
begin

text \<open>
  The kernel side of the generic netlink tests (\<^verbatim>\<open>rk3288/debug/netlink/demo2_kernel.c\<close> and
  \<^verbatim>\<open>demo3_kernel.c\<close>): the echo handler with its answer, the multicast, registration and its
  unwinding. The socket buffer and the netlink library of the kernel are a parameter; their
  documented behaviour is the locale \<open>genl_kernel\<close>. What happens to a buffer is recorded: it is
  taken, freed, or handed to the netlink layer, which frees it.
\<close>

subsection \<open>The netlink library\<close>

record 'k genl_api =
  ga_new :: "nat \<Rightarrow> 'k option"
  ga_put :: "'k \<Rightarrow> u32 \<Rightarrow> u32 \<Rightarrow> u8 \<Rightarrow> 'k option"
  ga_nla_put :: "'k \<Rightarrow> u16 \<Rightarrow> u8 list \<Rightarrow> int \<times> 'k"
  ga_end :: "'k \<Rightarrow> int \<times> 'k"
  ga_unicast :: "'k \<Rightarrow> u32 \<Rightarrow> int"
  ga_multicast :: "'k \<Rightarrow> int"

datatype 'k skb_event = Taken | Freed | Handed_to u32 'k | Handed_to_group 'k

abbreviation (input) ESRCH :: int where "ESRCH \<equiv> 3"

definition TEST_GENL_MSG_FROM_KERNEL :: "u8 list" where
  "TEST_GENL_MSG_FROM_KERNEL = ascii ''Hello from kernel space!!!''"

subsection \<open>The answer to a message\<close>

text \<open>The header is added without a look at the result: without room the buffer stays as it is.\<close>

definition genl_msg_prepare_usr_msg :: "'k genl_api \<Rightarrow> u8 \<Rightarrow> nat \<Rightarrow> u32 \<Rightarrow> int \<times> 'k option" where
  "genl_msg_prepare_usr_msg api cmd n pid =
     (case ga_new api n of
        None \<Rightarrow> (- ENOMEM, None)
      | Some skb \<Rightarrow> (0, Some (case ga_put api skb pid 0 cmd of None \<Rightarrow> skb | Some skb \<Rightarrow> skb)))"

definition genl_msg_mk_usr_msg :: "'k genl_api \<Rightarrow> 'k \<Rightarrow> u16 \<Rightarrow> u8 list \<Rightarrow> int \<times> 'k" where
  "genl_msg_mk_usr_msg api skb ty data =
     (let (rc, skb) = ga_nla_put api skb ty data in if rc \<noteq> 0 then (rc, skb) else (0, skb))"

definition genl_msg_send_to_user :: "'k genl_api \<Rightarrow> u8 list \<Rightarrow> u32 \<Rightarrow> int \<times> 'k skb_event list" where
  "genl_msg_send_to_user api data pid =
     (let (rc, skb) = genl_msg_prepare_usr_msg api DOC_EXMPL_C_ECHO (aligned (4 + length data)) pid
      in case skb of
           None \<Rightarrow> (rc, [])
         | Some skb \<Rightarrow>
             let (rc, skb) = genl_msg_mk_usr_msg api skb DOC_EXMPL_A_MSG data
             in if rc \<noteq> 0 then (rc, [Taken, Freed])
                else (let (rc, skb) = ga_end api skb
                      in if rc < 0 then (rc, [Taken, Freed])
                         else (let rc = ga_unicast api skb pid
                               in (if rc < 0 then rc else 0, [Taken, Handed_to pid skb]))))"

text \<open>
  The handler prints the bytes behind the first attribute header as text, whether or not
  there is an attribute; without a zero byte there the read leaves the buffer.
\<close>

definition doc_exmpl_echo :: "'k genl_api \<Rightarrow> u8 list \<Rightarrow> (int \<times> u8 list \<times> 'k skb_event list) option" where
  "doc_exmpl_echo api skb =
     do { str \<leftarrow> c_str (drop (NLMSG_HDRLEN + GENL_HDRLEN + NLA_HDRLEN) skb);
          nlmsg_pid \<leftarrow> rd32 skb 12;
          let (ret, es) = genl_msg_send_to_user api (TEST_GENL_MSG_FROM_KERNEL @ [0]) nlmsg_pid
          in Some (ret, str, es) }"

subsection \<open>The multicast\<close>

definition test_netlink_send :: "'k genl_api \<Rightarrow> int \<times> 'k skb_event list" where
  "test_netlink_send api =
     (case ga_new api (aligned (4 + (length TEST_GENL_MSG_FROM_KERNEL + 1)) + aligned (4 + 0)) of
        None \<Rightarrow> (- ENOMEM, [])
      | Some skb \<Rightarrow>
          (case ga_put api skb 0 0 DOC_EXMPL_C_ECHO of
             None \<Rightarrow> (- ENOMEM, [Taken, Freed])
           | Some skb \<Rightarrow>
               let (rc, skb) = ga_nla_put api skb DOC_EXMPL_A_MSG (TEST_GENL_MSG_FROM_KERNEL @ [0])
               in if rc \<noteq> 0 then (rc, [Taken, Freed])
                  else (let skb = snd (ga_end api skb); rc = ga_multicast api skb
                        in (if rc \<noteq> 0 \<and> rc \<noteq> - ESRCH then rc else 0, [Taken, Handed_to_group skb]))))"

definition genl_trigger_store :: "'k genl_api \<Rightarrow> nat \<Rightarrow> int \<times> 'k skb_event list" where
  "genl_trigger_store api count = (int count, snd (test_netlink_send api))"

subsection \<open>Registration\<close>

datatype genl_res = Family | Ops | Mc_group | Kobject | Sysfs_group

datatype genl_event = Acquire genl_res | Release genl_res

record genl_answers =
  an_family :: int
  an_ops :: int
  an_mcgrp :: int
  an_kobj :: bool
  an_sysfs :: int

definition genetlink_init_2 :: "genl_answers \<Rightarrow> int \<times> genl_event list" where
  "genetlink_init_2 a =
     (if an_family a \<noteq> 0 then (an_family a, [])
      else if an_ops a \<noteq> 0 then (an_ops a, [Acquire Family, Release Family])
      else if an_mcgrp a \<noteq> 0 then (an_mcgrp a, [Acquire Family, Acquire Ops, Release Ops, Release Family])
      else (0, [Acquire Family, Acquire Ops, Acquire Mc_group]))"

definition genetlink_exit_2 :: "genl_event list" where
  "genetlink_exit_2 = [Release Mc_group, Release Ops, Release Family]"

text \<open>The third test adds a sysfs group; adding it to a kobject that was not created is undefined.\<close>

definition genetlink_init_3 :: "genl_answers \<Rightarrow> (int \<times> genl_event list) option" where
  "genetlink_init_3 a =
     (if an_family a \<noteq> 0 then Some (an_family a, [])
      else if an_ops a \<noteq> 0 then Some (an_ops a, [Acquire Family, Release Family])
      else if an_mcgrp a \<noteq> 0 then Some (an_mcgrp a, [Acquire Family, Acquire Ops, Release Ops, Release Family])
      else if \<not> an_kobj a then None
      else if an_sysfs a \<noteq> 0 then Some (- 1, [Acquire Family, Acquire Ops, Acquire Mc_group, Acquire Kobject])
      else Some (0, [Acquire Family, Acquire Ops, Acquire Mc_group, Acquire Kobject, Acquire Sysfs_group]))"

definition genetlink_exit_3 :: "genl_event list" where
  "genetlink_exit_3 = [Release Sysfs_group, Release Kobject, Release Mc_group, Release Ops, Release Family]"

subsection \<open>The contract of the netlink library\<close>

text \<open>
  A new buffer has room for the headers and the size asked for; the header then succeeds;
  an attribute is appended while there is room; finishing changes nothing but the length.
\<close>

locale genl_kernel =
  fixes api :: "'k genl_api" and msg :: "'k \<Rightarrow> nl_msg" and room :: "'k \<Rightarrow> nat" and fam :: u16
  assumes put_new: "ga_new api n = Some skb \<Longrightarrow> \<exists>skb'. ga_put api skb pid sq cmd = Some skb' \<and> n \<le> room skb' \<and>
      msg skb' = \<lparr>nm_type = fam, nm_flags = 0, nm_seq = sq, nm_pid = pid, nm_cmd = cmd, nm_version = 1, nm_attrs = []\<rparr>"
    and attr: "aligned (4 + length d) \<le> room skb \<Longrightarrow> \<exists>skb'. ga_nla_put api skb ty d = (0, skb') \<and>
      msg skb' = (msg skb)\<lparr>nm_attrs := nm_attrs (msg skb) @ [(ty, d)]\<rparr>"
    and finish: "\<exists>rc skb'. ga_end api skb = (rc, skb') \<and> 0 \<le> rc \<and> msg skb' = msg skb"
begin

definition answer :: "u32 \<Rightarrow> u8 list \<Rightarrow> nl_msg" where
  "answer pid d = \<lparr>nm_type = fam, nm_flags = 0, nm_seq = 0, nm_pid = pid, nm_cmd = DOC_EXMPL_C_ECHO, nm_version = 1,
     nm_attrs = [(DOC_EXMPL_A_MSG, d)]\<rparr>"

lemma send_to_user:
  assumes "ga_new api (aligned (4 + length d)) = Some skb"
  shows "\<exists>skb'. genl_msg_send_to_user api d pid =
      (if ga_unicast api skb' pid < 0 then ga_unicast api skb' pid else 0, [Taken, Handed_to pid skb']) \<and>
    msg skb' = answer pid d"
proof -
  obtain s1 where s1: "ga_put api skb pid 0 DOC_EXMPL_C_ECHO = Some s1" "aligned (4 + length d) \<le> room s1"
    "msg s1 = \<lparr>nm_type = fam, nm_flags = 0, nm_seq = 0, nm_pid = pid, nm_cmd = DOC_EXMPL_C_ECHO, nm_version = 1, nm_attrs = []\<rparr>"
    using put_new [OF assms] by blast
  obtain s2 where s2: "ga_nla_put api s1 DOC_EXMPL_A_MSG d = (0, s2)"
    "msg s2 = (msg s1)\<lparr>nm_attrs := nm_attrs (msg s1) @ [(DOC_EXMPL_A_MSG, d)]\<rparr>"
    using attr [OF s1(2)] by blast
  obtain rc s3 where s3: "ga_end api s2 = (rc, s3)" "0 \<le> rc" "msg s3 = msg s2" using finish by blast
  show ?thesis
    using assms s1 s2 s3 by (intro exI [of _ s3])
      (simp add: genl_msg_send_to_user_def genl_msg_prepare_usr_msg_def genl_msg_mk_usr_msg_def answer_def Let_def)
qed

end

text \<open>A library whose buffers hold a given number of payload bytes.\<close>

definition sized_api :: "u16 \<Rightarrow> (nl_msg \<times> nat) genl_api" where
  "sized_api fam = \<lparr>ga_new = (\<lambda>n. Some (user_msg fam 0 0 1 0 [], n)), ga_put = (\<lambda>(m, n) pid sq cmd.
       Some (\<lparr>nm_type = fam, nm_flags = 0, nm_seq = sq, nm_pid = pid, nm_cmd = cmd, nm_version = 1, nm_attrs = []\<rparr>, n)),
     ga_nla_put = (\<lambda>(m, n) ty d. if aligned (4 + length d) \<le> n
       then (0, (m\<lparr>nm_attrs := nm_attrs m @ [(ty, d)]\<rparr>, n - aligned (4 + length d))) else (- 90, (m, n))),
     ga_end = (\<lambda>(m, n). (int (length (msg_bytes m)), (m, n))), ga_unicast = (\<lambda>_ _. 0), ga_multicast = (\<lambda>_. 0)\<rparr>"

interpretation sized: genl_kernel "sized_api fam" fst snd fam
  by unfold_locales (auto simp: sized_api_def)

end
