(* ===== verification/Genl_Props.thy ===== *)
theory Genl_Props
  imports Genl_Kernel
begin

text \<open>
  The properties of the generic netlink tests: messages come back from their bytes, the walk
  over received messages, where it leaves the buffer, the answer of the kernel as the user
  program reads it, and what becomes of buffers and registrations.
\<close>

lemma stops_zeros: "2 \<le> k \<Longrightarrow> stops (replicate k 0)"
  by (cases k; cases "k - 1") (auto simp: stops_def of_le16_def)

lemma rd16_type: "rd16 (msg_bytes m @ rest) 4 = Some (nm_type m)"
proof -
  have "msg_bytes m @ rest = le32 (of_nat (20 + length (attrs_bytes (nm_attrs m)))) @ le16 (nm_type m) @
    (le16 (nm_flags m) @ le32 (nm_seq m) @ le32 (nm_pid m) @ [nm_cmd m, nm_version m, 0, 0] @ attrs_bytes (nm_attrs m) @ rest)"
    by (simp add: msg_bytes_def)
  then show ?thesis by (simp only: rd16_app length_le32)
qed

lemma rd32_pid: "rd32 (msg_bytes m) 12 = Some (nm_pid m)"
proof -
  have "msg_bytes m = (le32 (of_nat (20 + length (attrs_bytes (nm_attrs m)))) @ le16 (nm_type m) @ le16 (nm_flags m) @ le32 (nm_seq m)) @
     le32 (nm_pid m) @ ([nm_cmd m, nm_version m, 0, 0] @ attrs_bytes (nm_attrs m))"
    by (simp add: msg_bytes_def)
  then show ?thesis by (simp only: rd32_app length_le32 length_le16 length_append)
qed

lemma dispatch_walk:
  assumes "list_all msg_ok (m # ms)" "length (msgs_bytes (m # ms)) < 2 ^ 31" "stops slack" "0 \<le> len" "len \<le> int (length out)"
  shows "genlmsg_dispatch (msgs_bytes (m # ms) @ slack) (of_nat (length (msgs_bytes (m # ms)))) ty (uint at) out len =
    Some (if ty \<noteq> 0 \<and> uint (nm_type m) \<noteq> ty then (- 1, out, len) else walk at (m # ms) out len (- 1))"
  using msg_loop_walk [OF assms, of "[]"] rd16_type [of m "msgs_bytes ms @ slack"]
  by (simp add: genlmsg_dispatch_def del: msgs_bytes_simps walk.simps) (simp only: msgs_bytes_simps append_assoc, simp)

lemma dispatch_one:
  assumes "msg_ok m" "stops slack" "0 \<le> len" "len \<le> int (length out)" "length (msg_bytes m) = L" "uint (nm_type m) = ty"
  shows "genlmsg_dispatch (msg_bytes m @ slack) (of_nat L) ty (uint at) out len = Some (walk at [m] out len (- 1))"
proof -
  have "length (msgs_bytes [m]) < 2 ^ 31" using assms(1) by (simp add: msg_ok_def)
  then show ?thesis using dispatch_walk [of m "[]" slack len out ty at] assms
    by (simp del: length_msg_bytes walk.simps)
qed

text \<open>C21: The walk over received bytes: for any sequence of well-formed messages in the received
  bytes, behind which the buffer has two bytes that are no length of an attribute that fits
  (zeros, as the allocation leaves them), the dispatch is defined and does what the walk
  over the messages as data does: it refuses a first message of another type, takes the
  first attribute of the wanted type of every message, cut to the space left by the ones
  before, and stops at an end or error message.\<close>
theorem genl_dispatch:
  assumes "list_all msg_ok (m # ms)" "length (msgs_bytes (m # ms)) < 2 ^ 31" "stops slack" "0 \<le> len" "len \<le> int (length out)"
  shows "genlmsg_dispatch (msgs_bytes (m # ms) @ slack) (of_nat (length (msgs_bytes (m # ms)))) ty (uint at) out len =
    Some (if ty \<noteq> 0 \<and> uint (nm_type m) \<noteq> ty then (- 1, out, len) else walk at (m # ms) out len (- 1))"
  by (rule dispatch_walk [OF assms])

definition demo_msgs :: "nl_msg list" where
  "demo_msgs = [user_msg 20 0 1 1 1 [0x41, 0x42], user_msg 20 0 1 1 2 [0x43], user_msg 20 0 1 1 1 [0x44], user_msg 2 0 1 1 1 []]"

theorem genl_dispatch_witness:
  "genlmsg_dispatch (msgs_bytes demo_msgs @ [0, 0]) 108 20 1 [0, 0, 0, 0] 4 = Some (- 1, [0x44, 0x42, 0, 0], 1)"
proof -
  have l: "length (msgs_bytes demo_msgs) = 108"
    by (simp add: demo_msgs_def aligned_def)
  have c: "demo_msgs = hd demo_msgs # tl demo_msgs" by (simp add: demo_msgs_def)
  have o: "list_all msg_ok demo_msgs" by (simp add: demo_msgs_def msg_ok_def user_msg_def attr_ok_def aligned_def)
  have w: "walk 1 demo_msgs [0, 0, 0, 0] 4 (- 1) = (- 1, [0x44, 0x42, 0, 0], 1)"
    by (simp add: demo_msgs_def give_def)
  have t: "nm_type (hd demo_msgs) = 20" by (simp add: demo_msgs_def user_msg_def)
  show ?thesis
    using genl_dispatch [of "hd demo_msgs" "tl demo_msgs" "[0, 0]" 4 "[0, 0, 0, 0]" 20 1] l o w t
    by (simp only: c [symmetric]) (simp add: stops_def of_le16_def)
qed

text \<open>C22: A message sent comes back from its bytes: with memory and a socket that interrupts only
  finitely often, sending a payload of up to 65000 bytes returns with the buffer freed,
  and reports an error or that the whole aligned message is out; dispatching these bytes,
  in a zeroed buffer longer by two bytes or more, with the same message and attribute
  type gives the payload and its length.\<close>
theorem genl_roundtrip:
  assumes "stream_sock io sent idle" "os_malloc io (pr_net s) (int (20 + aligned (4 + length d))) = (True, w)" "sent w = sent (pr_net s)"
    and "d \<noteq> []" "length d \<le> 65000" "ty \<notin> {0, NLMSG_ERROR, NLMSG_DONE}" "length d \<le> length out" "2 \<le> k"
    and bs: "bs = msg_bytes (user_msg ty pid cmd ver at d)"
  shows "\<exists>r s'. genlmsg_send io ty pid cmd ver at (Some d) (of_nat (length d)) s = Some (r, s') \<and> pr_bufs s' = pr_bufs s \<and>
    (r = - 1 \<or> r = int (length bs) \<and> sent (pr_net s') = sent (pr_net s) @ bs) \<and>
    genlmsg_dispatch (bs @ replicate k 0) (of_nat (length bs)) (uint ty) (uint at) out (int (length out)) =
      Some (0, d @ drop (length d) out, int (length d))"
proof -
  let ?n = "length d" and ?N = "20 + aligned (4 + length d)"
  have l: "sint (of_nat ?n :: u32) = int ?n" using assms(5) by (simp add: sint_u32)
  have nz: "(of_nat ?n :: u32) \<noteq> 0" using assms(4,5) unat_u32 [of ?n] by fastforce
  have b: "length bs = ?N" "aligned (4 + ?n) < 65010" using aligned_bounds(2) [of "4 + ?n"] assms(5) by (simp_all add: bs length_user_msg)
  obtain r w' where sl: "send_loop io bs ?N 0 w = Some (r, w')" "r = - 1 \<or> r = int ?N \<and> sent w' = sent w @ drop 0 bs"
    using stream_sock.send_loop_all [OF assms(1) b(1), of 0 w] by auto
  have f: "genl_fill (replicate ?N 0) (int ?N) ty pid cmd ver at d (of_nat ?n) = Some bs"
    unfolding bs by (rule genl_fill_msg) (use assms(5) in simp_all)
  have "genlmsg_send io ty pid cmd ver at (Some d) (of_nat ?n) s =
      Some (r, genlmsg_free (s\<lparr>pr_net := w, pr_bufs := pr_bufs s + 1, pr_net := w'\<rparr>))"
    using assms(6) nz f sl(1) genlmsg_alloc_ok [OF assms(5,2)]
    by (simp add: genlmsg_send_def l del: of_nat_add replicate.simps)
  moreover have "msg_ok (user_msg ty pid cmd ver at d)"
    using assms(5) b(2) by (simp add: msg_ok_def user_msg_def attr_ok_def)
  then have "genlmsg_dispatch (bs @ replicate k 0) (of_nat (length bs)) (uint ty) (uint at) out (int (length out)) =
      Some (walk at [user_msg ty pid cmd ver at d] out (int (length out)) (- 1))"
    unfolding bs by (rule dispatch_one) (use assms(8) stops_zeros in simp_all)
  moreover have "walk at [user_msg ty pid cmd ver at d] out (int (length out)) (- 1) = (0, d @ drop ?n out, int ?n)"
    using assms(6,7) by (simp add: user_msg_def give_def)
  ultimately show ?thesis using sl(2) b(1) assms(3)
    by (intro exI [of _ r] exI [of _ "genlmsg_free (s\<lparr>pr_net := w, pr_bufs := pr_bufs s + 1, pr_net := w'\<rparr>)"])
      (auto simp: genlmsg_free_def)
qed

definition demo_proc :: "send_result list \<Rightarrow> (send_result list \<times> u8 list) proc" where
  "demo_proc rs = \<lparr>pr_bufs = 0, pr_socks = 1, pr_net = (rs, [])\<rparr>"

theorem genl_roundtrip_witness:
  "\<exists>r s'. genlmsg_send (script_os []) 20 7 1 1 1 (Some [0x41, 0x42]) 2 (demo_proc [Send_again, Sent 9, Send_again]) = Some (r, s') \<and>
    pr_bufs s' = 0"
  using genl_roundtrip [OF script.stream_sock_axioms [of "[]"], of "demo_proc [Send_again, Sent 9, Send_again]" "[0x41, 0x42]"
      "([Send_again, Sent 9, Send_again], [])" 20 "[0, 0]" 2 _ 7 1 1 1, OF _ _ _ _ _ _ _ refl]
  by (auto simp: demo_proc_def script_os_def)

subsection \<open>Leaving the buffer\<close>

text \<open>
  One message in front of arbitrary bytes: the walk over its attributes starts with 16 bytes too
  many, because the length of the message header is not taken off.
\<close>

lemma one_message:
  assumes "msg_ok m" "nm_type m \<notin> {NLMSG_ERROR, NLMSG_DONE}" "map_of (nm_attrs m) at = None" "0 \<le> len" "len \<le> int (length out)"
  shows "genlmsg_dispatch (msg_bytes m) (of_nat (length (msg_bytes m))) 0 (uint at) out len = None"
proof -
  let ?a = "attrs_bytes (nm_attrs m)" and ?n = "20 + length (attrs_bytes (nm_attrs m))"
  have n: "?n < 65536" using assms(1) by (simp add: msg_ok_def)
  have u: "unat (of_nat ?n :: u32) = ?n" by (rule unat_u32) (use n in simp)
  define hd where "hd = le32 (of_nat ?n) @ le16 (nm_type m) @ le16 (nm_flags m) @ le32 (nm_seq m) @ le32 (nm_pid m) @ [nm_cmd m, nm_version m, 0, 0]"
  have b: "msg_bytes m = hd @ ?a" "length hd = 20" by (simp_all add: msg_bytes_def hd_def)
  have r: "rd32 (msg_bytes m) 0 = Some (of_nat ?n)" "rd16 (msg_bytes m) 4 = Some (nm_type m)"
    using rd32_app [of "[]" 0 "of_nat ?n"] rd16_type [of m "[]"] by (simp_all add: msg_bytes_def)
  have c: "\<not> (of_nat ?n :: u32) < 16" unfolding word_less_nat_alt u by simp
  have e: "of_nat ?n - 4 = (of_nat (length ?a + 16) :: u32)" by simp
  have sn: "sint (of_nat ?n - 4 :: u32) = int (length ?a + 16)" unfolding e by (rule sint_u32) (use n in simp)
  have "attr_loop (msg_bytes m) (uint at) 20 (int (length ?a + 16)) out len = None"
    using attr_loop_overrun [of "nm_attrs m" at "nat len" out hd] assms b by (simp add: msg_ok_def nat_le_iff)
  then show ?thesis using r c assms(2)
    by (simp add: genlmsg_dispatch_def del: of_nat_add) (subst msg_loop.simps, simp add: sn del: of_nat_add)
qed

text \<open>The dispatch reads behind the received bytes: a single well-formed message without the
  wanted attribute that ends where the buffer ends makes the read leave the buffer; with two
  zero bytes behind it the result is that nothing was found.\<close>
theorem genl_overread:
  assumes "msg_ok m" "nm_type m \<notin> {NLMSG_ERROR, NLMSG_DONE}" "map_of (nm_attrs m) at = None" "len \<le> length out"
  shows "genlmsg_dispatch (msg_bytes m) (of_nat (length (msg_bytes m))) 0 (uint at) out (int len) = None \<and>
    genlmsg_dispatch (msg_bytes m @ [0, 0]) (of_nat (length (msg_bytes m))) 0 (uint at) out (int len) = Some (- 1, out, int len)"
proof
  show "genlmsg_dispatch (msg_bytes m) (of_nat (length (msg_bytes m))) 0 (uint at) out (int len) = None"
    using one_message [OF assms(1-3)] assms(4) by simp
  have "length (msg_bytes m) < 2 ^ 31" using assms(1) by (simp add: msg_ok_def)
  then show "genlmsg_dispatch (msg_bytes m @ [0, 0]) (of_nat (length (msg_bytes m))) 0 (uint at) out (int len) = Some (- 1, out, int len)"
    using dispatch_walk [of m "[]" "[0, 0]" "int len" out 0 at] assms by (simp add: stops_def of_le16_def)
qed

theorem genl_overread_witness:
  "genlmsg_dispatch (msg_bytes (user_msg 16 0 1 1 2 [0x41])) 28 0 1 [0, 0] 2 = None"
  using genl_overread [of "user_msg 16 0 1 1 2 [0x41]" 1 2 "[0, 0]"] by (simp add: msg_ok_def attr_ok_def aligned_def)

subsection \<open>The echo\<close>

lemma echo_texts:
  "0 \<notin> set TEST_GENL_MSG_FROM_KERNEL" "length TEST_GENL_MSG_FROM_KERNEL = 26"
  "0 \<notin> set MESSAGE_TO_KERNEL" "length MESSAGE_TO_KERNEL = 28"
  by (simp_all add: TEST_GENL_MSG_FROM_KERNEL_def MESSAGE_TO_KERNEL_def ascii_def)

lemma c_str_text: "0 \<notin> set t \<Longrightarrow> c_str (t @ 0 # rest) = Some t"
  by (auto simp: c_str_def takeWhile_append)

lemma drop_msg: "drop 24 (msg_bytes (user_msg ty pid cmd ver at d)) = d @ replicate (aligned (4 + length d) - (4 + length d)) 0"
  by (simp add: msg_bytes_def attr_bytes_def user_msg_def)

text \<open>C23: The echo works end to end: the kernel's handler, given the message the user program builds,
  prints its text and, when a buffer is to be had, hands over one buffer to the sender of
  the message; what the user program then makes of the bytes of that message, received into
  a zeroed buffer longer by two bytes or more, is success and the kernel's text.\<close>
theorem genl_echo:
  assumes "genl_kernel api msg room fam" "\<And>n. ga_new api n \<noteq> None" "16 \<le> fam" "2 \<le> k"
    and m: "m = user_msg fam pid DOC_EXMPL_C_ECHO 1 DOC_EXMPL_A_MSG (MESSAGE_TO_KERNEL @ [0])"
  shows "\<exists>ret skb. doc_exmpl_echo api (msg_bytes m) = Some (ret, MESSAGE_TO_KERNEL, [Taken, Handed_to pid skb]) \<and>
    show_answer (msg_bytes (msg skb) @ replicate k 0) (int (length (msg_bytes (msg skb)))) (uint fam) =
      Some (0, Some TEST_GENL_MSG_FROM_KERNEL)"
proof -
  let ?t = "TEST_GENL_MSG_FROM_KERNEL @ [0]"
  obtain s0 where "ga_new api (aligned (4 + length ?t)) = Some s0" using assms(2) by blast
  then obtain skb where e: "genl_msg_send_to_user api ?t pid =
      (if ga_unicast api skb pid < 0 then ga_unicast api skb pid else 0, [Taken, Handed_to pid skb])"
    and a: "msg skb = genl_kernel.answer fam pid ?t"
    using genl_kernel.send_to_user [OF assms(1)] by blast
  have "rd32 (msg_bytes m) 12 = Some pid" using rd32_pid [of m] by (simp add: m user_msg_def)
  moreover have "c_str (drop 24 (msg_bytes m)) = Some MESSAGE_TO_KERNEL"
    unfolding m drop_msg using c_str_text [OF echo_texts(3)] by simp
  ultimately have 1: "doc_exmpl_echo api (msg_bytes m) =
      Some (if ga_unicast api skb pid < 0 then ga_unicast api skb pid else 0, MESSAGE_TO_KERNEL, [Taken, Handed_to pid skb])"
    by (simp add: doc_exmpl_echo_def e)
  let ?m = "msg skb"
  have m': "nm_type ?m = fam" "nm_attrs ?m = [(1, ?t)]" by (simp_all add: a genl_kernel.answer_def [OF assms(1)])
  have al: "aligned 31 = 32" by (simp add: aligned_def)
  have l: "length (msg_bytes ?m) = 52" by (simp add: m'(2) echo_texts al)
  have ok: "msg_ok ?m" by (simp add: msg_ok_def m'(2) attr_ok_def echo_texts al)
  have f: "fam \<noteq> 2" "fam \<noteq> 3" "uint fam \<noteq> 0" using assms(3) by (auto simp: word_le_nat_alt uint_0_iff)
  have "genlmsg_dispatch (msg_bytes ?m @ replicate k 0) (of_nat 52) (uint fam) (uint (1 :: u16)) (replicate 256 0) (int 256) =
      Some (walk 1 [?m] (replicate 256 0) (int 256) (- 1))"
    by (rule dispatch_one) (use ok assms(4) stops_zeros l m'(1) in \<open>simp_all del: replicate.simps\<close>)
  moreover have "walk 1 [?m] (replicate 256 0) (int 256) (- 1) = (0, ?t @ replicate 229 0, 27)"
    using f by (simp add: m' give_def echo_texts del: replicate.simps)
  moreover have "c_str (?t @ replicate 229 0) = Some TEST_GENL_MSG_FROM_KERNEL"
    using c_str_text [OF echo_texts(1)] by simp
  ultimately have "show_answer (msg_bytes ?m @ replicate k 0) (int (length (msg_bytes ?m))) (uint fam) =
      Some (0, Some TEST_GENL_MSG_FROM_KERNEL)"
    unfolding l show_answer_def by (simp del: replicate.simps)
  then show ?thesis using 1 by blast
qed

theorem genl_echo_witness:
  "\<exists>ret skb. doc_exmpl_echo (sized_api 20) (msg_bytes (user_msg 20 77 1 1 1 (MESSAGE_TO_KERNEL @ [0]))) =
      Some (ret, MESSAGE_TO_KERNEL, [Taken, Handed_to 77 skb])"
  using genl_echo [OF sized.genl_kernel_axioms [of 20], of 2 _ 77, OF _ _ _ refl] by (auto simp: sized_api_def)

subsection \<open>Buffers and registrations\<close>

text \<open>A buffer taken is given back once, freed or handed over.\<close>

definition balanced :: "'k skb_event list \<Rightarrow> bool" where
  "balanced es \<longleftrightarrow> es = [] \<or> (\<exists>e. es = [Taken, e] \<and> e \<noteq> Taken)"

definition genl_held :: "genl_event list \<Rightarrow> genl_res set" where
  "genl_held es = fold (\<lambda>e H. case e of Acquire r \<Rightarrow> insert r H | Release r \<Rightarrow> H - {r}) es {}"

lemma init_3_cases: "genetlink_init_3 a = Some (r, es) \<Longrightarrow>
   (r = 0 \<and> genl_held es = {Family, Ops, Mc_group, Kobject, Sysfs_group} \<and> genl_held (es @ genetlink_exit_3) = {}) \<or>
   (r \<noteq> 0 \<and> genl_held es = (if an_family a = 0 \<and> an_ops a = 0 \<and> an_mcgrp a = 0 then {Family, Ops, Mc_group, Kobject} else {}))"
  by (auto simp: genetlink_init_3_def genl_held_def genetlink_exit_3_def split: if_splits)

text \<open>What the kernel side takes it gives back: whatever the netlink library answers, the answer
  and the multicast take at most one buffer and free it or hand it over, but not both; the
  second test's initialisation holds all registrations on success and none on failure; the
  third's leaves four of the five behind when the sysfs group cannot be created, and gives
  the rest back like the second; both exits give everything back.\<close>
theorem genl_balance:
  "balanced (snd (genl_msg_send_to_user api data pid)) \<and> balanced (snd (test_netlink_send api)) \<and>
   (case genetlink_init_2 a of (r, es) \<Rightarrow>
      if r = 0 then genl_held es = {Family, Ops, Mc_group} \<and> genl_held (es @ genetlink_exit_2) = {} else genl_held es = {}) \<and>
   (case genetlink_init_3 a of None \<Rightarrow> \<not> an_kobj a | Some (r, es) \<Rightarrow>
      if r = 0 then genl_held es = {Family, Ops, Mc_group, Kobject, Sysfs_group} \<and> genl_held (es @ genetlink_exit_3) = {}
      else genl_held es = (if an_family a = 0 \<and> an_ops a = 0 \<and> an_mcgrp a = 0 then {Family, Ops, Mc_group, Kobject} else {}))"
proof (intro conjI)
  show "balanced (snd (genl_msg_send_to_user api data pid))"
    by (auto simp: genl_msg_send_to_user_def balanced_def Let_def split_beta split: option.splits)
  show "balanced (snd (test_netlink_send api))"
    by (auto simp: test_netlink_send_def balanced_def Let_def split_beta split: option.splits)
  show "case genetlink_init_2 a of (r, es) \<Rightarrow>
      if r = 0 then genl_held es = {Family, Ops, Mc_group} \<and> genl_held (es @ genetlink_exit_2) = {} else genl_held es = {}"
    by (auto simp: genetlink_init_2_def genl_held_def genetlink_exit_2_def)
  have "genetlink_init_3 a = None \<Longrightarrow> \<not> an_kobj a" by (auto simp: genetlink_init_3_def split: if_splits)
  then show "case genetlink_init_3 a of None \<Rightarrow> \<not> an_kobj a | Some (r, es) \<Rightarrow>
      if r = 0 then genl_held es = {Family, Ops, Mc_group, Kobject, Sysfs_group} \<and> genl_held (es @ genetlink_exit_3) = {}
      else genl_held es = (if an_family a = 0 \<and> an_ops a = 0 \<and> an_mcgrp a = 0 then {Family, Ops, Mc_group, Kobject} else {})"
    using init_3_cases [of a] by (auto split: option.split)
qed

end
