(* ===== verification/Dns.thy ===== *)
theory Dns
  imports Bytes
begin

text \<open>
  The name resolver added to the connection helper (\<^verbatim>\<open>rk3399/xconnect.c\<close>): the name server's
  address from the configuration file, the query datagram with its label encoding, and the
  walk over the answer. Memory outside an object, and memory of the answer that no received
  byte has set, is undefined (None), and so is a loop that runs off the end. The files'
  contents and the name server are parameters: the server maps the address asked and the
  datagram to the datagram it answers with. The rest of the file is the helper's own code,
  taken over from another project.
\<close>

subsection \<open>C strings\<close>

text \<open>The length of the string at the start of an object.\<close>

definition strlen :: "u8 list \<Rightarrow> nat option" where
  "strlen b = (if 0 \<in> set b then Some (length (takeWhile (\<lambda>c. c \<noteq> 0) b)) else None)"

text \<open>Where the first string first occurs in the second.\<close>

fun strstr :: "u8 list \<Rightarrow> u8 list \<Rightarrow> nat option" where
  "strstr [] needle = (if needle = [] then Some 0 else None)"
| "strstr (c # cs) needle =
     (if take (length needle) (c # cs) = needle then Some 0 else map_option Suc (strstr cs needle))"

definition isdigit :: "u8 \<Rightarrow> bool" where
  "isdigit c \<longleftrightarrow> 0x30 \<le> c \<and> c \<le> 0x39"

abbreviation (input) DOT :: u8 where "DOT \<equiv> 0x2e"

subsection \<open>The name server's address\<close>

definition nameserver :: "u8 list" where
  "nameserver = map of_char ''nameserver''"

text \<open>
  At most 1020 bytes of the file are read over the static buffer; behind the first
  occurrence of the keyword the first digit starts the address. The result is the text
  copied out and the buffer with its end marked.
\<close>

definition get_dns_name :: "u8 list \<Rightarrow> u8 list \<Rightarrow> (u8 list \<times> u8 list) option" where
  "get_dns_name file buf =
     do { buf \<leftarrow> put_bytes buf 0 (take 1020 file);
          n \<leftarrow> strlen buf;
          p \<leftarrow> strstr (take n buf) nameserver;
          p \<leftarrow> Some (p + length nameserver);
          let skip = length (takeWhile (\<lambda>c. \<not> isdigit c) (drop p buf));
              addr = takeWhile (\<lambda>c. isdigit c \<or> c = DOT) (drop (p + skip) buf)
          in if length buf \<le> p + skip + length addr then None
             else map_option (\<lambda>buf. (addr, buf)) (put_bytes buf (p + skip + length addr) [0]) }"

subsection \<open>The query\<close>

text \<open>
  The name becomes length-prefixed labels: every character is stored one place further, and
  the length of a label goes to the place of the dot before it.
\<close>

fun fillip_loop :: "u8 list \<Rightarrow> u8 list \<Rightarrow> nat \<Rightarrow> nat \<Rightarrow> u8 list option" where
  "fillip_loop buffer [] i j = put_bytes buffer j [of_nat (i - j)]"
| "fillip_loop buffer (c # cs) i j =
     (if c \<noteq> DOT then do { buffer \<leftarrow> put_bytes buffer (i + 1) [c]; fillip_loop buffer cs (i + 1) j }
      else do { buffer \<leftarrow> put_bytes buffer j [of_nat (i - j)]; fillip_loop buffer cs (i + 1) (i + 1) })"

definition fillip :: "u8 list \<Rightarrow> u8 list \<Rightarrow> u8 list option" where
  "fillip buffer ip = fillip_loop buffer ip 0 0"

text \<open>
  The request as it lies in memory: six header words, the 256 bytes of the buffer, the query
  words. The query words are copied behind the string in the buffer, and as many bytes as
  header, string, its zero and the query words take are sent.
\<close>

record dns_req =
  rq_txid :: u16
  rq_flag :: u16
  rq_question :: u16
  rq_answer :: u16
  rq_authority :: u16
  rq_additional :: u16
  rq_buffer :: "u8 list"
  rq_type :: u16
  rq_cls :: u16

definition req_bytes :: "dns_req \<Rightarrow> u8 list" where
  "req_bytes q = le16 (rq_txid q) @ le16 (rq_flag q) @ le16 (rq_question q) @ le16 (rq_answer q) @ le16 (rq_authority q) @
     le16 (rq_additional q) @ rq_buffer q @ le16 (rq_type q) @ le16 (rq_cls q)"

definition dns_query :: "u8 list \<Rightarrow> u8 list option" where
  "dns_query node =
     do { buf \<leftarrow> fillip (replicate 256 0) node;
          let req = \<lparr>rq_txid = htons 0x4419, rq_flag = htons 0x0100, rq_question = htons 1, rq_answer = 0,
                     rq_authority = 0, rq_additional = 0, rq_buffer = buf, rq_type = htons 1, rq_cls = htons 1\<rparr>
          in do { n \<leftarrow> strlen (rq_buffer req);
                  buf \<leftarrow> put_bytes (rq_buffer req) (n + 1) (le16 (rq_type req) @ le16 (rq_cls req));
                  n \<leftarrow> strlen buf;
                  slice (req_bytes (req\<lparr>rq_buffer := buf\<rparr>)) 0 (n + 17) } }"

subsection \<open>The answer\<close>

text \<open>
  The walk over the resource records in the part of the answer's buffer that is set: the
  twelve bytes of a record's head are copied out, an address is the four bytes behind it,
  another record is skipped by its length.
\<close>

function resp_loop :: "u8 list \<Rightarrow> nat \<Rightarrow> u8 list option" where
  "resp_loop b index =
     do { resp \<leftarrow> slice b index 12;
          ty \<leftarrow> rd16 resp 2;
          (if ntohs ty = 1 then slice b (index + 12) 4
           else do { len \<leftarrow> rd16 resp 10; resp_loop b (index + (unat (ntohs len) + 12)) }) }"
  by pat_completeness auto
termination
  by (relation "measure (\<lambda>(b, index). length b - index)") (auto simp: slice_def split: if_splits)

declare resp_loop.simps [simp del]

text \<open>The received datagram is cut to the structure: twelve header bytes, then a buffer of 1024.\<close>

definition dns_answer :: "u8 list \<Rightarrow> u8 list option" where
  "dns_answer datagram =
     (let b = take 1024 (drop 12 datagram) in do { n \<leftarrow> strlen b; resp_loop b (n + 5) })"

text \<open>
  The whole resolver: the file is read twice, the address copied into 32 bytes, the query
  sent and the answer walked. The result is the four bytes of the address.
\<close>

definition name2ip :: "u8 list \<Rightarrow> (u8 list \<Rightarrow> u8 list \<Rightarrow> u8 list) \<Rightarrow> u8 list \<Rightarrow> u8 list \<Rightarrow> u8 list option" where
  "name2ip file server buf node =
     do { (_, buf) \<leftarrow> get_dns_name file buf;
          (dnsip, buf) \<leftarrow> get_dns_name file buf;
          (if 32 \<le> length dnsip then None
           else do { q \<leftarrow> dns_query node; dns_answer (server dnsip q) }) }"

end
