(* ===== verification/Dns_Props.thy ===== *)
theory Dns_Props
  imports Dns
begin

text \<open>
  The resolver's correctness: the name server's address, the label encoding and the datagram
  sent, the record the walk finds, and the resolver as a whole.
\<close>

subsection \<open>Strings\<close>

lemma strlen_text: "0 \<notin> set t \<Longrightarrow> strlen (t @ 0 # rest) = Some (length t)"
  by (auto simp: strlen_def takeWhile_append)

lemma strlen_zeros: "0 \<notin> set t \<Longrightarrow> 0 < k \<Longrightarrow> strlen (t @ replicate k 0) = Some (length t)"
  using strlen_text [of t "replicate (k - 1) 0"] by (cases k) auto

lemma strstr_bound: "strstr cs needle = Some p \<Longrightarrow> p + length needle \<le> length cs"
proof (induction cs arbitrary: p)
  case (Cons c cs)
  then show ?case
    by (fastforce split: if_splits dest: arg_cong [of "take (length needle) (c # cs)" needle length])
qed (auto split: if_splits)

lemma takeWhile_zeros: "\<not> P 0 \<Longrightarrow> takeWhile P (xs @ replicate k 0) = takeWhile P xs"
  by (induction xs) (cases k, simp_all)

lemma drop_takeWhile: "drop (length (takeWhile P xs)) xs = dropWhile P xs"
  by (induction xs) auto

lemma drop_mark:
  assumes "e \<le> length xs" "0 < k"
  shows "drop (length xs) (take e (xs @ replicate k 0) @ [0] @ drop (e + 1) (xs @ replicate k (0 :: u8))) = replicate k 0"
proof (cases "e = length xs")
  case True
  then show ?thesis using assms(2) by (cases k) simp_all
next
  case False
  then obtain d where d: "length xs = e + Suc d" using assms(1) less_imp_Suc_add [of e "length xs"] by auto
  then show ?thesis by simp
qed

subsection \<open>The name server's address\<close>

text \<open>The configured address: the digits and dots from the first digit behind the keyword.\<close>

definition resolv_addr :: "u8 list \<Rightarrow> nat \<Rightarrow> u8 list" where
  "resolv_addr file p = takeWhile (\<lambda>c. isdigit c \<or> c = DOT) (dropWhile (\<lambda>c. \<not> isdigit c) (drop (p + length nameserver) file))"

lemma get_dns_name_file:
  assumes "0 \<notin> set file" "length file \<le> 1020" "strstr file nameserver = Some p"
    "\<exists>c \<in> set (drop (p + length nameserver) file). isdigit c" "length buf = 1024" "drop (length file) buf = replicate (1024 - length file) 0"
  shows "\<exists>buf'. get_dns_name file buf = Some (resolv_addr file p, buf') \<and> length buf' = 1024 \<and>
    drop (length file) buf' = replicate (1024 - length file) 0"
proof -
  let ?k = "1024 - length file" and ?P = "\<lambda>c. isdigit c \<or> c = DOT" and ?q = "p + length nameserver"
  let ?buf = "file @ replicate ?k 0" and ?rest = "drop ?q file"
  have k: "0 < ?k" using assms(2) by simp
  have b: "put_bytes buf 0 (take 1020 file) = Some ?buf" using assms(2,5,6) by (simp add: put_bytes_def)
  have q: "?q \<le> length file" using strstr_bound [OF assms(3)] .
  let ?s = "length (takeWhile (\<lambda>c. \<not> isdigit c) ?rest)"
  have s: "takeWhile (\<lambda>c. \<not> isdigit c) (drop ?q ?buf) = takeWhile (\<lambda>c. \<not> isdigit c) ?rest"
    using assms(4) q by (auto simp: takeWhile_append)
  have "?s \<le> length ?rest" by (rule length_takeWhile_le)
  then have s': "?q + ?s \<le> length file" using q by simp
  have df: "drop (?q + ?s) file = dropWhile (\<lambda>c. \<not> isdigit c) ?rest"
    using drop_takeWhile [of "\<lambda>c. \<not> isdigit c" ?rest] by (simp add: add.commute)
  then have d: "drop (?q + ?s) ?buf = dropWhile (\<lambda>c. \<not> isdigit c) ?rest @ replicate ?k 0" using s' by simp
  have a: "takeWhile ?P (drop (?q + ?s) ?buf) = resolv_addr file p"
    unfolding d resolv_addr_def by (rule takeWhile_zeros) (simp add: isdigit_def)
  have "length (resolv_addr file p) \<le> length (drop (?q + ?s) file)"
    unfolding resolv_addr_def df by (rule length_takeWhile_le)
  then have l: "?q + ?s + length (resolv_addr file p) \<le> length file" using s' by simp
  let ?e = "?q + ?s + length (resolv_addr file p)"
  have e: "put_bytes ?buf ?e [0] = Some (take ?e ?buf @ [0] @ drop (?e + 1) ?buf)" using l assms(2) by (simp add: put_bytes_def)
  define buf' where "buf' = take ?e ?buf @ [0] @ drop (?e + 1) ?buf"
  have "drop (length file) buf' = replicate ?k 0" unfolding buf'_def by (rule drop_mark [OF l k])
  moreover have "length buf' = 1024" using l assms(2) by (simp add: buf'_def)
  moreover have t: "take (length file) ?buf = file" by simp
  have e': "put_bytes ?buf ?e [0] = Some buf'" unfolding buf'_def by (rule e)
  have lb: "\<not> length ?buf \<le> ?e" using l assms(2) by simp
  have "get_dns_name file buf = Some (resolv_addr file p, buf')"
    unfolding get_dns_name_def b Let_def
    by (simp only: bind.bind_lunit strlen_zeros [OF assms(1) k] t assms(3) s a e' lb if_False option.map)
  ultimately show ?thesis by blast
qed

subsection \<open>Label encoding\<close>

fun labels :: "u8 list \<Rightarrow> u8 list list" where
  "labels [] = [[]]"
| "labels (c # cs) = (if c = DOT then [] # labels cs else (c # hd (labels cs)) # tl (labels cs))"

definition encode :: "u8 list list \<Rightarrow> u8 list" where
  "encode ls = concat (map (\<lambda>l. of_nat (length l) # l) ls)"

lemma labels_ne [simp]: "labels cs \<noteq> []"
  by (cases cs) auto

lemma encode_simps [simp]: "encode [] = []" "encode (l # ls) = of_nat (length l) # l @ encode ls"
  by (simp_all add: encode_def)

lemma length_encode: "length (encode (labels cs)) = length cs + 1"
proof (induction cs)
  case (Cons c cs)
  then show ?case by (cases "labels cs") auto
qed simp

lemma fillip_loop_labels:
  "length pre = j \<Longrightarrow> i = j + length lab \<Longrightarrow> length cs \<le> length rest \<Longrightarrow>
   fillip_loop (pre @ x # lab @ rest) cs i j =
     Some (pre @ encode ((lab @ hd (labels cs)) # tl (labels cs)) @ drop (length cs) rest)"
proof (induction cs arbitrary: pre x lab rest i j)
  case Nil
  then show ?case by (simp add: put_bytes_def)
next
  case (Cons c cs)
  then obtain y rest' where r: "rest = y # rest'" "length cs \<le> length rest'" by (cases rest) auto
  show ?case
  proof (cases "c = DOT")
    case True
    have p: "put_bytes (pre @ x # lab @ rest) j [of_nat (i - j)] = Some ((pre @ of_nat (length lab) # lab) @ y # [] @ rest')"
      using Cons.prems r by (simp add: put_bytes_def)
    have "fillip_loop ((pre @ of_nat (length lab) # lab) @ y # [] @ rest') cs (i + 1) (i + 1) =
        Some ((pre @ of_nat (length lab) # lab) @ encode (([] @ hd (labels cs)) # tl (labels cs)) @ drop (length cs) rest')"
      by (rule Cons.IH) (use Cons.prems r in simp_all)
    then show ?thesis unfolding fillip_loop.simps using True p r by simp
  next
    case False
    have p: "put_bytes (pre @ x # lab @ rest) (i + 1) [c] = Some (pre @ x # (lab @ [c]) @ rest')"
      using Cons.prems r by (simp add: put_bytes_def)
    have "fillip_loop (pre @ x # (lab @ [c]) @ rest') cs (i + 1) j =
        Some (pre @ encode (((lab @ [c]) @ hd (labels cs)) # tl (labels cs)) @ drop (length cs) rest')"
      by (rule Cons.IH) (use Cons.prems r in simp_all)
    then show ?thesis unfolding fillip_loop.simps using False p r by simp
  qed
qed

text \<open>The encoding of the whole name in a buffer that has room for one byte more than the name.\<close>

lemma fillip_labels:
  assumes "length node < length buf"
  shows "fillip buf node = Some (encode (labels node) @ drop (length node + 1) buf)"
proof -
  obtain x rest where b: "buf = x # rest" using assms by (cases buf) auto
  show ?thesis
    using fillip_loop_labels [of "[]" 0 0 "[]" node rest x] assms by (simp add: fillip_def b)
qed


lemma encode_no_zero:
  "list_all (\<lambda>l. l \<noteq> [] \<and> length l < 256 \<and> 0 \<notin> set l) ls \<Longrightarrow> 0 \<notin> set (encode ls)"
proof (induction ls)
  case (Cons l ls)
  have "(of_nat (length l) :: u8) \<noteq> 0"
  proof
    assume "(of_nat (length l) :: u8) = 0"
    then have "256 dvd length l" by (simp add: word_of_nat_eq_0_iff)
    then show False using Cons.prems by (auto dest: dvd_imp_le)
  qed
  then show ?case using Cons by auto
qed simp

subsection \<open>The datagram sent\<close>

definition good_name :: "u8 list \<Rightarrow> bool" where
  "good_name node \<longleftrightarrow> length node \<le> 250 \<and> list_all (\<lambda>l. l \<noteq> [] \<and> 0 \<notin> set l) (labels node)"

text \<open>The query of the protocol: number, flags, one question, the name, type A, class IN.\<close>

definition query_msg :: "u8 list \<Rightarrow> u8 list" where
  "query_msg node = [0x44, 0x19, 1, 0, 0, 1, 0, 0, 0, 0, 0, 0] @ encode (labels node) @ [0] @ [0, 1, 0, 1]"

lemma labels_length: "l \<in> set (labels cs) \<Longrightarrow> length l \<le> length cs"
proof (induction cs arbitrary: l)
  case (Cons c cs)
  then show ?case
    by (cases "labels cs") (fastforce split: if_splits)+
qed simp

lemma good_encode: "good_name node \<Longrightarrow> 0 \<notin> set (encode (labels node))"
  by (rule encode_no_zero) (fastforce simp: good_name_def list_all_iff dest: labels_length)

lemma dns_query_msg:
  assumes "good_name node" shows "dns_query node = Some (query_msg node)"
proof -
  let ?e = "encode (labels node)" and ?n = "length node" and ?q = "[0, 1, 0, 1] :: u8 list"
  have n: "?n \<le> 250" using assms by (simp add: good_name_def)
  have z: "0 \<notin> set ?e" using good_encode [OF assms] .
  have l: "length ?e = ?n + 1" by (rule length_encode)
  have f: "fillip (replicate 256 0) node = Some (?e @ replicate (255 - ?n) 0)"
    using fillip_labels [of node "replicate 256 0"] n by (simp del: replicate.simps)
  have s1: "strlen (?e @ replicate (255 - ?n) 0) = Some (?n + 1)" using strlen_zeros [OF z, of "255 - ?n"] n l by simp
  have "255 - ?n = Suc ((250 - ?n) + 4)" using n by simp
  then obtain k where k: "255 - ?n = Suc (k + 4)" by blast
  have p: "put_bytes (?e @ replicate (255 - ?n) 0) (?n + 1 + 1) ?q = Some (?e @ 0 # ?q @ replicate k 0)"
    unfolding k using l by (simp add: put_bytes_def)
  have s2: "strlen (?e @ 0 # ?q @ replicate k 0) = Some (?n + 1)" using strlen_text [OF z] l by simp
  have h: "le16 (htons 1) = [0, 1]" "le16 (htons 0x4419) = [0x44, 0x19]" "le16 (htons 0x0100) = [1, 0]" "le16 0 = [0, 0]"
    by (simp_all add: le16_htons) (simp add: le16_def)
  have q: "slice (query_msg node @ replicate k 0 @ ?q) 0 (18 + ?n) = Some (query_msg node)"
    using slice_app [of "[]" 0 "query_msg node" "18 + ?n"] l by (simp add: query_msg_def)
  show ?thesis
    unfolding dns_query_def f Let_def using s1 p s2 l q
    by (simp add: h req_bytes_def) (simp add: query_msg_def)
qed

subsection \<open>The answer\<close>

record dns_rr =
  rr_name :: "u8 \<times> u8" \<comment> \<open>a compressed name: two bytes\<close>
  rr_type :: u16
  rr_cls :: u16
  rr_ttl :: u32 \<comment> \<open>as its bytes lie in memory\<close>
  rr_data :: "u8 list"

definition be16 :: "u16 \<Rightarrow> u8 list" where
  "be16 w = le16 (htons w)"

definition rr_bytes :: "dns_rr \<Rightarrow> u8 list" where
  "rr_bytes r = [fst (rr_name r), snd (rr_name r)] @ be16 (rr_type r) @ be16 (rr_cls r) @ le32 (rr_ttl r) @
     be16 (of_nat (length (rr_data r))) @ rr_data r"

definition rr_ok :: "dns_rr \<Rightarrow> bool" where
  "rr_ok r \<longleftrightarrow> length (rr_data r) < 65536 \<and> (rr_type r = 1 \<longrightarrow> length (rr_data r) = 4)"

lemma length_be16 [simp]: "length (be16 w) = 2"
  by (simp add: be16_def)

lemma length_rr_bytes [simp]: "length (rr_bytes r) = 12 + length (rr_data r)"
  by (simp add: rr_bytes_def)

text \<open>One record: an address is returned, another record is skipped.\<close>

lemma resp_loop_rr:
  assumes "rr_ok r"
  shows "resp_loop (pre @ rr_bytes r @ rest) (length pre) =
    (if rr_type r = 1 then Some (rr_data r) else resp_loop (pre @ rr_bytes r @ rest) (length (pre @ rr_bytes r)))"
proof -
  let ?h = "[fst (rr_name r), snd (rr_name r)] @ be16 (rr_type r) @ be16 (rr_cls r) @ le32 (rr_ttl r) @
     be16 (of_nat (length (rr_data r)))"
  have b: "pre @ rr_bytes r @ rest = pre @ ?h @ (rr_data r @ rest)" "pre @ rr_bytes r @ rest = (pre @ ?h) @ rr_data r @ rest"
    by (simp_all add: rr_bytes_def)
  have s: "slice (pre @ rr_bytes r @ rest) (length pre) 12 = Some ?h"
    by (subst b(1), rule slice_app) simp_all
  have d: "slice (pre @ rr_bytes r @ rest) (12 + length pre) 4 = Some (rr_data r)" if "rr_type r = 1"
    by (subst b(2), rule slice_app) (use assms that in \<open>simp_all add: rr_ok_def\<close>)
  have t: "rd16 ?h 2 = Some (htons (rr_type r))"
    using rd16_app [of "[fst (rr_name r), snd (rr_name r)]" 2 "htons (rr_type r)"] by (simp add: be16_def)
  have l: "rd16 ?h 10 = Some (htons (of_nat (length (rr_data r))))"
    using rd16_app [of "[fst (rr_name r), snd (rr_name r)] @ be16 (rr_type r) @ be16 (rr_cls r) @ le32 (rr_ttl r)" 10 _ "[]"]
    by (simp add: be16_def)
  have u: "unat (of_nat (length (rr_data r)) :: u16) = length (rr_data r)"
    using assms by (simp add: rr_ok_def unsigned_of_nat take_bit_nat_eq_self)
  show ?thesis
    by (subst resp_loop.simps) (simp add: s t l d u add.commute [of _ 12] del: append_Cons append_assoc)
qed

lemma resp_loop_rrs:
  "list_all rr_ok rs \<Longrightarrow>
   resp_loop (pre @ concat (map rr_bytes rs)) (length pre) = map_option rr_data (find (\<lambda>r. rr_type r = 1) rs)"
proof (induction rs arbitrary: pre)
  case Nil
  then show ?case by (subst resp_loop.simps) (simp add: slice_def)
next
  case (Cons r rs)
  then show ?case using resp_loop_rr [of r pre "concat (map rr_bytes rs)"] Cons.IH [of "pre @ rr_bytes r"] by simp
qed

text \<open>An answer of the protocol: twelve header bytes, the question repeated, the records.\<close>

definition answer_msg :: "u8 list \<Rightarrow> u8 list \<Rightarrow> u8 list \<Rightarrow> dns_rr list \<Rightarrow> u8 list" where
  "answer_msg hdr node q rs = hdr @ encode (labels node) @ [0] @ q @ concat (map rr_bytes rs)"

lemma dns_answer_msg:
  assumes "good_name node" "length hdr = 12" "length q = 4" "list_all rr_ok rs" "length (answer_msg hdr node q rs) \<le> 1036"
  shows "dns_answer (answer_msg hdr node q rs) = map_option rr_data (find (\<lambda>r. rr_type r = 1) rs)"
proof -
  let ?e = "encode (labels node)" and ?r = "concat (map rr_bytes rs)"
  have t: "take 1024 (drop 12 (answer_msg hdr node q rs)) = ?e @ 0 # q @ ?r"
    using assms(2,5) by (simp add: answer_msg_def)
  have "resp_loop ((?e @ 0 # q) @ ?r) (length (?e @ 0 # q)) = map_option rr_data (find (\<lambda>r. rr_type r = 1) rs)"
    by (rule resp_loop_rrs [OF assms(4)])
  then show ?thesis
    using strlen_text [OF good_encode [OF assms(1)]] assms(3) by (simp add: dns_answer_def t Let_def add.commute)
qed

subsection \<open>Properties\<close>


text \<open>The name \<^verbatim>\<open>a.bc\<close>, and a configuration file naming the server 8.8.4.4.\<close>

definition demo_name :: "u8 list" where
  "demo_name = map of_char ''a.bc''"

definition demo_resolv :: "u8 list" where
  "demo_resolv = map of_char ''nameserver 8.8.4.4 x''"


text \<open>C25: The resolver returns the first address the server gives: with a configuration file of at
  most 1020 bytes that names a server by an address of less than 32 characters, and a
  server that answers the query with its header, the question and well-formed records with
  compressed names, in at most 1036 bytes, the result is the data of the first record of
  type A; when there is no such record, for instance because the name does not exist, the
  walk leaves the answer.\<close>
theorem dns_resolve:
  assumes "0 \<notin> set file" "length file \<le> 1020" "strstr file nameserver = Some p"
    "\<exists>c \<in> set (drop (p + length nameserver) file). isdigit c" "length (resolv_addr file p) < 32"
    and "good_name node" "length hdr = 12" "length q = 4" "list_all rr_ok rs" "length (answer_msg hdr node q rs) \<le> 1036"
    and "server (resolv_addr file p) (query_msg node) = answer_msg hdr node q rs"
  shows "name2ip file server (replicate 1024 0) node = map_option rr_data (find (\<lambda>r. rr_type r = 1) rs)"
proof -
  obtain b1 where 1: "get_dns_name file (replicate 1024 0) = Some (resolv_addr file p, b1)" "length b1 = 1024"
    "drop (length file) b1 = replicate (1024 - length file) 0"
    using get_dns_name_file [OF assms(1-4), of "replicate 1024 0"] by auto
  obtain b2 where 2: "get_dns_name file b1 = Some (resolv_addr file p, b2)"
    using get_dns_name_file [OF assms(1-4) 1(2,3)] by blast
  show ?thesis
    using 1(1) 2 assms(5) by (simp add: name2ip_def dns_query_msg [OF assms(6)] assms(11) dns_answer_msg [OF assms(6-10)] del: replicate.simps)
qed

definition demo_rrs :: "dns_rr list" where
  "demo_rrs = [\<lparr>rr_name = (0xc0, 12), rr_type = 5, rr_cls = 1, rr_ttl = 0, rr_data = [1, 0x78, 0xc0, 12]\<rparr>,
     \<lparr>rr_name = (0xc0, 0x20), rr_type = 1, rr_cls = 1, rr_ttl = 0, rr_data = [10, 0, 0, 7]\<rparr>]"

theorem dns_resolve_witness:
  "name2ip demo_resolv (\<lambda>ip m. if ip = map of_char ''8.8.4.4'' then answer_msg (replicate 12 1) demo_name [0, 1, 0, 1] demo_rrs else [])
     (replicate 1024 0) demo_name = Some [10, 0, 0, 7]"
proof -
  have p: "strstr demo_resolv nameserver = Some 0" by (simp add: demo_resolv_def nameserver_def)
  have a: "resolv_addr demo_resolv 0 = map of_char ''8.8.4.4''"
    by (simp add: resolv_addr_def demo_resolv_def nameserver_def isdigit_def word_le_nat_alt)
  have f: "find (\<lambda>r. rr_type r = 1) demo_rrs = Some (demo_rrs ! 1)" by (simp add: demo_rrs_def)
  have d: "rr_data (demo_rrs ! 1) = [10, 0, 0, 7]" by (simp add: demo_rrs_def)
  have "name2ip demo_resolv (\<lambda>ip m. if ip = map of_char ''8.8.4.4'' then answer_msg (replicate 12 1) demo_name [0, 1, 0, 1] demo_rrs else [])
      (replicate 1024 0) demo_name = map_option rr_data (find (\<lambda>r. rr_type r = 1) demo_rrs)"
  proof (rule dns_resolve [OF _ _ p, of demo_name "replicate 12 1" "[0, 1, 0, 1]"])
    show "0 \<notin> set demo_resolv" "length demo_resolv \<le> 1020" by (simp_all add: demo_resolv_def)
    show "\<exists>c\<in>set (drop (0 + length nameserver) demo_resolv). isdigit c"
      by (simp add: demo_resolv_def nameserver_def isdigit_def word_le_nat_alt)
    show "length (resolv_addr demo_resolv 0) < 32" by (simp add: a)
    show "good_name demo_name" by (simp add: good_name_def demo_name_def)
    show "list_all rr_ok demo_rrs" by (simp add: demo_rrs_def rr_ok_def)
    show "length (answer_msg (replicate 12 1) demo_name [0, 1, 0, 1] demo_rrs) \<le> 1036"
      by (simp add: answer_msg_def demo_name_def demo_rrs_def)
  qed (simp_all add: a)
  then show ?thesis by (simp only: f d option.map)
qed

end
