(* ===== verification/Pwm_Backlight.thy ===== *)
theory Pwm_Backlight
  imports Prelude
begin

text \<open>
  The PWM backlight driver (\<^verbatim>\<open>rk3288/debug/pwm/pwm_backlight.c\<close>): switching on and off, the
  duty cycle, the status update, device-tree parsing, probe, removal and shutdown. The
  arithmetic of the duty cycle is that of 32-bit unsigned integers; a division by zero and
  a read outside the level table are undefined (None). The kernel's answers (pins, PWM,
  memory, registration) are a record; the pin and the PWM themselves are part of the state.
\<close>

subsection \<open>State\<close>

record pwm_bl_data =
  bl_period :: u32
  bl_lth :: u32
  bl_levels :: "u32 list option"
  bl_enabled :: bool
  bl_gpio :: int
  bl_active_low :: bool
  bl_scale :: u32
  bl_exit :: bool \<comment> \<open>an exit function is stored\<close>
  bl_pin :: bool \<comment> \<open>the level of the enable pin\<close>
  bl_pwm_on :: bool
  bl_pwm_duty :: int
  bl_pwm_period :: u32

record bl_services =
  bs_alloc :: bool
  bs_levels_alloc :: bool
  bs_gpio_valid :: "int \<Rightarrow> bool"
  bs_gpio_request :: "int \<Rightarrow> int"
  bs_pwm_get :: int
  bs_pwm_request :: int
  bs_period :: u32
  bs_register :: int

subsection \<open>Switching\<close>

definition pwm_backlight_power_on :: "bl_services \<Rightarrow> pwm_bl_data \<Rightarrow> pwm_bl_data" where
  "pwm_backlight_power_on sv pbd =
     (if bl_enabled pbd then pbd
      else (let pbd = (if bs_gpio_valid sv (bl_gpio pbd) then
                         (if bl_active_low pbd then pbd\<lparr>bl_pin := False\<rparr> else pbd\<lparr>bl_pin := True\<rparr>)
                       else pbd)
            in pbd\<lparr>bl_pwm_on := True, bl_enabled := True\<rparr>))"

definition pwm_backlight_power_off :: "bl_services \<Rightarrow> pwm_bl_data \<Rightarrow> pwm_bl_data" where
  "pwm_backlight_power_off sv pbd =
     (if \<not> bl_enabled pbd then pbd
      else (let pbd = pbd\<lparr>bl_pwm_duty := 0, bl_pwm_period := bl_period pbd, bl_pwm_on := False\<rparr>;
                pbd = (if bs_gpio_valid sv (bl_gpio pbd) then
                         (if bl_active_low pbd then pbd\<lparr>bl_pin := True\<rparr> else pbd\<lparr>bl_pin := False\<rparr>)
                       else pbd)
            in pbd\<lparr>bl_enabled := False\<rparr>))"

text \<open>The level is read into an \<^verbatim>\<open>int\<close> and multiplied as an unsigned number; the result is an \<^verbatim>\<open>int\<close>.\<close>

definition compute_duty_cycle :: "pwm_bl_data \<Rightarrow> int \<Rightarrow> int option" where
  "compute_duty_cycle pbd brightness =
     do { duty_cycle \<leftarrow> (case bl_levels pbd of Some ls \<Rightarrow> map_option sint (aref ls brightness) | None \<Rightarrow> Some brightness);
          (if bl_scale pbd = 0 then None
           else Some (sint (word_of_int duty_cycle * (bl_period pbd - bl_lth pbd) div bl_scale pbd + bl_lth pbd))) }"

definition pwm_backlight_update_status :: "bl_services \<Rightarrow> int \<Rightarrow> pwm_bl_data \<Rightarrow> (int \<times> pwm_bl_data) option" where
  "pwm_backlight_update_status sv brightness pbd =
     (if 0 < brightness then
        do { duty_cycle \<leftarrow> compute_duty_cycle pbd brightness;
             Some (0, pwm_backlight_power_on sv (pbd\<lparr>bl_pwm_duty := duty_cycle, bl_pwm_period := bl_period pbd\<rparr>)) }
      else Some (0, pwm_backlight_power_off sv pbd))"

subsection \<open>Device tree\<close>

abbreviation (input) EPROBE_DEFER :: int where "EPROBE_DEFER \<equiv> 517"

record platform_pwm_backlight_data =
  pd_max_brightness :: u32
  pd_dft_brightness :: u32
  pd_lth_brightness :: u32
  pd_levels :: "u32 list option"
  pd_enable_gpio :: int
  pd_active_low :: bool
  pd_exit :: bool

text \<open>
  The node: the length in bytes of the property \<^verbatim>\<open>brightness-levels\<close>, the results of reading
  it and \<^verbatim>\<open>default-brightness-level\<close>, and of looking up the pin with its active-low flag.
\<close>

record bl_node =
  bn_length :: "u32 option"
  bn_levels :: "int \<times> u32 list"
  bn_default :: "int \<times> u32"
  bn_gpio :: "int \<times> bool"

definition pwm_backlight_parse_dt :: "bl_services \<Rightarrow> bl_node option \<Rightarrow> int \<times> platform_pwm_backlight_data" where
  "pwm_backlight_parse_dt sv node =
     (let data = \<lparr>pd_max_brightness = 0, pd_dft_brightness = 0, pd_lth_brightness = 0, pd_levels = None,
                  pd_enable_gpio = 0, pd_active_low = False, pd_exit = False\<rparr>
      in case node of
           None \<Rightarrow> (- ENODEV, data)
         | Some node \<Rightarrow>
             (case bn_length node of
                None \<Rightarrow> (- EINVAL, data)
              | Some len \<Rightarrow>
                  let data = data\<lparr>pd_max_brightness := len div 4\<rparr>;
                      (ret, data) =
                        (if 0 < pd_max_brightness data then
                           (if \<not> bs_levels_alloc sv then (- ENOMEM, data)
                            else (let data = data\<lparr>pd_levels := Some (snd (bn_levels node))\<rparr>
                                  in if fst (bn_levels node) < 0 then (fst (bn_levels node), data)
                                     else if fst (bn_default node) < 0 then (fst (bn_default node), data)
                                     else (0, data\<lparr>pd_dft_brightness := snd (bn_default node),
                                                   pd_max_brightness := pd_max_brightness data - 1\<rparr>)))
                         else (0, data))
                  in if ret < 0 then (ret, data)
                     else (let (gpio, low) = bn_gpio node; data = data\<lparr>pd_enable_gpio := gpio\<rparr>
                           in if gpio = - EPROBE_DEFER then (- EPROBE_DEFER, data)
                              else (0, if bs_gpio_valid sv gpio \<and> low then data\<lparr>pd_active_low := True\<rparr> else data))))"

subsection \<open>Probe\<close>

text \<open>The loop that takes the greatest of the first levels as the scale.\<close>

fun scale_loop :: "u32 list \<Rightarrow> nat \<Rightarrow> nat \<Rightarrow> u32 \<Rightarrow> u32 option" where
  "scale_loop ls i 0 scale = Some scale"
| "scale_loop ls i (Suc n) scale =
     do { l \<leftarrow> aref ls (int i); scale_loop ls (i + 1) n (if scale < l then l else scale) }"

text \<open>
  The result is the return value, the driver's data when the probe succeeds, the brightness
  limit it announces, and whether the platform's exit function was called.
\<close>

definition pwm_backlight_probe ::
  "bl_services \<Rightarrow> platform_pwm_backlight_data option \<Rightarrow> bl_node option \<Rightarrow> (int \<times> (pwm_bl_data \<times> u32) option \<times> bool) option" where
  "pwm_backlight_probe sv pdata node =
     (let (ret, data) = (case pdata of Some d \<Rightarrow> (0, d) | None \<Rightarrow> pwm_backlight_parse_dt sv node)
      in if ret < 0 then Some (ret, None, False)
         else if \<not> bs_alloc sv then Some (- ENOMEM, None, pd_exit data)
         else do {
           scale \<leftarrow> (case pd_levels data of
                        Some ls \<Rightarrow> scale_loop ls 0 (unat (pd_max_brightness data) + 1) 0
                      | None \<Rightarrow> Some (pd_max_brightness data));
           let pbd = \<lparr>bl_period = 0, bl_lth = 0, bl_levels = pd_levels data, bl_enabled = False, bl_gpio = pd_enable_gpio data,
                      bl_active_low = pd_active_low data, bl_scale = scale, bl_exit = False, bl_pin = False, bl_pwm_on = False,
                      bl_pwm_duty = 0, bl_pwm_period = 0\<rparr>;
               (ret, pbd) = (if bs_gpio_valid sv (bl_gpio pbd) then
                               (let r = bs_gpio_request sv (bl_gpio pbd)
                                in if r < 0 then (r, pbd) else (r, pbd\<lparr>bl_pin := bl_active_low pbd\<rparr>))
                             else (ret, pbd))
           in if bs_gpio_valid sv (bl_gpio pbd) \<and> ret < 0 then Some (ret, None, pd_exit data)
              else if bs_pwm_get sv < 0 \<and> bs_pwm_request sv < 0 then Some (bs_pwm_request sv, None, pd_exit data)
              else if bl_scale pbd = 0 then None
              else (let pbd = pbd\<lparr>bl_period := bs_period sv, bl_lth := pd_lth_brightness data * (bs_period sv div bl_scale pbd)\<rparr>
                    in if bs_register sv < 0 then Some (bs_register sv, None, pd_exit data)
                       else do { (_, pbd) \<leftarrow> pwm_backlight_update_status sv 0 pbd;
                                 Some (0, Some (pbd, pd_max_brightness data), False) }) })"

subsection \<open>Removal and shutdown\<close>

text \<open>Both switch off and call the stored exit function, if any; the result says whether it was called.\<close>

definition pwm_backlight_remove :: "bl_services \<Rightarrow> pwm_bl_data \<Rightarrow> bool \<times> pwm_bl_data" where
  "pwm_backlight_remove sv pbd = (let pbd = pwm_backlight_power_off sv pbd in (bl_exit pbd, pbd))"

definition pwm_backlight_shutdown :: "bl_services \<Rightarrow> pwm_bl_data \<Rightarrow> bool \<times> pwm_bl_data" where
  "pwm_backlight_shutdown sv pbd = (let pbd = pwm_backlight_power_off sv pbd in (bl_exit pbd, pbd))"

text \<open>The driver after its probe: the updates the backlight core makes, within the announced limit.\<close>

inductive bl_reach :: "bl_services \<Rightarrow> u32 \<Rightarrow> pwm_bl_data \<Rightarrow> pwm_bl_data \<Rightarrow> int \<Rightarrow> bool" for sv mx s0 where
  start: "bl_reach sv mx s0 s0 0"
| update: "bl_reach sv mx s0 s b \<Longrightarrow> 0 \<le> b' \<Longrightarrow> b' \<le> uint mx \<Longrightarrow>
    pwm_backlight_update_status sv b' s = Some (r, s') \<Longrightarrow> bl_reach sv mx s0 s' b'"

end
