(* ===== verification/Pwm_Backlight_Props.thy ===== *)
theory Pwm_Backlight_Props
  imports Pwm_Backlight
begin

text \<open>
  The backlight follows the brightness last set: switch states over any sequence of updates
  after a probe, and the duty cycle with its bounds and its overflow.
\<close>

text \<open>The loop finds the greatest level.\<close>

lemma scale_loop_fold: "i + n \<le> length ls \<Longrightarrow> scale_loop ls i n s = Some (fold max (take n (drop i ls)) s)"
proof (induction n arbitrary: i s)
  case (Suc n)
  have "drop i ls = ls ! i # drop (Suc i) ls" using Suc.prems by (simp add: Cons_nth_drop_Suc)
  moreover have "(if s < ls ! i then ls ! i else s) = max (ls ! i) s" by (auto simp: max_def)
  ultimately show ?case using Suc by simp
qed simp

lemma scale_loop_Max: "ls \<noteq> [] \<Longrightarrow> scale_loop ls 0 (length ls) 0 = Some (Max (set ls) :: u32)"
proof -
  assume "ls \<noteq> []"
  then have "Max (insert 0 (set ls)) = Max (set ls)" by (simp add: Max_insert)
  moreover have "fold max ls 0 = Max (set (0 # ls))" by (rule Max.set_eq_fold [symmetric])
  ultimately show ?thesis by (simp add: scale_loop_fold)
qed

subsection \<open>Switch states\<close>

text \<open>On exactly for a positive brightness: flag, PWM and enable pin agree.\<close>

definition bl_agrees :: "bl_services \<Rightarrow> pwm_bl_data \<Rightarrow> int \<Rightarrow> bool" where
  "bl_agrees sv s b \<longleftrightarrow> (bl_enabled s \<longleftrightarrow> 0 < b) \<and> (bl_pwm_on s \<longleftrightarrow> 0 < b) \<and>
     (bs_gpio_valid sv (bl_gpio s) \<longrightarrow> bl_pin s = ((0 < b) \<noteq> bl_active_low s))"

text \<open>What the updates do not change.\<close>

definition bl_config :: "pwm_bl_data \<Rightarrow> u32 \<times> u32 \<times> u32 list option \<times> int \<times> bool \<times> u32 \<times> bool" where
  "bl_config s = (bl_period s, bl_lth s, bl_levels s, bl_gpio s, bl_active_low s, bl_scale s, bl_exit s)"

lemma duty_config: "bl_config s = bl_config s' \<Longrightarrow> compute_duty_cycle s b = compute_duty_cycle s' b"
  by (simp add: bl_config_def compute_duty_cycle_def cong: if_cong)

lemma power_on: "bl_config (pwm_backlight_power_on sv s) = bl_config s"
    "bl_agrees sv s b \<Longrightarrow> 0 < b' \<Longrightarrow> bl_agrees sv (pwm_backlight_power_on sv s) b'"
    "bl_pwm_duty (pwm_backlight_power_on sv s) = bl_pwm_duty s"
  by (auto simp: pwm_backlight_power_on_def bl_config_def bl_agrees_def Let_def)

lemma power_off: "bl_config (pwm_backlight_power_off sv s) = bl_config s"
    "bl_agrees sv s b \<Longrightarrow> b' \<le> 0 \<Longrightarrow> bl_agrees sv (pwm_backlight_power_off sv s) b'"
  by (auto simp: pwm_backlight_power_off_def bl_config_def bl_agrees_def Let_def)

lemma update_ok:
  assumes "pwm_backlight_update_status sv b' s = Some (r, s')" "bl_agrees sv s b"
  shows "r = 0 \<and> bl_config s' = bl_config s \<and> bl_agrees sv s' b' \<and> (0 < b' \<longrightarrow> compute_duty_cycle s' b' = Some (bl_pwm_duty s'))"
proof (cases "0 < b'")
  case True
  then obtain d where d: "compute_duty_cycle s b' = Some d" "r = 0"
    and s': "s' = pwm_backlight_power_on sv (s\<lparr>bl_pwm_duty := d, bl_pwm_period := bl_period s\<rparr>)"
    using assms(1) by (auto simp: pwm_backlight_update_status_def split: bind_splits)
  have a: "bl_agrees sv (s\<lparr>bl_pwm_duty := d, bl_pwm_period := bl_period s\<rparr>) b" using assms(2) by (simp add: bl_agrees_def)
  have c: "bl_config s' = bl_config s" unfolding s' power_on(1) by (simp add: bl_config_def)
  show ?thesis
    using d c power_on(2) [OF a True] duty_config [OF c, of b'] by (simp add: s' power_on(3))
next
  case False
  then show ?thesis using assms power_off [of sv s] by (simp add: pwm_backlight_update_status_def)
qed

lemma probe_start:
  assumes "pwm_backlight_probe sv pdata node = Some (0, Some (s0, mx), e)"
  shows "bl_agrees sv s0 0 \<and> \<not> bl_exit s0 \<and> bl_scale s0 \<noteq> 0 \<and> bl_period s0 = bs_period sv"
  using assms
  by (auto simp: pwm_backlight_probe_def Let_def pwm_backlight_update_status_def pwm_backlight_power_off_def bl_agrees_def
      split: prod.splits if_splits bind_splits option.splits)

lemma reach_ok:
  "bl_reach sv mx s0 s b \<Longrightarrow> bl_agrees sv s0 0 \<Longrightarrow>
   bl_config s = bl_config s0 \<and> bl_agrees sv s b \<and> (0 < b \<longrightarrow> compute_duty_cycle s0 b = Some (bl_pwm_duty s))"
proof (induction rule: bl_reach.induct)
  case (update s b b' r s')
  then have c: "bl_config s = bl_config s0" "bl_agrees sv s b" by simp_all
  have u: "bl_config s' = bl_config s" "bl_agrees sv s' b'" "0 < b' \<longrightarrow> compute_duty_cycle s' b' = Some (bl_pwm_duty s')"
    using update_ok [OF update.hyps(4) c(2)] by simp_all
  then show ?case using c(1) duty_config [of s' s0 b'] by simp
qed simp

text \<open>C26: The backlight follows the brightness: after a successful probe it is off, whatever default
  brightness is configured, and after any sequence of updates the driver's flag, the PWM and
  the enable pin, where it has one, say on exactly if the brightness last set is positive,
  with the duty cycle computed for it; removal and shutdown leave all of it off and never
  call an exit function.\<close>
theorem pwm_states:
  assumes "pwm_backlight_probe sv pdata node = Some (0, Some (s0, mx), e)" "bl_reach sv mx s0 s b"
  shows "bl_agrees sv s0 0 \<and> bl_agrees sv s b \<and> (0 < b \<longrightarrow> compute_duty_cycle s0 b = Some (bl_pwm_duty s)) \<and>
    (case pwm_backlight_remove sv s of (ex, s') \<Rightarrow> \<not> ex \<and> bl_agrees sv s' 0) \<and>
    (case pwm_backlight_shutdown sv s of (ex, s') \<Rightarrow> \<not> ex \<and> bl_agrees sv s' 0)"
proof -
  note p = probe_start [OF assms(1)]
  have r: "bl_config s = bl_config s0" "bl_agrees sv s b" "0 < b \<longrightarrow> compute_duty_cycle s0 b = Some (bl_pwm_duty s)"
    using reach_ok [OF assms(2)] p by simp_all
  have "bl_config (pwm_backlight_power_off sv s) = bl_config s0" using power_off(1) r(1) by simp
  then have "\<not> bl_exit (pwm_backlight_power_off sv s)" using p by (simp add: bl_config_def)
  then show ?thesis
    using p r power_off(2) [OF r(2), of 0] by (simp add: pwm_backlight_remove_def pwm_backlight_shutdown_def Let_def)
qed

text \<open>Services that all answer well, and a node with four levels and default level 2.\<close>

definition demo_bs :: bl_services where
  "demo_bs = \<lparr>bs_alloc = True, bs_levels_alloc = True, bs_gpio_valid = (\<lambda>g. 0 \<le> g), bs_gpio_request = (\<lambda>_. 0), bs_pwm_get = 0,
     bs_pwm_request = 0, bs_period = 25000, bs_register = 0\<rparr>"

definition demo_bl_node :: bl_node where
  "demo_bl_node = \<lparr>bn_length = Some 16, bn_levels = (0, [0, 10, 100, 255]), bn_default = (0, 2), bn_gpio = (7, True)\<rparr>"

definition demo_bl :: pwm_bl_data where
  "demo_bl = \<lparr>bl_period = 25000, bl_lth = 0, bl_levels = Some [0, 10, 100, 255], bl_enabled = False, bl_gpio = 7, bl_active_low = True,
     bl_scale = 255, bl_exit = False, bl_pin = True, bl_pwm_on = False, bl_pwm_duty = 0, bl_pwm_period = 0\<rparr>"

lemma demo_probe: "pwm_backlight_probe demo_bs None (Some demo_bl_node) = Some (0, Some (demo_bl, 3), False)"
  by (simp add: pwm_backlight_probe_def pwm_backlight_parse_dt_def demo_bs_def demo_bl_node_def demo_bl_def Let_def scale_loop_fold max_def
      pwm_backlight_update_status_def pwm_backlight_power_off_def)

theorem pwm_states_witness:
  "\<exists>s. bl_reach demo_bs 3 demo_bl s 2 \<and> bl_pwm_on s \<and> \<not> bl_pin s \<and> bl_pwm_duty s = 9803 \<and> \<not> bl_pwm_on demo_bl"
proof -
  have d: "compute_duty_cycle demo_bl 2 = Some 9803" by (simp add: compute_duty_cycle_def demo_bl_def)
  then obtain s where u: "pwm_backlight_update_status demo_bs 2 demo_bl = Some (0, s)" "bl_gpio s = 7" "bl_active_low s"
    by (simp add: pwm_backlight_update_status_def pwm_backlight_power_on_def demo_bl_def Let_def)
  have r: "bl_reach demo_bs 3 demo_bl s 2" by (rule bl_reach.update [OF bl_reach.start _ _ u(1)]) simp_all
  show ?thesis
    using pwm_states [OF demo_probe r] r d u(2,3) by (auto simp: bl_agrees_def demo_bs_def)
qed

subsection \<open>The duty cycle\<close>

lemma sint_uint_small: "uint (w :: u32) < 2 ^ 31 \<Longrightarrow> sint w = uint w"
  by (simp add: sint_uint signed_take_bit_int_eq_self_iff order_trans [OF _ uint_ge_0])

lemma mult_div_word:
  assumes "uint a * uint b < 2 ^ 32" shows "uint (a * b div (c :: u32)) = uint a * uint b div uint c"
proof -
  have "uint (a * b) = uint a * uint b" by (rule uint_mult_lem [THEN iffD1]) (use assms in simp)
  then show ?thesis by (simp add: uint_div)
qed

lemma probe_dt:
  assumes "pwm_backlight_probe sv None (Some node) = Some (0, Some (s, mx), e)" "bn_length node = Some len" "0 < len div 4"
  shows "bl_levels s = Some (snd (bn_levels node)) \<and> bl_lth s = 0 \<and> mx = len div 4 - 1 \<and>
    scale_loop (snd (bn_levels node)) 0 (unat mx + 1) 0 = Some (bl_scale s)"
  using assms
  by (auto simp: pwm_backlight_probe_def pwm_backlight_parse_dt_def Let_def pwm_backlight_update_status_def pwm_backlight_power_off_def
      split: prod.splits if_splits bind_splits option.splits)

text \<open>C27: The duty cycle stays within the period: for a driver probed from the device tree, whose level
  table has the announced length and levels times period below 2 to the 32, the duty cycle of
  a brightness within the limit is the level's share of the period, rounded down; it grows
  with the level, is at most the period, and equals it at the greatest level. Beyond that
  bound the product wraps: with level 255 of 255 and a period of 20 ms the duty cycle is
  3156990 ns.\<close>
theorem pwm_duty:
  assumes "pwm_backlight_probe sv None (Some node) = Some (0, Some (s, mx), e)"
    "bn_length node = Some len" "4 \<le> len" "length (snd (bn_levels node)) = unat (len div 4)"
    and "\<forall>l \<in> set (snd (bn_levels node)). uint l * uint (bs_period sv) < 2 ^ 32" "uint (bs_period sv) < 2 ^ 31" "0 \<le> b" "b \<le> uint mx"
  shows "compute_duty_cycle s b =
      Some (uint (snd (bn_levels node) ! nat b) * uint (bs_period sv) div uint (Max (set (snd (bn_levels node))))) \<and>
    uint (snd (bn_levels node) ! nat b) * uint (bs_period sv) div uint (Max (set (snd (bn_levels node)))) \<le> uint (bs_period sv) \<and>
    (snd (bn_levels node) ! nat b = Max (set (snd (bn_levels node))) \<longrightarrow> compute_duty_cycle s b = Some (uint (bs_period sv))) \<and>
    compute_duty_cycle (demo_bl\<lparr>bl_period := 20000000\<rparr>) 3 = Some 3156990"
proof -
  let ?ls = "snd (bn_levels node)"
  let ?l = "?ls ! nat b" and ?M = "Max (set ?ls)" and ?p = "bs_period sv"
  have "0 < unat (len div 4)" using assms(3) by (simp add: unat_div word_le_nat_alt)
  then have l0: "0 < len div 4" by (simp add: unat_gt_0 word_gt_0)
  note s = probe_dt [OF assms(1,2) l0]
  have mx: "unat mx + 1 = length ?ls" using s assms(4) \<open>0 < unat (len div 4)\<close> l0 by (simp add: unat_minus_one word_gt_0 Suc_diff_1)
  then have ne: "?ls \<noteq> []" by auto
  have sc: "bl_scale s = ?M" using s scale_loop_Max [OF ne] unfolding mx by (simp del: scale_loop.simps)
  have sp: "bl_scale s \<noteq> 0" "bl_period s = ?p" using probe_start [OF assms(1)] by simp_all
  have "nat b \<le> unat mx" using nat_mono [OF assms(8)] by (simp only: unat_eq_nat_uint)
  then have "nat b < length ?ls" using mx by linarith
  then have b: "nat b < length ?ls" "aref ?ls b = Some ?l"
    using assms(7) by (simp_all add: aref_def nat_less_iff)
  have lM: "?l \<le> ?M" using b(1) by simp
  have Mp: "0 < uint ?M" using sp(1) sc uint_ge_0 [of ?M] by (simp add: order_less_le uint_0_iff eq_commute [of 0] del: uint_ge_0)
  have q: "uint ?l * uint ?p div uint ?M \<le> uint ?p"
  proof -
    have "uint ?l * uint ?p \<le> uint ?M * uint ?p" using lM by (simp add: mult_right_mono word_le_def)
    then have "uint ?l * uint ?p div uint ?M \<le> uint ?M * uint ?p div uint ?M" using Mp by (rule zdiv_mono1)
    also have "\<dots> = uint ?p" using Mp by simp
    finally show ?thesis .
  qed
  have w: "uint (?l * ?p div ?M) = uint ?l * uint ?p div uint ?M" using assms(5) b(1) by (intro mult_div_word) simp
  have "sint (?l * ?p div ?M) = uint ?l * uint ?p div uint ?M"
    using q assms(6) by (simp only: w [symmetric]) (simp add: sint_uint_small)
  then have d: "compute_duty_cycle s b = Some (uint ?l * uint ?p div uint ?M)"
    using s sp sc b(2) by (simp add: compute_duty_cycle_def)
  moreover have "compute_duty_cycle (demo_bl\<lparr>bl_period := 20000000\<rparr>) 3 = Some 3156990"
    by (simp add: compute_duty_cycle_def demo_bl_def)
  ultimately show ?thesis using q Mp by simp
qed

theorem pwm_duty_witness: "compute_duty_cycle demo_bl 1 = Some 980"
  using pwm_duty [OF demo_probe, of 16 1] by (simp add: demo_bl_node_def demo_bs_def)

end
