(* ===== verification/W25q_Flash.thy ===== *)
theory W25q_Flash
  imports Bytes
begin

text \<open>
  The SPI flash driver (\<^verbatim>\<open>rk3399/debug/spi/w25q128fv.c\<close>): register access, the command buffer with
  its address bytes, page write, read, erase, and probe. The SPI core is a parameter: a
  transfer of the command bytes, then of data out or in. Accesses outside the six bytes of
  the command buffer are undefined (None). A shift by a negative or too large distance has
  no value in C; its result is an arbitrary parameter, so what is proved does not rest on it.
\<close>

type_synonym u64 = "64 word"

abbreviation (input) MAX_CMD_SIZE :: nat where "MAX_CMD_SIZE \<equiv> 6"
abbreviation (input) SPINOR_OP_AAI_WP :: u8 where "SPINOR_OP_AAI_WP \<equiv> 0xad"

datatype read_mode = SPI_NOR_NORMAL | SPI_NOR_FAST | SPI_NOR_DUAL | SPI_NOR_QUAD

record spi_nor =
  addr_width :: nat
  program_opcode :: u8
  read_opcode :: u8
  erase_opcode :: u8
  read_dummy :: nat \<comment> \<open>in clock cycles\<close>
  flash_read :: read_mode
  sst_write_second :: bool

text \<open>
  The SPI core: write, write then read, and a message of two transfers, the second of bytes to
  send or of a number of bytes to receive on a number of lines. A message has a status and
  an actual length.
\<close>

datatype second = Tx "u8 list" | Rx nat nat

record 'w spi_io =
  sp_write :: "'w \<Rightarrow> u8 list \<Rightarrow> int \<times> 'w"
  sp_write_read :: "'w \<Rightarrow> u8 list \<Rightarrow> nat \<Rightarrow> int \<times> u8 list \<times> 'w"
  sp_sync :: "'w \<Rightarrow> u8 list \<Rightarrow> second \<Rightarrow> int \<times> u32 \<times> u8 list \<times> 'w"

record 'w m25p =
  m_nor :: spi_nor
  m_command :: "u8 list"
  m_bus :: 'w

subsection \<open>Registers\<close>

definition m25p80_read_reg :: "'w spi_io \<Rightarrow> u8 \<Rightarrow> nat \<Rightarrow> 'w m25p \<Rightarrow> int \<times> u8 list \<times> 'w m25p" where
  "m25p80_read_reg io code len s =
     (let (ret, val, w) = sp_write_read io (m_bus s) [code] len in (ret, val, s\<lparr>m_bus := w\<rparr>))"

definition m25p80_write_reg :: "'w spi_io \<Rightarrow> u8 \<Rightarrow> u8 list option \<Rightarrow> nat \<Rightarrow> 'w m25p \<Rightarrow> (int \<times> 'w m25p) option" where
  "m25p80_write_reg io opcode buf len s =
     do { cmd \<leftarrow> put_bytes (m_command s) 0 [opcode];
          cmd \<leftarrow> (case buf of Some b \<Rightarrow> do { d \<leftarrow> slice b 0 len; put_bytes cmd 1 d } | None \<Rightarrow> Some cmd);
          out \<leftarrow> slice cmd 0 (len + 1);
          let (ret, w) = sp_write io (m_bus s) out
          in Some (ret, s\<lparr>m_command := cmd, m_bus := w\<rparr>) }"

subsection \<open>The command buffer\<close>

text \<open>A right shift: by distances from 0 to 31 it is defined.\<close>

definition shr :: "(u32 \<Rightarrow> int \<Rightarrow> u32) \<Rightarrow> u32 \<Rightarrow> int \<Rightarrow> u32" where
  "shr junk w n = (if 0 \<le> n \<and> n < 32 then drop_bit (nat n) w else junk w n)"

definition m25p_addr2cmd :: "(u32 \<Rightarrow> int \<Rightarrow> u32) \<Rightarrow> spi_nor \<Rightarrow> u32 \<Rightarrow> u8 list \<Rightarrow> u8 list option" where
  "m25p_addr2cmd junk nor addr cmd =
     put_bytes cmd 1 [ucast (shr junk addr (int (addr_width nor) * 8 - 8)), ucast (shr junk addr (int (addr_width nor) * 8 - 16)),
                      ucast (shr junk addr (int (addr_width nor) * 8 - 24)), ucast (shr junk addr (int (addr_width nor) * 8 - 32))]"

definition m25p_cmdsz :: "spi_nor \<Rightarrow> nat" where
  "m25p_cmdsz nor = 1 + addr_width nor"

subsection \<open>Write, read and erase\<close>

text \<open>
  The position is cut to 32 bits. The length written is added up: the actual length less the
  command's, computed in 32 bits, whatever the status of the transfer.
\<close>

definition m25p80_write :: "(u32 \<Rightarrow> int \<Rightarrow> u32) \<Rightarrow> 'w spi_io \<Rightarrow> u64 \<Rightarrow> u8 list \<Rightarrow> u64 \<Rightarrow> 'w m25p \<Rightarrow> (u64 \<times> 'w m25p) option" where
  "m25p80_write junk io to buf retlen s =
     (let nor = m_nor s;
          cmd_sz = (if program_opcode nor = SPINOR_OP_AAI_WP \<and> sst_write_second nor then 1 else m25p_cmdsz nor)
      in do { cmd \<leftarrow> put_bytes (m_command s) 0 [program_opcode nor];
              cmd \<leftarrow> m25p_addr2cmd junk nor (ucast to) cmd;
              out \<leftarrow> slice cmd 0 cmd_sz;
              let (_, actual_length, _, w) = sp_sync io (m_bus s) out (Tx buf)
              in Some (retlen + ucast (actual_length - of_nat cmd_sz), s\<lparr>m_command := cmd, m_bus := w\<rparr>) })"

definition m25p80_rx_nbits :: "spi_nor \<Rightarrow> nat" where
  "m25p80_rx_nbits nor = (case flash_read nor of SPI_NOR_DUAL \<Rightarrow> 2 | SPI_NOR_QUAD \<Rightarrow> 4 | _ \<Rightarrow> 0)"

definition m25p80_read :: "(u32 \<Rightarrow> int \<Rightarrow> u32) \<Rightarrow> 'w spi_io \<Rightarrow> u64 \<Rightarrow> nat \<Rightarrow> 'w m25p \<Rightarrow> (int \<times> u64 \<times> u8 list \<times> 'w m25p) option" where
  "m25p80_read junk io pos len s =
     (let nor = m_nor s; dummy = read_dummy nor div 8
      in do { cmd \<leftarrow> put_bytes (m_command s) 0 [read_opcode nor];
              cmd \<leftarrow> m25p_addr2cmd junk nor (ucast pos) cmd;
              out \<leftarrow> slice cmd 0 (m25p_cmdsz nor + dummy);
              let (_, actual_length, buf, w) = sp_sync io (m_bus s) out (Rx (m25p80_rx_nbits nor) len)
              in Some (0, ucast (actual_length - of_nat (m25p_cmdsz nor) - of_nat dummy), buf, s\<lparr>m_command := cmd, m_bus := w\<rparr>) })"

definition m25p80_erase :: "(u32 \<Rightarrow> int \<Rightarrow> u32) \<Rightarrow> 'w spi_io \<Rightarrow> u64 \<Rightarrow> 'w m25p \<Rightarrow> (int \<times> 'w m25p) option" where
  "m25p80_erase junk io offset s =
     do { cmd \<leftarrow> put_bytes (m_command s) 0 [erase_opcode (m_nor s)];
          cmd \<leftarrow> m25p_addr2cmd junk (m_nor s) (ucast offset) cmd;
          out \<leftarrow> slice cmd 0 (m25p_cmdsz (m_nor s));
          let (_, w) = sp_write io (m_bus s) out
          in Some (0, s\<lparr>m_command := cmd, m_bus := w\<rparr>) }"

subsection \<open>Probe\<close>

record flash_platform_data =
  fp_name :: "string option"
  fp_type :: "string option"

record nor_answers =
  na_alloc :: bool
  na_rx_quad :: bool
  na_rx_dual :: bool
  na_modalias :: string
  na_scan :: "string \<Rightarrow> read_mode \<Rightarrow> int"
  na_register :: int

text \<open>The result, the name given to the device, and the name and mode the scan was asked with.\<close>

definition m25p_probe :: "nor_answers \<Rightarrow> flash_platform_data option \<Rightarrow> int \<times> string option \<times> (string \<times> read_mode) option" where
  "m25p_probe a data =
     (if \<not> na_alloc a then (- ENOMEM, None, None)
      else (let mode = (if na_rx_quad a then SPI_NOR_QUAD else if na_rx_dual a then SPI_NOR_DUAL else SPI_NOR_NORMAL);
                name = (case data of Some d \<Rightarrow> fp_name d | None \<Rightarrow> None);
                flash_name = (case data of Some d \<Rightarrow> (case fp_type d of Some t \<Rightarrow> t | None \<Rightarrow> na_modalias a) | None \<Rightarrow> na_modalias a);
                ret = na_scan a flash_name mode
            in if ret \<noteq> 0 then (ret, name, Some (flash_name, mode)) else (na_register a, name, Some (flash_name, mode))))"

end
