(* ===== verification/W25q_Flash_Props.thy ===== *)
theory W25q_Flash_Props
  imports W25q_Flash
begin

text \<open>
  The SPI flash driver in front of a flash chip: the commands it sends, erasing, writing and
  reading back, and what failed transfers report. The chip's documented behaviour is a locale.
\<close>

subsection \<open>The commands sent\<close>

text \<open>An address in the given number of bytes, the most significant first.\<close>

definition be_addr :: "nat \<Rightarrow> u32 \<Rightarrow> u8 list" where
  "be_addr n a = map (\<lambda>k. ucast (drop_bit (8 * k) a)) (rev [0..<n])"

lemma be_addr_34: "be_addr 3 a = [ucast (drop_bit 16 a), ucast (drop_bit 8 a), ucast a]"
    "be_addr 4 a = [ucast (drop_bit 24 a), ucast (drop_bit 16 a), ucast (drop_bit 8 a), ucast a]"
  by (simp_all add: be_addr_def numeral_3_eq_3 numeral_eq_Suc)

lemma length_be_addr [simp]: "length (be_addr n a) = n"
  by (simp add: be_addr_def)

text \<open>The command buffer after opcode and address: what is sent of it starts with them, whatever the undefined shift gives.\<close>

lemma command_bytes:
  assumes "length cmd = 6" "addr_width nor = 3 \<or> addr_width nor = 4" "m25p_cmdsz nor + k \<le> 6"
  shows "\<exists>cmd1 cmd2 dm. put_bytes cmd 0 [opc] = Some cmd1 \<and> m25p_addr2cmd junk nor a cmd1 = Some cmd2 \<and> length cmd2 = 6 \<and>
    slice cmd2 0 (m25p_cmdsz nor + k) = Some (opc # be_addr (addr_width nor) a @ dm) \<and> length dm = k"
proof -
  obtain c0 c1 c2 c3 c4 c5 where c: "cmd = [c0, c1, c2, c3, c4, c5]"
    using assms(1) by (auto simp: numeral_eq_Suc length_Suc_conv)
  show ?thesis
    using assms(2)
  proof
    assume w: "addr_width nor = 3"
    define cmd2 where "cmd2 = opc # be_addr 3 a @ [ucast (junk a (- 8)), c5]"
    have "put_bytes cmd 0 [opc] = Some [opc, c1, c2, c3, c4, c5]" by (simp add: c put_bytes_def)
    moreover have "m25p_addr2cmd junk nor a [opc, c1, c2, c3, c4, c5] = Some cmd2"
      by (simp add: m25p_addr2cmd_def w shr_def put_bytes_def cmd2_def be_addr_34)
    moreover have "slice cmd2 0 (m25p_cmdsz nor + k) = Some (opc # be_addr (addr_width nor) a @ take k [ucast (junk a (- 8)), c5])"
      using assms(3) by (simp add: slice_def cmd2_def w m25p_cmdsz_def be_addr_34 eval_nat_numeral)
    ultimately show ?thesis using assms(3) by (auto simp: cmd2_def w m25p_cmdsz_def)
  next
    assume w: "addr_width nor = 4"
    define cmd2 where "cmd2 = opc # be_addr 4 a @ [c5]"
    have "put_bytes cmd 0 [opc] = Some [opc, c1, c2, c3, c4, c5]" by (simp add: c put_bytes_def)
    moreover have "m25p_addr2cmd junk nor a [opc, c1, c2, c3, c4, c5] = Some cmd2"
      by (simp add: m25p_addr2cmd_def w shr_def put_bytes_def cmd2_def be_addr_34)
    moreover have "slice cmd2 0 (m25p_cmdsz nor + k) = Some (opc # be_addr (addr_width nor) a @ take k [c5])"
      using assms(3) by (simp add: slice_def cmd2_def w m25p_cmdsz_def be_addr_34 eval_nat_numeral)
    ultimately show ?thesis using assms(3) by (auto simp: cmd2_def w m25p_cmdsz_def)
  qed
qed

subsection \<open>The chip\<close>

text \<open>
  The documented behaviour of the flash: after write enable, an erase sets the addressed
  sector of 4096 bytes to ones and a program within a page of 256 bytes clears bits; a read
  returns the bytes from the address on, behind dummy bytes of any value.
\<close>

abbreviation (input) WREN :: u8 where "WREN \<equiv> 0x06"

definition in_range :: "spi_nor \<Rightarrow> u32 \<Rightarrow> bool" where
  "in_range nor a \<longleftrightarrow> unat a < 2 ^ (8 * addr_width nor)"

locale nor_chip =
  fixes io :: "'w spi_io" and nor :: spi_nor and mem :: "'w \<Rightarrow> nat \<Rightarrow> u8" and wel :: "'w \<Rightarrow> bool"
  assumes enable: "sp_write io w [WREN] = (st, w') \<Longrightarrow> st = 0 \<and> wel w' \<and> mem w' = mem w"
    and erase: "sp_write io w (erase_opcode nor # be_addr (addr_width nor) a) = (st, w') \<Longrightarrow> wel w \<Longrightarrow> in_range nor a \<Longrightarrow>
      st = 0 \<and> mem w' = (\<lambda>x. if x div 4096 = unat a div 4096 then 0xff else mem w x)"
    and program: "sp_sync io w (program_opcode nor # be_addr (addr_width nor) a) (Tx d) = (st, n, r, w') \<Longrightarrow> wel w \<Longrightarrow>
      in_range nor a \<Longrightarrow> unat a mod 256 + length d \<le> 256 \<Longrightarrow>
      n = of_nat (1 + addr_width nor + length d) \<and>
      mem w' = (\<lambda>x. if unat a \<le> x \<and> x < unat a + length d then mem w x AND d ! (x - unat a) else mem w x)"
    and read: "sp_sync io w (read_opcode nor # be_addr (addr_width nor) a @ dm) (Rx lines len) = (st, n, r, w') \<Longrightarrow>
      in_range nor a \<Longrightarrow> length dm = read_dummy nor div 8 \<Longrightarrow>
      n = of_nat (1 + addr_width nor + length dm + len) \<and> mem w' = mem w \<and> r = map (mem w) [unat a..<unat a + len]"

lemma same_sector:
  fixes a :: nat
  assumes "a mod 256 + n \<le> 256" "a \<le> x" "x < a + n"
  shows "x div 4096 = a div 4096"
proof -
  have a: "a = 256 * (a div 256) + a mod 256" by simp
  have "x = 256 * (a div 256) + (a mod 256 + (x - a))" using a assms(2) by linarith
  moreover have "a mod 256 + (x - a) < 256" using assms by linarith
  ultimately have "x div 256 = a div 256" by (metis add_cancel_left_right div_less div_mult_self4 zero_neq_numeral)
  moreover have "y div 4096 = y div 256 div 16" for y :: nat by (simp flip: div_mult2_eq)
  ultimately show ?thesis by simp
qed

lemma ones_and: "0xff AND x = (x :: u8)"
proof -
  have "(0xff :: u8) = - 1" by simp
  then show ?thesis by (simp only: and.left_neutral)
qed

text \<open>What a client does: enable, erase, enable, write, read back.\<close>

definition rewrite :: "(u32 \<Rightarrow> int \<Rightarrow> u32) \<Rightarrow> 'w spi_io \<Rightarrow> u64 \<Rightarrow> u8 list \<Rightarrow> 'w m25p \<Rightarrow> (u64 \<times> u64 \<times> u8 list \<times> 'w m25p) option" where
  "rewrite junk io a d s =
     do { (_, s) \<leftarrow> m25p80_write_reg io WREN None 0 s;
          (_, s) \<leftarrow> m25p80_erase junk io a s;
          (_, s) \<leftarrow> m25p80_write_reg io WREN None 0 s;
          (written, s) \<leftarrow> m25p80_write junk io a d 0 s;
          (_, got, buf, s) \<leftarrow> m25p80_read junk io a (length d) s;
          Some (written, got, buf, s) }"

context nor_chip
begin

lemma write_enable:
  assumes "length (m_command s) = 6"
  shows "\<exists>s'. m25p80_write_reg io WREN None 0 s = Some (0, s') \<and> length (m_command s') = 6 \<and> m_nor s' = m_nor s \<and>
    wel (m_bus s') \<and> mem (m_bus s') = mem (m_bus s)"
proof -
  obtain st w where w: "sp_write io (m_bus s) [WREN] = (st, w)" by fastforce
  have "put_bytes (m_command s) 0 [WREN] = Some (WREN # drop 1 (m_command s))" using assms by (simp add: put_bytes_def)
  then show ?thesis using enable [OF w] w assms by (simp add: m25p80_write_reg_def slice_def)
qed

lemma erase_sector:
  assumes "length (m_command s) = 6" "m_nor s = nor" "addr_width nor = 3 \<or> addr_width nor = 4" "wel (m_bus s)" "in_range nor (ucast a)"
  shows "\<exists>s'. m25p80_erase junk io a s = Some (0, s') \<and> length (m_command s') = 6 \<and> m_nor s' = m_nor s \<and>
    mem (m_bus s') = (\<lambda>x. if x div 4096 = unat (ucast a :: u32) div 4096 then 0xff else mem (m_bus s) x)"
proof -
  obtain c1 c2 where c: "put_bytes (m_command s) 0 [erase_opcode nor] = Some c1" "m25p_addr2cmd junk nor (ucast a) c1 = Some c2"
    "length c2 = 6" "slice c2 0 (m25p_cmdsz nor) = Some (erase_opcode nor # be_addr (addr_width nor) (ucast a))"
    using command_bytes [OF assms(1,3), of 0 "erase_opcode nor" junk "ucast a"] assms(3) by (auto simp: m25p_cmdsz_def)
  obtain st w where w: "sp_write io (m_bus s) (erase_opcode nor # be_addr (addr_width nor) (ucast a)) = (st, w)" by fastforce
  show ?thesis using erase [OF w assms(4,5)] w c by (simp add: m25p80_erase_def assms(2))
qed

lemma write_page:
  assumes "length (m_command s) = 6" "m_nor s = nor" "addr_width nor = 3 \<or> addr_width nor = 4" "wel (m_bus s)" "in_range nor (ucast a)"
    "program_opcode nor \<noteq> SPINOR_OP_AAI_WP" "unat (ucast a :: u32) mod 256 + length d \<le> 256"
  shows "\<exists>s'. m25p80_write junk io a d n0 s = Some (n0 + of_nat (length d), s') \<and> length (m_command s') = 6 \<and> m_nor s' = m_nor s \<and>
    mem (m_bus s') = (\<lambda>x. if unat (ucast a :: u32) \<le> x \<and> x < unat (ucast a :: u32) + length d
      then mem (m_bus s) x AND d ! (x - unat (ucast a :: u32)) else mem (m_bus s) x)"
proof -
  obtain c1 c2 where c: "put_bytes (m_command s) 0 [program_opcode nor] = Some c1" "m25p_addr2cmd junk nor (ucast a) c1 = Some c2"
    "length c2 = 6" "slice c2 0 (m25p_cmdsz nor) = Some (program_opcode nor # be_addr (addr_width nor) (ucast a))"
    using command_bytes [OF assms(1,3), of 0 "program_opcode nor" junk "ucast a"] assms(3) by (auto simp: m25p_cmdsz_def)
  obtain st n r w where w: "sp_sync io (m_bus s) (program_opcode nor # be_addr (addr_width nor) (ucast a)) (Tx d) = (st, n, r, w)"
    by (metis prod.collapse)
  note p = program [OF w assms(4,5,7)]
  have "n - of_nat (m25p_cmdsz nor) = (of_nat (length d) :: u32)" using p by (simp add: m25p_cmdsz_def)
  moreover have "ucast (of_nat (length d) :: u32) = (of_nat (length d) :: u64)"
    using assms(7) by (intro word_unat_eq_iff [THEN iffD2]) (simp add: unsigned_ucast_eq unsigned_of_nat take_bit_nat_eq_self)
  ultimately show ?thesis using conjunct2 [OF p] w c assms(6) by (simp add: m25p80_write_def assms(2) Let_def)
qed

lemma read_back:
  assumes "length (m_command s) = 6" "m_nor s = nor" "addr_width nor = 3 \<or> addr_width nor = 4" "in_range nor (ucast a)"
    "m25p_cmdsz nor + read_dummy nor div 8 \<le> 6" "len < 2 ^ 32"
  shows "\<exists>s'. m25p80_read junk io a len s = Some (0, of_nat len, map (mem (m_bus s)) [unat (ucast a :: u32)..<unat (ucast a :: u32) + len], s') \<and>
    mem (m_bus s') = mem (m_bus s)"
proof -
  obtain c1 c2 dm where c: "put_bytes (m_command s) 0 [read_opcode nor] = Some c1" "m25p_addr2cmd junk nor (ucast a) c1 = Some c2"
    "slice c2 0 (m25p_cmdsz nor + read_dummy nor div 8) = Some (read_opcode nor # be_addr (addr_width nor) (ucast a) @ dm)"
    "length dm = read_dummy nor div 8"
    using command_bytes [OF assms(1,3,5), of "read_opcode nor" junk "ucast a"] by blast
  obtain st n r w where w: "sp_sync io (m_bus s) (read_opcode nor # be_addr (addr_width nor) (ucast a) @ dm)
      (Rx (m25p80_rx_nbits nor) len) = (st, n, r, w)"
    by (metis prod.collapse)
  note p = read [OF w assms(4) c(4)]
  have "n - of_nat (m25p_cmdsz nor) - of_nat (read_dummy nor div 8) = (of_nat len :: u32)" using p c(4) by (simp add: m25p_cmdsz_def)
  moreover have "ucast (of_nat len :: u32) = (of_nat len :: u64)"
    using assms(6) by (intro word_unat_eq_iff [THEN iffD2]) (simp add: unsigned_ucast_eq unsigned_of_nat take_bit_nat_eq_self)
  ultimately show ?thesis using conjunct2 [OF p] w c by (simp add: m25p80_read_def assms(2) Let_def)
qed

text \<open>Rewriting data within a page: everything is written and read back, and the rest of the sector is erased.\<close>

lemma rewrite_ok:
  assumes s: "length (m_command s) = 6" "m_nor s = nor"
    and n: "addr_width nor = 3 \<or> addr_width nor = 4" "program_opcode nor \<noteq> SPINOR_OP_AAI_WP"
      "m25p_cmdsz nor + read_dummy nor div 8 \<le> 6"
    and a: "in_range nor (ucast a)" "unat (ucast a :: u32) mod 256 + length d \<le> 256"
  shows "\<exists>s'. rewrite junk io a d s = Some (of_nat (length d), of_nat (length d), d, s') \<and>
    (\<forall>x. x div 4096 \<noteq> unat (ucast a :: u32) div 4096 \<longrightarrow> mem (m_bus s') x = mem (m_bus s) x)"
proof -
  let ?a = "unat (ucast a :: u32)"
  obtain s1 where s1: "m25p80_write_reg io WREN None 0 s = Some (0, s1)" "length (m_command s1) = 6" "m_nor s1 = nor"
    "wel (m_bus s1)" "mem (m_bus s1) = mem (m_bus s)"
    using write_enable [OF s(1)] s(2) by auto
  obtain s2 where s2: "m25p80_erase junk io a s1 = Some (0, s2)" "length (m_command s2) = 6" "m_nor s2 = nor"
    "mem (m_bus s2) = (\<lambda>x. if x div 4096 = ?a div 4096 then 0xff else mem (m_bus s) x)"
    using erase_sector [OF s1(2,3) n(1) s1(4) a(1), of junk] unfolding s1(3,5) by blast
  obtain s3 where s3: "m25p80_write_reg io WREN None 0 s2 = Some (0, s3)" "length (m_command s3) = 6" "m_nor s3 = nor"
    "wel (m_bus s3)" "mem (m_bus s3) = mem (m_bus s2)"
    using write_enable [OF s2(2)] s2(3) by auto
  obtain s4 where s4: "m25p80_write junk io a d 0 s3 = Some (of_nat (length d), s4)" "length (m_command s4) = 6" "m_nor s4 = nor"
    "mem (m_bus s4) = (\<lambda>x. if ?a \<le> x \<and> x < ?a + length d then mem (m_bus s3) x AND d ! (x - ?a) else mem (m_bus s3) x)"
    using write_page [OF s3(2,3) n(1) s3(4) a(1) n(2) a(2), of junk 0] s3(3) by auto
  have len: "length d < 2 ^ 32" using a(2) by simp
  obtain s5 where s5: "m25p80_read junk io a (length d) s4 =
      Some (0, of_nat (length d), map (mem (m_bus s4)) [?a..<?a + length d], s5)" "mem (m_bus s5) = mem (m_bus s4)"
    using read_back [OF s4(2,3) n(1) a(1) n(3) len, of junk] by auto
  have sec: "x div 4096 = ?a div 4096" if "?a \<le> x" "x < ?a + length d" for x
    by (rule same_sector [OF a(2) that])
  have "map (mem (m_bus s4)) [?a..<?a + length d] = d"
  proof (rule nth_equalityI)
    fix i assume "i < length (map (mem (m_bus s4)) [?a..<?a + length d])"
    then have i: "i < length d" by simp
    have "mem (m_bus s4) (?a + i) = 0xff AND d ! i" using i sec [of "?a + i"] by (simp only: s4(4) s3(5) s2(4)) simp
    also have "\<dots> = d ! i" by (rule ones_and)
    finally show "map (mem (m_bus s4)) [?a..<?a + length d] ! i = d ! i" using i by (simp only: nth_map length_upt nth_upt)
  qed simp
  moreover have "\<forall>x. x div 4096 \<noteq> ?a div 4096 \<longrightarrow> mem (m_bus s5) x = mem (m_bus s) x"
    using sec by (auto simp: s5(2) s4(4) s3(5) s2(4))
  ultimately show ?thesis by (simp add: rewrite_def s1(1) s2(1) s3(1) s4(1) s5(1))
qed

end

subsection \<open>A chip\<close>

text \<open>The W25Q128FV with three address bytes: its memory and the write enable latch.\<close>

record w25q =
  w_mem :: "nat \<Rightarrow> u8"
  w_wel :: bool

definition w25q_nor :: spi_nor where
  "w25q_nor = \<lparr>addr_width = 3, program_opcode = 0x02, read_opcode = 0x0b, erase_opcode = 0x20, read_dummy = 8,
     flash_read = SPI_NOR_FAST, sst_write_second = False\<rparr>"

definition w25q_addr :: "u8 \<Rightarrow> u8 \<Rightarrow> u8 \<Rightarrow> nat" where
  "w25q_addr b2 b1 b0 = unat (of_le32 b0 b1 b2 0)"

fun w25q_write :: "w25q \<Rightarrow> u8 list \<Rightarrow> int \<times> w25q" where
  "w25q_write c [opc] = (0, if opc = 0x06 then c\<lparr>w_wel := True\<rparr> else c)"
| "w25q_write c [opc, b2, b1, b0] = (0, if opc = 0x20 \<and> w_wel c then
     \<lparr>w_mem = (\<lambda>x. if x div 4096 = w25q_addr b2 b1 b0 div 4096 then 0xff else w_mem c x), w_wel = False\<rparr> else c)"
| "w25q_write c _ = (0, c)"

fun w25q_sync :: "w25q \<Rightarrow> u8 list \<Rightarrow> second \<Rightarrow> int \<times> u32 \<times> u8 list \<times> w25q" where
  "w25q_sync c (opc # b2 # b1 # b0 # dm) (Tx d) = (0, of_nat (4 + length dm + length d), [],
     if opc = 0x02 \<and> w_wel c then
       \<lparr>w_mem = (\<lambda>x. if w25q_addr b2 b1 b0 \<le> x \<and> x < w25q_addr b2 b1 b0 + length d
           then w_mem c x AND d ! (x - w25q_addr b2 b1 b0) else w_mem c x), w_wel = False\<rparr> else c)"
| "w25q_sync c (opc # b2 # b1 # b0 # dm) (Rx lines n) = (0, of_nat (4 + length dm + n),
     map (w_mem c) [w25q_addr b2 b1 b0..<w25q_addr b2 b1 b0 + n], c)"
| "w25q_sync c _ _ = (0, 0, [], c)"

definition w25q_io :: "w25q spi_io" where
  "w25q_io = \<lparr>sp_write = w25q_write, sp_write_read = (\<lambda>c _ n. (0, replicate n 0, c)), sp_sync = w25q_sync\<rparr>"

lemma w25q_addr_of:
  fixes a :: u32
  assumes "unat a < 2 ^ 24"
  shows "w25q_addr (ucast (drop_bit 16 a)) (ucast (drop_bit 8 a)) (ucast a) = unat a"
proof -
  have "unat (drop_bit 24 a) = unat a div 2 ^ 24" by (simp only: unat_drop_bit_eq) (simp add: drop_bit_eq_div)
  then have "unat (drop_bit 24 a) = 0" using assms by simp
  then have "drop_bit 24 a = 0" by (rule unsigned_eq_0_iff [THEN iffD1])
  then show ?thesis using of_le32_le32 [of a] by (simp add: w25q_addr_def)
qed

interpretation w25q: nor_chip w25q_io w25q_nor w_mem w_wel
  by unfold_locales (auto simp: w25q_io_def w25q_nor_def be_addr_34 in_range_def w25q_addr_of split: if_splits)



text \<open>A transfer that fails before anything is sent is not reported: erasing and reading return 0, a read gives
  as its length the 32-bit difference 0 - (command + dummy bytes), about 4 GB, and a write
  adds 2 to the power 32 less the command bytes to the length written so far.\<close>
lemma flash_failed:
  assumes "length (m_command s) = 6" "m_nor s = nor" "addr_width nor = 3 \<or> addr_width nor = 4"
    and "program_opcode nor \<noteq> SPINOR_OP_AAI_WP" "m25p_cmdsz nor + read_dummy nor div 8 \<le> 6"
    and fail: "\<And>w out x. sp_sync io w out x = (- EIO, 0, [], w)" "\<And>w out. sp_write io w out = (- EIO, w)"
  shows "\<exists>s1 s2 s3. m25p80_erase junk io a s = Some (0, s1) \<and>
    m25p80_read junk io a len s = Some (0, of_nat (2 ^ 32 - (m25p_cmdsz nor + read_dummy nor div 8)), [], s2) \<and>
    m25p80_write junk io a d n s = Some (n + of_nat (2 ^ 32 - m25p_cmdsz nor), s3)"
proof -
  have neg: "ucast (- of_nat k :: u32) = (of_nat (2 ^ 32 - k) :: u64)" if "4 \<le> k" "k \<le> 6" for k :: nat
  proof -
    note k = that
    consider "k = 4" | "k = 5" | "k = 6" using k by linarith
    then show ?thesis by cases simp_all
  qed
  let ?k = "read_dummy nor div 8"
  obtain c1 c2 where c: "put_bytes (m_command s) 0 [erase_opcode nor] = Some c1" "m25p_addr2cmd junk nor (ucast a) c1 = Some c2"
    "slice c2 0 (m25p_cmdsz nor) = Some (erase_opcode nor # be_addr (addr_width nor) (ucast a))"
    using command_bytes [OF assms(1,3), of 0 "erase_opcode nor" junk "ucast a"] assms(3) by (auto simp: m25p_cmdsz_def)
  obtain r1 r2 o2 where r: "put_bytes (m_command s) 0 [read_opcode nor] = Some r1" "m25p_addr2cmd junk nor (ucast a) r1 = Some r2"
    "slice r2 0 (m25p_cmdsz nor + ?k) = Some o2"
    using command_bytes [OF assms(1,3,5), of "read_opcode nor" junk "ucast a"] by blast
  obtain w1 w2 where w: "put_bytes (m_command s) 0 [program_opcode nor] = Some w1" "m25p_addr2cmd junk nor (ucast a) w1 = Some w2"
    "slice w2 0 (m25p_cmdsz nor) = Some (program_opcode nor # be_addr (addr_width nor) (ucast a))"
    using command_bytes [OF assms(1,3), of 0 "program_opcode nor" junk "ucast a"] assms(3) by (auto simp: m25p_cmdsz_def)
  have "4 \<le> m25p_cmdsz nor" "m25p_cmdsz nor \<le> 6" using assms(3) by (auto simp: m25p_cmdsz_def)
  then have "ucast (- of_nat (m25p_cmdsz nor) :: u32) = (of_nat (2 ^ 32 - m25p_cmdsz nor) :: u64)"
    "ucast (- of_nat (m25p_cmdsz nor) - of_nat ?k :: u32) = (of_nat (2 ^ 32 - (m25p_cmdsz nor + ?k)) :: u64)"
    using neg [of "m25p_cmdsz nor"] neg [of "m25p_cmdsz nor + ?k"] assms(5) by simp_all
  then show ?thesis
    using c r w assms(2,4) fail by (simp add: m25p80_erase_def m25p80_read_def m25p80_write_def Let_def)
qed

lemma flash_failed_witness:
  "\<exists>s1 s2 s3. m25p80_erase (\<lambda>_ _. 0) (w25q_io\<lparr>sp_sync := \<lambda>w _ _. (- EIO, 0, [], w), sp_write := \<lambda>w _. (- EIO, w)\<rparr>) 0x100
      \<lparr>m_nor = w25q_nor, m_command = [0, 0, 0, 0, 0, 0], m_bus = \<lparr>w_mem = (\<lambda>_. 0), w_wel = False\<rparr>\<rparr> = Some (0, s1) \<and>
    m25p80_read (\<lambda>_ _. 0) (w25q_io\<lparr>sp_sync := \<lambda>w _ _. (- EIO, 0, [], w), sp_write := \<lambda>w _. (- EIO, w)\<rparr>) 0x100 16
      \<lparr>m_nor = w25q_nor, m_command = [0, 0, 0, 0, 0, 0], m_bus = \<lparr>w_mem = (\<lambda>_. 0), w_wel = False\<rparr>\<rparr> = Some (0, 4294967291, [], s2) \<and>
    m25p80_write (\<lambda>_ _. 0) (w25q_io\<lparr>sp_sync := \<lambda>w _ _. (- EIO, 0, [], w), sp_write := \<lambda>w _. (- EIO, w)\<rparr>) 0x100 [1] 0
      \<lparr>m_nor = w25q_nor, m_command = [0, 0, 0, 0, 0, 0], m_bus = \<lparr>w_mem = (\<lambda>_. 0), w_wel = False\<rparr>\<rparr> = Some (4294967292, s3)"
proof -
  let ?s = "\<lparr>m_nor = w25q_nor, m_command = [0, 0, 0, 0, 0, 0], m_bus = \<lparr>w_mem = (\<lambda>_. 0), w_wel = False\<rparr>\<rparr> :: w25q m25p"
  show ?thesis
    using flash_failed [of ?s w25q_nor "w25q_io\<lparr>sp_sync := \<lambda>w _ _. (- EIO, 0, [], w), sp_write := \<lambda>w _. (- EIO, w)\<rparr>"
        "\<lambda>_ _. 0" "0x100" 16 "[1]" 0]
    by (simp add: w25q_nor_def m25p_cmdsz_def)
qed

end
