(* ===== verification/Uart_Test.thy ===== *)
theory Uart_Test
  imports Bytes
begin

text \<open>
  The serial line test (\<^verbatim>\<open>rk3288/debug/uart/uart_record_rw.c\<close>): baud rates, options, the
  record read, and the three threads - sender, receiver and main - as a step relation over
  their shared variables and the line. A step is what lies between two system calls. The
  kernel decides what a call returns; the line may shorten, lose and corrupt data and fail.
  Options and both threads of the second program, \<^verbatim>\<open>uart_loop_test.c\<close>, follow. Text printed
  is not modelled, nor is the pause of the sender before it writes.
\<close>

subsection \<open>Baud rates and options\<close>

abbreviation (input) DEFAULT_RATE :: nat where "DEFAULT_RATE \<equiv> 115200"
abbreviation (input) ALPHABET_LEN :: nat where "ALPHABET_LEN \<equiv> 26"
abbreviation (input) DATA_NR :: nat where "DATA_NR \<equiv> 500"

text \<open>The result stands for the constant of that rate; 0 is the constant of no rate.\<close>

definition baudrate_map :: "nat \<Rightarrow> nat" where
  "baudrate_map b = (if b \<in> {110, 300, 1200, 2400, 4800, 9600, 19200, 38400, 57600, 115200, 230400, 460800, 500000, 576000,
     921600, 1000000, 1152000, 1500000, 2000000, 2500000, 3000000, 3500000, 4000000} then b else 0)"

text \<open>The library's \<^verbatim>\<open>atoi\<close> on a string of digits with an optional sign, up to the first other character.\<close>

definition digits :: "string \<Rightarrow> int" where
  "digits cs = foldl (\<lambda>n c. 10 * n + (of_char c - 48)) 0 (takeWhile (\<lambda>c. 48 \<le> (of_char c :: int) \<and> (of_char c :: int) \<le> 57) cs)"

definition atoi :: "string \<Rightarrow> int" where
  "atoi s = (let s = dropWhile (\<lambda>c. of_char c \<in> {9, 10, 11, 12, 13, 32 :: int}) s
     in case s of [] \<Rightarrow> 0 | c # cs \<Rightarrow> if c = CHR ''-'' then - digits cs else if c = CHR ''+'' then digits cs else digits s)"

text \<open>The flags of the line that the options change, and the rate.\<close>

record uart_opts =
  CSTOPB :: bool
  PARENB :: bool
  PARODD :: bool
  CRTSCTS :: bool
  baudrate :: nat

definition default_opts :: uart_opts where
  "default_opts = \<lparr>CSTOPB = False, PARENB = True, PARODD = False, CRTSCTS = False, baudrate = DEFAULT_RATE\<rparr>"

definition set_rate :: "string \<Rightarrow> uart_opts \<Rightarrow> uart_opts" where
  "set_rate a opt = (let b = nat (atoi a mod 2 ^ 64) in opt\<lparr>baudrate := if baudrate_map b = 0 then DEFAULT_RATE else b\<rparr>)"

text \<open>The arguments behind the name of the line; the rate's argument is not checked to be there.\<close>

fun parse_opts :: "string list \<Rightarrow> uart_opts \<Rightarrow> uart_opts option" where
  "parse_opts [] opt = Some opt"
| "parse_opts (a # as) opt =
     (if a = ''-S'' then parse_opts as (opt\<lparr>CSTOPB := True\<rparr>)
      else if a = ''-O'' then parse_opts as (opt\<lparr>PARODD := True, PARENB := False\<rparr>)
      else if a = ''-E'' then parse_opts as (opt\<lparr>PARODD := False, PARENB := True\<rparr>)
      else if a = ''-HW'' then parse_opts as (opt\<lparr>CRTSCTS := True\<rparr>)
      else if a = ''-B'' then (case as of [] \<Rightarrow> None | b # as \<Rightarrow> parse_opts as (set_rate b opt))
      else parse_opts as opt)"

text \<open>The speed set is that of the rate, unless the rate is 0.\<close>

definition uart_speed :: "uart_opts \<Rightarrow> nat option" where
  "uart_speed opt = (if baudrate opt \<noteq> 0 then Some (baudrate_map (baudrate opt)) else None)"

subsection \<open>Reading a record\<close>

datatype read_result = Data "u8 list" | Interrupted | Read_error

text \<open>One turn of the loop with the bytes got so far: the result, or the bytes to go on with.\<close>

definition record_turn :: "u8 list \<Rightarrow> read_result \<Rightarrow> int + u8 list" where
  "record_turn got r =
     (case r of
        Read_error \<Rightarrow> Inl (- 1)
      | Interrupted \<Rightarrow> Inr got
      | Data xs \<Rightarrow> if xs = [] then Inl (int (length got)) else Inr (got @ xs))"

partial_function (option) record_loop :: "('w \<Rightarrow> nat \<Rightarrow> read_result \<times> 'w) \<Rightarrow> nat \<Rightarrow> u8 list \<Rightarrow> 'w \<Rightarrow> (int \<times> u8 list \<times> 'w) option" where
  "record_loop rd n got w =
     (if length got < n then
        (let (r, w) = rd w (n - length got)
         in case record_turn got r of Inl ret \<Rightarrow> Some (ret, got, w) | Inr got \<Rightarrow> record_loop rd n got w)
      else Some (int (length got), got, w))"

definition record_read :: "('w \<Rightarrow> nat \<Rightarrow> read_result \<times> 'w) \<Rightarrow> nat \<Rightarrow> 'w \<Rightarrow> (int \<times> u8 list \<times> 'w) option" where
  "record_read rd n w = record_loop rd n [] w"

text \<open>What the caller makes of the results of select and of the record read: a read error leaves select's result.\<close>

definition select_result :: "int \<Rightarrow> int \<Rightarrow> int" where
  "select_result ret cnt = (if ret = - 1 \<or> ret = 0 then ret else if cnt = - 1 then ret else cnt)"

definition read_select ::
  "('w \<Rightarrow> int \<times> 'w) \<Rightarrow> ('w \<Rightarrow> nat \<Rightarrow> read_result \<times> 'w) \<Rightarrow> nat \<Rightarrow> 'w \<Rightarrow> (int \<times> u8 list \<times> 'w) option" where
  "read_select select rd len w =
     (let (ret, w) = select w
      in if ret = - 1 \<or> ret = 0 then Some (ret, [], w)
         else do { (cnt, got, w) \<leftarrow> record_read rd len w; Some (select_result ret cnt, got, w) })"

subsection \<open>The threads\<close>

definition data_size :: nat where "data_size = DATA_NR * ALPHABET_LEN"

definition alphabet_table :: "u8 list" where
  "alphabet_table = map (\<lambda>i. of_nat (i + 65)) [0..<ALPHABET_LEN]"

definition tx_buf :: "u8 list" where
  "tx_buf = concat (replicate DATA_NR alphabet_table)"

text \<open>
  Where the threads are. The sender: at its loop test, before its write, before it counts,
  returned. The receiver: at its loop test, before select, in the record read with what it
  got, before it counts a result, returned, or having ended the process. Main: waiting for
  the key, for the sender, for the counts with the seconds left, for the receiver, at its end
  with its verdict.
\<close>

datatype sender = S_test | S_write | S_count | S_end
datatype receiver = R_test | R_select | R_read "u8 list" | R_count int | R_end | R_exit
datatype main_thread = M_key | M_join_sender | M_wait nat | M_join_receiver | M_done bool

text \<open>
  The shared variables, the bytes on the line, and what happened, for the statements only:
  bytes put on the line, not taken by a write, lost, taken off, taken in a record read that
  failed, and failed reads.
\<close>

record uart_test =
  trun :: bool
  rrun :: bool
  tcount :: u32
  rcount :: u32
  ut_send :: sender
  ut_recv :: receiver
  ut_main :: main_thread
  ut_line :: "u8 list"
  gh_in :: nat
  gh_short :: nat
  gh_lost :: nat
  gh_out :: nat
  gh_drop :: nat
  gh_err :: nat

definition uart_start :: uart_test where
  "uart_start = \<lparr>trun = True, rrun = True, tcount = 0, rcount = 0, ut_send = S_test, ut_recv = R_test, ut_main = M_key,
     ut_line = [], gh_in = 0, gh_short = 0, gh_lost = 0, gh_out = 0, gh_drop = 0, gh_err = 0\<rparr>"

definition Uartsend_step :: "uart_test \<Rightarrow> uart_test" where
  "Uartsend_step s =
     (case ut_send s of
        S_test \<Rightarrow> s\<lparr>ut_send := if trun s then S_write else S_end\<rparr>
      | S_count \<Rightarrow> s\<lparr>tcount := tcount s + of_nat data_size, ut_send := S_test\<rparr>
      | _ \<Rightarrow> s)"

text \<open>The write took \<open>xs\<close>, the bytes as they arrive on the line; the rest of the data is not sent.\<close>

definition Uartsend_write :: "u8 list \<Rightarrow> uart_test \<Rightarrow> uart_test" where
  "Uartsend_write xs s = s\<lparr>ut_line := ut_line s @ xs, ut_send := S_count, gh_in := gh_in s + length xs,
     gh_short := gh_short s + (data_size - length xs)\<rparr>"

definition Uartread_step :: "uart_test \<Rightarrow> uart_test" where
  "Uartread_step s =
     (case ut_recv s of
        R_test \<Rightarrow> s\<lparr>ut_recv := if rrun s then R_select else R_end\<rparr>
      | R_count ret \<Rightarrow> (if ret = - 1 then s\<lparr>ut_recv := R_exit\<rparr> else s\<lparr>rcount := rcount s + word_of_int ret, ut_recv := R_test\<rparr>)
      | _ \<Rightarrow> s)"

text \<open>Select returned: an error, no data, or one descriptor.\<close>

definition Uartread_select :: "int \<Rightarrow> uart_test \<Rightarrow> uart_test" where
  "Uartread_select ret s = s\<lparr>ut_recv := if ret = - 1 \<or> ret = 0 then R_count ret else R_read []\<rparr>"

text \<open>A read of the record returned; the loop ends with the last byte of the record.\<close>

definition Uartread_read :: "read_result \<Rightarrow> u8 list \<Rightarrow> uart_test \<Rightarrow> uart_test" where
  "Uartread_read r got s =
     (case record_turn got r of
        Inl cnt \<Rightarrow> s\<lparr>ut_recv := R_count (select_result 1 cnt), gh_drop := gh_drop s + (if cnt = - 1 then length got else 0),
                     gh_err := gh_err s + (if cnt = - 1 then 1 else 0)\<rparr>
      | Inr got' \<Rightarrow> s\<lparr>ut_recv := if length got' < ALPHABET_LEN then R_read got' else R_count (select_result 1 (int (length got'))),
                      ut_line := drop (length got' - length got) (ut_line s), gh_out := gh_out s + (length got' - length got)\<rparr>)"

definition main_step :: "uart_test \<Rightarrow> uart_test" where
  "main_step s =
     (case ut_main s of
        M_key \<Rightarrow> s\<lparr>trun := False, ut_main := M_join_sender\<rparr>
      | M_join_sender \<Rightarrow> (if ut_send s = S_end then s\<lparr>ut_main := M_wait 5\<rparr> else s)
      | M_wait i \<Rightarrow> (if rcount s < tcount s \<and> 0 < i then s\<lparr>ut_main := M_wait (i - 1)\<rparr> else s\<lparr>rrun := False, ut_main := M_join_receiver\<rparr>)
      | M_join_receiver \<Rightarrow> (if ut_recv s = R_end then s\<lparr>ut_main := M_done (rcount s = tcount s)\<rparr> else s)
      | M_done b \<Rightarrow> s)"

text \<open>
  The steps of a working line: a write takes all the data, a read gives between one and the
  number of bytes asked for from the line's front, or is interrupted, select sees data or
  times out on an empty line. Nothing moves once the process has ended.
\<close>

inductive uart_step :: "uart_test \<Rightarrow> uart_test \<Rightarrow> bool" where
  send: "ut_recv s \<noteq> R_exit \<Longrightarrow> ut_send s \<in> {S_test, S_count} \<Longrightarrow> uart_step s (Uartsend_step s)"
| wr: "ut_recv s \<noteq> R_exit \<Longrightarrow> ut_send s = S_write \<Longrightarrow> length xs = data_size \<Longrightarrow> uart_step s (Uartsend_write xs s)"
| recv: "ut_recv s = R_test \<or> ut_recv s = R_count ret \<Longrightarrow> uart_step s (Uartread_step s)"
| sel_data: "ut_recv s = R_select \<Longrightarrow> ut_line s \<noteq> [] \<Longrightarrow> uart_step s (Uartread_select 1 s)"
| sel_time: "ut_recv s = R_select \<Longrightarrow> ut_line s = [] \<Longrightarrow> uart_step s (Uartread_select 0 s)"
| rd_data: "ut_recv s = R_read got \<Longrightarrow> 0 < k \<Longrightarrow> k \<le> length (ut_line s) \<Longrightarrow> k \<le> ALPHABET_LEN - length got \<Longrightarrow>
    uart_step s (Uartread_read (Data (take k (ut_line s))) got s)"
| rd_intr: "ut_recv s = R_read got \<Longrightarrow> uart_step s (Uartread_read Interrupted got s)"
| main: "ut_recv s \<noteq> R_exit \<Longrightarrow> ut_main s = M_join_sender \<longrightarrow> ut_send s = S_end \<Longrightarrow>
    ut_main s = M_join_receiver \<longrightarrow> ut_recv s = R_end \<Longrightarrow> ut_main s \<noteq> M_done b \<Longrightarrow> uart_step s (main_step s)"

text \<open>What may go wrong: a write takes less, the line loses a byte, a read or select fails, the line hangs up.\<close>

inductive uart_fault :: "uart_test \<Rightarrow> uart_test \<Rightarrow> bool" where
  short: "ut_recv s \<noteq> R_exit \<Longrightarrow> ut_send s = S_write \<Longrightarrow> length xs < data_size \<Longrightarrow> uart_fault s (Uartsend_write xs s)"
| lose: "ut_line s = xs @ x # ys \<Longrightarrow> uart_fault s (s\<lparr>ut_line := xs @ ys, gh_lost := gh_lost s + 1\<rparr>)"
| rd_err: "ut_recv s = R_read got \<Longrightarrow> uart_fault s (Uartread_read Read_error got s)"
| hangup: "ut_recv s = R_read got \<Longrightarrow> uart_fault s (Uartread_read (Data []) got s)"
| sel_err: "ut_recv s = R_select \<Longrightarrow> uart_fault s (Uartread_select (- 1) s)"

inductive uart_reach :: "uart_test \<Rightarrow> bool" where
  start: "uart_reach uart_start"
| step: "uart_reach s \<Longrightarrow> uart_step s s' \<Longrightarrow> uart_reach s'"
| fault: "uart_reach s \<Longrightarrow> uart_fault s s' \<Longrightarrow> uart_reach s'"

text \<open>The runs without a fault.\<close>

inductive uart_clean :: "uart_test \<Rightarrow> bool" where
  start: "uart_clean uart_start"
| step: "uart_clean s \<Longrightarrow> uart_step s s' \<Longrightarrow> uart_clean s'"

subsection \<open>The second program\<close>

text \<open>
  \<^verbatim>\<open>uart_loop_test.c\<close>: two more options choose to send or to receive only. The sender divides by
  the whole seconds its write took; the receiver asks how many bytes there are, reads as many
  and in the receive-only mode marks the end of the text behind them. A division by zero and
  a byte stored outside the buffer are undefined (None).
\<close>

record loop_opts = uart_opts +
  xfer_only :: bool
  recv_only :: bool

fun parse_loop_opts :: "string list \<Rightarrow> loop_opts \<Rightarrow> loop_opts option" where
  "parse_loop_opts [] opt = Some opt"
| "parse_loop_opts (a # as) opt =
     (if a = ''-S'' then parse_loop_opts as (opt\<lparr>CSTOPB := True\<rparr>)
      else if a = ''-O'' then parse_loop_opts as (opt\<lparr>PARODD := True, PARENB := False\<rparr>)
      else if a = ''-E'' then parse_loop_opts as (opt\<lparr>PARODD := False, PARENB := True\<rparr>)
      else if a = ''-HW'' then parse_loop_opts as (opt\<lparr>CRTSCTS := True\<rparr>)
      else if a = ''-B'' then
        (case as of [] \<Rightarrow> None
         | b # as \<Rightarrow> (let n = nat (atoi b mod 2 ^ 64)
                     in parse_loop_opts as (opt\<lparr>baudrate := if baudrate_map n = 0 then DEFAULT_RATE else n\<rparr>)))
      else if a = ''-X'' then parse_loop_opts as (opt\<lparr>xfer_only := True\<rparr>)
      else if a = ''-R'' then parse_loop_opts as (opt\<lparr>recv_only := True\<rparr>)
      else parse_loop_opts as opt)"

text \<open>The flags of the two threads.\<close>

definition loop_mode :: "loop_opts \<Rightarrow> bool \<times> bool" where
  "loop_mode opt = (if xfer_only opt then (True, False) else if recv_only opt then (False, True) else (True, True))"

text \<open>One turn of the sender: the new count and the speed printed.\<close>

definition loop_send_turn :: "int \<Rightarrow> int \<Rightarrow> u32 \<Rightarrow> (u32 \<times> int) option" where
  "loop_send_turn start end_time tc =
     (let time_consuming = end_time - start
      in if time_consuming = 0 then None else Some (tc + of_nat data_size, int (data_size * 8) sdiv time_consuming))"

text \<open>
  One turn of the receiver with the number of bytes there are and the result of reading
  them: the new count, the bytes appended to the file, and the size of the buffer never freed.
\<close>

definition loop_recv_turn :: "bool \<Rightarrow> nat \<Rightarrow> u8 list option \<Rightarrow> u32 \<Rightarrow> (u32 \<times> u8 list \<times> nat) option" where
  "loop_recv_turn ro iocount r rc =
     (if iocount = 0 then Some (rc, [], 0)
      else (case r of
              None \<Rightarrow> None
            | Some xs \<Rightarrow> if ro then (if iocount \<le> length xs then None else Some (rc + of_nat (length xs), [], iocount))
                         else Some (rc + of_nat (length xs), xs, 0)))"

end
