(* ===== verification/Uart_Test_Props.thy ===== *)
theory Uart_Test_Props
  imports Uart_Test
begin

text \<open>
  The serial line test: the invariant that ties the two counts to what happened on the line,
  over all interleavings of the threads and all faults; what the verdict says; when the
  test hangs; the record read; the options.
\<close>

subsection \<open>The counts\<close>

text \<open>What the receiver has read and not yet counted.\<close>

definition pending :: "receiver \<Rightarrow> int" where
  "pending r = (case r of R_read got \<Rightarrow> int (length got) | R_count n \<Rightarrow> if n = - 1 then 0 else n | _ \<Rightarrow> 0)"

lemma pending_simps [simp]:
  "pending R_test = 0" "pending R_select = 0" "pending R_end = 0" "pending R_exit = 0"
  "pending (R_read got) = int (length got)" "pending (R_count n) = (if n = - 1 then 0 else n)"
  by (simp_all add: pending_def)

definition counts_agree :: "uart_test \<Rightarrow> bool" where
  "counts_agree s \<longleftrightarrow>
     tcount s + (if ut_send s = S_count then of_nat data_size else 0) = of_nat (gh_in s + gh_short s) \<and>
     rcount s + word_of_int (pending (ut_recv s)) + of_nat (gh_drop s) = of_nat (gh_out s + gh_err s) \<and>
     gh_in s = gh_out s + gh_lost s + length (ut_line s)"

definition phases_agree :: "uart_test \<Rightarrow> bool" where
  "phases_agree s \<longleftrightarrow>
     (case ut_recv s of R_read got \<Rightarrow> length got < 26 | _ \<Rightarrow> True) \<and>
     (trun s \<longleftrightarrow> ut_main s = M_key) \<and>
     (ut_send s = S_end \<or> ut_main s \<in> {M_key, M_join_sender}) \<and>
     (rrun s \<longleftrightarrow> ut_main s \<noteq> M_join_receiver \<and> (\<forall>b. ut_main s \<noteq> M_done b)) \<and>
     (\<forall>b. ut_main s = M_done b \<longrightarrow> ut_recv s = R_end \<and> b = (rcount s = tcount s)) \<and>
     (ut_recv s = R_end \<longrightarrow> \<not> rrun s) \<and> (ut_send s = S_end \<longrightarrow> \<not> trun s)"

lemmas thread_defs = Uartsend_step_def Uartsend_write_def Uartread_step_def Uartread_select_def Uartread_read_def main_step_def
  record_turn_def select_result_def

lemma counts_start: "counts_agree uart_start" "phases_agree uart_start"
  by (simp_all add: counts_agree_def phases_agree_def uart_start_def)

lemma counts_step:
  assumes "uart_step s s'" "counts_agree s" "phases_agree s" shows "counts_agree s'"
  using assms
proof (cases rule: uart_step.cases)
  case send
  then show ?thesis using assms(2)
    by (cases "ut_send s") (auto simp: counts_agree_def thread_defs)
next
  case (wr xs)
  then show ?thesis using assms(2) by (auto simp: counts_agree_def thread_defs)
next
  case (recv ret)
  then show ?thesis using assms(2) by (cases "ret = - 1") (auto simp: counts_agree_def thread_defs algebra_simps)
next
  case sel_data
  then show ?thesis using assms(2) by (auto simp: counts_agree_def thread_defs)
next
  case sel_time
  then show ?thesis using assms(2) by (auto simp: counts_agree_def thread_defs)
next
  case (rd_data got k)
  then show ?thesis using assms(2,3) by (auto simp: counts_agree_def phases_agree_def thread_defs algebra_simps)
next
  case (rd_intr got)
  then show ?thesis using assms(2,3) by (auto simp: counts_agree_def phases_agree_def thread_defs)
next
  case (main b)
  then show ?thesis using assms(2) by (auto simp: counts_agree_def thread_defs split: main_thread.split)
qed

lemma counts_fault:
  assumes "uart_fault s s'" "counts_agree s" shows "counts_agree s'"
  using assms
proof (cases rule: uart_fault.cases)
  case (short xs)
  then show ?thesis using assms(2) by (auto simp: counts_agree_def thread_defs)
next
  case (lose xs x ys)
  then show ?thesis using assms(2) by (auto simp: counts_agree_def)
next
  case (rd_err got)
  then show ?thesis using assms(2) by (auto simp: counts_agree_def thread_defs algebra_simps)
next
  case (hangup got)
  then show ?thesis using assms(2) by (auto simp: counts_agree_def thread_defs)
next
  case sel_err
  then show ?thesis using assms(2) by (auto simp: counts_agree_def thread_defs)
qed

lemma phases_step:
  assumes "uart_step s s'" "phases_agree s" shows "phases_agree s'"
  using assms
proof (cases rule: uart_step.cases)
  case send
  then show ?thesis using assms(2) by (cases "ut_send s") (auto simp: phases_agree_def thread_defs)
next
  case (main b)
  then show ?thesis using assms(2)
    by (cases "ut_main s") (auto simp: phases_agree_def thread_defs split: receiver.splits)
qed (use assms(2) in \<open>auto simp: phases_agree_def thread_defs split: receiver.splits\<close>)

lemma phases_fault:
  assumes "uart_fault s s'" "phases_agree s" shows "phases_agree s'"
  using assms by (cases rule: uart_fault.cases) (auto simp: phases_agree_def thread_defs)

lemma reach_agree: "uart_reach s \<Longrightarrow> counts_agree s \<and> phases_agree s"
  by (induction rule: uart_reach.induct)
    (auto simp: counts_start intro: counts_step counts_fault phases_step phases_fault)

lemma verdict:
  assumes "uart_reach s" "ut_main s = M_done b"
  shows "b \<longleftrightarrow> (of_nat (gh_short s + gh_lost s + gh_drop s + length (ut_line s)) :: u32) = of_nat (gh_err s)"
proof -
  have c: "counts_agree s" and p: "phases_agree s" using reach_agree [OF assms(1)] by simp_all
  have "ut_send s = S_end" "ut_recv s = R_end" "b = (rcount s = tcount s)"
    using p assms(2) by (auto simp: phases_agree_def)
  moreover have t: "tcount s = of_nat (gh_out s) + of_nat (gh_lost s + length (ut_line s) + gh_short s)"
    using c \<open>ut_send s = S_end\<close> by (simp add: counts_agree_def algebra_simps)
  moreover have r: "rcount s = of_nat (gh_out s) + of_nat (gh_err s) - of_nat (gh_drop s)"
    using c \<open>ut_recv s = R_end\<close> by (simp add: counts_agree_def algebra_simps)
  ultimately have "b \<longleftrightarrow> (of_nat (gh_err s) - of_nat (gh_drop s) :: u32) = of_nat (gh_lost s + length (ut_line s) + gh_short s)"
    by (simp add: add_diff_eq [symmetric])
  also have "\<dots> \<longleftrightarrow> (of_nat (gh_err s) :: u32) = of_nat (gh_lost s + length (ut_line s) + gh_short s) + of_nat (gh_drop s)"
    by (rule diff_eq_eq)
  finally show ?thesis by (auto simp: algebra_simps)
qed

subsection \<open>Hanging\<close>

text \<open>Only turns without effect are left to the threads.\<close>

definition stuck :: "uart_test \<Rightarrow> bool" where
  "stuck s \<longleftrightarrow> (\<forall>s'. uart_step s s' \<longrightarrow> s' = s)"

lemma stuck_blocked:
  assumes "ut_main s = M_join_receiver" "ut_send s = S_end" "ut_recv s = R_read got" "ut_line s = []" "length got < 26"
  shows "stuck s"
  unfolding stuck_def
proof (intro allI impI)
  fix s' assume "uart_step s s'"
  then show "s' = s"
    by (cases rule: uart_step.cases) (use assms in \<open>auto simp: thread_defs\<close>)
qed

lemma moves:
  assumes "ut_recv s \<noteq> R_exit" "\<And>b. ut_main s \<noteq> M_done b" "phases_agree s"
    and "ut_main s = M_join_receiver \<Longrightarrow> \<forall>got. ut_recv s = R_read got \<longrightarrow> ut_line s \<noteq> []"
  shows "\<not> stuck s"
proof -
  have main: "\<not> stuck s" if "uart_step s (main_step s)" "main_step s \<noteq> s"
    using that by (auto simp: stuck_def)
  show ?thesis
  proof (cases "ut_main s")
    case M_key
    then show ?thesis
      by (intro main uart_step.main [of s True]) (use assms in \<open>auto simp: main_step_def dest: arg_cong [of _ s ut_main]\<close>)
  next
    case M_join_sender
    then have t: "\<not> trun s" using assms(3) by (auto simp: phases_agree_def)
    show ?thesis
    proof (cases "ut_send s")
      case S_end
      then show ?thesis using M_join_sender
        by (intro main uart_step.main [of s True]) (use assms in \<open>auto simp: main_step_def dest: arg_cong [of _ s ut_main]\<close>)
    next
      case S_write
      have "uart_step s (Uartsend_write (replicate data_size 0) s)" using S_write assms(1) by (intro uart_step.wr) auto
      moreover have "Uartsend_write (replicate data_size 0) s \<noteq> s"
        using S_write by (auto simp: Uartsend_write_def dest: arg_cong [of _ s ut_send])
      ultimately show ?thesis by (auto simp: stuck_def)
    next
      case S_test
      have "uart_step s (Uartsend_step s)" using S_test assms(1) by (intro uart_step.send) auto
      moreover have "Uartsend_step s \<noteq> s" using S_test t by (auto simp: Uartsend_step_def dest: arg_cong [of _ s ut_send])
      ultimately show ?thesis by (auto simp: stuck_def)
    next
      case S_count
      have "uart_step s (Uartsend_step s)" using S_count assms(1) by (intro uart_step.send) auto
      moreover have "Uartsend_step s \<noteq> s" using S_count by (auto simp: Uartsend_step_def dest: arg_cong [of _ s ut_send])
      ultimately show ?thesis by (auto simp: stuck_def)
    qed
  next
    case (M_wait i)
    then show ?thesis
      by (intro main uart_step.main [of s True]) (use assms in \<open>auto simp: main_step_def dest: arg_cong [of _ s ut_main]\<close>)
  next
    case (M_done b)
    then show ?thesis using assms(2) by simp
  next
    case M_join_receiver
    have go: "\<not> stuck s" if "uart_step s s'" "ut_recv s' \<noteq> ut_recv s \<or> ut_line s' \<noteq> ut_line s" for s'
      using that by (auto simp: stuck_def)
    show ?thesis
    proof (cases "ut_recv s")
      case R_test
      show ?thesis by (rule go [OF uart_step.recv [of s 0]]) (use R_test in \<open>auto simp: Uartread_step_def\<close>)
    next
      case (R_count n)
      show ?thesis by (rule go [OF uart_step.recv [of s n]]) (use R_count in \<open>auto simp: Uartread_step_def\<close>)
    next
      case R_select
      show ?thesis
      proof (cases "ut_line s = []")
        case True
        show ?thesis by (rule go [OF uart_step.sel_time]) (use R_select True in \<open>auto simp: Uartread_select_def\<close>)
      next
        case False
        show ?thesis by (rule go [OF uart_step.sel_data]) (use R_select False in \<open>auto simp: Uartread_select_def\<close>)
      qed
    next
      case (R_read got)
      then have "ut_line s \<noteq> []" "length got < 26" using assms(3,4) M_join_receiver by (auto simp: phases_agree_def)
      then show ?thesis
        by (intro go [OF uart_step.rd_data [of s got 1]])
          (use R_read in \<open>auto simp: Uartread_read_def record_turn_def neq_Nil_conv\<close>)
    next
      case R_end
      then show ?thesis using M_join_receiver
        by (intro main uart_step.main [of s True]) (use assms in \<open>auto simp: main_step_def dest: arg_cong [of _ s ut_main]\<close>)
    next
      case R_exit
      then show ?thesis using assms(1) by simp
    qed
  qed
qed

lemma stuck_iff:
  assumes "uart_reach s" "\<And>b. ut_main s \<noteq> M_done b" "ut_recv s \<noteq> R_exit"
  shows "stuck s \<longleftrightarrow> ut_main s = M_join_receiver \<and> (\<exists>got. ut_recv s = R_read got) \<and> ut_line s = []"
proof
  assume "stuck s"
  then show "ut_main s = M_join_receiver \<and> (\<exists>got. ut_recv s = R_read got) \<and> ut_line s = []"
    using moves [OF assms(3,2)] reach_agree [OF assms(1)] by blast
next
  assume h: "ut_main s = M_join_receiver \<and> (\<exists>got. ut_recv s = R_read got) \<and> ut_line s = []"
  then obtain got where "ut_recv s = R_read got" by blast
  moreover have "phases_agree s" using reach_agree [OF assms(1)] by simp
  ultimately show "stuck s"
    using h by (intro stuck_blocked [where got = got]) (auto simp: phases_agree_def)
qed

subsection \<open>Runs without a fault\<close>

text \<open>The line holds whole records but for what the receiver has of the current one.\<close>

definition aligned_line :: "uart_test \<Rightarrow> bool" where
  "aligned_line s \<longleftrightarrow> gh_short s = 0 \<and> gh_lost s = 0 \<and> gh_drop s = 0 \<and> gh_err s = 0 \<and> 26 dvd gh_in s \<and>
     (case ut_recv s of
        R_read got \<Rightarrow> length got < 26 \<and> gh_out s mod 26 = length got \<and> (got = [] \<longrightarrow> ut_line s \<noteq> [])
      | R_count n \<Rightarrow> n \<noteq> - 1 \<and> 26 dvd gh_out s
      | R_exit \<Rightarrow> False
      | _ \<Rightarrow> 26 dvd gh_out s)"

lemma aligned_step:
  assumes "uart_step s s'" "aligned_line s" shows "aligned_line s'"
  using assms
proof (cases rule: uart_step.cases)
  case send
  then show ?thesis using assms(2) by (cases "ut_send s") (auto simp: aligned_line_def thread_defs split: receiver.splits)
next
  case (wr xs)
  then show ?thesis using assms(2) by (auto simp: aligned_line_def thread_defs data_size_def split: receiver.splits)
next
  case (recv ret)
  then show ?thesis using assms(2) by (auto simp: aligned_line_def thread_defs)
next
  case (rd_data got k)
  have m: "(gh_out s + k) mod 26 = (length got + k) mod 26"
  proof -
    have "gh_out s mod 26 = length got mod 26" using assms(2) rd_data(2) by (auto simp: aligned_line_def)
    then show ?thesis by (rule mod_add_cong) simp
  qed
  show ?thesis
  proof (cases "length got + k < 26")
    case True
    then have "(gh_out s + k) mod 26 = length got + k" using m by simp
    moreover have "0 < length (ut_line s)" using rd_data(3,4) by linarith
    ultimately show ?thesis using True rd_data assms(2) by (simp add: aligned_line_def thread_defs)
  next
    case False
    then have e: "length got + k = 26" using rd_data by simp
    then have "26 dvd gh_out s + k" using m by (simp add: dvd_eq_mod_eq_0)
    moreover have "gh_out s + 26 - length got = gh_out s + k" "ut_line s \<noteq> []" using e rd_data(3,4) by auto
    ultimately show ?thesis using e rd_data assms(2) by (simp add: aligned_line_def thread_defs)
  qed
next
  case (main b)
  then show ?thesis using assms(2)
    by (cases "ut_main s") (auto simp: aligned_line_def thread_defs split: receiver.splits)
qed (use assms(2) in \<open>auto simp: aligned_line_def thread_defs split: receiver.splits\<close>)

lemma clean_aligned: "uart_clean s \<Longrightarrow> aligned_line s"
proof (induction rule: uart_clean.induct)
  case start
  then show ?case by (simp add: aligned_line_def uart_start_def)
qed (rule aligned_step)

lemma clean_reach: "uart_clean s \<Longrightarrow> uart_reach s"
  by (induction rule: uart_clean.induct) (auto intro: uart_reach.intros)

lemma clean_not_stuck:
  assumes "uart_clean s" "\<And>b. ut_main s \<noteq> M_done b" shows "\<not> stuck s"
proof -
  have a: "aligned_line s" and c: "counts_agree s" using clean_aligned clean_reach reach_agree assms(1) by blast+
  have "ut_line s \<noteq> []" if "ut_recv s = R_read got" for got
  proof (cases "got = []")
    case True
    then show ?thesis using a that by (simp add: aligned_line_def)
  next
    case False
    then have "gh_out s mod 26 \<noteq> 0" "26 dvd gh_in s" "gh_lost s = 0" using a that by (auto simp: aligned_line_def)
    then have "gh_in s \<noteq> gh_out s" by auto
    then show ?thesis using c \<open>gh_lost s = 0\<close> by (auto simp: counts_agree_def)
  qed
  moreover have "ut_recv s \<noteq> R_exit" using a by (auto simp: aligned_line_def)
  ultimately show ?thesis using stuck_iff [OF clean_reach [OF assms(1)] assms(2)] by auto
qed

subsection \<open>The record read\<close>

text \<open>Reads that deliver pieces of given sizes of the bytes that come, and an interruption for the size 0.\<close>

fun chunk_read :: "u8 list \<times> nat list \<Rightarrow> nat \<Rightarrow> read_result \<times> u8 list \<times> nat list" where
  "chunk_read (l, []) k = (Data (take k l), drop k l, [])"
| "chunk_read (l, c # cs) k = (if c = 0 then (Interrupted, l, cs) else (Data (take (min c k) l), drop (min c k) l, cs))"

lemma record_loop_done: "length got = n \<Longrightarrow> record_loop rd n got w = Some (int n, got, w)"
  by (subst record_loop.simps) simp

lemma record_loop_chunks:
  "length got \<le> n \<Longrightarrow> n - length got \<le> length l \<Longrightarrow>
   \<exists>cs'. record_loop chunk_read n got (l, cs) = Some (int n, got @ take (n - length got) l, drop (n - length got) l, cs')"
proof (induction cs arbitrary: l got)
  case Nil
  show ?case
  proof (cases "length got < n")
    case True
    then have "take (n - length got) l \<noteq> []" using Nil.prems(2) by auto
    then show ?thesis using True Nil.prems
      by (subst record_loop.simps) (simp add: record_turn_def record_loop_done)
  qed (use Nil.prems in \<open>simp add: record_loop_done\<close>)
next
  case (Cons c cs)
  show ?case
  proof (cases "length got < n")
    case True
    show ?thesis
    proof (cases "c = 0")
      case True
      then show ?thesis using Cons \<open>length got < n\<close> by (subst record_loop.simps) (simp add: record_turn_def)
    next
      case False
      define k where "k = min c (n - length got)"
      have k: "0 < k" "k \<le> length l" "k \<le> n - length got" using False True Cons.prems by (auto simp: k_def)
      then have "take k l \<noteq> []" by auto
      moreover have "length (got @ take k l) \<le> n" "n - length (got @ take k l) \<le> length (drop k l)" using k Cons.prems by auto
      from Cons.IH [OF this] obtain cs' where "record_loop chunk_read n (got @ take k l) (drop k l, cs) =
          Some (int n, (got @ take k l) @ take (n - (length got + k)) (drop k l), drop (n - (length got + k)) (drop k l), cs')"
        using k(2) by auto
      moreover have "take k l @ take (n - (length got + k)) (drop k l) = take (n - length got) l"
      proof -
        have "k + (n - (length got + k)) = n - length got" using k(3) by simp
        with take_add [of k "n - (length got + k)" l] show ?thesis by (simp only:)
      qed
      ultimately show ?thesis using True False k
        by (subst record_loop.simps) (simp add: record_turn_def flip: k_def)
    qed
  qed (use Cons.prems in \<open>simp add: record_loop_done\<close>)
qed

subsection \<open>Options\<close>

definition opts_ok :: "uart_opts \<Rightarrow> bool" where
  "opts_ok opt \<longleftrightarrow> PARENB opt \<noteq> PARODD opt \<and> baudrate_map (baudrate opt) = baudrate opt \<and> baudrate opt \<noteq> 0"

lemma set_rate_ok: "opts_ok opt \<Longrightarrow> opts_ok (set_rate b opt)"
  by (auto simp: opts_ok_def set_rate_def Let_def baudrate_map_def)

lemma parse_opts_ok: "opts_ok opt \<Longrightarrow> (case parse_opts as opt of None \<Rightarrow> ''-B'' \<in> set as | Some opt' \<Rightarrow> opts_ok opt')"
proof (induction "as" opt rule: parse_opts.induct)
  case (2 a "as" opt)
  have ok: "opts_ok (opt\<lparr>CSTOPB := True\<rparr>)" "opts_ok (opt\<lparr>PARODD := True, PARENB := False\<rparr>)"
    "opts_ok (opt\<lparr>PARODD := False, PARENB := True\<rparr>)" "opts_ok (opt\<lparr>CRTSCTS := True\<rparr>)"
    using 2(7) by (simp_all add: opts_ok_def)
  have more: "case m of None \<Rightarrow> ''-B'' \<in> set (a # as) | Some opt' \<Rightarrow> opts_ok opt'"
    if "case m of None \<Rightarrow> ''-B'' \<in> set as | Some opt' \<Rightarrow> opts_ok opt'" for m
    using that by (auto split: option.splits)
  consider "a = ''-S''" | "a = ''-O''" | "a = ''-E''" | "a = ''-HW''" | "a = ''-B''"
    | "a \<noteq> ''-S''" "a \<noteq> ''-O''" "a \<noteq> ''-E''" "a \<noteq> ''-HW''" "a \<noteq> ''-B''" by blast
  then show ?case
  proof cases
    case 1
    then show ?thesis using more [OF 2(1) [OF 1 ok(1)]] by simp
  next
    case 2
    then show ?thesis using more [OF "2.IH"(2) [OF _ 2 ok(2)]] by simp
  next
    case 3
    then show ?thesis using more [OF "2.IH"(3) [OF _ _ 3 ok(3)]] by simp
  next
    case 4
    then show ?thesis using more [OF "2.IH"(4) [OF _ _ _ 4 ok(4)]] by simp
  next
    case 5
    show ?thesis
    proof (cases "as")
      case Nil
      then show ?thesis using 5 by simp
    next
      case (Cons b bs)
      then show ?thesis using more [of "parse_opts bs (set_rate b opt)"] "2.IH"(5) [OF _ _ _ _ 5 Cons set_rate_ok [OF "2.prems"]] 5
        by (auto split: option.splits)
    qed
  next
    case 6
    then show ?thesis using more [OF "2.IH"(6) [OF 6 "2.prems"]] by simp
  qed
qed simp

text \<open>The second program's options set the line like the first's; its own two are ignored by the first.\<close>

lemma trunc: "uart_opts.truncate (opt :: loop_opts) = \<lparr>CSTOPB = CSTOPB opt, PARENB = PARENB opt, PARODD = PARODD opt,
    CRTSCTS = CRTSCTS opt, baudrate = baudrate opt\<rparr>"
  by (simp add: uart_opts.truncate_def)

lemma loop_opts_agree: "map_option uart_opts.truncate (parse_loop_opts as opt) = parse_opts as (uart_opts.truncate opt)"
proof (induction "as" opt rule: parse_loop_opts.induct)
  case (2 a "as" opt)
  consider "a = ''-S''" | "a = ''-O''" | "a = ''-E''" | "a = ''-HW''" | "a = ''-B''" | "a = ''-X''" | "a = ''-R''"
    | "a \<notin> {''-S'', ''-O'', ''-E'', ''-HW'', ''-B'', ''-X'', ''-R''}" by blast
  then show ?case
  proof cases
    case 5
    then show ?thesis using "2.IH"(5) by (cases "as") (simp_all add: trunc set_rate_def Let_def)
  qed (use 2 in \<open>simp_all add: trunc\<close>)
qed simp

text \<open>Its sender divides by zero when a write takes less than a second; its receiver, when it only
  receives, stores behind every buffer that a read fills, and frees none.\<close>

lemma loop_turns:
  "loop_send_turn t t tc = None"
  "0 < n \<Longrightarrow> length xs = n \<Longrightarrow> loop_recv_turn True n (Some xs) rc = None"
  "0 < n \<Longrightarrow> length xs < n \<Longrightarrow> loop_recv_turn True n (Some xs) rc = Some (rc + of_nat (length xs), [], n)"
  "0 < n \<Longrightarrow> loop_recv_turn False n (Some xs) rc = Some (rc + of_nat (length xs), xs, 0)"
  by (simp_all add: loop_send_turn_def loop_recv_turn_def)

subsection \<open>Properties\<close>

text \<open>C29: The verdict of the line test, over every interleaving of the three threads and every fault: it
  says success exactly if the bytes that a write did not take, that were lost, that a failed
  record read dropped and that are still on the line are as many as the reads that failed,
  modulo 2 to the 32. So in a run without a fault success means the line is empty, and a
  failed read makes up for a lost byte; the contents are never compared.\<close>
theorem uart_verdict:
  assumes "uart_reach s" "ut_main s = M_done b"
  shows "(b \<longleftrightarrow> (of_nat (gh_short s + gh_lost s + gh_drop s + length (ut_line s)) :: u32) = of_nat (gh_err s)) \<and>
    (uart_clean s \<and> length (ut_line s) < 2 ^ 32 \<longrightarrow> (b \<longleftrightarrow> ut_line s = []))"
proof -
  have "b \<longleftrightarrow> ut_line s = []" if "uart_clean s" "length (ut_line s) < 2 ^ 32"
  proof -
    have "(of_nat (length (ut_line s)) :: u32) = 0 \<longleftrightarrow> ut_line s = []"
      using unat_u32 [of "length (ut_line s)"] that(2) by (auto simp: word_unat_eq_iff)
    then show ?thesis
      using verdict [OF assms] clean_aligned [OF that(1)] by (simp add: aligned_line_def)
  qed
  then show ?thesis using verdict [OF assms] by blast
qed

text \<open>A run in which the key is pressed before anything is sent.\<close>

lemma idle_run: "\<exists>s. uart_clean s \<and> ut_main s = M_done True \<and> ut_line s = []"
proof -
  let ?s1 = "main_step uart_start" let ?s2 = "Uartsend_step ?s1" let ?s3 = "main_step ?s2"
  let ?s4 = "main_step ?s3" let ?s5 = "Uartread_step ?s4" let ?s6 = "main_step ?s5"
  note d = uart_start_def thread_defs
  have 1: "uart_clean ?s1" by (rule uart_clean.step [OF uart_clean.start uart_step.main [of _ True]]) (simp_all add: d)
  have 2: "uart_clean ?s2" by (rule uart_clean.step [OF 1 uart_step.send]) (simp_all add: d)
  have 3: "uart_clean ?s3" by (rule uart_clean.step [OF 2 uart_step.main [of _ True]]) (simp_all add: d)
  have 4: "uart_clean ?s4" by (rule uart_clean.step [OF 3 uart_step.main [of _ True]]) (simp_all add: d)
  have 5: "uart_clean ?s5" by (rule uart_clean.step [OF 4 uart_step.recv [of _ 0]]) (simp_all add: d)
  have "uart_clean ?s6" by (rule uart_clean.step [OF 5 uart_step.main [of _ True]]) (simp_all add: d)
  moreover have "ut_main ?s6 = M_done True" "ut_line ?s6 = []" by (simp_all add: d)
  ultimately show ?thesis by blast
qed

theorem uart_verdict_witness:
  "\<exists>s. uart_clean s \<and> ut_main s = M_done True \<and> (True \<longleftrightarrow> ut_line s = [])"
proof -
  obtain s where s: "uart_clean s" "ut_main s = M_done True" "ut_line s = []" using idle_run by blast
  then show ?thesis using uart_verdict [OF clean_reach [OF s(1)] s(2)] by auto
qed

text \<open>C30: When the line test hangs: a reachable state from which no thread moves any more, before the end
  and with the process alive, is one where main waits for the receiver and the receiver for
  the rest of a record on an empty line. It is not reached without a fault, since the data
  is a whole number of records; one byte less than that is enough.\<close>
theorem uart_hang:
  assumes "uart_reach s" "\<forall>b. ut_main s \<noteq> M_done b" "ut_recv s \<noteq> R_exit"
  shows "(stuck s \<longleftrightarrow> ut_main s = M_join_receiver \<and> (\<exists>got. ut_recv s = R_read got) \<and> ut_line s = []) \<and> (uart_clean s \<longrightarrow> \<not> stuck s)"
  using stuck_iff [OF assms(1) _ assms(3)] clean_not_stuck [of s] assms(2) by blast

text \<open>A run in which the only write takes one byte: the seconds left count down, and nothing moves any more.\<close>

definition one_byte :: uart_test where
  "one_byte = Uartread_read (Data [65]) [] (Uartread_select 1 (Uartread_step (Uartsend_step (Uartsend_write [65] (Uartsend_step uart_start)))))"

lemma one_byte_state: "one_byte = \<lparr>trun = True, rrun = True, tcount = of_nat data_size, rcount = 0, ut_send = S_test,
    ut_recv = R_read [65], ut_main = M_key, ut_line = [], gh_in = 1, gh_short = data_size - 1, gh_lost = 0, gh_out = 1,
    gh_drop = 0, gh_err = 0\<rparr>"
  by (simp add: one_byte_def uart_start_def thread_defs data_size_def)

lemma one_byte_reach: "uart_reach one_byte"
proof -
  let ?s1 = "Uartsend_step uart_start" let ?s2 = "Uartsend_write [65] ?s1" let ?s3 = "Uartsend_step ?s2"
  let ?s4 = "Uartread_step ?s3" let ?s5 = "Uartread_select 1 ?s4"
  note d = uart_start_def thread_defs data_size_def
  have 1: "uart_reach ?s1" by (rule uart_reach.step [OF uart_reach.start uart_step.send]) (simp_all add: d)
  have 2: "uart_reach ?s2" by (rule uart_reach.fault [OF 1 uart_fault.short]) (simp_all add: d)
  have 3: "uart_reach ?s3" by (rule uart_reach.step [OF 2 uart_step.send]) (simp_all add: d)
  have 4: "uart_reach ?s4" by (rule uart_reach.step [OF 3 uart_step.recv [of _ 0]]) (simp_all add: d)
  have 5: "uart_reach ?s5" by (rule uart_reach.step [OF 4 uart_step.sel_data]) (simp_all add: d)
  have "ut_recv ?s5 = R_read []" "ut_line ?s5 = [65]" by (simp_all add: d)
  then have "uart_step ?s5 (Uartread_read (Data [65]) [] ?s5)" using uart_step.rd_data [of ?s5 "[]" 1] by simp
  from uart_reach.step [OF 5 this] show ?thesis by (simp only: one_byte_def)
qed

text \<open>Main's part of such a run, from the key to waiting for the receiver.\<close>

lemma wait_down:
  "uart_reach s \<Longrightarrow> ut_main s = M_wait i \<Longrightarrow> rcount s < tcount s \<Longrightarrow> ut_recv s \<noteq> R_exit \<Longrightarrow> uart_reach (s\<lparr>ut_main := M_wait 0\<rparr>)"
proof (induction i arbitrary: s)
  case 0
  have "s\<lparr>ut_main := M_wait 0\<rparr> = s" using 0(2) by (cases s) simp
  then show ?case using 0(1) by simp
next
  case (Suc i)
  have "uart_step s (main_step s)" using Suc.prems by (intro uart_step.main [of s True]) auto
  moreover have "main_step s = s\<lparr>ut_main := M_wait i\<rparr>" using Suc.prems by (simp add: main_step_def)
  ultimately have "uart_reach (s\<lparr>ut_main := M_wait i\<rparr>)" using Suc.prems(1) uart_reach.step by metis
  from Suc.IH [OF this] show ?case using Suc.prems by simp
qed

lemma hang_run: "\<exists>s. uart_reach s \<and> ut_main s = M_join_receiver \<and> ut_recv s = R_read [65] \<and> ut_line s = []"
proof -
  note d = one_byte_state thread_defs data_size_def
  let ?s1 = "main_step one_byte" let ?s2 = "Uartsend_step ?s1" let ?s3 = "main_step ?s2"
  have 1: "uart_reach ?s1" by (rule uart_reach.step [OF one_byte_reach uart_step.main [of _ True]]) (simp_all add: d)
  have 2: "uart_reach ?s2" by (rule uart_reach.step [OF 1 uart_step.send]) (simp_all add: d)
  have 3: "uart_reach ?s3" by (rule uart_reach.step [OF 2 uart_step.main [of _ True]]) (simp_all add: d)
  have 4: "uart_reach (?s3\<lparr>ut_main := M_wait 0\<rparr>)" by (rule wait_down [OF 3, of 5]) (simp_all add: d)
  have "uart_reach (main_step (?s3\<lparr>ut_main := M_wait 0\<rparr>))"
    by (rule uart_reach.step [OF 4 uart_step.main [of _ True]]) (simp_all add: d)
  moreover have "ut_main (main_step (?s3\<lparr>ut_main := M_wait 0\<rparr>)) = M_join_receiver"
    "ut_recv (main_step (?s3\<lparr>ut_main := M_wait 0\<rparr>)) = R_read [65]" "ut_line (main_step (?s3\<lparr>ut_main := M_wait 0\<rparr>)) = []"
    by (simp_all add: d)
  ultimately show ?thesis by blast
qed

theorem uart_hang_witness: "\<exists>s. uart_reach s \<and> ut_main s = M_join_receiver \<and> ut_recv s = R_read [65] \<and> stuck s"
proof -
  obtain s where s: "uart_reach s" "ut_main s = M_join_receiver" "ut_recv s = R_read [65]" "ut_line s = []" using hang_run by blast
  then show ?thesis using uart_hang [OF s(1)] by auto
qed

text \<open>The record read returns the record: whatever sizes of pieces the reads deliver and however often
  they are interrupted, when the bytes come it returns the number asked for and exactly the
  first bytes. A failing read, however, ends in the result of select, one, which is counted
  as one byte.\<close>
theorem uart_record:
  assumes "n \<le> length l"
  shows "(\<exists>cs'. record_read chunk_read n (l, cs) = Some (int n, take n l, drop n l, cs')) \<and>
    read_select (\<lambda>w. (1, w)) (\<lambda>w _. (Read_error, w)) (Suc n) (l, cs) = Some (1, [], (l, cs))"
proof
  show "\<exists>cs'. record_read chunk_read n (l, cs) = Some (int n, take n l, drop n l, cs')"
    using record_loop_chunks [of "[]" n l cs] assms by (simp add: record_read_def)
  show "read_select (\<lambda>w. (1, w)) (\<lambda>w _. (Read_error, w)) (Suc n) (l, cs) = Some (1, [], (l, cs))"
    by (simp add: read_select_def record_read_def record_turn_def select_result_def record_loop.simps)
qed

theorem uart_record_witness:
  "\<exists>cs'. record_read chunk_read 3 ([1, 2, 3, 4], [2, 0, 1]) = Some (3, [1, 2, 3], [4], cs')"
  using uart_record [of 3 "[1, 2, 3, 4]" "[2, 0, 1]"] by simp

text \<open>Options in any order leave a supported rate, and exactly one of the two parity flags set; since the
  odd flag selects among the parities only where parity is enabled, the option for odd
  parity switches parity off. The only arguments that are not parsed have the rate's option,
  which reads behind the last argument if it is last.\<close>
theorem uart_options:
  "(case parse_opts as default_opts of None \<Rightarrow> ''-B'' \<in> set as
    | Some opt \<Rightarrow> PARENB opt \<noteq> PARODD opt \<and> uart_speed opt = Some (baudrate opt) \<and> baudrate opt \<noteq> 0) \<and>
   map_option PARENB (parse_opts [''-O''] opt) = Some False \<and> parse_opts [''-B''] opt = None"
proof (intro conjI)
  have "opts_ok default_opts" by (simp add: opts_ok_def default_opts_def baudrate_map_def)
  from parse_opts_ok [OF this, of "as"]
  show "case parse_opts as default_opts of None \<Rightarrow> ''-B'' \<in> set as
    | Some opt \<Rightarrow> PARENB opt \<noteq> PARODD opt \<and> uart_speed opt = Some (baudrate opt) \<and> baudrate opt \<noteq> 0"
    by (auto simp: opts_ok_def uart_speed_def split: option.splits)
qed simp_all

end
