(* ===== verification/Spec2Isabelle.thy ===== *)
theory Spec2Isabelle
  imports Consumers Wait_Event I2c_Debug Tiny4412 Seq_Props Usb_Mouse_Props Irq_Work Rk818_Props Rk818_Probe_Props Act8846_Props Rockusb_Claims
    Rk_I2s_Props Rk_Cards_Props Codec_Tables_Props Wk2xxx_Props Genl_Props Dns_Props Pwm_Backlight_Props W25q_Flash_Props Uart_Test_Props
begin

text \<open>
  A verification library of the drivers and tools of this repository. Paths below are under
  \<^verbatim>\<open>src/\<close>; \<^verbatim>\<open>rk3288/debug\<close> is written \<^verbatim>\<open>A\<close> and \<^verbatim>\<open>rk3399/debug\<close> is written \<^verbatim>\<open>B\<close>.

  \<^bold>\<open>Conventions.\<close> A C function is a HOL function from the state it reads to its result and the
  state it leaves; words have the width of the C type, and wrap. A result None is
  undefined behaviour (an array left, an unset or NULL value used), a lock that is waited for
  for ever, or a loop that does not end; where the source returns an error number, so does the
  model. What runs concurrently - threads, interrupt handlers, writers - is a step relation
  with every interleaving, and a property of it is an invariant of the reachable states.
  Kernel, boot loader and C library calls are parameters; what the drivers rely on is a locale
  (or, for the list helpers of \<^verbatim>\<open>seq_file\<close> and the ring of tasks, a predicate), and each locale
  is interpreted on a memory-like device or on the code's own definitions. Text printed to the
  log is left out.

  \<^bold>\<open>Shared theories.\<close> Prelude: integer types, error numbers, array reads, mutexes, bit fields.
  Bytes: memory as bytes, byte order. Text_Io: numbers printed and read. Reg_Bus: the register
  interfaces (locales bit_regs, i2c_regfile, regmap_dev). Regulator_Core: what the regulator
  core asks of a driver, as contracts (regulator_switch, regulator_voltage). Codec_Common: I2C
  and pins of the codecs (gpio_port, codec_bus, soc_bus).

  \<^bold>\<open>Power management.\<close> Rk818_Io, Rk818_Regulators, Rk818_Irq and Rk818_Probe model
  \<^verbatim>\<open>A/regulator/rk818.c\<close>: register access under the I/O lock, the operation tables, interrupts,
  device tree and probe; Rk818_Correct proves the two contracts, Rk818_Calls that no call
  blocks on a failing bus, Rk818_Props and Rk818_Probe_Props hold the properties. Act8846 and
  Act8846_Props do the same for \<^verbatim>\<open>A/regulator/act8846.c\<close>. Consumers models the drivers that use a
  supply (\<^verbatim>\<open>A/regulator/regulator.c\<close> and its three copies) and composes them, through the use
  count of the regulator core (locale supply_core), with the operation tables of both chips.

  \<^bold>\<open>Sound.\<close> Rk_I2s models \<^verbatim>\<open>A/codec/rk_i2s.c\<close> (streams, formats, clocks, probe); the loop that
  waits for a clear has ten retries in the source, and structural recursion on them here. Es8323
  and Es8316 model the two codecs, Es8323_Tables and Es8316_Tables their controls, widgets and
  routes as data over Codec_Tables, and Rk_Cards the two cards of \<^verbatim>\<open>A/codec/rk_es8323.c\<close> and
  \<^verbatim>\<open>rk_es8316.c\<close> that join controller and codec. The _Correct theories give the effect of each
  operation on registers and its frame, the _Props theories the properties: streams against
  their requests, register caches, power accounting, well-formed tables, clock roles.

  \<^bold>\<open>Rockusb.\<close> Rockusb_Wire (formats), Rockusb (commands) and Rockusb_Data (data stages and main
  loop) model \<^verbatim>\<open>B/usb/cmd_rockusb.c\<close> and its header. A gadget lives by rounds: the interrupts
  that arrive, then the body of the main loop. The data stage repeats itself by goto, a
  partial function in which None is also a read that does not end; the read theorems show that
  reads of one sector or more do end, a lemma of Rockusb_Faults that a read of none does not. Rockusb_Read and Rockusb_Write prove upload and
  download over any number of chunks, Rockusb_Lock the secure-boot lock over all runs,
  Rockusb_Faults what goes wrong; Rockusb_Props and Rockusb_Claims state the properties.

  \<^bold>\<open>Serial lines, flash, netlink, names, backlight.\<close> Wk2xxx: the SPI to UART bridge
  \<^verbatim>\<open>A/spi/spi2uart.c\<close> with its ring of 4096 characters as a queue. Uart_Test: the threads of
  \<^verbatim>\<open>A/uart/uart_record_rw.c\<close> over a faulty line (13000 bytes in records of 26), and the options
  and turns of \<^verbatim>\<open>uart_loop_test.c\<close>. W25q_Flash: \<^verbatim>\<open>B/spi/w25q128fv.c\<close> in front of a chip (locale
  nor_chip). Genl_User and Genl_Kernel: both ends of the generic netlink tests \<^verbatim>\<open>demo2\<close> and
  \<^verbatim>\<open>demo3\<close> in \<^verbatim>\<open>A/netlink\<close>, joined over a socket (stream_sock) and the kernel's netlink (genl_kernel);
  sizes are below 65000 because attribute lengths have 16 bits. Dns: the resolver of
  \<^verbatim>\<open>rk3399/xconnect.c\<close>, whose buffers of 1024 bytes bound names and answers. Pwm_Backlight:
  \<^verbatim>\<open>A/pwm/pwm_backlight.c\<close>, duty cycles in 32 bits.

  \<^bold>\<open>Small drivers.\<close> Seq_File states the protocol of the \<^verbatim>\<open>seq_file\<close> core and its contract (locale
  seq_listing); Seq_Tests models \<^verbatim>\<open>seq_test.c\<close> and \<^verbatim>\<open>seq_test2.c\<close> of \<^verbatim>\<open>B/platform_driver_test\<close>, both
  interpreted in it, and Seq_Props adds concurrent writers. Usb_Mouse: \<^verbatim>\<open>B/usb/usbmouse_as_key.c\<close>
  with its probe cut into steps between which reports arrive. Irq_Work: the level interrupt of
  \<^verbatim>\<open>A/interrupt/int.c\<close>. Wait_Event: writer and thread of \<^verbatim>\<open>A/misc/wei.c\<close>. I2c_Debug: the register
  files of \<^verbatim>\<open>A/i2c\<close> (locale byte_bus). Tiny4412: LEDs and buttons in \<^verbatim>\<open>tiny4412/debug\<close>.

  \<^bold>\<open>Not modelled.\<close> The old UDC back end of \<^verbatim>\<open>cmd_rockusb.c\<close> (an alternative to the modelled one:
  descriptors handed to a driver that is not in the repository); in \<^verbatim>\<open>xconnect.c\<close> everything but
  the resolver, which is a copy of busybox; in \<^verbatim>\<open>uart_loop_test.c\<close> what repeats the record test;
  the examples whose operations only call the kernel and print (timers, work queues, notifier
  chains, locks, kernel objects, lists, register maps, character devices, module skeletons),
  the tools that map device memory, and the BPF samples.
\<close>

end
